(* ===== verification/Host_Prelude.thy ===== *)
theory Host_Prelude
  imports Main "HOL-Library.AList" "HOL-Library.Sublist" "HOL-Library.List_Lexorder"
    "HOL-Library.Char_ord"
begin

text \<open>
  Shared vocabulary of the development. It fixes how the Rust idioms of the plugin host are
  written in HOL, with the generic lemmas the component theories use:
  \<^item> \<open>Result\<close> and the \<open>?\<close> operator: \<open>'e + 'a\<close>, \<open>try_then\<close> and \<open>ensure\<close>;
  \<^item> the \<open>str\<close> methods the sources call (\<open>starts_with\<close>, \<open>strip_prefix\<close>, \<open>find\<close>, \<open>split\<close>,
    \<open>split_once\<close>, \<open>trim_end_matches\<close>), on byte strings;
  \<^item> \<open>HashMap\<close> and \<open>BTreeMap\<close> as association lists: \<open>hm_insert\<close> keeps the position of a key
    (the list order stands for the unspecified iteration order), \<open>bt_insert\<close> keeps keys sorted;
  \<^item> \<open>iter_mut().find(..)\<close> followed by a write: \<open>update_first\<close>;
  \<^item> the collections \<open>str_simps\<close>, \<open>registry_simps\<close> and \<open>chain_simps\<close> the proofs draw on.
\<close>

named_theorems str_simps "characterisations of the string operations"
named_theorems registry_simps "definitions of the registry's record-level helpers"
named_theorems chain_simps "one-step equations of the chain evaluators"

section \<open>Results\<close>

type_synonym ('e, 'a) rresult = "'e + 'a"

text \<open>The \<open>?\<close> operator: an error returns at once, a value is handed on.\<close>

definition try_then :: "('e, 'a) rresult \<Rightarrow> ('a \<Rightarrow> ('e, 'b) rresult) \<Rightarrow> ('e, 'b) rresult" where
  "try_then r f = (case r of Inl e \<Rightarrow> Inl e | Inr a \<Rightarrow> f a)"

text \<open>\<open>if !cond { bail!(e) }\<close>.\<close>

definition ensure :: "bool \<Rightarrow> 'e \<Rightarrow> ('e, unit) rresult" where
  "ensure c e = (if c then Inr () else Inl e)"

lemma try_then_simps [simp]:
  "try_then (Inl e) f = Inl e"
  "try_then (Inr a) f = f a"
  by (simp_all add: try_then_def)

lemma try_then_eq_Inr [simp]:
  "try_then r f = Inr b \<longleftrightarrow> (\<exists>a. r = Inr a \<and> f a = Inr b)"
  by (cases r) auto

lemma try_then_eq_Inl:
  "try_then r f = Inl e \<longleftrightarrow> r = Inl e \<or> (\<exists>a. r = Inr a \<and> f a = Inl e)"
  by (cases r) auto

lemma ensure_eq_Inr [simp]: "ensure c e = Inr u \<longleftrightarrow> c"
  by (cases u) (simp add: ensure_def)

lemma ensure_eq_Inl [simp]: "ensure c e = Inl e' \<longleftrightarrow> \<not> c \<and> e' = e"
  by (auto simp: ensure_def)

lemma ensure_simps [simp]:
  "ensure True e = Inr ()"
  "ensure False e = Inl e"
  by (simp_all add: ensure_def)

definition is_ok :: "('e, 'a) rresult \<Rightarrow> bool" where
  "is_ok r = (case r of Inl _ \<Rightarrow> False | Inr _ \<Rightarrow> True)"

definition is_err :: "('e, 'a) rresult \<Rightarrow> bool" where
  "is_err r = (case r of Inl _ \<Rightarrow> True | Inr _ \<Rightarrow> False)"

lemma is_ok_simps [simp]: "is_ok (Inl e) = False" "is_ok (Inr a) = True"
  by (simp_all add: is_ok_def)

lemma is_err_simps [simp]: "is_err (Inl e) = True" "is_err (Inr a) = False"
  by (simp_all add: is_err_def)

lemma is_err_iff: "is_err r \<longleftrightarrow> (\<exists>e. r = Inl e)"
  by (cases r) auto

definition unwrap_or :: "'a \<Rightarrow> 'a option \<Rightarrow> 'a" where
  "unwrap_or d v = (case v of None \<Rightarrow> d | Some a \<Rightarrow> a)"

lemma unwrap_or_simps [simp]: "unwrap_or d None = d" "unwrap_or d (Some a) = a"
  by (simp_all add: unwrap_or_def)

text \<open>\<open>Option::or_else\<close>, the chained lookups of the registry.\<close>

definition or_else :: "'a option \<Rightarrow> 'a option \<Rightarrow> 'a option" where
  "or_else x y = (case x of None \<Rightarrow> y | Some a \<Rightarrow> Some a)"

lemma or_else_simps [simp]: "or_else None y = y" "or_else (Some a) y = Some a"
  by (simp_all add: or_else_def)

lemma or_else_assoc: "or_else (or_else x y) z = or_else x (or_else y z)"
  by (cases x) simp_all

lemma or_else_eq_None [simp]: "or_else x y = None \<longleftrightarrow> x = None \<and> y = None"
  by (cases x) simp_all

lemma or_else_eq_Some: "or_else x y = Some a \<longleftrightarrow> x = Some a \<or> (x = None \<and> y = Some a)"
  by (cases x) simp_all

section \<open>Strings\<close>

definition starts_with :: "string \<Rightarrow> string \<Rightarrow> bool" where
  "starts_with s p = prefix p s"

definition ends_with :: "string \<Rightarrow> string \<Rightarrow> bool" where
  "ends_with s p = suffix p s"

fun strip_prefix_str :: "string \<Rightarrow> string \<Rightarrow> string option" where
  "strip_prefix_str s [] = Some s"
| "strip_prefix_str [] (p # ps) = None"
| "strip_prefix_str (c # s) (p # ps) = (if c = p then strip_prefix_str s ps else None)"

text \<open>\<open>str::find\<close> of a substring: the text after its first occurrence, with the text before.\<close>

fun split_at_str :: "string \<Rightarrow> string \<Rightarrow> (string \<times> string) option" where
  "split_at_str [] p = (if p = [] then Some ([], []) else None)"
| "split_at_str (c # s) p =
     (case strip_prefix_str (c # s) p of
        Some r \<Rightarrow> Some ([], r)
      | None \<Rightarrow> (case split_at_str s p of None \<Rightarrow> None | Some (a, r) \<Rightarrow> Some (c # a, r)))"

definition contains_str :: "string \<Rightarrow> string \<Rightarrow> bool" where
  "contains_str s p = (split_at_str s p \<noteq> None)"

text \<open>\<open>str::split\<close> on one character; the result is never empty.\<close>

fun split_char :: "char \<Rightarrow> string \<Rightarrow> string list" where
  "split_char d [] = [[]]"
| "split_char d (c # s) =
     (if c = d then [] # split_char d s
      else (case split_char d s of [] \<Rightarrow> [[c]] | w # ws \<Rightarrow> (c # w) # ws))"

text \<open>\<open>str::split_once\<close> on one character.\<close>

fun split_once_char :: "char \<Rightarrow> string \<Rightarrow> (string \<times> string) option" where
  "split_once_char d [] = None"
| "split_once_char d (c # s) =
     (if c = d then Some ([], s)
      else (case split_once_char d s of None \<Rightarrow> None | Some (a, b) \<Rightarrow> Some (c # a, b)))"

definition trim_end_matches :: "char \<Rightarrow> string \<Rightarrow> string" where
  "trim_end_matches d s = rev (dropWhile (\<lambda>c. c = d) (rev s))"

fun join_str :: "string \<Rightarrow> string list \<Rightarrow> string" where
  "join_str sep [] = []"
| "join_str sep [w] = w"
| "join_str sep (w # v # ws) = w @ sep @ join_str sep (v # ws)"

lemma starts_with_Nil [simp]: "starts_with s []"
  by (simp add: starts_with_def)

lemma starts_with_code [code]: "starts_with s p = (take (length p) s = p)"
  unfolding starts_with_def by (metis append_eq_conv_conj prefix_def take_is_prefix)

lemma strip_prefix_str_Some [str_simps]: "strip_prefix_str s p = Some r \<longleftrightarrow> s = p @ r"
  by (induction s p rule: strip_prefix_str.induct) auto

lemma strip_prefix_str_None: "strip_prefix_str s p = None \<longleftrightarrow> \<not> starts_with s p"
  by (induction s p rule: strip_prefix_str.induct) (auto simp: starts_with_def)

lemma split_at_str_Some: "split_at_str s p = Some (a, r) \<Longrightarrow> s = a @ p @ r"
  by (induction s p arbitrary: a r rule: split_at_str.induct)
    (auto simp: strip_prefix_str_Some split: option.splits if_splits prod.splits)

text \<open>\<open>split_at_str\<close> finds the leftmost occurrence: no other occurrence starts earlier.\<close>

lemma split_at_str_leftmost:
  "s = b @ p @ q \<Longrightarrow> \<exists>a r. split_at_str s p = Some (a, r) \<and> length a \<le> length b"
proof (induction s p arbitrary: b rule: split_at_str.induct)
  case (1 p)
  then show ?case by simp
next
  case (2 c s p)
  show ?case
  proof (cases "strip_prefix_str (c # s) p")
    case (Some r)
    then show ?thesis by simp
  next
    case None
    with "2.prems" have "b \<noteq> []"
      by (auto simp: strip_prefix_str_None starts_with_def)
    with "2.prems" obtain b' where "b = c # b'" and s: "s = b' @ p @ q"
      by (cases b) auto
    with "2.IH" [OF None s] None show ?thesis by auto
  qed
qed

lemma contains_str_iff [str_simps]: "contains_str s p \<longleftrightarrow> (\<exists>a r. s = a @ p @ r)"
  unfolding contains_str_def
  using split_at_str_Some split_at_str_leftmost by (metis not_None_eq surj_pair)

lemma split_char_nonempty [simp]: "split_char d s \<noteq> []"
  by (induction s) (auto split: list.splits)

lemma join_split_char: "join_str [d] (split_char d s) = s"
proof (induction s)
  case (Cons c s)
  then show ?case
    by (cases "split_char d s") (auto, (metis append_Cons join_str.elims join_str.simps(2,3) neq_Nil_conv)+)
qed simp

section \<open>Ordered and hashed maps\<close>

type_synonym ('k, 'v) hmap = "('k \<times> 'v) list"
type_synonym ('k, 'v) bmap = "('k \<times> 'v) list"

definition hm_insert :: "'k \<Rightarrow> 'v \<Rightarrow> ('k, 'v) hmap \<Rightarrow> ('k, 'v) hmap" where
  "hm_insert k v m = AList.update k v m"

fun bt_insert :: "'k::linorder \<Rightarrow> 'v \<Rightarrow> ('k, 'v) bmap \<Rightarrow> ('k, 'v) bmap" where
  "bt_insert k v [] = [(k, v)]"
| "bt_insert k v ((k', v') # m) =
     (if k = k' then (k, v) # m
      else if k < k' then (k, v) # (k', v') # m
      else (k', v') # bt_insert k v m)"

lemma map_of_hm_insert [simp]: "map_of (hm_insert k v m) = (map_of m)(k \<mapsto> v)"
  by (simp add: hm_insert_def update_conv')

lemma map_of_bt_insert [simp]: "map_of (bt_insert k v m) = (map_of m)(k \<mapsto> v)"
  by (induction m) auto

lemma fst_bt_insert [simp]: "fst ` set (bt_insert k v m) = insert k (fst ` set m)"
proof (induction m)
  case (Cons e m)
  then show ?case by (cases e) (simp add: insert_commute)
qed simp

text \<open>A key that is not there: the insertion adds one entry and keeps the rest.\<close>

lemma hm_insert_fresh: "map_of m k = None \<Longrightarrow> hm_insert k v m = m @ [(k, v)]"
  by (induction m) (auto simp: hm_insert_def split: if_splits)

lemma bt_insert_fresh:
  "map_of m k = None \<Longrightarrow>
    \<exists>xs ys. m = xs @ ys \<and> bt_insert k v m = xs @ (k, v) # ys"
proof (induction m)
  case (Cons e m)
  obtain k' v' where e: "e = (k', v')" by (cases e)
  show ?case
  proof (cases "k < k'")
    case True
    with Cons.prems e have "bt_insert k v (e # m) = [] @ (k, v) # (e # m)" by auto
    then show ?thesis by blast
  next
    case False
    from Cons obtain xs ys where "m = xs @ ys" "bt_insert k v m = xs @ (k, v) # ys"
      by (auto split: if_splits)
    with False Cons.prems e have "e # m = (e # xs) @ ys \<and> bt_insert k v (e # m) = (e # xs) @ (k, v) # ys"
      by (auto split: if_splits)
    then show ?thesis by blast
  qed
qed simp

lemma bt_insert_sorted:
  "sorted (map fst m) \<Longrightarrow> distinct (map fst m) \<Longrightarrow>
    sorted (map fst (bt_insert k v m)) \<and> distinct (map fst (bt_insert k v m))"
proof (induction m)
  case (Cons e m)
  obtain k' v' where e: "e = (k', v')" by (cases e)
  have "set (map fst (bt_insert k v m)) = insert k (set (map fst m))" by simp
  with Cons e show ?case by (auto simp: less_imp_le)
qed simp

section \<open>Lists\<close>

text \<open>\<open>iter_mut().find(P)\<close> and a write through the reference.\<close>

fun update_first :: "('a \<Rightarrow> bool) \<Rightarrow> ('a \<Rightarrow> 'a) \<Rightarrow> 'a list \<Rightarrow> 'a list" where
  "update_first P f [] = []"
| "update_first P f (x # xs) = (if P x then f x # xs else x # update_first P f xs)"

lemma update_first_id: "find P xs = None \<Longrightarrow> update_first P f xs = xs"
  by (induction xs) (auto split: if_splits)

lemma update_first_split:
  "find P xs = Some x \<Longrightarrow>
    \<exists>us vs. xs = us @ x # vs \<and> (\<forall>u \<in> set us. \<not> P u) \<and> P x \<and> update_first P f xs = us @ f x # vs"
proof (induction xs)
  case (Cons y ys)
  show ?case
  proof (cases "P y")
    case True
    with Cons.prems have "y # ys = [] @ x # ys \<and> (\<forall>u \<in> set []. \<not> P u) \<and> P x
        \<and> update_first P f (y # ys) = [] @ f x # ys" by simp
    then show ?thesis by blast
  next
    case False
    with Cons obtain us vs where "ys = us @ x # vs" "\<forall>u \<in> set us. \<not> P u" "P x"
        "update_first P f ys = us @ f x # vs" by auto
    with False show ?thesis by (intro exI[of _ "y # us"] exI[of _ vs]) auto
  qed
qed simp

lemma length_update_first [simp]: "length (update_first P f xs) = length xs"
  by (induction xs) auto

text \<open>A projection that the write does not change is unchanged on the whole list.\<close>

lemma map_update_first [simp]:
  "(\<And>x. g (f x) = g x) \<Longrightarrow> map g (update_first P f xs) = map g xs"
  by (induction xs) auto

lemma find_SomeD: "find P xs = Some x \<Longrightarrow> x \<in> set xs \<and> P x"
  by (induction xs) (auto split: if_splits)

lemma find_None_iff: "find P xs = None \<longleftrightarrow> (\<forall>x \<in> set xs. \<not> P x)"
  by (induction xs) auto

lemma find_update_first:
  "(\<And>x. P (f x) = P x) \<Longrightarrow>
    find P (update_first P f xs) = map_option f (find P xs)"
  by (induction xs) auto

lemma find_update_first_other:
  "(\<And>x. P x \<Longrightarrow> Q (f x) = Q x) \<Longrightarrow> (\<And>x. P x \<Longrightarrow> \<not> Q x) \<Longrightarrow>
    find Q (update_first P f xs) = find Q xs"
  by (induction xs) auto

lemma find_append: "find P (xs @ ys) = or_else (find P xs) (find P ys)"
  by (induction xs) auto

lemma find_map: "find P (map f xs) = map_option f (find (P \<circ> f) xs)"
  by (induction xs) auto

end
