(* ===== verification/Json.thy ===== *)
theory Json
  imports Host_Prelude "HOL-Library.Word"
begin

text \<open>
  \<open>serde_json::Value\<close> as the sources use it: the constructors, the \<open>Map\<close> (keys sorted, as the
  crate's default \<open>BTreeMap\<close> representation), \<open>get\<close> and \<open>as_str\<close>, and the JSON helpers of
  \<open>registry.rs\<close>: \<open>merge_json_objects\<close> and \<open>config_with_client_ip\<close>.
\<close>

datatype json =
    JNull
  | JBool bool
  | JNumber int
  | JString string
  | JArray "json list"
  | JObject "(string \<times> json) list"

type_synonym json_map = "(string, json) bmap"

fun json_get :: "json \<Rightarrow> string \<Rightarrow> json option" where
  "json_get (JObject m) k = map_of m k"
| "json_get _ k = None"

fun json_as_str :: "json \<Rightarrow> string option" where
  "json_as_str (JString s) = Some s"
| "json_as_str _ = None"

text \<open>The \<open>json!\<close> macro on an object literal: keys inserted one after the other.\<close>

definition json_obj :: "(string \<times> json) list \<Rightarrow> json" where
  "json_obj kvs = JObject (fold (\<lambda>(k, v) m. bt_insert k v m) kvs [])"

definition json_opt_str :: "string option \<Rightarrow> json" where
  "json_opt_str v = (case v of None \<Rightarrow> JNull | Some s \<Rightarrow> JString s)"

definition json_opt :: "json option \<Rightarrow> json" where
  "json_opt v = (case v of None \<Rightarrow> JNull | Some j \<Rightarrow> j)"

text \<open>Both objects: the keys of \<open>b\<close> are inserted into \<open>a\<close> in order; otherwise \<open>b\<close> replaces \<open>a\<close>.\<close>

fun merge_json_objects :: "json \<Rightarrow> json \<Rightarrow> json" where
  "merge_json_objects (JObject a) (JObject b) = JObject (fold (\<lambda>(k, v) m. bt_insert k v m) b a)"
| "merge_json_objects a b = b"

text \<open>The caller's address is given in its textual form (\<open>ip.to_string()\<close>).\<close>

fun config_with_client_ip :: "json \<Rightarrow> string \<Rightarrow> json" where
  "config_with_client_ip (JObject m) ip = JObject (bt_insert ''_client_ip'' (JString ip) m)"
| "config_with_client_ip JNull ip = json_obj [(''_client_ip'', JString ip)]"
| "config_with_client_ip other ip = other"

lemma map_of_fold_bt_insert:
  "map_of (fold (\<lambda>(k, v) m. bt_insert k v m) kvs m) = map_of m ++ map_of (rev kvs)"
proof (induction kvs arbitrary: m)
  case (Cons e kvs)
  then show ?case by (cases e) (simp add: fun_eq_iff map_add_def split: option.splits)
qed simp

lemma map_of_rev_distinct: "distinct (map fst kvs) \<Longrightarrow> map_of (rev kvs) = map_of kvs"
  by (rule map_of_eqI) (auto simp: rev_map [symmetric])

text \<open>On objects the merge is the right-biased union of the two maps.\<close>

lemma json_get_merge:
  "distinct (map fst b) \<Longrightarrow>
    json_get (merge_json_objects (JObject a) (JObject b)) k =
      (case map_of b k of Some v \<Rightarrow> Some v | None \<Rightarrow> map_of a k)"
  by (simp add: map_of_fold_bt_insert map_of_rev_distinct map_add_def)

lemma json_get_obj: "json_get (json_obj kvs) k = map_of (rev kvs) k"
  by (simp add: json_obj_def map_of_fold_bt_insert)

end
