(* ===== verification/Protocol.thy ===== *)
theory Protocol
  imports Json
begin

text \<open>
  The types of the plugin protocol crate that the host's code reads and writes, and the plugin
  objects it calls. The crate itself is not part of this repository: its data types appear with
  the constructors and fields the host names, and its trait objects are records of functions that
  the theorems leave arbitrary.

  A call into a plugin is a future. Everything outside the host (plugins, sinks, the network, the
  clock) is a world of type \<open>'w\<close> that a call may change: \<open>await\<close> runs a future to completion and
  \<open>await_within n\<close> runs it under \<open>tokio::time::timeout\<close> with a budget of \<open>n\<close> milliseconds
  (\<open>None\<close> when the budget elapsed first).
\<close>

section \<open>Futures\<close>

record ('w, 'a) fut =
  await :: "'w \<Rightarrow> 'a \<times> 'w"
  await_within :: "nat \<Rightarrow> 'w \<Rightarrow> 'a option \<times> 'w"

definition fut_map :: "('a \<Rightarrow> 'b) \<Rightarrow> ('w, 'a) fut \<Rightarrow> ('w, 'b) fut" where
  "fut_map f x = \<lparr>await = (\<lambda>w. let (a, w') = await x w in (f a, w')),
                  await_within = (\<lambda>n w. let (a, w') = await_within x n w in (map_option f a, w'))\<rparr>"

text \<open>An \<open>async fn\<close> with an empty body.\<close>

definition fut_unit :: "('w, unit) fut" where
  "fut_unit = \<lparr>await = (\<lambda>w. ((), w)), await_within = (\<lambda>n w. (Some (), w))\<rparr>"

section \<open>Identities, contexts, manifests\<close>

record identity =
  id_kind :: string
  id_trust_level :: string
  id_subject_id :: "string option"
  id_auth_provider :: "string option"
  id_issuer :: "string option"
  id_roles :: "string list"
  id_groups :: "string list"
  id_scopes :: "string list"
  id_attributes :: "(string, string) bmap"

record plugin_context =
  cx_request_id :: string
  cx_session_id :: "string option"
  cx_tool_name :: string
  cx_surface :: string
  cx_transport :: string
  cx_identity :: identity

text \<open>A capability is the variant the host matches on, or any other variant by name and arguments.\<close>

datatype capability = HttpRouteServe | OtherCapability string json

record manifest =
  m_id :: string
  m_version :: string
  m_name :: string
  m_plugin_class :: string
  m_protocol_version :: string
  m_required_capabilities :: "capability list"
  m_provides :: "string list"
  m_provides_schemes :: "string list"
  m_module_path_prefix :: string
  m_backend_profile :: "json option"

section \<open>Decisions\<close>

datatype gate_decision =
    Allow (allow_metadata: "json option") (allow_arguments: "json option") (allow_result: "json option")
  | Deny int int string "json option"
  | Challenge int int string json
  | PendingApproval string string string "string list"

datatype transform_result =
    Unchanged
  | Modified json
  | TransformError string

datatype identity_resolution =
    IdResolved identity
  | IdNone
  | IdInvalid string "(string \<times> string) list"

datatype policy_effect = EffAllow | EffDeny | EffNotApplicable

record policy_decision =
  pd_effect :: policy_effect
  pd_reason :: "string option"
  pd_policy_version :: string

section \<open>Audit events\<close>

datatype audit_outcome = Success | Denied | Partial | Failure

record audit_event =
  ev_event_id :: string
  ev_occurred_at :: string
  ev_actor :: identity
  ev_action :: string
  ev_resource :: "string option"
  ev_outcome :: audit_outcome
  ev_request_id :: "string option"
  ev_upstream_request_id :: "string option"
  ev_node_id :: "string option"
  ev_details :: json
  ev_prev_event_hash :: "string option"

datatype audit_error = AuditClosed | AuditWriteFailed string | AuditTimeout | OtherAuditError string

type_synonym audit_receipt = json

section \<open>Routes\<close>

record route_spec =
  rt_method :: string
  rt_path :: string
  rt_requires_identity :: bool
  rt_max_body_bytes :: "nat option"

section \<open>Plugin objects\<close>

record 'w tool_gate_plugin =
  tg_manifest :: manifest
  tg_evaluate_pre_dispatch ::
    "plugin_context \<Rightarrow> json \<Rightarrow> json option \<Rightarrow> json \<Rightarrow> ('w, gate_decision) fut"
  tg_evaluate_post_dispatch ::
    "plugin_context \<Rightarrow> json \<Rightarrow> json \<Rightarrow> nat \<Rightarrow> json \<Rightarrow> ('w, gate_decision) fut"
  tg_shutdown :: "('w, unit) fut"

record 'w transform_plugin =
  tf_manifest :: manifest
  tf_transform_arguments :: "plugin_context \<Rightarrow> json \<Rightarrow> json \<Rightarrow> ('w, transform_result) fut"
  tf_transform_result :: "plugin_context \<Rightarrow> json \<Rightarrow> json \<Rightarrow> ('w, transform_result) fut"
  tf_shutdown :: "('w, unit) fut"

type_synonym request_metadata = json

record 'w identity_plugin =
  ip_manifest :: manifest
  ip_resolve_identity ::
    "(string \<times> string) list \<Rightarrow> request_metadata \<Rightarrow> json \<Rightarrow> ('w, identity_resolution) fut"
  ip_shutdown :: "('w, unit) fut"

text \<open>
  Plugins the registry stores and hands out without calling anything but their declarations and
  \<open>shutdown\<close> (backends, content stores, watch strategies, stores, caches, transports, routes,
  notifiers, issuers, catalog providers, the cluster backend). \<open>po_name\<close> is their \<open>kind()\<close> or
  \<open>name()\<close>, \<open>po_names\<close> their \<open>supported_*()\<close> list, \<open>po_object\<close> tells objects apart.
\<close>

record 'w plugin_object =
  po_manifest :: manifest
  po_object :: nat
  po_name :: string
  po_names :: "string list"
  po_serves_any :: bool
  po_routes :: "route_spec list"
  po_shutdown :: "('w, unit) fut"

record 'w audit_sink =
  as_manifest :: manifest
  as_emit :: "audit_event \<Rightarrow> ('w, audit_error + audit_receipt) fut"
  as_flush :: "nat \<Rightarrow> ('w, audit_error + unit) fut"
  as_shutdown :: "('w, unit) fut"

text \<open>
  Telemetry, log and metrics sinks: one entry point per event kind, and \<open>flush\<close>. Their error types have
  the same variants.
\<close>

datatype sink_error = SinkBackend string | SinkTimeout | OtherSinkError string

record 'w event_sink =
  es_manifest :: manifest
  es_event :: "string \<Rightarrow> json \<Rightarrow> ('w, unit) fut"
  es_render :: "('w, string option) fut"
  es_flush :: "nat \<Rightarrow> ('w, sink_error + unit) fut"
  es_shutdown :: "('w, unit) fut"

text \<open>Secret and config providers: \<open>sp_fetch\<close> is \<open>get\<close>, which yields the bytes of a secret, or \<open>snapshot\<close>,
  which yields a configuration value.\<close>

datatype fetch_error = InvalidReference string | UnsupportedScheme string | FetchBackend string | OtherFetchError string

record ('w, 'v) scheme_provider =
  sp_manifest :: manifest
  sp_supported_schemes :: "string list"
  sp_fetch :: "string \<Rightarrow> ('w, fetch_error + 'v) fut"
  sp_shutdown :: "('w, unit) fut"

record 'w policy_engine =
  pe_manifest :: manifest
  pe_name :: string
  pe_evaluate :: "string \<Rightarrow> json \<Rightarrow> plugin_context \<Rightarrow> ('w, policy_decision) fut"
  pe_shutdown :: "('w, unit) fut"

section \<open>The protocol's own functions and constants\<close>

text \<open>
  What the host calls of the protocol crate, of the hash and clock libraries and of the id
  generator: parameters of every definition that uses them.
\<close>

record 'w host_env =
  clock_ms :: "'w \<Rightarrow> nat"
  gate_allow :: gate_decision
  policy_not_applicable :: "string \<Rightarrow> policy_decision"
  cap_kind :: "capability \<Rightarrow> string"
  panic_deny_code :: int
  panic_transform_msg :: string
  panic_identity_msg :: string
  default_request_metadata :: request_metadata
  mint_event :: "'w \<Rightarrow> (string \<times> string) \<times> 'w"
  keyed_blake3_hex :: "string \<Rightarrow> string \<Rightarrow> string"
  blake3_hex :: "string \<Rightarrow> string"
  json_to_bytes :: "json \<Rightarrow> string"
  with_upstream :: "audit_event \<Rightarrow> string option \<Rightarrow> audit_event"

end
