(* ===== verification/Lifecycle.thy ===== *)
theory Lifecycle
  imports Host_Prelude "HOL-Library.Word"
begin

text \<open>
  The lifecycle state machine of \<open>src/src/lifecycle.rs\<close>: the states with their \<open>u8\<close> codes, the
  atomic state cell, the transition table and the operations of \<open>Lifecycle\<close>. The lemmas show the
  code table is a bijection onto the bytes 0..13 (so the \<open>expect\<close> of the cell's \<open>load\<close> never
  fires), that each operation follows the table, and what can be reached from where.
\<close>

section \<open>States\<close>

datatype plugin_state =
    Discovered | Installed | Verified | Compatible | Configured | Enabled | Initialized
  | Active | Degraded | Disabled | Unloaded | Rejected | Failed | Draining

definition all_states :: "plugin_state list" where
  "all_states = [Discovered, Installed, Verified, Compatible, Configured, Enabled, Initialized,
     Active, Degraded, Disabled, Unloaded, Rejected, Failed, Draining]"

text \<open>\<open>state as u8\<close>: the discriminants of the \<open>#[repr(u8)]\<close> enum.\<close>

fun state_as_u8 :: "plugin_state \<Rightarrow> 8 word" where
  "state_as_u8 Discovered = 0"
| "state_as_u8 Installed = 1"
| "state_as_u8 Verified = 2"
| "state_as_u8 Compatible = 3"
| "state_as_u8 Configured = 4"
| "state_as_u8 Enabled = 5"
| "state_as_u8 Initialized = 6"
| "state_as_u8 Active = 7"
| "state_as_u8 Degraded = 8"
| "state_as_u8 Disabled = 9"
| "state_as_u8 Unloaded = 10"
| "state_as_u8 Rejected = 11"
| "state_as_u8 Failed = 12"
| "state_as_u8 Draining = 13"

definition from_u8 :: "8 word \<Rightarrow> plugin_state option" where
  "from_u8 v =
     (if v = 0 then Some Discovered
      else if v = 1 then Some Installed
      else if v = 2 then Some Verified
      else if v = 3 then Some Compatible
      else if v = 4 then Some Configured
      else if v = 5 then Some Enabled
      else if v = 6 then Some Initialized
      else if v = 7 then Some Active
      else if v = 8 then Some Degraded
      else if v = 9 then Some Disabled
      else if v = 10 then Some Unloaded
      else if v = 11 then Some Rejected
      else if v = 12 then Some Failed
      else if v = 13 then Some Draining
      else None)"

fun is_terminal :: "plugin_state \<Rightarrow> bool" where
  "is_terminal Rejected = True"
| "is_terminal Failed = True"
| "is_terminal _ = False"

fun serves_traffic :: "plugin_state \<Rightarrow> bool" where
  "serves_traffic Active = True"
| "serves_traffic Degraded = True"
| "serves_traffic _ = False"

fun state_as_str :: "plugin_state \<Rightarrow> string" where
  "state_as_str Discovered = ''discovered''"
| "state_as_str Installed = ''installed''"
| "state_as_str Verified = ''verified''"
| "state_as_str Compatible = ''compatible''"
| "state_as_str Configured = ''configured''"
| "state_as_str Enabled = ''enabled''"
| "state_as_str Initialized = ''initialized''"
| "state_as_str Active = ''active''"
| "state_as_str Degraded = ''degraded''"
| "state_as_str Disabled = ''disabled''"
| "state_as_str Unloaded = ''unloaded''"
| "state_as_str Rejected = ''rejected''"
| "state_as_str Failed = ''failed''"
| "state_as_str Draining = ''draining''"

section \<open>The atomic state cell\<close>

text \<open>
  \<open>AtomicPluginState\<close> wraps an \<open>AtomicU8\<close>; a load, a store and \<open>new\<close> are single atomic accesses.
  \<open>cell_load\<close> is \<open>None\<close> where the \<open>expect\<close> of the source would panic.
\<close>

type_synonym atomic_plugin_state = "8 word"

definition cell_new :: "plugin_state \<Rightarrow> atomic_plugin_state" where
  "cell_new s = state_as_u8 s"

definition cell_load :: "atomic_plugin_state \<Rightarrow> plugin_state option" where
  "cell_load c = from_u8 c"

definition cell_store :: "atomic_plugin_state \<Rightarrow> plugin_state \<Rightarrow> atomic_plugin_state" where
  "cell_store c s = state_as_u8 s"

definition cell_serves_traffic :: "atomic_plugin_state \<Rightarrow> bool option" where
  "cell_serves_traffic c = map_option serves_traffic (cell_load c)"

section \<open>Transitions\<close>

fun transition_allowed :: "plugin_state \<Rightarrow> plugin_state \<Rightarrow> bool" where
  "transition_allowed from to =
     ((from, to) \<in> {(Discovered, Installed), (Installed, Verified), (Verified, Compatible),
         (Compatible, Configured), (Configured, Enabled), (Enabled, Initialized),
         (Initialized, Active)}
      \<or> (from \<in> {Active, Degraded, Initialized} \<and> to = Disabled)
      \<or> (from = Disabled \<and> to = Enabled)
      \<or> (from, to) \<in> {(Active, Degraded), (Degraded, Active)}
      \<or> (from \<in> {Active, Degraded} \<and> to = Draining)
      \<or> (from, to) \<in> {(Draining, Disabled), (Draining, Active)}
      \<or> (from \<in> {Installed, Verified, Compatible, Configured} \<and> to = Rejected)
      \<or> (from \<in> {Enabled, Initialized, Active, Degraded, Draining, Configured, Compatible,
                   Verified, Installed} \<and> to = Failed)
      \<or> (from \<in> {Installed, Verified, Compatible, Configured, Enabled, Initialized, Active,
                   Degraded, Draining, Disabled, Failed, Rejected} \<and> to = Unloaded)
      \<or> (from = Unloaded \<and> to = Discovered))"

datatype lifecycle_error =
    InvalidTransition plugin_state plugin_state
  | Terminal plugin_state

record lifecycle =
  lc_plugin_id :: string
  lc_state :: plugin_state

definition lifecycle_new :: "string \<Rightarrow> lifecycle" where
  "lifecycle_new i = \<lparr>lc_plugin_id = i, lc_state = Discovered\<rparr>"

definition can_transition :: "lifecycle \<Rightarrow> plugin_state \<Rightarrow> bool" where
  "can_transition l to = transition_allowed (lc_state l) to"

text \<open>The value is the previous state together with the updated lifecycle.\<close>

definition transition ::
  "lifecycle \<Rightarrow> plugin_state \<Rightarrow> (lifecycle_error, plugin_state \<times> lifecycle) rresult" where
  "transition l to =
     (if \<not> transition_allowed (lc_state l) to
      then Inl (InvalidTransition (lc_state l) to)
      else Inr (lc_state l, l\<lparr>lc_state := to\<rparr>))"

fun next_canonical :: "plugin_state \<Rightarrow> plugin_state option" where
  "next_canonical Discovered = Some Installed"
| "next_canonical Installed = Some Verified"
| "next_canonical Verified = Some Compatible"
| "next_canonical Compatible = Some Configured"
| "next_canonical Configured = Some Enabled"
| "next_canonical Enabled = Some Initialized"
| "next_canonical Initialized = Some Active"
| "next_canonical _ = None"

definition advance :: "lifecycle \<Rightarrow> (lifecycle_error, plugin_state \<times> lifecycle) rresult" where
  "advance l =
     (case next_canonical (lc_state l) of
        None \<Rightarrow> Inl (InvalidTransition (lc_state l) (lc_state l))
      | Some next \<Rightarrow> transition l next)"

definition fail :: "lifecycle \<Rightarrow> (lifecycle_error, plugin_state \<times> lifecycle) rresult" where
  "fail l = transition l Failed"

definition reject :: "lifecycle \<Rightarrow> (lifecycle_error, plugin_state \<times> lifecycle) rresult" where
  "reject l = transition l Rejected"

section \<open>Runs of transitions\<close>

text \<open>A run of successful \<open>transition\<close> calls, as an inductive relation on the state.\<close>

inductive lc_steps :: "plugin_state \<Rightarrow> plugin_state list \<Rightarrow> plugin_state \<Rightarrow> bool" where
  lc_done: "lc_steps s [] s"
| lc_step: "transition_allowed s t \<Longrightarrow> lc_steps t ts u \<Longrightarrow> lc_steps s (t # ts) u"

inductive_cases lc_steps_NilE [elim!]: "lc_steps s [] u"
inductive_cases lc_steps_ConsE [elim!]: "lc_steps s (t # ts) u"

inductive_simps lc_steps_simps [simp]:
  "lc_steps s [] u"
  "lc_steps s (t # ts) u"

instantiation plugin_state :: enum
begin

definition enum_plugin_state :: "plugin_state list" where
  "enum_plugin_state = all_states"

definition enum_all_plugin_state :: "(plugin_state \<Rightarrow> bool) \<Rightarrow> bool" where
  "enum_all_plugin_state P = list_all P all_states"

definition enum_ex_plugin_state :: "(plugin_state \<Rightarrow> bool) \<Rightarrow> bool" where
  "enum_ex_plugin_state P = list_ex P all_states"

instance
proof
  have U: "UNIV = set all_states"
  proof (rule set_eqI)
    fix s :: plugin_state
    show "s \<in> UNIV \<longleftrightarrow> s \<in> set all_states" by (cases s) (simp_all add: all_states_def)
  qed
  show "UNIV = set (enum_class.enum :: plugin_state list)"
    by (simp add: enum_plugin_state_def U)
  show "distinct (enum_class.enum :: plugin_state list)"
    by (simp add: enum_plugin_state_def all_states_def)
  fix P :: "plugin_state \<Rightarrow> bool"
  show "enum_class.enum_all P \<longleftrightarrow> Ball UNIV P"
    by (simp add: enum_all_plugin_state_def list_all_iff U)
  show "enum_class.enum_ex P \<longleftrightarrow> Bex UNIV P"
    by (simp add: enum_ex_plugin_state_def list_ex_iff U)
qed

end

section \<open>Codes and labels\<close>

lemma from_u8_as_u8 [simp]: "from_u8 (state_as_u8 s) = Some s"
  by (cases s) (simp_all add: from_u8_def)

lemma as_u8_from_u8: "from_u8 v = Some s \<Longrightarrow> state_as_u8 s = v"
  by (auto simp: from_u8_def split: if_splits)

lemma cell_load_new [simp]: "cell_load (cell_new s) = Some s"
  by (simp add: cell_load_def cell_new_def)

lemma cell_load_store [simp]: "cell_load (cell_store c s) = Some s"
  by (simp add: cell_load_def cell_store_def)

lemma state_as_str_inj: "state_as_str s = state_as_str t \<longleftrightarrow> s = t"
  by (cases s; cases t) simp_all

section \<open>Facts on the table\<close>

lemma no_self_loop: "\<not> transition_allowed s s"
  by (cases s) simp_all

lemma transition_Inr_iff:
  "transition l to = Inr (p, l') \<longleftrightarrow>
    transition_allowed (lc_state l) to \<and> p = lc_state l \<and> l' = l\<lparr>lc_state := to\<rparr>"
  by (auto simp: transition_def)

lemma advance_allowed: "next_canonical s = Some t \<Longrightarrow> transition_allowed s t"
  by (cases s) simp_all

lemma leave_terminal: "is_terminal s \<Longrightarrow> transition_allowed s t \<Longrightarrow> t = Unloaded"
  by (cases s; cases t) simp_all

lemma leave_unloaded: "transition_allowed Unloaded t \<Longrightarrow> t = Discovered"
  by (cases t) simp_all

lemma enter_serving:
  "transition_allowed s t \<Longrightarrow> serves_traffic t \<Longrightarrow> \<not> serves_traffic s \<Longrightarrow> s \<in> {Initialized, Draining}"
  by (cases s; cases t) simp_all

section \<open>Runs\<close>

lemma lc_steps_append: "lc_steps s ts t \<Longrightarrow> lc_steps t us u \<Longrightarrow> lc_steps s (ts @ us) u"
  by (induction rule: lc_steps.induct) auto

text \<open>A run that leaves a set of states with a single exit passes through that exit.\<close>

definition only_exit :: "plugin_state list \<Rightarrow> plugin_state \<Rightarrow> bool" where
  "only_exit A x = list_all (\<lambda>s. list_all (\<lambda>t. transition_allowed s t \<longrightarrow> t \<in> set A \<or> t = x) all_states) A"

lemma in_all_states [simp]: "s \<in> set all_states"
  by (cases s) (simp_all add: all_states_def)

lemma lc_steps_through_exit:
  assumes "lc_steps s ts u" and "only_exit A x" and "s \<in> set A" and "u \<notin> set A"
  shows "\<exists>us vs. ts = us @ x # vs \<and> lc_steps x vs u"
  using assms
proof (induction rule: lc_steps.induct)
  case (lc_step s t ts u)
  show ?case
  proof (cases "t = x")
    case True
    with lc_step.hyps show ?thesis by (metis append_Nil)
  next
    case False
    from lc_step.prems(1,2) lc_step.hyps(1) False have "t \<in> set A"
      unfolding only_exit_def list_all_iff using in_all_states by blast
    with lc_step obtain us vs where "ts = us @ x # vs" "lc_steps x vs u" by blast
    then show ?thesis by (metis append_Cons)
  qed
qed simp

text \<open>Chaining exits: each set contains the exit of the one before.\<close>

fun exit_chain :: "plugin_state list \<Rightarrow> (plugin_state \<times> plugin_state list) list \<Rightarrow> bool" where
  "exit_chain A [] = True"
| "exit_chain A ((x, B) # xs) = (only_exit A x \<and> x \<in> set B \<and> set A \<subseteq> set B \<and> exit_chain B xs)"

lemma lc_steps_exit_chain:
  assumes "exit_chain A xs" and "lc_steps s ts u" and "s \<in> set A"
    and "u \<notin> set (last (A # map snd (butlast xs)))"
  shows "subseq (map fst xs) ts"
  using assms
proof (induction A xs arbitrary: s ts rule: exit_chain.induct)
  case (2 A x B xs)
  have mono: "exit_chain B xs \<Longrightarrow> set B \<subseteq> set (last (B # map snd (butlast xs)))" for B xs
  proof (induction B xs rule: exit_chain.induct)
    case (2 B y C ys)
    then show ?case by (cases ys) auto
  qed simp
  from "2.prems"(1,4) mono [of A "(x, B) # xs"] have "u \<notin> set A" by blast
  with "2.prems" obtain us vs where ts: "ts = us @ x # vs" and vs: "lc_steps x vs u"
    using lc_steps_through_exit by fastforce
  have "subseq (map fst xs) vs"
  proof (cases xs)
    case (Cons y ys)
    with "2.prems" show ?thesis by (intro "2.IH" [OF _ vs]) (auto split: if_splits)
  qed simp
  then have "subseq (x # map fst xs) (us @ x # vs)" by (intro list_emb_append2) simp
  with ts show ?case by simp
qed simp

definition revival_exits :: "(plugin_state \<times> plugin_state list) list" where
  "revival_exits =
     [(Unloaded, [Rejected, Failed, Unloaded]),
      (Discovered, [Rejected, Failed, Unloaded, Discovered]),
      (Installed, [Rejected, Failed, Unloaded, Discovered, Installed]),
      (Verified, [Rejected, Failed, Unloaded, Discovered, Installed, Verified]),
      (Compatible, [Rejected, Failed, Unloaded, Discovered, Installed, Verified, Compatible]),
      (Configured, [Rejected, Failed, Unloaded, Discovered, Installed, Verified, Compatible, Configured]),
      (Enabled, [Rejected, Failed, Unloaded, Discovered, Installed, Verified, Compatible, Configured, Enabled]),
      (Initialized, [Rejected, Failed, Unloaded, Discovered, Installed, Verified, Compatible, Configured,
         Enabled, Initialized, Disabled]),
      (Active, all_states)]"

lemma revival_exit_chain: "exit_chain [Rejected, Failed] revival_exits"
  by (simp add: revival_exits_def only_exit_def all_states_def)

section \<open>Properties\<close>

text \<open>
  The byte stored in the atomic state cell determines the state: decoding what \<open>new\<close> and \<open>store\<close>
  write gives the state back, so the \<open>expect\<close> in \<open>load\<close> cannot fire, and \<open>from_u8\<close> accepts exactly
  the codes of the fourteen states.
\<close>

theorem lifecycle_code_roundtrip:
  "cell_load (cell_new s) = Some s \<and> cell_load (cell_store c s) = Some s
   \<and> cell_serves_traffic (cell_store c s) = Some (serves_traffic s)
   \<and> (from_u8 v = Some s \<longleftrightarrow> v = state_as_u8 s)
   \<and> (from_u8 v = None \<longleftrightarrow> 13 < v)"
proof -
  have "from_u8 v = None \<longleftrightarrow> 13 < v"
  proof (cases "from_u8 v")
    case None
    have "v \<le> 13 \<Longrightarrow> v \<in> {0, 1, 2, 3, 4, 5, 6, 7, 8, 9, 10, 11, 12, 13}"
    proof -
      assume "v \<le> 13"
      then have "unat v \<le> 13" by (simp add: word_le_nat_alt)
      then have "unat v \<in> {0, 1, 2, 3, 4, 5, 6, 7, 8, 9, 10, 11, 12, 13}" by (simp, arith)
      then have "word_of_nat (unat v) \<in> (word_of_nat :: nat \<Rightarrow> 8 word) ` {0, 1, 2, 3, 4, 5, 6, 7, 8, 9, 10, 11, 12, 13}"
        by blast
      then show ?thesis by simp
    qed
    with None have "\<not> v \<le> 13" by (auto simp: from_u8_def split: if_splits)
    with None show ?thesis by simp
  next
    case (Some t)
    then have "v = state_as_u8 t" by (simp add: as_u8_from_u8)
    with Some show ?thesis by (cases t) simp_all
  qed
  then show ?thesis using as_u8_from_u8 by (auto simp: cell_serves_traffic_def)
qed

text \<open>
  A plugin that was rejected or has failed does not come back to serving traffic except by a
  full reload: every run of the transition table from a terminal state to a serving state passes,
  in this order, through Unloaded, Discovered, Installed, Verified, Compatible, Configured, Enabled,
  Initialized and Active, so no verification step can be skipped.
\<close>

theorem revival_needs_full_reload:
  assumes "is_terminal s" and "lc_steps s ts u" and "serves_traffic u"
  shows "subseq [Unloaded, Discovered, Installed, Verified, Compatible, Configured, Enabled,
    Initialized, Active] ts"
proof -
  have "s \<in> set [Rejected, Failed]" using assms(1) by (cases s) auto
  moreover have "u \<notin> set (last ([Rejected, Failed] # map snd (butlast revival_exits)))"
    using assms(3) by (cases u) (auto simp: revival_exits_def)
  ultimately have "subseq (map fst revival_exits) ts"
    using lc_steps_exit_chain [OF revival_exit_chain assms(2)] by blast
  then show ?thesis by (simp add: revival_exits_def)
qed

theorem revival_needs_full_reload_witness:
  "is_terminal Failed \<and> serves_traffic Active
   \<and> subseq [Unloaded, Discovered, Installed, Verified, Compatible, Configured, Enabled, Initialized, Active]
       [Unloaded, Discovered, Installed, Verified, Compatible, Configured, Enabled, Initialized, Active]"
proof -
  have "lc_steps Failed [Unloaded, Discovered, Installed, Verified, Compatible, Configured, Enabled,
      Initialized, Active] Active" by simp
  from revival_needs_full_reload [OF _ this] show ?thesis by simp
qed

text \<open>
  The lifecycle's own operations never leave the table: \<open>transition\<close>, \<open>advance\<close>, \<open>fail\<close> and
  \<open>reject\<close> either return the previous state and move along an allowed edge to the requested state
  with the plugin id kept, or they return \<open>InvalidTransition\<close> naming the current state, and
  \<open>advance\<close> succeeds exactly on the seven states of the happy path before Active.
\<close>

theorem lifecycle_operations_follow_table:
  "(case transition l to of
      Inr (p, l') \<Rightarrow> p = lc_state l \<and> transition_allowed p to \<and> l' = l\<lparr>lc_state := to\<rparr>
    | Inl e \<Rightarrow> \<not> transition_allowed (lc_state l) to \<and> e = InvalidTransition (lc_state l) to)
   \<and> (case advance l of
      Inr (p, l') \<Rightarrow> p = lc_state l \<and> transition_allowed p (lc_state l')
        \<and> next_canonical p = Some (lc_state l') \<and> lc_plugin_id l' = lc_plugin_id l
    | Inl e \<Rightarrow> e = InvalidTransition (lc_state l) (lc_state l)
        \<and> lc_state l \<in> {Active, Degraded, Disabled, Unloaded, Rejected, Failed, Draining})
   \<and> fail l = transition l Failed \<and> reject l = transition l Rejected
   \<and> (is_err (fail l) \<longleftrightarrow> lc_state l \<in> {Discovered, Disabled, Unloaded, Rejected, Failed})
   \<and> (is_err (reject l) \<longleftrightarrow> lc_state l \<notin> {Installed, Verified, Compatible, Configured})"
  by (cases "lc_state l") (simp_all add: transition_def advance_def fail_def reject_def)

end
