(* ===== verification/Registry_State.thy ===== *)
theory Registry_State
  imports Protocol Lifecycle "HOL-Library.Multiset"
begin

text \<open>
  The state of \<open>PluginRegistry\<close> (\<open>src/src/registry.rs\<close>): the loaded-plugin wrappers of each class,
  the registry with its chains, keyed maps, binding tables and policies, \<open>new\<close>, the manifest and
  alias checks every registration runs, and the registry's well-formedness invariant.

  The wrappers share the fields of \<open>loaded\<close>; each class that carries more extends it. Chains and
  plugin lists are lists in registration order; \<open>HashMap\<close>s are association lists whose order stands
  for the unspecified iteration order; \<open>BTreeMap\<close>s are association lists sorted by key.
\<close>

section \<open>Loaded plugins\<close>

record 'i loaded =
  lp_alias :: string
  lp_manifest :: manifest
  lp_tier :: string
  lp_state :: plugin_state
  lp_instance :: 'i

record 'i chain_entry = "'i loaded" +
  lp_config :: json
  lp_enforce :: bool
  lp_registered_at :: nat
  lp_inflight :: "64 word"

record http_route_overrides =
  ov_max_body_bytes :: "nat option"
  ov_requires_identity :: "bool option"
  ov_allow_path_override :: bool

record 'i http_entry = "'i loaded" +
  lp_entity_name :: string
  lp_routes :: "route_spec list"
  lp_overrides :: http_route_overrides

text \<open>\<open>sp_in_flight\<close> is the number of free permits of the policy's semaphore.\<close>

record audit_sink_policy =
  sk_gating :: bool
  sk_allow_actions :: "string list"
  sk_deny_actions :: "string list"
  sk_in_flight :: nat

record 'i audit_entry = "'i loaded" +
  lp_policy :: audit_sink_policy

record 'i roles_entry = "'i loaded" +
  lp_supported_roles :: "string list"

record 'i cache_entry = "'i loaded" +
  lp_supported_namespaces :: "string list"
  lp_serves_any :: bool

record 'i schemes_entry = "'i loaded" +
  lp_supported_schemes :: "string list"

text \<open>Transports and policy engines carry the name they declared.\<close>

record 'i named_entry = "'i loaded" +
  lp_name :: string

record 'i cluster_entry = "'i loaded" +
  lp_ffi_ref :: "nat option"

datatype audit_emit_policy = FailClosed | FailOpen

section \<open>The registry\<close>

record 'w registry =
  tool_gate_chain :: "'w tool_gate_plugin chain_entry list"
  transform_chain :: "'w transform_plugin chain_entry list"
  identity_chain :: "'w identity_plugin chain_entry list"
  backends :: "(string, 'w plugin_object loaded) hmap"
  content_stores :: "(string, 'w plugin_object loaded) hmap"
  watch_strategies :: "(string, 'w plugin_object loaded) hmap"
  http_routes :: "'w plugin_object http_entry list"
  audit_sinks :: "'w audit_sink audit_entry list"
  stores :: "'w plugin_object roles_entry list"
  store_bindings :: "(string, 'w plugin_object) bmap"
  caches :: "'w plugin_object cache_entry list"
  cache_bindings :: "(string, 'w plugin_object) bmap"
  telemetry_sinks :: "'w event_sink loaded list"
  log_sinks :: "'w event_sink loaded list"
  metrics_sinks :: "'w event_sink loaded list"
  secret_providers :: "('w, string) scheme_provider schemes_entry list"
  secret_scheme_bindings :: "(string, ('w, string) scheme_provider) bmap"
  config_providers :: "('w, json) scheme_provider schemes_entry list"
  config_scheme_bindings :: "(string, ('w, json) scheme_provider) bmap"
  transports :: "'w plugin_object named_entry list"
  policy_engines :: "'w policy_engine named_entry list"
  cluster_backend :: "'w plugin_object cluster_entry option"
  catalog_chain :: "'w plugin_object chain_entry list"
  credential_issuers :: "(string, 'w plugin_object loaded) bmap"
  approval_notifiers :: "(string, 'w plugin_object loaded) bmap"
  audit_emit_tool_call_allowed :: bool
  audit_emit_tool_call_completed :: bool
  granted_caps :: "(string, capability list) hmap"
  cred_resolve_allowlist :: "(string, string set) hmap"
  cred_resolve_ref_allowlist :: "(string, string set) hmap"
  resource_resolve_allowlist :: "(string, string set) hmap"
  audit_digest_key :: "string option"
  audit_node_id :: "string option"
  audit_request_policy :: audit_emit_policy

definition registry_new :: "'w registry" where
  "registry_new = \<lparr>
     tool_gate_chain = [], transform_chain = [], identity_chain = [],
     backends = [], content_stores = [], watch_strategies = [],
     http_routes = [], audit_sinks = [], stores = [], store_bindings = [],
     caches = [], cache_bindings = [], telemetry_sinks = [], log_sinks = [], metrics_sinks = [],
     secret_providers = [], secret_scheme_bindings = [],
     config_providers = [], config_scheme_bindings = [],
     transports = [], policy_engines = [], cluster_backend = None,
     catalog_chain = [], credential_issuers = [], approval_notifiers = [],
     audit_emit_tool_call_allowed = True, audit_emit_tool_call_completed = True,
     granted_caps = [], cred_resolve_allowlist = [], cred_resolve_ref_allowlist = [],
     resource_resolve_allowlist = [],
     audit_digest_key = None, audit_node_id = None, audit_request_policy = FailOpen\<rparr>"

section \<open>Errors\<close>

datatype registry_error =
    EmptyManifestId
  | EmptyVersion string
  | UnsupportedProtocol string string
  | DuplicateAlias string
  | EmptyKind string
  | KindAlreadyRegistered string string
  | EmptyEntityName string
  | EntityAlreadyRegistered string string
  | NoRoutes string string
  | OverrideNotDeclared string string
  | OverridePathNotAbsolute string string string
  | OverridePathReserved string string string
  | UnknownAuditSink string
  | NoSupportedRoles string
  | CacheUnreachable string
  | AlreadyRegistered string
  | NoSupportedSchemes string
  | SchemeDrift string "string list" "string list"
  | EmptyName string
  | NameAlreadyServed string string string
  | ClusterAlreadyRegistered string string
  | BindUnregistered string
  | BindNotServing string plugin_state
  | BindUnsupported string string
  | ReservedScheme string string
  | SchemeConflict string "string list"
  | NotRegistered string
  | BadTransition string plugin_state plugin_state
  | NotDisabled string plugin_state
  | NotChainPlugin string
  | DescriptorUnregistered string

section \<open>Lookups shared by the operations\<close>

definition has_id :: "string \<Rightarrow> ('i, 'z) loaded_scheme \<Rightarrow> bool" where
  "has_id i p = (m_id (lp_manifest p) = i)"

definition has_alias :: "string \<Rightarrow> ('i, 'z) loaded_scheme \<Rightarrow> bool" where
  "has_alias a p = (lp_alias p = a)"

definition find_id :: "string \<Rightarrow> ('i, 'z) loaded_scheme list \<Rightarrow> ('i, 'z) loaded_scheme option" where
  "find_id i ps = find (has_id i) ps"

definition serving :: "('i, 'z) loaded_scheme \<Rightarrow> bool" where
  "serving p = serves_traffic (lp_state p)"

definition opt_list :: "'a option \<Rightarrow> 'a list" where
  "opt_list x = (case x of None \<Rightarrow> [] | Some a \<Rightarrow> [a])"

lemma opt_list_simps [simp]: "opt_list None = []" "opt_list (Some a) = [a]"
  by (simp_all add: opt_list_def)

declare registry_new_def [registry_simps] has_id_def [registry_simps] has_alias_def [registry_simps]
  find_id_def [registry_simps] serving_def [registry_simps]

section \<open>Manifest and alias checks\<close>

text \<open>\<open>validate_manifest\<close>; its two warnings (stale protocol version, missing prefix) only log.\<close>

definition validate_manifest :: "manifest \<Rightarrow> (registry_error, unit) rresult" where
  "validate_manifest m =
     (if m_id m = [] then Inl EmptyManifestId
      else if m_version m = [] then Inl (EmptyVersion (m_id m))
      else if \<not> starts_with (m_protocol_version m) ''1.''
        then Inl (UnsupportedProtocol (m_id m) (m_protocol_version m))
      else Inr ())"

definition alias_taken :: "'w registry \<Rightarrow> string \<Rightarrow> bool" where
  "alias_taken r a =
     (list_ex (has_alias a) (tool_gate_chain r)
      \<or> list_ex (has_alias a) (transform_chain r)
      \<or> list_ex (has_alias a) (identity_chain r)
      \<or> list_ex (has_alias a) (catalog_chain r)
      \<or> list_ex (has_alias a) (map snd (backends r))
      \<or> list_ex (has_alias a) (map snd (content_stores r))
      \<or> list_ex (has_alias a) (map snd (watch_strategies r))
      \<or> list_ex (has_alias a) (http_routes r)
      \<or> list_ex (has_alias a) (audit_sinks r)
      \<or> list_ex (has_alias a) (stores r)
      \<or> list_ex (has_alias a) (caches r)
      \<or> list_ex (has_alias a) (telemetry_sinks r)
      \<or> list_ex (has_alias a) (log_sinks r)
      \<or> list_ex (has_alias a) (metrics_sinks r)
      \<or> list_ex (has_alias a) (secret_providers r)
      \<or> list_ex (has_alias a) (config_providers r)
      \<or> list_ex (has_alias a) (transports r)
      \<or> list_ex (has_alias a) (policy_engines r)
      \<or> list_ex (has_alias a) (map snd (credential_issuers r))
      \<or> list_ex (has_alias a) (map snd (approval_notifiers r))
      \<or> list_ex (has_alias a) (opt_list (cluster_backend r)))"

definition check_duplicate_alias :: "'w registry \<Rightarrow> string \<Rightarrow> (registry_error, unit) rresult" where
  "check_duplicate_alias r a = (if alias_taken r a then Inl (DuplicateAlias a) else Inr ())"

section \<open>The invariant\<close>

text \<open>Every alias in use, class by class.\<close>

definition registry_aliases :: "'w registry \<Rightarrow> string list" where
  "registry_aliases r =
     map lp_alias (tool_gate_chain r) @ map lp_alias (transform_chain r)
     @ map lp_alias (identity_chain r) @ map lp_alias (catalog_chain r)
     @ map (lp_alias \<circ> snd) (backends r) @ map (lp_alias \<circ> snd) (content_stores r)
     @ map (lp_alias \<circ> snd) (watch_strategies r)
     @ map lp_alias (http_routes r) @ map lp_alias (audit_sinks r) @ map lp_alias (stores r)
     @ map lp_alias (caches r) @ map lp_alias (telemetry_sinks r) @ map lp_alias (log_sinks r)
     @ map lp_alias (metrics_sinks r) @ map lp_alias (secret_providers r)
     @ map lp_alias (config_providers r) @ map lp_alias (transports r)
     @ map lp_alias (policy_engines r) @ map (lp_alias \<circ> snd) (credential_issuers r)
     @ map (lp_alias \<circ> snd) (approval_notifiers r) @ map lp_alias (opt_list (cluster_backend r))"

definition registry_manifests :: "'w registry \<Rightarrow> manifest list" where
  "registry_manifests r =
     map lp_manifest (tool_gate_chain r) @ map lp_manifest (transform_chain r)
     @ map lp_manifest (identity_chain r) @ map (lp_manifest \<circ> snd) (backends r)
     @ map (lp_manifest \<circ> snd) (content_stores r) @ map (lp_manifest \<circ> snd) (watch_strategies r)
     @ map lp_manifest (http_routes r) @ map lp_manifest (audit_sinks r) @ map lp_manifest (stores r)
     @ map lp_manifest (caches r) @ map lp_manifest (telemetry_sinks r)
     @ map lp_manifest (log_sinks r) @ map lp_manifest (metrics_sinks r)
     @ map lp_manifest (secret_providers r) @ map lp_manifest (config_providers r)
     @ map lp_manifest (transports r) @ map lp_manifest (policy_engines r)
     @ map lp_manifest (opt_list (cluster_backend r)) @ map lp_manifest (catalog_chain r)
     @ map (lp_manifest \<circ> snd) (credential_issuers r)
     @ map (lp_manifest \<circ> snd) (approval_notifiers r)"

definition manifest_ok :: "manifest \<Rightarrow> bool" where
  "manifest_ok m = (validate_manifest m = Inr ())"

text \<open>The keyed classes: one entry per kind, no empty kind, issuer and notifier keys are ids.\<close>

definition keyed_ok :: "'w registry \<Rightarrow> bool" where
  "keyed_ok r =
     (distinct (map fst (backends r)) \<and> [] \<notin> set (map fst (backends r))
      \<and> distinct (map fst (content_stores r)) \<and> [] \<notin> set (map fst (content_stores r))
      \<and> distinct (map fst (watch_strategies r)) \<and> [] \<notin> set (map fst (watch_strategies r))
      \<and> (\<forall>(k, p) \<in> set (credential_issuers r). k = m_id (lp_manifest p))
      \<and> (\<forall>(k, p) \<in> set (approval_notifiers r). k = m_id (lp_manifest p))
      \<and> sorted (map fst (credential_issuers r)) \<and> distinct (map fst (credential_issuers r))
      \<and> sorted (map fst (approval_notifiers r)) \<and> distinct (map fst (approval_notifiers r)))"

text \<open>The listed classes: self-declared names, ids and route entities are unique and not empty.\<close>

definition listed_ok :: "'w registry \<Rightarrow> bool" where
  "listed_ok r =
     (distinct (map lp_name (transports r)) \<and> [] \<notin> set (map lp_name (transports r))
      \<and> distinct (map lp_name (policy_engines r)) \<and> [] \<notin> set (map lp_name (policy_engines r))
      \<and> distinct (map (\<lambda>p. m_id (lp_manifest p)) (secret_providers r))
      \<and> distinct (map (\<lambda>p. m_id (lp_manifest p)) (transports r))
      \<and> distinct (map (\<lambda>p. (m_id (lp_manifest p), lp_entity_name p)) (http_routes r))
      \<and> list_all (\<lambda>p. lp_supported_roles p \<noteq> []) (stores r)
      \<and> list_all (\<lambda>p. lp_serves_any p \<or> lp_supported_namespaces p \<noteq> []) (caches r)
      \<and> list_all (\<lambda>p. lp_supported_schemes p \<noteq> []) (secret_providers r)
      \<and> list_all (\<lambda>p. lp_supported_schemes p \<noteq> []) (config_providers r))"

definition registry_wf :: "'w registry \<Rightarrow> bool" where
  "registry_wf r =
     (distinct (registry_aliases r) \<and> list_all manifest_ok (registry_manifests r)
      \<and> keyed_ok r \<and> listed_ok r)"

section \<open>Facts\<close>

lemma list_ex_has_alias [simp]: "list_ex (has_alias a) ps \<longleftrightarrow> a \<in> set (map lp_alias ps)"
  by (induction ps) (auto simp: has_alias_def)

lemma alias_taken_iff: "alias_taken r a \<longleftrightarrow> a \<in> set (registry_aliases r)"
  unfolding alias_taken_def registry_aliases_def list_ex_has_alias
  by (simp add: image_comp image_image disj_assoc)

lemma check_duplicate_alias_Inr [simp]:
  "check_duplicate_alias r a = Inr u \<longleftrightarrow> a \<notin> set (registry_aliases r)"
  by (cases u) (simp add: check_duplicate_alias_def alias_taken_iff)

lemma validate_manifest_Inr: "validate_manifest m = Inr u \<longleftrightarrow> manifest_ok m"
  by (cases u) (simp add: manifest_ok_def)

lemma manifest_ok_iff:
  "manifest_ok m \<longleftrightarrow> m_id m \<noteq> [] \<and> m_version m \<noteq> [] \<and> starts_with (m_protocol_version m) ''1.''"
  by (simp add: manifest_ok_def validate_manifest_def)

lemma registry_new_wf: "registry_wf registry_new"
  by (simp add: registry_wf_def registry_aliases_def registry_manifests_def keyed_ok_def
      listed_ok_def registry_new_def)

text \<open>
  What a registration adds: one alias and one manifest. Stated on multisets, so that the position
  of the new entry does not matter.
\<close>

definition adds_entry :: "string \<Rightarrow> manifest \<Rightarrow> 'w registry \<Rightarrow> 'w registry \<Rightarrow> bool" where
  "adds_entry a m r r' =
     (mset (registry_aliases r') = add_mset a (mset (registry_aliases r))
      \<and> mset (registry_manifests r') = add_mset m (mset (registry_manifests r)))"

lemma adds_entry_distinct:
  assumes "adds_entry a m r r'" and "a \<notin> set (registry_aliases r)"
    and "distinct (registry_aliases r)"
  shows "distinct (registry_aliases r')"
proof -
  have "mset (registry_aliases r') = mset (a # registry_aliases r)"
    using assms(1) by (simp add: adds_entry_def)
  then have "distinct (registry_aliases r') = distinct (a # registry_aliases r)"
    by (rule mset_eq_imp_distinct_iff)
  with assms(2,3) show ?thesis by simp
qed

lemma adds_entry_manifests:
  assumes "adds_entry a m r r'" and "manifest_ok m" and "list_all manifest_ok (registry_manifests r)"
  shows "list_all manifest_ok (registry_manifests r')"
proof -
  have "set (registry_manifests r') = insert m (set (registry_manifests r))"
    using assms(1) by (metis adds_entry_def set_mset_add_mset_insert set_mset_mset)
  with assms(2,3) show ?thesis by (simp add: list_all_iff)
qed

lemma adds_entry_wf:
  assumes "registry_wf r" and "adds_entry a m r r'" and "a \<notin> set (registry_aliases r)"
    and "manifest_ok m" and "keyed_ok r'" and "listed_ok r'"
  shows "registry_wf r'"
  using assms adds_entry_distinct adds_entry_manifests by (metis registry_wf_def)

end
