(* ===== verification/Metering.thy ===== *)
theory Metering
  imports Protocol
begin

text \<open>
  The metering decorators (\<open>src/src/*_metering.rs\<close>) the registry wraps plugins in: each returns a
  new trait object whose methods call the wrapped one and record metrics. Metric emission is not
  modelled; what is modelled is which methods are forwarded. A method a decorator does not define
  falls back to the trait's default; the default of \<open>shutdown\<close> is the empty body.
\<close>

text \<open>\<open>MeteredIdentityProvider\<close> defines \<open>manifest\<close> and \<open>resolve_identity\<close> only.\<close>

definition metered_identity_provider :: "'w identity_plugin \<Rightarrow> 'w identity_plugin" where
  "metered_identity_provider inner =
     \<lparr>ip_manifest = ip_manifest inner,
      ip_resolve_identity = (\<lambda>headers metadata config. ip_resolve_identity inner headers metadata config),
      ip_shutdown = fut_unit\<rparr>"

definition metered_policy_engine :: "'w policy_engine \<Rightarrow> 'w policy_engine" where
  "metered_policy_engine inner =
     \<lparr>pe_manifest = pe_manifest inner, pe_name = pe_name inner,
      pe_evaluate = (\<lambda>decision_point input ctx. pe_evaluate inner decision_point input ctx),
      pe_shutdown = pe_shutdown inner\<rparr>"

definition metered_secret_provider :: "('w, string) scheme_provider \<Rightarrow> ('w, string) scheme_provider" where
  "metered_secret_provider inner =
     \<lparr>sp_manifest = sp_manifest inner, sp_supported_schemes = sp_supported_schemes inner,
      sp_fetch = (\<lambda>secret_ref. sp_fetch inner secret_ref), sp_shutdown = sp_shutdown inner\<rparr>"

definition metered_config_provider :: "('w, json) scheme_provider \<Rightarrow> ('w, json) scheme_provider" where
  "metered_config_provider inner =
     \<lparr>sp_manifest = sp_manifest inner, sp_supported_schemes = sp_supported_schemes inner,
      sp_fetch = (\<lambda>reference. sp_fetch inner reference), sp_shutdown = sp_shutdown inner\<rparr>"

text \<open>
  The decorators of stores, caches, transports, catalog providers, credential issuers, approval
  notifiers and the cluster backend forward every declaration and \<open>shutdown\<close>; their data methods
  are not called by the registry.
\<close>

definition metered_store :: "'w plugin_object \<Rightarrow> 'w plugin_object" where
  "metered_store inner =
     \<lparr>po_manifest = po_manifest inner, po_object = po_object inner, po_name = po_name inner,
      po_names = po_names inner, po_serves_any = po_serves_any inner, po_routes = po_routes inner,
      po_shutdown = po_shutdown inner\<rparr>"

definition metered_cache :: "'w plugin_object \<Rightarrow> 'w plugin_object" where
  "metered_cache inner =
     \<lparr>po_manifest = po_manifest inner, po_object = po_object inner, po_name = po_name inner,
      po_names = po_names inner, po_serves_any = po_serves_any inner, po_routes = po_routes inner,
      po_shutdown = po_shutdown inner\<rparr>"

definition metered_transport :: "'w plugin_object \<Rightarrow> 'w plugin_object" where
  "metered_transport inner =
     \<lparr>po_manifest = po_manifest inner, po_object = po_object inner, po_name = po_name inner,
      po_names = po_names inner, po_serves_any = po_serves_any inner, po_routes = po_routes inner,
      po_shutdown = po_shutdown inner\<rparr>"

definition metered_catalog_provider :: "'w plugin_object \<Rightarrow> 'w plugin_object" where
  "metered_catalog_provider inner =
     \<lparr>po_manifest = po_manifest inner, po_object = po_object inner, po_name = po_name inner,
      po_names = po_names inner, po_serves_any = po_serves_any inner, po_routes = po_routes inner,
      po_shutdown = po_shutdown inner\<rparr>"

definition metered_credential_issuer :: "'w plugin_object \<Rightarrow> 'w plugin_object" where
  "metered_credential_issuer inner =
     \<lparr>po_manifest = po_manifest inner, po_object = po_object inner, po_name = po_name inner,
      po_names = po_names inner, po_serves_any = po_serves_any inner, po_routes = po_routes inner,
      po_shutdown = po_shutdown inner\<rparr>"

definition metered_approval_notifier :: "'w plugin_object \<Rightarrow> 'w plugin_object" where
  "metered_approval_notifier inner =
     \<lparr>po_manifest = po_manifest inner, po_object = po_object inner, po_name = po_name inner,
      po_names = po_names inner, po_serves_any = po_serves_any inner, po_routes = po_routes inner,
      po_shutdown = po_shutdown inner\<rparr>"

definition metered_cluster_backend :: "'w plugin_object \<Rightarrow> 'w plugin_object" where
  "metered_cluster_backend inner =
     \<lparr>po_manifest = po_manifest inner, po_object = po_object inner, po_name = po_name inner,
      po_names = po_names inner, po_serves_any = po_serves_any inner, po_routes = po_routes inner,
      po_shutdown = po_shutdown inner\<rparr>"

text \<open>The contract of a decorator: behind the wrapper the caller sees the wrapped object.\<close>

locale transparent_decorator =
  fixes wrap :: "'p \<Rightarrow> 'p"
  assumes wrap_eq: "wrap p = p"
begin

lemma observe_wrap: "f (wrap p) = f p"
  by (simp add: wrap_eq)

lemma map_wrap: "map wrap ps = ps"
  by (induction ps) (simp_all add: wrap_eq)

end

interpretation mpolicy: transparent_decorator metered_policy_engine
  by unfold_locales (simp add: metered_policy_engine_def)

interpretation msecret: transparent_decorator metered_secret_provider
  by unfold_locales (simp add: metered_secret_provider_def)

interpretation mconfig: transparent_decorator metered_config_provider
  by unfold_locales (simp add: metered_config_provider_def)

interpretation mstore: transparent_decorator metered_store
  by unfold_locales (simp add: metered_store_def)

interpretation mcache: transparent_decorator metered_cache
  by unfold_locales (simp add: metered_cache_def)

interpretation mtransport: transparent_decorator metered_transport
  by unfold_locales (simp add: metered_transport_def)

interpretation mcatalog: transparent_decorator metered_catalog_provider
  by unfold_locales (simp add: metered_catalog_provider_def)

interpretation missuer: transparent_decorator metered_credential_issuer
  by unfold_locales (simp add: metered_credential_issuer_def)

interpretation mnotifier: transparent_decorator metered_approval_notifier
  by unfold_locales (simp add: metered_approval_notifier_def)

interpretation mcluster: transparent_decorator metered_cluster_backend
  by unfold_locales (simp add: metered_cluster_backend_def)

lemmas metered_transparent [registry_simps] =
  mpolicy.wrap_eq msecret.wrap_eq mconfig.wrap_eq mstore.wrap_eq mcache.wrap_eq mtransport.wrap_eq
  mcatalog.wrap_eq missuer.wrap_eq mnotifier.wrap_eq mcluster.wrap_eq

lemma metered_identity_manifest [simp]:
  "ip_manifest (metered_identity_provider p) = ip_manifest p"
  by (simp add: metered_identity_provider_def)

lemma metered_identity_resolve [simp]:
  "ip_resolve_identity (metered_identity_provider p) = ip_resolve_identity p"
  by (simp add: metered_identity_provider_def)

end
