(* ===== verification/Registration.thy ===== *)
theory Registration
  imports Registry_State Metering
begin

text \<open>
  Registration (\<open>src/src/registry.rs\<close>, the \<open>register_*_with_alias\<close> methods and the shorthands that
  call them): one function per plugin class, with the checks in the order the code runs them and
  the state change of the last statement. \<open>now\<close> is the wall clock at the call. The lemmas show that
  a success adds exactly one alias and one manifest and keeps the registry well formed.
\<close>

section \<open>Entries\<close>

definition base_entry :: "string \<Rightarrow> manifest \<Rightarrow> string \<Rightarrow> 'i \<Rightarrow> 'i loaded" where
  "base_entry a m t i =
     \<lparr>lp_alias = a, lp_manifest = m, lp_tier = t, lp_state = Active, lp_instance = i\<rparr>"

definition new_chain_entry ::
  "string \<Rightarrow> manifest \<Rightarrow> string \<Rightarrow> json \<Rightarrow> bool \<Rightarrow> nat \<Rightarrow> 'i \<Rightarrow> 'i chain_entry" where
  "new_chain_entry a m t c e now i =
     \<lparr>lp_alias = a, lp_manifest = m, lp_tier = t, lp_state = Active, lp_instance = i,
      lp_config = c, lp_enforce = e, lp_registered_at = now, lp_inflight = 0\<rparr>"

text \<open>\<open>validate_manifest\<close> and then \<open>check_duplicate_alias\<close>, the pair every registration runs.\<close>

definition admit :: "'w registry \<Rightarrow> manifest \<Rightarrow> string \<Rightarrow> (registry_error, unit) rresult" where
  "admit r m a = try_then (validate_manifest m) (\<lambda>_. check_duplicate_alias r a)"

section \<open>Chain plugins\<close>

definition register_tool_gate_with_alias ::
  "nat \<Rightarrow> string option \<Rightarrow> 'w tool_gate_plugin \<Rightarrow> string \<Rightarrow> json \<Rightarrow> bool \<Rightarrow> 'w registry
    \<Rightarrow> (registry_error, 'w registry) rresult" where
  "register_tool_gate_with_alias now alias plugin tier config enforce r =
     (let m = tg_manifest plugin; a = unwrap_or (m_id m) alias
      in try_then (admit r m a)
        (\<lambda>_. Inr (r\<lparr>tool_gate_chain := tool_gate_chain r
               @ [new_chain_entry a m tier config enforce now plugin]\<rparr>)))"

definition register_tool_gate_with_enforce ::
  "nat \<Rightarrow> 'w tool_gate_plugin \<Rightarrow> string \<Rightarrow> json \<Rightarrow> bool \<Rightarrow> 'w registry
    \<Rightarrow> (registry_error, 'w registry) rresult" where
  "register_tool_gate_with_enforce now plugin tier config enforce r =
     register_tool_gate_with_alias now None plugin tier config enforce r"

definition register_tool_gate ::
  "nat \<Rightarrow> 'w tool_gate_plugin \<Rightarrow> string \<Rightarrow> json \<Rightarrow> 'w registry
    \<Rightarrow> (registry_error, 'w registry) rresult" where
  "register_tool_gate now plugin tier config r =
     register_tool_gate_with_enforce now plugin tier config True r"

definition register_transform_with_alias ::
  "nat \<Rightarrow> string option \<Rightarrow> 'w transform_plugin \<Rightarrow> string \<Rightarrow> json \<Rightarrow> 'w registry
    \<Rightarrow> (registry_error, 'w registry) rresult" where
  "register_transform_with_alias now alias plugin tier config r =
     (let m = tf_manifest plugin; a = unwrap_or (m_id m) alias
      in try_then (admit r m a)
        (\<lambda>_. Inr (r\<lparr>transform_chain := transform_chain r
               @ [new_chain_entry a m tier config True now plugin]\<rparr>)))"

definition register_identity_with_alias ::
  "nat \<Rightarrow> string option \<Rightarrow> 'w identity_plugin \<Rightarrow> string \<Rightarrow> json \<Rightarrow> 'w registry
    \<Rightarrow> (registry_error, 'w registry) rresult" where
  "register_identity_with_alias now alias plugin tier config r =
     (let m = ip_manifest plugin; a = unwrap_or (m_id m) alias
      in try_then (admit r m a)
        (\<lambda>_. Inr (r\<lparr>identity_chain := identity_chain r
               @ [new_chain_entry a m tier config True now (metered_identity_provider plugin)]\<rparr>)))"

definition register_catalog_provider_with_alias ::
  "nat \<Rightarrow> string option \<Rightarrow> 'w plugin_object \<Rightarrow> string \<Rightarrow> json \<Rightarrow> 'w registry
    \<Rightarrow> (registry_error, 'w registry) rresult" where
  "register_catalog_provider_with_alias now alias plugin tier config r =
     (let m = po_manifest plugin; a = unwrap_or (m_id m) alias
      in try_then (admit r m a)
        (\<lambda>_. Inr (r\<lparr>catalog_chain := catalog_chain r
               @ [new_chain_entry a m tier config True now (metered_catalog_provider plugin)]\<rparr>)))"

section \<open>Kind-keyed plugins\<close>

definition register_backend_with_alias ::
  "string option \<Rightarrow> 'w plugin_object \<Rightarrow> string \<Rightarrow> 'w registry
    \<Rightarrow> (registry_error, 'w registry) rresult" where
  "register_backend_with_alias alias plugin tier r =
     (let m = po_manifest plugin; a = unwrap_or (m_id m) alias; kind = po_name plugin
      in try_then (ensure (kind \<noteq> []) (EmptyKind (m_id m)))
        (\<lambda>_. try_then (admit r m a)
        (\<lambda>_. try_then (ensure (map_of (backends r) kind = None) (KindAlreadyRegistered kind (m_id m)))
        (\<lambda>_. Inr (r\<lparr>backends := hm_insert kind (base_entry a m tier plugin) (backends r)\<rparr>)))))"

definition register_content_store_with_alias ::
  "string option \<Rightarrow> 'w plugin_object \<Rightarrow> string \<Rightarrow> 'w registry
    \<Rightarrow> (registry_error, 'w registry) rresult" where
  "register_content_store_with_alias alias plugin tier r =
     (let m = po_manifest plugin; a = unwrap_or (m_id m) alias; kind = po_name plugin
      in try_then (ensure (kind \<noteq> []) (EmptyKind (m_id m)))
        (\<lambda>_. try_then (admit r m a)
        (\<lambda>_. try_then (ensure (map_of (content_stores r) kind = None) (KindAlreadyRegistered kind (m_id m)))
        (\<lambda>_. Inr (r\<lparr>content_stores := hm_insert kind (base_entry a m tier plugin) (content_stores r)\<rparr>)))))"

definition register_watch_strategy_with_alias ::
  "string option \<Rightarrow> 'w plugin_object \<Rightarrow> string \<Rightarrow> 'w registry
    \<Rightarrow> (registry_error, 'w registry) rresult" where
  "register_watch_strategy_with_alias alias plugin tier r =
     (let m = po_manifest plugin; a = unwrap_or (m_id m) alias; kind = po_name plugin
      in try_then (ensure (kind \<noteq> []) (EmptyKind (m_id m)))
        (\<lambda>_. try_then (admit r m a)
        (\<lambda>_. try_then (ensure (map_of (watch_strategies r) kind = None) (KindAlreadyRegistered kind (m_id m)))
        (\<lambda>_. Inr (r\<lparr>watch_strategies := hm_insert kind (base_entry a m tier plugin) (watch_strategies r)\<rparr>)))))"

section \<open>HTTP routes\<close>

definition RESERVED_OVERRIDE_PATH_PREFIXES :: "string list" where
  "RESERVED_OVERRIDE_PATH_PREFIXES =
     [''/mcp'', ''/healthz'', ''/ready'', ''/runtime'', ''/metrics'', ''/plugins/'', ''/webhooks/'',
      ''/.well-known/'', ''/oauth/token/'', ''/oauth/jwks/'', ''/oauth/revoke/'',
      ''/oauth/authorize/'', ''/oauth/consent/'', ''/oauth/callback/'', ''/oauth/connect/'']"

definition is_reserved_override_path :: "string \<Rightarrow> bool" where
  "is_reserved_override_path path =
     (path = ''/''
      \<or> list_ex (\<lambda>pre. path = trim_end_matches (CHR ''/'') pre \<or> starts_with path pre)
          RESERVED_OVERRIDE_PATH_PREFIXES)"

definition default_overrides :: http_route_overrides where
  "default_overrides = \<lparr>ov_max_body_bytes = None, ov_requires_identity = None,
     ov_allow_path_override = False\<rparr>"

text \<open>The loop over the specs in override mode stops at the first bad path.\<close>

fun check_override_paths ::
  "string \<Rightarrow> string \<Rightarrow> route_spec list \<Rightarrow> (registry_error, unit) rresult" where
  "check_override_paths i e [] = Inr ()"
| "check_override_paths i e (s # ss) =
     (if \<not> starts_with (rt_path s) ''/'' then Inl (OverridePathNotAbsolute i e (rt_path s))
      else if is_reserved_override_path (rt_path s) then Inl (OverridePathReserved i e (rt_path s))
      else check_override_paths i e ss)"

definition same_entity :: "string \<Rightarrow> string \<Rightarrow> 'i http_entry \<Rightarrow> bool" where
  "same_entity i e p = (m_id (lp_manifest p) = i \<and> lp_entity_name p = e)"

definition register_http_route_with_alias_and_overrides ::
  "string option \<Rightarrow> string \<Rightarrow> 'w plugin_object \<Rightarrow> string \<Rightarrow> http_route_overrides \<Rightarrow> capability list
    \<Rightarrow> 'w registry \<Rightarrow> (registry_error, 'w registry) rresult" where
  "register_http_route_with_alias_and_overrides alias entity_name plugin tier overrides declared r =
     (let m = po_manifest plugin; a = unwrap_or entity_name alias; routes = po_routes plugin
      in try_then (ensure (entity_name \<noteq> []) (EmptyEntityName (m_id m)))
        (\<lambda>_. try_then (ensure (\<not> list_ex (same_entity (m_id m) entity_name) (http_routes r))
               (EntityAlreadyRegistered (m_id m) entity_name))
        (\<lambda>_. try_then (admit r m a)
        (\<lambda>_. try_then (ensure (routes \<noteq> []) (NoRoutes (m_id m) entity_name))
        (\<lambda>_. try_then (ensure (\<not> (ov_allow_path_override overrides \<and> \<not> list_ex (\<lambda>c. c = HttpRouteServe) declared))
               (OverrideNotDeclared (m_id m) entity_name))
        (\<lambda>_. try_then (if ov_allow_path_override overrides
                       then check_override_paths (m_id m) entity_name routes else Inr ())
        (\<lambda>_. Inr (r\<lparr>http_routes := http_routes r @
               [\<lparr>lp_alias = a, lp_manifest = m, lp_tier = tier, lp_state = Active, lp_instance = plugin,
                 lp_entity_name = entity_name, lp_routes = routes, lp_overrides = overrides\<rparr>]\<rparr>))))))))"

definition register_http_route ::
  "string \<Rightarrow> 'w plugin_object \<Rightarrow> string \<Rightarrow> 'w registry \<Rightarrow> (registry_error, 'w registry) rresult" where
  "register_http_route entity_name plugin tier r =
     register_http_route_with_alias_and_overrides None entity_name plugin tier default_overrides [] r"

section \<open>Sinks\<close>

definition NON_GATING_IN_FLIGHT :: nat where
  "NON_GATING_IN_FLIGHT = 1024"

definition audit_sink_policy_new :: "bool \<Rightarrow> string list \<Rightarrow> string list \<Rightarrow> audit_sink_policy" where
  "audit_sink_policy_new gating allow deny =
     \<lparr>sk_gating = gating, sk_allow_actions = allow, sk_deny_actions = deny,
      sk_in_flight = NON_GATING_IN_FLIGHT\<rparr>"

definition audit_sink_policy_default :: audit_sink_policy where
  "audit_sink_policy_default = audit_sink_policy_new True [] []"

definition register_audit_sink_with_alias ::
  "string option \<Rightarrow> 'w audit_sink \<Rightarrow> string \<Rightarrow> 'w registry \<Rightarrow> (registry_error, 'w registry) rresult" where
  "register_audit_sink_with_alias alias plugin tier r =
     (let m = as_manifest plugin; a = unwrap_or (m_id m) alias
      in try_then (admit r m a)
        (\<lambda>_. Inr (r\<lparr>audit_sinks := audit_sinks r @
               [\<lparr>lp_alias = a, lp_manifest = m, lp_tier = tier, lp_state = Active, lp_instance = plugin,
                 lp_policy = audit_sink_policy_default\<rparr>]\<rparr>)))"

definition set_audit_sink_policy ::
  "string \<Rightarrow> audit_sink_policy \<Rightarrow> 'w registry \<Rightarrow> (registry_error, 'w registry) rresult" where
  "set_audit_sink_policy name policy r =
     (let hit = (\<lambda>s. lp_alias s = name \<or> m_id (lp_manifest s) = name)
      in if list_ex hit (audit_sinks r)
         then Inr (r\<lparr>audit_sinks := map (\<lambda>s. if hit s then s\<lparr>lp_policy := policy\<rparr> else s) (audit_sinks r)\<rparr>)
         else Inl (UnknownAuditSink name))"

definition register_telemetry_sink_with_alias ::
  "string option \<Rightarrow> 'w event_sink \<Rightarrow> string \<Rightarrow> 'w registry \<Rightarrow> (registry_error, 'w registry) rresult" where
  "register_telemetry_sink_with_alias alias plugin tier r =
     (let m = es_manifest plugin; a = unwrap_or (m_id m) alias
      in try_then (admit r m a)
        (\<lambda>_. Inr (r\<lparr>telemetry_sinks := telemetry_sinks r @ [base_entry a m tier plugin]\<rparr>)))"

definition register_log_sink_with_alias ::
  "string option \<Rightarrow> 'w event_sink \<Rightarrow> string \<Rightarrow> 'w registry \<Rightarrow> (registry_error, 'w registry) rresult" where
  "register_log_sink_with_alias alias plugin tier r =
     (let m = es_manifest plugin; a = unwrap_or (m_id m) alias
      in try_then (admit r m a)
        (\<lambda>_. Inr (r\<lparr>log_sinks := log_sinks r @ [base_entry a m tier plugin]\<rparr>)))"

definition register_metrics_sink_with_alias ::
  "string option \<Rightarrow> 'w event_sink \<Rightarrow> string \<Rightarrow> 'w registry \<Rightarrow> (registry_error, 'w registry) rresult" where
  "register_metrics_sink_with_alias alias plugin tier r =
     (let m = es_manifest plugin; a = unwrap_or (m_id m) alias
      in try_then (admit r m a)
        (\<lambda>_. Inr (r\<lparr>metrics_sinks := metrics_sinks r @ [base_entry a m tier plugin]\<rparr>)))"

section \<open>Stores and caches\<close>

definition register_store_with_alias ::
  "string option \<Rightarrow> 'w plugin_object \<Rightarrow> string \<Rightarrow> 'w registry \<Rightarrow> (registry_error, 'w registry) rresult" where
  "register_store_with_alias alias plugin tier r =
     (let m = po_manifest plugin; a = unwrap_or (m_id m) alias; roles = po_names plugin
      in try_then (admit r m a)
        (\<lambda>_. try_then (ensure (roles \<noteq> []) (NoSupportedRoles (m_id m)))
        (\<lambda>_. Inr (r\<lparr>stores := stores r @
               [\<lparr>lp_alias = a, lp_manifest = m, lp_tier = tier, lp_state = Active, lp_instance = plugin,
                 lp_supported_roles = roles\<rparr>]\<rparr>))))"

definition register_cache_with_alias ::
  "string option \<Rightarrow> 'w plugin_object \<Rightarrow> string \<Rightarrow> 'w registry \<Rightarrow> (registry_error, 'w registry) rresult" where
  "register_cache_with_alias alias plugin tier r =
     (let m = po_manifest plugin; a = unwrap_or (m_id m) alias;
          namespaces = po_names plugin; serves_any = po_serves_any plugin
      in try_then (admit r m a)
        (\<lambda>_. try_then (ensure (\<not> (namespaces = [] \<and> \<not> serves_any)) (CacheUnreachable (m_id m)))
        (\<lambda>_. Inr (r\<lparr>caches := caches r @
               [\<lparr>lp_alias = a, lp_manifest = m, lp_tier = tier, lp_state = Active, lp_instance = plugin,
                 lp_supported_namespaces = namespaces, lp_serves_any = serves_any\<rparr>]\<rparr>))))"

section \<open>Scheme providers\<close>

definition cross_check_provides_schemes ::
  "string \<Rightarrow> string list \<Rightarrow> string list \<Rightarrow> (registry_error, unit) rresult" where
  "cross_check_provides_schemes plugin_id provides supported =
     (if provides = [] then Inr ()
      else if set provides \<noteq> set supported then Inl (SchemeDrift plugin_id provides supported)
      else Inr ())"

definition new_schemes_entry ::
  "string \<Rightarrow> manifest \<Rightarrow> string \<Rightarrow> ('w, 'v) scheme_provider \<Rightarrow> ('w, 'v) scheme_provider schemes_entry" where
  "new_schemes_entry a m t i =
     \<lparr>lp_alias = a, lp_manifest = m, lp_tier = t, lp_state = Active, lp_instance = i,
      lp_supported_schemes = sp_supported_schemes i\<rparr>"

definition register_secret_provider_with_alias ::
  "string option \<Rightarrow> ('w, string) scheme_provider \<Rightarrow> string \<Rightarrow> 'w registry \<Rightarrow> (registry_error, 'w registry) rresult" where
  "register_secret_provider_with_alias alias plugin tier r =
     (let m = sp_manifest plugin; a = unwrap_or (m_id m) alias; schemes = sp_supported_schemes plugin
      in try_then (ensure (\<not> list_ex (has_id (m_id m)) (secret_providers r)) (AlreadyRegistered (m_id m)))
        (\<lambda>_. try_then (admit r m a)
        (\<lambda>_. try_then (ensure (schemes \<noteq> []) (NoSupportedSchemes (m_id m)))
        (\<lambda>_. try_then (cross_check_provides_schemes (m_id m) (m_provides_schemes m) schemes)
        (\<lambda>_. Inr (r\<lparr>secret_providers := secret_providers r @ [new_schemes_entry a m tier plugin]\<rparr>))))))"

definition register_config_provider_with_alias ::
  "string option \<Rightarrow> ('w, json) scheme_provider \<Rightarrow> string \<Rightarrow> 'w registry \<Rightarrow> (registry_error, 'w registry) rresult" where
  "register_config_provider_with_alias alias plugin tier r =
     (let m = sp_manifest plugin; a = unwrap_or (m_id m) alias; schemes = sp_supported_schemes plugin
      in try_then (admit r m a)
        (\<lambda>_. try_then (ensure (schemes \<noteq> []) (NoSupportedSchemes (m_id m)))
        (\<lambda>_. try_then (cross_check_provides_schemes (m_id m) (m_provides_schemes m) schemes)
        (\<lambda>_. Inr (r\<lparr>config_providers := config_providers r @ [new_schemes_entry a m tier plugin]\<rparr>)))))"

section \<open>Transports, policy engines, the cluster backend\<close>

definition register_transport_with_alias ::
  "string option \<Rightarrow> 'w plugin_object \<Rightarrow> string \<Rightarrow> 'w registry \<Rightarrow> (registry_error, 'w registry) rresult" where
  "register_transport_with_alias alias plugin tier r =
     (let m = po_manifest plugin; a = unwrap_or (m_id m) alias; name = po_name plugin
      in try_then (ensure (\<not> list_ex (has_id (m_id m)) (transports r)) (AlreadyRegistered (m_id m)))
        (\<lambda>_. try_then (admit r m a)
        (\<lambda>_. try_then (ensure (name \<noteq> []) (EmptyName (m_id m)))
        (\<lambda>_. case find (\<lambda>p. lp_name p = name) (transports r) of
               Some existing \<Rightarrow> Inl (NameAlreadyServed name (m_id (lp_manifest existing)) (m_id m))
             | None \<Rightarrow> Inr (r\<lparr>transports := transports r @
                 [\<lparr>lp_alias = a, lp_manifest = m, lp_tier = tier, lp_state = Active,
                   lp_instance = metered_transport plugin, lp_name = name\<rparr>]\<rparr>)))))"

definition register_policy_engine_with_alias ::
  "string option \<Rightarrow> 'w policy_engine \<Rightarrow> string \<Rightarrow> 'w registry \<Rightarrow> (registry_error, 'w registry) rresult" where
  "register_policy_engine_with_alias alias plugin tier r =
     (let m = pe_manifest plugin; a = unwrap_or (m_id m) alias; name = pe_name plugin
      in try_then (admit r m a)
        (\<lambda>_. try_then (ensure (name \<noteq> []) (EmptyName (m_id m)))
        (\<lambda>_. case find (\<lambda>p. lp_name p = name) (policy_engines r) of
               Some existing \<Rightarrow> Inl (NameAlreadyServed name (m_id (lp_manifest existing)) (m_id m))
             | None \<Rightarrow> Inr (r\<lparr>policy_engines := policy_engines r @
                 [\<lparr>lp_alias = a, lp_manifest = m, lp_tier = tier, lp_state = Active,
                   lp_instance = metered_policy_engine plugin, lp_name = name\<rparr>]\<rparr>))))"

definition register_cluster_backend_with_alias ::
  "string option \<Rightarrow> 'w plugin_object \<Rightarrow> string \<Rightarrow> nat option \<Rightarrow> 'w registry
    \<Rightarrow> (registry_error, 'w registry) rresult" where
  "register_cluster_backend_with_alias alias plugin tier ffi_ref r =
     (case cluster_backend r of
        Some existing \<Rightarrow> Inl (ClusterAlreadyRegistered (m_id (lp_manifest existing)) (m_id (po_manifest plugin)))
      | None \<Rightarrow>
         (let m = po_manifest plugin; a = unwrap_or (m_id m) alias
          in try_then (admit r m a)
            (\<lambda>_. Inr (r\<lparr>cluster_backend := Some
                 \<lparr>lp_alias = a, lp_manifest = m, lp_tier = tier, lp_state = Active,
                  lp_instance = metered_cluster_backend plugin, lp_ffi_ref = ffi_ref\<rparr>\<rparr>))))"

section \<open>Credential issuers and approval notifiers\<close>

definition register_credential_issuer_with_alias ::
  "string option \<Rightarrow> 'w plugin_object \<Rightarrow> string \<Rightarrow> 'w registry \<Rightarrow> (registry_error, 'w registry) rresult" where
  "register_credential_issuer_with_alias alias plugin tier r =
     (let m = po_manifest plugin; a = unwrap_or (m_id m) alias
      in try_then (ensure (map_of (credential_issuers r) (m_id m) = None) (AlreadyRegistered (m_id m)))
        (\<lambda>_. try_then (admit r m a)
        (\<lambda>_. Inr (r\<lparr>credential_issuers := bt_insert (m_id m)
               (base_entry a m tier (metered_credential_issuer plugin)) (credential_issuers r)\<rparr>))))"

definition register_approval_notifier_with_alias ::
  "string option \<Rightarrow> 'w plugin_object \<Rightarrow> string \<Rightarrow> 'w registry \<Rightarrow> (registry_error, 'w registry) rresult" where
  "register_approval_notifier_with_alias alias plugin tier r =
     (let m = po_manifest plugin; a = unwrap_or (m_id m) alias
      in try_then (ensure (map_of (approval_notifiers r) (m_id m) = None) (AlreadyRegistered (m_id m)))
        (\<lambda>_. try_then (admit r m a)
        (\<lambda>_. Inr (r\<lparr>approval_notifiers := bt_insert (m_id m)
               (base_entry a m tier (metered_approval_notifier plugin)) (approval_notifiers r)\<rparr>))))"

section \<open>What a registration does\<close>

text \<open>
  A successful registration of a plugin with manifest \<open>m\<close> under the alias \<open>a\<close>: both are added,
  the alias was free, the manifest is valid.
\<close>

definition registers :: "string \<Rightarrow> manifest \<Rightarrow> 'w registry \<Rightarrow> 'w registry \<Rightarrow> bool" where
  "registers a m r r' =
     (adds_entry a m r r' \<and> a \<notin> set (registry_aliases r) \<and> manifest_ok m)"

lemma admit_Inr [simp]: "admit r m a = Inr u \<longleftrightarrow> manifest_ok m \<and> a \<notin> set (registry_aliases r)"
  by (auto simp: admit_def validate_manifest_Inr)

lemma registers_wf:
  "registry_wf r \<Longrightarrow> registers a m r r' \<Longrightarrow> keyed_ok r' \<Longrightarrow> listed_ok r' \<Longrightarrow> registry_wf r'"
  by (auto simp: registers_def intro: adds_entry_wf)

lemmas registers_defs = registers_def adds_entry_def registry_aliases_def registry_manifests_def
  base_entry_def new_chain_entry_def new_schemes_entry_def

lemma mset_map_bt_insert:
  "map_of m k = None \<Longrightarrow> mset (map (f \<circ> snd) (bt_insert k v m)) = add_mset (f v) (mset (map (f \<circ> snd) m))"
  using bt_insert_fresh [of m k v] by auto

lemma list_ex_same_entity [simp]:
  "list_ex (same_entity i e) ps \<longleftrightarrow> (i, e) \<in> (\<lambda>p. (m_id (lp_manifest p), lp_entity_name p)) ` set ps"
  by (induction ps) (auto simp: same_entity_def)

lemma list_ex_has_id [simp]:
  "list_ex (has_id i) ps \<longleftrightarrow> i \<in> (\<lambda>p. m_id (lp_manifest p)) ` set ps"
  by (induction ps) (auto simp: has_id_def)

lemma find_name_None [simp]:
  "find (\<lambda>p. lp_name p = n) ps = None \<longleftrightarrow> n \<notin> lp_name ` set ps"
  by (auto simp: find_None_iff)

lemma bt_insert_setD: "e \<in> set (bt_insert k v m) \<Longrightarrow> e = (k, v) \<or> e \<in> set m"
  by (induction m) (auto split: if_splits)

lemma register_tool_gate_registers:
  "register_tool_gate_with_alias now alias p t c e r = Inr r' \<Longrightarrow>
    registers (unwrap_or (m_id (tg_manifest p)) alias) (tg_manifest p) r r'"
  by (auto simp: register_tool_gate_with_alias_def Let_def registers_defs)

lemma register_transform_registers:
  "register_transform_with_alias now alias p t c r = Inr r' \<Longrightarrow>
    registers (unwrap_or (m_id (tf_manifest p)) alias) (tf_manifest p) r r'"
  by (auto simp: register_transform_with_alias_def Let_def registers_defs)

lemma register_identity_registers:
  "register_identity_with_alias now alias p t c r = Inr r' \<Longrightarrow>
    registers (unwrap_or (m_id (ip_manifest p)) alias) (ip_manifest p) r r'"
  by (auto simp: register_identity_with_alias_def Let_def registers_defs)

lemma register_catalog_provider_registers:
  "register_catalog_provider_with_alias now alias p t c r = Inr r' \<Longrightarrow>
    registers (unwrap_or (m_id (po_manifest p)) alias) (po_manifest p) r r'"
  by (auto simp: register_catalog_provider_with_alias_def Let_def registers_defs)

lemma register_backend_registers:
  "register_backend_with_alias alias p t r = Inr r' \<Longrightarrow>
    registers (unwrap_or (m_id (po_manifest p)) alias) (po_manifest p) r r'"
  by (auto simp: register_backend_with_alias_def Let_def registers_defs hm_insert_fresh)

lemma register_content_store_registers:
  "register_content_store_with_alias alias p t r = Inr r' \<Longrightarrow>
    registers (unwrap_or (m_id (po_manifest p)) alias) (po_manifest p) r r'"
  by (auto simp: register_content_store_with_alias_def Let_def registers_defs hm_insert_fresh)

lemma register_watch_strategy_registers:
  "register_watch_strategy_with_alias alias p t r = Inr r' \<Longrightarrow>
    registers (unwrap_or (m_id (po_manifest p)) alias) (po_manifest p) r r'"
  by (auto simp: register_watch_strategy_with_alias_def Let_def registers_defs hm_insert_fresh)

lemma register_http_route_registers:
  "register_http_route_with_alias_and_overrides alias n p t ov caps r = Inr r' \<Longrightarrow>
    registers (unwrap_or n alias) (po_manifest p) r r'"
  by (auto simp: register_http_route_with_alias_and_overrides_def Let_def registers_defs)

lemma register_audit_sink_registers:
  "register_audit_sink_with_alias alias p t r = Inr r' \<Longrightarrow>
    registers (unwrap_or (m_id (as_manifest p)) alias) (as_manifest p) r r'"
  by (auto simp: register_audit_sink_with_alias_def Let_def registers_defs)

lemma register_store_registers:
  "register_store_with_alias alias p t r = Inr r' \<Longrightarrow>
    registers (unwrap_or (m_id (po_manifest p)) alias) (po_manifest p) r r'"
  by (auto simp: register_store_with_alias_def Let_def registers_defs)

lemma register_cache_registers:
  "register_cache_with_alias alias p t r = Inr r' \<Longrightarrow>
    registers (unwrap_or (m_id (po_manifest p)) alias) (po_manifest p) r r'"
  by (auto simp: register_cache_with_alias_def Let_def registers_defs)

lemma register_telemetry_sink_registers:
  "register_telemetry_sink_with_alias alias p t r = Inr r' \<Longrightarrow>
    registers (unwrap_or (m_id (es_manifest p)) alias) (es_manifest p) r r'"
  by (auto simp: register_telemetry_sink_with_alias_def Let_def registers_defs)

lemma register_log_sink_registers:
  "register_log_sink_with_alias alias p t r = Inr r' \<Longrightarrow>
    registers (unwrap_or (m_id (es_manifest p)) alias) (es_manifest p) r r'"
  by (auto simp: register_log_sink_with_alias_def Let_def registers_defs)

lemma register_metrics_sink_registers:
  "register_metrics_sink_with_alias alias p t r = Inr r' \<Longrightarrow>
    registers (unwrap_or (m_id (es_manifest p)) alias) (es_manifest p) r r'"
  by (auto simp: register_metrics_sink_with_alias_def Let_def registers_defs)

lemma register_secret_provider_registers:
  "register_secret_provider_with_alias alias p t r = Inr r' \<Longrightarrow>
    registers (unwrap_or (m_id (sp_manifest p)) alias) (sp_manifest p) r r'"
  by (auto simp: register_secret_provider_with_alias_def Let_def registers_defs)

lemma register_config_provider_registers:
  "register_config_provider_with_alias alias p t r = Inr r' \<Longrightarrow>
    registers (unwrap_or (m_id (sp_manifest p)) alias) (sp_manifest p) r r'"
  by (auto simp: register_config_provider_with_alias_def Let_def registers_defs)

lemma register_transport_registers:
  "register_transport_with_alias alias p t r = Inr r' \<Longrightarrow>
    registers (unwrap_or (m_id (po_manifest p)) alias) (po_manifest p) r r'"
  by (auto simp: register_transport_with_alias_def Let_def registers_defs split: option.splits)

lemma register_policy_engine_registers:
  "register_policy_engine_with_alias alias p t r = Inr r' \<Longrightarrow>
    registers (unwrap_or (m_id (pe_manifest p)) alias) (pe_manifest p) r r'"
  by (auto simp: register_policy_engine_with_alias_def Let_def registers_defs split: option.splits)

lemma register_cluster_backend_registers:
  "register_cluster_backend_with_alias alias p t f r = Inr r' \<Longrightarrow>
    registers (unwrap_or (m_id (po_manifest p)) alias) (po_manifest p) r r'"
  by (auto simp: register_cluster_backend_with_alias_def Let_def registers_defs split: option.splits)

lemma register_credential_issuer_registers:
  "register_credential_issuer_with_alias alias p t r = Inr r' \<Longrightarrow>
    registers (unwrap_or (m_id (po_manifest p)) alias) (po_manifest p) r r'"
  by (auto simp: register_credential_issuer_with_alias_def Let_def registers_defs mset_map_bt_insert
      simp del: mset_map)

lemma register_approval_notifier_registers:
  "register_approval_notifier_with_alias alias p t r = Inr r' \<Longrightarrow>
    registers (unwrap_or (m_id (po_manifest p)) alias) (po_manifest p) r r'"
  by (auto simp: register_approval_notifier_with_alias_def Let_def registers_defs mset_map_bt_insert
      simp del: mset_map)

lemma register_tool_gate_wf:
  assumes reg: "register_tool_gate_with_alias now alias p t c e r = Inr r'" and wf: "registry_wf r"
  shows "registry_wf r'"
proof (rule registers_wf [OF wf register_tool_gate_registers [OF reg]])
  show "keyed_ok r'" using reg wf
    by (auto simp: register_tool_gate_with_alias_def Let_def registry_wf_def keyed_ok_def)
  show "listed_ok r'" using reg wf
    by (auto simp: register_tool_gate_with_alias_def Let_def registry_wf_def listed_ok_def)
qed

lemma register_transform_wf:
  assumes reg: "register_transform_with_alias now alias p t c r = Inr r'" and wf: "registry_wf r"
  shows "registry_wf r'"
proof (rule registers_wf [OF wf register_transform_registers [OF reg]])
  show "keyed_ok r'" using reg wf
    by (auto simp: register_transform_with_alias_def Let_def registry_wf_def keyed_ok_def)
  show "listed_ok r'" using reg wf
    by (auto simp: register_transform_with_alias_def Let_def registry_wf_def listed_ok_def)
qed

lemma register_identity_wf:
  assumes reg: "register_identity_with_alias now alias p t c r = Inr r'" and wf: "registry_wf r"
  shows "registry_wf r'"
proof (rule registers_wf [OF wf register_identity_registers [OF reg]])
  show "keyed_ok r'" using reg wf
    by (auto simp: register_identity_with_alias_def Let_def registry_wf_def keyed_ok_def)
  show "listed_ok r'" using reg wf
    by (auto simp: register_identity_with_alias_def Let_def registry_wf_def listed_ok_def)
qed

lemma register_catalog_provider_wf:
  assumes reg: "register_catalog_provider_with_alias now alias p t c r = Inr r'" and wf: "registry_wf r"
  shows "registry_wf r'"
proof (rule registers_wf [OF wf register_catalog_provider_registers [OF reg]])
  show "keyed_ok r'" using reg wf
    by (auto simp: register_catalog_provider_with_alias_def Let_def registry_wf_def keyed_ok_def)
  show "listed_ok r'" using reg wf
    by (auto simp: register_catalog_provider_with_alias_def Let_def registry_wf_def listed_ok_def)
qed

lemma register_backend_wf:
  assumes reg: "register_backend_with_alias alias p t r = Inr r'" and wf: "registry_wf r"
  shows "registry_wf r'"
proof (rule registers_wf [OF wf register_backend_registers [OF reg]])
  show "keyed_ok r'" using reg wf
    by (auto simp: register_backend_with_alias_def Let_def registry_wf_def keyed_ok_def hm_insert_fresh map_of_eq_None_iff)
  show "listed_ok r'" using reg wf
    by (auto simp: register_backend_with_alias_def Let_def registry_wf_def listed_ok_def)
qed

lemma register_content_store_wf:
  assumes reg: "register_content_store_with_alias alias p t r = Inr r'" and wf: "registry_wf r"
  shows "registry_wf r'"
proof (rule registers_wf [OF wf register_content_store_registers [OF reg]])
  show "keyed_ok r'" using reg wf
    by (auto simp: register_content_store_with_alias_def Let_def registry_wf_def keyed_ok_def hm_insert_fresh map_of_eq_None_iff)
  show "listed_ok r'" using reg wf
    by (auto simp: register_content_store_with_alias_def Let_def registry_wf_def listed_ok_def)
qed

lemma register_watch_strategy_wf:
  assumes reg: "register_watch_strategy_with_alias alias p t r = Inr r'" and wf: "registry_wf r"
  shows "registry_wf r'"
proof (rule registers_wf [OF wf register_watch_strategy_registers [OF reg]])
  show "keyed_ok r'" using reg wf
    by (auto simp: register_watch_strategy_with_alias_def Let_def registry_wf_def keyed_ok_def hm_insert_fresh map_of_eq_None_iff)
  show "listed_ok r'" using reg wf
    by (auto simp: register_watch_strategy_with_alias_def Let_def registry_wf_def listed_ok_def)
qed

lemma register_http_route_wf:
  assumes reg: "register_http_route_with_alias_and_overrides alias n p t ov caps r = Inr r'" and wf: "registry_wf r"
  shows "registry_wf r'"
proof (rule registers_wf [OF wf register_http_route_registers [OF reg]])
  show "keyed_ok r'" using reg wf
    by (auto simp: register_http_route_with_alias_and_overrides_def Let_def registry_wf_def keyed_ok_def)
  show "listed_ok r'" using reg wf
    by (auto simp: register_http_route_with_alias_and_overrides_def Let_def registry_wf_def listed_ok_def)
qed

lemma register_audit_sink_wf:
  assumes reg: "register_audit_sink_with_alias alias p t r = Inr r'" and wf: "registry_wf r"
  shows "registry_wf r'"
proof (rule registers_wf [OF wf register_audit_sink_registers [OF reg]])
  show "keyed_ok r'" using reg wf
    by (auto simp: register_audit_sink_with_alias_def Let_def registry_wf_def keyed_ok_def)
  show "listed_ok r'" using reg wf
    by (auto simp: register_audit_sink_with_alias_def Let_def registry_wf_def listed_ok_def)
qed

lemma register_store_wf:
  assumes reg: "register_store_with_alias alias p t r = Inr r'" and wf: "registry_wf r"
  shows "registry_wf r'"
proof (rule registers_wf [OF wf register_store_registers [OF reg]])
  show "keyed_ok r'" using reg wf
    by (auto simp: register_store_with_alias_def Let_def registry_wf_def keyed_ok_def)
  show "listed_ok r'" using reg wf
    by (auto simp: register_store_with_alias_def Let_def registry_wf_def listed_ok_def)
qed

lemma register_cache_wf:
  assumes reg: "register_cache_with_alias alias p t r = Inr r'" and wf: "registry_wf r"
  shows "registry_wf r'"
proof (rule registers_wf [OF wf register_cache_registers [OF reg]])
  show "keyed_ok r'" using reg wf
    by (auto simp: register_cache_with_alias_def Let_def registry_wf_def keyed_ok_def)
  show "listed_ok r'" using reg wf
    by (auto simp: register_cache_with_alias_def Let_def registry_wf_def listed_ok_def)
qed

lemma register_telemetry_sink_wf:
  assumes reg: "register_telemetry_sink_with_alias alias p t r = Inr r'" and wf: "registry_wf r"
  shows "registry_wf r'"
proof (rule registers_wf [OF wf register_telemetry_sink_registers [OF reg]])
  show "keyed_ok r'" using reg wf
    by (auto simp: register_telemetry_sink_with_alias_def Let_def registry_wf_def keyed_ok_def)
  show "listed_ok r'" using reg wf
    by (auto simp: register_telemetry_sink_with_alias_def Let_def registry_wf_def listed_ok_def)
qed

lemma register_log_sink_wf:
  assumes reg: "register_log_sink_with_alias alias p t r = Inr r'" and wf: "registry_wf r"
  shows "registry_wf r'"
proof (rule registers_wf [OF wf register_log_sink_registers [OF reg]])
  show "keyed_ok r'" using reg wf
    by (auto simp: register_log_sink_with_alias_def Let_def registry_wf_def keyed_ok_def)
  show "listed_ok r'" using reg wf
    by (auto simp: register_log_sink_with_alias_def Let_def registry_wf_def listed_ok_def)
qed

lemma register_metrics_sink_wf:
  assumes reg: "register_metrics_sink_with_alias alias p t r = Inr r'" and wf: "registry_wf r"
  shows "registry_wf r'"
proof (rule registers_wf [OF wf register_metrics_sink_registers [OF reg]])
  show "keyed_ok r'" using reg wf
    by (auto simp: register_metrics_sink_with_alias_def Let_def registry_wf_def keyed_ok_def)
  show "listed_ok r'" using reg wf
    by (auto simp: register_metrics_sink_with_alias_def Let_def registry_wf_def listed_ok_def)
qed

lemma register_secret_provider_wf:
  assumes reg: "register_secret_provider_with_alias alias p t r = Inr r'" and wf: "registry_wf r"
  shows "registry_wf r'"
proof (rule registers_wf [OF wf register_secret_provider_registers [OF reg]])
  show "keyed_ok r'" using reg wf
    by (auto simp: register_secret_provider_with_alias_def Let_def registry_wf_def keyed_ok_def)
  show "listed_ok r'" using reg wf
    by (auto simp: register_secret_provider_with_alias_def Let_def registry_wf_def listed_ok_def new_schemes_entry_def)
qed

lemma register_config_provider_wf:
  assumes reg: "register_config_provider_with_alias alias p t r = Inr r'" and wf: "registry_wf r"
  shows "registry_wf r'"
proof (rule registers_wf [OF wf register_config_provider_registers [OF reg]])
  show "keyed_ok r'" using reg wf
    by (auto simp: register_config_provider_with_alias_def Let_def registry_wf_def keyed_ok_def)
  show "listed_ok r'" using reg wf
    by (auto simp: register_config_provider_with_alias_def Let_def registry_wf_def listed_ok_def new_schemes_entry_def)
qed

lemma register_transport_wf:
  assumes reg: "register_transport_with_alias alias p t r = Inr r'" and wf: "registry_wf r"
  shows "registry_wf r'"
proof (rule registers_wf [OF wf register_transport_registers [OF reg]])
  show "keyed_ok r'" using reg wf
    by (auto simp: register_transport_with_alias_def Let_def registry_wf_def keyed_ok_def split: option.splits)
  show "listed_ok r'" using reg wf
    by (auto simp: register_transport_with_alias_def Let_def registry_wf_def listed_ok_def split: option.splits)
qed

lemma register_policy_engine_wf:
  assumes reg: "register_policy_engine_with_alias alias p t r = Inr r'" and wf: "registry_wf r"
  shows "registry_wf r'"
proof (rule registers_wf [OF wf register_policy_engine_registers [OF reg]])
  show "keyed_ok r'" using reg wf
    by (auto simp: register_policy_engine_with_alias_def Let_def registry_wf_def keyed_ok_def split: option.splits)
  show "listed_ok r'" using reg wf
    by (auto simp: register_policy_engine_with_alias_def Let_def registry_wf_def listed_ok_def split: option.splits)
qed

lemma register_cluster_backend_wf:
  assumes reg: "register_cluster_backend_with_alias alias p t f r = Inr r'" and wf: "registry_wf r"
  shows "registry_wf r'"
proof (rule registers_wf [OF wf register_cluster_backend_registers [OF reg]])
  show "keyed_ok r'" using reg wf
    by (auto simp: register_cluster_backend_with_alias_def Let_def registry_wf_def keyed_ok_def split: option.splits)
  show "listed_ok r'" using reg wf
    by (auto simp: register_cluster_backend_with_alias_def Let_def registry_wf_def listed_ok_def split: option.splits)
qed

lemma register_credential_issuer_wf:
  assumes reg: "register_credential_issuer_with_alias alias p t r = Inr r'" and wf: "registry_wf r"
  shows "registry_wf r'"
proof (rule registers_wf [OF wf register_credential_issuer_registers [OF reg]])
  show "keyed_ok r'" using reg wf
    by (auto simp: register_credential_issuer_with_alias_def Let_def registry_wf_def keyed_ok_def base_entry_def bt_insert_sorted
        dest!: bt_insert_setD)
  show "listed_ok r'" using reg wf
    by (auto simp: register_credential_issuer_with_alias_def Let_def registry_wf_def listed_ok_def)
qed

lemma register_approval_notifier_wf:
  assumes reg: "register_approval_notifier_with_alias alias p t r = Inr r'" and wf: "registry_wf r"
  shows "registry_wf r'"
proof (rule registers_wf [OF wf register_approval_notifier_registers [OF reg]])
  show "keyed_ok r'" using reg wf
    by (auto simp: register_approval_notifier_with_alias_def Let_def registry_wf_def keyed_ok_def base_entry_def bt_insert_sorted
        dest!: bt_insert_setD)
  show "listed_ok r'" using reg wf
    by (auto simp: register_approval_notifier_with_alias_def Let_def registry_wf_def listed_ok_def)
qed

end
