(* ===== verification/Samples.thy ===== *)
theory Samples
  imports Protocol
begin

text \<open>
  Concrete plugin objects for the witnesses: manifests, providers, gates and sinks over a world that
  is the list of the calls made so far. They model no code; each witness applies its theorem to them.
\<close>

type_synonym trace = "string list"

definition pure_fut :: "'a \<Rightarrow> ('w, 'a) fut" where
  "pure_fut a = \<lparr>await = (\<lambda>w. (a, w)), await_within = (\<lambda>n w. (Some a, w))\<rparr>"

text \<open>A call that leaves its name in the trace.\<close>

definition traced_fut :: "string \<Rightarrow> 'a \<Rightarrow> (trace, 'a) fut" where
  "traced_fut s a = \<lparr>await = (\<lambda>w. (a, w @ [s])), await_within = (\<lambda>n w. (Some a, w @ [s]))\<rparr>"

definition sample_manifest :: "string \<Rightarrow> manifest" where
  "sample_manifest i = \<lparr>m_id = i, m_version = ''1.0.0'', m_name = i, m_plugin_class = [],
     m_protocol_version = ''1.0'', m_required_capabilities = [], m_provides = [], m_provides_schemes = [],
     m_module_path_prefix = [], m_backend_profile = None\<rparr>"

definition sample_scheme_provider :: "string \<Rightarrow> string list \<Rightarrow> (trace, 'v) scheme_provider" where
  "sample_scheme_provider i schemes = \<lparr>sp_manifest = sample_manifest i, sp_supported_schemes = schemes,
     sp_fetch = (\<lambda>ref. traced_fut ref (Inl (FetchBackend ''offline''))), sp_shutdown = traced_fut i ()\<rparr>"

definition sample_object :: "string \<Rightarrow> string \<Rightarrow> string list \<Rightarrow> trace plugin_object" where
  "sample_object i name names = \<lparr>po_manifest = sample_manifest i, po_object = 0, po_name = name,
     po_names = names, po_serves_any = False, po_routes = [], po_shutdown = traced_fut i ()\<rparr>"

lemmas sample_simps = sample_manifest_def sample_scheme_provider_def sample_object_def pure_fut_def traced_fut_def

definition sample_env :: "trace host_env" where
  "sample_env = \<lparr>clock_ms = length, gate_allow = Allow None None None,
     policy_not_applicable = (\<lambda>v. \<lparr>pd_effect = EffNotApplicable, pd_reason = None, pd_policy_version = v\<rparr>),
     cap_kind = (\<lambda>c. case c of HttpRouteServe \<Rightarrow> ''http_route_serve'' | OtherCapability k _ \<Rightarrow> k),
     panic_deny_code = - 32099, panic_transform_msg = ''panicked'', panic_identity_msg = ''panicked'',
     default_request_metadata = JNull, mint_event = (\<lambda>w. ((''id'', ''now''), w)),
     keyed_blake3_hex = (\<lambda>k v. k @ v), blake3_hex = (\<lambda>v. v), json_to_bytes = (\<lambda>v. []),
     with_upstream = (\<lambda>e u. e\<lparr>ev_upstream_request_id := u\<rparr>)\<rparr>"

definition sample_identity :: identity where
  "sample_identity = \<lparr>id_kind = ''user'', id_trust_level = ''verified'', id_subject_id = Some ''alice'',
     id_auth_provider = None, id_issuer = None, id_roles = [], id_groups = [], id_scopes = [],
     id_attributes = [(''authorization_details'', ''amount=5''), (''team'', ''red'')]\<rparr>"

definition sample_context :: plugin_context where
  "sample_context = \<lparr>cx_request_id = ''r1'', cx_session_id = None, cx_tool_name = ''echo'', cx_surface = ''tool'',
     cx_transport = ''http'', cx_identity = sample_identity\<rparr>"

definition sample_event :: audit_event where
  "sample_event = \<lparr>ev_event_id = ''id'', ev_occurred_at = ''now'', ev_actor = sample_identity,
     ev_action = ''mcpg.tool.call.allowed'', ev_resource = None, ev_outcome = Success, ev_request_id = None,
     ev_upstream_request_id = None, ev_node_id = None, ev_details = JNull, ev_prev_event_hash = None\<rparr>"

text \<open>An audit sink that always answers the same.\<close>

definition sample_audit_sink :: "string \<Rightarrow> audit_error + audit_receipt \<Rightarrow> trace audit_sink" where
  "sample_audit_sink i res = \<lparr>as_manifest = sample_manifest i, as_emit = (\<lambda>e. traced_fut i res),
     as_flush = (\<lambda>n. pure_fut (Inr ())), as_shutdown = traced_fut i ()\<rparr>"

text \<open>A gate that always decides the same, before and after dispatch.\<close>

definition sample_gate :: "string \<Rightarrow> gate_decision \<Rightarrow> trace tool_gate_plugin" where
  "sample_gate i d = \<lparr>tg_manifest = sample_manifest i,
     tg_evaluate_pre_dispatch = (\<lambda>ctx args meta config. traced_fut i d),
     tg_evaluate_post_dispatch = (\<lambda>ctx args result ms config. traced_fut i d), tg_shutdown = traced_fut i ()\<rparr>"

definition sample_transform :: "string \<Rightarrow> transform_result \<Rightarrow> trace transform_plugin" where
  "sample_transform i t = \<lparr>tf_manifest = sample_manifest i,
     tf_transform_arguments = (\<lambda>ctx v config. traced_fut i t),
     tf_transform_result = (\<lambda>ctx v config. traced_fut i t), tf_shutdown = traced_fut i ()\<rparr>"

definition sample_identity_plugin :: "string \<Rightarrow> identity_resolution \<Rightarrow> trace identity_plugin" where
  "sample_identity_plugin i res = \<lparr>ip_manifest = sample_manifest i,
     ip_resolve_identity = (\<lambda>headers metadata config. traced_fut i res), ip_shutdown = traced_fut i ()\<rparr>"

definition sample_policy_engine :: "string \<Rightarrow> policy_effect \<Rightarrow> trace policy_engine" where
  "sample_policy_engine i e = \<lparr>pe_manifest = sample_manifest i, pe_name = i,
     pe_evaluate = (\<lambda>point input ctx. traced_fut i \<lparr>pd_effect = e, pd_reason = None, pd_policy_version = ''v1''\<rparr>),
     pe_shutdown = traced_fut i ()\<rparr>"

end
