(* ===== verification/Bindings.thy ===== *)
theory Bindings
  imports Registration Samples
begin

text \<open>
  Role, namespace and scheme bindings of the registry (\<open>bind_store_role\<close>, \<open>bind_cache_namespace\<close>,
  \<open>bind_secret_scheme\<close>, \<open>bind_config_scheme\<close>), the two auto-bind sweeps, the reserved-scheme guard
  with \<open>uri_routing::RESERVED_SCHEMES\<close>, the lookups that read the tables, and the operator setters.

  The four binding tables share one contract, the locale \<open>binding_table\<close>; each is an
  interpretation of it, and the sweeps are its clients.
\<close>

section \<open>Binding\<close>

definition bind_store_role ::
  "string \<Rightarrow> string \<Rightarrow> 'w registry \<Rightarrow> (registry_error, 'w registry) rresult" where
  "bind_store_role role plugin_id r =
     (case find_id plugin_id (stores r) of
        None \<Rightarrow> Inl (BindUnregistered plugin_id)
      | Some p \<Rightarrow>
         try_then (ensure (serving p) (BindNotServing plugin_id (lp_state p)))
         (\<lambda>_. try_then (ensure (role \<in> set (lp_supported_roles p)) (BindUnsupported plugin_id role))
         (\<lambda>_. Inr (r\<lparr>store_bindings := bt_insert role (metered_store (lp_instance p)) (store_bindings r)\<rparr>))))"

definition bind_cache_namespace ::
  "string \<Rightarrow> string \<Rightarrow> 'w registry \<Rightarrow> (registry_error, 'w registry) rresult" where
  "bind_cache_namespace namespace plugin_id r =
     (case find_id plugin_id (caches r) of
        None \<Rightarrow> Inl (BindUnregistered plugin_id)
      | Some p \<Rightarrow>
         try_then (ensure (serving p) (BindNotServing plugin_id (lp_state p)))
         (\<lambda>_. try_then (ensure (lp_serves_any p \<or> namespace \<in> set (lp_supported_namespaces p))
                (BindUnsupported plugin_id namespace))
         (\<lambda>_. Inr (r\<lparr>cache_bindings := bt_insert namespace (metered_cache (lp_instance p)) (cache_bindings r)\<rparr>))))"

definition RESERVED_SCHEMES :: "string list" where
  "RESERVED_SCHEMES = [''env'', ''file'']"

definition is_builtin_id :: "string \<Rightarrow> bool" where
  "is_builtin_id i = starts_with i ''dev.mcpg.builtin.''"

definition reject_reserved_scheme :: "string \<Rightarrow> string \<Rightarrow> (registry_error, unit) rresult" where
  "reject_reserved_scheme scheme plugin_id =
     (if scheme \<in> set RESERVED_SCHEMES \<and> \<not> is_builtin_id plugin_id
      then Inl (ReservedScheme scheme plugin_id) else Inr ())"

definition bind_secret_scheme ::
  "string \<Rightarrow> string \<Rightarrow> 'w registry \<Rightarrow> (registry_error, 'w registry) rresult" where
  "bind_secret_scheme scheme plugin_id r =
     try_then (reject_reserved_scheme scheme plugin_id)
     (\<lambda>_. case find_id plugin_id (secret_providers r) of
        None \<Rightarrow> Inl (BindUnregistered plugin_id)
      | Some p \<Rightarrow>
         try_then (ensure (serving p) (BindNotServing plugin_id (lp_state p)))
         (\<lambda>_. try_then (ensure (scheme \<in> set (lp_supported_schemes p)) (BindUnsupported plugin_id scheme))
         (\<lambda>_. Inr (r\<lparr>secret_scheme_bindings :=
                bt_insert scheme (metered_secret_provider (lp_instance p)) (secret_scheme_bindings r)\<rparr>))))"

definition bind_config_scheme ::
  "string \<Rightarrow> string \<Rightarrow> 'w registry \<Rightarrow> (registry_error, 'w registry) rresult" where
  "bind_config_scheme scheme plugin_id r =
     try_then (reject_reserved_scheme scheme plugin_id)
     (\<lambda>_. case find_id plugin_id (config_providers r) of
        None \<Rightarrow> Inl (BindUnregistered plugin_id)
      | Some p \<Rightarrow>
         try_then (ensure (serving p) (BindNotServing plugin_id (lp_state p)))
         (\<lambda>_. try_then (ensure (scheme \<in> set (lp_supported_schemes p)) (BindUnsupported plugin_id scheme))
         (\<lambda>_. Inr (r\<lparr>config_scheme_bindings :=
                bt_insert scheme (metered_config_provider (lp_instance p)) (config_scheme_bindings r)\<rparr>))))"

section \<open>Lookups\<close>

definition store_for_role :: "'w registry \<Rightarrow> string \<Rightarrow> 'w plugin_object option" where
  "store_for_role r role = map_of (store_bindings r) role"

definition bound_store_roles :: "'w registry \<Rightarrow> (string \<times> string) list" where
  "bound_store_roles r = map (\<lambda>(role, p). (role, m_id (po_manifest p))) (store_bindings r)"

definition store_by_id :: "'w registry \<Rightarrow> string \<Rightarrow> 'w plugin_object option" where
  "store_by_id r plugin_id = map_option lp_instance (find_id plugin_id (stores r))"

definition cache_for_namespace :: "'w registry \<Rightarrow> string \<Rightarrow> 'w plugin_object option" where
  "cache_for_namespace r ns = map_of (cache_bindings r) ns"

definition bound_cache_namespaces :: "'w registry \<Rightarrow> (string \<times> string) list" where
  "bound_cache_namespaces r = map (\<lambda>(ns, p). (ns, m_id (po_manifest p))) (cache_bindings r)"

definition secret_provider_for_scheme :: "'w registry \<Rightarrow> string \<Rightarrow> ('w, string) scheme_provider option" where
  "secret_provider_for_scheme r scheme = map_of (secret_scheme_bindings r) scheme"

definition bound_secret_schemes :: "'w registry \<Rightarrow> (string \<times> string) list" where
  "bound_secret_schemes r = map (\<lambda>(s, p). (s, m_id (sp_manifest p))) (secret_scheme_bindings r)"

definition config_provider_for_scheme :: "'w registry \<Rightarrow> string \<Rightarrow> ('w, json) scheme_provider option" where
  "config_provider_for_scheme r scheme = map_of (config_scheme_bindings r) scheme"

definition bound_config_schemes :: "'w registry \<Rightarrow> (string \<times> string) list" where
  "bound_config_schemes r = map (\<lambda>(s, p). (s, m_id (sp_manifest p))) (config_scheme_bindings r)"

text \<open>
  \<open>resolve_secret\<close> and \<open>snapshot_config\<close>: \<open>parse_ref\<close> stands for the protocol crate's
  \<open>parse_secret_ref\<close> / \<open>parse_config_ref\<close>, which split a \<open>scheme://path\<close> URI.
\<close>

definition resolve_secret ::
  "(string \<Rightarrow> (string \<times> string) option) \<Rightarrow> 'w registry \<Rightarrow> string \<Rightarrow> 'w
    \<Rightarrow> (fetch_error + string) \<times> 'w" where
  "resolve_secret parse_ref r secret_ref w =
     (case parse_ref secret_ref of
        None \<Rightarrow> (Inl (InvalidReference (''not a valid scheme://path URI: '' @ [CHR 0x27] @ secret_ref @ [CHR 0x27])), w)
      | Some (scheme, _) \<Rightarrow>
         (case secret_provider_for_scheme r scheme of
            None \<Rightarrow> (Inl (UnsupportedScheme scheme), w)
          | Some p \<Rightarrow> await (sp_fetch p secret_ref) w))"

definition snapshot_config ::
  "(string \<Rightarrow> (string \<times> string) option) \<Rightarrow> 'w registry \<Rightarrow> string \<Rightarrow> 'w
    \<Rightarrow> (fetch_error + json) \<times> 'w" where
  "snapshot_config parse_ref r reference w =
     (case parse_ref reference of
        None \<Rightarrow> (Inl (InvalidReference (''not a valid scheme://path URI: '' @ [CHR 0x27] @ reference @ [CHR 0x27])), w)
      | Some (scheme, _) \<Rightarrow>
         (case config_provider_for_scheme r scheme of
            None \<Rightarrow> (Inl (UnsupportedScheme scheme), w)
          | Some p \<Rightarrow> await (sp_fetch p reference) w))"

section \<open>Auto-binding\<close>

definition scheme_pairs :: "'i schemes_entry list \<Rightarrow> (string \<times> string) list" where
  "scheme_pairs ps = concat (map (\<lambda>p. map (\<lambda>s. (s, m_id (lp_manifest p))) (lp_supported_schemes p)) ps)"

text \<open>\<open>claimants.entry(scheme).or_default().push(plugin_id)\<close> over all pairs.\<close>

definition add_claim :: "string \<times> string \<Rightarrow> (string, string list) bmap \<Rightarrow> (string, string list) bmap" where
  "add_claim si m = bt_insert (fst si) (unwrap_or [] (map_of m (fst si)) @ [snd si]) m"

definition claimants :: "(string \<times> string) list \<Rightarrow> (string, string list) bmap" where
  "claimants pairs = fold add_claim pairs []"

definition check_claims :: "(string \<times> string) list \<Rightarrow> (registry_error, unit) rresult" where
  "check_claims pairs =
     (case find (\<lambda>(s, ids). length ids > 1) (claimants pairs) of
        Some (s, ids) \<Rightarrow> Inl (SchemeConflict s ids)
      | None \<Rightarrow> Inr ())"

fun bind_pairs ::
  "('r \<Rightarrow> string \<Rightarrow> bool) \<Rightarrow> (string \<Rightarrow> string \<Rightarrow> 'r \<Rightarrow> ('e, 'r) rresult)
    \<Rightarrow> (string \<times> string) list \<Rightarrow> 'r \<Rightarrow> ('e, 'r) rresult" where
  "bind_pairs has bind [] r = Inr r"
| "bind_pairs has bind ((s, i) # ps) r =
     (if has r s then bind_pairs has bind ps r
      else try_then (bind s i r) (\<lambda>r'. bind_pairs has bind ps r'))"

definition auto_bind_secret_provider_schemes ::
  "'w registry \<Rightarrow> (registry_error, 'w registry) rresult" where
  "auto_bind_secret_provider_schemes r =
     (let pairs = scheme_pairs (secret_providers r)
      in try_then (check_claims pairs)
        (\<lambda>_. bind_pairs (\<lambda>r s. map_of (secret_scheme_bindings r) s \<noteq> None) bind_secret_scheme pairs r))"

definition auto_bind_config_provider_schemes ::
  "'w registry \<Rightarrow> (registry_error, 'w registry) rresult" where
  "auto_bind_config_provider_schemes r =
     (let pairs = scheme_pairs (config_providers r)
      in try_then (check_claims pairs)
        (\<lambda>_. bind_pairs (\<lambda>r s. map_of (config_scheme_bindings r) s \<noteq> None) bind_config_scheme pairs r))"

section \<open>The contract of a binding table\<close>

text \<open>
  \<open>bound\<close> reads the table, \<open>provider r k i\<close> is the object plugin \<open>i\<close> may serve key \<open>k\<close> with (absent
  when the plugin is unknown, not serving, does not support the key or is refused the key).
\<close>

locale binding_table =
  fixes bind :: "string \<Rightarrow> string \<Rightarrow> 'r \<Rightarrow> (registry_error, 'r) rresult"
    and bound :: "'r \<Rightarrow> string \<Rightarrow> 'i option"
    and provider :: "'r \<Rightarrow> string \<Rightarrow> string \<Rightarrow> 'i option"
  assumes bind_iff_provider: "(\<exists>r'. bind k i r = Inr r') \<longleftrightarrow> provider r k i \<noteq> None"
    and bind_bound: "bind k i r = Inr r' \<Longrightarrow> bound r' = (bound r)(k := provider r k i)"
    and bind_provider: "bind k i r = Inr r' \<Longrightarrow> provider r' = provider r"
begin

lemma bind_Inr: "bind k i r = Inr r' \<Longrightarrow> bound r' k = provider r k i \<and> provider r k i \<noteq> None"
  using bind_iff_provider bind_bound by (metis fun_upd_same)

lemma bind_update: "bind k i r = Inr r' \<Longrightarrow> provider r k i \<noteq> None \<and> bound r' = (bound r)(k := provider r k i)"
  using bind_Inr bind_bound by blast

lemma bind_is_err: "is_err (bind k i r) \<longleftrightarrow> provider r k i = None"
  using bind_iff_provider [of k i r] by (cases "bind k i r") auto

lemma rebind_last_wins:
  "bind k i r = Inr r1 \<Longrightarrow> bind k j r1 = Inr r2 \<Longrightarrow> bound r2 k = provider r k j"
  using bind_bound bind_provider by (metis fun_upd_same)

text \<open>A sweep keeps what is bound and binds each other key to its provider.\<close>

lemma bind_pairs_sound:
  assumes "bind_pairs (\<lambda>r s. bound r s \<noteq> None) bind ps r = Inr r'" and "distinct (map fst ps)"
  shows "provider r' = provider r \<and>
    (\<forall>k. bound r' k =
      (case bound r k of
         Some p \<Rightarrow> Some p
       | None \<Rightarrow> (case map_of ps k of None \<Rightarrow> None | Some i \<Rightarrow> provider r k i)))"
  using assms
proof (induction ps arbitrary: r)
  case (Cons p ps)
  obtain s i where p: "p = (s, i)" by (cases p)
  show ?case
  proof (cases "bound r s")
    case (Some q)
    with Cons p show ?thesis by (force split: option.splits)
  next
    case None
    with Cons.prems p obtain r1 where b: "bind s i r = Inr r1"
      and rest: "bind_pairs (\<lambda>r s. bound r s \<noteq> None) bind ps r1 = Inr r'" by auto
    from Cons.IH [OF rest] Cons.prems p
    have IH: "provider r' = provider r1" "\<And>k. bound r' k = (case bound r1 k of Some p \<Rightarrow> Some p
        | None \<Rightarrow> (case map_of ps k of None \<Rightarrow> None | Some i \<Rightarrow> provider r1 k i))" by auto
    from b have r1: "bound r1 = (bound r)(s := provider r s i)" "provider r1 = provider r"
      "provider r s i \<noteq> None" using bind_bound bind_provider bind_Inr by auto
    from Cons.prems p have "map_of ps s = None" by (auto simp: map_of_eq_None_iff)
    with IH r1 None p show ?thesis by (auto split: option.splits)
  qed
qed (auto split: option.splits)

text \<open>It succeeds when each key that is not bound has a provider.\<close>

lemma bind_pairs_complete:
  assumes "\<And>k i. (k, i) \<in> set ps \<Longrightarrow> bound r k = None \<Longrightarrow> provider r k i \<noteq> None"
    and "distinct (map fst ps)"
  shows "\<exists>r'. bind_pairs (\<lambda>r s. bound r s \<noteq> None) bind ps r = Inr r'"
  using assms
proof (induction ps arbitrary: r)
  case (Cons p ps)
  obtain s i where p: "p = (s, i)" by (cases p)
  show ?case
  proof (cases "bound r s")
    case (Some q)
    with Cons p show ?thesis by auto
  next
    case None
    with Cons.prems p obtain r1 where b: "bind s i r = Inr r1"
      using bind_iff_provider by fastforce
    have "\<exists>r'. bind_pairs (\<lambda>r s. bound r s \<noteq> None) bind ps r1 = Inr r'"
    proof (rule Cons.IH)
      fix k j assume kj: "(k, j) \<in> set ps" and nb: "bound r1 k = None"
      from kj Cons.prems(2) p have "k \<noteq> s" by (auto simp: image_iff)
      with b nb have "bound r k = None" using bind_bound by (metis fun_upd_other)
      with Cons.prems(1) kj p b show "provider r1 k j \<noteq> None" using bind_provider by fastforce
    qed (use Cons.prems(2) in simp)
    with None p b show ?thesis by auto
  qed
qed simp

text \<open>And only then.\<close>

lemma bind_pairs_needs_provider:
  assumes "bind_pairs (\<lambda>r s. bound r s \<noteq> None) bind ps r = Inr r'" and "(k, i) \<in> set ps"
    and "bound r k = None" and "distinct (map fst ps)"
  shows "provider r k i \<noteq> None"
  using assms
proof (induction ps arbitrary: r)
  case (Cons p ps)
  obtain s j where p: "p = (s, j)" by (cases p)
  show ?case
  proof (cases "bound r s = None")
    case False
    with Cons p show ?thesis by auto
  next
    case True
    with Cons.prems p obtain r1 where b: "bind s j r = Inr r1"
      and rest: "bind_pairs (\<lambda>r s. bound r s \<noteq> None) bind ps r1 = Inr r'" by auto
    show ?thesis
    proof (cases "(k, i) = p")
      case True
      with b p bind_iff_provider show ?thesis by blast
    next
      case False
      with Cons.prems p have "(k, i) \<in> set ps" "k \<noteq> s" by (auto simp: image_iff)
      with Cons.IH [OF rest] Cons.prems p bind_provider [OF b] bind_bound [OF b] show ?thesis by simp
    qed
  qed
qed simp

end

section \<open>The four tables\<close>

text \<open>The object a plugin may serve a key with, per table.\<close>

definition store_provider :: "'w registry \<Rightarrow> string \<Rightarrow> string \<Rightarrow> 'w plugin_object option" where
  "store_provider r role i =
     (case find_id i (stores r) of
        None \<Rightarrow> None
      | Some p \<Rightarrow> if serving p \<and> role \<in> set (lp_supported_roles p) then Some (lp_instance p) else None)"

definition cache_provider :: "'w registry \<Rightarrow> string \<Rightarrow> string \<Rightarrow> 'w plugin_object option" where
  "cache_provider r ns i =
     (case find_id i (caches r) of
        None \<Rightarrow> None
      | Some p \<Rightarrow> if serving p \<and> (lp_serves_any p \<or> ns \<in> set (lp_supported_namespaces p))
                  then Some (lp_instance p) else None)"

definition scheme_permitted :: "string \<Rightarrow> string \<Rightarrow> bool" where
  "scheme_permitted scheme i = (scheme \<in> set RESERVED_SCHEMES \<longrightarrow> is_builtin_id i)"

definition scheme_owner :: "('w, 'v) scheme_provider schemes_entry list \<Rightarrow> string \<Rightarrow> string \<Rightarrow> ('w, 'v) scheme_provider option" where
  "scheme_owner ps scheme i =
     (case find_id i ps of
        None \<Rightarrow> None
      | Some p \<Rightarrow> if scheme_permitted scheme i \<and> serving p \<and> scheme \<in> set (lp_supported_schemes p)
                  then Some (lp_instance p) else None)"

lemma reject_reserved_scheme_Inr [simp]:
  "reject_reserved_scheme scheme i = Inr u \<longleftrightarrow> scheme_permitted scheme i"
  by (cases u) (simp add: reject_reserved_scheme_def scheme_permitted_def)

interpretation store_table: binding_table bind_store_role "\<lambda>r. map_of (store_bindings r)" store_provider
  by unfold_locales
    (auto simp: bind_store_role_def store_provider_def fun_eq_iff mstore.wrap_eq split: option.splits)

interpretation cache_table: binding_table bind_cache_namespace "\<lambda>r. map_of (cache_bindings r)" cache_provider
  by unfold_locales
    (auto simp: bind_cache_namespace_def cache_provider_def fun_eq_iff mcache.wrap_eq split: option.splits)

interpretation secret_table: binding_table bind_secret_scheme "\<lambda>r. map_of (secret_scheme_bindings r)"
    "\<lambda>r. scheme_owner (secret_providers r)"
  by unfold_locales
    (auto simp: bind_secret_scheme_def scheme_owner_def fun_eq_iff msecret.wrap_eq split: option.splits)

interpretation config_table: binding_table bind_config_scheme "\<lambda>r. map_of (config_scheme_bindings r)"
    "\<lambda>r. scheme_owner (config_providers r)"
  by unfold_locales
    (auto simp: bind_config_scheme_def scheme_owner_def fun_eq_iff mconfig.wrap_eq split: option.splits)

lemma table_lookups:
  "store_for_role r = map_of (store_bindings r)"
  "cache_for_namespace r = map_of (cache_bindings r)"
  "secret_provider_for_scheme r = map_of (secret_scheme_bindings r)"
  "config_provider_for_scheme r = map_of (config_scheme_bindings r)"
  by (simp_all add: fun_eq_iff store_for_role_def cache_for_namespace_def secret_provider_for_scheme_def
      config_provider_for_scheme_def)

section \<open>The conflict check\<close>

definition claims_of :: "(string \<times> string) list \<Rightarrow> string \<Rightarrow> string list" where
  "claims_of pairs s = map snd (filter (\<lambda>p. fst p = s) pairs)"

lemma claims_of_snoc: "claims_of (ps @ [p]) s = claims_of ps s @ (if fst p = s then [snd p] else [])"
  by (simp add: claims_of_def)

lemma claimants_snoc: "claimants (ps @ [p]) = add_claim p (claimants ps)"
  by (simp add: claimants_def)

lemma map_of_claimants:
  "map_of (claimants ps) s = (if claims_of ps s = [] then None else Some (claims_of ps s))"
proof (induction ps rule: rev_induct)
  case Nil
  then show ?case by (simp add: claimants_def claims_of_def)
next
  case (snoc p ps)
  then show ?case by (auto simp: claimants_snoc add_claim_def claims_of_snoc)
qed

lemma claimants_sorted: "sorted (map fst (claimants ps)) \<and> distinct (map fst (claimants ps))"
  by (induction ps rule: rev_induct)
    (simp_all add: claimants_snoc add_claim_def bt_insert_sorted claimants_def [of "[]"])

lemma distinct_fst_iff_claims: "distinct (map fst ps) \<longleftrightarrow> (\<forall>s. length (claims_of ps s) \<le> 1)"
proof (induction ps)
  case (Cons p ps)
  have step: "claims_of (p # ps) s = (if fst p = s then [snd p] else []) @ claims_of ps s" for s
    by (simp add: claims_of_def)
  have nil: "claims_of ps s = [] \<longleftrightarrow> s \<notin> fst ` set ps" for s
    by (auto simp: claims_of_def filter_empty_conv)
  have "(\<forall>s. length (claims_of (p # ps) s) \<le> 1) \<longleftrightarrow>
      claims_of ps (fst p) = [] \<and> (\<forall>s. length (claims_of ps s) \<le> 1)"
  proof (intro iffI conjI allI)
    assume *: "\<forall>s. length (claims_of (p # ps) s) \<le> 1"
    from * [rule_format, of "fst p"] show z: "claims_of ps (fst p) = []" by (simp add: step)
    show "length (claims_of ps s) \<le> 1" for s
      using * [rule_format, of s] z by (cases "fst p = s") (simp_all add: step)
  next
    fix s assume "claims_of ps (fst p) = [] \<and> (\<forall>s. length (claims_of ps s) \<le> 1)"
    then show "length (claims_of (p # ps) s) \<le> 1" by (auto simp: step)
  qed
  with Cons nil show ?case by simp
qed (simp add: claims_of_def)

lemma check_claims_ok_iff: "check_claims ps = Inr () \<longleftrightarrow> distinct (map fst ps)"
proof -
  have "check_claims ps = Inr () \<longleftrightarrow> (\<forall>(s, ids) \<in> set (claimants ps). length ids \<le> 1)"
    by (force simp: check_claims_def find_None_iff split: option.splits dest: find_SomeD)
  also have "\<dots> \<longleftrightarrow> (\<forall>s ids. map_of (claimants ps) s = Some ids \<longrightarrow> length ids \<le> 1)"
    using claimants_sorted [of ps] by (auto simp: case_prod_beta map_of_eq_Some_iff)
  also have "\<dots> \<longleftrightarrow> (\<forall>s. length (claims_of ps s) \<le> 1)"
    by (auto simp: map_of_claimants) (metis le0 list.size(3))
  finally show ?thesis by (simp add: distinct_fst_iff_claims)
qed

lemma check_claims_conflict:
  "check_claims ps = Inl e \<Longrightarrow> \<exists>s. e = SchemeConflict s (claims_of ps s) \<and> length (claims_of ps s) > 1"
proof -
  assume "check_claims ps = Inl e"
  then obtain s ids where f: "find (\<lambda>(s, ids). length ids > 1) (claimants ps) = Some (s, ids)"
    and e: "e = SchemeConflict s ids"
    by (auto simp: check_claims_def split: option.splits)
  from find_SomeD [OF f] claimants_sorted [of ps] have "map_of (claimants ps) s = Some ids" "length ids > 1"
    by (auto simp: map_of_eq_Some_iff)
  with e show ?thesis by (auto simp: map_of_claimants split: if_splits)
qed

section \<open>The sweeps\<close>

lemma bind_secret_scheme_frame:
  "bind_secret_scheme s i r = Inr r' \<Longrightarrow> \<exists>b. r' = r\<lparr>secret_scheme_bindings := b\<rparr>"
  by (auto simp: bind_secret_scheme_def split: option.splits)

lemma bind_config_scheme_frame:
  "bind_config_scheme s i r = Inr r' \<Longrightarrow> \<exists>b. r' = r\<lparr>config_scheme_bindings := b\<rparr>"
  by (auto simp: bind_config_scheme_def split: option.splits)

lemma bind_pairs_induct:
  assumes "bind_pairs has bind ps r = Inr r'" and "P r r"
    and "\<And>s i r1 r2. bind s i r1 = Inr r2 \<Longrightarrow> P r r1 \<Longrightarrow> P r r2"
  shows "P r r'"
proof -
  have "bind_pairs has bind ps r1 = Inr r' \<Longrightarrow> P r r1 \<Longrightarrow> P r r'" for r1
  proof (induction ps arbitrary: r1)
    case (Cons p ps)
    then show ?case using assms(3) by (cases p) (simp split: if_splits, blast)
  qed simp
  with assms(1,2) show ?thesis by blast
qed

lemma auto_bind_secret_frame:
  assumes "auto_bind_secret_provider_schemes r = Inr r'"
  shows "\<exists>b. r' = r\<lparr>secret_scheme_bindings := b\<rparr>"
proof -
  from assms obtain ps where "bind_pairs (\<lambda>r s. map_of (secret_scheme_bindings r) s \<noteq> None)
      bind_secret_scheme ps r = Inr r'"
    by (auto simp: auto_bind_secret_provider_schemes_def Let_def)
  then show ?thesis
  proof (rule bind_pairs_induct)
    show "\<exists>b. r = r\<lparr>secret_scheme_bindings := b\<rparr>" by (rule exI [of _ "secret_scheme_bindings r"]) simp
  qed (use bind_secret_scheme_frame in fastforce)
qed

lemma auto_bind_config_frame:
  assumes "auto_bind_config_provider_schemes r = Inr r'"
  shows "\<exists>b. r' = r\<lparr>config_scheme_bindings := b\<rparr>"
proof -
  from assms obtain ps where "bind_pairs (\<lambda>r s. map_of (config_scheme_bindings r) s \<noteq> None)
      bind_config_scheme ps r = Inr r'"
    by (auto simp: auto_bind_config_provider_schemes_def Let_def)
  then show ?thesis
  proof (rule bind_pairs_induct)
    show "\<exists>b. r = r\<lparr>config_scheme_bindings := b\<rparr>" by (rule exI [of _ "config_scheme_bindings r"]) simp
  qed (use bind_config_scheme_frame in fastforce)
qed

lemma find_id_unique:
  assumes "distinct (map (\<lambda>p. m_id (lp_manifest p)) ps)" and "p \<in> set ps"
  shows "find_id (m_id (lp_manifest p)) ps = Some p"
  using assms by (induction ps) (auto simp: find_id_def has_id_def)

lemma scheme_pairs_iff:
  "(s, i) \<in> set (scheme_pairs ps) \<longleftrightarrow> (\<exists>p \<in> set ps. s \<in> set (lp_supported_schemes p) \<and> i = m_id (lp_manifest p))"
  by (auto simp: scheme_pairs_def)

lemma scheme_owner_pair:
  assumes "distinct (map (\<lambda>p. m_id (lp_manifest p)) ps)" and "p \<in> set ps" and "s \<in> set (lp_supported_schemes p)"
  shows "scheme_owner ps s (m_id (lp_manifest p)) =
    (if scheme_permitted s (m_id (lp_manifest p)) \<and> serving p then Some (lp_instance p) else None)"
  using assms by (simp add: scheme_owner_def find_id_unique)

lemma auto_bind_secret_ok_iff:
  assumes "distinct (map (\<lambda>p. m_id (lp_manifest p)) (secret_providers r))"
  shows "is_ok (auto_bind_secret_provider_schemes r) \<longleftrightarrow>
    distinct (map fst (scheme_pairs (secret_providers r)))
    \<and> (\<forall>p \<in> set (secret_providers r). \<forall>s \<in> set (lp_supported_schemes p).
          secret_provider_for_scheme r s = None \<longrightarrow> scheme_permitted s (m_id (lp_manifest p)) \<and> serving p)"
    (is "_ \<longleftrightarrow> ?D \<and> ?A")
proof -
  let ?ps = "scheme_pairs (secret_providers r)"
  have own: "?A \<longleftrightarrow> (\<forall>k i. (k, i) \<in> set ?ps \<longrightarrow> map_of (secret_scheme_bindings r) k = None
      \<longrightarrow> scheme_owner (secret_providers r) k i \<noteq> None)"
    unfolding scheme_pairs_iff table_lookups
    by (simp only: ex_simps Bex_def all_simps) (metis option.distinct(1) scheme_owner_pair [OF assms])
  have "is_ok (auto_bind_secret_provider_schemes r) \<longleftrightarrow> ?D \<and>
      (\<exists>r'. bind_pairs (\<lambda>r s. map_of (secret_scheme_bindings r) s \<noteq> None) bind_secret_scheme ?ps r = Inr r')"
    by (cases "check_claims ?ps")
      (auto simp: auto_bind_secret_provider_schemes_def Let_def is_ok_def check_claims_ok_iff [symmetric]
        split: sum.splits)
  also have "\<dots> \<longleftrightarrow> ?D \<and> ?A"
    unfolding own
    using secret_table.bind_pairs_complete [of ?ps r] secret_table.bind_pairs_needs_provider [of ?ps r]
    by blast
  finally show ?thesis .
qed

section \<open>Properties\<close>

text \<open>
  A binding call succeeds exactly when the plugin is registered, serves traffic, supports the
  key and (for schemes) is allowed to claim it; a success makes that plugin's object the one the
  lookup returns for the key, leaves every other key alone and changes nothing else, and a rebind
  of the same key replaces the earlier object.
\<close>

theorem bind_tables_update_one_key:
  "(\<forall>r'. bind_store_role k i r = Inr r' \<longrightarrow>
      store_provider r k i \<noteq> None \<and> store_for_role r' = (store_for_role r)(k := store_provider r k i))
   \<and> (\<forall>r'. bind_cache_namespace k i r = Inr r' \<longrightarrow>
      cache_provider r k i \<noteq> None \<and> cache_for_namespace r' = (cache_for_namespace r)(k := cache_provider r k i))
   \<and> (\<forall>r'. bind_secret_scheme k i r = Inr r' \<longrightarrow>
      scheme_owner (secret_providers r) k i \<noteq> None
      \<and> secret_provider_for_scheme r' = (secret_provider_for_scheme r)(k := scheme_owner (secret_providers r) k i))
   \<and> (\<forall>r'. bind_config_scheme k i r = Inr r' \<longrightarrow>
      scheme_owner (config_providers r) k i \<noteq> None
      \<and> config_provider_for_scheme r' = (config_provider_for_scheme r)(k := scheme_owner (config_providers r) k i))
   \<and> (is_err (bind_store_role k i r) \<longleftrightarrow> store_provider r k i = None)
   \<and> (is_err (bind_cache_namespace k i r) \<longleftrightarrow> cache_provider r k i = None)
   \<and> (is_err (bind_secret_scheme k i r) \<longleftrightarrow> scheme_owner (secret_providers r) k i = None)
   \<and> (is_err (bind_config_scheme k i r) \<longleftrightarrow> scheme_owner (config_providers r) k i = None)"
  unfolding table_lookups
  by (simp only: store_table.bind_is_err cache_table.bind_is_err secret_table.bind_is_err
      config_table.bind_is_err)
    (use store_table.bind_update [of k i r] cache_table.bind_update [of k i r]
      secret_table.bind_update [of k i r] config_table.bind_update [of k i r] in blast)

text \<open>
  The secret auto-bind sweep at boot, on a well-formed registry: it succeeds exactly when no
  scheme is claimed twice and every claimed scheme that is not bound yet may be claimed by its
  plugin, which serves traffic; after a success each claimed scheme is served by the one provider
  that claims it, schemes bound before keep their provider, no other scheme is bound, and nothing
  but the binding table changes. A conflict names every claimant in registration order.
\<close>

theorem auto_bind_secret_exact:
  assumes "registry_wf r"
  shows "(is_ok (auto_bind_secret_provider_schemes r) \<longleftrightarrow>
      distinct (map fst (scheme_pairs (secret_providers r)))
      \<and> (\<forall>p \<in> set (secret_providers r). \<forall>s \<in> set (lp_supported_schemes p).
            secret_provider_for_scheme r s = None \<longrightarrow> scheme_permitted s (m_id (lp_manifest p)) \<and> serving p))
    \<and> (\<forall>r'. auto_bind_secret_provider_schemes r = Inr r' \<longrightarrow>
        r'\<lparr>secret_scheme_bindings := secret_scheme_bindings r\<rparr> = r
        \<and> (\<forall>p \<in> set (secret_providers r). \<forall>s \<in> set (lp_supported_schemes p).
             secret_provider_for_scheme r' s
               = or_else (secret_provider_for_scheme r s) (Some (lp_instance p)))
        \<and> (\<forall>s. (\<forall>p \<in> set (secret_providers r). s \<notin> set (lp_supported_schemes p)) \<longrightarrow>
             secret_provider_for_scheme r' s = secret_provider_for_scheme r s))
    \<and> (\<forall>s ids. auto_bind_secret_provider_schemes r = Inl (SchemeConflict s ids) \<longrightarrow>
        ids = claims_of (scheme_pairs (secret_providers r)) s \<and> length ids > 1)"
proof (intro conjI allI impI)
  let ?ps = "scheme_pairs (secret_providers r)"
  from assms have d: "distinct (map (\<lambda>p. m_id (lp_manifest p)) (secret_providers r))"
    by (simp add: registry_wf_def listed_ok_def)
  note ok = auto_bind_secret_ok_iff [OF d]
  show "is_ok (auto_bind_secret_provider_schemes r) \<longleftrightarrow> distinct (map fst ?ps)
      \<and> (\<forall>p \<in> set (secret_providers r). \<forall>s \<in> set (lp_supported_schemes p).
            secret_provider_for_scheme r s = None \<longrightarrow> scheme_permitted s (m_id (lp_manifest p)) \<and> serving p)"
    by (rule ok)
  {
    fix s ids assume "auto_bind_secret_provider_schemes r = Inl (SchemeConflict s ids)"
    moreover have "bind_pairs has bind_secret_scheme qs q \<noteq> Inl (SchemeConflict s ids)" for has qs q
      by (induction qs arbitrary: q) (auto simp: try_then_eq_Inl bind_secret_scheme_def
          reject_reserved_scheme_def split: option.splits if_splits)
    ultimately have "check_claims ?ps = Inl (SchemeConflict s ids)"
      by (auto simp: auto_bind_secret_provider_schemes_def Let_def try_then_eq_Inl)
    from check_claims_conflict [OF this] show "ids = claims_of ?ps s" "length ids > 1" by auto
  next
    fix r' assume a: "auto_bind_secret_provider_schemes r = Inr r'"
    from auto_bind_secret_frame [OF a] show "r'\<lparr>secret_scheme_bindings := secret_scheme_bindings r\<rparr> = r" by auto
    from a have dk: "distinct (map fst ?ps)"
      and A: "\<And>p s. p \<in> set (secret_providers r) \<Longrightarrow> s \<in> set (lp_supported_schemes p) \<Longrightarrow>
        secret_provider_for_scheme r s = None \<Longrightarrow> scheme_permitted s (m_id (lp_manifest p)) \<and> serving p"
      using ok by auto
    from a have "bind_pairs (\<lambda>r s. map_of (secret_scheme_bindings r) s \<noteq> None) bind_secret_scheme ?ps r = Inr r'"
      by (auto simp: auto_bind_secret_provider_schemes_def Let_def)
    from secret_table.bind_pairs_sound [OF this dk]
    have B: "secret_provider_for_scheme r' k = (case secret_provider_for_scheme r k of Some p \<Rightarrow> Some p
        | None \<Rightarrow> (case map_of ?ps k of None \<Rightarrow> None | Some i \<Rightarrow> scheme_owner (secret_providers r) k i))" for k
      by (simp add: secret_provider_for_scheme_def)
    show "\<forall>p \<in> set (secret_providers r). \<forall>s \<in> set (lp_supported_schemes p).
        secret_provider_for_scheme r' s = or_else (secret_provider_for_scheme r s) (Some (lp_instance p))"
    proof (intro ballI)
      fix p s assume ps: "p \<in> set (secret_providers r)" "s \<in> set (lp_supported_schemes p)"
      then have "map_of ?ps s = Some (m_id (lp_manifest p))"
        using dk by (auto simp: map_of_eq_Some_iff scheme_pairs_iff)
      with B [of s] A [OF ps] scheme_owner_pair [OF d ps]
      show "secret_provider_for_scheme r' s = or_else (secret_provider_for_scheme r s) (Some (lp_instance p))"
        by (auto split: option.splits)
    qed
    fix s assume "\<forall>p \<in> set (secret_providers r). s \<notin> set (lp_supported_schemes p)"
    then have "map_of ?ps s = None" by (auto simp: map_of_eq_None_iff scheme_pairs_iff image_iff)
    with B [of s] show "secret_provider_for_scheme r' s = secret_provider_for_scheme r s"
      by (simp split: option.splits)
  }
qed

text \<open>A registry with one store, one cache and one provider of each kind, for the witnesses.\<close>

definition sample_registry :: "trace registry" where
  "sample_registry = registry_new
     \<lparr>stores := [\<lparr>lp_alias = ''s'', lp_manifest = sample_manifest ''s'', lp_tier = [], lp_state = Active,
         lp_instance = sample_object ''s'' [] [''sessions''], lp_supported_roles = [''sessions'']\<rparr>],
      caches := [\<lparr>lp_alias = ''c'', lp_manifest = sample_manifest ''c'', lp_tier = [], lp_state = Degraded,
         lp_instance = sample_object ''c'' [] [''ns''], lp_supported_namespaces = [''ns''], lp_serves_any = False\<rparr>],
      secret_providers := [new_schemes_entry ''v'' (sample_manifest ''v'') [] (sample_scheme_provider ''v'' [''vault'', ''kv'']),
         new_schemes_entry ''a'' (sample_manifest ''a'') [] (sample_scheme_provider ''a'' [''aws''])],
      config_providers := [new_schemes_entry ''k'' (sample_manifest ''k'') [] (sample_scheme_provider ''k'' [''consul''])]\<rparr>"

lemma sample_registry_wf: "registry_wf sample_registry"
  by code_simp

theorem bind_tables_update_one_key_witness:
  "is_ok (bind_store_role ''sessions'' ''s'' sample_registry)
   \<and> store_for_role (projr (bind_store_role ''sessions'' ''s'' sample_registry)) ''sessions''
      = Some (sample_object ''s'' [] [''sessions''])
   \<and> is_err (bind_secret_scheme ''env'' ''s'' sample_registry)"
proof -
  have p: "store_provider sample_registry ''sessions'' ''s'' = Some (sample_object ''s'' [] [''sessions''])"
    "scheme_owner (secret_providers sample_registry) ''env'' ''s'' = None"
    by (simp_all add: store_provider_def scheme_owner_def sample_registry_def find_id_def has_id_def
        serving_def sample_manifest_def new_schemes_entry_def)
  note T = bind_tables_update_one_key [of "''sessions''" "''s''" sample_registry]
    bind_tables_update_one_key [of "''env''" "''s''" sample_registry]
  from T(1) p(1) obtain r' where "bind_store_role ''sessions'' ''s'' sample_registry = Inr r'"
    by (cases "bind_store_role ''sessions'' ''s'' sample_registry") simp_all
  with T p show ?thesis by simp
qed

theorem auto_bind_secret_exact_witness:
  "is_ok (auto_bind_secret_provider_schemes sample_registry)"
  by (subst auto_bind_secret_exact [OF sample_registry_wf, THEN conjunct1])
    (simp add: sample_registry_def scheme_pairs_def sample_scheme_provider_def sample_manifest_def
      new_schemes_entry_def scheme_permitted_def RESERVED_SCHEMES_def serving_def)

end
