(* ===== verification/Registry_Admin.thy ===== *)
theory Registry_Admin
  imports Bindings
begin

text \<open>
  The operator and health-prober operations on the lifecycle state of registered plugins
  (\<open>disable\<close>, \<open>enable\<close>, \<open>mark_draining\<close>, \<open>mark_disabled_after_drain\<close>, \<open>mark_degraded\<close>,
  \<open>mark_active\<close> of \<open>src/src/registry.rs\<close>) and the registry's queries (\<open>lifecycle_state\<close>,
  \<open>registered_plugin_ids\<close>, \<open>iter_manifests\<close>, \<open>total_count\<close>, \<open>loaded_plugins\<close>, \<open>plugin_detail\<close>).

  The operations act on one atomic cell, the first one \<open>find_state_cell\<close> meets. The abstract view is
  a table of cells in search order: loading is a lookup in it and storing writes its first match
  (the locale \<open>state_table\<close>), and every operation is a path of the lifecycle's transition table.
\<close>

section \<open>The state cell of a plugin\<close>

definition find_state_cell :: "'w registry \<Rightarrow> string \<Rightarrow> plugin_state option" where
  "find_state_cell r i =
     or_else (map_option lp_state (find_id i (tool_gate_chain r))) (
     or_else (map_option lp_state (find_id i (transform_chain r))) (
     or_else (map_option lp_state (find_id i (identity_chain r))) (
     or_else (map_option lp_state (find_id i (map snd (backends r)))) (
     or_else (map_option lp_state (find_id i (map snd (watch_strategies r)))) (
     or_else (map_option lp_state (find_id i (http_routes r))) (
     or_else (map_option lp_state (find_id i (audit_sinks r))) (
     or_else (map_option lp_state (find_id i (stores r))) (
     or_else (map_option lp_state (find_id i (caches r))) (
     or_else (map_option lp_state (find_id i (telemetry_sinks r))) (
     or_else (map_option lp_state (find_id i (log_sinks r))) (
     or_else (map_option lp_state (find_id i (metrics_sinks r))) (
     or_else (map_option lp_state (find_id i (secret_providers r))) (
     or_else (map_option lp_state (find_id i (config_providers r))) (
     or_else (map_option lp_state (find_id i (transports r))) (
     or_else (map_option lp_state (find_id i (policy_engines r))) (
     or_else (map_option lp_state (find_id i (opt_list (cluster_backend r)))) (
     or_else (map_option lp_state (find_id i (catalog_chain r))) (
     or_else (map_option lp_state (find_id i (map snd (credential_issuers r)))) (
     map_option lp_state (find_id i (map snd (approval_notifiers r))))))))))))))))))))))"

text \<open>The write through the reference \<open>find_state_cell\<close> returned.\<close>

definition set_first_list :: "string \<Rightarrow> plugin_state \<Rightarrow> ('i, 'z) loaded_scheme list \<Rightarrow> ('i, 'z) loaded_scheme list" where
  "set_first_list i s ps = update_first (has_id i) (lp_state_update (\<lambda>_. s)) ps"

definition set_first_map ::
  "string \<Rightarrow> plugin_state \<Rightarrow> ('k \<times> ('i, 'z) loaded_scheme) list \<Rightarrow> ('k \<times> ('i, 'z) loaded_scheme) list" where
  "set_first_map i s ps = update_first (\<lambda>(k, p). has_id i p) (apsnd (lp_state_update (\<lambda>_. s))) ps"

definition store_state_cell :: "string \<Rightarrow> plugin_state \<Rightarrow> 'w registry \<Rightarrow> 'w registry" where
  "store_state_cell i s r =
     (if find_id i (tool_gate_chain r) \<noteq> None then r\<lparr>tool_gate_chain := set_first_list i s (tool_gate_chain r)\<rparr>
      else if find_id i (transform_chain r) \<noteq> None then r\<lparr>transform_chain := set_first_list i s (transform_chain r)\<rparr>
      else if find_id i (identity_chain r) \<noteq> None then r\<lparr>identity_chain := set_first_list i s (identity_chain r)\<rparr>
      else if find_id i (map snd (backends r)) \<noteq> None then r\<lparr>backends := set_first_map i s (backends r)\<rparr>
      else if find_id i (map snd (watch_strategies r)) \<noteq> None then r\<lparr>watch_strategies := set_first_map i s (watch_strategies r)\<rparr>
      else if find_id i (http_routes r) \<noteq> None then r\<lparr>http_routes := set_first_list i s (http_routes r)\<rparr>
      else if find_id i (audit_sinks r) \<noteq> None then r\<lparr>audit_sinks := set_first_list i s (audit_sinks r)\<rparr>
      else if find_id i (stores r) \<noteq> None then r\<lparr>stores := set_first_list i s (stores r)\<rparr>
      else if find_id i (caches r) \<noteq> None then r\<lparr>caches := set_first_list i s (caches r)\<rparr>
      else if find_id i (telemetry_sinks r) \<noteq> None then r\<lparr>telemetry_sinks := set_first_list i s (telemetry_sinks r)\<rparr>
      else if find_id i (log_sinks r) \<noteq> None then r\<lparr>log_sinks := set_first_list i s (log_sinks r)\<rparr>
      else if find_id i (metrics_sinks r) \<noteq> None then r\<lparr>metrics_sinks := set_first_list i s (metrics_sinks r)\<rparr>
      else if find_id i (secret_providers r) \<noteq> None then r\<lparr>secret_providers := set_first_list i s (secret_providers r)\<rparr>
      else if find_id i (config_providers r) \<noteq> None then r\<lparr>config_providers := set_first_list i s (config_providers r)\<rparr>
      else if find_id i (transports r) \<noteq> None then r\<lparr>transports := set_first_list i s (transports r)\<rparr>
      else if find_id i (policy_engines r) \<noteq> None then r\<lparr>policy_engines := set_first_list i s (policy_engines r)\<rparr>
      else if find_id i (opt_list (cluster_backend r)) \<noteq> None then r\<lparr>cluster_backend := map_option (lp_state_update (\<lambda>_. s)) (cluster_backend r)\<rparr>
      else if find_id i (catalog_chain r) \<noteq> None then r\<lparr>catalog_chain := set_first_list i s (catalog_chain r)\<rparr>
      else if find_id i (map snd (credential_issuers r)) \<noteq> None then r\<lparr>credential_issuers := set_first_map i s (credential_issuers r)\<rparr>
      else if find_id i (map snd (approval_notifiers r)) \<noteq> None then r\<lparr>approval_notifiers := set_first_map i s (approval_notifiers r)\<rparr>
      else r)"

definition lifecycle_state :: "'w registry \<Rightarrow> string \<Rightarrow> plugin_state option" where
  "lifecycle_state r i = find_state_cell r i"

section \<open>Operator actions\<close>

definition disable :: "string \<Rightarrow> 'w registry \<Rightarrow> (registry_error, 'w registry) rresult" where
  "disable i r =
     (case find_state_cell r i of
        None \<Rightarrow> Inl (NotRegistered i)
      | Some current \<Rightarrow>
         if \<not> transition_allowed current Disabled then Inl (BadTransition i current Disabled)
         else Inr (store_state_cell i Disabled r))"

definition enable :: "string \<Rightarrow> 'w registry \<Rightarrow> (registry_error, 'w registry) rresult" where
  "enable i r =
     (case find_state_cell r i of
        None \<Rightarrow> Inl (NotRegistered i)
      | Some current \<Rightarrow>
         if current \<noteq> Disabled then Inl (NotDisabled i current)
         else Inr (store_state_cell i Active r))"

definition find_chain_plugin_inflight :: "'w registry \<Rightarrow> string \<Rightarrow> (plugin_state \<times> 64 word) option" where
  "find_chain_plugin_inflight r i =
     (case find_id i (tool_gate_chain r) of
        Some p \<Rightarrow> Some (lp_state p, lp_inflight p)
      | None \<Rightarrow>
     (case find_id i (transform_chain r) of
        Some p \<Rightarrow> Some (lp_state p, lp_inflight p)
      | None \<Rightarrow>
     (case find_id i (identity_chain r) of
        Some p \<Rightarrow> Some (lp_state p, lp_inflight p)
      | None \<Rightarrow> None)))"

text \<open>The write through the state reference of \<open>find_chain_plugin_inflight\<close>.\<close>

definition store_chain_state :: "string \<Rightarrow> plugin_state \<Rightarrow> 'w registry \<Rightarrow> 'w registry" where
  "store_chain_state i s r =
     (if find_id i (tool_gate_chain r) \<noteq> None then r\<lparr>tool_gate_chain := set_first_list i s (tool_gate_chain r)\<rparr>
      else if find_id i (transform_chain r) \<noteq> None then r\<lparr>transform_chain := set_first_list i s (transform_chain r)\<rparr>
      else if find_id i (identity_chain r) \<noteq> None then r\<lparr>identity_chain := set_first_list i s (identity_chain r)\<rparr>
      else r)"

text \<open>
  A drain token names the plugin whose tracker it shares; chain entries are never removed, so the
  tracker is the one \<open>find_chain_plugin_inflight\<close> finds.
\<close>

record drain_token =
  dt_plugin_id :: string

definition token_inflight :: "'w registry \<Rightarrow> drain_token \<Rightarrow> 64 word option" where
  "token_inflight r t = map_option snd (find_chain_plugin_inflight r (dt_plugin_id t))"

definition mark_draining :: "string \<Rightarrow> 'w registry \<Rightarrow> (registry_error, drain_token \<times> 'w registry) rresult" where
  "mark_draining i r =
     (case find_chain_plugin_inflight r i of
        None \<Rightarrow> Inl (NotChainPlugin i)
      | Some (current, tracker) \<Rightarrow>
         (case current of
            Active \<Rightarrow> Inr (\<lparr>dt_plugin_id = i\<rparr>, store_chain_state i Draining r)
          | Degraded \<Rightarrow> Inr (\<lparr>dt_plugin_id = i\<rparr>, store_chain_state i Draining r)
          | Draining \<Rightarrow> Inr (\<lparr>dt_plugin_id = i\<rparr>, r)
          | other \<Rightarrow> Inl (BadTransition i other Draining)))"

definition mark_disabled_after_drain :: "string \<Rightarrow> 'w registry \<Rightarrow> (registry_error, 'w registry) rresult" where
  "mark_disabled_after_drain i r =
     (case find_state_cell r i of
        None \<Rightarrow> Inl (NotRegistered i)
      | Some current \<Rightarrow>
         (case current of
            Draining \<Rightarrow> Inr (store_state_cell i Disabled r)
          | Disabled \<Rightarrow> Inr r
          | other \<Rightarrow> Inl (BadTransition i other Disabled)))"

definition mark_degraded :: "string \<Rightarrow> 'w registry \<Rightarrow> (registry_error, 'w registry) rresult" where
  "mark_degraded i r =
     (case find_state_cell r i of
        None \<Rightarrow> Inl (NotRegistered i)
      | Some current \<Rightarrow>
         (case current of
            Active \<Rightarrow> Inr (store_state_cell i Degraded r)
          | Degraded \<Rightarrow> Inr r
          | other \<Rightarrow> Inl (BadTransition i other Degraded)))"

definition mark_active :: "string \<Rightarrow> 'w registry \<Rightarrow> (registry_error, 'w registry) rresult" where
  "mark_active i r =
     (case find_state_cell r i of
        None \<Rightarrow> Inl (NotRegistered i)
      | Some current \<Rightarrow>
         (case current of
            Degraded \<Rightarrow> Inr (store_state_cell i Active r)
          | Active \<Rightarrow> Inr r
          | other \<Rightarrow> Inl (BadTransition i other Active)))"

section \<open>The table of cells\<close>

definition cells :: "('i, 'z) loaded_scheme list \<Rightarrow> (string \<times> plugin_state) list" where
  "cells ps = map (\<lambda>p. (m_id (lp_manifest p), lp_state p)) ps"

definition state_cells :: "'w registry \<Rightarrow> (string \<times> plugin_state) list" where
  "state_cells r =
     cells (tool_gate_chain r)
     @ cells (transform_chain r)
     @ cells (identity_chain r)
     @ cells (map snd (backends r))
     @ cells (map snd (watch_strategies r))
     @ cells (http_routes r)
     @ cells (audit_sinks r)
     @ cells (stores r)
     @ cells (caches r)
     @ cells (telemetry_sinks r)
     @ cells (log_sinks r)
     @ cells (metrics_sinks r)
     @ cells (secret_providers r)
     @ cells (config_providers r)
     @ cells (transports r)
     @ cells (policy_engines r)
     @ cells (opt_list (cluster_backend r))
     @ cells (catalog_chain r)
     @ cells (map snd (credential_issuers r))
     @ cells (map snd (approval_notifiers r))"

fun set_first :: "string \<Rightarrow> plugin_state \<Rightarrow> (string \<times> plugin_state) list \<Rightarrow> (string \<times> plugin_state) list" where
  "set_first i s [] = []"
| "set_first i s ((j, t) # cs) = (if j = i then (i, s) # cs else (j, t) # set_first i s cs)"

lemma cells_simps [simp]: "cells [] = []" "cells (p # ps) = (m_id (lp_manifest p), lp_state p) # cells ps"
  by (simp_all add: cells_def)

lemma set_first_append:
  "set_first i s (xs @ ys) = (if map_of xs i = None then xs @ set_first i s ys else set_first i s xs @ ys)"
  by (induction xs) auto

lemma map_of_set_first:
  "map_of (set_first i s cs) = (case map_of cs i of None \<Rightarrow> map_of cs | Some _ \<Rightarrow> (map_of cs)(i \<mapsto> s))"
  by (induction i s cs rule: set_first.induct) (auto split: option.splits)

lemma map_fst_set_first [simp]: "map fst (set_first i s cs) = map fst cs"
  by (induction i s cs rule: set_first.induct) auto

lemma find_id_cells: "map_option lp_state (find_id i ps) = map_of (cells ps) i"
  by (induction ps) (auto simp: find_id_def has_id_def)

lemma find_id_None_cells: "find_id i ps = None \<longleftrightarrow> map_of (cells ps) i = None"
  by (metis find_id_cells option.map_disc_iff)

lemma cells_set_first_list [simp]: "cells (set_first_list i s ps) = set_first i s (cells ps)"
  by (induction ps) (auto simp: set_first_list_def has_id_def)

lemma cells_set_first_map [simp]: "cells (map snd (set_first_map i s ps)) = set_first i s (cells (map snd ps))"
  by (induction ps) (auto simp: set_first_map_def has_id_def)

lemma cells_set_first_opt:
  "map_of (cells (opt_list x)) i \<noteq> None \<Longrightarrow>
    cells (opt_list (map_option (lp_state_update (\<lambda>_. s)) x)) = set_first i s (cells (opt_list x))"
  by (cases x) (auto split: if_splits)

lemma map_of_append_or_else: "map_of (xs @ ys) i = or_else (map_of xs i) (map_of ys i)"
  by (simp add: map_add_def or_else_def split: option.splits)

lemma find_state_cell_table: "find_state_cell r i = map_of (state_cells r) i"
  unfolding find_state_cell_def state_cells_def find_id_cells map_of_append_or_else ..

lemma set_first_absent: "map_of cs i = None \<Longrightarrow> set_first i s cs = cs"
  by (induction i s cs rule: set_first.induct) (auto split: if_splits)

lemma state_cells_ifI:
  "(c \<Longrightarrow> state_cells a = x) \<Longrightarrow> (\<not> c \<Longrightarrow> state_cells b = x) \<Longrightarrow> state_cells (if c then a else b) = x"
  by simp

lemma state_cells_store: "state_cells (store_state_cell i s r) = set_first i s (state_cells r)"
  unfolding store_state_cell_def find_id_None_cells
  by (intro state_cells_ifI)
    (simp_all add: state_cells_def set_first_append cells_set_first_opt set_first_absent del: not_None_eq)

text \<open>The contract the operations rely on.\<close>

locale state_table =
  fixes load :: "'r \<Rightarrow> string \<Rightarrow> plugin_state option"
    and store :: "string \<Rightarrow> plugin_state \<Rightarrow> 'r \<Rightarrow> 'r"
    and table :: "'r \<Rightarrow> (string \<times> plugin_state) list"
  assumes load_table: "load r i = map_of (table r) i"
    and table_store: "table (store i s r) = set_first i s (table r)"
begin

lemma load_store: "load r i = Some t \<Longrightarrow> load (store i s r) = (load r)(i \<mapsto> s)"
  by (simp add: fun_eq_iff load_table table_store map_of_set_first)

lemma store_first_cell:
  "table r = us @ (i, t) # vs \<Longrightarrow> i \<notin> fst ` set us \<Longrightarrow> table (store i s r) = us @ (i, s) # vs"
  by (simp add: table_store set_first_append map_of_eq_None_iff)

end

interpretation all_cells: state_table find_state_cell store_state_cell state_cells
  by unfold_locales (simp_all add: find_state_cell_table state_cells_store)

definition chain_cells :: "'w registry \<Rightarrow> (string \<times> plugin_state) list" where
  "chain_cells r = cells (tool_gate_chain r) @ cells (transform_chain r) @ cells (identity_chain r)"

definition chain_state :: "'w registry \<Rightarrow> string \<Rightarrow> plugin_state option" where
  "chain_state r i = map_option fst (find_chain_plugin_inflight r i)"

lemma chain_state_or_else:
  "chain_state r i = or_else (map_option lp_state (find_id i (tool_gate_chain r)))
     (or_else (map_option lp_state (find_id i (transform_chain r)))
       (map_option lp_state (find_id i (identity_chain r))))"
  by (simp add: chain_state_def find_chain_plugin_inflight_def split: option.splits)

interpretation chain_cells: state_table chain_state store_chain_state chain_cells
proof
  show "chain_state r i = map_of (chain_cells r) i" for r :: "'a registry" and i
    unfolding chain_state_or_else find_id_cells chain_cells_def map_of_append_or_else ..
  show "chain_cells (store_chain_state i s r) = set_first i s (chain_cells r)" for r :: "'a registry" and i s
    unfolding store_chain_state_def find_id_None_cells
    by (simp add: chain_cells_def set_first_append set_first_absent del: not_None_eq)
qed

text \<open>The three chains come first in the search order, so both lookups reach the same cell.\<close>

lemma state_cells_chain: "\<exists>rest. state_cells r = chain_cells r @ rest"
  by (simp add: state_cells_def chain_cells_def)

lemma chain_state_find_state_cell: "chain_state r i = Some s \<Longrightarrow> find_state_cell r i = Some s"
  using state_cells_chain [of r]
  by (auto simp: chain_cells.load_table find_state_cell_table map_add_Some_iff)

lemma store_chain_state_eq: "chain_state r i = Some t \<Longrightarrow> store_chain_state i s r = store_state_cell i s r"
  unfolding store_chain_state_def store_state_cell_def chain_state_or_else
  by (cases "find_id i (tool_gate_chain r)"; cases "find_id i (transform_chain r)";
      cases "find_id i (identity_chain r)")
    (simp_all only: option.distinct not_False_eq_True not_True_eq_False if_True if_False or_else_simps
      option.map simp_thms)

section \<open>What a store keeps\<close>

lemma list_all_update_first [simp]:
  "(\<And>x. P (f x) = P x) \<Longrightarrow> list_all P (update_first Q f xs) = list_all P xs"
  by (induction xs) auto

lemma map_set_first_list [simp]:
  "(\<And>p. g (lp_state_update (\<lambda>_. s) p) = g p) \<Longrightarrow> map g (set_first_list i s ps) = map g ps"
  by (simp add: set_first_list_def)

lemma map_set_first_map [simp]:
  "(\<And>k p. g (k, lp_state_update (\<lambda>_. s) p) = g (k, p)) \<Longrightarrow> map g (set_first_map i s ps) = map g ps"
  by (induction ps) (auto simp: set_first_map_def)

lemma list_all_set_first_list [simp]:
  "(\<And>p. P (lp_state_update (\<lambda>_. s) p) = P p) \<Longrightarrow> list_all P (set_first_list i s ps) = list_all P ps"
  by (simp add: set_first_list_def)

lemma map_opt_list_state [simp]:
  "(\<And>p. g (lp_state_update (\<lambda>_. s) p) = g p) \<Longrightarrow>
    map g (opt_list (map_option (lp_state_update (\<lambda>_. s)) x)) = map g (opt_list x)"
  by (cases x) simp_all

lemma keyed_set_first_map [simp]:
  "(\<forall>(k, p) \<in> set (set_first_map i s ps). k = m_id (lp_manifest p)) \<longleftrightarrow>
    (\<forall>(k, p) \<in> set ps. k = m_id (lp_manifest p))"
  by (induction ps) (auto simp: set_first_map_def)

lemma if_eqI: "(c \<Longrightarrow> f a = x) \<Longrightarrow> (\<not> c \<Longrightarrow> f b = x) \<Longrightarrow> f (if c then a else b) = x"
  by simp

lemma store_keeps_aliases [simp]: "registry_aliases (store_state_cell i s r) = registry_aliases r"
  unfolding store_state_cell_def
  by (intro if_eqI [where f = registry_aliases]) (simp_all add: registry_aliases_def)

lemma store_keeps_manifests [simp]: "registry_manifests (store_state_cell i s r) = registry_manifests r"
  unfolding store_state_cell_def
  by (intro if_eqI [where f = registry_manifests]) (simp_all add: registry_manifests_def)

lemma store_keeps_keyed [simp]: "keyed_ok (store_state_cell i s r) = keyed_ok r"
  unfolding store_state_cell_def
  by (intro if_eqI [where f = keyed_ok]) (simp_all add: keyed_ok_def)

lemma store_keeps_listed [simp]: "listed_ok (store_state_cell i s r) = listed_ok r"
  unfolding store_state_cell_def
  by (intro if_eqI [where f = listed_ok]) (simp_all add: listed_ok_def)

lemma store_state_cell_wf [simp]: "registry_wf (store_state_cell i s r) = registry_wf r"
  by (simp add: registry_wf_def)

section \<open>Queries\<close>

definition entry_ids :: "('i, 'z) loaded_scheme list \<Rightarrow> string list" where
  "entry_ids ps = map (\<lambda>p. m_id (lp_manifest p)) ps"

definition registered_plugin_ids :: "'w registry \<Rightarrow> string list" where
  "registered_plugin_ids r =
     entry_ids (tool_gate_chain r)
     @ entry_ids (transform_chain r)
     @ entry_ids (identity_chain r)
     @ entry_ids (map snd (backends r))
     @ entry_ids (map snd (content_stores r))
     @ entry_ids (map snd (watch_strategies r))
     @ entry_ids (http_routes r)
     @ entry_ids (audit_sinks r)
     @ entry_ids (stores r)
     @ entry_ids (caches r)
     @ entry_ids (telemetry_sinks r)
     @ entry_ids (log_sinks r)
     @ entry_ids (metrics_sinks r)
     @ entry_ids (secret_providers r)
     @ entry_ids (config_providers r)
     @ entry_ids (transports r)
     @ entry_ids (policy_engines r)
     @ entry_ids (catalog_chain r)
     @ entry_ids (map snd (credential_issuers r))
     @ entry_ids (map snd (approval_notifiers r))
     @ entry_ids (opt_list (cluster_backend r))"

definition iter_manifests :: "'w registry \<Rightarrow> manifest list" where
  "iter_manifests r = registry_manifests r"

definition find_manifest :: "'w registry \<Rightarrow> string \<Rightarrow> manifest option" where
  "find_manifest r i = find (\<lambda>m. m_id m = i) (iter_manifests r)"

definition total_count :: "'w registry \<Rightarrow> nat" where
  "total_count r =
     length (tool_gate_chain r)
     + length (transform_chain r)
     + length (identity_chain r)
     + length (backends r)
     + length (content_stores r)
     + length (watch_strategies r)
     + length (http_routes r)
     + length (audit_sinks r)
     + length (stores r)
     + length (caches r)
     + length (telemetry_sinks r)
     + length (log_sinks r)
     + length (metrics_sinks r)
     + length (secret_providers r)
     + length (config_providers r)
     + length (transports r)
     + length (policy_engines r)
     + (case cluster_backend r of None \<Rightarrow> 0 | Some _ \<Rightarrow> 1)
     + length (catalog_chain r)
     + length (credential_issuers r)
     + length (approval_notifiers r)"

record loaded_plugin_info =
  pi_id :: string
  pi_version :: string
  pi_name :: string
  pi_plugin_class :: string
  pi_tier :: string
  pi_protocol_version :: string
  pi_state :: string

definition plugin_info :: "string \<Rightarrow> ('i, 'z) loaded_scheme \<Rightarrow> loaded_plugin_info" where
  "plugin_info cls p =
     \<lparr>pi_id = m_id (lp_manifest p), pi_version = m_version (lp_manifest p), pi_name = m_name (lp_manifest p),
      pi_plugin_class = cls, pi_tier = lp_tier p, pi_protocol_version = m_protocol_version (lp_manifest p),
      pi_state = state_as_str (lp_state p)\<rparr>"

definition declared_class :: "('i, 'z) loaded_scheme \<Rightarrow> string" where
  "declared_class p = m_plugin_class (lp_manifest p)"

definition store_class :: "'i roles_entry \<Rightarrow> string" where
  "store_class p = ''store:'' @ join_str '','' (lp_supported_roles p)"

definition cache_class :: "'i cache_entry \<Rightarrow> string" where
  "cache_class p = ''cache:'' @ (if lp_serves_any p then ''*'' else join_str '','' (lp_supported_namespaces p))"

definition loaded_plugins :: "'w registry \<Rightarrow> loaded_plugin_info list" where
  "loaded_plugins r =
     map (\<lambda>p. plugin_info (declared_class p) p) (tool_gate_chain r)
     @ map (\<lambda>p. plugin_info (declared_class p) p) (transform_chain r)
     @ map (\<lambda>p. plugin_info (declared_class p) p) (identity_chain r)
     @ map (\<lambda>(kind, p). plugin_info (''binding:'' @ kind) p) (backends r)
     @ map (\<lambda>(kind, p). plugin_info (''content_store:'' @ kind) p) (content_stores r)
     @ map (\<lambda>(kind, p). plugin_info (''watch_strategy:'' @ kind) p) (watch_strategies r)
     @ map (\<lambda>p. plugin_info (''http_route:'' @ lp_entity_name p) p) (http_routes r)
     @ map (plugin_info ''audit_sink'') (audit_sinks r)
     @ map (\<lambda>p. plugin_info (store_class p) p) (stores r)
     @ map (\<lambda>p. plugin_info (cache_class p) p) (caches r)
     @ map (plugin_info ''telemetry_sink'') (telemetry_sinks r)
     @ map (plugin_info ''log_sink'') (log_sinks r)
     @ map (plugin_info ''metrics_sink'') (metrics_sinks r)
     @ map (\<lambda>p. plugin_info (''secret_provider:'' @ join_str '','' (lp_supported_schemes p)) p) (secret_providers r)
     @ map (\<lambda>p. plugin_info (''config_provider:'' @ join_str '','' (lp_supported_schemes p)) p) (config_providers r)
     @ map (\<lambda>p. plugin_info (''transport:'' @ lp_name p) p) (transports r)
     @ map (\<lambda>p. plugin_info (''policy_engine:'' @ lp_name p) p) (policy_engines r)
     @ map (plugin_info ''cluster'') (opt_list (cluster_backend r))
     @ map (\<lambda>p. plugin_info (declared_class p) p) (catalog_chain r)
     @ map (\<lambda>(k, p). plugin_info (declared_class p) p) (credential_issuers r)
     @ map (\<lambda>(k, p). plugin_info (declared_class p) p) (approval_notifiers r)"

record loaded_plugin_detail =
  pd_info :: loaded_plugin_info
  pd_required_capabilities :: "string list"
  pd_registered_at_unix_secs :: nat
  pd_inflight :: "64 word option"
  pd_enforce :: "bool option"
  pd_config :: json

definition plugin_detail_of ::
  "'w host_env \<Rightarrow> string \<Rightarrow> ('i, 'z) loaded_scheme \<Rightarrow> loaded_plugin_detail" where
  "plugin_detail_of env cls p =
     \<lparr>pd_info = plugin_info cls p, pd_required_capabilities = map (cap_kind env) (m_required_capabilities (lp_manifest p)),
      pd_registered_at_unix_secs = 0, pd_inflight = None, pd_enforce = None, pd_config = JNull\<rparr>"

definition chain_detail_of :: "'w host_env \<Rightarrow> bool option \<Rightarrow> 'i chain_entry \<Rightarrow> loaded_plugin_detail" where
  "chain_detail_of env enforce p =
     (plugin_detail_of env (declared_class p) p)\<lparr>pd_registered_at_unix_secs := lp_registered_at p,
        pd_inflight := Some (lp_inflight p), pd_enforce := enforce, pd_config := lp_config p\<rparr>"

definition find_kind :: "string \<Rightarrow> (string \<times> ('i, 'z) loaded_scheme) list \<Rightarrow> (string \<times> ('i, 'z) loaded_scheme) option" where
  "find_kind i ps = find (\<lambda>(k, p). has_id i p) ps"

definition plugin_detail :: "'w host_env \<Rightarrow> 'w registry \<Rightarrow> string \<Rightarrow> loaded_plugin_detail option" where
  "plugin_detail env r i =
     or_else (map_option (\<lambda>p. chain_detail_of env (Some (lp_enforce p)) p) (find_id i (tool_gate_chain r))) (
     or_else (map_option (chain_detail_of env None) (find_id i (transform_chain r))) (
     or_else (map_option (chain_detail_of env None) (find_id i (identity_chain r))) (
     or_else (map_option (\<lambda>(kind, p). plugin_detail_of env (''binding:'' @ kind) p) (find_kind i (backends r))) (
     or_else (map_option (\<lambda>(kind, p). plugin_detail_of env (''watch_strategy:'' @ kind) p) (find_kind i (watch_strategies r))) (
     or_else (map_option (\<lambda>p. plugin_detail_of env (''http_route:'' @ lp_entity_name p) p) (find_id i (http_routes r))) (
     or_else (map_option (plugin_detail_of env ''audit_sink'') (find_id i (audit_sinks r))) (
     or_else (map_option (\<lambda>p. plugin_detail_of env (store_class p) p) (find_id i (stores r))) (
     or_else (map_option (\<lambda>p. plugin_detail_of env (cache_class p) p) (find_id i (caches r))) (
     or_else (map_option (plugin_detail_of env ''telemetry_sink'') (find_id i (telemetry_sinks r))) (
     or_else (map_option (plugin_detail_of env ''metrics_sink'') (find_id i (metrics_sinks r))) (
     or_else (map_option (plugin_detail_of env ''log_sink'') (find_id i (log_sinks r))) (
     or_else (map_option (\<lambda>p. plugin_detail_of env (''secret_provider:'' @ join_str '','' (lp_supported_schemes p)) p)
        (find_id i (secret_providers r))) (
     or_else (map_option (\<lambda>p. plugin_detail_of env (''config_provider:'' @ join_str '','' (lp_supported_schemes p)) p)
        (find_id i (config_providers r))) (
     or_else (map_option (\<lambda>p. plugin_detail_of env (''transport:'' @ lp_name p) p) (find_id i (transports r))) (
     or_else (map_option (\<lambda>p. plugin_detail_of env (''policy_engine:'' @ lp_name p) p) (find_id i (policy_engines r))) (
     map_option (plugin_detail_of env ''cluster'') (find_id i (opt_list (cluster_backend r)))))))))))))))))))"

section \<open>The queries agree\<close>

lemma entry_ids_cells: "entry_ids ps = map fst (cells ps)"
  by (simp add: entry_ids_def cells_def)

lemma entry_ids_manifests: "entry_ids ps = map m_id (map lp_manifest ps)"
  by (simp add: entry_ids_def)

lemma mset_registered_ids:
  "mset (registered_plugin_ids r) = mset (map fst (state_cells r)) + mset (entry_ids (map snd (content_stores r)))"
  unfolding registered_plugin_ids_def state_cells_def entry_ids_cells by (simp add: ac_simps)

lemma mset_registered_manifests: "mset (registered_plugin_ids r) = mset (map m_id (iter_manifests r))"
  unfolding registered_plugin_ids_def iter_manifests_def registry_manifests_def entry_ids_manifests
  by (simp add: ac_simps comp_assoc)

lemma pi_id_plugin_info [simp]: "pi_id (plugin_info c p) = m_id (lp_manifest p)"
  by (simp add: plugin_info_def)

lemma map_pi_id_loaded_plugins: "map pi_id (loaded_plugins r) = map m_id (iter_manifests r)"
  unfolding loaded_plugins_def iter_manifests_def registry_manifests_def
  by (simp add: comp_def case_prod_unfold)

lemma length_iter_manifests: "length (iter_manifests r) = total_count r"
  unfolding total_count_def iter_manifests_def registry_manifests_def
  by (cases "cluster_backend r") simp_all

lemma map_option_or_else: "map_option f (or_else x y) = or_else (map_option f x) (map_option f y)"
  by (cases x) simp_all

definition detail_cells :: "'w registry \<Rightarrow> (string \<times> plugin_state) list" where
  "detail_cells r =
     chain_cells r @ cells (map snd (backends r)) @ cells (map snd (watch_strategies r))
     @ cells (http_routes r) @ cells (audit_sinks r) @ cells (stores r) @ cells (caches r)
     @ cells (telemetry_sinks r) @ cells (metrics_sinks r) @ cells (log_sinks r)
     @ cells (secret_providers r) @ cells (config_providers r) @ cells (transports r)
     @ cells (policy_engines r) @ cells (opt_list (cluster_backend r))"

lemma find_kind_cells:
  "map_option (\<lambda>(k, p). lp_state p) (find_kind i ps) = map_of (cells (map snd ps)) i"
proof (induction ps)
  case (Cons e ps)
  then show ?case by (cases e) (simp add: find_kind_def has_id_def)
qed (simp add: find_kind_def)

lemma pi_state_plugin_info [simp]: "pi_state (plugin_info c p) = state_as_str (lp_state p)"
  by (simp add: plugin_info_def)

lemma plugin_detail_of_state [simp]:
  "pi_state (pd_info (plugin_detail_of env c p)) = state_as_str (lp_state p)"
  "pi_state (pd_info (chain_detail_of env e q)) = state_as_str (lp_state q)"
  by (simp_all add: plugin_detail_of_def chain_detail_of_def)

lemma plugin_detail_state:
  "map_option (\<lambda>d. pi_state (pd_info d)) (plugin_detail env r i) = map_option state_as_str (map_of (detail_cells r) i)"
proof -
  have m: "map_option (\<lambda>d. pi_state (pd_info d)) (map_option f (find_id i ps)) =
      map_option state_as_str (map_of (cells ps) i)"
    if "\<And>p. pi_state (pd_info (f p)) = state_as_str (lp_state p)"
    for f and ps :: "('i, 'z) loaded_scheme list"
    using that by (simp add: find_id_cells [symmetric] option.map_comp comp_def)
  have k: "map_option (\<lambda>d. pi_state (pd_info d)) (map_option f (find_kind i ps)) =
      map_option state_as_str (map_of (cells (map snd ps)) i)"
    if "\<And>k p. pi_state (pd_info (f (k, p))) = state_as_str (lp_state p)"
    for f and ps :: "(string \<times> ('i, 'z) loaded_scheme) list"
    using that by (auto simp add: find_kind_cells [symmetric] option.map_comp comp_def
        intro!: map_option_cong split: prod.splits)
  show ?thesis
    unfolding plugin_detail_def detail_cells_def chain_cells_def append_assoc map_of_append_or_else
      map_option_or_else
    by (simp add: m k del: option.map_comp)
qed

section \<open>Properties\<close>

datatype admin_op = Disable | Enable | Drain | FinishDrain | Degrade | Recover

definition run_admin :: "admin_op \<Rightarrow> string \<Rightarrow> 'w registry \<Rightarrow> (registry_error, 'w registry) rresult" where
  "run_admin op i r =
     (case op of
        Disable \<Rightarrow> disable i r
      | Enable \<Rightarrow> enable i r
      | Drain \<Rightarrow> try_then (mark_draining i r) (\<lambda>(t, r'). Inr r')
      | FinishDrain \<Rightarrow> mark_disabled_after_drain i r
      | Degrade \<Rightarrow> mark_degraded i r
      | Recover \<Rightarrow> mark_active i r)"

fun admin_target :: "admin_op \<Rightarrow> plugin_state" where
  "admin_target Disable = Disabled"
| "admin_target Enable = Active"
| "admin_target Drain = Draining"
| "admin_target FinishDrain = Disabled"
| "admin_target Degrade = Degraded"
| "admin_target Recover = Active"

fun admin_sources :: "admin_op \<Rightarrow> plugin_state set" where
  "admin_sources Disable = {Active, Degraded, Initialized, Draining}"
| "admin_sources Enable = {Disabled}"
| "admin_sources Drain = {Active, Degraded, Draining}"
| "admin_sources FinishDrain = {Draining, Disabled}"
| "admin_sources Degrade = {Active, Degraded}"
| "admin_sources Recover = {Degraded, Active}"

text \<open>The cell an operation looks at: drain only knows the three chains.\<close>

definition admin_cell :: "admin_op \<Rightarrow> 'w registry \<Rightarrow> string \<Rightarrow> plugin_state option" where
  "admin_cell op r i = (if op = Drain then chain_state r i else find_state_cell r i)"

lemma registered_plugin_ids_store: "registered_plugin_ids (store_state_cell i s r) = registered_plugin_ids r"
  unfolding store_state_cell_def
  by (intro if_eqI [where f = registered_plugin_ids])
    (simp_all add: registered_plugin_ids_def entry_ids_def)

lemma set_first_same: "map_of cs i = Some s \<Longrightarrow> set_first i s cs = cs"
  by (induction i s cs rule: set_first.induct) (auto split: if_splits)

text \<open>Every operation is: look the cell up, check it is a source state, write the target.\<close>

lemma run_admin_spec:
  "(case admin_cell op r i of
      None \<Rightarrow> is_err (run_admin op i r)
    | Some s \<Rightarrow> if s \<in> admin_sources op
        then run_admin op i r = Inr r \<and> s = admin_target op \<or> run_admin op i r = Inr (store_state_cell i (admin_target op) r)
        else is_err (run_admin op i r))"
proof (cases "op = Drain")
  case True
  show ?thesis
  proof (cases "find_chain_plugin_inflight r i")
    case None
    with True show ?thesis
      by (simp add: run_admin_def admin_cell_def mark_draining_def chain_state_def)
  next
    case (Some e)
    obtain s n where e: "e = (s, n)" by (cases e)
    with Some have "chain_state r i = Some s" by (simp add: chain_state_def)
    with True Some e store_chain_state_eq [OF this, of Draining] show ?thesis
      by (cases s) (simp_all add: run_admin_def admin_cell_def mark_draining_def)
  qed
next
  case False
  show ?thesis
  proof (cases "find_state_cell r i")
    case None
    with False show ?thesis
      by (cases op) (simp_all add: run_admin_def admin_cell_def disable_def enable_def
          mark_disabled_after_drain_def mark_degraded_def mark_active_def)
  next
    case (Some s)
    with False show ?thesis
      by (cases op; cases s) (simp_all add: run_admin_def admin_cell_def disable_def enable_def
          mark_disabled_after_drain_def mark_degraded_def mark_active_def)
  qed
qed

lemma admin_path: "s \<in> admin_sources op \<Longrightarrow> \<exists>ts. lc_steps s ts (admin_target op)"
proof (cases op)
  case Enable
  assume "s \<in> admin_sources op"
  with Enable have "lc_steps s [Enabled, Initialized, Active] (admin_target op)" by simp
  then show ?thesis by (rule exI)
qed (auto intro: exI [of _ "[]"] exI [of _ "[Disabled]"] exI [of _ "[Draining]"]
    exI [of _ "[Degraded]"] exI [of _ "[Active]"])

text \<open>
  C20. Every operator and prober action either fails and says why, or moves the plugin's cell along
  the lifecycle's transition table to the action's target state; it succeeds exactly from the
  action's source states (a drain only for the chain classes), no other plugin's state changes,
  and a well-formed registry stays well formed.
\<close>

theorem admin_actions_follow_lifecycle:
  "(is_ok (run_admin op i r) \<longleftrightarrow> (\<exists>s \<in> admin_sources op. admin_cell op r i = Some s))
   \<and> (\<forall>r'. run_admin op i r = Inr r' \<longrightarrow>
        (\<exists>s ts. lifecycle_state r i = Some s \<and> lc_steps s ts (admin_target op))
        \<and> lifecycle_state r' = (lifecycle_state r)(i \<mapsto> admin_target op)
        \<and> registered_plugin_ids r' = registered_plugin_ids r
        \<and> registry_wf r' = registry_wf r)"
proof -
  note spec = run_admin_spec [of op i r]
  have "is_ok (run_admin op i r) \<longleftrightarrow> (\<exists>s \<in> admin_sources op. admin_cell op r i = Some s)"
    using spec by (auto simp: is_err_iff split: option.splits if_splits)
  moreover {
    fix r' assume r': "run_admin op i r = Inr r'"
    with spec obtain s where s: "admin_cell op r i = Some s" "s \<in> admin_sources op"
      and r'_cases: "r' = r \<and> s = admin_target op \<or> r' = store_state_cell i (admin_target op) r"
      by (auto split: option.splits if_splits)
    from s(1) have cell: "find_state_cell r i = Some s"
      by (auto simp: admin_cell_def chain_state_find_state_cell split: if_splits)
    from r'_cases cell have load: "find_state_cell r' = (find_state_cell r)(i \<mapsto> admin_target op)"
      by (auto simp: all_cells.load_store fun_upd_idem)
    from r'_cases have "registered_plugin_ids r' = registered_plugin_ids r"
      by (auto simp: registered_plugin_ids_store)
    with r'_cases cell load admin_path [OF s(2)]
    have "(\<exists>s ts. lifecycle_state r i = Some s \<and> lc_steps s ts (admin_target op))
        \<and> lifecycle_state r' = (lifecycle_state r)(i \<mapsto> admin_target op)
        \<and> registered_plugin_ids r' = registered_plugin_ids r \<and> registry_wf r' = registry_wf r"
      by (auto simp: lifecycle_state_def [abs_def])
  }
  ultimately show ?thesis by blast
qed

theorem admin_actions_follow_lifecycle_witness:
  "is_ok (run_admin Disable ''s'' sample_registry)
   \<and> lifecycle_state (projr (run_admin Disable ''s'' sample_registry)) ''s'' = Some Disabled"
proof -
  have c: "admin_cell Disable sample_registry ''s'' = Some Active"
    by (simp add: admin_cell_def find_state_cell_table state_cells_def sample_registry_def registry_new_def
        new_schemes_entry_def sample_manifest_def)
  note T = admin_actions_follow_lifecycle [of Disable "''s''" sample_registry]
  from T c have ok: "is_ok (run_admin Disable ''s'' sample_registry)" by simp
  then obtain r' where "run_admin Disable ''s'' sample_registry = Inr r'"
    by (cases "run_admin Disable ''s'' sample_registry") auto
  with T ok show ?thesis by simp
qed

text \<open>
  An action reaches one instance only: of several registered instances with the same plugin id
  the first in search order changes and every later one keeps its state, so a second instance of a
  disabled plugin still serves traffic.
\<close>

theorem admin_actions_reach_first_instance_only:
  assumes "state_cells r = us @ (i, s) # vs" and "i \<notin> fst ` set us" and "run_admin op i r = Inr r'"
  shows "state_cells r' = us @ (i, admin_target op) # vs"
proof -
  from assms(1,2) have cell: "find_state_cell r i = Some s"
    by (simp add: find_state_cell_table map_of_eq_None_iff [symmetric] map_add_Some_iff)
  from run_admin_spec [of op i r] assms(3) obtain t where t: "admin_cell op r i = Some t"
    and r': "r' = r \<and> t = admin_target op \<or> r' = store_state_cell i (admin_target op) r"
    by (auto split: option.splits if_splits)
  from t cell have "t = s"
    by (auto simp: admin_cell_def dest: chain_state_find_state_cell split: if_splits)
  with r' assms(1,2) show ?thesis by (auto simp: all_cells.store_first_cell)
qed

definition two_instances :: "trace registry" where
  "two_instances = registry_new
     \<lparr>stores := [\<lparr>lp_alias = ''s1'', lp_manifest = sample_manifest ''s'', lp_tier = [], lp_state = Active,
         lp_instance = sample_object ''s'' [] [''sessions''], lp_supported_roles = [''sessions'']\<rparr>,
       \<lparr>lp_alias = ''s2'', lp_manifest = sample_manifest ''s'', lp_tier = [], lp_state = Active,
         lp_instance = sample_object ''s'' [] [''replay''], lp_supported_roles = [''replay'']\<rparr>]\<rparr>"

theorem admin_actions_reach_first_instance_only_witness:
  "state_cells (projr (run_admin Disable ''s'' two_instances)) = [(''s'', Disabled), (''s'', Active)]"
proof -
  have c: "state_cells two_instances = [] @ (''s'', Active) # [(''s'', Active)]"
    by (simp add: state_cells_def two_instances_def registry_new_def sample_manifest_def)
  then have "is_ok (run_admin Disable ''s'' two_instances)"
    by (simp add: run_admin_def disable_def find_state_cell_table)
  then obtain r' where "run_admin Disable ''s'' two_instances = Inr r'"
    by (cases "run_admin Disable ''s'' two_instances") auto
  with admin_actions_reach_first_instance_only [OF c _ this] show ?thesis by simp
qed

text \<open>
  A registered plugin id has no lifecycle state, and every operator action on it fails,
  exactly when all its registrations are content stores: the state lookup skips that class.
\<close>

theorem content_stores_have_no_state_cell:
  "((i \<in> set (registered_plugin_ids r) \<and> lifecycle_state r i = None) \<longleftrightarrow>
     (i \<in> set (entry_ids (map snd (content_stores r))) \<and> i \<notin> fst ` set (state_cells r)))
   \<and> (lifecycle_state r i = None \<longrightarrow> (\<forall>op. is_err (run_admin op i r)))"
proof (intro conjI impI allI)
  have "set (registered_plugin_ids r) = fst ` set (state_cells r) \<union> set (entry_ids (map snd (content_stores r)))"
    using arg_cong [OF mset_registered_ids [of r], of set_mset] by simp
  then show "(i \<in> set (registered_plugin_ids r) \<and> lifecycle_state r i = None) \<longleftrightarrow>
      (i \<in> set (entry_ids (map snd (content_stores r))) \<and> i \<notin> fst ` set (state_cells r))"
    by (auto simp: lifecycle_state_def find_state_cell_table map_of_eq_None_iff)
next
  fix op assume "lifecycle_state r i = None"
  moreover from this have "chain_state r i = None"
    using chain_state_find_state_cell [of r i] by (cases "chain_state r i") (auto simp: lifecycle_state_def)
  ultimately show "is_err (run_admin op i r)"
    using run_admin_spec [of op i r] by (auto simp: admin_cell_def lifecycle_state_def split: if_splits)
qed

definition content_store_only :: "trace registry" where
  "content_store_only = registry_new
     \<lparr>content_stores := [(''blob'', base_entry ''b'' (sample_manifest ''b'') [] (sample_object ''b'' ''blob'' []))]\<rparr>"

theorem content_stores_have_no_state_cell_witness:
  "''b'' \<in> set (registered_plugin_ids content_store_only) \<and> lifecycle_state content_store_only ''b'' = None
   \<and> is_err (run_admin Disable ''b'' content_store_only)"
proof -
  have "''b'' \<in> set (entry_ids (map snd (content_stores content_store_only)))"
    "state_cells content_store_only = []"
    by (simp_all add: content_store_only_def state_cells_def entry_ids_def base_entry_def sample_manifest_def
        registry_new_def)
  with content_stores_have_no_state_cell [of "''b''" content_store_only] show ?thesis by simp
qed

text \<open>
  The registry's listings describe the same plugins: \<open>registered_plugin_ids\<close>, \<open>iter_manifests\<close>
  and \<open>loaded_plugins\<close> have one item per registration (as many as \<open>total_count\<close>), and
  \<open>plugin_detail\<close>, when it finds a plugin, reports the state \<open>lifecycle_state\<close> reports unless the id
  is both a log and a metrics sink; it finds no catalog provider, credential issuer, approval
  notifier or content store.
\<close>

theorem registry_queries_agree:
  "mset (registered_plugin_ids r) = mset (map m_id (iter_manifests r))
   \<and> map pi_id (loaded_plugins r) = map m_id (iter_manifests r)
   \<and> length (loaded_plugins r) = total_count r
   \<and> (plugin_detail env r i = None \<longleftrightarrow> i \<notin> fst ` set (detail_cells r))
   \<and> (\<forall>d. plugin_detail env r i = Some d
        \<longrightarrow> i \<notin> fst ` set (cells (log_sinks r)) \<or> i \<notin> fst ` set (cells (metrics_sinks r))
        \<longrightarrow> map_option state_as_str (lifecycle_state r i) = Some (pi_state (pd_info d)))"
proof (intro conjI allI impI)
  show "length (loaded_plugins r) = total_count r"
    using map_pi_id_loaded_plugins [of r] length_iter_manifests [of r] by (metis length_map)
  show "plugin_detail env r i = None \<longleftrightarrow> i \<notin> fst ` set (detail_cells r)"
    using plugin_detail_state [of env r i] by (metis map_of_eq_None_iff option.map_disc_iff)
  fix d assume d: "plugin_detail env r i = Some d"
    and disj: "i \<notin> fst ` set (cells (log_sinks r)) \<or> i \<notin> fst ` set (cells (metrics_sinks r))"
  from plugin_detail_state [of env r i] d obtain s
    where s: "map_of (detail_cells r) i = Some s" and st: "pi_state (pd_info d) = state_as_str s"
    by (cases "map_of (detail_cells r) i") auto
  have "map_of (state_cells r) i = Some s"
    using s disj unfolding state_cells_def detail_cells_def chain_cells_def append_assoc map_of_append_or_else
    by (auto simp: or_else_eq_Some map_of_eq_None_iff [symmetric])
  with st show "map_option state_as_str (lifecycle_state r i) = Some (pi_state (pd_info d))"
    by (simp add: lifecycle_state_def find_state_cell_table)
qed (simp_all add: mset_registered_manifests map_pi_id_loaded_plugins)

theorem registry_queries_agree_witness:
  "plugin_detail sample_env sample_registry ''s'' \<noteq> None
   \<and> map_option state_as_str (lifecycle_state sample_registry ''s'') = Some ''active''"
proof -
  have "map_of (detail_cells sample_registry) ''s'' = Some Active"
    by (simp add: detail_cells_def chain_cells_def sample_registry_def registry_new_def sample_manifest_def
        new_schemes_entry_def)
  then have st: "map_option (\<lambda>d. pi_state (pd_info d)) (plugin_detail sample_env sample_registry ''s'') = Some ''active''"
    by (simp add: plugin_detail_state)
  then obtain d where d: "plugin_detail sample_env sample_registry ''s'' = Some d"
    and act: "pi_state (pd_info d) = ''active''" by (auto simp del: state_as_str.simps)
  have "''s'' \<notin> fst ` set (cells (log_sinks sample_registry))"
    by (simp add: sample_registry_def registry_new_def)
  with d act registry_queries_agree [of sample_registry sample_env "''s''"] show ?thesis by simp
qed

end
