(* ===== verification/Audit_Fanout.thy ===== *)
theory Audit_Fanout
  imports Registry_Admin
begin

text \<open>
  Audit emission of \<open>src/src/registry.rs\<close>: the action filter of a sink policy (\<open>glob_match\<close>,
  \<open>accepts\<close>), digesting of actor attributes (\<open>src/src/audit_events.rs\<close>), the fan-out to the sinks,
  its enforcement under \<open>fail_closed\<close>, and the operator setters the audit path reads. The lemmas
  show that the glob matcher is the declarative pattern language, that no sink sees a digested
  attribute in the clear, and when enforcement refuses.
\<close>

section \<open>Action filters\<close>

text \<open>The loop of \<open>glob_match\<close> after its first part: middle parts are searched, the last is a suffix.\<close>

fun glob_rest :: "string list \<Rightarrow> string \<Rightarrow> bool" where
  "glob_rest [] rest = True"
| "glob_rest [l] rest = ends_with rest l"
| "glob_rest (p # q # ps) rest =
     (case split_at_str rest p of None \<Rightarrow> False | Some (_, r) \<Rightarrow> glob_rest (q # ps) r)"

definition glob_match :: "string \<Rightarrow> string \<Rightarrow> bool" where
  "glob_match pattern txt =
     (let parts = split_char (CHR ''*'') pattern
      in if length parts = 1 then pattern = txt
         else (case strip_prefix_str txt (hd parts) of
                 None \<Rightarrow> False
               | Some rest \<Rightarrow> glob_rest (tl parts) rest))"

definition accepts :: "audit_sink_policy \<Rightarrow> string \<Rightarrow> bool" where
  "accepts policy action =
     (if list_ex (\<lambda>p. glob_match p action) (sk_deny_actions policy) then False
      else sk_allow_actions policy = [] \<or> list_ex (\<lambda>p. glob_match p action) (sk_allow_actions policy))"

section \<open>Digested actor attributes\<close>

definition DIGESTED_ACTOR_ATTRIBUTES :: "string list" where
  "DIGESTED_ACTOR_ATTRIBUTES = [''authorization_details'']"

definition REDACTED_ATTRIBUTE :: string where
  "REDACTED_ATTRIBUTE = ''redacted''"

definition attribute_digest :: "'w host_env \<Rightarrow> string \<Rightarrow> string \<Rightarrow> string" where
  "attribute_digest env key v = ''keyed-blake3:'' @ keyed_blake3_hex env key v"

definition digest_value :: "'w host_env \<Rightarrow> string option \<Rightarrow> string \<Rightarrow> string" where
  "digest_value env key v = (case key of Some k \<Rightarrow> attribute_digest env k v | None \<Rightarrow> REDACTED_ATTRIBUTE)"

text \<open>\<open>get_mut\<close> and a write, for each name of the list.\<close>

definition digest_attributes ::
  "'w host_env \<Rightarrow> string option \<Rightarrow> (string, string) bmap \<Rightarrow> (string, string) bmap" where
  "digest_attributes env key attrs =
     fold (\<lambda>name. map (\<lambda>(k, v). if k = name then (k, digest_value env key v) else (k, v)))
       DIGESTED_ACTOR_ATTRIBUTES attrs"

definition with_digested_actor_attributes ::
  "'w host_env \<Rightarrow> audit_event \<Rightarrow> string option \<Rightarrow> audit_event option" where
  "with_digested_actor_attributes env event key =
     (if \<not> list_ex (\<lambda>name. map_of (id_attributes (ev_actor event)) name \<noteq> None) DIGESTED_ACTOR_ATTRIBUTES
      then None
      else Some (event\<lparr>ev_actor := (ev_actor event)\<lparr>id_attributes :=
             digest_attributes env key (id_attributes (ev_actor event))\<rparr>\<rparr>))"

section \<open>Operator settings\<close>

definition set_audit_digest_key :: "string option \<Rightarrow> 'w registry \<Rightarrow> 'w registry" where
  "set_audit_digest_key key r = r\<lparr>audit_digest_key := key\<rparr>"

definition set_audit_node_id :: "string option \<Rightarrow> 'w registry \<Rightarrow> 'w registry" where
  "set_audit_node_id node_id r = r\<lparr>audit_node_id := node_id\<rparr>"

definition set_audit_request_policy :: "audit_emit_policy \<Rightarrow> 'w registry \<Rightarrow> 'w registry" where
  "set_audit_request_policy policy r = r\<lparr>audit_request_policy := policy\<rparr>"

definition set_tool_call_audit_emission :: "bool \<Rightarrow> bool \<Rightarrow> 'w registry \<Rightarrow> 'w registry" where
  "set_tool_call_audit_emission emit_allowed emit_completed r =
     r\<lparr>audit_emit_tool_call_allowed := emit_allowed, audit_emit_tool_call_completed := emit_completed\<rparr>"

definition digest_audit_identity :: "'w host_env \<Rightarrow> 'w registry \<Rightarrow> identity \<Rightarrow> identity" where
  "digest_audit_identity env r identity =
     (let probe = \<lparr>ev_event_id = [], ev_occurred_at = [], ev_actor = identity, ev_action = [],
            ev_resource = None, ev_outcome = Success, ev_request_id = None, ev_upstream_request_id = None,
            ev_node_id = None, ev_details = JNull, ev_prev_event_hash = None\<rparr>
      in case with_digested_actor_attributes env probe (audit_digest_key r) of
           Some digested \<Rightarrow> ev_actor digested
         | None \<Rightarrow> ev_actor probe)"

definition audit_sink_ids :: "'w registry \<Rightarrow> string list" where
  "audit_sink_ids r = map (\<lambda>p. m_id (lp_manifest p)) (audit_sinks r)"

definition has_serving_audit_sink :: "'w registry \<Rightarrow> bool" where
  "has_serving_audit_sink r = list_ex (\<lambda>p. sk_gating (lp_policy p) \<and> serving p) (audit_sinks r)"

definition tool_call_audit_reachable :: "'w registry \<Rightarrow> bool" where
  "tool_call_audit_reachable r =
     (list_ex serving (audit_sinks r)
      \<or> list_ex (\<lambda>p. sk_gating (lp_policy p)) (audit_sinks r) \<and> audit_request_policy r = FailClosed)"

definition emits_tool_call_allowed :: "'w registry \<Rightarrow> bool" where
  "emits_tool_call_allowed r = (audit_emit_tool_call_allowed r \<and> tool_call_audit_reachable r)"

definition emits_tool_call_completed :: "'w registry \<Rightarrow> bool" where
  "emits_tool_call_completed r = (audit_emit_tool_call_completed r \<and> tool_call_audit_reachable r)"

section \<open>Fan-out\<close>

text \<open>
  The async runtime: \<open>try_acquire\<close> takes a permit of a sink's semaphore if one is free, and
  \<open>spawn\<close> hands a task holding that permit to the executor, which runs it in the background.
\<close>

record 'w runtime =
  try_acquire :: "string \<Rightarrow> 'w \<Rightarrow> bool \<times> 'w"
  spawn :: "string \<Rightarrow> ('w, audit_error + audit_receipt) fut \<Rightarrow> 'w \<Rightarrow> 'w"

record audit_emit_result =
  ar_sink_id :: string
  ar_result :: "audit_error + audit_receipt"

text \<open>The event every sink gets: digested, then stamped with the node id.\<close>

definition prepare_event :: "'w host_env \<Rightarrow> 'w registry \<Rightarrow> audit_event \<Rightarrow> audit_event" where
  "prepare_event env r event =
     (let event = unwrap_or event (with_digested_actor_attributes env event (audit_digest_key r))
      in case (ev_node_id event, audit_node_id r) of
           (None, Some n) \<Rightarrow> event\<lparr>ev_node_id := Some n\<rparr>
         | _ \<Rightarrow> event)"

fun emit_to_sinks ::
  "'w runtime \<Rightarrow> audit_event \<Rightarrow> 'w audit_sink audit_entry list \<Rightarrow> 'w \<Rightarrow> audit_emit_result list \<times> 'w" where
  "emit_to_sinks rt event [] w = ([], w)"
| "emit_to_sinks rt event (sink # sinks) w =
     (if \<not> serving sink \<or> \<not> accepts (lp_policy sink) (ev_action event) then emit_to_sinks rt event sinks w
      else if \<not> sk_gating (lp_policy sink) then
        (case try_acquire rt (lp_alias sink) w of
           (False, w1) \<Rightarrow> emit_to_sinks rt event sinks w1
         | (True, w1) \<Rightarrow> emit_to_sinks rt event sinks
             (spawn rt (lp_alias sink) (as_emit (lp_instance sink) event) w1))
      else
        (let (result, w1) = await (as_emit (lp_instance sink) event) w;
             (out, w2) = emit_to_sinks rt event sinks w1
         in (\<lparr>ar_sink_id = m_id (lp_manifest sink), ar_result = result\<rparr> # out, w2)))"

definition emit_audit_event ::
  "'w host_env \<Rightarrow> 'w runtime \<Rightarrow> 'w registry \<Rightarrow> audit_event \<Rightarrow> 'w \<Rightarrow> audit_emit_result list \<times> 'w" where
  "emit_audit_event env rt r event w = emit_to_sinks rt (prepare_event env r event) (audit_sinks r) w"

text \<open>A gating sink that stopped serving counts as having lost the record.\<close>

definition closed_results :: "'w registry \<Rightarrow> audit_event \<Rightarrow> audit_emit_result list" where
  "closed_results r event =
     map (\<lambda>s. \<lparr>ar_sink_id = m_id (lp_manifest s), ar_result = Inl AuditClosed\<rparr>)
       (filter (\<lambda>s. sk_gating (lp_policy s) \<and> \<not> serving s \<and> accepts (lp_policy s) (ev_action event))
         (audit_sinks r))"

definition emit_audit_event_enforced ::
  "'w host_env \<Rightarrow> 'w runtime \<Rightarrow> 'w registry \<Rightarrow> audit_event \<Rightarrow> audit_emit_policy \<Rightarrow> 'w
    \<Rightarrow> (audit_emit_result list, audit_emit_result list) rresult \<times> 'w" where
  "emit_audit_event_enforced env rt r event policy w =
     (let (emitted, w1) = emit_audit_event env rt r event w;
          results = (if policy = FailClosed then emitted @ closed_results r event else emitted);
          any_failed = list_ex (\<lambda>x. is_err (ar_result x)) results
      in (case policy of
            FailOpen \<Rightarrow> Inr results
          | FailClosed \<Rightarrow> if any_failed then Inl results else Inr results, w1))"

text \<open>\<open>AuditEnforcementFailure::failed_sinks\<close>.\<close>

definition failed_sinks :: "audit_emit_result list \<Rightarrow> (string \<times> audit_error) list" where
  "failed_sinks results =
     concat (map (\<lambda>x. case ar_result x of Inl e \<Rightarrow> [(ar_sink_id x, e)] | Inr _ \<Rightarrow> []) results)"

definition emit_request_audit_event ::
  "'w host_env \<Rightarrow> 'w runtime \<Rightarrow> 'w registry \<Rightarrow> audit_event \<Rightarrow> 'w
    \<Rightarrow> (audit_emit_result list, unit) rresult \<times> 'w" where
  "emit_request_audit_event env rt r event w =
     (let (res, w1) = emit_audit_event_enforced env rt r event (audit_request_policy r) w
      in (try_then res (\<lambda>_. Inr ()), w1))"

definition emit_tool_call_record ::
  "'w host_env \<Rightarrow> 'w runtime \<Rightarrow> 'w registry \<Rightarrow> audit_event \<Rightarrow> plugin_context \<Rightarrow> 'w
    \<Rightarrow> gate_decision option \<times> 'w" where
  "emit_tool_call_record env rt r event ctx w =
     (case emit_request_audit_event env rt r event w of
        (Inr _, w1) \<Rightarrow> (None, w1)
      | (Inl _, w1) \<Rightarrow> (Some (Deny 503 (- 32603)
            (''tools/call refused: the audit record '' @ ev_action event @ '' was lost'') None), w1))"

fun flush_sinks :: "nat \<Rightarrow> 'w audit_sink audit_entry list \<Rightarrow> 'w \<Rightarrow> 'w" where
  "flush_sinks timeout_ms [] w = w"
| "flush_sinks timeout_ms (sink # sinks) w =
     (if \<not> serving sink then flush_sinks timeout_ms sinks w
      else flush_sinks timeout_ms sinks (snd (await (as_flush (lp_instance sink) timeout_ms) w)))"

definition flush_audit_sinks :: "'w registry \<Rightarrow> nat \<Rightarrow> 'w \<Rightarrow> 'w" where
  "flush_audit_sinks r timeout_ms w = flush_sinks timeout_ms (audit_sinks r) w"

section \<open>The pattern language\<close>

text \<open>The documented meaning of a pattern: a star matches any run, every other character itself.\<close>

fun glob_spec :: "string \<Rightarrow> string \<Rightarrow> bool" where
  "glob_spec [] t = (t = [])"
| "glob_spec (c # p) [] = (c = CHR ''*'' \<and> glob_spec p [])"
| "glob_spec (c # p) (d # t) =
     (if c = CHR ''*'' then glob_spec p (d # t) \<or> glob_spec (c # p) t
      else d = c \<and> glob_spec p t)"

text \<open>A list of parts separated by arbitrary gaps.\<close>

fun gap_match :: "string list \<Rightarrow> string \<Rightarrow> bool" where
  "gap_match [] t = (t = [])"
| "gap_match (p # ps) t = (\<exists>g t'. t = g @ p @ t' \<and> gap_match ps t')"

lemma gap_match_prepend: "ps \<noteq> [] \<Longrightarrow> gap_match ps t \<Longrightarrow> gap_match ps (g @ t)"
  by (cases ps) (auto, metis append.assoc)

lemma glob_rest_gap_match: "ps \<noteq> [] \<Longrightarrow> glob_rest ps t \<longleftrightarrow> gap_match ps t"
proof (induction ps t rule: glob_rest.induct)
  case (2 l t)
  then show ?case by (auto simp: ends_with_def suffix_def)
next
  case (3 p q ps t)
  show ?case
  proof
    assume "glob_rest (p # q # ps) t"
    then obtain a r where s: "split_at_str t p = Some (a, r)" "glob_rest (q # ps) r"
      by (auto split: option.splits)
    with "3.IH" [OF s(1) refl] have "gap_match (q # ps) r" by simp
    with split_at_str_Some [OF s(1)] show "gap_match (p # q # ps) t"
      unfolding gap_match.simps(2) [of p] by blast
  next
    assume "gap_match (p # q # ps) t"
    then obtain g t' where t: "t = g @ p @ t'" and m: "gap_match (q # ps) t'"
      unfolding gap_match.simps(2) [of p] by blast
    from split_at_str_leftmost [OF t] obtain a r where s: "split_at_str t p = Some (a, r)"
      and le: "length a \<le> length g" by blast
    from split_at_str_Some [OF s] t have "a @ p @ r = g @ p @ t'" by simp
    moreover from this have "length a + length r = length g + length t'"
      by (metis add.left_commute length_append nat_add_left_cancel_le nat_le_linear add_left_cancel)
    with le have "length t' \<le> length r" by linarith
    ultimately have "suffix t' r"
      by (metis append.assoc suffixI suffix_length_suffix)
    then have "\<exists>h. r = h @ t'" by (auto simp: suffix_def)
    with m have "gap_match (q # ps) r" using gap_match_prepend by blast
    with "3.IH" [OF s refl] s show "glob_rest (p # q # ps) t" by simp
  qed
qed simp

lemma star_spec: "glob_spec (CHR ''*'' # p) t \<longleftrightarrow> (\<exists>g t'. t = g @ t' \<and> glob_spec p t')"
proof (induction t)
  case (Cons d t)
  show ?case
  proof
    assume "glob_spec (CHR ''*'' # p) (d # t)"
    then consider "glob_spec p (d # t)" | "glob_spec (CHR ''*'' # p) t" by auto
    then show "\<exists>g t'. d # t = g @ t' \<and> glob_spec p t'"
      by cases (metis append_Nil, metis Cons append_Cons)
  next
    assume "\<exists>g t'. d # t = g @ t' \<and> glob_spec p t'"
    then obtain g t' where g: "d # t = g @ t'" "glob_spec p t'" by blast
    with Cons show "glob_spec (CHR ''*'' # p) (d # t)" by (cases g) auto
  qed
qed simp

text \<open>The parts between the stars, matched with gaps, are the pattern language.\<close>

lemma glob_spec_parts:
  "glob_spec p t \<longleftrightarrow> (\<exists>t'. t = hd (split_char (CHR ''*'') p) @ t' \<and> gap_match (tl (split_char (CHR ''*'') p)) t')"
proof (induction p arbitrary: t)
  case (Cons c p)
  obtain q qs where s: "split_char (CHR ''*'') p = q # qs" by (cases "split_char (CHR ''*'') p") simp_all
  show ?case
  proof (cases "c = CHR ''*''")
    case True
    have "glob_spec (c # p) t \<longleftrightarrow> (\<exists>g t'. t = g @ t' \<and> (\<exists>u. t' = q @ u \<and> gap_match qs u))"
      by (simp only: True star_spec Cons s list.sel)
    also have "\<dots> \<longleftrightarrow> gap_match (q # qs) t" by auto
    finally show ?thesis using True s by simp
  next
    case False
    with Cons s show ?thesis by (cases t) auto
  qed
qed simp

section \<open>Facts on the fan-out\<close>

lemma emit_to_sinks_ids:
  "map ar_sink_id (fst (emit_to_sinks rt event sinks w)) =
    map (\<lambda>s. m_id (lp_manifest s))
      (filter (\<lambda>s. serving s \<and> accepts (lp_policy s) (ev_action event) \<and> sk_gating (lp_policy s)) sinks)"
  by (induction sinks arbitrary: w) (auto simp: Let_def case_prod_beta split: bool.splits)

lemma prepare_event_action [simp]: "ev_action (prepare_event env r event) = ev_action event"
  by (auto simp: prepare_event_def with_digested_actor_attributes_def Let_def split: option.splits)

text \<open>
  What the fan-out is meant to do, sink by sink: \<open>sink_turn\<close> is the world after a sink had its turn (a
  gating sink is awaited, a best-effort one gets a background task if it has a permit), and
  \<open>sink_answer\<close> is what the sink at a position really answers, after the turns of those before it.
\<close>

definition sink_takes :: "string \<Rightarrow> 'w audit_sink audit_entry \<Rightarrow> bool" where
  "sink_takes action s \<longleftrightarrow> serving s \<and> accepts (lp_policy s) action"

definition sink_turn :: "'w runtime \<Rightarrow> audit_event \<Rightarrow> 'w audit_sink audit_entry \<Rightarrow> 'w \<Rightarrow> 'w" where
  "sink_turn rt event s w =
     (if \<not> sink_takes (ev_action event) s then w
      else if sk_gating (lp_policy s) then snd (await (as_emit (lp_instance s) event) w)
      else case try_acquire rt (lp_alias s) w of (permit, w1) \<Rightarrow>
        if permit then spawn rt (lp_alias s) (as_emit (lp_instance s) event) w1 else w1)"

definition sink_answer ::
  "'w runtime \<Rightarrow> audit_event \<Rightarrow> 'w audit_sink audit_entry list \<Rightarrow> 'w \<Rightarrow> nat \<Rightarrow> audit_error + audit_receipt" where
  "sink_answer rt event sinks w k =
     fst (await (as_emit (lp_instance (sinks ! k)) event) (fold (sink_turn rt event) (take k sinks) w))"

definition answering_sinks :: "string \<Rightarrow> 'w audit_sink audit_entry list \<Rightarrow> nat list" where
  "answering_sinks action sinks =
     filter (\<lambda>k. sink_takes action (sinks ! k) \<and> sk_gating (lp_policy (sinks ! k))) [0..<length sinks]"

lemma sink_answer_Cons:
  "sink_answer rt event (s # sinks) w 0 = fst (await (as_emit (lp_instance s) event) w)"
  "sink_answer rt event (s # sinks) w (Suc k) = sink_answer rt event sinks (sink_turn rt event s w) k"
  by (simp_all add: sink_answer_def)

lemma answering_sinks_Cons:
  "answering_sinks action (s # sinks) =
     (if sink_takes action s \<and> sk_gating (lp_policy s) then [0] else []) @ map Suc (answering_sinks action sinks)"
proof -
  have "[0..<length (s # sinks)] = 0 # map Suc [0..<length sinks]"
    by (simp add: map_Suc_upt upt_conv_Cons del: upt_Suc)
  then show ?thesis by (simp add: answering_sinks_def filter_map comp_def)
qed

lemma emit_to_sinks_answers:
  "emit_to_sinks rt event sinks w =
     (map (\<lambda>k. \<lparr>ar_sink_id = m_id (lp_manifest (sinks ! k)), ar_result = sink_answer rt event sinks w k\<rparr>)
        (answering_sinks (ev_action event) sinks),
      fold (sink_turn rt event) sinks w)"
proof (induction sinks arbitrary: w)
  case (Cons s sinks)
  show ?case
    by (auto simp: Cons answering_sinks_Cons sink_answer_Cons sink_turn_def [of rt event s w] sink_takes_def
        Let_def case_prod_beta comp_def split: bool.splits)
qed (simp add: answering_sinks_def)

lemma answering_sinks_set:
  "k \<in> set (answering_sinks action sinks) \<longleftrightarrow>
     k < length sinks \<and> serving (sinks ! k) \<and> accepts (lp_policy (sinks ! k)) action \<and> sk_gating (lp_policy (sinks ! k))"
  by (auto simp: answering_sinks_def sink_takes_def)

text \<open>Enforcement, over what the sinks really answered.\<close>

lemma enforced_iff_answers:
  "is_ok (fst (emit_audit_event_enforced env rt r event FailClosed w)) \<longleftrightarrow>
     (\<forall>k < length (audit_sinks r).
        sk_gating (lp_policy (audit_sinks r ! k)) \<and> accepts (lp_policy (audit_sinks r ! k)) (ev_action event) \<longrightarrow>
        serving (audit_sinks r ! k) \<and> is_ok (sink_answer rt (prepare_event env r event) (audit_sinks r) w k))"
proof -
  have ok: "is_err x \<longleftrightarrow> \<not> is_ok x" for x :: "audit_error + audit_receipt" by (cases x) auto
  have "list_ex (\<lambda>x. is_err (ar_result x)) (closed_results r event) \<longleftrightarrow>
      \<not> (\<forall>k < length (audit_sinks r). sk_gating (lp_policy (audit_sinks r ! k))
            \<and> accepts (lp_policy (audit_sinks r ! k)) (ev_action event) \<longrightarrow> serving (audit_sinks r ! k))"
    by (auto simp: closed_results_def list_ex_iff in_set_conv_nth)
  moreover have "list_ex (\<lambda>x. is_err (ar_result x)) (fst (emit_audit_event env rt r event w)) \<longleftrightarrow>
      \<not> (\<forall>k < length (audit_sinks r). serving (audit_sinks r ! k)
            \<and> accepts (lp_policy (audit_sinks r ! k)) (ev_action event) \<and> sk_gating (lp_policy (audit_sinks r ! k)) \<longrightarrow>
            is_ok (sink_answer rt (prepare_event env r event) (audit_sinks r) w k))"
    by (auto simp: emit_audit_event_def emit_to_sinks_answers list_ex_iff ok answering_sinks_set)
  ultimately show ?thesis
    by (auto simp: emit_audit_event_enforced_def Let_def case_prod_beta)
qed

lemma emit_to_sinks_cong:
  "emit_to_sinks rt event (filter (\<lambda>s. serving s \<and> accepts (lp_policy s) (ev_action event)) sinks) w
    = emit_to_sinks rt event sinks w"
  by (induction sinks arbitrary: w) (auto simp: Let_def case_prod_beta split: bool.splits)

lemma map_of_digest_attributes:
  "map_of (digest_attributes env key attrs) a =
    (if a \<in> set DIGESTED_ACTOR_ATTRIBUTES then map_option (digest_value env key) (map_of attrs a) else map_of attrs a)"
  by (induction attrs) (auto simp: digest_attributes_def DIGESTED_ACTOR_ATTRIBUTES_def)

lemma prepared_attributes:
  "map_of (id_attributes (ev_actor (prepare_event env r event))) a =
    (if a \<in> set DIGESTED_ACTOR_ATTRIBUTES
     then map_option (digest_value env (audit_digest_key r)) (map_of (id_attributes (ev_actor event)) a)
     else map_of (id_attributes (ev_actor event)) a)"
proof (cases "with_digested_actor_attributes env event (audit_digest_key r)")
  case None
  then have "\<forall>a \<in> set DIGESTED_ACTOR_ATTRIBUTES. map_of (id_attributes (ev_actor event)) a = None"
    by (auto simp: with_digested_actor_attributes_def DIGESTED_ACTOR_ATTRIBUTES_def split: if_splits)
  with None show ?thesis
    by (auto simp: prepare_event_def Let_def split: option.splits)
next
  case (Some e)
  then have "ev_actor e = (ev_actor event)\<lparr>id_attributes := digest_attributes env (audit_digest_key r) (id_attributes (ev_actor event))\<rparr>"
    by (auto simp: with_digested_actor_attributes_def split: if_splits)
  with Some show ?thesis
    by (auto simp: prepare_event_def Let_def map_of_digest_attributes split: option.splits)
qed

lemma enforced_failopen: "\<exists>x. fst (emit_audit_event_enforced env rt r event FailOpen w) = Inr x"
  by (simp add: emit_audit_event_enforced_def Let_def case_prod_beta)

section \<open>Properties\<close>

text \<open>
  C37. The action filter's matcher, which searches each middle part greedily from the left, decides
  exactly the documented pattern language: a star matches any run of characters and every other
  character matches itself.
\<close>

theorem glob_match_correct: "glob_match pattern action = glob_spec pattern action"
proof -
  let ?parts = "split_char (CHR ''*'') pattern"
  obtain q qs where s: "?parts = q # qs" by (cases ?parts) simp_all
  show ?thesis
  proof (cases "qs = []")
    case True
    with s have "q = pattern" using join_split_char [of "CHR ''*''" pattern] by simp
    with s True show ?thesis by (auto simp: glob_match_def glob_spec_parts)
  next
    case False
    with s have g: "glob_match pattern action =
        (case strip_prefix_str action q of None \<Rightarrow> False | Some rest \<Rightarrow> gap_match qs rest)"
      by (simp add: glob_match_def Let_def glob_rest_gap_match split: option.split)
    show ?thesis
    proof (cases "strip_prefix_str action q")
      case None
      then have "\<nexists>t. action = q @ t" by (auto simp: strip_prefix_str_None starts_with_def)
      with None g s show ?thesis by (simp add: glob_spec_parts)
    next
      case (Some rest)
      then have "action = q @ rest" by (simp add: strip_prefix_str_Some)
      with Some g s show ?thesis by (simp add: glob_spec_parts)
    qed
  qed
qed

text \<open>Two sinks that behave alike on the prepared event cannot be told apart by the fan-out.\<close>

definition answer_elsewhere ::
  "audit_event \<Rightarrow> (audit_event \<Rightarrow> ('w, audit_error + audit_receipt) fut) \<Rightarrow> 'w audit_sink audit_entry
    \<Rightarrow> 'w audit_sink audit_entry" where
  "answer_elsewhere e f s = s\<lparr>lp_instance := (lp_instance s)
     \<lparr>as_emit := (\<lambda>e'. if e' = e then as_emit (lp_instance s) e' else f e')\<rparr>\<rparr>"

lemma emit_to_sinks_elsewhere:
  "emit_to_sinks rt e (map (answer_elsewhere e f) sinks) w = emit_to_sinks rt e sinks w"
  by (induction sinks arbitrary: w)
    (auto simp: answer_elsewhere_def serving_def Let_def case_prod_beta split: bool.splits)

lemma prepare_event_keeps:
  "prepare_event env r event = event
     \<lparr>ev_actor := (ev_actor event)\<lparr>id_attributes := id_attributes (ev_actor (prepare_event env r event))\<rparr>,
      ev_node_id := or_else (ev_node_id event) (audit_node_id r)\<rparr>"
  by (cases event) (auto simp: prepare_event_def with_digested_actor_attributes_def Let_def or_else_def
      split: option.splits)

lemma prepare_event_attribute_names:
  "map fst (id_attributes (ev_actor (prepare_event env r event))) = map fst (id_attributes (ev_actor event))"
  by (auto simp: prepare_event_def with_digested_actor_attributes_def digest_attributes_def
      DIGESTED_ACTOR_ATTRIBUTES_def Let_def comp_def case_prod_beta split: option.splits)

text \<open>
  C36. What a sink receives never carries a digested attribute in the clear: each attribute named in
  \<open>DIGESTED_ACTOR_ATTRIBUTES\<close> is its keyed digest, or the redaction marker when no key is set. Every
  other field of the event, of its actor and every other attribute is kept, in the same order; only
  a missing node id is stamped with the host's. The fan-out hands the sinks nothing but that event: how a
  sink behaves on any other event makes no difference. The identity shown elsewhere is digested
  the same way.
\<close>

theorem sinks_see_digested_attributes:
  "(a \<in> set DIGESTED_ACTOR_ATTRIBUTES \<longrightarrow>
      map_of (id_attributes (ev_actor (prepare_event env r event))) a
        = (case map_of (id_attributes (ev_actor event)) a of
             None \<Rightarrow> None
           | Some v \<Rightarrow> Some (case audit_digest_key r of
               None \<Rightarrow> REDACTED_ATTRIBUTE | Some k \<Rightarrow> attribute_digest env k v)))
   \<and> (a \<notin> set DIGESTED_ACTOR_ATTRIBUTES \<longrightarrow>
      map_of (id_attributes (ev_actor (prepare_event env r event))) a = map_of (id_attributes (ev_actor event)) a)
   \<and> map fst (id_attributes (ev_actor (prepare_event env r event))) = map fst (id_attributes (ev_actor event))
   \<and> prepare_event env r event = event
       \<lparr>ev_actor := (ev_actor event)\<lparr>id_attributes := id_attributes (ev_actor (prepare_event env r event))\<rparr>,
        ev_node_id := or_else (ev_node_id event) (audit_node_id r)\<rparr>
   \<and> emit_audit_event env rt r event w = emit_to_sinks rt (prepare_event env r event) (audit_sinks r) w
   \<and> emit_audit_event env rt (r\<lparr>audit_sinks := map (answer_elsewhere (prepare_event env r event) f) (audit_sinks r)\<rparr>)
       event w = emit_audit_event env rt r event w
   \<and> digest_audit_identity env r (ev_actor event) = ev_actor (prepare_event env r event)"
proof -
  have "digest_audit_identity env r (ev_actor event) = ev_actor (prepare_event env r event)"
    by (auto simp: prepare_event_def digest_audit_identity_def with_digested_actor_attributes_def Let_def
        split: option.splits)
  moreover have "prepare_event env (r\<lparr>audit_sinks := map (answer_elsewhere (prepare_event env r event) f) (audit_sinks r)\<rparr>) event
      = prepare_event env r event"
    by (simp add: prepare_event_def)
  then have "emit_audit_event env rt
      (r\<lparr>audit_sinks := map (answer_elsewhere (prepare_event env r event) f) (audit_sinks r)\<rparr>) event w
      = emit_audit_event env rt r event w"
    by (simp add: emit_audit_event_def emit_to_sinks_elsewhere)
  moreover have "emit_audit_event env rt r event w = emit_to_sinks rt (prepare_event env r event) (audit_sinks r) w"
    by (simp add: emit_audit_event_def)
  ultimately show ?thesis
    by (intro conjI impI prepare_event_keeps prepare_event_attribute_names)
      (auto simp: prepared_attributes digest_value_def split: option.splits)
qed

text \<open>
  C14. Enforcement under \<open>fail_closed\<close>: the operation may proceed exactly when every gating sink whose
  filter takes the action is serving and itself answered the prepared event with a receipt, asked
  after the turns of the sinks registered before it; the list of results has one entry for each such
  serving sink, in registration order, with its id and its own answer. Non-gating sinks and sinks that
  filter the action out never refuse, \<open>fail_open\<close> never refuses, and either policy leaves the world
  the sinks' turns leave.
\<close>

theorem fail_closed_exact:
  "(is_ok (fst (emit_audit_event_enforced env rt r event FailClosed w)) \<longleftrightarrow>
      (\<forall>k < length (audit_sinks r).
         sk_gating (lp_policy (audit_sinks r ! k)) \<and> accepts (lp_policy (audit_sinks r ! k)) (ev_action event) \<longrightarrow>
         serving (audit_sinks r ! k) \<and>
         is_ok (fst (await (as_emit (lp_instance (audit_sinks r ! k)) (prepare_event env r event))
           (fold (sink_turn rt (prepare_event env r event)) (take k (audit_sinks r)) w)))))
   \<and> is_ok (fst (emit_audit_event_enforced env rt r event FailOpen w))
   \<and> map (\<lambda>x. (ar_sink_id x, ar_result x)) (fst (emit_audit_event env rt r event w)) =
       map (\<lambda>k. (m_id (lp_manifest (audit_sinks r ! k)),
           fst (await (as_emit (lp_instance (audit_sinks r ! k)) (prepare_event env r event))
             (fold (sink_turn rt (prepare_event env r event)) (take k (audit_sinks r)) w))))
         (filter (\<lambda>k. serving (audit_sinks r ! k) \<and> accepts (lp_policy (audit_sinks r ! k)) (ev_action event)
           \<and> sk_gating (lp_policy (audit_sinks r ! k))) [0..<length (audit_sinks r)])
   \<and> snd (emit_audit_event_enforced env rt r event policy w)
       = fold (sink_turn rt (prepare_event env r event)) (audit_sinks r) w"
proof -
  have "snd (emit_audit_event_enforced env rt r event policy w)
      = fold (sink_turn rt (prepare_event env r event)) (audit_sinks r) w"
    by (simp add: emit_audit_event_enforced_def emit_audit_event_def emit_to_sinks_answers Let_def case_prod_beta)
  moreover have "is_ok (fst (emit_audit_event_enforced env rt r event FailOpen w))"
    using enforced_failopen [of env rt r event w] by auto
  ultimately show ?thesis
    by (simp add: enforced_iff_answers emit_audit_event_def emit_to_sinks_answers answering_sinks_def sink_takes_def
        sink_answer_def comp_def conj_assoc)
qed

definition sample_runtime :: "trace runtime" where
  "sample_runtime = \<lparr>try_acquire = (\<lambda>s w. (True, w)), spawn = (\<lambda>s f w. snd (await f w))\<rparr>"

definition sample_audit_registry :: "trace registry" where
  "sample_audit_registry = registry_new
     \<lparr>audit_sinks := [\<lparr>lp_alias = ''a'', lp_manifest = sample_manifest ''a'', lp_tier = [], lp_state = Active,
         lp_instance = sample_audit_sink ''a'' (Inr JNull), lp_policy = audit_sink_policy_default\<rparr>,
       \<lparr>lp_alias = ''b'', lp_manifest = sample_manifest ''b'', lp_tier = [], lp_state = Disabled,
         lp_instance = sample_audit_sink ''b'' (Inr JNull), lp_policy = audit_sink_policy_default\<rparr>],
      audit_node_id := Some ''n1'', audit_request_policy := FailClosed\<rparr>"

lemma sample_audit_registry_sel:
  "audit_sinks sample_audit_registry =
     [\<lparr>lp_alias = ''a'', lp_manifest = sample_manifest ''a'', lp_tier = [], lp_state = Active,
         lp_instance = sample_audit_sink ''a'' (Inr JNull), lp_policy = audit_sink_policy_default\<rparr>,
       \<lparr>lp_alias = ''b'', lp_manifest = sample_manifest ''b'', lp_tier = [], lp_state = Disabled,
         lp_instance = sample_audit_sink ''b'' (Inr JNull), lp_policy = audit_sink_policy_default\<rparr>]"
  "audit_digest_key sample_audit_registry = None" "audit_node_id sample_audit_registry = Some ''n1''"
  "audit_request_policy sample_audit_registry = FailClosed"
  by (simp_all add: sample_audit_registry_def registry_new_def)

theorem sinks_see_digested_attributes_witness:
  "map_of (id_attributes (ev_actor (prepare_event sample_env sample_audit_registry sample_event)))
     ''authorization_details'' = Some ''redacted''
   \<and> map_of (id_attributes (ev_actor (prepare_event sample_env sample_audit_registry sample_event))) ''team''
     = Some ''red''"
  using sinks_see_digested_attributes [where a = "''authorization_details''" and env = sample_env
      and r = sample_audit_registry and event = sample_event and rt = sample_runtime and w = "[]", THEN conjunct1]
    sinks_see_digested_attributes [where a = "''team''" and env = sample_env
      and r = sample_audit_registry and event = sample_event and rt = sample_runtime and w = "[]", THEN conjunct2, THEN conjunct1]
  by (simp add: DIGESTED_ACTOR_ATTRIBUTES_def sample_event_def sample_identity_def sample_audit_registry_sel
      REDACTED_ATTRIBUTE_def)

theorem fail_closed_exact_witness:
  "\<not> is_ok (fst (emit_audit_event_enforced sample_env sample_runtime sample_audit_registry sample_event FailClosed []))
   \<and> is_ok (fst (emit_audit_event_enforced sample_env sample_runtime sample_audit_registry sample_event FailOpen []))"
proof -
  note exact = fail_closed_exact [where env = sample_env and rt = sample_runtime and r = sample_audit_registry
      and event = sample_event and w = "[]" and policy = FailClosed]
  have "1 < length (audit_sinks sample_audit_registry)" "\<not> serving (audit_sinks sample_audit_registry ! 1)"
    "sk_gating (lp_policy (audit_sinks sample_audit_registry ! 1))"
    "accepts (lp_policy (audit_sinks sample_audit_registry ! 1)) (ev_action sample_event)"
    by (simp_all add: sample_audit_registry_sel audit_sink_policy_default_def audit_sink_policy_new_def accepts_def
        serving_def)
  with exact [THEN conjunct1] exact [THEN conjunct2, THEN conjunct1] show ?thesis by blast
qed

end
