(* ===== verification/Audit_Events.thy ===== *)
theory Audit_Events
  imports Protocol
begin

text \<open>
  The audit event constructors of \<open>src/src/audit_events.rs\<close> that the registry's chains use. Each
  mints an event id and a timestamp; the pair is the first argument of the model's constructors.
\<close>

type_synonym stamp = "string \<times> string"

record chain_trace =
  ct_plugin_id :: string
  ct_phase :: string
  ct_decision :: string
  ct_latency_ms :: nat

definition chain_trace_json :: "chain_trace \<Rightarrow> json" where
  "chain_trace_json c = json_obj [(''plugin_id'', JString (ct_plugin_id c)), (''phase'', JString (ct_phase c)),
     (''decision'', JString (ct_decision c)), (''latency_ms'', JNumber (int (ct_latency_ms c)))]"

definition system_identity :: identity where
  "system_identity = \<lparr>id_kind = ''system'', id_trust_level = ''system'', id_subject_id = Some ''mcpg-gateway'',
     id_auth_provider = None, id_issuer = None, id_roles = [], id_groups = [], id_scopes = [], id_attributes = []\<rparr>"

definition tool_gate_event ::
  "stamp \<Rightarrow> plugin_context \<Rightarrow> string \<Rightarrow> string \<Rightarrow> audit_outcome \<Rightarrow> json \<Rightarrow> audit_event" where
  "tool_gate_event st ctx plugin_id action outcome details =
     \<lparr>ev_event_id = fst st, ev_occurred_at = snd st, ev_actor = cx_identity ctx, ev_action = action,
      ev_resource = Some (''tool://'' @ cx_tool_name ctx), ev_outcome = outcome,
      ev_request_id = Some (cx_request_id ctx), ev_upstream_request_id = None, ev_node_id = None,
      ev_details = json_obj [(''plugin_id'', JString plugin_id), (''decision'', details)],
      ev_prev_event_hash = None\<rparr>"

definition tool_gate_allowed_event :: "stamp \<Rightarrow> plugin_context \<Rightarrow> nat \<Rightarrow> chain_trace list \<Rightarrow> audit_event" where
  "tool_gate_allowed_event st ctx plugin_count chain =
     \<lparr>ev_event_id = fst st, ev_occurred_at = snd st, ev_actor = cx_identity ctx,
      ev_action = ''mcpg.tool.call.allowed'', ev_resource = Some (''tool://'' @ cx_tool_name ctx),
      ev_outcome = Success, ev_request_id = Some (cx_request_id ctx), ev_upstream_request_id = None,
      ev_node_id = None,
      ev_details = json_obj [(''tool_gate_plugins_evaluated'', JNumber (int plugin_count)),
        (''surface'', JString (cx_surface ctx)), (''chain'', JArray (map chain_trace_json chain))],
      ev_prev_event_hash = None\<rparr>"

definition tool_gate_completed_event ::
  "stamp \<Rightarrow> plugin_context \<Rightarrow> nat \<Rightarrow> nat \<Rightarrow> chain_trace list \<Rightarrow> audit_event" where
  "tool_gate_completed_event st ctx plugin_count execution_duration_ms chain =
     \<lparr>ev_event_id = fst st, ev_occurred_at = snd st, ev_actor = cx_identity ctx,
      ev_action = ''mcpg.tool.call.completed'', ev_resource = Some (''tool://'' @ cx_tool_name ctx),
      ev_outcome = Success, ev_request_id = Some (cx_request_id ctx), ev_upstream_request_id = None,
      ev_node_id = None,
      ev_details = json_obj [(''tool_gate_plugins_evaluated'', JNumber (int plugin_count)),
        (''execution_duration_ms'', JNumber (int execution_duration_ms)),
        (''surface'', JString (cx_surface ctx)), (''chain'', JArray (map chain_trace_json chain))],
      ev_prev_event_hash = None\<rparr>"

definition payment_receipt :: "json option \<Rightarrow> json option" where
  "payment_receipt receipt_metadata =
     or_else (Option.bind receipt_metadata (\<lambda>m. json_get m ''org.paymentauth/receipt'')) receipt_metadata"

definition receipt_reference :: "json option \<Rightarrow> string option" where
  "receipt_reference receipt =
     Option.bind (Option.bind receipt (\<lambda>r. or_else (json_get r ''reference'') (json_get r ''id''))) json_as_str"

definition payment_outcome_event ::
  "stamp \<Rightarrow> plugin_context \<Rightarrow> string \<Rightarrow> bool \<Rightarrow> json option \<Rightarrow> string option \<Rightarrow> audit_event" where
  "payment_outcome_event st ctx plugin_id success receipt_metadata deny_reason =
     (let payment_kind = unwrap_or plugin_id (strip_prefix_str plugin_id ''dev.mcpg.payment.'');
          receipt = payment_receipt receipt_metadata;
          receipt_id = receipt_reference receipt
      in \<lparr>ev_event_id = fst st, ev_occurred_at = snd st, ev_actor = cx_identity ctx,
          ev_action = (if success then ''mcpg.payment.charged'' else ''mcpg.payment.failed''),
          ev_resource = Some (''payment://'' @ unwrap_or ''unknown'' receipt_id),
          ev_outcome = (if success then Success else Denied),
          ev_request_id = Some (cx_request_id ctx), ev_upstream_request_id = None, ev_node_id = None,
          ev_details = json_obj [(''payment_kind'', JString payment_kind), (''plugin_id'', JString plugin_id),
            (''tool'', JString (cx_tool_name ctx)), (''surface'', JString (cx_surface ctx)),
            (''receipt'', json_opt receipt), (''deny_reason'', json_opt_str deny_reason)],
          ev_prev_event_hash = None\<rparr>)"

definition hash_json_value :: "'w host_env \<Rightarrow> json \<Rightarrow> string" where
  "hash_json_value env v = ''blake3:'' @ blake3_hex env (json_to_bytes env v)"

definition transform_applied_event ::
  "'w host_env \<Rightarrow> stamp \<Rightarrow> plugin_context \<Rightarrow> string \<Rightarrow> string \<Rightarrow> json \<Rightarrow> json \<Rightarrow> audit_event" where
  "transform_applied_event env st ctx plugin_id phase pre post =
     \<lparr>ev_event_id = fst st, ev_occurred_at = snd st, ev_actor = cx_identity ctx,
      ev_action = ''mcpg.transform.applied'', ev_resource = Some (''plugin://'' @ plugin_id),
      ev_outcome = Success, ev_request_id = Some (cx_request_id ctx), ev_upstream_request_id = None,
      ev_node_id = None,
      ev_details = json_obj [(''plugin_id'', JString plugin_id), (''phase'', JString phase),
        (''tool'', JString (cx_tool_name ctx)), (''surface'', JString (cx_surface ctx)),
        (''pre_hash'', JString (hash_json_value env pre)), (''post_hash'', JString (hash_json_value env post)),
        (''pre_bytes'', JNumber (int (length (json_to_bytes env pre)))),
        (''post_bytes'', JNumber (int (length (json_to_bytes env post)))),
        (''session_id'', json_opt_str (cx_session_id ctx)), (''transport'', JString (cx_transport ctx))],
      ev_prev_event_hash = None\<rparr>"

lemma event_actions [simp]:
  "ev_action (tool_gate_event st ctx i a out d) = a"
  "ev_action (tool_gate_allowed_event st ctx n ch) = ''mcpg.tool.call.allowed''"
  "ev_action (tool_gate_completed_event st ctx n ms ch) = ''mcpg.tool.call.completed''"
  by (simp_all add: tool_gate_event_def tool_gate_allowed_event_def tool_gate_completed_event_def)

end
