(* ===== verification/Chain_Loop.thy ===== *)
theory Chain_Loop
  imports Host_Prelude
begin

text \<open>
  The loop shape all plugin chains share: \<open>for loaded in &self.chain { if !serves_traffic { continue }
  ... }\<close> with a loop-carried accumulator, calls that change the world, and early returns.
  \<open>run_chain\<close> is that loop with its body as a parameter (\<open>Inl\<close> is an early return); the chain
  evaluators are instances of it. The locale \<open>chain_contract\<close> states what a body has to do for the
  loop to be the first-match evaluation of its plugins' answers, and proves the loop's outcome once.
\<close>

fun run_chain ::
  "('p \<Rightarrow> bool) \<Rightarrow> ('p \<Rightarrow> 'a \<Rightarrow> 'w \<Rightarrow> ('o + 'a) \<times> 'w) \<Rightarrow> 'p list \<Rightarrow> 'a \<Rightarrow> 'w \<Rightarrow> ('o + 'a) \<times> 'w" where
  "run_chain live step [] acc w = (Inr acc, w)"
| "run_chain live step (p # ps) acc w =
     (if \<not> live p then run_chain live step ps acc w
      else (case step p acc w of
              (Inl d, w') \<Rightarrow> (Inl d, w')
            | (Inr acc', w') \<Rightarrow> run_chain live step ps acc' w'))"

text \<open>The plugins the loop calls, each with the accumulator and the world it is called in.\<close>

fun visits ::
  "('p \<Rightarrow> bool) \<Rightarrow> ('p \<Rightarrow> 'a \<Rightarrow> 'w \<Rightarrow> ('o + 'a) \<times> 'w) \<Rightarrow> 'p list \<Rightarrow> 'a \<Rightarrow> 'w \<Rightarrow> ('p \<times> 'a \<times> 'w) list" where
  "visits live step [] acc w = []"
| "visits live step (p # ps) acc w =
     (if \<not> live p then visits live step ps acc w
      else (p, acc, w) # (case step p acc w of
              (Inl d, w') \<Rightarrow> []
            | (Inr acc', w') \<Rightarrow> visits live step ps acc' w'))"

lemma run_chain_filter: "run_chain live step (filter live ps) acc w = run_chain live step ps acc w"
  by (induction ps arbitrary: acc w) (auto split: prod.splits sum.splits)

lemma run_chain_no_live: "filter live ps = [] \<Longrightarrow> run_chain live step ps acc w = (Inr acc, w)"
  using run_chain_filter [of live step ps acc w] by simp

lemma run_chain_append:
  "run_chain live step (ps @ qs) acc w =
    (case run_chain live step ps acc w of
       (Inl d, w') \<Rightarrow> (Inl d, w')
     | (Inr acc', w') \<Rightarrow> run_chain live step qs acc' w')"
  by (induction ps arbitrary: acc w) (auto split: prod.splits sum.splits)

lemma run_chain_invariant:
  assumes "run_chain live step ps acc w = (Inr acc', w')" and "I acc"
    and "\<And>p acc w acc' w'. live p \<Longrightarrow> p \<in> set ps \<Longrightarrow> I acc \<Longrightarrow> step p acc w = (Inr acc', w') \<Longrightarrow> I acc'"
  shows "I acc'"
  using assms
proof (induction ps arbitrary: acc w)
  case (Cons p ps)
  show ?case
  proof (cases "live p")
    case True
    with Cons.prems(1) obtain a1 w1 where st: "step p acc w = (Inr a1, w1)"
      and rest: "run_chain live step ps a1 w1 = (Inr acc', w')"
      by (auto split: prod.splits sum.splits)
    from Cons.prems(2,3) True st have "I a1" by (meson list.set_intros(1))
    with Cons.IH [OF rest] Cons.prems(3) show ?thesis by (meson list.set_intros(2))
  next
    case False
    with Cons show ?thesis by simp
  qed
qed simp

text \<open>A plugin after the point where the loop returned is never called.\<close>

lemma run_chain_return_ignores_rest:
  "run_chain live step ps acc w = (Inl d, w') \<Longrightarrow> run_chain live step (ps @ qs) acc w = (Inl d, w')"
  by (simp add: run_chain_append)

locale chain_contract =
  fixes live :: "'p \<Rightarrow> bool"
    and step :: "'p \<Rightarrow> 'a \<Rightarrow> 'w \<Rightarrow> ('o + 'a) \<times> 'w"
    and decide :: "'p \<Rightarrow> 'a \<Rightarrow> 'w \<Rightarrow> 'd"
    and blocks :: "'p \<Rightarrow> 'd \<Rightarrow> bool"
    and out :: "'p \<Rightarrow> 'd \<Rightarrow> 'o"
    and pass :: "'p \<Rightarrow> 'd \<Rightarrow> 'b \<Rightarrow> 'b"
    and view :: "'a \<Rightarrow> 'b"
  assumes step_blocks: "blocks p (decide p acc w) \<Longrightarrow> \<exists>w'. step p acc w = (Inl (out p (decide p acc w)), w')"
    and step_passes: "\<not> blocks p (decide p acc w) \<Longrightarrow>
      \<exists>acc' w'. step p acc w = (Inr acc', w') \<and> view acc' = pass p (decide p acc w) (view acc)"
begin

definition answers :: "'p list \<Rightarrow> 'a \<Rightarrow> 'w \<Rightarrow> ('p \<times> 'd) list" where
  "answers ps acc w = map (\<lambda>(p, a, v). (p, decide p a v)) (visits live step ps acc w)"

lemma answers_Nil [simp]: "answers [] acc w = []"
  by (simp add: answers_def)

lemma answers_dead [simp]: "\<not> live p \<Longrightarrow> answers (p # ps) acc w = answers ps acc w"
  by (simp add: answers_def)

lemma answers_block:
  "live p \<Longrightarrow> blocks p (decide p acc w) \<Longrightarrow> answers (p # ps) acc w = [(p, decide p acc w)]"
  using step_blocks [of p acc w] by (auto simp: answers_def)

lemma answers_pass:
  "live p \<Longrightarrow> step p acc w = (Inr acc', w') \<Longrightarrow>
    answers (p # ps) acc w = (p, decide p acc w) # answers ps acc' w'"
  by (simp add: answers_def)

text \<open>
  The outcome of the loop. It completes when no answer blocks: then every live plugin was called, in
  order, and the accumulator is the fold of their answers. Otherwise the last plugin called blocks,
  those before it do not, and the loop returns that answer.
\<close>

lemma outcome_Inr:
  "run_chain live step ps acc w = (Inr acc', w') \<Longrightarrow>
    map fst (answers ps acc w) = filter live ps
    \<and> (\<forall>(p, d) \<in> set (answers ps acc w). \<not> blocks p d)
    \<and> view acc' = fold (\<lambda>(p, d). pass p d) (answers ps acc w) (view acc)"
proof (induction ps arbitrary: acc w)
  case (Cons p ps)
  show ?case
  proof (cases "live p")
    case True
    with Cons.prems obtain a1 w1 where st: "step p acc w = (Inr a1, w1)"
      and rest: "run_chain live step ps a1 w1 = (Inr acc', w')"
      by (auto split: prod.splits sum.splits)
    with step_blocks [of p acc w] have nb: "\<not> blocks p (decide p acc w)" by auto
    with step_passes [OF nb] st have "view a1 = pass p (decide p acc w) (view acc)" by auto
    with True nb Cons.IH [OF rest] answers_pass [OF True st] show ?thesis by simp
  qed (use Cons in simp)
qed simp

lemma outcome_Inl:
  "run_chain live step ps acc w = (Inl d, w') \<Longrightarrow>
    \<exists>ds p e rest. answers ps acc w = ds @ [(p, e)] \<and> d = out p e \<and> blocks p e
      \<and> (\<forall>(p, d) \<in> set ds. \<not> blocks p d) \<and> filter live ps = map fst (ds @ [(p, e)]) @ rest"
proof (induction ps arbitrary: acc w)
  case (Cons p ps)
  show ?case
  proof (cases "live p")
    case True
    show ?thesis
    proof (cases "blocks p (decide p acc w)")
      case b: True
      from step_blocks [OF b] True Cons.prems have "d = out p (decide p acc w)" by auto
      with answers_block [OF True b] b True show ?thesis by force
    next
      case nb: False
      from step_passes [OF nb] obtain a1 w1 where st: "step p acc w = (Inr a1, w1)" by blast
      with True Cons.prems have "run_chain live step ps a1 w1 = (Inl d, w')" by simp
      from Cons.IH [OF this] obtain ds q e rest where
        "answers ps a1 w1 = ds @ [(q, e)]" "d = out q e" "blocks q e"
        "\<forall>(p, d) \<in> set ds. \<not> blocks p d" "filter live ps = map fst (ds @ [(q, e)]) @ rest" by blast
      with answers_pass [OF True st] nb True show ?thesis
        by (intro exI [of _ "(p, decide p acc w) # ds"] exI [of _ q] exI [of _ e] exI [of _ rest]) simp
    qed
  qed (use Cons in simp)
qed simp

text \<open>The accumulator a plugin is called with is the fold of the answers before it.\<close>

lemma visit_view:
  "visits live step ps acc w = us @ (p, a, v) # vs \<Longrightarrow>
    view a = fold (\<lambda>(p, d). pass p d) (map (\<lambda>(p, a, v). (p, decide p a v)) us) (view acc)"
proof (induction ps arbitrary: acc w us)
  case (Cons q ps)
  show ?case
  proof (cases "live q")
    case True
    show ?thesis
    proof (cases us)
      case Nil
      with Cons.prems True show ?thesis by simp
    next
      case (Cons u us')
      with \<open>visits live step (q # ps) acc w = us @ (p, a, v) # vs\<close> True
      obtain a1 w1 where st: "step q acc w = (Inr a1, w1)" and u: "u = (q, acc, w)"
        and rest: "visits live step ps a1 w1 = us' @ (p, a, v) # vs"
        by (auto split: prod.splits sum.splits)
      from step_blocks [of q acc w] st have "\<not> blocks q (decide q acc w)" by auto
      from step_passes [OF this] st have "view a1 = pass q (decide q acc w) (view acc)" by auto
      with Cons.IH [OF rest] Cons u show ?thesis by simp
    qed
  qed (use Cons in simp)
qed simp

lemma completes_if_none_blocks:
  assumes "\<And>p acc w. p \<in> set ps \<Longrightarrow> live p \<Longrightarrow> \<not> blocks p (decide p acc w)"
  shows "\<exists>acc' w'. run_chain live step ps acc w = (Inr acc', w')"
  using assms
proof (induction ps arbitrary: acc w)
  case (Cons p ps)
  show ?case
  proof (cases "live p")
    case True
    with Cons.prems have "\<not> blocks p (decide p acc w)" by simp
    from step_passes [OF this] obtain a1 w1 where "step p acc w = (Inr a1, w1)" by blast
    with True Cons show ?thesis by simp
  qed (use Cons in simp)
qed simp

text \<open>A live plugin that blocks whatever it is asked keeps the loop from completing.\<close>

lemma always_blocked:
  assumes "p \<in> set ps" and "live p" and "\<And>a v. blocks p (decide p a v)"
  shows "\<exists>d w'. run_chain live step ps acc w = (Inl d, w')"
proof (rule ccontr)
  obtain o1 w1 where run: "run_chain live step ps acc w = (o1, w1)" by fastforce
  assume "\<not> ?thesis"
  with run obtain a1 where "run_chain live step ps acc w = (Inr a1, w1)" by (cases o1) auto
  note out = outcome_Inr [OF this]
  with assms(1,2) have "p \<in> set (map fst (answers ps acc w))" by simp
  then obtain a v where "(p, decide p a v) \<in> set (answers ps acc w)" by (force simp: answers_def)
  with out assms(3) show False by blast
qed

end

end
