(* ===== verification/Gate_Chain.thy ===== *)
theory Gate_Chain
  imports Audit_Fanout Audit_Events Chain_Loop
begin

text \<open>
  The tool-gate chain of \<open>src/src/registry.rs\<close> (\<open>evaluate_tool_gates_pre\<close>,
  \<open>evaluate_tool_gates_pre_from\<close>, \<open>evaluate_tool_gates_post\<close>). \<open>gate_pre_step\<close> and
  \<open>gate_post_step\<close> are the bodies of the two loops for a gate that serves traffic; both loops are
  instances of \<open>run_chain\<close> and satisfy \<open>chain_contract\<close>.
\<close>

section \<open>Labels and details\<close>

fun decision_label :: "gate_decision \<Rightarrow> string" where
  "decision_label (Allow _ _ _) = ''allow''"
| "decision_label (Deny _ _ _ _) = ''deny''"
| "decision_label (Challenge _ _ _ _) = ''challenge''"
| "decision_label (PendingApproval _ _ _ _) = ''pending_approval''"

fun decision_details :: "gate_decision \<Rightarrow> json" where
  "decision_details (Allow _ _ _) = json_obj [(''decision'', JString ''allow'')]"
| "decision_details (Deny http_status code message _) =
     json_obj [(''decision'', JString ''deny''), (''http_status'', JNumber http_status),
       (''code'', JNumber code), (''message'', JString message)]"
| "decision_details (Challenge http_status code message _) =
     json_obj [(''decision'', JString ''challenge''), (''http_status'', JNumber http_status),
       (''code'', JNumber code), (''message'', JString message)]"
| "decision_details (PendingApproval approval_id deadline_at summary _) =
     json_obj [(''decision'', JString ''pending_approval''), (''approval_id'', JString approval_id),
       (''deadline_at'', JString deadline_at), (''summary'', JString summary)]"

fun decision_message :: "gate_decision \<Rightarrow> string option" where
  "decision_message (Deny _ _ message _) = Some message"
| "decision_message (Challenge _ _ message _) = Some message"
| "decision_message _ = None"

definition is_payment_plugin :: "string \<Rightarrow> bool" where
  "is_payment_plugin i = starts_with i ''dev.mcpg.payment.''"

text \<open>\<open>let _ = self.emit_audit_event(&event).await\<close> on a freshly built event.\<close>

definition emit_event ::
  "'w host_env \<Rightarrow> 'w runtime \<Rightarrow> 'w registry \<Rightarrow> string option \<Rightarrow> (stamp \<Rightarrow> audit_event) \<Rightarrow> 'w \<Rightarrow> 'w" where
  "emit_event env rt r upstream mk w =
     (let (st, w1) = mint_event env w
      in snd (emit_audit_event env rt r (with_upstream env (mk st) upstream) w1))"

text \<open>The call record at the end of a chain, under the request policy.\<close>

definition emit_record ::
  "'w host_env \<Rightarrow> 'w runtime \<Rightarrow> 'w registry \<Rightarrow> plugin_context \<Rightarrow> string option \<Rightarrow> (stamp \<Rightarrow> audit_event)
    \<Rightarrow> 'w \<Rightarrow> gate_decision option \<times> 'w" where
  "emit_record env rt r ctx upstream mk w =
     (let (st, w1) = mint_event env w
      in emit_tool_call_record env rt r (with_upstream env (mk st) upstream) ctx w1)"

section \<open>Pre-dispatch\<close>

record gate_acc =
  ga_metadata :: "json option"
  ga_evaluated :: nat
  ga_args :: json
  ga_args_modified :: bool
  ga_result :: "json option"
  ga_chain :: "chain_trace list"

definition gate_acc_init :: "json \<Rightarrow> gate_acc" where
  "gate_acc_init arguments = \<lparr>ga_metadata = None, ga_evaluated = 0, ga_args = arguments,
     ga_args_modified = False, ga_result = None, ga_chain = []\<rparr>"

definition trace_gate ::
  "string \<Rightarrow> string \<Rightarrow> gate_decision \<Rightarrow> nat \<Rightarrow> chain_trace" where
  "trace_gate phase i d elapsed =
     \<lparr>ct_plugin_id = i, ct_phase = phase, ct_decision = decision_label d, ct_latency_ms = elapsed mod 2 ^ 64\<rparr>"

definition merge_metadata :: "json option \<Rightarrow> json option \<Rightarrow> json option" where
  "merge_metadata merged plugin_meta =
     (case plugin_meta of
        None \<Rightarrow> merged
      | Some m \<Rightarrow> Some (case merged of Some existing \<Rightarrow> merge_json_objects existing m | None \<Rightarrow> m))"

text \<open>The accumulator after an \<open>Allow\<close>.\<close>

definition absorb_allow :: "json option \<Rightarrow> json option \<Rightarrow> json option \<Rightarrow> gate_acc \<Rightarrow> gate_acc" where
  "absorb_allow metadata modified_arguments modified_result acc =
     acc\<lparr>ga_evaluated := ga_evaluated acc + 1,
         ga_args := unwrap_or (ga_args acc) modified_arguments,
         ga_args_modified := (ga_args_modified acc \<or> modified_arguments \<noteq> None),
         ga_result := or_else modified_result (ga_result acc),
         ga_metadata := merge_metadata (ga_metadata acc) metadata\<rparr>"

definition gate_config :: "string option \<Rightarrow> 'w tool_gate_plugin chain_entry \<Rightarrow> json" where
  "gate_config client_ip p =
     (case client_ip of None \<Rightarrow> lp_config p | Some ip \<Rightarrow> config_with_client_ip (lp_config p) ip)"

definition refusal_action :: "gate_decision \<Rightarrow> string" where
  "refusal_action d = (case d of Challenge _ _ _ _ \<Rightarrow> ''mcpg.tool.call.challenged'' | _ \<Rightarrow> ''mcpg.tool.call.denied'')"

definition refusal_outcome :: "gate_decision \<Rightarrow> audit_outcome" where
  "refusal_outcome d = (case d of Challenge _ _ _ _ \<Rightarrow> Partial | _ \<Rightarrow> Denied)"

text \<open>The two audit records of an enforced refusal.\<close>

definition emit_refusal ::
  "'w host_env \<Rightarrow> 'w runtime \<Rightarrow> 'w registry \<Rightarrow> plugin_context \<Rightarrow> string option \<Rightarrow> string \<Rightarrow> gate_decision \<Rightarrow> 'w \<Rightarrow> 'w" where
  "emit_refusal env rt r ctx upstream i d w =
     (let w1 = emit_event env rt r upstream
            (\<lambda>st. tool_gate_event st ctx i (refusal_action d) (refusal_outcome d) (decision_details d)) w
      in if is_payment_plugin i
         then emit_event env rt r upstream
            (\<lambda>st. payment_outcome_event st ctx i False None (decision_message d)) w1
         else w1)"

definition gate_pre_step ::
  "'w host_env \<Rightarrow> 'w runtime \<Rightarrow> 'w registry \<Rightarrow> plugin_context \<Rightarrow> json option \<Rightarrow> string option \<Rightarrow> string option
    \<Rightarrow> 'w tool_gate_plugin chain_entry \<Rightarrow> gate_acc \<Rightarrow> 'w \<Rightarrow> (gate_decision + gate_acc) \<times> 'w" where
  "gate_pre_step env rt r ctx meta upstream client_ip p acc w =
     (let i = m_id (lp_manifest p);
          start = clock_ms env w;
          (decision, w1) = await (tg_evaluate_pre_dispatch (lp_instance p) ctx (ga_args acc) meta
             (gate_config client_ip p)) w;
          acc1 = acc\<lparr>ga_chain := ga_chain acc
             @ [trace_gate ''pre_dispatch'' i decision (clock_ms env w1 - start)]\<rparr>
      in case decision of
           Allow metadata modified_arguments modified_result \<Rightarrow>
             (Inr (absorb_allow metadata modified_arguments modified_result acc1),
              if is_payment_plugin i
              then emit_event env rt r upstream
                (\<lambda>st. payment_outcome_event st ctx i True metadata None) w1
              else w1)
         | PendingApproval _ _ _ _ \<Rightarrow> (Inl decision, w1)
         | _ \<Rightarrow>
             if \<not> lp_enforce p then (Inr acc1, w1)
             else (Inl decision, emit_refusal env rt r ctx upstream i decision w1))"

definition evaluate_tool_gates_pre_from ::
  "'w host_env \<Rightarrow> 'w runtime \<Rightarrow> 'w registry \<Rightarrow> plugin_context \<Rightarrow> json \<Rightarrow> json option \<Rightarrow> string option
    \<Rightarrow> string option \<Rightarrow> 'w \<Rightarrow> gate_decision \<times> 'w" where
  "evaluate_tool_gates_pre_from env rt r ctx arguments meta upstream client_ip w =
     (if tool_gate_chain r = [] then
        (if audit_emit_tool_call_allowed r then
           (case emit_record env rt r ctx upstream (\<lambda>st. tool_gate_allowed_event st ctx 0 []) w of
              (Some refused, w1) \<Rightarrow> (refused, w1)
            | (None, w1) \<Rightarrow> (gate_allow env, w1))
         else (gate_allow env, w))
      else
        (case run_chain serving (gate_pre_step env rt r ctx meta upstream client_ip)
                (tool_gate_chain r) (gate_acc_init arguments) w of
           (Inl decision, w1) \<Rightarrow> (decision, w1)
         | (Inr acc, w1) \<Rightarrow>
             (let allow = Allow (ga_metadata acc)
                    (if ga_args_modified acc then Some (ga_args acc) else None) (ga_result acc)
              in if audit_emit_tool_call_allowed r then
                   (case emit_record env rt r ctx upstream
                           (\<lambda>st. tool_gate_allowed_event st ctx (ga_evaluated acc) (ga_chain acc)) w1 of
                      (Some refused, w2) \<Rightarrow> (refused, w2)
                    | (None, w2) \<Rightarrow> (allow, w2))
                 else (allow, w1))))"

definition evaluate_tool_gates_pre ::
  "'w host_env \<Rightarrow> 'w runtime \<Rightarrow> 'w registry \<Rightarrow> plugin_context \<Rightarrow> json \<Rightarrow> json option \<Rightarrow> string option
    \<Rightarrow> 'w \<Rightarrow> gate_decision \<times> 'w" where
  "evaluate_tool_gates_pre env rt r ctx arguments meta upstream w =
     evaluate_tool_gates_pre_from env rt r ctx arguments meta upstream None w"

section \<open>Post-dispatch\<close>

record post_acc =
  qa_evaluated :: nat
  qa_result :: json
  qa_modified :: bool
  qa_chain :: "chain_trace list"

definition post_acc_init :: "json \<Rightarrow> post_acc" where
  "post_acc_init result = \<lparr>qa_evaluated = 0, qa_result = result, qa_modified = False, qa_chain = []\<rparr>"

definition absorb_post :: "json option \<Rightarrow> post_acc \<Rightarrow> post_acc" where
  "absorb_post modified_result acc =
     acc\<lparr>qa_evaluated := qa_evaluated acc + 1, qa_result := unwrap_or (qa_result acc) modified_result,
         qa_modified := (qa_modified acc \<or> modified_result \<noteq> None)\<rparr>"

definition post_pending_deny :: "string \<Rightarrow> gate_decision" where
  "post_pending_deny i =
     Deny 500 (- 33000) (''post-dispatch plugin '' @ [CHR 0x27] @ i @ [CHR 0x27]
       @ '' returned an invalid PendingApproval decision'') None"

definition gate_post_step ::
  "'w host_env \<Rightarrow> plugin_context \<Rightarrow> json \<Rightarrow> nat \<Rightarrow> 'w tool_gate_plugin chain_entry \<Rightarrow> post_acc \<Rightarrow> 'w
    \<Rightarrow> (gate_decision + post_acc) \<times> 'w" where
  "gate_post_step env ctx arguments execution_duration_ms p acc w =
     (let i = m_id (lp_manifest p);
          start = clock_ms env w;
          (decision, w1) = await (tg_evaluate_post_dispatch (lp_instance p) ctx arguments (qa_result acc)
             execution_duration_ms (lp_config p)) w;
          acc1 = acc\<lparr>qa_chain := qa_chain acc
             @ [trace_gate ''post_dispatch'' i decision (clock_ms env w1 - start)]\<rparr>
      in case decision of
           Allow _ _ modified_result \<Rightarrow> (Inr (absorb_post modified_result acc1), w1)
         | PendingApproval _ _ _ _ \<Rightarrow> (Inl (post_pending_deny i), w1)
         | _ \<Rightarrow> if \<not> lp_enforce p then (Inr acc1, w1) else (Inl decision, w1))"

definition evaluate_tool_gates_post ::
  "'w host_env \<Rightarrow> 'w runtime \<Rightarrow> 'w registry \<Rightarrow> plugin_context \<Rightarrow> json \<Rightarrow> json \<Rightarrow> nat \<Rightarrow> string option
    \<Rightarrow> 'w \<Rightarrow> gate_decision \<times> 'w" where
  "evaluate_tool_gates_post env rt r ctx arguments result execution_duration_ms upstream w =
     (if tool_gate_chain r = [] then
        (if audit_emit_tool_call_completed r then
           (case emit_record env rt r ctx upstream
                   (\<lambda>st. tool_gate_completed_event st ctx 0 execution_duration_ms []) w of
              (Some refused, w1) \<Rightarrow> (refused, w1)
            | (None, w1) \<Rightarrow> (gate_allow env, w1))
         else (gate_allow env, w))
      else
        (case run_chain serving (gate_post_step env ctx arguments execution_duration_ms)
                (tool_gate_chain r) (post_acc_init result) w of
           (Inl decision, w1) \<Rightarrow> (decision, w1)
         | (Inr acc, w1) \<Rightarrow>
             (let allow = Allow None None (if qa_modified acc then Some (qa_result acc) else None)
              in if audit_emit_tool_call_completed r then
                   (case emit_record env rt r ctx upstream
                           (\<lambda>st. tool_gate_completed_event st ctx (qa_evaluated acc) execution_duration_ms
                              (qa_chain acc)) w1 of
                      (Some refused, w2) \<Rightarrow> (refused, w2)
                    | (None, w2) \<Rightarrow> (allow, w2))
                 else (allow, w1))))"

section \<open>Both loops meet the chain contract\<close>

fun gate_blocks :: "'w tool_gate_plugin chain_entry \<Rightarrow> gate_decision \<Rightarrow> bool" where
  "gate_blocks p (Allow _ _ _) = False"
| "gate_blocks p (PendingApproval _ _ _ _) = True"
| "gate_blocks p _ = lp_enforce p"

definition pre_decide ::
  "plugin_context \<Rightarrow> json option \<Rightarrow> string option \<Rightarrow> 'w tool_gate_plugin chain_entry \<Rightarrow> gate_acc \<Rightarrow> 'w \<Rightarrow> gate_decision" where
  "pre_decide ctx meta client_ip p acc w =
     fst (await (tg_evaluate_pre_dispatch (lp_instance p) ctx (ga_args acc) meta (gate_config client_ip p)) w)"

text \<open>The accumulator without the latency trace, and what one answer does to it.\<close>

definition acc_view :: "gate_acc \<Rightarrow> gate_acc" where
  "acc_view acc = acc\<lparr>ga_chain := []\<rparr>"

fun pre_pass :: "'p \<Rightarrow> gate_decision \<Rightarrow> gate_acc \<Rightarrow> gate_acc" where
  "pre_pass p (Allow metadata args res) acc = absorb_allow metadata args res acc"
| "pre_pass p _ acc = acc"

interpretation pre_gates: chain_contract serving "gate_pre_step env rt r ctx meta upstream client_ip"
    "pre_decide ctx meta client_ip" gate_blocks "\<lambda>p d. d" pre_pass acc_view
  for env :: "'w host_env" and rt r ctx meta upstream client_ip
proof
  fix p :: "'w tool_gate_plugin chain_entry" and acc :: gate_acc and w :: 'w
  obtain d w1 where a: "await (tg_evaluate_pre_dispatch (lp_instance p) ctx (ga_args acc) meta
      (gate_config client_ip p)) w = (d, w1)" by fastforce
  then have d: "pre_decide ctx meta client_ip p acc w = d" by (simp add: pre_decide_def)
  show "\<exists>w'. gate_pre_step env rt r ctx meta upstream client_ip p acc w
      = (Inl (pre_decide ctx meta client_ip p acc w), w')"
    if "gate_blocks p (pre_decide ctx meta client_ip p acc w)"
    using that unfolding d by (cases d) (simp_all add: gate_pre_step_def a Let_def)
  show "\<exists>acc' w'. gate_pre_step env rt r ctx meta upstream client_ip p acc w = (Inr acc', w')
      \<and> acc_view acc' = pre_pass p (pre_decide ctx meta client_ip p acc w) (acc_view acc)"
    if "\<not> gate_blocks p (pre_decide ctx meta client_ip p acc w)"
    using that unfolding d
    by (cases d) (simp_all add: gate_pre_step_def a Let_def acc_view_def absorb_allow_def)
qed

definition post_decide ::
  "plugin_context \<Rightarrow> json \<Rightarrow> nat \<Rightarrow> 'w tool_gate_plugin chain_entry \<Rightarrow> post_acc \<Rightarrow> 'w \<Rightarrow> gate_decision" where
  "post_decide ctx arguments ms p acc w =
     fst (await (tg_evaluate_post_dispatch (lp_instance p) ctx arguments (qa_result acc) ms (lp_config p)) w)"

fun post_out :: "'w tool_gate_plugin chain_entry \<Rightarrow> gate_decision \<Rightarrow> gate_decision" where
  "post_out p (PendingApproval _ _ _ _) = post_pending_deny (m_id (lp_manifest p))"
| "post_out p d = d"

fun post_pass :: "'p \<Rightarrow> gate_decision \<Rightarrow> post_acc \<Rightarrow> post_acc" where
  "post_pass p (Allow _ _ res) acc = absorb_post res acc"
| "post_pass p _ acc = acc"

definition post_view :: "post_acc \<Rightarrow> post_acc" where
  "post_view acc = acc\<lparr>qa_chain := []\<rparr>"

interpretation post_gates: chain_contract serving "gate_post_step env ctx arguments ms"
    "post_decide ctx arguments ms" gate_blocks post_out post_pass post_view
  for env :: "'w host_env" and ctx arguments ms
proof
  fix p :: "'w tool_gate_plugin chain_entry" and acc :: post_acc and w :: 'w
  obtain d w1 where a: "await (tg_evaluate_post_dispatch (lp_instance p) ctx arguments (qa_result acc) ms
      (lp_config p)) w = (d, w1)" by fastforce
  then have d: "post_decide ctx arguments ms p acc w = d" by (simp add: post_decide_def)
  show "\<exists>w'. gate_post_step env ctx arguments ms p acc w = (Inl (post_out p (post_decide ctx arguments ms p acc w)), w')"
    if "gate_blocks p (post_decide ctx arguments ms p acc w)"
    using that unfolding d by (cases d) (simp_all add: gate_post_step_def a Let_def)
  show "\<exists>acc' w'. gate_post_step env ctx arguments ms p acc w = (Inr acc', w')
      \<and> post_view acc' = post_pass p (post_decide ctx arguments ms p acc w) (post_view acc)"
    if "\<not> gate_blocks p (post_decide ctx arguments ms p acc w)"
    using that unfolding d
    by (cases d) (simp_all add: gate_post_step_def a Let_def post_view_def absorb_post_def)
qed

section \<open>The end of a chain\<close>

text \<open>The refusal when \<open>fail_closed\<close> lost the call record.\<close>

definition record_lost_deny :: "string \<Rightarrow> gate_decision" where
  "record_lost_deny action =
     Deny 503 (- 32603) (''tools/call refused: the audit record '' @ action @ '' was lost'') None"

lemma emit_tool_call_record_cases:
  "fst (emit_tool_call_record env rt r event ctx w) =
    (if audit_request_policy r = FailClosed \<and> is_err (fst (emit_audit_event_enforced env rt r event FailClosed w))
     then Some (record_lost_deny (ev_action event)) else None)"
proof (cases "audit_request_policy r")
  case FailOpen
  with enforced_failopen [of env rt r event w] show ?thesis
    by (cases "emit_audit_event_enforced env rt r event FailOpen w")
      (auto simp: emit_tool_call_record_def emit_request_audit_event_def)
next
  case FailClosed
  then show ?thesis
    by (cases "emit_audit_event_enforced env rt r event FailClosed w"; cases "fst (emit_audit_event_enforced env rt r event FailClosed w)")
      (auto simp: emit_tool_call_record_def emit_request_audit_event_def record_lost_deny_def)
qed

text \<open>What the chains rely on of the protocol crate's \<open>with_upstream_request_id\<close>: it sets one field.\<close>

definition upstream_keeps_action :: "'w host_env \<Rightarrow> bool" where
  "upstream_keeps_action env \<longleftrightarrow> (\<forall>e u. ev_action (with_upstream env e u) = ev_action e)"

lemma emit_record_cases:
  assumes "upstream_keeps_action env" and "\<And>st. ev_action (mk st) = a"
  shows "fst (emit_record env rt r ctx up mk w) = None
    \<or> fst (emit_record env rt r ctx up mk w) = Some (record_lost_deny a) \<and> audit_request_policy r = FailClosed"
  using assms
  by (auto simp: emit_record_def emit_tool_call_record_cases case_prod_beta upstream_keeps_action_def)

definition pre_visits where
  "pre_visits env rt r ctx arguments meta upstream client_ip w =
     visits serving (gate_pre_step env rt r ctx meta upstream client_ip) (tool_gate_chain r)
       (gate_acc_init arguments) w"

definition pre_answers where
  "pre_answers env rt r ctx arguments meta upstream client_ip w =
     map (\<lambda>(p, a, v). (p, pre_decide ctx meta client_ip p a v))
       (pre_visits env rt r ctx arguments meta upstream client_ip w)"

definition post_answers where
  "post_answers env r ctx arguments res ms w =
     map (\<lambda>(p, a, v). (p, post_decide ctx arguments ms p a v))
       (visits serving (gate_post_step env ctx arguments ms) (tool_gate_chain r) (post_acc_init res) w)"

lemma pre_answers_contract:
  "pre_answers env rt r ctx arguments meta upstream client_ip w =
    pre_gates.answers env rt r ctx meta upstream client_ip (tool_gate_chain r) (gate_acc_init arguments) w"
  by (simp add: pre_answers_def pre_visits_def pre_gates.answers_def)

lemma post_answers_contract:
  "post_answers env r ctx arguments res ms w =
    post_gates.answers env ctx arguments ms (tool_gate_chain r) (post_acc_init res) w"
  by (simp add: post_answers_def post_gates.answers_def)

lemma acc_view_init [simp]: "acc_view (gate_acc_init a) = gate_acc_init a" "post_view (post_acc_init a) = post_acc_init a"
  by (simp_all add: acc_view_def gate_acc_init_def post_view_def post_acc_init_def)

lemma acc_view_sel [simp]:
  "ga_metadata (acc_view a) = ga_metadata a" "ga_args (acc_view a) = ga_args a"
  "ga_args_modified (acc_view a) = ga_args_modified a" "ga_result (acc_view a) = ga_result a"
  "ga_evaluated (acc_view a) = ga_evaluated a"
  "qa_result (post_view b) = qa_result b" "qa_modified (post_view b) = qa_modified b"
  by (simp_all add: acc_view_def post_view_def)

definition allow_of :: "gate_acc \<Rightarrow> gate_decision" where
  "allow_of acc = Allow (ga_metadata acc) (if ga_args_modified acc then Some (ga_args acc) else None) (ga_result acc)"

definition post_allow_of :: "post_acc \<Rightarrow> gate_decision" where
  "post_allow_of acc = Allow None None (if qa_modified acc then Some (qa_result acc) else None)"

lemma allow_of_view: "allow_of (acc_view a) = allow_of a" "post_allow_of (post_view b) = post_allow_of b"
  by (simp_all add: allow_of_def post_allow_of_def)

section \<open>Properties\<close>

text \<open>
  C1. The pre-dispatch decision is the first-match evaluation of the gates' answers. Either some
  serving gate blocks (it asks for approval, or denies or challenges while enforcing): then that
  answer is returned as it is, the serving gates before it did not block and no gate after it was
  called. Or every serving gate was called in registration order and none blocked: then the result
  is the allow that merges their metadata, argument rewrites and results, or the refusal for a lost
  call record, which needs \<open>fail_closed\<close> and call auditing.
\<close>

theorem pre_dispatch_first_blocking_gate:
  assumes "tool_gate_chain r \<noteq> []" and "upstream_keeps_action env"
  shows "let d = fst (evaluate_tool_gates_pre_from env rt r ctx arguments meta upstream client_ip w);
      ds = pre_answers env rt r ctx arguments meta upstream client_ip w;
      live = filter serving (tool_gate_chain r)
    in (\<exists>us p rest. ds = us @ [(p, d)] \<and> gate_blocks p d \<and> (\<forall>(q, e) \<in> set us. \<not> gate_blocks q e)
          \<and> live = map fst ds @ rest)
       \<or> (map fst ds = live \<and> (\<forall>(q, e) \<in> set ds. \<not> gate_blocks q e)
          \<and> (d = allow_of (fold (\<lambda>(p, e). pre_pass p e) ds (gate_acc_init arguments))
             \<or> d = record_lost_deny ''mcpg.tool.call.allowed''
               \<and> audit_request_policy r = FailClosed \<and> audit_emit_tool_call_allowed r))"
proof -
  let ?run = "run_chain serving (gate_pre_step env rt r ctx meta upstream client_ip) (tool_gate_chain r)
    (gate_acc_init arguments) w"
  obtain o1 w1 where run: "?run = (o1, w1)" by (cases ?run)
  show ?thesis
  proof (cases o1)
    case (Inl d)
    with run assms(1) have ev: "fst (evaluate_tool_gates_pre_from env rt r ctx arguments meta upstream client_ip w) = d"
      by (simp add: evaluate_tool_gates_pre_from_def)
    from pre_gates.outcome_Inl [OF run [unfolded Inl], folded pre_answers_contract] obtain us p e rest where
      "pre_answers env rt r ctx arguments meta upstream client_ip w = us @ [(p, e)]" "d = e" "gate_blocks p e"
      "\<forall>(q, e) \<in> set us. \<not> gate_blocks q e"
      "filter serving (tool_gate_chain r) = map fst (us @ [(p, e)]) @ rest"
      by (elim exE conjE) (rule that)
    then show ?thesis unfolding Let_def ev by (intro disjI1 exI [of _ us] exI [of _ p] exI [of _ rest]) simp
  next
    case (Inr acc)
    note out = pre_gates.outcome_Inr [OF run [unfolded Inr], folded pre_answers_contract]
    let ?mk = "\<lambda>st. tool_gate_allowed_event st ctx (ga_evaluated acc) (ga_chain acc)"
    from run Inr assms(1) have ev: "fst (evaluate_tool_gates_pre_from env rt r ctx arguments meta upstream client_ip w) =
        (if audit_emit_tool_call_allowed r
         then unwrap_or (allow_of acc) (fst (emit_record env rt r ctx upstream ?mk w1))
         else allow_of acc)"
      by (auto simp: evaluate_tool_gates_pre_from_def allow_of_def Let_def split: prod.splits option.splits)
    from out have "acc_view acc = fold (\<lambda>(p, e). pre_pass p e)
        (pre_answers env rt r ctx arguments meta upstream client_ip w) (gate_acc_init arguments)" by simp
    then have al: "allow_of acc = allow_of (fold (\<lambda>(p, e). pre_pass p e)
        (pre_answers env rt r ctx arguments meta upstream client_ip w) (gate_acc_init arguments))"
      by (metis allow_of_view(1))
    have "fst (emit_record env rt r ctx upstream ?mk w1) = None
      \<or> fst (emit_record env rt r ctx upstream ?mk w1) = Some (record_lost_deny ''mcpg.tool.call.allowed'')
        \<and> audit_request_policy r = FailClosed"
      using emit_record_cases [OF assms(2), of ?mk "''mcpg.tool.call.allowed''" rt r ctx upstream w1] by simp
    with out show ?thesis unfolding Let_def ev al [symmetric]
      by (cases "audit_emit_tool_call_allowed r") auto
  qed
qed

lemma enforced_ok_serving:
  assumes "emit_audit_event_enforced env rt r event FailClosed w = (Inr results, w')"
    and "s \<in> set (audit_sinks r)" and "sk_gating (lp_policy s)" and "accepts (lp_policy s) (ev_action event)"
  shows "serving s"
proof (rule ccontr)
  assume "\<not> serving s"
  with assms(2-) have "\<lparr>ar_sink_id = m_id (lp_manifest s), ar_result = Inl AuditClosed\<rparr> \<in> set (closed_results r event)"
    by (auto simp: closed_results_def)
  then have "list_ex (\<lambda>x. is_err (ar_result x)) (closed_results r event)" by (force simp: list_ex_iff)
  with assms(1) show False
    by (simp add: emit_audit_event_enforced_def Let_def case_prod_beta split: if_splits)
qed

lemma emit_record_kept:
  assumes "fst (emit_record env rt r ctx up mk w) = None" and "audit_request_policy r = FailClosed"
    and "upstream_keeps_action env" and "\<And>st. ev_action (mk st) = a"
  shows "\<exists>event w0 results. ev_action event = a
    \<and> emit_audit_event_enforced env rt r event FailClosed w0 = (Inr results, snd (emit_record env rt r ctx up mk w))"
proof -
  obtain st w0 where m: "mint_event env w = (st, w0)" by (cases "mint_event env w")
  let ?e = "with_upstream env (mk st) up"
  obtain o1 w1 where en: "emit_audit_event_enforced env rt r ?e FailClosed w0 = (o1, w1)"
    by (cases "emit_audit_event_enforced env rt r ?e FailClosed w0")
  from assms(1,2) m en obtain results where "o1 = Inr results"
    by (cases o1) (simp_all add: emit_record_def emit_tool_call_record_def emit_request_audit_event_def)
  moreover have "snd (emit_record env rt r ctx up mk w) = w1"
    using assms(2) m en calculation
    by (simp add: emit_record_def emit_tool_call_record_def emit_request_audit_event_def)
  moreover have "ev_action ?e = a" using assms(3,4) by (simp add: upstream_keeps_action_def)
  ultimately show ?thesis using en by blast
qed

lemma emit_record_deny:
  "emit_record env rt r ctx up mk w = (Some d, w') \<Longrightarrow> \<exists>a. d = record_lost_deny a"
proof -
  assume "emit_record env rt r ctx up mk w = (Some d, w')"
  then have "fst (emit_record env rt r ctx up mk w) = Some d" by simp
  then show ?thesis
    by (auto simp: emit_record_def case_prod_beta emit_tool_call_record_cases split: if_splits)
qed

lemma emit_record_not_allow [simp]: "emit_record env rt r ctx up mk w \<noteq> (Some (Allow a b c), w')"
  using emit_record_deny by (fastforce simp: record_lost_deny_def)

lemma post_out_not_allow: "gate_blocks p e \<Longrightarrow> post_out p e \<noteq> Allow a b c"
  by (cases e) (simp_all add: post_pending_deny_def)

lemma allow_not_post_out [dest]: "Allow a b c = post_out p e \<Longrightarrow> \<not> gate_blocks p e"
  using post_out_not_allow [of p e a b c] by auto

lemma fold_pre_pass_args:
  "ga_args (fold (\<lambda>(p, e). pre_pass p e) ds acc) =
    fold (\<lambda>(p, e) args. case e of Allow _ (Some m) _ \<Rightarrow> m | _ \<Rightarrow> args) ds (ga_args acc)"
proof (induction ds arbitrary: acc)
  case (Cons x ds)
  then show ?case
    by (cases x; cases "snd x") (auto simp: absorb_allow_def split: option.splits)
qed simp

lemma emit_ignores_gates [simp]:
  "emit_event env rt (r\<lparr>tool_gate_chain := c\<rparr>) = emit_event env rt r"
  "emit_record env rt (r\<lparr>tool_gate_chain := c\<rparr>) = emit_record env rt r"
  "gate_pre_step env rt (r\<lparr>tool_gate_chain := c\<rparr>) = gate_pre_step env rt r"
proof -
  have em: "emit_audit_event env rt (r\<lparr>tool_gate_chain := c\<rparr>) e w = emit_audit_event env rt r e w" for e w
    by (simp add: emit_audit_event_def prepare_event_def)
  have cl: "closed_results (r\<lparr>tool_gate_chain := c\<rparr>) e = closed_results r e" for e
    by (simp add: closed_results_def)
  show 1: "emit_event env rt (r\<lparr>tool_gate_chain := c\<rparr>) = emit_event env rt r"
    by (simp add: fun_eq_iff emit_event_def em case_prod_beta)
  have en: "emit_audit_event_enforced env rt (r\<lparr>tool_gate_chain := c\<rparr>) e p w = emit_audit_event_enforced env rt r e p w"
    for e p w unfolding emit_audit_event_enforced_def em cl ..
  have "emit_tool_call_record env rt (r\<lparr>tool_gate_chain := c\<rparr>) e ctx w = emit_tool_call_record env rt r e ctx w"
    for e ctx w unfolding emit_tool_call_record_def emit_request_audit_event_def en by simp
  then show "emit_record env rt (r\<lparr>tool_gate_chain := c\<rparr>) = emit_record env rt r"
    by (simp add: fun_eq_iff emit_record_def case_prod_beta)
  show "gate_pre_step env rt (r\<lparr>tool_gate_chain := c\<rparr>) = gate_pre_step env rt r"
    by (intro ext) (unfold gate_pre_step_def emit_refusal_def 1, rule refl)
qed

lemma gate_update_flags:
  "audit_emit_tool_call_allowed (r\<lparr>tool_gate_chain := c\<rparr>) = audit_emit_tool_call_allowed r"
  "audit_emit_tool_call_completed (r\<lparr>tool_gate_chain := c\<rparr>) = audit_emit_tool_call_completed r"
  by simp_all

text \<open>
  A gate is called with the arguments as the gates before it rewrote them: the last
  \<open>modified_arguments\<close> among their allows, or the caller's arguments when none rewrote them.
\<close>

theorem gates_see_rewritten_arguments:
  assumes "pre_visits env rt r ctx arguments meta upstream client_ip w = us @ (p, a, v) # vs"
  shows "ga_args a =
    fold (\<lambda>(q, b, u) args. case pre_decide ctx meta client_ip q b u of Allow _ (Some m) _ \<Rightarrow> m | _ \<Rightarrow> args)
      us arguments"
proof -
  let ?ds = "map (\<lambda>(p, a, v). (p, pre_decide ctx meta client_ip p a v)) us"
  have "acc_view a = fold (\<lambda>(p, d). pre_pass p d) ?ds (acc_view (gate_acc_init arguments))"
    using assms unfolding pre_visits_def by (rule pre_gates.visit_view)
  then have "ga_args a = ga_args (fold (\<lambda>(p, d). pre_pass p d) ?ds (gate_acc_init arguments))"
    by (metis acc_view_init(1) acc_view_sel(2))
  also have "\<dots> = fold (\<lambda>(p, e) args. case e of Allow _ (Some m) _ \<Rightarrow> m | _ \<Rightarrow> args) ?ds arguments"
    by (simp add: fold_pre_pass_args gate_acc_init_def)
  finally show ?thesis by (simp add: fold_map comp_def case_prod_unfold)
qed

lemma live_gates_only:
  assumes "gate_allow env = Allow None None None"
  defines "live r \<equiv> r\<lparr>tool_gate_chain := filter serving (tool_gate_chain r)\<rparr>"
  shows "evaluate_tool_gates_pre_from env rt (live r) ctx arguments meta upstream client_ip w
      = evaluate_tool_gates_pre_from env rt r ctx arguments meta upstream client_ip w
    \<and> evaluate_tool_gates_post env rt (live r) ctx arguments res ms upstream w
      = evaluate_tool_gates_post env rt r ctx arguments res ms upstream w"
proof (cases "filter serving (tool_gate_chain r) = []")
  case True
  show ?thesis
    unfolding live_def True evaluate_tool_gates_pre_from_def evaluate_tool_gates_post_def assms(1)
    by (cases "tool_gate_chain r = []")
      (simp_all add: run_chain_no_live [OF True] gate_acc_init_def post_acc_init_def)
next
  case False
  then have "tool_gate_chain r \<noteq> []" by auto
  with False show ?thesis
    unfolding live_def evaluate_tool_gates_pre_from_def evaluate_tool_gates_post_def emit_ignores_gates
      gate_update_flags
    by (simp add: run_chain_filter)
qed

text \<open>
  Gates that do not serve traffic have no effect at all, on neither chain: the decision and
  the world depend on the gates that serve and their order only, so adding, removing or moving gates that
  do not serve changes nothing (a chain with no serving gate answers like the empty chain, with the
  protocol's plain allow).
\<close>

theorem gates_not_serving_are_skipped:
  assumes "gate_allow env = Allow None None None" and "filter serving gates = filter serving (tool_gate_chain r)"
  shows "evaluate_tool_gates_pre_from env rt (r\<lparr>tool_gate_chain := gates\<rparr>) ctx arguments meta upstream client_ip w
      = evaluate_tool_gates_pre_from env rt r ctx arguments meta upstream client_ip w
    \<and> evaluate_tool_gates_post env rt (r\<lparr>tool_gate_chain := gates\<rparr>) ctx arguments res ms upstream w
      = evaluate_tool_gates_post env rt r ctx arguments res ms upstream w"
  using live_gates_only [OF assms(1), of rt r ctx arguments meta upstream client_ip w res ms]
    live_gates_only [OF assms(1), of rt "r\<lparr>tool_gate_chain := gates\<rparr>" ctx arguments meta upstream client_ip w res ms]
  by (simp add: assms(2))

text \<open>An allow comes out of either chain only after \<open>emit_record\<close> let it pass.\<close>

lemma pre_allow_emits:
  assumes "audit_emit_tool_call_allowed r"
    and ev: "evaluate_tool_gates_pre_from env rt r ctx arguments meta upstream client_ip w = (Allow md ma mr, w')"
  shows "\<exists>n chain v. emit_record env rt r ctx upstream (\<lambda>st. tool_gate_allowed_event st ctx n chain) v = (None, w')"
proof (cases "tool_gate_chain r = []")
  case True
  with assms show ?thesis by (auto simp: evaluate_tool_gates_pre_from_def split: prod.splits option.splits)
next
  case False
  let ?run = "run_chain serving (gate_pre_step env rt r ctx meta upstream client_ip) (tool_gate_chain r)
    (gate_acc_init arguments) w"
  obtain o1 w1 where run: "?run = (o1, w1)" by (cases ?run)
  show ?thesis
  proof (cases o1)
    case (Inl d)
    with run False ev pre_gates.outcome_Inl [OF run [unfolded Inl]] show ?thesis
      by (auto simp: evaluate_tool_gates_pre_from_def)
  next
    case (Inr acc)
    with run False assms show ?thesis
      by (auto simp: evaluate_tool_gates_pre_from_def Let_def split: prod.splits option.splits)
  qed
qed

lemma post_allow_emits:
  assumes "audit_emit_tool_call_completed r"
    and ev: "evaluate_tool_gates_post env rt r ctx arguments res ms upstream w = (Allow md ma mr, w')"
  shows "\<exists>n chain v. emit_record env rt r ctx upstream (\<lambda>st. tool_gate_completed_event st ctx n ms chain) v = (None, w')"
proof (cases "tool_gate_chain r = []")
  case True
  with assms show ?thesis by (auto simp: evaluate_tool_gates_post_def split: prod.splits option.splits)
next
  case False
  let ?run = "run_chain serving (gate_post_step env ctx arguments ms) (tool_gate_chain r) (post_acc_init res) w"
  obtain o1 w1 where run: "?run = (o1, w1)" by (cases ?run)
  show ?thesis
  proof (cases o1)
    case (Inl d)
    with run False ev post_gates.outcome_Inl [OF run [unfolded Inl]] show ?thesis
      by (auto simp: evaluate_tool_gates_post_def)
  next
    case (Inr acc)
    with run False assms show ?thesis
      by (auto simp: evaluate_tool_gates_post_def Let_def split: prod.splits option.splits)
  qed
qed

text \<open>
  A call is on record: a record of this call (its action, caller, tool and request id) was emitted last,
  and every gating sink whose filter takes the action was serving and itself answered it with a receipt,
  asked after the sinks registered before it.
\<close>

definition call_recorded ::
  "'w host_env \<Rightarrow> 'w runtime \<Rightarrow> 'w registry \<Rightarrow> plugin_context \<Rightarrow> string option \<Rightarrow> string \<Rightarrow> 'w \<Rightarrow> bool" where
  "call_recorded env rt r ctx upstream action w' \<longleftrightarrow>
     (\<exists>e event w0. ev_action e = action \<and> ev_actor e = cx_identity ctx
       \<and> ev_resource e = Some (''tool://'' @ cx_tool_name ctx) \<and> ev_request_id e = Some (cx_request_id ctx)
       \<and> event = prepare_event env r (with_upstream env e upstream)
       \<and> w' = fold (sink_turn rt event) (audit_sinks r) w0
       \<and> (\<forall>k < length (audit_sinks r).
            sk_gating (lp_policy (audit_sinks r ! k)) \<longrightarrow> accepts (lp_policy (audit_sinks r ! k)) action \<longrightarrow>
            serving (audit_sinks r ! k) \<and>
            is_ok (fst (await (as_emit (lp_instance (audit_sinks r ! k)) event)
              (fold (sink_turn rt event) (take k (audit_sinks r)) w0)))))"

lemma emit_record_recorded:
  assumes "emit_record env rt r ctx upstream mk v = (None, w')" and "audit_request_policy r = FailClosed"
    and "upstream_keeps_action env"
    and mk: "\<And>st. ev_action (mk st) = a \<and> ev_actor (mk st) = cx_identity ctx
      \<and> ev_resource (mk st) = Some (''tool://'' @ cx_tool_name ctx) \<and> ev_request_id (mk st) = Some (cx_request_id ctx)"
  shows "call_recorded env rt r ctx upstream a w'"
proof -
  obtain st w0 where st: "mint_event env v = (st, w0)" by fastforce
  let ?e = "with_upstream env (mk st) upstream"
  have act: "ev_action ?e = a" using assms(3) mk by (simp add: upstream_keeps_action_def)
  obtain o1 w1 where en: "emit_audit_event_enforced env rt r ?e FailClosed w0 = (o1, w1)" by fastforce
  with assms(1,2) st have ok: "is_ok o1" and w': "w1 = w'"
    by (cases o1; auto simp: emit_record_def emit_tool_call_record_def emit_request_audit_event_def)+
  have "w' = fold (sink_turn rt (prepare_event env r ?e)) (audit_sinks r) w0"
    using en w' by (simp add: emit_audit_event_enforced_def emit_audit_event_def emit_to_sinks_answers Let_def case_prod_beta)
  moreover have "is_ok (fst (emit_audit_event_enforced env rt r ?e FailClosed w0))" using en ok by simp
  note this [unfolded enforced_iff_answers act sink_answer_def]
  ultimately show ?thesis unfolding call_recorded_def using mk [of st] by blast
qed

text \<open>
  C2. No call runs without its record: with call auditing on and \<open>fail_closed\<close>, an allow from the
  pre-dispatch chain means an \<open>mcpg.tool.call.allowed\<close> event of this very call (caller, tool,
  request id) was emitted last, and every gating sink whose filter takes the action is serving and
  itself answered that event with a receipt; likewise a result is released after dispatch only with
  its \<open>mcpg.tool.call.completed\<close> record.
\<close>

theorem no_call_without_record:
  assumes "upstream_keeps_action env" and "audit_request_policy r = FailClosed"
  shows "(\<forall>md ma mr w'. audit_emit_tool_call_allowed r \<longrightarrow>
      evaluate_tool_gates_pre_from env rt r ctx arguments meta upstream client_ip w = (Allow md ma mr, w') \<longrightarrow>
      call_recorded env rt r ctx upstream ''mcpg.tool.call.allowed'' w')
    \<and> (\<forall>md ma mr w'. audit_emit_tool_call_completed r \<longrightarrow>
      evaluate_tool_gates_post env rt r ctx arguments res ms upstream w = (Allow md ma mr, w') \<longrightarrow>
      call_recorded env rt r ctx upstream ''mcpg.tool.call.completed'' w')"
  by (intro conjI allI impI)
    ((drule (1) pre_allow_emits | drule (1) post_allow_emits), elim exE, erule emit_record_recorded [OF _ assms(2,1)],
      simp add: tool_gate_allowed_event_def tool_gate_completed_event_def)+

text \<open>
  The post-dispatch decision is the first-match evaluation of the gates' answers on the result:
  the first serving gate that denies or challenges while enforcing decides, a request for approval
  becomes a denial (the tool already ran, so its result is withheld), and otherwise the allow
  carries the result as the gates rewrote it, or the refusal for a lost call record.
\<close>

theorem post_dispatch_first_blocking_gate:
  assumes "tool_gate_chain r \<noteq> []" and "upstream_keeps_action env"
  shows "let d = fst (evaluate_tool_gates_post env rt r ctx arguments res ms upstream w);
      ds = post_answers env r ctx arguments res ms w;
      live = filter serving (tool_gate_chain r)
    in (\<exists>us p e rest. ds = us @ [(p, e)] \<and> d = post_out p e \<and> gate_blocks p e
          \<and> (\<forall>md ma mr. d \<noteq> Allow md ma mr) \<and> (\<forall>(q, e) \<in> set us. \<not> gate_blocks q e)
          \<and> live = map fst ds @ rest)
       \<or> (map fst ds = live \<and> (\<forall>(q, e) \<in> set ds. \<not> gate_blocks q e)
          \<and> (d = post_allow_of (fold (\<lambda>(p, e). post_pass p e) ds (post_acc_init res))
             \<or> d = record_lost_deny ''mcpg.tool.call.completed''
               \<and> audit_request_policy r = FailClosed \<and> audit_emit_tool_call_completed r))"
proof -
  let ?run = "run_chain serving (gate_post_step env ctx arguments ms) (tool_gate_chain r) (post_acc_init res) w"
  obtain o1 w1 where run: "?run = (o1, w1)" by (cases ?run)
  show ?thesis
  proof (cases o1)
    case (Inl d)
    with run assms(1) have ev: "fst (evaluate_tool_gates_post env rt r ctx arguments res ms upstream w) = d"
      by (simp add: evaluate_tool_gates_post_def)
    from post_gates.outcome_Inl [OF run [unfolded Inl], folded post_answers_contract] obtain us p e rest where *:
      "post_answers env r ctx arguments res ms w = us @ [(p, e)]" "d = post_out p e" "gate_blocks p e"
      "\<forall>(q, e) \<in> set us. \<not> gate_blocks q e"
      "filter serving (tool_gate_chain r) = map fst (us @ [(p, e)]) @ rest"
      by (elim exE conjE) (rule that)
    from *(2,3) have "\<forall>md ma mr. d \<noteq> Allow md ma mr" by (simp add: post_out_not_allow)
    with * show ?thesis unfolding Let_def ev
      by (intro disjI1 exI [of _ us] exI [of _ p] exI [of _ e] exI [of _ rest]) simp
  next
    case (Inr acc)
    note out = post_gates.outcome_Inr [OF run [unfolded Inr], folded post_answers_contract]
    let ?mk = "\<lambda>st. tool_gate_completed_event st ctx (qa_evaluated acc) ms (qa_chain acc)"
    from run Inr assms(1) have ev: "fst (evaluate_tool_gates_post env rt r ctx arguments res ms upstream w) =
        (if audit_emit_tool_call_completed r
         then unwrap_or (post_allow_of acc) (fst (emit_record env rt r ctx upstream ?mk w1))
         else post_allow_of acc)"
      by (auto simp: evaluate_tool_gates_post_def post_allow_of_def Let_def split: prod.splits option.splits)
    from out have "post_view acc = fold (\<lambda>(p, e). post_pass p e)
        (post_answers env r ctx arguments res ms w) (post_acc_init res)" by simp
    then have al: "post_allow_of acc = post_allow_of (fold (\<lambda>(p, e). post_pass p e)
        (post_answers env r ctx arguments res ms w) (post_acc_init res))"
      by (metis allow_of_view(2))
    have "fst (emit_record env rt r ctx upstream ?mk w1) = None
      \<or> fst (emit_record env rt r ctx upstream ?mk w1) = Some (record_lost_deny ''mcpg.tool.call.completed'')
        \<and> audit_request_policy r = FailClosed"
      using emit_record_cases [OF assms(2), of ?mk "''mcpg.tool.call.completed''" rt r ctx upstream w1] by simp
    with out show ?thesis unfolding Let_def ev al [symmetric]
      by (cases "audit_emit_tool_call_completed r") auto
  qed
qed

section \<open>Witnesses\<close>

text \<open>A disabled denier, a shadow denier, a gate that rewrites the arguments and an enforcing denier.\<close>

definition sample_gate_chain :: "trace tool_gate_plugin chain_entry list" where
  "sample_gate_chain =
     [(new_chain_entry ''g0'' (sample_manifest ''g0'') [] JNull True 0 (sample_gate ''g0'' (Deny 403 1 ''no'' None)))\<lparr>lp_state := Disabled\<rparr>,
      new_chain_entry ''g1'' (sample_manifest ''g1'') [] JNull False 0 (sample_gate ''g1'' (Deny 403 2 ''shadow'' None)),
      new_chain_entry ''g2'' (sample_manifest ''g2'') [] JNull True 0 (sample_gate ''g2'' (Allow None (Some (JNumber 7)) (Some (JNumber 8)))),
      new_chain_entry ''g3'' (sample_manifest ''g3'') [] JNull True 0 (sample_gate ''g3'' (Deny 401 3 ''stop'' None))]"

definition sample_gates :: "trace registry" where
  "sample_gates = registry_new\<lparr>tool_gate_chain := sample_gate_chain\<rparr>"

definition sample_open_gates :: "trace registry" where
  "sample_open_gates = registry_new\<lparr>tool_gate_chain := butlast sample_gate_chain, audit_request_policy := FailClosed\<rparr>"

lemmas gate_sample_simps = sample_gate_chain_def sample_gate_def sample_manifest_def traced_fut_def
  new_chain_entry_def sample_env_def registry_new_def serving_def gate_config_def is_payment_plugin_def
  starts_with_def absorb_allow_def emit_refusal_def emit_event_def emit_audit_event_def prepare_event_def
  with_digested_actor_attributes_def gate_acc_init_def trace_gate_def post_acc_init_def absorb_post_def

lemma sample_env_keeps_action: "upstream_keeps_action sample_env"
  by (simp add: upstream_keeps_action_def sample_env_def)

theorem pre_dispatch_first_blocking_gate_witness:
  "tool_gate_chain sample_gates \<noteq> []
   \<and> (\<exists>us p. pre_answers sample_env sample_runtime sample_gates sample_context JNull None None None []
        = us @ [(p, fst (evaluate_tool_gates_pre_from sample_env sample_runtime sample_gates sample_context JNull None None None []))])"
proof -
  have ne: "tool_gate_chain sample_gates \<noteq> []" by (simp add: sample_gates_def sample_gate_chain_def)
  have "\<not> (\<forall>(q, e) \<in> set (pre_answers sample_env sample_runtime sample_gates sample_context JNull None None None []). \<not> gate_blocks q e)"
    by (simp add: pre_answers_def pre_visits_def sample_gates_def gate_pre_step_def pre_decide_def gate_sample_simps Let_def)
  with pre_dispatch_first_blocking_gate [OF ne sample_env_keeps_action, of sample_runtime sample_context JNull None None None "[]"] ne
  show ?thesis unfolding Let_def by blast
qed

theorem gates_see_rewritten_arguments_witness:
  "\<exists>us p a v. pre_visits sample_env sample_runtime sample_gates sample_context JNull None None None [] = us @ [(p, a, v)]
     \<and> ga_args a = JNumber 7"
proof -
  obtain us p a v where vis: "pre_visits sample_env sample_runtime sample_gates sample_context JNull None None None [] = us @ [(p, a, v)]"
    and us: "fold (\<lambda>(q, b, u) args. case pre_decide sample_context None None q b u of Allow _ (Some m) _ \<Rightarrow> m | _ \<Rightarrow> args) us JNull = JNumber 7"
    by (simp add: pre_visits_def sample_gates_def gate_pre_step_def pre_decide_def gate_sample_simps Let_def)
  from gates_see_rewritten_arguments [OF vis] us vis show ?thesis by auto
qed

theorem gates_not_serving_are_skipped_witness:
  "evaluate_tool_gates_pre_from sample_env sample_runtime
      (sample_gates\<lparr>tool_gate_chain := filter serving (tool_gate_chain sample_gates)\<rparr>) sample_context JNull None None None []
    = evaluate_tool_gates_pre_from sample_env sample_runtime sample_gates sample_context JNull None None None []"
  by (rule gates_not_serving_are_skipped [THEN conjunct1]) (simp_all add: sample_env_def)

lemma sample_open_run:
  "evaluate_tool_gates_pre_from sample_env sample_runtime sample_open_gates sample_context JNull None None None []
    = (Allow None (Some (JNumber 7)) (Some (JNumber 8)), [''g1'', ''g2''])"
  by (simp add: evaluate_tool_gates_pre_from_def sample_open_gates_def gate_pre_step_def gate_sample_simps Let_def
      emit_record_def emit_tool_call_record_def emit_request_audit_event_def emit_audit_event_enforced_def
      closed_results_def tool_gate_allowed_event_def DIGESTED_ACTOR_ATTRIBUTES_def sample_context_def
      sample_identity_def digest_attributes_def merge_metadata_def)

theorem no_call_without_record_witness:
  "call_recorded sample_env sample_runtime sample_open_gates sample_context None ''mcpg.tool.call.allowed'' [''g1'', ''g2'']"
proof -
  have "audit_request_policy sample_open_gates = FailClosed" "audit_emit_tool_call_allowed sample_open_gates"
    by (simp_all add: sample_open_gates_def registry_new_def)
  with no_call_without_record [OF sample_env_keeps_action, THEN conjunct1, of sample_open_gates sample_runtime] sample_open_run
  show ?thesis by blast
qed

theorem post_dispatch_first_blocking_gate_witness:
  "\<exists>us p e. post_answers sample_env sample_gates sample_context JNull JNull 5 [] = us @ [(p, e)]
     \<and> fst (evaluate_tool_gates_post sample_env sample_runtime sample_gates sample_context JNull JNull 5 None []) = post_out p e"
proof -
  have ne: "tool_gate_chain sample_gates \<noteq> []" by (simp add: sample_gates_def sample_gate_chain_def)
  have "\<not> (\<forall>(q, e) \<in> set (post_answers sample_env sample_gates sample_context JNull JNull 5 []). \<not> gate_blocks q e)"
    by (simp add: post_answers_def sample_gates_def gate_post_step_def post_decide_def gate_sample_simps Let_def)
  with post_dispatch_first_blocking_gate [OF ne sample_env_keeps_action, of sample_runtime sample_context JNull JNull 5 None "[]"]
  show ?thesis unfolding Let_def by blast
qed

end
