(* ===== verification/Request_Chains.thy ===== *)
theory Request_Chains
  imports Gate_Chain
begin

text \<open>
  The other chains of \<open>src/src/registry.rs\<close>: argument and result transforms
  (\<open>apply_transforms_pre\<close>, \<open>apply_transforms_post\<close>), identity resolution (\<open>resolve_identity\<close>) and
  policy evaluation (\<open>evaluate_policy\<close>, \<open>evaluate_policy_chain\<close>,
  \<open>evaluate_plugin_registration_policy\<close>). Each is an instance of \<open>run_chain\<close> and of its contract.
\<close>

section \<open>Transforms\<close>

definition transform_step ::
  "'w host_env \<Rightarrow> 'w runtime \<Rightarrow> 'w registry \<Rightarrow> plugin_context \<Rightarrow> string
    \<Rightarrow> ('w transform_plugin \<Rightarrow> plugin_context \<Rightarrow> json \<Rightarrow> json \<Rightarrow> ('w, transform_result) fut)
    \<Rightarrow> 'w transform_plugin chain_entry \<Rightarrow> json \<Rightarrow> 'w \<Rightarrow> (unit + json) \<times> 'w" where
  "transform_step env rt r ctx phase call p current w =
     (let (result, w1) = await (call (lp_instance p) ctx current (lp_config p)) w
      in case result of
           Unchanged \<Rightarrow> (Inr current, w1)
         | Modified v \<Rightarrow>
             (let (st, w2) = mint_event env w1
              in (Inr v, snd (emit_audit_event env rt r
                    (transform_applied_event env st ctx (m_id (lp_manifest p)) phase current v) w2)))
         | TransformError message \<Rightarrow> (Inr current, w1))"

definition transform_outcome :: "(unit + json) \<times> 'w \<Rightarrow> json \<Rightarrow> json \<times> 'w" where
  "transform_outcome x v = (case x of (Inr current, w) \<Rightarrow> (current, w) | (Inl _, w) \<Rightarrow> (v, w))"

definition apply_transforms_pre ::
  "'w host_env \<Rightarrow> 'w runtime \<Rightarrow> 'w registry \<Rightarrow> plugin_context \<Rightarrow> json \<Rightarrow> 'w \<Rightarrow> json \<times> 'w" where
  "apply_transforms_pre env rt r ctx arguments w =
     (if transform_chain r = [] then (arguments, w)
      else transform_outcome
        (run_chain serving (transform_step env rt r ctx ''pre'' tf_transform_arguments) (transform_chain r) arguments w)
        arguments)"

definition apply_transforms_post ::
  "'w host_env \<Rightarrow> 'w runtime \<Rightarrow> 'w registry \<Rightarrow> plugin_context \<Rightarrow> json \<Rightarrow> 'w \<Rightarrow> json \<times> 'w" where
  "apply_transforms_post env rt r ctx result w =
     (if transform_chain r = [] then (result, w)
      else transform_outcome
        (run_chain serving (transform_step env rt r ctx ''post'' tf_transform_result) (transform_chain r) result w)
        result)"

section \<open>Identity\<close>

datatype chain_identity_outcome =
    Resolved identity
  | NoCredential
  | RejectedCredential string string "(string \<times> string) list"

definition identity_step ::
  "(string \<times> string) list \<Rightarrow> request_metadata \<Rightarrow> 'w identity_plugin chain_entry \<Rightarrow> unit \<Rightarrow> 'w
    \<Rightarrow> (chain_identity_outcome + unit) \<times> 'w" where
  "identity_step headers metadata p u w =
     (let (resolution, w1) = await (ip_resolve_identity (lp_instance p) headers metadata (lp_config p)) w
      in (case resolution of
            IdResolved identity \<Rightarrow> Inl (Resolved identity)
          | IdNone \<Rightarrow> Inr ()
          | IdInvalid reason response_headers \<Rightarrow>
              Inl (RejectedCredential (m_id (lp_manifest p)) reason response_headers), w1))"

definition resolve_identity ::
  "'w registry \<Rightarrow> (string \<times> string) list \<Rightarrow> request_metadata \<Rightarrow> 'w \<Rightarrow> chain_identity_outcome \<times> 'w" where
  "resolve_identity r headers metadata w =
     (case run_chain serving (identity_step headers metadata) (identity_chain r) () w of
        (Inl outcome, w1) \<Rightarrow> (outcome, w1)
      | (Inr _, w1) \<Rightarrow> (NoCredential, w1))"

section \<open>Policy\<close>

definition policy_engine_by_name :: "'w registry \<Rightarrow> string \<Rightarrow> 'w policy_engine option" where
  "policy_engine_by_name r name = map_option lp_instance (find (\<lambda>p. lp_name p = name) (policy_engines r))"

definition policy_engine_names :: "'w registry \<Rightarrow> string list" where
  "policy_engine_names r = sort (map lp_name (policy_engines r))"

definition policy_engine_plugin_ids :: "'w registry \<Rightarrow> string list" where
  "policy_engine_plugin_ids r = map (\<lambda>p. m_id (lp_manifest p)) (policy_engines r)"

definition evaluate_policy ::
  "'w host_env \<Rightarrow> 'w registry \<Rightarrow> string \<Rightarrow> string \<Rightarrow> json \<Rightarrow> plugin_context \<Rightarrow> 'w \<Rightarrow> policy_decision \<times> 'w" where
  "evaluate_policy env r engine_name decision_point input context w =
     (case policy_engine_by_name r engine_name of
        None \<Rightarrow> (policy_not_applicable env [], w)
      | Some engine \<Rightarrow> await (pe_evaluate engine decision_point input context) w)"

datatype policy_chain_outcome =
    PolicyAllow string string
  | PolicyDeny string string string
  | PolicyNotApplicable

type_synonym allowed_by = "(string \<times> string) option"

definition policy_step ::
  "'w registry \<Rightarrow> string \<Rightarrow> json \<Rightarrow> plugin_context \<Rightarrow> string \<Rightarrow> allowed_by \<Rightarrow> 'w
    \<Rightarrow> (policy_chain_outcome + allowed_by) \<times> 'w" where
  "policy_step r decision_point input context engine_name by w =
     (case policy_engine_by_name r engine_name of
        None \<Rightarrow> (Inr by, w)
      | Some engine \<Rightarrow>
         (let (decision, w1) = await (pe_evaluate engine decision_point input context) w
          in (case pd_effect decision of
                EffDeny \<Rightarrow> Inl (PolicyDeny engine_name
                   (unwrap_or (''policy '' @ engine_name @ '' denied'') (pd_reason decision))
                   (pd_policy_version decision))
              | EffAllow \<Rightarrow> Inr (if by = None then Some (engine_name, pd_policy_version decision) else by)
              | EffNotApplicable \<Rightarrow> Inr by, w1)))"

definition engine_known :: "'w registry \<Rightarrow> string \<Rightarrow> bool" where
  "engine_known r name = (policy_engine_by_name r name \<noteq> None)"

definition evaluate_policy_chain ::
  "'w registry \<Rightarrow> string list \<Rightarrow> string \<Rightarrow> json \<Rightarrow> plugin_context \<Rightarrow> 'w \<Rightarrow> policy_chain_outcome \<times> 'w" where
  "evaluate_policy_chain r engines decision_point input context w =
     (if engines = [] then (PolicyNotApplicable, w)
      else
        (case run_chain (engine_known r) (policy_step r decision_point input context) engines None w of
           (Inl outcome, w1) \<Rightarrow> (outcome, w1)
         | (Inr (Some (engine, policy_version)), w1) \<Rightarrow> (PolicyAllow engine policy_version, w1)
         | (Inr None, w1) \<Rightarrow> (PolicyNotApplicable, w1)))"

text \<open>\<open>manifest_json\<close> stands for the protocol crate's serialisation of a manifest.\<close>

definition evaluate_plugin_registration_policy ::
  "(manifest \<Rightarrow> json option) \<Rightarrow> 'w registry \<Rightarrow> manifest \<Rightarrow> 'w \<Rightarrow> policy_chain_outcome \<times> 'w" where
  "evaluate_plugin_registration_policy manifest_json r manifest w =
     (let engines = policy_engine_names r
      in if engines = [] then (PolicyNotApplicable, w)
         else (case manifest_json manifest of
                 None \<Rightarrow> (PolicyNotApplicable, w)
               | Some v \<Rightarrow> evaluate_policy_chain r engines ''plugin.lifecycle.register'' v
                   \<lparr>cx_request_id = ''plugin-load-'' @ m_id manifest, cx_session_id = None,
                    cx_tool_name = m_id manifest, cx_surface = ''plugin_lifecycle'', cx_transport = ''internal'',
                    cx_identity = system_identity\<rparr> w))"

section \<open>The loops meet the chain contract\<close>

definition transform_decide where
  "transform_decide ctx call p current w = fst (await (call (lp_instance p) ctx current (lp_config p)) w)"

fun transform_pass :: "'p \<Rightarrow> transform_result \<Rightarrow> json \<Rightarrow> json" where
  "transform_pass p (Modified v) current = v"
| "transform_pass p _ current = current"

interpretation transforms: chain_contract serving "transform_step env rt r ctx phase call"
    "transform_decide ctx call" "\<lambda>p d. False" "\<lambda>p d. ()" transform_pass "\<lambda>v. v"
  for env :: "'w host_env" and rt r ctx phase call
proof
  fix p :: "'w transform_plugin chain_entry" and acc :: json and w :: 'w
  obtain d w1 where a: "await (call (lp_instance p) ctx acc (lp_config p)) w = (d, w1)" by fastforce
  then have d: "transform_decide ctx call p acc w = d" by (simp add: transform_decide_def)
  show "\<exists>acc' w'. transform_step env rt r ctx phase call p acc w = (Inr acc', w')
      \<and> acc' = transform_pass p (transform_decide ctx call p acc w) acc"
    unfolding d by (cases d) (simp_all add: transform_step_def a Let_def case_prod_beta)
qed simp

definition identity_decide where
  "identity_decide headers metadata p u w = fst (await (ip_resolve_identity (lp_instance p) headers metadata (lp_config p)) w)"

fun identity_out :: "'w identity_plugin chain_entry \<Rightarrow> identity_resolution \<Rightarrow> chain_identity_outcome" where
  "identity_out p (IdResolved i) = Resolved i"
| "identity_out p (IdInvalid reason hs) = RejectedCredential (m_id (lp_manifest p)) reason hs"
| "identity_out p IdNone = NoCredential"

interpretation identities: chain_contract serving "identity_step headers metadata"
    "identity_decide headers metadata" "\<lambda>p d. d \<noteq> IdNone" identity_out "\<lambda>p d u. ()" "\<lambda>u. u"
  for headers metadata
proof
  fix p :: "'w identity_plugin chain_entry" and acc :: unit and w :: 'w
  obtain d w1 where a: "await (ip_resolve_identity (lp_instance p) headers metadata (lp_config p)) w = (d, w1)" by fastforce
  then have d: "identity_decide headers metadata p acc w = d" by (simp add: identity_decide_def)
  show "\<exists>w'. identity_step headers metadata p acc w = (Inl (identity_out p (identity_decide headers metadata p acc w)), w')"
    if "identity_decide headers metadata p acc w \<noteq> IdNone"
    using that unfolding d by (cases d) (simp_all add: identity_step_def a)
  show "\<exists>acc' w'. identity_step headers metadata p acc w = (Inr acc', w') \<and> acc' = ()"
    if "\<not> identity_decide headers metadata p acc w \<noteq> IdNone"
    using that unfolding d by (simp add: identity_step_def a)
qed

text \<open>An unknown engine does not answer; a known one answers with its decision.\<close>

definition policy_decide ::
  "'w registry \<Rightarrow> string \<Rightarrow> json \<Rightarrow> plugin_context \<Rightarrow> string \<Rightarrow> allowed_by \<Rightarrow> 'w \<Rightarrow> policy_decision option" where
  "policy_decide r point input ctx n by w =
     map_option (\<lambda>engine. fst (await (pe_evaluate engine point input ctx) w)) (policy_engine_by_name r n)"

definition policy_blocks :: "string \<Rightarrow> policy_decision option \<Rightarrow> bool" where
  "policy_blocks n d = (case d of None \<Rightarrow> False | Some e \<Rightarrow> pd_effect e = EffDeny)"

definition policy_out :: "string \<Rightarrow> policy_decision option \<Rightarrow> policy_chain_outcome" where
  "policy_out n d =
     (case d of None \<Rightarrow> PolicyNotApplicable
      | Some e \<Rightarrow> PolicyDeny n (unwrap_or (''policy '' @ n @ '' denied'') (pd_reason e)) (pd_policy_version e))"

definition policy_pass :: "string \<Rightarrow> policy_decision option \<Rightarrow> allowed_by \<Rightarrow> allowed_by" where
  "policy_pass n d by =
     (case d of None \<Rightarrow> by
      | Some e \<Rightarrow> if pd_effect e = EffAllow \<and> by = None then Some (n, pd_policy_version e) else by)"

interpretation policies: chain_contract "engine_known r" "policy_step r point input ctx"
    "policy_decide r point input ctx" policy_blocks policy_out policy_pass "\<lambda>v. v"
  for r :: "'w registry" and point input ctx
proof
  fix p :: string and acc :: allowed_by and w :: 'w
  show "\<exists>w'. policy_step r point input ctx p acc w = (Inl (policy_out p (policy_decide r point input ctx p acc w)), w')"
    if "policy_blocks p (policy_decide r point input ctx p acc w)"
    using that
    by (auto simp: policy_blocks_def policy_decide_def policy_step_def policy_out_def case_prod_beta split: option.splits)
  show "\<exists>acc' w'. policy_step r point input ctx p acc w = (Inr acc', w')
      \<and> acc' = policy_pass p (policy_decide r point input ctx p acc w) acc"
    if "\<not> policy_blocks p (policy_decide r point input ctx p acc w)"
    using that
    by (auto simp: policy_blocks_def policy_decide_def policy_step_def policy_pass_def case_prod_beta
        split: option.splits policy_effect.splits)
qed

section \<open>Properties\<close>

definition transform_answers where
  "transform_answers env rt r ctx phase call v w =
     map (\<lambda>(p, a, u). (p, transform_decide ctx call p a u))
       (visits serving (transform_step env rt r ctx phase call) (transform_chain r) v w)"

lemma transform_answers_contract:
  "transform_answers env rt r ctx phase call v w =
    transforms.answers env rt r ctx phase call (transform_chain r) v w"
  by (simp add: transform_answers_def transforms.answers_def)

lemma transform_run:
  "\<exists>w'. run_chain serving (transform_step env rt r ctx phase call) (transform_chain r) v w =
      (Inr (fold (\<lambda>(p, d). transform_pass p d) (transform_answers env rt r ctx phase call v w) v), w')
    \<and> map fst (transform_answers env rt r ctx phase call v w) = filter serving (transform_chain r)"
proof -
  obtain cur w' where run: "run_chain serving (transform_step env rt r ctx phase call) (transform_chain r) v w = (Inr cur, w')"
    using transforms.completes_if_none_blocks [of "transform_chain r"] by blast
  from transforms.outcome_Inr [OF run, folded transform_answers_contract] run show ?thesis by simp
qed

text \<open>
  Transforms compose: the value that leaves a transform chain is obtained by folding the
  answers of the serving transforms, called in registration order, over the input. A modified value
  replaces the running value, \<open>Unchanged\<close> and an error keep the last good one, and each transform
  is called with the value the ones before it produced.
\<close>

theorem transforms_compose:
  "fst (apply_transforms_pre env rt r ctx v w) =
     fold (\<lambda>(p, d). transform_pass p d) (transform_answers env rt r ctx ''pre'' tf_transform_arguments v w) v
   \<and> map fst (transform_answers env rt r ctx ''pre'' tf_transform_arguments v w) = filter serving (transform_chain r)
   \<and> fst (apply_transforms_post env rt r ctx v w) =
     fold (\<lambda>(p, d). transform_pass p d) (transform_answers env rt r ctx ''post'' tf_transform_result v w) v
   \<and> map fst (transform_answers env rt r ctx ''post'' tf_transform_result v w) = filter serving (transform_chain r)"
proof -
  obtain w1 where pre: "run_chain serving (transform_step env rt r ctx ''pre'' tf_transform_arguments) (transform_chain r) v w =
      (Inr (fold (\<lambda>(p, d). transform_pass p d) (transform_answers env rt r ctx ''pre'' tf_transform_arguments v w) v), w1)"
    and p2: "map fst (transform_answers env rt r ctx ''pre'' tf_transform_arguments v w) = filter serving (transform_chain r)"
    using transform_run [of env rt r ctx "''pre''" tf_transform_arguments v w] by (elim exE conjE) (rule that)
  obtain w2 where post: "run_chain serving (transform_step env rt r ctx ''post'' tf_transform_result) (transform_chain r) v w =
      (Inr (fold (\<lambda>(p, d). transform_pass p d) (transform_answers env rt r ctx ''post'' tf_transform_result v w) v), w2)"
    and q2: "map fst (transform_answers env rt r ctx ''post'' tf_transform_result v w) = filter serving (transform_chain r)"
    using transform_run [of env rt r ctx "''post''" tf_transform_result v w] by (elim exE conjE) (rule that)
  have "transform_chain r = [] \<Longrightarrow> transform_answers env rt r ctx ph call v w = []" for ph call
    by (simp add: transform_answers_def)
  with pre p2 post q2 show ?thesis
    by (cases "transform_chain r = []")
      (simp_all add: apply_transforms_pre_def apply_transforms_post_def transform_outcome_def)
qed

definition identity_answers where
  "identity_answers r headers metadata w =
     map (\<lambda>(p, a, u). (p, identity_decide headers metadata p a u))
       (visits serving (identity_step headers metadata) (identity_chain r) () w)"

lemma identity_answers_contract:
  "identity_answers r headers metadata w = identities.answers headers metadata (identity_chain r) () w"
  by (simp add: identity_answers_def identities.answers_def)

text \<open>
  C17. Identity resolution is first-match: the first serving provider that recognises a credential
  decides, whether it resolves or rejects it, and no later provider is asked. A rejected credential
  therefore never becomes an anonymous request: \<open>NoCredential\<close> means that every serving provider was
  asked and none recognised a credential.
\<close>

theorem identity_first_match:
  "(fst (resolve_identity r headers metadata w) = NoCredential \<longleftrightarrow>
      (\<forall>(p, d) \<in> set (identity_answers r headers metadata w). d = IdNone))
   \<and> (fst (resolve_identity r headers metadata w) = NoCredential \<and>
        map fst (identity_answers r headers metadata w) = filter serving (identity_chain r)
      \<or> (\<exists>us p d rest. identity_answers r headers metadata w = us @ [(p, d)] \<and> d \<noteq> IdNone
          \<and> fst (resolve_identity r headers metadata w) = identity_out p d
          \<and> (\<forall>(q, e) \<in> set us. e = IdNone) \<and> filter serving (identity_chain r) = map fst (us @ [(p, d)]) @ rest))"
proof -
  let ?run = "run_chain serving (identity_step headers metadata) (identity_chain r) () w"
  obtain o1 w1 where run: "?run = (o1, w1)" by (cases ?run)
  show ?thesis
  proof (cases o1)
    case (Inl d)
    from run Inl have ev: "fst (resolve_identity r headers metadata w) = d" by (simp add: resolve_identity_def)
    from identities.outcome_Inl [OF run [unfolded Inl], folded identity_answers_contract] obtain us p e rest where
      *: "identity_answers r headers metadata w = us @ [(p, e)]" "d = identity_out p e" "e \<noteq> IdNone"
      "\<forall>(q, e) \<in> set us. \<not> e \<noteq> IdNone" "filter serving (identity_chain r) = map fst (us @ [(p, e)]) @ rest"
      by (elim exE conjE) (rule that)
    from *(2,3) have "d \<noteq> NoCredential" by (cases e) simp_all
    with * ev show ?thesis
      by (intro conjI disjI2 exI [of _ us] exI [of _ p] exI [of _ e] exI [of _ rest]) auto
  next
    case (Inr u)
    with run have ev: "fst (resolve_identity r headers metadata w) = NoCredential" by (simp add: resolve_identity_def)
    from identities.outcome_Inr [OF run [unfolded Inr], folded identity_answers_contract] ev show ?thesis by simp
  qed
qed

definition policy_answers where
  "policy_answers r engines point input ctx w =
     map (\<lambda>(n, a, u). (n, policy_decide r point input ctx n a u))
       (visits (engine_known r) (policy_step r point input ctx) engines None w)"

lemma policy_answers_contract:
  "policy_answers r engines point input ctx w = policies.answers r point input ctx engines None w"
  by (simp add: policy_answers_def policies.answers_def)

definition answer_effect :: "policy_decision option \<Rightarrow> policy_effect option" where
  "answer_effect d = map_option pd_effect d"

definition first_allow :: "(string \<times> policy_decision option) list \<Rightarrow> allowed_by" where
  "first_allow ds =
     map_option (\<lambda>(n, d). (n, pd_policy_version (the d))) (find (\<lambda>(n, d). answer_effect d = Some EffAllow) ds)"

lemma or_else_None [simp]: "or_else x None = x"
  by (cases x) simp_all

lemma fold_policy_pass: "fold (\<lambda>(n, d). policy_pass n d) ds by = or_else by (first_allow ds)"
proof (induction ds arbitrary: "by")
  case (Cons x ds)
  then show ?case
    by (cases x; cases "by"; cases "snd x")
      (auto simp: first_allow_def policy_pass_def answer_effect_def split: policy_effect.splits)
qed (simp add: first_allow_def)

text \<open>
  A policy chain aggregates its engines' effects as documented: the first denial in the given
  order decides and no later engine is asked; without a denial the first engine that allowed is
  reported, whatever came after it; \<open>NotApplicable\<close> means no engine allowed or denied. Names without
  a registered engine are skipped.
\<close>

theorem policy_chain_aggregates:
  "let ds = policy_answers r engines point input ctx w;
       known = filter (engine_known r) engines;
       outcome = fst (evaluate_policy_chain r engines point input ctx w)
   in (\<exists>us n e rest. ds = us @ [(n, Some e)] \<and> pd_effect e = EffDeny
         \<and> outcome = PolicyDeny n (unwrap_or (''policy '' @ n @ '' denied'') (pd_reason e)) (pd_policy_version e)
         \<and> (\<forall>(m, d) \<in> set us. answer_effect d \<noteq> Some EffDeny) \<and> known = map fst ds @ rest)
      \<or> (map fst ds = known \<and> (\<forall>(m, d) \<in> set ds. answer_effect d \<noteq> Some EffDeny)
         \<and> outcome = (case first_allow ds of Some (n, v) \<Rightarrow> PolicyAllow n v | None \<Rightarrow> PolicyNotApplicable))"
proof (cases "engines = []")
  case True
  then show ?thesis by (simp add: policy_answers_def evaluate_policy_chain_def first_allow_def)
next
  case False
  let ?run = "run_chain (engine_known r) (policy_step r point input ctx) engines None w"
  have blocks: "policy_blocks n d \<longleftrightarrow> answer_effect d = Some EffDeny" for n d
    by (cases d) (simp_all add: policy_blocks_def answer_effect_def)
  obtain o1 w1 where run: "?run = (o1, w1)" by (cases ?run)
  show ?thesis
  proof (cases o1)
    case (Inl d)
    with run False have ev: "fst (evaluate_policy_chain r engines point input ctx w) = d"
      by (simp add: evaluate_policy_chain_def)
    from policies.outcome_Inl [OF run [unfolded Inl], folded policy_answers_contract] obtain us n e rest where
      *: "policy_answers r engines point input ctx w = us @ [(n, e)]" "d = policy_out n e" "policy_blocks n e"
      "\<forall>(q, e) \<in> set us. \<not> policy_blocks q e" "filter (engine_known r) engines = map fst (us @ [(n, e)]) @ rest"
      by (elim exE conjE) (rule that)
    from *(3) obtain f where e: "e = Some f" and "pd_effect f = EffDeny"
      by (cases e) (simp_all add: policy_blocks_def)
    with * show ?thesis unfolding Let_def ev
      by (intro disjI1 exI [of _ us] exI [of _ n] exI [of _ f] exI [of _ rest]) (simp add: policy_out_def blocks)
  next
    case (Inr acc)
    from policies.outcome_Inr [OF run [unfolded Inr], folded policy_answers_contract]
    have out: "map fst (policy_answers r engines point input ctx w) = filter (engine_known r) engines"
      "\<forall>(p, d) \<in> set (policy_answers r engines point input ctx w). \<not> policy_blocks p d"
      "acc = first_allow (policy_answers r engines point input ctx w)"
      by (simp_all add: fold_policy_pass)
    from run Inr False have "fst (evaluate_policy_chain r engines point input ctx w) =
        (case acc of Some (n, v) \<Rightarrow> PolicyAllow n v | None \<Rightarrow> PolicyNotApplicable)"
      by (auto simp: evaluate_policy_chain_def split: option.splits)
    with out show ?thesis unfolding Let_def by (simp add: blocks)
  qed
qed

section \<open>Lookups that do not read the lifecycle state\<close>

lemma store_keeps_bindings:
  "secret_scheme_bindings (store_state_cell i s r) = secret_scheme_bindings r"
  "config_scheme_bindings (store_state_cell i s r) = config_scheme_bindings r"
  "store_bindings (store_state_cell i s r) = store_bindings r"
  "cache_bindings (store_state_cell i s r) = cache_bindings r"
  unfolding store_state_cell_def
  by (intro if_eqI [where f = secret_scheme_bindings] if_eqI [where f = config_scheme_bindings]
      if_eqI [where f = store_bindings] if_eqI [where f = cache_bindings]; simp)+

lemma store_keeps_policy_engines:
  "policy_engine_by_name (store_state_cell i s r) n = policy_engine_by_name r n"
proof -
  have f: "map_option lp_instance (find (\<lambda>p. lp_name p = n) (set_first_list i s ps)) =
      map_option lp_instance (find (\<lambda>p. lp_name p = n) ps)" for ps :: "'w policy_engine named_entry list"
    by (induction ps) (auto simp: set_first_list_def)
  show ?thesis
    unfolding store_state_cell_def
    by (intro if_eqI [where f = "\<lambda>r. policy_engine_by_name r n"]) (simp_all add: policy_engine_by_name_def f)
qed

text \<open>
  Operator actions do not reach plugins that are looked up by name or binding: after a policy
  engine, a bound secret or config provider, a bound store or a bound cache was disabled (or
  drained), policy chains still consult it and the binding lookups still return it.
\<close>

theorem disable_does_not_reach_bound_plugins:
  assumes "run_admin op i r = Inr r'"
  shows "evaluate_policy_chain r' = evaluate_policy_chain r
    \<and> secret_provider_for_scheme r' = secret_provider_for_scheme r
    \<and> config_provider_for_scheme r' = config_provider_for_scheme r
    \<and> store_for_role r' = store_for_role r \<and> cache_for_namespace r' = cache_for_namespace r"
proof -
  from run_admin_spec [of op i r] assms have "r' = r \<or> r' = store_state_cell i (admin_target op) r"
    by (auto split: option.splits if_splits)
  moreover have "evaluate_policy_chain (store_state_cell i s r) = evaluate_policy_chain r" for s
    unfolding evaluate_policy_chain_def [abs_def] policy_step_def [abs_def] engine_known_def [abs_def]
      store_keeps_policy_engines ..
  ultimately show ?thesis by (auto simp: table_lookups store_keeps_bindings)
qed

section \<open>Witnesses\<close>

definition sample_chains :: "trace registry" where
  "sample_chains = registry_new
     \<lparr>identity_chain := [new_chain_entry ''i1'' (sample_manifest ''i1'') [] JNull True 0 (sample_identity_plugin ''i1'' IdNone),
         new_chain_entry ''i2'' (sample_manifest ''i2'') [] JNull True 0 (sample_identity_plugin ''i2'' (IdInvalid ''expired'' [])),
         new_chain_entry ''i3'' (sample_manifest ''i3'') [] JNull True 0 (sample_identity_plugin ''i3'' (IdResolved sample_identity))],
      policy_engines := [\<lparr>lp_alias = ''p1'', lp_manifest = sample_manifest ''p1'', lp_tier = [], lp_state = Active,
           lp_instance = sample_policy_engine ''p1'' EffAllow, lp_name = ''p1''\<rparr>,
         \<lparr>lp_alias = ''p2'', lp_manifest = sample_manifest ''p2'', lp_tier = [], lp_state = Active,
           lp_instance = sample_policy_engine ''p2'' EffDeny, lp_name = ''p2''\<rparr>]\<rparr>"

lemmas chain_sample_simps = sample_chains_def new_chain_entry_def sample_identity_plugin_def traced_fut_def
  sample_manifest_def serving_def sample_policy_engine_def

theorem identity_first_match_witness:
  "fst (resolve_identity sample_chains [] JNull []) \<noteq> NoCredential"
proof -
  have "\<not> (\<forall>(p, d) \<in> set (identity_answers sample_chains [] JNull []). d = IdNone)"
    by (simp add: identity_answers_def identity_step_def identity_decide_def chain_sample_simps)
  with identity_first_match [of sample_chains "[]" JNull "[]"] show ?thesis by blast
qed

theorem policy_chain_aggregates_witness:
  "\<exists>n reason v. fst (evaluate_policy_chain sample_chains [''p1'', ''typo'', ''p2''] ''tool'' JNull sample_context []) = PolicyDeny n reason v"
proof -
  have "\<not> (\<forall>(m, d) \<in> set (policy_answers sample_chains [''p1'', ''typo'', ''p2''] ''tool'' JNull sample_context []).
      answer_effect d \<noteq> Some EffDeny)"
    by (simp add: policy_answers_def policy_step_def policy_decide_def engine_known_def policy_engine_by_name_def
        answer_effect_def chain_sample_simps)
  with policy_chain_aggregates [of sample_chains "[''p1'', ''typo'', ''p2'']" "''tool''" JNull sample_context "[]"]
  show ?thesis unfolding Let_def by blast
qed

theorem disable_does_not_reach_bound_plugins_witness:
  "lifecycle_state (projr (run_admin Disable ''p2'' sample_chains)) ''p2'' = Some Disabled
   \<and> fst (evaluate_policy_chain (projr (run_admin Disable ''p2'' sample_chains)) [''p2''] ''tool'' JNull sample_context [])
      = PolicyDeny ''p2'' ''policy p2 denied'' ''v1''"
proof -
  have cells: "state_cells sample_chains = [(''i1'', Active), (''i2'', Active), (''i3'', Active), (''p1'', Active), (''p2'', Active)]"
    by (simp add: state_cells_def sample_chains_def registry_new_def new_chain_entry_def sample_manifest_def)
  then have dis: "run_admin Disable ''p2'' sample_chains = Inr (store_state_cell ''p2'' Disabled sample_chains)"
    by (simp add: run_admin_def disable_def find_state_cell_table)
  have "fst (evaluate_policy_chain sample_chains [''p2''] ''tool'' JNull sample_context []) = PolicyDeny ''p2'' ''policy p2 denied'' ''v1''"
    by (simp add: evaluate_policy_chain_def policy_step_def engine_known_def policy_engine_by_name_def chain_sample_simps)
  with disable_does_not_reach_bound_plugins [OF dis] dis show ?thesis
    by (simp add: lifecycle_state_def find_state_cell_table state_cells_store cells)
qed

end
