(* ===== verification/Drain.thy ===== *)
theory Drain
  imports Lifecycle
begin

text \<open>
  Graceful drain of one chain plugin (\<open>InflightTracker\<close>, \<open>InflightGuard\<close>, \<open>DrainToken::wait\<close> of
  \<open>src/src/registry.rs\<close>) as an interleaving of atomic steps: requests that pass the plugin's entry in
  a chain (read the state cell, acquire the guard, run, drop the guard, notify), one drain task, and
  the operator writing the state cell. The counter is the 64-bit word of \<open>AtomicUsize\<close>.

  The time-out of \<open>wait\<close> may fire at any point where the code would return on it; a waiter is woken
  by a \<open>notify_waiters\<close> that happens after its \<open>notified()\<close> future was created, as tokio documents.
\<close>

section \<open>The tracker\<close>

type_synonym inflight_tracker = "64 word"

definition tracker_new :: inflight_tracker where
  "tracker_new = 0"

text \<open>\<open>fetch_add(1)\<close>, which wraps.\<close>

definition guard_acquire :: "inflight_tracker \<Rightarrow> inflight_tracker" where
  "guard_acquire c = c + 1"

text \<open>\<open>fetch_sub(1)\<close>; the second component says whether the dropping thread notifies.\<close>

definition guard_drop :: "inflight_tracker \<Rightarrow> inflight_tracker \<times> bool" where
  "guard_drop c = (c - 1, c = 1)"

datatype drain_outcome = Completed | TimedOut "64 word"

section \<open>Program counters and the step relation\<close>

datatype caller_pc = CallerIdle | CallerChecked | CallerInside | CallerNotifying | CallerDone

datatype drainer_pc =
    DrainNotStarted
  | DrainLoop
  | DrainSawBusy "64 word"
  | DrainParked bool
  | DrainReturned drain_outcome

record drain_sys =
  ds_state :: plugin_state
  ds_count :: inflight_tracker
  ds_callers :: "caller_pc list"
  ds_drainer :: drainer_pc

definition drain_init :: drain_sys where
  "drain_init = \<lparr>ds_state = Active, ds_count = tracker_new, ds_callers = [], ds_drainer = DrainNotStarted\<rparr>"

fun wake_drainer :: "drainer_pc \<Rightarrow> drainer_pc" where
  "wake_drainer (DrainParked _) = DrainParked True"
| "wake_drainer d = d"

inductive drain_step :: "drain_sys \<Rightarrow> drain_sys \<Rightarrow> bool" where
  arrive: "drain_step s (s\<lparr>ds_callers := ds_callers s @ [CallerIdle]\<rparr>)"
| check: "i < length (ds_callers s) \<Longrightarrow> ds_callers s ! i = CallerIdle \<Longrightarrow> serves_traffic (ds_state s) \<Longrightarrow>
    drain_step s (s\<lparr>ds_callers := (ds_callers s)[i := CallerChecked]\<rparr>)"
| skip: "i < length (ds_callers s) \<Longrightarrow> ds_callers s ! i = CallerIdle \<Longrightarrow> \<not> serves_traffic (ds_state s) \<Longrightarrow>
    drain_step s (s\<lparr>ds_callers := (ds_callers s)[i := CallerDone]\<rparr>)"
| acquire: "i < length (ds_callers s) \<Longrightarrow> ds_callers s ! i = CallerChecked \<Longrightarrow>
    drain_step s (s\<lparr>ds_callers := (ds_callers s)[i := CallerInside], ds_count := guard_acquire (ds_count s)\<rparr>)"
| release: "i < length (ds_callers s) \<Longrightarrow> ds_callers s ! i = CallerInside \<Longrightarrow> guard_drop (ds_count s) = (c, last_one) \<Longrightarrow>
    drain_step s (s\<lparr>ds_callers := (ds_callers s)[i := if last_one then CallerNotifying else CallerDone], ds_count := c\<rparr>)"
| notify: "i < length (ds_callers s) \<Longrightarrow> ds_callers s ! i = CallerNotifying \<Longrightarrow>
    drain_step s (s\<lparr>ds_callers := (ds_callers s)[i := CallerDone], ds_drainer := wake_drainer (ds_drainer s)\<rparr>)"
| mark_draining: "ds_drainer s = DrainNotStarted \<Longrightarrow> ds_state s \<in> {Active, Degraded, Draining} \<Longrightarrow>
    drain_step s (s\<lparr>ds_state := Draining, ds_drainer := DrainLoop\<rparr>)"
| see_zero: "ds_drainer s = DrainLoop \<Longrightarrow> ds_count s = 0 \<Longrightarrow>
    drain_step s (s\<lparr>ds_drainer := DrainReturned Completed\<rparr>)"
| see_busy: "ds_drainer s = DrainLoop \<Longrightarrow> ds_count s \<noteq> 0 \<Longrightarrow>
    drain_step s (s\<lparr>ds_drainer := DrainSawBusy (ds_count s)\<rparr>)"
| budget_spent: "ds_drainer s = DrainSawBusy c \<Longrightarrow>
    drain_step s (s\<lparr>ds_drainer := DrainReturned (TimedOut c)\<rparr>)"
| park: "ds_drainer s = DrainSawBusy c \<Longrightarrow>
    drain_step s (s\<lparr>ds_drainer := DrainParked False\<rparr>)"
| woken: "ds_drainer s = DrainParked True \<Longrightarrow>
    drain_step s (s\<lparr>ds_drainer := DrainLoop\<rparr>)"
| timer: "ds_drainer s = DrainParked False \<Longrightarrow>
    drain_step s (s\<lparr>ds_drainer := DrainReturned (TimedOut (ds_count s))\<rparr>)"
| operator: "transition_allowed (ds_state s) t \<Longrightarrow>
    drain_step s (s\<lparr>ds_state := t\<rparr>)"

inductive drain_steps :: "drain_sys \<Rightarrow> drain_sys \<Rightarrow> bool" where
  drain_refl: "drain_steps s s"
| drain_more: "drain_steps s t \<Longrightarrow> drain_step t u \<Longrightarrow> drain_steps s u"

definition drain_reachable :: "drain_sys \<Rightarrow> bool" where
  "drain_reachable s = drain_steps drain_init s"

section \<open>The counter counts\<close>

definition inside :: "drain_sys \<Rightarrow> nat" where
  "inside s = length (filter (\<lambda>c. c = CallerInside) (ds_callers s))"

lemma filter_update_length:
  "i < length xs \<Longrightarrow>
    length (filter P (xs[i := y])) + (if P (xs ! i) then 1 else 0) = length (filter P xs) + (if P y then 1 else 0)"
proof (induction xs arbitrary: i)
  case (Cons x xs)
  then show ?case by (cases i) auto
qed simp

lemma inside_update:
  "i < length (ds_callers s) \<Longrightarrow>
    inside (s\<lparr>ds_callers := (ds_callers s)[i := y]\<rparr>) + (if ds_callers s ! i = CallerInside then 1 else 0)
      = inside s + (if y = CallerInside then 1 else 0)"
  unfolding inside_def using filter_update_length [of i "ds_callers s" "\<lambda>c. c = CallerInside" y] by simp

lemma inside_simps [simp]:
  "inside (s\<lparr>ds_state := x\<rparr>) = inside s" "inside (s\<lparr>ds_count := c\<rparr>) = inside s"
  "inside (s\<lparr>ds_drainer := d\<rparr>) = inside s"
  "inside (s\<lparr>ds_callers := cs, ds_count := c\<rparr>) = inside (s\<lparr>ds_callers := cs\<rparr>)"
  "inside (s\<lparr>ds_callers := cs, ds_drainer := d\<rparr>) = inside (s\<lparr>ds_callers := cs\<rparr>)"
  "inside (s\<lparr>ds_state := x, ds_drainer := d\<rparr>) = inside s"
  by (simp_all add: inside_def)

definition counts :: "drain_sys \<Rightarrow> bool" where
  "counts s = (ds_count s = word_of_nat (inside s))"

lemma counts_step: "drain_step s t \<Longrightarrow> counts s \<Longrightarrow> counts t"
proof (induction rule: drain_step.induct)
  case (release i s c last_one)
  from inside_update [OF release(1), of "if last_one then CallerNotifying else CallerDone"] release(2)
  have "inside s = Suc (inside (s\<lparr>ds_callers := (ds_callers s)[i := if last_one then CallerNotifying else CallerDone]\<rparr>))"
    by (simp split: if_splits)
  with release show ?case by (auto simp: counts_def guard_drop_def)
next
  case (acquire i s)
  from inside_update [OF acquire(1), of CallerInside] acquire show ?case
    by (simp add: counts_def guard_acquire_def)
next
  case (check i s)
  from inside_update [OF check(1), of CallerChecked] check show ?case by (simp add: counts_def)
next
  case (skip i s)
  from inside_update [OF skip(1), of CallerDone] skip show ?case by (simp add: counts_def)
next
  case (notify i s)
  from inside_update [OF notify(1), of CallerDone] notify show ?case by (simp add: counts_def)
qed (simp_all add: counts_def inside_def)

lemma reachable_counts: "drain_reachable s \<Longrightarrow> counts s"
proof -
  have "drain_steps r s \<Longrightarrow> counts r \<Longrightarrow> counts s" for r
    by (induction rule: drain_steps.induct) (auto intro: counts_step)
  then show "drain_reachable s \<Longrightarrow> counts s"
    by (simp add: drain_reachable_def counts_def drain_init_def inside_def tracker_new_def)
qed

lemma inside_le: "inside s \<le> length (ds_callers s)"
  by (simp add: inside_def)

lemma count_zero_iff:
  "counts s \<Longrightarrow> length (ds_callers s) < 2 ^ 64 \<Longrightarrow> ds_count s = 0 \<longleftrightarrow> CallerInside \<notin> set (ds_callers s)"
proof -
  assume c: "counts s" "length (ds_callers s) < 2 ^ 64"
  with inside_le [of s] have "inside s < 2 ^ LENGTH(64)" by simp
  then have "(word_of_nat (inside s) :: 64 word) = 0 \<longleftrightarrow> inside s = 0"
    by (auto simp: word_of_nat_eq_0_iff dest: dvd_imp_le)
  with c show ?thesis by (auto simp: counts_def inside_def filter_empty_conv)
qed

section \<open>A quiet plugin stays quiet\<close>

text \<open>No request is inside or about to enter, and the state cell does not serve.\<close>

definition quiet :: "drain_sys \<Rightarrow> bool" where
  "quiet s = (\<not> serves_traffic (ds_state s) \<and> CallerChecked \<notin> set (ds_callers s) \<and> CallerInside \<notin> set (ds_callers s))"

lemma quiet_step:
  assumes "drain_step s t" and "quiet s" and "\<not> serves_traffic (ds_state t)"
  shows "quiet t"
  using assms
proof (induction rule: drain_step.induct)
  case (check i s)
  then show ?case by (simp add: quiet_def)
next
  case (acquire i s)
  then show ?case by (metis nth_mem quiet_def)
next
  case (release i s c last_one)
  then show ?case by (metis nth_mem quiet_def)
qed (auto simp: quiet_def dest!: set_update_subset_insert [THEN subsetD])

fun drain_trace :: "drain_sys list \<Rightarrow> bool" where
  "drain_trace (s # t # ts) = (drain_step s t \<and> drain_trace (t # ts))"
| "drain_trace _ = True"

text \<open>A drain task that sleeps with nobody left who could wake it.\<close>

definition stranded :: "drain_sys \<Rightarrow> bool" where
  "stranded s \<longleftrightarrow> set (ds_callers s) \<subseteq> {CallerIdle, CallerDone} \<and> ds_count s = 0 \<and> \<not> serves_traffic (ds_state s)
     \<and> ds_drainer s \<in> {DrainParked False, DrainReturned (TimedOut 0)}"

lemma stranded_step:
  assumes "drain_step s t" and "stranded s" and "\<not> serves_traffic (ds_state t)"
  shows "stranded t"
proof -
  have pc: "ds_callers s ! i \<in> {CallerIdle, CallerDone}" if "i < length (ds_callers s)" for i
    using assms(2) that nth_mem by (fastforce simp: stranded_def)
  from assms(1) show ?thesis
    using assms(2,3)
    by cases (use pc in \<open>fastforce simp: stranded_def dest: set_update_subset_insert [THEN subsetD]\<close>)+
qed

lemma stranded_trace:
  "drain_trace (s # ts) \<Longrightarrow> stranded s \<Longrightarrow> \<forall>t \<in> set ts. \<not> serves_traffic (ds_state t) \<Longrightarrow> \<forall>t \<in> set ts. stranded t"
  by (induction ts arbitrary: s) (auto dest: stranded_step)

lemma quiet_trace:
  "drain_trace (s # ts) \<Longrightarrow> quiet s \<Longrightarrow> \<forall>t \<in> set ts. \<not> serves_traffic (ds_state t) \<Longrightarrow> \<forall>t \<in> set ts. quiet t"
  by (induction ts arbitrary: s) (auto dest: quiet_step)

section \<open>Properties\<close>

text \<open>
  C38. The in-flight counter is exact in every interleaving: it is the number of requests inside the
  plugin modulo \<open>2^64\<close>. So, with fewer than \<open>2^64\<close> requests, the drain task returns \<open>Completed\<close> only at
  a moment when no request is inside the plugin, and from its loop it cannot do anything else then.
\<close>

theorem drain_counter_exact:
  assumes "drain_reachable s"
  shows "ds_count s = word_of_nat (inside s)
    \<and> (length (ds_callers s) < 2 ^ 64 \<longrightarrow> ds_drainer s = DrainLoop \<longrightarrow>
        (CallerInside \<notin> set (ds_callers s) \<longleftrightarrow> ds_count s = 0)
        \<and> (\<forall>t. drain_step s t \<longrightarrow> ds_drainer t = DrainReturned Completed \<longrightarrow> CallerInside \<notin> set (ds_callers t))
        \<and> (\<forall>t. drain_step s t \<longrightarrow> ds_drainer t \<noteq> ds_drainer s \<longrightarrow> CallerInside \<notin> set (ds_callers s)
              \<longrightarrow> ds_drainer t = DrainReturned Completed))"
proof -
  note c = reachable_counts [OF assms]
  {
    assume l: "length (ds_callers s) < 2 ^ 64" and d: "ds_drainer s = DrainLoop"
    note z = count_zero_iff [OF c l]
    have "CallerInside \<notin> set (ds_callers t)"
      if st: "drain_step s t" and "ds_drainer t = DrainReturned Completed" for t
      using st that(2) d z by cases auto
    moreover have "ds_drainer t = DrainReturned Completed"
      if st: "drain_step s t" and "ds_drainer t \<noteq> ds_drainer s" and "CallerInside \<notin> set (ds_callers s)" for t
      using st that(2,3) d z by cases auto
    ultimately have "(CallerInside \<notin> set (ds_callers s) \<longleftrightarrow> ds_count s = 0)
        \<and> (\<forall>t. drain_step s t \<longrightarrow> ds_drainer t = DrainReturned Completed \<longrightarrow> CallerInside \<notin> set (ds_callers t))
        \<and> (\<forall>t. drain_step s t \<longrightarrow> ds_drainer t \<noteq> ds_drainer s \<longrightarrow> CallerInside \<notin> set (ds_callers s)
              \<longrightarrow> ds_drainer t = DrainReturned Completed)" using z by blast
  }
  with c show ?thesis by (auto simp: counts_def)
qed

theorem drain_counter_exact_witness:
  "ds_count (drain_init\<lparr>ds_state := Draining, ds_drainer := DrainLoop\<rparr>) = 0"
proof -
  have "drain_reachable (drain_init\<lparr>ds_state := Draining, ds_drainer := DrainLoop\<rparr>)"
    unfolding drain_reachable_def
    by (rule drain_more [OF drain_refl drain_step.mark_draining]) (simp_all add: drain_init_def)
  from drain_counter_exact [OF this] show ?thesis by (simp add: inside_def drain_init_def)
qed

text \<open>
  Once a plugin is quiet (its state does not serve, and no request is inside it or has passed
  the state check) it stays quiet in every further interleaving in which the operator does not
  write a serving state: no request enters it again.
\<close>

theorem quiet_is_stable:
  assumes "drain_trace (s # ts)" and "quiet s" and "\<forall>t \<in> set ts. \<not> serves_traffic (ds_state t)"
  shows "\<forall>t \<in> set ts. CallerInside \<notin> set (ds_callers t)"
  using quiet_trace [OF assms] by (auto simp: quiet_def)

theorem quiet_is_stable_witness:
  "CallerInside \<notin> set (ds_callers (drain_init\<lparr>ds_state := Disabled, ds_callers := [CallerDone]\<rparr>))"
proof -
  let ?s = "drain_init\<lparr>ds_state := Disabled, ds_callers := [CallerIdle]\<rparr>"
  let ?t = "drain_init\<lparr>ds_state := Disabled, ds_callers := [CallerDone]\<rparr>"
  have "drain_step ?s (?s\<lparr>ds_callers := (ds_callers ?s)[0 := CallerDone]\<rparr>)"
    by (rule drain_step.skip) simp_all
  then have "drain_trace [?s, ?t]" by simp
  from quiet_is_stable [OF this] show ?thesis by (simp add: quiet_def)
qed

text \<open>
  A completed drain does not mean the plugin is quiet: because the state cell is read before the
  guard is acquired, there is an interleaving in which \<open>wait\<close> returns \<open>Completed\<close>, the operator then
  disables the plugin, and a request that had passed the check enters the plugin afterwards.
\<close>

theorem drain_completes_before_late_entry:
  "\<exists>s. drain_reachable s \<and> ds_drainer s = DrainReturned Completed \<and> ds_state s = Disabled
     \<and> CallerInside \<in> set (ds_callers s)"
proof -
  let ?s = "\<lambda>st c cs d. \<lparr>ds_state = st, ds_count = c, ds_callers = cs, ds_drainer = d\<rparr> :: drain_sys"
  have "drain_steps drain_init (?s Active 0 [CallerIdle] DrainNotStarted)"
    by (rule drain_more [OF drain_refl]) (use drain_step.arrive [of drain_init] in \<open>simp add: drain_init_def tracker_new_def\<close>)
  then have "drain_steps drain_init (?s Active 0 [CallerChecked] DrainNotStarted)"
    by (rule drain_more) (use drain_step.check [of 0 "?s Active 0 [CallerIdle] DrainNotStarted"] in simp)
  then have "drain_steps drain_init (?s Draining 0 [CallerChecked] DrainLoop)"
    by (rule drain_more) (use drain_step.mark_draining [of "?s Active 0 [CallerChecked] DrainNotStarted"] in simp)
  then have "drain_steps drain_init (?s Draining 0 [CallerChecked] (DrainReturned Completed))"
    by (rule drain_more) (use drain_step.see_zero [of "?s Draining 0 [CallerChecked] DrainLoop"] in simp)
  then have "drain_steps drain_init (?s Disabled 0 [CallerChecked] (DrainReturned Completed))"
    by (rule drain_more) (use drain_step.operator [of "?s Draining 0 [CallerChecked] (DrainReturned Completed)" Disabled] in simp)
  then have "drain_steps drain_init (?s Disabled 1 [CallerInside] (DrainReturned Completed))"
    by (rule drain_more)
      (use drain_step.acquire [of 0 "?s Disabled 0 [CallerChecked] (DrainReturned Completed)"] in \<open>simp add: guard_acquire_def\<close>)
  then show ?thesis unfolding drain_reachable_def by (rule exI [where x = "?s Disabled 1 [CallerInside] (DrainReturned Completed)", OF conjI]) simp
qed

text \<open>
  C40. A wake-up can be lost: \<open>wait\<close> creates its \<open>notified()\<close> future after it read the counter, so the
  last request can drop its guard and notify in between. There is an interleaving after which every request
  is done, notifications included, and the counter is zero, yet the drain task is parked with no
  notification pending. From there, as long as the operator does not make the plugin serve again, nothing wakes it in
  any interleaving: it stays parked or, once its budget is spent, reports a time-out with zero in flight, and
  that is the only step it can take.
\<close>

theorem drain_wakeup_can_be_lost:
  "\<exists>s. drain_reachable s \<and> ds_drainer s = DrainParked False \<and> ds_count s = 0
     \<and> ds_callers s \<noteq> [] \<and> set (ds_callers s) = {CallerDone} \<and> ds_state s = Draining
     \<and> (\<forall>ts. drain_trace (s # ts) \<longrightarrow> (\<forall>t \<in> set ts. \<not> serves_traffic (ds_state t)) \<longrightarrow>
         (\<forall>t \<in> set ts. ds_drainer t \<in> {DrainParked False, DrainReturned (TimedOut 0)}))
     \<and> (\<exists>t. drain_step s t \<and> ds_drainer t = DrainReturned (TimedOut 0) \<and> \<not> serves_traffic (ds_state t))
     \<and> (\<forall>t. drain_step s t \<longrightarrow> ds_drainer t \<noteq> ds_drainer s \<longrightarrow> ds_drainer t = DrainReturned (TimedOut 0))"
proof -
  let ?s = "\<lambda>st c cs d. \<lparr>ds_state = st, ds_count = c, ds_callers = cs, ds_drainer = d\<rparr> :: drain_sys"
  let ?lost = "?s Draining 0 [CallerDone] (DrainParked False)"
  have "drain_steps drain_init (?s Active 0 [CallerIdle] DrainNotStarted)"
    by (rule drain_more [OF drain_refl]) (use drain_step.arrive [of drain_init] in \<open>simp add: drain_init_def tracker_new_def\<close>)
  then have "drain_steps drain_init (?s Active 0 [CallerChecked] DrainNotStarted)"
    by (rule drain_more) (use drain_step.check [of 0 "?s Active 0 [CallerIdle] DrainNotStarted"] in simp)
  then have "drain_steps drain_init (?s Active 1 [CallerInside] DrainNotStarted)"
    by (rule drain_more)
      (use drain_step.acquire [of 0 "?s Active 0 [CallerChecked] DrainNotStarted"] in \<open>simp add: guard_acquire_def\<close>)
  then have "drain_steps drain_init (?s Draining 1 [CallerInside] DrainLoop)"
    by (rule drain_more) (use drain_step.mark_draining [of "?s Active 1 [CallerInside] DrainNotStarted"] in simp)
  then have "drain_steps drain_init (?s Draining 1 [CallerInside] (DrainSawBusy 1))"
    by (rule drain_more) (use drain_step.see_busy [of "?s Draining 1 [CallerInside] DrainLoop"] in simp)
  then have "drain_steps drain_init (?s Draining 0 [CallerNotifying] (DrainSawBusy 1))"
    by (rule drain_more)
      (use drain_step.release [of 0 "?s Draining 1 [CallerInside] (DrainSawBusy 1)" 0 True] in \<open>simp add: guard_drop_def\<close>)
  then have "drain_steps drain_init (?s Draining 0 [CallerDone] (DrainSawBusy 1))"
    by (rule drain_more) (use drain_step.notify [of 0 "?s Draining 0 [CallerNotifying] (DrainSawBusy 1)"] in simp)
  then have "drain_steps drain_init ?lost"
    by (rule drain_more) (use drain_step.park [of "?s Draining 0 [CallerDone] (DrainSawBusy 1)" 1] in simp)
  then have "drain_reachable ?lost" by (simp only: drain_reachable_def)
  moreover have "ds_drainer ?lost = DrainParked False \<and> ds_count ?lost = 0
      \<and> ds_callers ?lost \<noteq> [] \<and> set (ds_callers ?lost) = {CallerDone} \<and> ds_state ?lost = Draining" by simp
  moreover have "stranded ?lost" by (simp add: stranded_def)
  then have "\<forall>ts. drain_trace (?lost # ts) \<longrightarrow> (\<forall>t \<in> set ts. \<not> serves_traffic (ds_state t)) \<longrightarrow>
      (\<forall>t \<in> set ts. ds_drainer t \<in> {DrainParked False, DrainReturned (TimedOut 0)})"
    using stranded_trace [of ?lost] unfolding stranded_def by blast
  moreover have "drain_step ?lost (?s Draining 0 [CallerDone] (DrainReturned (TimedOut 0)))"
    using drain_step.timer [of ?lost] by simp
  then have "\<exists>t. drain_step ?lost t \<and> ds_drainer t = DrainReturned (TimedOut 0) \<and> \<not> serves_traffic (ds_state t)"
    by (intro exI conjI) (assumption, simp_all)
  moreover have "ds_drainer t = DrainReturned (TimedOut 0)" if st: "drain_step ?lost t" and "ds_drainer t \<noteq> ds_drainer ?lost" for t
    using st that(2) by cases (auto split: if_splits)
  then have "\<forall>t. drain_step ?lost t \<longrightarrow> ds_drainer t \<noteq> ds_drainer ?lost \<longrightarrow> ds_drainer t = DrainReturned (TimedOut 0)" by blast
  ultimately show ?thesis by (elim conjE) (rule exI [of _ ?lost], intro conjI, assumption+)
qed

theorem drain_wakeup_can_be_lost_witness:
  "\<exists>s t. drain_reachable s \<and> set (ds_callers s) = {CallerDone} \<and> drain_trace [s, t] \<and> \<not> serves_traffic (ds_state t)
     \<and> ds_drainer s = DrainParked False \<and> ds_drainer t = DrainReturned (TimedOut 0)"
proof -
  from drain_wakeup_can_be_lost obtain s where s: "drain_reachable s" "ds_drainer s = DrainParked False" "set (ds_callers s) = {CallerDone}"
    and "\<exists>t. drain_step s t \<and> ds_drainer t = DrainReturned (TimedOut 0) \<and> \<not> serves_traffic (ds_state t)"
    by (elim exE conjE) (rule that; assumption | blast)
  then obtain t where "drain_step s t" "ds_drainer t = DrainReturned (TimedOut 0)" "\<not> serves_traffic (ds_state t)" by blast
  with s show ?thesis by (intro exI [of _ s] exI [of _ t]) simp
qed

end
