(* ===== verification/Health_Prober.thy ===== *)
theory Health_Prober
  imports Registry_Admin
begin

text \<open>
  Health probing: the probe of one plugin (\<open>probe_plugin\<close> and its classifiers in
  \<open>src/src/registry.rs\<close>) and the background task of \<open>src/src/health_prober.rs\<close> that turns probe
  outcomes into failure streaks and Active / Degraded flips. Streaks are \<open>u32\<close> (32-bit words).

  \<open>run_prober\<close> is a loop that only a stop signal ends; \<open>prober_cycles n\<close> is its first \<open>n\<close> rounds.
  The stop flag is read from the world and \<open>idle\<close> is the sleep between two rounds.
\<close>

section \<open>Probes\<close>

datatype probe_outcome = Pass | Panicked | Timeout | Skipped plugin_state | Unsupported | NotFound

fun is_failure :: "probe_outcome \<Rightarrow> bool" where
  "is_failure Panicked = True"
| "is_failure Timeout = True"
| "is_failure _ = False"

fun metric_label :: "probe_outcome \<Rightarrow> string" where
  "metric_label Pass = ''pass''"
| "metric_label Panicked = ''fail''"
| "metric_label Timeout = ''timeout''"
| "metric_label (Skipped _) = ''skipped''"
| "metric_label Unsupported = ''unsupported''"
| "metric_label NotFound = ''notfound''"

definition synthesise_probe_context :: "string \<Rightarrow> plugin_context" where
  "synthesise_probe_context plugin_id =
     \<lparr>cx_request_id = ''mcpg.healthcheck.'' @ plugin_id, cx_session_id = None, cx_tool_name = ''__healthcheck'',
      cx_surface = ''tool'', cx_transport = ''internal'',
      cx_identity = \<lparr>id_kind = ''anonymous'', id_trust_level = ''unauthenticated'', id_subject_id = None,
        id_auth_provider = None, id_issuer = None, id_roles = [], id_groups = [], id_scopes = [], id_attributes = []\<rparr>\<rparr>"

definition classify_gate_decision :: "'w host_env \<Rightarrow> gate_decision \<Rightarrow> probe_outcome" where
  "classify_gate_decision env d =
     (case d of Deny _ code _ _ \<Rightarrow> if code = panic_deny_code env then Panicked else Pass | _ \<Rightarrow> Pass)"

definition classify_transform_result :: "'w host_env \<Rightarrow> transform_result \<Rightarrow> probe_outcome" where
  "classify_transform_result env t =
     (case t of TransformError message \<Rightarrow> if contains_str message (panic_transform_msg env) then Panicked else Pass
      | _ \<Rightarrow> Pass)"

definition classify_identity_resolution :: "'w host_env \<Rightarrow> identity_resolution \<Rightarrow> probe_outcome" where
  "classify_identity_resolution env x =
     (case x of IdInvalid reason _ \<Rightarrow> if contains_str reason (panic_identity_msg env) then Panicked else Pass
      | _ \<Rightarrow> Pass)"

text \<open>\<open>timeout(probe_timeout, fut).await\<close> and the classification of an answer in time.\<close>

definition probe_call :: "nat \<Rightarrow> ('w, 'a) fut \<Rightarrow> ('a \<Rightarrow> probe_outcome) \<Rightarrow> 'w \<Rightarrow> probe_outcome \<times> 'w" where
  "probe_call probe_timeout f classify w =
     (case await_within f probe_timeout w of
        (None, w1) \<Rightarrow> (Timeout, w1)
      | (Some a, w1) \<Rightarrow> (classify a, w1))"

definition probe_plugin ::
  "'w host_env \<Rightarrow> 'w registry \<Rightarrow> string \<Rightarrow> nat \<Rightarrow> 'w \<Rightarrow> probe_outcome \<times> 'w" where
  "probe_plugin env r plugin_id probe_timeout w =
     (let ctx = synthesise_probe_context plugin_id; args = json_obj []; cfg = json_obj []
      in case find_id plugin_id (tool_gate_chain r) of
           Some p \<Rightarrow>
             if \<not> serving p then (Skipped (lp_state p), w)
             else probe_call probe_timeout (tg_evaluate_pre_dispatch (lp_instance p) ctx args None cfg)
               (classify_gate_decision env) w
         | None \<Rightarrow>
        (case find_id plugin_id (transform_chain r) of
           Some p \<Rightarrow>
             if \<not> serving p then (Skipped (lp_state p), w)
             else probe_call probe_timeout (tf_transform_arguments (lp_instance p) ctx args cfg)
               (classify_transform_result env) w
         | None \<Rightarrow>
        (case find_id plugin_id (identity_chain r) of
           Some p \<Rightarrow>
             if \<not> serving p then (Skipped (lp_state p), w)
             else probe_call probe_timeout
               (ip_resolve_identity (lp_instance p) [] (default_request_metadata env) cfg)
               (classify_identity_resolution env) w
         | None \<Rightarrow>
             if list_ex (has_id plugin_id) (map snd (backends r))
                \<or> list_ex (has_id plugin_id) (map snd (content_stores r))
                \<or> list_ex (has_id plugin_id) (map snd (watch_strategies r))
             then (Unsupported, w) else (NotFound, w))))"

section \<open>The prober\<close>

record health_probe_config =
  hp_interval :: nat
  hp_probe_timeout :: nat
  hp_failure_threshold :: "32 word"

definition default_probe_config :: health_probe_config where
  "default_probe_config = \<lparr>hp_interval = 30000, hp_probe_timeout = 5000, hp_failure_threshold = 3\<rparr>"

datatype probe_config_error = ZeroInterval | ZeroProbeTimeout | ZeroThreshold | TimeoutNotBelowInterval nat nat

definition validate_probe_config :: "health_probe_config \<Rightarrow> (probe_config_error, unit) rresult" where
  "validate_probe_config c =
     (if hp_interval c = 0 then Inl ZeroInterval
      else if hp_probe_timeout c = 0 then Inl ZeroProbeTimeout
      else if hp_failure_threshold c = 0 then Inl ZeroThreshold
      else if hp_probe_timeout c \<ge> hp_interval c then Inl (TimeoutNotBelowInterval (hp_probe_timeout c) (hp_interval c))
      else Inr ())"

type_synonym streaks = "(string, 32 word) bmap"

text \<open>What the loop does with one outcome; errors of \<open>mark_degraded\<close> and \<open>mark_active\<close> are only logged.\<close>

definition note_outcome ::
  "health_probe_config \<Rightarrow> string \<Rightarrow> probe_outcome \<Rightarrow> 'w registry \<times> streaks \<Rightarrow> 'w registry \<times> streaks" where
  "note_outcome cfg i outcome s =
     (let (r, streaks) = s
      in if is_failure outcome then
           (let streak = unwrap_or 0 (map_of streaks i) + 1;
                streaks' = bt_insert i streak streaks
            in if streak \<ge> hp_failure_threshold cfg
               then (case mark_degraded i r of Inr r' \<Rightarrow> (r', streaks') | Inl _ \<Rightarrow> (r, streaks'))
               else (r, streaks'))
         else if outcome = Pass then
           (let streaks' = AList.delete i streaks
            in case mark_active i r of Inr r' \<Rightarrow> (r', streaks') | Inl _ \<Rightarrow> (r, streaks'))
         else (r, streaks))"

fun probe_all ::
  "'w host_env \<Rightarrow> health_probe_config \<Rightarrow> ('w \<Rightarrow> bool) \<Rightarrow> string list \<Rightarrow> 'w registry \<times> streaks \<Rightarrow> 'w
    \<Rightarrow> ('w registry \<times> streaks) \<times> 'w" where
  "probe_all env cfg stop [] s w = (s, w)"
| "probe_all env cfg stop (i # ids) s w =
     (if stop w then (s, w)
      else (let (outcome, w1) = probe_plugin env (fst s) i (hp_probe_timeout cfg) w
            in probe_all env cfg stop ids (note_outcome cfg i outcome s) w1))"

fun prober_cycles ::
  "'w host_env \<Rightarrow> health_probe_config \<Rightarrow> ('w \<Rightarrow> bool) \<Rightarrow> ('w \<Rightarrow> 'w) \<Rightarrow> nat \<Rightarrow> 'w registry \<times> streaks \<Rightarrow> 'w
    \<Rightarrow> ('w registry \<times> streaks) \<times> 'w" where
  "prober_cycles env cfg stop idle 0 s w = (s, w)"
| "prober_cycles env cfg stop idle (Suc n) s w =
     (if stop w then (s, w)
      else (let (s1, w1) = probe_all env cfg stop (registered_plugin_ids (fst s)) s w
            in prober_cycles env cfg stop idle n s1 (idle w1)))"

definition run_prober ::
  "'w host_env \<Rightarrow> health_probe_config \<Rightarrow> ('w \<Rightarrow> bool) \<Rightarrow> ('w \<Rightarrow> 'w) \<Rightarrow> nat \<Rightarrow> 'w registry \<Rightarrow> 'w
    \<Rightarrow> ('w registry \<times> streaks) \<times> 'w" where
  "run_prober env cfg stop idle n r w = prober_cycles env cfg stop idle n (r, []) w"

section \<open>Facts\<close>

lemma run_admin_degrade: "run_admin Degrade = mark_degraded" "run_admin Recover = mark_active"
  by (simp_all add: fun_eq_iff run_admin_def)

text \<open>What the two hooks do to the state table.\<close>

lemma mark_degraded_cases:
  "mark_degraded i r = (if find_state_cell r i = Some Active then Inr (store_state_cell i Degraded r)
     else if find_state_cell r i = Some Degraded then Inr r
     else Inl (case find_state_cell r i of None \<Rightarrow> NotRegistered i | Some s \<Rightarrow> BadTransition i s Degraded))"
  by (auto simp: mark_degraded_def split: option.splits plugin_state.splits)

lemma mark_active_cases:
  "mark_active i r = (if find_state_cell r i = Some Degraded then Inr (store_state_cell i Active r)
     else if find_state_cell r i = Some Active then Inr r
     else Inl (case find_state_cell r i of None \<Rightarrow> NotRegistered i | Some s \<Rightarrow> BadTransition i s Active))"
  by (auto simp: mark_active_def split: option.splits plugin_state.splits)

definition same_traffic :: "'w registry \<Rightarrow> 'w registry \<Rightarrow> bool" where
  "same_traffic r r' \<longleftrightarrow>
     map (\<lambda>(i, s). (i, serves_traffic s)) (state_cells r') = map (\<lambda>(i, s). (i, serves_traffic s)) (state_cells r)
     \<and> registry_wf r' = registry_wf r"

lemma same_traffic_refl [simp]: "same_traffic r r"
  by (simp add: same_traffic_def)

lemma same_traffic_trans: "same_traffic r s \<Longrightarrow> same_traffic s t \<Longrightarrow> same_traffic r t"
  by (simp add: same_traffic_def)

lemma set_first_serving:
  "map_of cs i = Some s \<Longrightarrow> serves_traffic s = serves_traffic t \<Longrightarrow>
    map (\<lambda>(i, s). (i, serves_traffic s)) (set_first i t cs) = map (\<lambda>(i, s). (i, serves_traffic s)) cs"
  by (induction i t cs rule: set_first.induct) (auto split: if_splits)

lemma store_same_traffic:
  "find_state_cell r i = Some s \<Longrightarrow> serves_traffic s = serves_traffic t \<Longrightarrow> same_traffic r (store_state_cell i t r)"
  by (simp add: same_traffic_def state_cells_store set_first_serving find_state_cell_table)

lemma note_outcome_same_traffic: "same_traffic (fst s) (fst (note_outcome cfg i outcome s))"
  by (cases s) (auto simp: note_outcome_def Let_def mark_degraded_cases mark_active_cases store_same_traffic)

lemma probe_all_same_traffic: "same_traffic (fst s) (fst (fst (probe_all env cfg stop ids s w)))"
proof (induction ids arbitrary: s w)
  case (Cons i ids)
  obtain outcome w1 where "probe_plugin env (fst s) i (hp_probe_timeout cfg) w = (outcome, w1)" by fastforce
  with Cons [of "note_outcome cfg i outcome s" w1] show ?case
    by (auto intro: same_traffic_trans [OF note_outcome_same_traffic])
qed simp

lemma find_state_cell_store [simp]:
  "find_state_cell r i = Some s \<Longrightarrow> find_state_cell (store_state_cell i t r) i = Some t"
  by (simp add: all_cells.load_store)

lemma of_nat_ge_iff:
  "n < 2 ^ 32 \<Longrightarrow> (t :: 32 word) \<le> word_of_nat n \<longleftrightarrow> unat t \<le> n"
  by (simp add: word_le_nat_alt unsigned_of_nat take_bit_nat_eq_self)

lemma failing_probes:
  assumes "find_state_cell r i = Some Active" and "map_of st i = None" and "list_all is_failure os"
    and "length os < 2 ^ 32"
  shows "find_state_cell (fst (fold (note_outcome cfg i) os (r, st))) i
      = Some (if os \<noteq> [] \<and> unat (hp_failure_threshold cfg) \<le> length os then Degraded else Active)
    \<and> map_of (snd (fold (note_outcome cfg i) os (r, st))) i
      = (if os = [] then None else Some (word_of_nat (length os)))"
  using assms(3,4)
proof (induction os rule: rev_induct)
  case (snoc outcome os)
  obtain r1 st1 where f: "fold (note_outcome cfg i) os (r, st) = (r1, st1)" by fastforce
  from snoc f have IH: "find_state_cell r1 i = Some (if os \<noteq> [] \<and> unat (hp_failure_threshold cfg) \<le> length os then Degraded else Active)"
    "map_of st1 i = (if os = [] then None else Some (word_of_nat (length os)))" and fo: "is_failure outcome"
    by auto
  have streak: "unwrap_or 0 (map_of st1 i) + 1 = (word_of_nat (Suc (length os)) :: 32 word)"
    unfolding IH(2) by (cases os) simp_all
  from snoc.prems have ge: "hp_failure_threshold cfg \<le> word_of_nat (Suc (length os)) \<longleftrightarrow>
      unat (hp_failure_threshold cfg) \<le> Suc (length os)"
    by (intro of_nat_ge_iff) simp
  have "fold (note_outcome cfg i) (os @ [outcome]) (r, st) = note_outcome cfg i outcome (r1, st1)"
    by (simp add: f)
  moreover have "find_state_cell (fst (note_outcome cfg i outcome (r1, st1))) i =
      Some (if unat (hp_failure_threshold cfg) \<le> Suc (length os) then Degraded else Active)"
    "map_of (snd (note_outcome cfg i outcome (r1, st1))) i = Some (word_of_nat (Suc (length os)))"
    using IH(1) fo ge
    by (auto simp: note_outcome_def Let_def streak mark_degraded_cases simp del: of_nat_Suc split: if_splits)
  ultimately show ?case by simp
qed (use assms in simp)

section \<open>Properties\<close>

text \<open>
  The prober never starts or stops traffic: after any number of rounds, whatever the probed
  plugins answer, the same registrations serve traffic as before, and the registry is as well formed
  as before. In particular it does not resurrect a disabled, draining or terminal plugin.
\<close>

theorem prober_keeps_traffic:
  "map (\<lambda>(i, s). (i, serves_traffic s)) (state_cells (fst (fst (run_prober env cfg stop idle n r w))))
     = map (\<lambda>(i, s). (i, serves_traffic s)) (state_cells r)
   \<and> registry_wf (fst (fst (run_prober env cfg stop idle n r w))) = registry_wf r"
proof -
  have "same_traffic (fst s) (fst (fst (prober_cycles env cfg stop idle n s w)))" for s w
  proof (induction n arbitrary: s w)
    case (Suc n)
    obtain s1 w1 where p: "probe_all env cfg stop (registered_plugin_ids (fst s)) s w = (s1, w1)" by fastforce
    with probe_all_same_traffic [of s env cfg stop "registered_plugin_ids (fst s)" w]
    have "same_traffic (fst s) (fst s1)" by simp
    with Suc [of s1 "idle w1"] p show ?case by (auto intro: same_traffic_trans)
  qed simp
  from this [of "(r, [])" w] show ?thesis by (simp add: same_traffic_def run_prober_def)
qed

text \<open>
  The failure threshold is exact: a plugin that is Active and has no streak is Degraded after a
  run of failing probes exactly when the run is at least \<open>failure_threshold\<close> long (runs of fewer than
  \<open>2^32\<close> probes, the width of the streak counter), and one passing probe afterwards clears the streak and
  makes it Active again.
\<close>

theorem degraded_exactly_at_threshold:
  assumes "lifecycle_state r i = Some Active" and "map_of st i = None" and "list_all is_failure os"
    and "length os < 2 ^ 32" and "hp_failure_threshold cfg \<noteq> 0"
  defines "after \<equiv> fold (note_outcome cfg i) os (r, st)"
  shows "lifecycle_state (fst after) i = Some (if unat (hp_failure_threshold cfg) \<le> length os then Degraded else Active)
    \<and> lifecycle_state (fst (note_outcome cfg i Pass after)) i = Some Active
    \<and> map_of (snd (note_outcome cfg i Pass after)) i = None"
proof -
  have f: "find_state_cell (fst after) i = Some (if os \<noteq> [] \<and> unat (hp_failure_threshold cfg) \<le> length os then Degraded else Active)"
    using failing_probes [OF assms(1) [unfolded lifecycle_state_def] assms(2-4)] by (simp add: after_def)
  have "0 < unat (hp_failure_threshold cfg)" using assms(5) by (simp add: unat_gt_0)
  then have g: "(os \<noteq> [] \<and> unat (hp_failure_threshold cfg) \<le> length os) = (unat (hp_failure_threshold cfg) \<le> length os)"
    by auto
  obtain r1 st1 where a: "after = (r1, st1)" by fastforce
  have "lifecycle_state (fst (note_outcome cfg i Pass after)) i = Some Active"
    "map_of (snd (note_outcome cfg i Pass after)) i = None"
    using f by (auto simp: a note_outcome_def Let_def mark_active_cases lifecycle_state_def delete_conv split: if_splits)
  with f g show ?thesis by (simp add: lifecycle_state_def)
qed

theorem degraded_exactly_at_threshold_witness:
  "lifecycle_state (fst (fold (note_outcome default_probe_config ''s'') [Panicked, Timeout, Timeout] (sample_registry, []))) ''s''
     = Some Degraded"
proof -
  have "lifecycle_state sample_registry ''s'' = Some Active"
    by (simp add: lifecycle_state_def find_state_cell_table state_cells_def sample_registry_def registry_new_def
        new_schemes_entry_def sample_manifest_def)
  from degraded_exactly_at_threshold [OF this, of "[]" "[Panicked, Timeout, Timeout]" default_probe_config]
  show ?thesis by (simp add: default_probe_config_def)
qed

text \<open>
  A probe calls a plugin only when it is one of the three chain kinds and serves traffic, and only
  then can it report a failure; a chain plugin that does not serve is reported as skipped and left
  alone. Every other registered plugin is \<open>Unsupported\<close> when it is a backend, content store or watch
  strategy, and \<open>NotFound\<close> otherwise, although it is registered.
\<close>

theorem probe_reaches_serving_chain_plugins_only:
  "case probe_plugin env r i t w of (outcome, w') \<Rightarrow>
     (case chain_state r i of
        None \<Rightarrow> w' = w \<and> outcome =
          (if i \<in> set (entry_ids (map snd (backends r)) @ entry_ids (map snd (content_stores r))
                 @ entry_ids (map snd (watch_strategies r))) then Unsupported else NotFound)
      | Some s \<Rightarrow> if serves_traffic s then outcome \<in> {Pass, Panicked, Timeout} else outcome = Skipped s \<and> w' = w)"
proof -
  have ids: "list_ex (has_id i) ps \<longleftrightarrow> i \<in> set (entry_ids ps)" for ps :: "'b loaded list"
    by (induction ps) (auto simp: entry_ids_def has_id_def)
  have pc: "fst (probe_call t f c w) \<in> {Pass, Panicked, Timeout}" if "\<And>a. c a \<in> {Pass, Panicked}" for f and c :: "'c \<Rightarrow> _"
    using that by (auto simp: probe_call_def split: prod.splits option.splits)
  have cl: "classify_gate_decision env d \<in> {Pass, Panicked}" "classify_transform_result env x \<in> {Pass, Panicked}"
    "classify_identity_resolution env y \<in> {Pass, Panicked}" for d x y
    by (auto simp: classify_gate_decision_def classify_transform_result_def classify_identity_resolution_def
        split: gate_decision.splits transform_result.splits identity_resolution.splits)
  note P = pc [of "classify_gate_decision env", OF cl(1)] pc [of "classify_transform_result env", OF cl(2)]
    pc [of "classify_identity_resolution env", OF cl(3)]
  show ?thesis
    unfolding chain_state_or_else probe_plugin_def ids serving_def Let_def
    using P by (cases "find_id i (tool_gate_chain r)"; cases "find_id i (transform_chain r)"; cases "find_id i (identity_chain r)")
      (auto simp: case_prod_beta)
qed

end
