(* ===== verification/Shutdown.thy ===== *)
theory Shutdown
  imports Registry_Admin
begin

text \<open>
  Gateway teardown (\<open>shutdown_all\<close>, \<open>shutdown_all_with_timeout\<close>, \<open>drain_one\<close> of
  \<open>src/src/registry.rs\<close>): every plugin's \<open>shutdown\<close> is awaited in a fixed order under a per-plugin
  budget and the outcome is tallied in a report.
\<close>

record shutdown_report =
  sr_clean :: nat
  sr_timed_out :: "string list"
  sr_total_elapsed :: nat

definition is_clean :: "shutdown_report \<Rightarrow> bool" where
  "is_clean report = (sr_timed_out report = [])"

definition DEFAULT_PLUGIN_SHUTDOWN_TIMEOUT :: nat where
  "DEFAULT_PLUGIN_SHUTDOWN_TIMEOUT = 5000"

definition drain_one ::
  "string \<Rightarrow> ('w, unit) fut \<Rightarrow> nat \<Rightarrow> shutdown_report \<Rightarrow> 'w \<Rightarrow> shutdown_report \<times> 'w" where
  "drain_one i f per_plugin_timeout report w =
     (case await_within f per_plugin_timeout w of
        (Some _, w1) \<Rightarrow> (report\<lparr>sr_clean := sr_clean report + 1\<rparr>, w1)
      | (None, w1) \<Rightarrow> (report\<lparr>sr_timed_out := sr_timed_out report @ [i]\<rparr>, w1))"

fun drain_each ::
  "(string \<times> ('w, unit) fut) list \<Rightarrow> nat \<Rightarrow> shutdown_report \<Rightarrow> 'w \<Rightarrow> shutdown_report \<times> 'w" where
  "drain_each [] t report w = (report, w)"
| "drain_each ((i, f) # ts) t report w = (let (report1, w1) = drain_one i f t report w in drain_each ts t report1 w1)"

definition tasks_of :: "('i \<Rightarrow> ('w, unit) fut) \<Rightarrow> ('i, 'z) loaded_scheme list \<Rightarrow> (string \<times> ('w, unit) fut) list" where
  "tasks_of f ps = map (\<lambda>p. (m_id (lp_manifest p), f (lp_instance p))) ps"

text \<open>The loops of \<open>shutdown_all_with_timeout\<close>, in their order; the first reads the id off the instance.\<close>

definition shutdown_tasks :: "'w registry \<Rightarrow> (string \<times> ('w, unit) fut) list" where
  "shutdown_tasks r =
     map (\<lambda>p. (m_id (tg_manifest (lp_instance p)), tg_shutdown (lp_instance p))) (tool_gate_chain r)
     @ tasks_of po_shutdown (map snd (backends r))
     @ tasks_of po_shutdown (map snd (watch_strategies r))
     @ tasks_of po_shutdown (map snd (approval_notifiers r))
     @ tasks_of tf_shutdown (transform_chain r)
     @ tasks_of ip_shutdown (identity_chain r)
     @ tasks_of po_shutdown (catalog_chain r)
     @ tasks_of po_shutdown (http_routes r)
     @ tasks_of as_shutdown (audit_sinks r)
     @ tasks_of po_shutdown (stores r)
     @ tasks_of po_shutdown (caches r)
     @ tasks_of es_shutdown (telemetry_sinks r)
     @ tasks_of es_shutdown (log_sinks r)
     @ tasks_of es_shutdown (metrics_sinks r)
     @ tasks_of sp_shutdown (secret_providers r)
     @ tasks_of sp_shutdown (config_providers r)
     @ tasks_of po_shutdown (transports r)
     @ tasks_of pe_shutdown (policy_engines r)
     @ tasks_of po_shutdown (map snd (credential_issuers r))
     @ tasks_of po_shutdown (opt_list (cluster_backend r))"

definition shutdown_all_with_timeout ::
  "'w host_env \<Rightarrow> 'w registry \<Rightarrow> nat \<Rightarrow> 'w \<Rightarrow> shutdown_report \<times> 'w" where
  "shutdown_all_with_timeout env r per_plugin_timeout w =
     (let (report, w1) = drain_each (shutdown_tasks r) per_plugin_timeout
            \<lparr>sr_clean = 0, sr_timed_out = [], sr_total_elapsed = 0\<rparr> w
      in (report\<lparr>sr_total_elapsed := clock_ms env w1 - clock_ms env w\<rparr>, w1))"

definition shutdown_all :: "'w host_env \<Rightarrow> 'w registry \<Rightarrow> 'w \<Rightarrow> shutdown_report \<times> 'w" where
  "shutdown_all env r w = shutdown_all_with_timeout env r DEFAULT_PLUGIN_SHUTDOWN_TIMEOUT w"

section \<open>Facts\<close>

text \<open>The outcome of each task, in order.\<close>

fun task_outcomes :: "(string \<times> ('w, unit) fut) list \<Rightarrow> nat \<Rightarrow> 'w \<Rightarrow> (string \<times> bool) list" where
  "task_outcomes [] t w = []"
| "task_outcomes ((i, f) # ts) t w =
     (case await_within f t w of (res, w1) \<Rightarrow> (i, res \<noteq> None) # task_outcomes ts t w1)"

lemma map_fst_task_outcomes: "map fst (task_outcomes ts t w) = map fst ts"
  by (induction ts t w rule: task_outcomes.induct) (auto split: prod.splits)

lemma drain_each_report:
  "fst (drain_each ts t report w) = report
     \<lparr>sr_clean := sr_clean report + length (filter snd (task_outcomes ts t w)),
      sr_timed_out := sr_timed_out report @ map fst (filter (\<lambda>x. \<not> snd x) (task_outcomes ts t w))\<rparr>"
  by (induction ts t report w rule: drain_each.induct)
    (auto simp: drain_one_def Let_def split: prod.splits option.splits)

text \<open>
  What the teardown relies on of \<open>tokio::time::timeout\<close>: it comes back within its budget.
\<close>

definition timeout_bounded :: "'w host_env \<Rightarrow> ('w, 'a) fut \<Rightarrow> bool" where
  "timeout_bounded env f \<longleftrightarrow>
     (\<forall>n w. clock_ms env w \<le> clock_ms env (snd (await_within f n w))
        \<and> clock_ms env (snd (await_within f n w)) \<le> clock_ms env w + n)"

lemma drain_each_clock:
  "\<forall>(i, f) \<in> set ts. timeout_bounded env f \<Longrightarrow>
    clock_ms env (snd (drain_each ts t report w)) \<le> clock_ms env w + length ts * t"
proof (induction ts t report w rule: drain_each.induct)
  case (2 i f ts t report w)
  obtain report1 w1 where d: "drain_one i f t report w = (report1, w1)" by fastforce
  then have "w1 = snd (await_within f t w)"
    by (auto simp: drain_one_def split: prod.splits option.splits)
  with "2.prems" have "clock_ms env w1 \<le> clock_ms env w + t" by (simp add: timeout_bounded_def)
  with "2.IH" [OF d [symmetric] refl] "2.prems" d show ?case by simp
qed simp

lemma length_tasks_of [simp]: "length (tasks_of f ps) = length ps"
  by (simp add: tasks_of_def)

lemma length_shutdown_tasks: "length (shutdown_tasks r) + length (content_stores r) = total_count r"
  by (simp add: shutdown_tasks_def total_count_def) (cases "cluster_backend r"; simp)

section \<open>Properties\<close>

text \<open>
  Teardown always returns and accounts for every plugin but the content stores: each task is
  counted once, as clean or by its id in the list of time-outs, in the order of the tasks; the report
  is clean exactly when no plugin timed out; and if the timer keeps its budget the whole teardown
  takes at most the number of tasks times the per-plugin budget.
\<close>

theorem shutdown_accounts_for_every_task:
  assumes "\<forall>(i, f) \<in> set (shutdown_tasks r). timeout_bounded env f"
  shows "case shutdown_all_with_timeout env r t w of (report, w') \<Rightarrow>
    sr_clean report + length (sr_timed_out report) + length (content_stores r) = total_count r
    \<and> sr_timed_out report = map fst (filter (\<lambda>x. \<not> snd x) (task_outcomes (shutdown_tasks r) t w))
    \<and> (is_clean report \<longleftrightarrow> (\<forall>x \<in> set (task_outcomes (shutdown_tasks r) t w). snd x))
    \<and> sr_total_elapsed report \<le> length (shutdown_tasks r) * t"
proof -
  let ?os = "task_outcomes (shutdown_tasks r) t w"
  let ?z = "\<lparr>sr_clean = 0, sr_timed_out = [], sr_total_elapsed = 0\<rparr> :: shutdown_report"
  obtain report w' where d: "drain_each (shutdown_tasks r) t ?z w = (report, w')" by fastforce
  have rep: "report = ?z\<lparr>sr_clean := length (filter snd ?os), sr_timed_out := map fst (filter (\<lambda>x. \<not> snd x) ?os)\<rparr>"
    using drain_each_report [of "shutdown_tasks r" t ?z w] d by simp
  have "length (filter snd ?os) + length (filter (\<lambda>x. \<not> snd x) ?os) = length ?os"
    by (rule sum_length_filter_compl)
  also have "\<dots> = length (shutdown_tasks r)" by (metis length_map map_fst_task_outcomes)
  finally have n: "length (filter snd ?os) + length (filter (\<lambda>x. \<not> snd x) ?os) + length (content_stores r) = total_count r"
    using length_shutdown_tasks [of r] by simp
  have c: "clock_ms env w' \<le> clock_ms env w + length (shutdown_tasks r) * t"
    using drain_each_clock [OF assms, of t ?z w] d by simp
  show ?thesis
    unfolding shutdown_all_with_timeout_def d Let_def prod.case
    using n c by (auto simp: rep is_clean_def filter_empty_conv)
qed

theorem shutdown_accounts_for_every_task_witness:
  "case shutdown_all_with_timeout sample_env content_store_only 5 [] of (report, w') \<Rightarrow>
     sr_clean report + length (sr_timed_out report) + length (content_stores content_store_only) = total_count content_store_only"
proof -
  have "\<forall>(i, f) \<in> set (shutdown_tasks content_store_only). timeout_bounded sample_env f"
    by (simp add: shutdown_tasks_def content_store_only_def registry_new_def tasks_of_def)
  from shutdown_accounts_for_every_task [OF this, of 5 "[]"] show ?thesis by auto
qed

text \<open>
  Teardown misses two classes. Content stores are never asked to shut down: changing them changes
  neither the report nor the world. And an identity provider registered with the registry is never
  asked either: the task for it is the decorator's empty default, whatever the plugin's own
  \<open>shutdown\<close> does.
\<close>

theorem shutdown_misses_identity_and_content_stores:
  "shutdown_all_with_timeout env (r\<lparr>content_stores := cs\<rparr>) t w = shutdown_all_with_timeout env r t w
   \<and> (\<forall>r'. register_identity_with_alias now al plugin tier config r = Inr r' \<longrightarrow>
        (\<exists>xs ys. shutdown_tasks r = xs @ ys
           \<and> shutdown_tasks r' = xs @ (m_id (ip_manifest plugin), fut_unit) # ys))"
proof (intro conjI allI impI)
  show "shutdown_all_with_timeout env (r\<lparr>content_stores := cs\<rparr>) t w = shutdown_all_with_timeout env r t w"
    by (simp add: shutdown_all_with_timeout_def shutdown_tasks_def)
  fix r' assume "register_identity_with_alias now al plugin tier config r = Inr r'"
  then obtain a where r': "r' = r\<lparr>identity_chain := identity_chain r
      @ [new_chain_entry a (ip_manifest plugin) tier config True now (metered_identity_provider plugin)]\<rparr>"
    by (auto simp: register_identity_with_alias_def Let_def)
  let ?pre = "map (\<lambda>p. (m_id (tg_manifest (lp_instance p)), tg_shutdown (lp_instance p))) (tool_gate_chain r)
     @ tasks_of po_shutdown (map snd (backends r)) @ tasks_of po_shutdown (map snd (watch_strategies r))
     @ tasks_of po_shutdown (map snd (approval_notifiers r)) @ tasks_of tf_shutdown (transform_chain r)
     @ tasks_of ip_shutdown (identity_chain r)"
  have "shutdown_tasks r = ?pre @ drop (length ?pre) (shutdown_tasks r)"
    by (simp add: shutdown_tasks_def)
  moreover have "shutdown_tasks r' = ?pre @ (m_id (ip_manifest plugin), fut_unit) # drop (length ?pre) (shutdown_tasks r)"
    by (simp add: shutdown_tasks_def r' tasks_of_def new_chain_entry_def metered_identity_provider_def)
  ultimately show "\<exists>xs ys. shutdown_tasks r = xs @ ys \<and> shutdown_tasks r' = xs @ (m_id (ip_manifest plugin), fut_unit) # ys"
    by blast
qed

theorem shutdown_misses_identity_and_content_stores_witness:
  "\<exists>r'. register_identity_with_alias 0 None (sample_identity_plugin ''i'' IdNone) [] JNull (registry_new :: trace registry) = Inr r'
     \<and> shutdown_tasks r' = [(''i'', fut_unit)]"
proof -
  have "is_ok (register_identity_with_alias 0 None (sample_identity_plugin ''i'' IdNone) [] JNull (registry_new :: trace registry))"
    by (simp add: register_identity_with_alias_def admit_def sample_identity_plugin_def sample_manifest_def
        validate_manifest_def starts_with_def check_duplicate_alias_def alias_taken_def registry_new_def Let_def)
  then obtain r' where r': "register_identity_with_alias 0 None (sample_identity_plugin ''i'' IdNone) [] JNull (registry_new :: trace registry) = Inr r'"
    by (auto simp: is_ok_def split: sum.splits)
  have "shutdown_tasks (registry_new :: trace registry) = []"
    by (simp add: shutdown_tasks_def tasks_of_def registry_new_def)
  moreover have "m_id (ip_manifest (sample_identity_plugin ''i'' IdNone)) = ''i''"
    by (simp add: sample_identity_plugin_def sample_manifest_def)
  ultimately show ?thesis
    using shutdown_misses_identity_and_content_stores [where env = sample_env and r = "registry_new :: trace registry"
        and cs = "[]" and t = 0 and w = "[]" and now = 0 and al = None
        and plugin = "sample_identity_plugin ''i'' IdNone" and tier = "[]" and config = JNull] r' by auto
qed

end
