(* ===== verification/Manifest_Caps.thy ===== *)
theory Manifest_Caps
  imports Registry_Admin
begin

text \<open>
  The host-derived capability projection: \<open>set_manifest_caps\<close> (\<open>registry.rs\<close>) overwrites the declared
  capabilities of the one entry registered under an alias. As in \<open>Registry_Admin\<close>, the search over the
  twenty-one classes and the write through the reference found are related to one table of the registry.
\<close>

section \<open>The operation\<close>

definition with_caps :: "capability list \<Rightarrow> ('i, 'z) loaded_scheme \<Rightarrow> ('i, 'z) loaded_scheme" where
  "with_caps caps p = p\<lparr>lp_manifest := (lp_manifest p)\<lparr>m_required_capabilities := caps\<rparr>\<rparr>"

text \<open>\<open>try_seq!\<close> and \<open>try_map!\<close>.\<close>

definition caps_first_list :: "string \<Rightarrow> capability list \<Rightarrow> ('i, 'z) loaded_scheme list \<Rightarrow> ('i, 'z) loaded_scheme list" where
  "caps_first_list a caps ps = update_first (has_alias a) (with_caps caps) ps"

definition caps_first_map ::
  "string \<Rightarrow> capability list \<Rightarrow> ('k \<times> ('i, 'z) loaded_scheme) list \<Rightarrow> ('k \<times> ('i, 'z) loaded_scheme) list" where
  "caps_first_map a caps ps = update_first (\<lambda>(k, p). has_alias a p) (apsnd (with_caps caps)) ps"

definition set_manifest_caps :: "string \<Rightarrow> capability list \<Rightarrow> 'w registry \<Rightarrow> 'w registry" where
  "set_manifest_caps a caps r =
     (if find (has_alias a) (tool_gate_chain r) \<noteq> None then r\<lparr>tool_gate_chain := caps_first_list a caps (tool_gate_chain r)\<rparr>
      else if find (has_alias a) (transform_chain r) \<noteq> None then r\<lparr>transform_chain := caps_first_list a caps (transform_chain r)\<rparr>
      else if find (has_alias a) (identity_chain r) \<noteq> None then r\<lparr>identity_chain := caps_first_list a caps (identity_chain r)\<rparr>
      else if find (has_alias a) (catalog_chain r) \<noteq> None then r\<lparr>catalog_chain := caps_first_list a caps (catalog_chain r)\<rparr>
      else if find (has_alias a) (http_routes r) \<noteq> None then r\<lparr>http_routes := caps_first_list a caps (http_routes r)\<rparr>
      else if find (has_alias a) (audit_sinks r) \<noteq> None then r\<lparr>audit_sinks := caps_first_list a caps (audit_sinks r)\<rparr>
      else if find (has_alias a) (stores r) \<noteq> None then r\<lparr>stores := caps_first_list a caps (stores r)\<rparr>
      else if find (has_alias a) (caches r) \<noteq> None then r\<lparr>caches := caps_first_list a caps (caches r)\<rparr>
      else if find (has_alias a) (telemetry_sinks r) \<noteq> None then r\<lparr>telemetry_sinks := caps_first_list a caps (telemetry_sinks r)\<rparr>
      else if find (has_alias a) (log_sinks r) \<noteq> None then r\<lparr>log_sinks := caps_first_list a caps (log_sinks r)\<rparr>
      else if find (has_alias a) (metrics_sinks r) \<noteq> None then r\<lparr>metrics_sinks := caps_first_list a caps (metrics_sinks r)\<rparr>
      else if find (has_alias a) (secret_providers r) \<noteq> None then r\<lparr>secret_providers := caps_first_list a caps (secret_providers r)\<rparr>
      else if find (has_alias a) (config_providers r) \<noteq> None then r\<lparr>config_providers := caps_first_list a caps (config_providers r)\<rparr>
      else if find (has_alias a) (transports r) \<noteq> None then r\<lparr>transports := caps_first_list a caps (transports r)\<rparr>
      else if find (has_alias a) (policy_engines r) \<noteq> None then r\<lparr>policy_engines := caps_first_list a caps (policy_engines r)\<rparr>
      else if find (has_alias a) (map snd (backends r)) \<noteq> None then r\<lparr>backends := caps_first_map a caps (backends r)\<rparr>
      else if find (has_alias a) (map snd (content_stores r)) \<noteq> None then r\<lparr>content_stores := caps_first_map a caps (content_stores r)\<rparr>
      else if find (has_alias a) (map snd (watch_strategies r)) \<noteq> None then r\<lparr>watch_strategies := caps_first_map a caps (watch_strategies r)\<rparr>
      else if find (has_alias a) (map snd (credential_issuers r)) \<noteq> None then r\<lparr>credential_issuers := caps_first_map a caps (credential_issuers r)\<rparr>
      else if find (has_alias a) (map snd (approval_notifiers r)) \<noteq> None then r\<lparr>approval_notifiers := caps_first_map a caps (approval_notifiers r)\<rparr>
      else if find (has_alias a) (opt_list (cluster_backend r)) \<noteq> None then r\<lparr>cluster_backend := map_option (with_caps caps) (cluster_backend r)\<rparr>
      else r)"

section \<open>The table of manifests by alias\<close>

definition caps_rows :: "('i, 'z) loaded_scheme list \<Rightarrow> (string \<times> manifest) list" where
  "caps_rows ps = map (\<lambda>p. (lp_alias p, lp_manifest p)) ps"

definition alias_manifests :: "'w registry \<Rightarrow> (string \<times> manifest) list" where
  "alias_manifests r =
     caps_rows (tool_gate_chain r)
     @ caps_rows (transform_chain r)
     @ caps_rows (identity_chain r)
     @ caps_rows (catalog_chain r)
     @ caps_rows (http_routes r)
     @ caps_rows (audit_sinks r)
     @ caps_rows (stores r)
     @ caps_rows (caches r)
     @ caps_rows (telemetry_sinks r)
     @ caps_rows (log_sinks r)
     @ caps_rows (metrics_sinks r)
     @ caps_rows (secret_providers r)
     @ caps_rows (config_providers r)
     @ caps_rows (transports r)
     @ caps_rows (policy_engines r)
     @ caps_rows (map snd (backends r))
     @ caps_rows (map snd (content_stores r))
     @ caps_rows (map snd (watch_strategies r))
     @ caps_rows (map snd (credential_issuers r))
     @ caps_rows (map snd (approval_notifiers r))
     @ caps_rows (opt_list (cluster_backend r))"

fun caps_first :: "string \<Rightarrow> capability list \<Rightarrow> (string \<times> manifest) list \<Rightarrow> (string \<times> manifest) list" where
  "caps_first a caps [] = []"
| "caps_first a caps ((b, m) # rows) =
     (if b = a then (b, m\<lparr>m_required_capabilities := caps\<rparr>) # rows else (b, m) # caps_first a caps rows)"

lemma caps_rows_simps [simp]: "caps_rows [] = []" "caps_rows (p # ps) = (lp_alias p, lp_manifest p) # caps_rows ps"
  by (simp_all add: caps_rows_def)

lemma with_caps_sel [simp]:
  "lp_alias (with_caps caps p) = lp_alias p"
  "lp_manifest (with_caps caps p) = (lp_manifest p)\<lparr>m_required_capabilities := caps\<rparr>"
  "lp_state (with_caps caps p) = lp_state p"
  "lp_instance (with_caps caps p) = lp_instance p"
  by (simp_all add: with_caps_def)

lemma with_caps_manifest_ok [simp]: "manifest_ok (m\<lparr>m_required_capabilities := caps\<rparr>) = manifest_ok m"
  by (simp add: manifest_ok_iff)

lemma caps_first_append:
  "caps_first a caps (xs @ ys) = (if map_of xs a = None then xs @ caps_first a caps ys else caps_first a caps xs @ ys)"
  by (induction xs) auto

lemma caps_first_absent: "map_of rows a = None \<Longrightarrow> caps_first a caps rows = rows"
  by (induction a caps rows rule: caps_first.induct) (auto split: if_splits)

lemma map_of_caps_first:
  "map_of (caps_first a caps rows) =
     (case map_of rows a of None \<Rightarrow> map_of rows | Some m \<Rightarrow> (map_of rows)(a \<mapsto> m\<lparr>m_required_capabilities := caps\<rparr>))"
  by (induction a caps rows rule: caps_first.induct) (auto split: option.splits)

lemma find_alias_None_rows: "find (has_alias a) ps = None \<longleftrightarrow> map_of (caps_rows ps) a = None"
  by (induction ps) (auto simp: has_alias_def)

lemma caps_rows_first_list [simp]: "caps_rows (caps_first_list a caps ps) = caps_first a caps (caps_rows ps)"
  by (induction ps) (auto simp: caps_first_list_def has_alias_def)

lemma caps_rows_first_map [simp]:
  "caps_rows (map snd (caps_first_map a caps ps)) = caps_first a caps (caps_rows (map snd ps))"
  by (induction ps) (auto simp: caps_first_map_def has_alias_def)

lemma caps_rows_first_opt:
  "map_of (caps_rows (opt_list x)) a \<noteq> None \<Longrightarrow>
    caps_rows (opt_list (map_option (with_caps caps) x)) = caps_first a caps (caps_rows (opt_list x))"
  by (cases x) (auto split: if_splits)

lemma alias_manifests_set_caps:
  "alias_manifests (set_manifest_caps a caps r) = caps_first a caps (alias_manifests r)"
  unfolding set_manifest_caps_def find_alias_None_rows
  by (intro if_eqI [where f = alias_manifests])
    (simp_all add: alias_manifests_def caps_first_append caps_rows_first_opt caps_first_absent del: not_None_eq)

section \<open>What the write keeps\<close>

lemma map_caps_first_list [simp]:
  "(\<And>p. g (with_caps caps p) = g p) \<Longrightarrow> map g (caps_first_list a caps ps) = map g ps"
  by (simp add: caps_first_list_def)

lemma map_caps_first_map [simp]:
  "(\<And>k p. g (k, with_caps caps p) = g (k, p)) \<Longrightarrow> map g (caps_first_map a caps ps) = map g ps"
  by (induction ps) (auto simp: caps_first_map_def)

lemma list_all_caps_first_list [simp]:
  "(\<And>p. P (with_caps caps p) = P p) \<Longrightarrow> list_all P (caps_first_list a caps ps) = list_all P ps"
  by (simp add: caps_first_list_def)

lemma map_opt_list_caps [simp]:
  "(\<And>p. g (with_caps caps p) = g p) \<Longrightarrow>
    map g (opt_list (map_option (with_caps caps) x)) = map g (opt_list x)"
  by (cases x) simp_all

lemma cells_caps [simp]:
  "cells (caps_first_list a caps ps) = cells ps"
  "cells (map snd (caps_first_map a caps kps)) = cells (map snd kps)"
  "cells (opt_list (map_option (with_caps caps) x)) = cells (opt_list x)"
  by (simp_all add: cells_def comp_def)

lemma keyed_caps_first_map [simp]:
  "(\<forall>(k, p) \<in> set (caps_first_map a caps ps). k = m_id (lp_manifest p)) \<longleftrightarrow>
    (\<forall>(k, p) \<in> set ps. k = m_id (lp_manifest p))"
  by (induction ps) (auto simp: caps_first_map_def)

lemma with_caps_extended [simp]:
  "lp_name (with_caps caps q) = lp_name q"
  "lp_entity_name (with_caps caps h) = lp_entity_name h"
  "lp_routes (with_caps caps h) = lp_routes h"
  "lp_overrides (with_caps caps h) = lp_overrides h"
  "lp_supported_roles (with_caps caps s) = lp_supported_roles s"
  "lp_supported_namespaces (with_caps caps c) = lp_supported_namespaces c"
  "lp_serves_any (with_caps caps c) = lp_serves_any c"
  "lp_supported_schemes (with_caps caps e) = lp_supported_schemes e"
  by (simp_all add: with_caps_def)

lemma set_caps_keeps_aliases [simp]: "registry_aliases (set_manifest_caps a caps r) = registry_aliases r"
  unfolding set_manifest_caps_def
  by (intro if_eqI [where f = registry_aliases]) (simp_all add: registry_aliases_def)

lemma set_caps_keeps_cells [simp]: "state_cells (set_manifest_caps a caps r) = state_cells r"
  unfolding set_manifest_caps_def
  by (intro if_eqI [where f = state_cells]) (simp_all add: state_cells_def)

lemma set_caps_keeps_keyed [simp]: "keyed_ok (set_manifest_caps a caps r) = keyed_ok r"
  unfolding set_manifest_caps_def
  by (intro if_eqI [where f = keyed_ok]) (simp_all add: keyed_ok_def)

lemma set_caps_keeps_listed [simp]: "listed_ok (set_manifest_caps a caps r) = listed_ok r"
  unfolding set_manifest_caps_def
  by (intro if_eqI [where f = listed_ok]) (simp_all add: listed_ok_def)

lemma mset_alias_manifests: "mset (map snd (alias_manifests r)) = mset (registry_manifests r)"
  by (simp add: alias_manifests_def registry_manifests_def caps_rows_def comp_def add_ac)

lemma mset_alias_aliases: "mset (map fst (alias_manifests r)) = mset (registry_aliases r)"
  by (simp add: alias_manifests_def registry_aliases_def caps_rows_def comp_def add_ac)

lemma list_all_manifests: "list_all P (registry_manifests r) \<longleftrightarrow> list_all P (map snd (alias_manifests r))"
  by (metis list_all_iff mset_alias_manifests set_mset_mset)

lemma list_all_caps_first [simp]: "list_all manifest_ok (map snd (caps_first a caps rows)) = list_all manifest_ok (map snd rows)"
  by (induction a caps rows rule: caps_first.induct) auto

lemma set_manifest_caps_wf [simp]: "registry_wf (set_manifest_caps a caps r) = registry_wf r"
  unfolding registry_wf_def by (simp add: list_all_manifests alias_manifests_set_caps)

section \<open>Property\<close>

text \<open>
  \<open>set_manifest_caps\<close> reaches exactly the entry registered under the alias, whichever of the
  twenty-one classes holds it: afterwards that entry's manifest declares exactly the given capabilities
  and is otherwise the manifest it was, every other alias keeps its manifest, no lifecycle state
  changes, and the registry is as well formed as before. An alias that is not registered changes no
  manifest.
\<close>

theorem set_manifest_caps_exact:
  "map_of (alias_manifests (set_manifest_caps a caps r)) =
     (case map_of (alias_manifests r) a of
        None \<Rightarrow> map_of (alias_manifests r)
      | Some m \<Rightarrow> (map_of (alias_manifests r))(a \<mapsto> m\<lparr>m_required_capabilities := caps\<rparr>))
   \<and> (map_of (alias_manifests r) a \<noteq> None \<longleftrightarrow> a \<in> set (registry_aliases r))
   \<and> state_cells (set_manifest_caps a caps r) = state_cells r
   \<and> registry_wf (set_manifest_caps a caps r) = registry_wf r"
proof -
  have "set (registry_aliases r) = fst ` set (alias_manifests r)"
    by (metis list.set_map mset_alias_aliases set_mset_mset)
  then show ?thesis by (simp add: alias_manifests_set_caps map_of_caps_first map_of_eq_None_iff)
qed

end
