(* ===== verification/Resolve_Access.thy ===== *)
theory Resolve_Access
  imports Bindings
begin

text \<open>
  What a native plugin may resolve through its host callbacks: the per-alias grants of
  \<open>PluginRegistry\<close> (\<open>registry.rs\<close>: \<open>granted_caps\<close>, \<open>cred_resolve_allowlist\<close>,
  \<open>cred_resolve_ref_allowlist\<close>, \<open>resource_resolve_allowlist\<close>), the gates that read them, and the
  collectors that derive them from a plugin's own configuration (\<open>secret_resolver.rs\<close>,
  \<open>credential_resolver.rs\<close>).

  \<open>parse_ref\<close> stands for the protocol crate's \<open>parse_secret_ref\<close>, \<open>parse_cred\<close> for its
  \<open>CredRef::parse\<close> and \<open>tokens\<close> for its \<open>cred_tokens\<close>. What the theorems need of the first two is
  stated as \<open>ref_parser\<close> (the parts of a parsed reference are the text around the first separator) and
  \<open>cred_parser\<close> (the issuer ends at the first slash).
\<close>

section \<open>Grants\<close>

definition record_granted_capabilities :: "string \<Rightarrow> capability list \<Rightarrow> 'w registry \<Rightarrow> 'w registry" where
  "record_granted_capabilities a caps r = r\<lparr>granted_caps := hm_insert a caps (granted_caps r)\<rparr>"

definition granted_capabilities_for_alias :: "'w registry \<Rightarrow> string \<Rightarrow> capability list" where
  "granted_capabilities_for_alias r a = unwrap_or [] (map_of (granted_caps r) a)"

definition record_cred_resolve_allowlist :: "string \<Rightarrow> string set \<Rightarrow> 'w registry \<Rightarrow> 'w registry" where
  "record_cred_resolve_allowlist a issuers r =
     r\<lparr>cred_resolve_allowlist := hm_insert a issuers (cred_resolve_allowlist r)\<rparr>"

text \<open>\<open>map.entry(alias).or_default().extend(extra)\<close>.\<close>

definition extend_entry :: "string \<Rightarrow> string set \<Rightarrow> (string, string set) hmap \<Rightarrow> (string, string set) hmap" where
  "extend_entry a extra m = hm_insert a (unwrap_or {} (map_of m a) \<union> extra) m"

definition extend_cred_resolve_allowlist :: "string \<Rightarrow> string set \<Rightarrow> 'w registry \<Rightarrow> 'w registry" where
  "extend_cred_resolve_allowlist a issuers r =
     r\<lparr>cred_resolve_allowlist := extend_entry a issuers (cred_resolve_allowlist r)\<rparr>"

text \<open>\<open>map.get(alias).is_some_and(|set| set.contains(x))\<close>.\<close>

definition listed :: "(string, string set) hmap \<Rightarrow> string \<Rightarrow> string \<Rightarrow> bool" where
  "listed m a x = (case map_of m a of None \<Rightarrow> False | Some xs \<Rightarrow> x \<in> xs)"

definition cred_resolve_issuer_allowed :: "'w registry \<Rightarrow> string \<Rightarrow> string \<Rightarrow> bool" where
  "cred_resolve_issuer_allowed r a issuer = listed (cred_resolve_allowlist r) a issuer"

definition record_cred_resolve_ref_allowlist :: "string \<Rightarrow> string set \<Rightarrow> 'w registry \<Rightarrow> 'w registry" where
  "record_cred_resolve_ref_allowlist a refs r =
     r\<lparr>cred_resolve_ref_allowlist := hm_insert a refs (cred_resolve_ref_allowlist r)\<rparr>"

definition extend_cred_resolve_ref_allowlist :: "string \<Rightarrow> string set \<Rightarrow> 'w registry \<Rightarrow> 'w registry" where
  "extend_cred_resolve_ref_allowlist a refs r =
     r\<lparr>cred_resolve_ref_allowlist := extend_entry a refs (cred_resolve_ref_allowlist r)\<rparr>"

definition cred_ref_key :: "string \<Rightarrow> string \<Rightarrow> string" where
  "cred_ref_key issuer tgt = issuer @ ''/'' @ tgt"

definition cred_resolve_ref_key_allowed :: "'w registry \<Rightarrow> string \<Rightarrow> string \<Rightarrow> bool" where
  "cred_resolve_ref_key_allowed r a key = listed (cred_resolve_ref_allowlist r) a key"

definition cred_resolve_ref_allowed :: "'w registry \<Rightarrow> string \<Rightarrow> string \<Rightarrow> string \<Rightarrow> bool" where
  "cred_resolve_ref_allowed r a issuer tgt = cred_resolve_ref_key_allowed r a (cred_ref_key issuer tgt)"

definition record_resource_resolve_allowlist :: "string \<Rightarrow> string set \<Rightarrow> 'w registry \<Rightarrow> 'w registry" where
  "record_resource_resolve_allowlist a resources r =
     r\<lparr>resource_resolve_allowlist := hm_insert a resources (resource_resolve_allowlist r)\<rparr>"

definition extend_resource_resolve_allowlist :: "string \<Rightarrow> string set \<Rightarrow> 'w registry \<Rightarrow> 'w registry" where
  "extend_resource_resolve_allowlist a resources r =
     r\<lparr>resource_resolve_allowlist := extend_entry a resources (resource_resolve_allowlist r)\<rparr>"

section \<open>The resource gate\<close>

type_synonym ref_parser = "string \<Rightarrow> (string \<times> string) option"

definition resource_allowlist_key :: "ref_parser \<Rightarrow> string \<Rightarrow> string option" where
  "resource_allowlist_key parse_ref uri =
     (case parse_ref uri of None \<Rightarrow> None | Some (scheme, rest) \<Rightarrow> Some (scheme @ ''://'' @ rest))"

definition resource_allowlist_base_key :: "ref_parser \<Rightarrow> string \<Rightarrow> string option" where
  "resource_allowlist_base_key parse_ref uri =
     (case parse_ref uri of
        None \<Rightarrow> None
      | Some (scheme, rest) \<Rightarrow> Some (scheme @ ''://'' @ hd (split_char (CHR ''#'') rest)))"

definition resource_resolve_allowed :: "ref_parser \<Rightarrow> 'w registry \<Rightarrow> string \<Rightarrow> string \<Rightarrow> bool" where
  "resource_resolve_allowed parse_ref r a uri =
     (case map_of (resource_resolve_allowlist r) a of
        None \<Rightarrow> False
      | Some xs \<Rightarrow>
     (case resource_allowlist_key parse_ref uri of
        None \<Rightarrow> False
      | Some full \<Rightarrow>
         if full \<in> xs then True
         else (case resource_allowlist_base_key parse_ref uri of
                 Some base \<Rightarrow> if base \<noteq> full then base \<in> xs else False
               | None \<Rightarrow> False)))"

section \<open>Collecting references from a configuration\<close>

text \<open>
  The walkers of both resolvers have one shape: every string value (never a key) is offered to a
  function that adds to the set.
\<close>

fun walk_strings :: "(string \<Rightarrow> string set \<Rightarrow> string set) \<Rightarrow> json \<Rightarrow> string set \<Rightarrow> string set" where
  "walk_strings f (JString s) out = f s out"
| "walk_strings f (JArray items) out = fold (walk_strings f) items out"
| "walk_strings f (JObject m) out = fold (\<lambda>e. walk_strings f (snd e)) m out"
| "walk_strings f JNull out = out"
| "walk_strings f (JBool b) out = out"
| "walk_strings f (JNumber n) out = out"

definition collect_resource_walk :: "ref_parser \<Rightarrow> json \<Rightarrow> string set \<Rightarrow> string set" where
  "collect_resource_walk parse_ref =
     walk_strings (\<lambda>s out. case resource_allowlist_key parse_ref s of Some key \<Rightarrow> insert key out | None \<Rightarrow> out)"

definition collect_resource_refs :: "ref_parser \<Rightarrow> json \<Rightarrow> string set" where
  "collect_resource_refs parse_ref v = collect_resource_walk parse_ref v {}"

record cred_ref =
  cr_plugin_id :: string
  cr_target :: string
  cr_part :: "string option"

type_synonym cred_reader = "(string \<Rightarrow> cred_ref option) \<times> (string \<Rightarrow> string list)"

text \<open>The string itself, then each interpolation token in it.\<close>

definition collect_key :: "(cred_ref \<Rightarrow> string) \<Rightarrow> cred_reader \<Rightarrow> string \<Rightarrow> string set \<Rightarrow> string set" where
  "collect_key key rd s out =
     fold (\<lambda>inner out. case fst rd inner of Some c \<Rightarrow> insert (key c) out | None \<Rightarrow> out) (snd rd s)
       (case fst rd s of Some c \<Rightarrow> insert (key c) out | None \<Rightarrow> out)"

definition collect_from_str :: "cred_reader \<Rightarrow> string \<Rightarrow> string set \<Rightarrow> string set" where
  "collect_from_str = collect_key cr_plugin_id"

definition collect_cred_issuers :: "cred_reader \<Rightarrow> json \<Rightarrow> string set" where
  "collect_cred_issuers rd v = walk_strings (collect_from_str rd) v {}"

definition collect_refs_from_str :: "cred_reader \<Rightarrow> string \<Rightarrow> string set \<Rightarrow> string set" where
  "collect_refs_from_str = collect_key (\<lambda>c. cred_ref_key (cr_plugin_id c) (cr_target c))"

definition collect_cred_refs :: "cred_reader \<Rightarrow> json \<Rightarrow> string set" where
  "collect_cred_refs rd v = walk_strings (collect_refs_from_str rd) v {}"

section \<open>The strings of a configuration\<close>

fun json_strings :: "json \<Rightarrow> string list" where
  "json_strings (JString s) = [s]"
| "json_strings (JArray items) = concat (map json_strings items)"
| "json_strings (JObject m) = concat (map (\<lambda>e. json_strings (snd e)) m)"
| "json_strings JNull = []"
| "json_strings (JBool b) = []"
| "json_strings (JNumber n) = []"

text \<open>Every string value of a configuration: what the collectors are meant to see.\<close>

lemma walk_strings_fold: "walk_strings f v out = fold f (json_strings v) out"
proof (induction v arbitrary: out)
  case (JArray items)
  then show ?case by (induction items arbitrary: out) simp_all
next
  case (JObject m)
  have "fold (\<lambda>e. walk_strings f (snd e)) m out = fold f (concat (map (\<lambda>e. json_strings (snd e)) m)) out"
    using JObject
  proof (induction m arbitrary: out)
    case (Cons e m)
    then show ?case by (cases e) force
  qed simp
  then show ?case by simp
qed simp_all

lemma fold_insert_options:
  "fold (\<lambda>s out. case g s of Some k \<Rightarrow> insert k out | None \<Rightarrow> out) xs out = out \<union> {k. \<exists>s \<in> set xs. g s = Some k}"
  by (induction xs arbitrary: out) (auto split: option.splits)

lemma collect_resource_refs_eq:
  "collect_resource_refs parse_ref v = {k. \<exists>s \<in> set (json_strings v). resource_allowlist_key parse_ref s = Some k}"
  by (simp add: collect_resource_refs_def collect_resource_walk_def walk_strings_fold fold_insert_options)

text \<open>The references a string or its tokens parse to.\<close>

definition cred_refs_in :: "cred_reader \<Rightarrow> string \<Rightarrow> cred_ref set" where
  "cred_refs_in rd s = {c. \<exists>u \<in> set (s # snd rd s). fst rd u = Some c}"

lemma fold_insert_keys:
  "fold (\<lambda>u out. case g u of Some c \<Rightarrow> insert (key c) out | None \<Rightarrow> out) xs out
     = out \<union> key ` {c. \<exists>u \<in> set xs. g u = Some c}"
  by (induction xs arbitrary: out) (auto split: option.splits)

lemma collect_key_eq: "collect_key key rd s out = out \<union> key ` cred_refs_in rd s"
  by (auto simp: collect_key_def fold_insert_keys cred_refs_in_def split: option.splits)

lemma fold_collect_key: "fold (collect_key key rd) xs out = out \<union> key ` (\<Union>s \<in> set xs. cred_refs_in rd s)"
  by (induction xs arbitrary: out) (auto simp: collect_key_eq)

lemma collect_creds_eq:
  "collect_cred_issuers rd v = cr_plugin_id ` (\<Union>s \<in> set (json_strings v). cred_refs_in rd s)"
  "collect_cred_refs rd v = (\<lambda>c. cred_ref_key (cr_plugin_id c) (cr_target c)) ` (\<Union>s \<in> set (json_strings v). cred_refs_in rd s)"
  by (simp_all add: collect_cred_issuers_def collect_cred_refs_def collect_from_str_def
      collect_refs_from_str_def walk_strings_fold fold_collect_key)

section \<open>What the parsers promise\<close>

definition ref_parser_ok :: "ref_parser \<Rightarrow> bool" where
  "ref_parser_ok parse_ref = (\<forall>u scheme rest. parse_ref u = Some (scheme, rest) \<longrightarrow> u = scheme @ ''://'' @ rest)"

definition cred_parser_ok :: "cred_reader \<Rightarrow> bool" where
  "cred_parser_ok rd = (\<forall>u c. fst rd u = Some c \<longrightarrow> CHR ''/'' \<notin> set (cr_plugin_id c))"

lemma resource_key_self: "ref_parser_ok p \<Longrightarrow> resource_allowlist_key p u = (if p u = None then None else Some u)"
  by (auto simp: resource_allowlist_key_def ref_parser_ok_def split: option.splits)

lemma hd_split_char: "hd (split_char d s) = takeWhile (\<lambda>c. c \<noteq> d) s"
proof (induction s)
  case (Cons c s)
  then show ?case by (cases "split_char d s") auto
qed simp

lemma takeWhile_neq_self: "takeWhile (\<lambda>c. c \<noteq> d) s = s \<longleftrightarrow> d \<notin> set s"
  by (auto simp: takeWhile_eq_all_conv)

text \<open>Both allowlist parts are recorded from the entry's configuration, then extended per binding.\<close>

definition grant_resources :: "ref_parser \<Rightarrow> string \<Rightarrow> json \<Rightarrow> json list \<Rightarrow> 'w registry \<Rightarrow> 'w registry" where
  "grant_resources p a cfg specs r =
     fold (\<lambda>sp. extend_resource_resolve_allowlist a (collect_resource_refs p sp)) specs
       (record_resource_resolve_allowlist a (collect_resource_refs p cfg) r)"

definition grant_credentials :: "cred_reader \<Rightarrow> string \<Rightarrow> json \<Rightarrow> json list \<Rightarrow> 'w registry \<Rightarrow> 'w registry" where
  "grant_credentials rd a cfg specs r =
     fold (\<lambda>sp r. extend_cred_resolve_ref_allowlist a (collect_cred_refs rd sp)
                    (extend_cred_resolve_allowlist a (collect_cred_issuers rd sp) r)) specs
       (record_cred_resolve_ref_allowlist a (collect_cred_refs rd cfg)
         (record_cred_resolve_allowlist a (collect_cred_issuers rd cfg) r))"

lemma extend_entry_known:
  "map_of m a = Some xs \<Longrightarrow> map_of (extend_entry a extra m) = (map_of m)(a \<mapsto> xs \<union> extra)"
  by (simp add: extend_entry_def)

lemma fold_extend_resources:
  "map_of (resource_resolve_allowlist r) a = Some xs \<Longrightarrow>
    map_of (resource_resolve_allowlist (fold (\<lambda>sp. extend_resource_resolve_allowlist a (g sp)) specs r))
      = (map_of (resource_resolve_allowlist r))(a \<mapsto> xs \<union> \<Union> (g ` set specs))"
proof (induction specs arbitrary: r xs)
  case (Cons sp specs)
  let ?r = "extend_resource_resolve_allowlist a (g sp) r"
  have e: "map_of (resource_resolve_allowlist ?r) = (map_of (resource_resolve_allowlist r))(a \<mapsto> xs \<union> g sp)"
    using extend_entry_known [OF Cons.prems] by (simp add: extend_resource_resolve_allowlist_def)
  have "map_of (resource_resolve_allowlist ?r) a = Some (xs \<union> g sp)" by (simp add: e)
  from Cons.IH [OF this] show ?case by (simp add: e Un_assoc fun_eq_iff)
qed (simp add: fun_upd_idem)

lemma fold_extend_creds:
  fixes r :: "'w registry" and g h :: "'s \<Rightarrow> string set" and specs :: "'s list"
  assumes "map_of (cred_resolve_allowlist r) a = Some xs" and "map_of (cred_resolve_ref_allowlist r) a = Some ys"
  defines "r' \<equiv> fold (\<lambda>sp r. extend_cred_resolve_ref_allowlist a (h sp) (extend_cred_resolve_allowlist a (g sp) r)) specs r"
  shows "map_of (cred_resolve_allowlist r') = (map_of (cred_resolve_allowlist r))(a \<mapsto> xs \<union> \<Union> (g ` set specs))
    \<and> map_of (cred_resolve_ref_allowlist r') = (map_of (cred_resolve_ref_allowlist r))(a \<mapsto> ys \<union> \<Union> (h ` set specs))"
  using assms(1,2) unfolding r'_def
proof (induction specs arbitrary: r xs ys)
  case (Cons sp specs)
  let ?r = "extend_cred_resolve_ref_allowlist a (h sp) (extend_cred_resolve_allowlist a (g sp) r)"
  have e: "map_of (cred_resolve_allowlist ?r) = (map_of (cred_resolve_allowlist r))(a \<mapsto> xs \<union> g sp)"
    "map_of (cred_resolve_ref_allowlist ?r) = (map_of (cred_resolve_ref_allowlist r))(a \<mapsto> ys \<union> h sp)"
    using extend_entry_known [OF Cons.prems(1)] extend_entry_known [OF Cons.prems(2)]
    by (simp_all add: extend_cred_resolve_allowlist_def extend_cred_resolve_ref_allowlist_def)
  have "map_of (cred_resolve_allowlist ?r) a = Some (xs \<union> g sp)" "map_of (cred_resolve_ref_allowlist ?r) a = Some (ys \<union> h sp)"
    by (simp_all add: e)
  from Cons.IH [OF this] show ?case by (simp add: e Un_assoc fun_eq_iff)
qed (simp add: fun_upd_idem)

text \<open>The allowlist rows a grant leaves behind.\<close>

lemma grant_resources_rows:
  "map_of (resource_resolve_allowlist (grant_resources p a cfg specs r)) =
     (map_of (resource_resolve_allowlist r))(a \<mapsto> (\<Union>v \<in> set (cfg # specs). collect_resource_refs p v))"
  unfolding grant_resources_def
  by (subst fold_extend_resources [where xs = "collect_resource_refs p cfg"])
    (simp_all add: record_resource_resolve_allowlist_def)

lemma grant_credentials_rows:
  "map_of (cred_resolve_allowlist (grant_credentials rd a cfg specs r)) =
     (map_of (cred_resolve_allowlist r))(a \<mapsto> (\<Union>v \<in> set (cfg # specs). collect_cred_issuers rd v))
   \<and> map_of (cred_resolve_ref_allowlist (grant_credentials rd a cfg specs r)) =
     (map_of (cred_resolve_ref_allowlist r))(a \<mapsto> (\<Union>v \<in> set (cfg # specs). collect_cred_refs rd v))"
proof -
  let ?r = "record_cred_resolve_ref_allowlist a (collect_cred_refs rd cfg)
    (record_cred_resolve_allowlist a (collect_cred_issuers rd cfg) r)"
  have rec: "map_of (cred_resolve_allowlist ?r) = (map_of (cred_resolve_allowlist r))(a \<mapsto> collect_cred_issuers rd cfg)"
    "map_of (cred_resolve_ref_allowlist ?r) = (map_of (cred_resolve_ref_allowlist r))(a \<mapsto> collect_cred_refs rd cfg)"
    by (simp_all add: record_cred_resolve_ref_allowlist_def record_cred_resolve_allowlist_def)
  then have "map_of (cred_resolve_allowlist ?r) a = Some (collect_cred_issuers rd cfg)"
    "map_of (cred_resolve_ref_allowlist ?r) a = Some (collect_cred_refs rd cfg)" by simp_all
  from fold_extend_creds [OF this, of "collect_cred_refs rd" "collect_cred_issuers rd" specs]
  show ?thesis by (simp add: grant_credentials_def rec)
qed

text \<open>A key splits back into issuer and target when the issuer has no slash.\<close>

lemma cred_ref_key_inject:
  assumes "CHR ''/'' \<notin> set i" and "CHR ''/'' \<notin> set j"
  shows "cred_ref_key i s = cred_ref_key j t \<longleftrightarrow> i = j \<and> s = t"
proof
  assume e: "cred_ref_key i s = cred_ref_key j t"
  have w: "takeWhile (\<lambda>c. c \<noteq> CHR ''/'') (cred_ref_key i s) = i" if "CHR ''/'' \<notin> set i" for i s
    using that by (induction i) (auto simp: cred_ref_key_def)
  from w [OF assms(1), of s] w [OF assms(2), of t] e have "i = j" by simp
  with e show "i = j \<and> s = t" by (simp add: cred_ref_key_def)
qed simp

section \<open>Properties\<close>

text \<open>
  A plugin can read exactly the resources its own configuration names. After its grants are
  recorded from the entry's configuration and extended with its binding specs, a secret or config URI
  is allowed exactly when it parses and either appears verbatim as a string value there, or asks for a
  \<open>#field\<close> of a resource that appears there without a field. So a field grant never widens to a sibling
  field or to the whole resource. Grants of other aliases do not change, and with no grant recorded
  nothing is allowed.
\<close>

theorem resource_access_is_config_origin:
  fixes r :: "'w registry" and a :: string and cfg :: json and specs :: "json list"
  assumes "ref_parser_ok p"
  defines "r' \<equiv> grant_resources p a cfg specs r"
    and "named \<equiv> set (concat (map json_strings (cfg # specs)))"
  shows "(resource_resolve_allowed p r' a u \<longleftrightarrow>
      (case p u of
         None \<Rightarrow> False
       | Some (scheme, rest) \<Rightarrow> u \<in> named \<or>
           (CHR ''#'' \<in> set rest
            \<and> (let base = scheme @ ''://'' @ takeWhile (\<lambda>c. c \<noteq> CHR ''#'') rest in p base \<noteq> None \<and> base \<in> named))))
    \<and> (\<forall>b. b \<noteq> a \<longrightarrow> resource_resolve_allowed p r' b u = resource_resolve_allowed p r b u)
    \<and> \<not> resource_resolve_allowed p registry_new a u"
proof -
  have xs: "(\<Union>v \<in> set (cfg # specs). collect_resource_refs p v) = {s \<in> named. p s \<noteq> None}"
    by (simp add: collect_resource_refs_eq resource_key_self [OF assms(1)] named_def set_eq_iff) blast
  note rows = grant_resources_rows [of p a cfg specs r, unfolded xs]
  have "resource_resolve_allowed p r' a u \<longleftrightarrow>
    (case p u of None \<Rightarrow> False | Some (scheme, rest) \<Rightarrow> u \<in> named \<or>
       (CHR ''#'' \<in> set rest \<and> (let base = scheme @ ''://'' @ takeWhile (\<lambda>c. c \<noteq> CHR ''#'') rest in p base \<noteq> None \<and> base \<in> named)))"
  proof (cases "p u")
    case None
    then show ?thesis
      by (simp add: resource_resolve_allowed_def r'_def rows resource_key_self [OF assms(1)])
  next
    case (Some sr)
    obtain scheme rest where sr: "sr = (scheme, rest)" by fastforce
    with Some assms(1) have u: "u = scheme @ ''://'' @ rest" by (simp add: ref_parser_ok_def)
    show ?thesis
      using Some
      by (auto simp: resource_resolve_allowed_def r'_def rows resource_key_self [OF assms(1)]
          resource_allowlist_base_key_def hd_split_char takeWhile_neq_self u sr Let_def)
  qed
  moreover have "\<forall>b. b \<noteq> a \<longrightarrow> resource_resolve_allowed p r' b u = resource_resolve_allowed p r b u"
    by (simp add: resource_resolve_allowed_def r'_def rows)
  ultimately show ?thesis by (simp add: resource_resolve_allowed_def registry_new_def)
qed

text \<open>
  C27. A plugin can resolve exactly the credentials its own configuration names. After its grants are
  recorded and extended, an issuer is allowed exactly when some string value of the configuration (or
  an interpolation token in one) refers to it, and an issuer and target are allowed exactly when one
  refers to that pair; the second gate is therefore never wider than the first, for issuer names as the
  parser produces them. Grants of other aliases do not change, and with no grant recorded nothing is
  allowed.
\<close>

theorem credential_access_is_config_origin:
  fixes r :: "'w registry" and a :: string and cfg :: json and specs :: "json list"
  assumes "cred_parser_ok rd" and "CHR ''/'' \<notin> set issuer"
  defines "r' \<equiv> grant_credentials rd a cfg specs r"
    and "named \<equiv> (\<Union>s \<in> set (concat (map json_strings (cfg # specs))). cred_refs_in rd s)"
  shows "(cred_resolve_issuer_allowed r' a issuer \<longleftrightarrow> issuer \<in> cr_plugin_id ` named)
    \<and> (cred_resolve_ref_allowed r' a issuer tgt \<longleftrightarrow> (issuer, tgt) \<in> (\<lambda>c. (cr_plugin_id c, cr_target c)) ` named)
    \<and> (cred_resolve_ref_allowed r' a issuer tgt \<longrightarrow> cred_resolve_issuer_allowed r' a issuer)
    \<and> (\<forall>b. b \<noteq> a \<longrightarrow> cred_resolve_issuer_allowed r' b issuer = cred_resolve_issuer_allowed r b issuer
          \<and> cred_resolve_ref_allowed r' b issuer tgt = cred_resolve_ref_allowed r b issuer tgt)
    \<and> \<not> cred_resolve_issuer_allowed registry_new a issuer \<and> \<not> cred_resolve_ref_allowed registry_new a issuer tgt"
proof -
  have n: "named = (\<Union>v \<in> set (cfg # specs). \<Union>s \<in> set (json_strings v). cred_refs_in rd s)"
    by (auto simp: named_def)
  have xs: "(\<Union>v \<in> set (cfg # specs). collect_cred_issuers rd v) = cr_plugin_id ` named"
    "(\<Union>v \<in> set (cfg # specs). collect_cred_refs rd v) = (\<lambda>c. cred_ref_key (cr_plugin_id c) (cr_target c)) ` named"
    unfolding collect_creds_eq n image_UN by (rule refl)+
  note rows = grant_credentials_rows [of rd a cfg specs r, unfolded xs]
  have "CHR ''/'' \<notin> set (cr_plugin_id c)" if "c \<in> named" for c
    using that assms(1) by (auto simp: named_def cred_refs_in_def cred_parser_ok_def)
  then have key: "cred_ref_key issuer tgt = cred_ref_key (cr_plugin_id c) (cr_target c) \<longleftrightarrow>
      issuer = cr_plugin_id c \<and> tgt = cr_target c" if "c \<in> named" for c
    using that cred_ref_key_inject [OF assms(2)] by blast
  note D = cred_resolve_issuer_allowed_def cred_resolve_ref_allowed_def cred_resolve_ref_key_allowed_def listed_def r'_def rows
  have i: "cred_resolve_issuer_allowed r' a issuer \<longleftrightarrow> issuer \<in> cr_plugin_id ` named" by (simp add: D)
  have "cred_resolve_ref_allowed r' a issuer tgt \<longleftrightarrow> (\<exists>c \<in> named. cred_ref_key issuer tgt = cred_ref_key (cr_plugin_id c) (cr_target c))"
    by (simp add: D image_iff)
  also have "\<dots> \<longleftrightarrow> (issuer, tgt) \<in> (\<lambda>c. (cr_plugin_id c, cr_target c)) ` named"
    using key by (auto simp: image_iff)
  finally have t: "cred_resolve_ref_allowed r' a issuer tgt \<longleftrightarrow> (issuer, tgt) \<in> (\<lambda>c. (cr_plugin_id c, cr_target c)) ` named" .
  then have "cred_resolve_ref_allowed r' a issuer tgt \<longrightarrow> cred_resolve_issuer_allowed r' a issuer"
    unfolding i by auto
  with i t show ?thesis by (simp add: D registry_new_def)
qed

text \<open>Parsers as documented: a reference splits at its first separator.\<close>

definition sample_parse_ref :: ref_parser where
  "sample_parse_ref u =
     (case split_at_str u ''://'' of None \<Rightarrow> None | Some (s, rest) \<Rightarrow> if s = [] then None else Some (s, rest))"

lemma split_once_char_no: "split_once_char d s = Some (x, y) \<Longrightarrow> d \<notin> set x"
  by (induction s arbitrary: x y) (auto split: if_splits option.splits)

definition sample_cred_reader :: cred_reader where
  "sample_cred_reader =
     (\<lambda>u. case strip_prefix_str u ''cred://'' of
            None \<Rightarrow> None
          | Some rest \<Rightarrow> (case split_once_char (CHR ''/'') rest of
                None \<Rightarrow> None
              | Some (i, t) \<Rightarrow> Some \<lparr>cr_plugin_id = i, cr_target = t, cr_part = None\<rparr>),
      \<lambda>s. [])"

lemma sample_parse_ref_ok: "ref_parser_ok sample_parse_ref"
  by (auto simp: ref_parser_ok_def sample_parse_ref_def dest: split_at_str_Some split: option.splits prod.splits if_splits)

lemma sample_cred_reader_ok: "cred_parser_ok sample_cred_reader"
  by (auto simp: cred_parser_ok_def sample_cred_reader_def dest: split_once_char_no split: option.splits prod.splits)

theorem resource_access_is_config_origin_witness:
  "resource_resolve_allowed sample_parse_ref
     (grant_resources sample_parse_ref ''a'' (JObject [(''k'', JString ''vault://kv#gh'')]) [JString ''file://x''] sample_registry)
     ''a'' ''file://x#f''
   \<and> \<not> resource_resolve_allowed sample_parse_ref
     (grant_resources sample_parse_ref ''a'' (JObject [(''k'', JString ''vault://kv#gh'')]) [JString ''file://x''] sample_registry)
     ''a'' ''vault://kv#st''"
  by (subst (1 2) resource_access_is_config_origin [OF sample_parse_ref_ok, THEN conjunct1])
    (simp add: sample_parse_ref_def)

theorem credential_access_is_config_origin_witness:
  "cred_resolve_ref_allowed
     (grant_credentials sample_cred_reader ''a'' (JString ''cred://pg/orders'') [] sample_registry) ''a'' ''pg'' ''orders''
   \<and> \<not> cred_resolve_ref_allowed
     (grant_credentials sample_cred_reader ''a'' (JString ''cred://pg/orders'') [] sample_registry) ''a'' ''pg'' ''users''"
proof -
  have n: "CHR ''/'' \<notin> set ''pg''" by simp
  show ?thesis
    unfolding credential_access_is_config_origin [OF sample_cred_reader_ok n, THEN conjunct2, THEN conjunct1]
    by (simp add: cred_refs_in_def sample_cred_reader_def image_iff)
qed

end
