(* ===== verification/Registry_Run.thy ===== *)
theory Registry_Run
  imports Audit_Fanout Manifest_Caps Resolve_Access
begin

text \<open>
  The life of a registry: every operation of \<open>PluginRegistry\<close> that changes it, as one step relation,
  and the invariants of every registry reachable from \<open>PluginRegistry::new\<close>. The operations are those of
  the component theories; a step is one successful call. A call that returns an error leaves the registry
  as it was, with one exception: an auto-bind sweep that fails half way keeps the schemes it had bound,
  and those states are reached here by the single \<open>bind_secret_scheme\<close> and \<open>bind_config_scheme\<close> steps the
  sweep consists of.
\<close>

section \<open>Steps\<close>

inductive reg_step :: "'w registry \<Rightarrow> 'w registry \<Rightarrow> bool" where
  reg_tool_gate: "register_tool_gate_with_alias now al p t c e r = Inr r' \<Longrightarrow> reg_step r r'"
| reg_transform: "register_transform_with_alias now al p t c r = Inr r' \<Longrightarrow> reg_step r r'"
| reg_identity: "register_identity_with_alias now al p t c r = Inr r' \<Longrightarrow> reg_step r r'"
| reg_catalog_provider: "register_catalog_provider_with_alias now al p t c r = Inr r' \<Longrightarrow> reg_step r r'"
| reg_backend: "register_backend_with_alias al p t r = Inr r' \<Longrightarrow> reg_step r r'"
| reg_content_store: "register_content_store_with_alias al p t r = Inr r' \<Longrightarrow> reg_step r r'"
| reg_watch_strategy: "register_watch_strategy_with_alias al p t r = Inr r' \<Longrightarrow> reg_step r r'"
| reg_audit_sink: "register_audit_sink_with_alias al p t r = Inr r' \<Longrightarrow> reg_step r r'"
| reg_telemetry_sink: "register_telemetry_sink_with_alias al p t r = Inr r' \<Longrightarrow> reg_step r r'"
| reg_log_sink: "register_log_sink_with_alias al p t r = Inr r' \<Longrightarrow> reg_step r r'"
| reg_metrics_sink: "register_metrics_sink_with_alias al p t r = Inr r' \<Longrightarrow> reg_step r r'"
| reg_store: "register_store_with_alias al p t r = Inr r' \<Longrightarrow> reg_step r r'"
| reg_cache: "register_cache_with_alias al p t r = Inr r' \<Longrightarrow> reg_step r r'"
| reg_secret_provider: "register_secret_provider_with_alias al p t r = Inr r' \<Longrightarrow> reg_step r r'"
| reg_config_provider: "register_config_provider_with_alias al p t r = Inr r' \<Longrightarrow> reg_step r r'"
| reg_transport: "register_transport_with_alias al p t r = Inr r' \<Longrightarrow> reg_step r r'"
| reg_policy_engine: "register_policy_engine_with_alias al p t r = Inr r' \<Longrightarrow> reg_step r r'"
| reg_cluster_backend: "register_cluster_backend_with_alias al p t f r = Inr r' \<Longrightarrow> reg_step r r'"
| reg_credential_issuer: "register_credential_issuer_with_alias al p t r = Inr r' \<Longrightarrow> reg_step r r'"
| reg_approval_notifier: "register_approval_notifier_with_alias al p t r = Inr r' \<Longrightarrow> reg_step r r'"
| reg_http_route: "register_http_route_with_alias_and_overrides al n p t ov caps r = Inr r' \<Longrightarrow> reg_step r r'"
| bind_role: "bind_store_role k i r = Inr r' \<Longrightarrow> reg_step r r'"
| bind_namespace: "bind_cache_namespace k i r = Inr r' \<Longrightarrow> reg_step r r'"
| bind_secret: "bind_secret_scheme k i r = Inr r' \<Longrightarrow> reg_step r r'"
| bind_config: "bind_config_scheme k i r = Inr r' \<Longrightarrow> reg_step r r'"
| auto_bind_secret: "auto_bind_secret_provider_schemes r = Inr r' \<Longrightarrow> reg_step r r'"
| auto_bind_config: "auto_bind_config_provider_schemes r = Inr r' \<Longrightarrow> reg_step r r'"
| sink_policy: "set_audit_sink_policy name pol r = Inr r' \<Longrightarrow> reg_step r r'"
| admin: "run_admin op i r = Inr r' \<Longrightarrow> reg_step r r'"
| manifest_caps: "reg_step r (set_manifest_caps a cs r)"
| digest_key: "reg_step r (set_audit_digest_key dk r)"
| node_id: "reg_step r (set_audit_node_id ni r)"
| request_policy: "reg_step r (set_audit_request_policy rp r)"
| call_audit: "reg_step r (set_tool_call_audit_emission b1 b2 r)"
| granted: "reg_step r (record_granted_capabilities a cs r)"
| record_cred: "reg_step r (record_cred_resolve_allowlist a xs r)"
| extend_cred: "reg_step r (extend_cred_resolve_allowlist a xs r)"
| record_cred_ref: "reg_step r (record_cred_resolve_ref_allowlist a xs r)"
| extend_cred_ref: "reg_step r (extend_cred_resolve_ref_allowlist a xs r)"
| record_resource: "reg_step r (record_resource_resolve_allowlist a xs r)"
| extend_resource: "reg_step r (extend_resource_resolve_allowlist a xs r)"

inductive registry_reachable :: "'w registry \<Rightarrow> bool" where
  reach_new: "registry_reachable registry_new"
| reach_step: "registry_reachable r \<Longrightarrow> reg_step r r' \<Longrightarrow> registry_reachable r'"

section \<open>Well-formedness\<close>

lemma wf_frame [simp]:
  "registry_wf (r\<lparr>store_bindings := b\<rparr>) = registry_wf r"
  "registry_wf (r\<lparr>cache_bindings := c\<rparr>) = registry_wf r"
  "registry_wf (r\<lparr>secret_scheme_bindings := d\<rparr>) = registry_wf r"
  "registry_wf (r\<lparr>config_scheme_bindings := d'\<rparr>) = registry_wf r"
  "registry_wf (r\<lparr>audit_digest_key := e\<rparr>) = registry_wf r"
  "registry_wf (r\<lparr>audit_node_id := e\<rparr>) = registry_wf r"
  "registry_wf (r\<lparr>audit_request_policy := f\<rparr>) = registry_wf r"
  "registry_wf (r\<lparr>audit_emit_tool_call_allowed := g, audit_emit_tool_call_completed := h\<rparr>) = registry_wf r"
  "registry_wf (r\<lparr>granted_caps := i\<rparr>) = registry_wf r"
  "registry_wf (r\<lparr>cred_resolve_allowlist := j\<rparr>) = registry_wf r"
  "registry_wf (r\<lparr>cred_resolve_ref_allowlist := j\<rparr>) = registry_wf r"
  "registry_wf (r\<lparr>resource_resolve_allowlist := j\<rparr>) = registry_wf r"
  by (simp_all add: registry_wf_def registry_aliases_def registry_manifests_def keyed_ok_def listed_ok_def)

lemma bind_store_role_frame: "bind_store_role k i r = Inr r' \<Longrightarrow> \<exists>b. r' = r\<lparr>store_bindings := b\<rparr>"
  by (auto simp: bind_store_role_def split: option.splits)

lemma bind_cache_namespace_frame: "bind_cache_namespace k i r = Inr r' \<Longrightarrow> \<exists>b. r' = r\<lparr>cache_bindings := b\<rparr>"
  by (auto simp: bind_cache_namespace_def split: option.splits)

lemma bind_wf:
  "bind_store_role k i r = Inr r' \<Longrightarrow> registry_wf r \<Longrightarrow> registry_wf r'"
  "bind_cache_namespace k i r = Inr r' \<Longrightarrow> registry_wf r \<Longrightarrow> registry_wf r'"
  "bind_secret_scheme k i r = Inr r' \<Longrightarrow> registry_wf r \<Longrightarrow> registry_wf r'"
  "bind_config_scheme k i r = Inr r' \<Longrightarrow> registry_wf r \<Longrightarrow> registry_wf r'"
  "auto_bind_secret_provider_schemes r = Inr r' \<Longrightarrow> registry_wf r \<Longrightarrow> registry_wf r'"
  "auto_bind_config_provider_schemes r = Inr r' \<Longrightarrow> registry_wf r \<Longrightarrow> registry_wf r'"
  by ((drule bind_store_role_frame bind_cache_namespace_frame bind_secret_scheme_frame bind_config_scheme_frame
      auto_bind_secret_frame auto_bind_config_frame, elim exE, simp)+)

lemma set_audit_sink_policy_keeps:
  assumes "set_audit_sink_policy name pol r = Inr r'"
  shows "\<exists>ss. r' = r\<lparr>audit_sinks := ss\<rparr> \<and> map lp_alias ss = map lp_alias (audit_sinks r)
    \<and> map lp_manifest ss = map lp_manifest (audit_sinks r)"
  using assms by (auto simp: set_audit_sink_policy_def Let_def comp_def split: if_splits)

lemma set_audit_sink_policy_wf: "set_audit_sink_policy name pol r = Inr r' \<Longrightarrow> registry_wf r \<Longrightarrow> registry_wf r'"
  by (drule set_audit_sink_policy_keeps, elim exE conjE)
    (simp add: registry_wf_def registry_aliases_def registry_manifests_def keyed_ok_def listed_ok_def)

lemma run_admin_result: "run_admin op i r = Inr r' \<Longrightarrow> r' = r \<or> r' = store_state_cell i (admin_target op) r"
  using run_admin_spec [of op i r] by (auto split: option.splits if_splits)

lemmas setter_defs = set_audit_digest_key_def set_audit_node_id_def set_audit_request_policy_def
  set_tool_call_audit_emission_def record_granted_capabilities_def record_cred_resolve_allowlist_def
  extend_cred_resolve_allowlist_def record_cred_resolve_ref_allowlist_def extend_cred_resolve_ref_allowlist_def
  record_resource_resolve_allowlist_def extend_resource_resolve_allowlist_def

lemmas register_wf = register_tool_gate_wf register_transform_wf register_identity_wf register_catalog_provider_wf
  register_backend_wf register_content_store_wf register_watch_strategy_wf register_audit_sink_wf
  register_telemetry_sink_wf register_log_sink_wf register_metrics_sink_wf register_store_wf
  register_cache_wf register_secret_provider_wf register_config_provider_wf register_transport_wf
  register_policy_engine_wf register_cluster_backend_wf register_credential_issuer_wf register_approval_notifier_wf register_http_route_wf

lemma run_admin_wf: "run_admin op i r = Inr r' \<Longrightarrow> registry_wf r \<Longrightarrow> registry_wf r'"
  by (drule run_admin_result) auto

lemma reg_step_wf: "reg_step r r' \<Longrightarrow> registry_wf r \<Longrightarrow> registry_wf r'"
  by (induction rule: reg_step.induct)
    (erule (1) register_wf bind_wf set_audit_sink_policy_wf run_admin_wf | simp only: setter_defs wf_frame set_manifest_caps_wf)+

section \<open>Served bindings and safe routes\<close>

text \<open>What the registered providers offer, without their lifecycle state.\<close>

definition role_offers :: "'w registry \<Rightarrow> (string list \<times> 'w plugin_object) list" where
  "role_offers r = map (\<lambda>e. (lp_supported_roles e, lp_instance e)) (stores r)"

definition namespace_offers :: "'w registry \<Rightarrow> (bool \<times> string list \<times> 'w plugin_object) list" where
  "namespace_offers r = map (\<lambda>e. (lp_serves_any e, lp_supported_namespaces e, lp_instance e)) (caches r)"

definition scheme_offers ::
  "('w, 'v) scheme_provider schemes_entry list \<Rightarrow> (string \<times> string list \<times> ('w, 'v) scheme_provider) list" where
  "scheme_offers ps = map (\<lambda>e. (m_id (lp_manifest e), lp_supported_schemes e, lp_instance e)) ps"

definition route_offers :: "'w registry \<Rightarrow> (string \<times> route_spec list \<times> http_route_overrides) list" where
  "route_offers r = map (\<lambda>e. (lp_entity_name e, lp_routes e, lp_overrides e)) (http_routes r)"

text \<open>A table that is sorted, and each of whose rows one of the offers serves.\<close>

definition table_ok :: "(string \<Rightarrow> 'p \<Rightarrow> 'o \<Rightarrow> bool) \<Rightarrow> 'o list \<Rightarrow> (string, 'p) bmap \<Rightarrow> bool" where
  "table_ok serves offers tab =
     (sorted (map fst tab) \<and> distinct (map fst tab) \<and> list_all (\<lambda>(k, p). list_ex (serves k p) offers) tab)"

definition role_served :: "string \<Rightarrow> 'w plugin_object \<Rightarrow> string list \<times> 'w plugin_object \<Rightarrow> bool" where
  "role_served k p = (\<lambda>(roles, q). q = p \<and> k \<in> set roles)"

definition namespace_served :: "string \<Rightarrow> 'w plugin_object \<Rightarrow> bool \<times> string list \<times> 'w plugin_object \<Rightarrow> bool" where
  "namespace_served k p = (\<lambda>(any, ns, q). q = p \<and> (any \<or> k \<in> set ns))"

definition scheme_served :: "string \<Rightarrow> ('w, 'v) scheme_provider \<Rightarrow> string \<times> string list \<times> ('w, 'v) scheme_provider \<Rightarrow> bool" where
  "scheme_served k p = (\<lambda>(i, schemes, q). q = p \<and> k \<in> set schemes \<and> scheme_permitted k i)"

definition bindings_ok :: "'w registry \<Rightarrow> bool" where
  "bindings_ok r =
     (table_ok role_served (role_offers r) (store_bindings r)
      \<and> table_ok namespace_served (namespace_offers r) (cache_bindings r)
      \<and> table_ok scheme_served (scheme_offers (secret_providers r)) (secret_scheme_bindings r)
      \<and> table_ok scheme_served (scheme_offers (config_providers r)) (config_scheme_bindings r))"

definition route_ok :: "string \<times> route_spec list \<times> http_route_overrides \<Rightarrow> bool" where
  "route_ok = (\<lambda>(entity, routes, ov). entity \<noteq> [] \<and> routes \<noteq> []
     \<and> (ov_allow_path_override ov \<longrightarrow>
          list_all (\<lambda>s. starts_with (rt_path s) ''/'' \<and> \<not> is_reserved_override_path (rt_path s)) routes))"

definition routes_ok :: "'w registry \<Rightarrow> bool" where
  "routes_ok r = list_all route_ok (route_offers r)"

text \<open>
  A step that leaves the binding tables alone and at most adds offers and sound routes keeps both.
\<close>

definition grows :: "'w registry \<Rightarrow> 'w registry \<Rightarrow> bool" where
  "grows r r' =
     (store_bindings r' = store_bindings r \<and> cache_bindings r' = cache_bindings r
      \<and> secret_scheme_bindings r' = secret_scheme_bindings r \<and> config_scheme_bindings r' = config_scheme_bindings r
      \<and> set (role_offers r) \<subseteq> set (role_offers r') \<and> set (namespace_offers r) \<subseteq> set (namespace_offers r')
      \<and> set (scheme_offers (secret_providers r)) \<subseteq> set (scheme_offers (secret_providers r'))
      \<and> set (scheme_offers (config_providers r)) \<subseteq> set (scheme_offers (config_providers r'))
      \<and> (\<forall>e \<in> set (route_offers r'). e \<in> set (route_offers r) \<or> route_ok e))"

lemmas offers_defs = role_offers_def namespace_offers_def scheme_offers_def route_offers_def

lemma table_ok_mono: "table_ok serves os tab \<Longrightarrow> set os \<subseteq> set os' \<Longrightarrow> table_ok serves os' tab"
  by (fastforce simp: table_ok_def list_all_iff list_ex_iff)

lemma table_ok_insert:
  assumes "table_ok serves os tab" and "list_ex (serves k p) os"
  shows "table_ok serves os (bt_insert k p tab)"
  using assms bt_insert_sorted [of tab k p] bt_insert_setD [of _ k p tab]
  by (fastforce simp: table_ok_def list_all_iff)

lemma grows_keeps: "grows r r' \<Longrightarrow> bindings_ok r \<and> routes_ok r \<Longrightarrow> bindings_ok r' \<and> routes_ok r'"
  unfolding grows_def bindings_ok_def routes_ok_def list_all_iff
  by (auto intro: table_ok_mono)

lemma register_grows:
  "register_tool_gate_with_alias now al pg t c e r = Inr r' \<Longrightarrow> grows r r'"
  "register_transform_with_alias now al pt t c r = Inr r' \<Longrightarrow> grows r r'"
  "register_identity_with_alias now al pi t c r = Inr r' \<Longrightarrow> grows r r'"
  "register_catalog_provider_with_alias now al po t c r = Inr r' \<Longrightarrow> grows r r'"
  "register_backend_with_alias al po t r = Inr r' \<Longrightarrow> grows r r'"
  "register_content_store_with_alias al po t r = Inr r' \<Longrightarrow> grows r r'"
  "register_watch_strategy_with_alias al po t r = Inr r' \<Longrightarrow> grows r r'"
  "register_audit_sink_with_alias al pa t r = Inr r' \<Longrightarrow> grows r r'"
  "register_telemetry_sink_with_alias al ps t r = Inr r' \<Longrightarrow> grows r r'"
  "register_log_sink_with_alias al ps t r = Inr r' \<Longrightarrow> grows r r'"
  "register_metrics_sink_with_alias al ps t r = Inr r' \<Longrightarrow> grows r r'"
  "register_store_with_alias al po t r = Inr r' \<Longrightarrow> grows r r'"
  "register_cache_with_alias al po t r = Inr r' \<Longrightarrow> grows r r'"
  "register_secret_provider_with_alias al pp t r = Inr r' \<Longrightarrow> grows r r'"
  "register_config_provider_with_alias al pc t r = Inr r' \<Longrightarrow> grows r r'"
  "register_transport_with_alias al po t r = Inr r' \<Longrightarrow> grows r r'"
  "register_policy_engine_with_alias al pe t r = Inr r' \<Longrightarrow> grows r r'"
  "register_cluster_backend_with_alias al po t f r = Inr r' \<Longrightarrow> grows r r'"
  "register_credential_issuer_with_alias al po t r = Inr r' \<Longrightarrow> grows r r'"
  "register_approval_notifier_with_alias al po t r = Inr r' \<Longrightarrow> grows r r'"
  by (auto simp: register_tool_gate_with_alias_def register_transform_with_alias_def register_identity_with_alias_def register_catalog_provider_with_alias_def register_backend_with_alias_def register_content_store_with_alias_def register_watch_strategy_with_alias_def register_audit_sink_with_alias_def register_telemetry_sink_with_alias_def register_log_sink_with_alias_def register_metrics_sink_with_alias_def register_store_with_alias_def register_cache_with_alias_def register_secret_provider_with_alias_def register_config_provider_with_alias_def register_transport_with_alias_def register_policy_engine_with_alias_def register_cluster_backend_with_alias_def register_credential_issuer_with_alias_def register_approval_notifier_with_alias_def
      Let_def grows_def offers_defs new_schemes_entry_def split: option.splits)

lemma check_override_paths_Inr:
  "check_override_paths i e ss = Inr u \<longleftrightarrow>
    list_all (\<lambda>s. starts_with (rt_path s) ''/'' \<and> \<not> is_reserved_override_path (rt_path s)) ss"
  by (induction i e ss rule: check_override_paths.induct) (auto split: if_splits)

lemma register_http_route_grows:
  assumes "register_http_route_with_alias_and_overrides al n p t ov caps r = Inr r'"
  shows "grows r r'"
proof -
  from assms obtain e where "r' = r\<lparr>http_routes := http_routes r @ [e]\<rparr>"
    and "route_ok (lp_entity_name e, lp_routes e, lp_overrides e)"
    by (auto simp: register_http_route_with_alias_and_overrides_def Let_def route_ok_def check_override_paths_Inr
        split: if_splits)
  then show ?thesis by (auto simp: grows_def offers_defs)
qed

lemma set_audit_sink_policy_grows: "set_audit_sink_policy name pol r = Inr r' \<Longrightarrow> grows r r'"
  by (auto simp: set_audit_sink_policy_def Let_def grows_def offers_defs split: if_splits)

lemma store_keeps_offers:
  "role_offers (store_state_cell i s r) = role_offers r"
  "namespace_offers (store_state_cell i s r) = namespace_offers r"
  "scheme_offers (secret_providers (store_state_cell i s r)) = scheme_offers (secret_providers r)"
  "scheme_offers (config_providers (store_state_cell i s r)) = scheme_offers (config_providers r)"
  "route_offers (store_state_cell i s r) = route_offers r"
  unfolding store_state_cell_def
  by (intro if_eqI [where f = role_offers] if_eqI [where f = namespace_offers]
      if_eqI [where f = "\<lambda>r. scheme_offers (secret_providers r)"]
      if_eqI [where f = "\<lambda>r. scheme_offers (config_providers r)"] if_eqI [where f = route_offers];
    simp add: offers_defs)+

lemma caps_keeps_offers:
  "role_offers (set_manifest_caps a cs r) = role_offers r"
  "namespace_offers (set_manifest_caps a cs r) = namespace_offers r"
  "scheme_offers (secret_providers (set_manifest_caps a cs r)) = scheme_offers (secret_providers r)"
  "scheme_offers (config_providers (set_manifest_caps a cs r)) = scheme_offers (config_providers r)"
  "route_offers (set_manifest_caps a cs r) = route_offers r"
  unfolding set_manifest_caps_def
  by (intro if_eqI [where f = role_offers] if_eqI [where f = namespace_offers]
      if_eqI [where f = "\<lambda>r. scheme_offers (secret_providers r)"]
      if_eqI [where f = "\<lambda>r. scheme_offers (config_providers r)"] if_eqI [where f = route_offers];
    simp add: offers_defs)+

section \<open>Binding steps\<close>

definition registry_sound :: "'w registry \<Rightarrow> bool" where
  "registry_sound r = (bindings_ok r \<and> routes_ok r)"

lemma grows_sound: "grows r r' \<Longrightarrow> registry_sound r \<Longrightarrow> registry_sound r'"
  unfolding registry_sound_def by (rule grows_keeps)

text \<open>A bind inserts one row, which a registered offer serves.\<close>

lemma bind_store_role_row:
  "bind_store_role k i r = Inr r' \<Longrightarrow>
    \<exists>p. list_ex (role_served k p) (role_offers r) \<and> r' = r\<lparr>store_bindings := bt_insert k p (store_bindings r)\<rparr>"
  by (auto simp: bind_store_role_def role_served_def role_offers_def list_ex_iff find_id_def mstore.wrap_eq
      dest!: find_SomeD split: option.splits)

lemma bind_cache_namespace_row:
  "bind_cache_namespace k i r = Inr r' \<Longrightarrow>
    \<exists>p. list_ex (namespace_served k p) (namespace_offers r) \<and> r' = r\<lparr>cache_bindings := bt_insert k p (cache_bindings r)\<rparr>"
  by (auto simp: bind_cache_namespace_def namespace_served_def namespace_offers_def list_ex_iff find_id_def mcache.wrap_eq
      dest!: find_SomeD split: option.splits)

lemma bind_secret_scheme_row:
  assumes "bind_secret_scheme k i r = Inr r'"
  shows "\<exists>p. list_ex (scheme_served k p) (scheme_offers (secret_providers r))
      \<and> r' = r\<lparr>secret_scheme_bindings := bt_insert k p (secret_scheme_bindings r)\<rparr>"
proof -
  from assms obtain e where "e \<in> set (secret_providers r)" "k \<in> set (lp_supported_schemes e)"
    "scheme_permitted k (m_id (lp_manifest e))"
    and r': "r' = r\<lparr>secret_scheme_bindings := bt_insert k (lp_instance e) (secret_scheme_bindings r)\<rparr>"
    by (auto simp: bind_secret_scheme_def find_id_def has_id_def msecret.wrap_eq dest!: find_SomeD split: option.splits)
  then have "list_ex (scheme_served k (lp_instance e)) (scheme_offers (secret_providers r))"
    by (auto simp: scheme_served_def scheme_offers_def list_ex_iff)
  with r' show ?thesis by (intro exI conjI)
qed

lemma bind_config_scheme_row:
  assumes "bind_config_scheme k i r = Inr r'"
  shows "\<exists>p. list_ex (scheme_served k p) (scheme_offers (config_providers r))
      \<and> r' = r\<lparr>config_scheme_bindings := bt_insert k p (config_scheme_bindings r)\<rparr>"
proof -
  from assms obtain e where "e \<in> set (config_providers r)" "k \<in> set (lp_supported_schemes e)"
    "scheme_permitted k (m_id (lp_manifest e))"
    and r': "r' = r\<lparr>config_scheme_bindings := bt_insert k (lp_instance e) (config_scheme_bindings r)\<rparr>"
    by (auto simp: bind_config_scheme_def find_id_def has_id_def mconfig.wrap_eq dest!: find_SomeD split: option.splits)
  then have "list_ex (scheme_served k (lp_instance e)) (scheme_offers (config_providers r))"
    by (auto simp: scheme_served_def scheme_offers_def list_ex_iff)
  with r' show ?thesis by (intro exI conjI)
qed

lemmas sound_defs = registry_sound_def bindings_ok_def routes_ok_def

lemma bind_sound:
  "bind_store_role k i r = Inr r' \<Longrightarrow> registry_sound r \<Longrightarrow> registry_sound r'"
  "bind_cache_namespace k i r = Inr r' \<Longrightarrow> registry_sound r \<Longrightarrow> registry_sound r'"
  "bind_secret_scheme k i r = Inr r' \<Longrightarrow> registry_sound r \<Longrightarrow> registry_sound r'"
  "bind_config_scheme k i r = Inr r' \<Longrightarrow> registry_sound r \<Longrightarrow> registry_sound r'"
  by ((drule bind_store_role_row bind_cache_namespace_row bind_secret_scheme_row bind_config_scheme_row,
      elim exE conjE, simp add: sound_defs offers_defs table_ok_insert)+)

lemma auto_bind_secret_sound:
  assumes "auto_bind_secret_provider_schemes r = Inr r'" and "registry_sound r"
  shows "registry_sound r'"
proof -
  from assms(1) obtain ps where "bind_pairs (\<lambda>r s. map_of (secret_scheme_bindings r) s \<noteq> None) bind_secret_scheme ps r = Inr r'"
    by (auto simp: auto_bind_secret_provider_schemes_def Let_def)
  then show ?thesis
    by (rule bind_pairs_induct [where P = "\<lambda>_. registry_sound"]) (use assms(2) bind_sound(3) in blast)+
qed

lemma auto_bind_config_sound:
  assumes "auto_bind_config_provider_schemes r = Inr r'" and "registry_sound r"
  shows "registry_sound r'"
proof -
  from assms(1) obtain ps where "bind_pairs (\<lambda>r s. map_of (config_scheme_bindings r) s \<noteq> None) bind_config_scheme ps r = Inr r'"
    by (auto simp: auto_bind_config_provider_schemes_def Let_def)
  then show ?thesis
    by (rule bind_pairs_induct [where P = "\<lambda>_. registry_sound"]) (use assms(2) bind_sound(4) in blast)+
qed

lemma store_keeps_tables:
  "store_bindings (store_state_cell i s r) = store_bindings r"
  "cache_bindings (store_state_cell i s r) = cache_bindings r"
  "secret_scheme_bindings (store_state_cell i s r) = secret_scheme_bindings r"
  "config_scheme_bindings (store_state_cell i s r) = config_scheme_bindings r"
  unfolding store_state_cell_def
  by (intro if_eqI [where f = store_bindings] if_eqI [where f = cache_bindings]
      if_eqI [where f = secret_scheme_bindings] if_eqI [where f = config_scheme_bindings]; simp)+

lemma caps_keeps_tables:
  "store_bindings (set_manifest_caps a cs r) = store_bindings r"
  "cache_bindings (set_manifest_caps a cs r) = cache_bindings r"
  "secret_scheme_bindings (set_manifest_caps a cs r) = secret_scheme_bindings r"
  "config_scheme_bindings (set_manifest_caps a cs r) = config_scheme_bindings r"
  unfolding set_manifest_caps_def
  by (intro if_eqI [where f = store_bindings] if_eqI [where f = cache_bindings]
      if_eqI [where f = secret_scheme_bindings] if_eqI [where f = config_scheme_bindings]; simp)+

lemma update_sound [simp]:
  "registry_sound (store_state_cell i s r) = registry_sound r"
  "registry_sound (set_manifest_caps a cs r) = registry_sound r"
  by (simp_all add: sound_defs store_keeps_offers store_keeps_tables caps_keeps_offers caps_keeps_tables)

lemma setters_sound:
  "registry_sound (set_audit_digest_key dk r) = registry_sound r"
  "registry_sound (set_audit_node_id ni r) = registry_sound r"
  "registry_sound (set_audit_request_policy rp r) = registry_sound r"
  "registry_sound (set_tool_call_audit_emission b c r) = registry_sound r"
  "registry_sound (record_granted_capabilities a cs r) = registry_sound r"
  "registry_sound (record_cred_resolve_allowlist a xs r) = registry_sound r"
  "registry_sound (extend_cred_resolve_allowlist a xs r) = registry_sound r"
  "registry_sound (record_cred_resolve_ref_allowlist a xs r) = registry_sound r"
  "registry_sound (extend_cred_resolve_ref_allowlist a xs r) = registry_sound r"
  "registry_sound (record_resource_resolve_allowlist a xs r) = registry_sound r"
  "registry_sound (extend_resource_resolve_allowlist a xs r) = registry_sound r"
  by (simp_all add: setter_defs sound_defs offers_defs)

lemma run_admin_sound: "run_admin op i r = Inr r' \<Longrightarrow> registry_sound r \<Longrightarrow> registry_sound r'"
  by (drule run_admin_result) auto

lemmas register_sound = register_grows [THEN grows_sound] register_http_route_grows [THEN grows_sound]
  set_audit_sink_policy_grows [THEN grows_sound]

lemma reg_step_sound: "reg_step r r' \<Longrightarrow> registry_sound r \<Longrightarrow> registry_sound r'"
  by (induction rule: reg_step.induct)
    (erule (1) register_sound bind_sound auto_bind_secret_sound auto_bind_config_sound run_admin_sound
      | simp only: setters_sound update_sound)+

lemma reachable_sound: "registry_reachable r \<Longrightarrow> registry_sound r"
proof (induction rule: registry_reachable.induct)
  case reach_new
  then show ?case by (simp add: sound_defs offers_defs table_ok_def registry_new_def)
qed (rule reg_step_sound)

lemma table_ok_lookup:
  "table_ok serves offers tab \<Longrightarrow> map_of tab k = Some p \<Longrightarrow> list_ex (serves k p) offers"
  by (fastforce simp: table_ok_def list_all_iff dest: map_of_SomeD)

lemma offers_served:
  "list_ex (role_served k p) (role_offers r) \<longleftrightarrow> (\<exists>e \<in> set (stores r). lp_instance e = p \<and> k \<in> set (lp_supported_roles e))"
  "list_ex (namespace_served k p) (namespace_offers r) \<longleftrightarrow>
    (\<exists>e \<in> set (caches r). lp_instance e = p \<and> (lp_serves_any e \<or> k \<in> set (lp_supported_namespaces e)))"
  "list_ex (scheme_served k q) (scheme_offers ps) \<longleftrightarrow>
    (\<exists>e \<in> set ps. lp_instance e = q \<and> k \<in> set (lp_supported_schemes e) \<and> scheme_permitted k (m_id (lp_manifest e)))"
  by (auto simp: role_served_def namespace_served_def scheme_served_def offers_defs list_ex_iff)

section \<open>Properties\<close>

text \<open>
  C5. Every registry that a host can build is well formed: after any sequence of registrations,
  bindings, auto-bind sweeps, operator and prober actions, settings and grants, aliases are unique across
  all twenty-one classes, every manifest passed validation, kinds, names and route entities are unique and
  not empty, and the keyed classes are keyed by the plugin's own id.
\<close>

theorem reachable_registry_wf:
  assumes "registry_reachable r"
  shows "registry_wf r"
  using assms by (induction rule: registry_reachable.induct) (auto intro: registry_new_wf reg_step_wf)

text \<open>
  C16. In every reachable registry, whatever is bound is served by a registered plugin that declared it:
  a store role, cache namespace, secret scheme or config scheme resolves to the instance of a registered
  entry whose own declaration covers the key, and the reserved schemes \<open>env\<close> and \<open>file\<close> only ever resolve
  to a built-in plugin. The binding tables stay sorted with one row per key.
\<close>

theorem reachable_bindings_are_served:
  assumes "registry_reachable r"
  shows "(store_for_role r k = Some p \<longrightarrow>
      (\<exists>e \<in> set (stores r). lp_instance e = p \<and> k \<in> set (lp_supported_roles e)))
    \<and> (cache_for_namespace r k = Some p \<longrightarrow>
      (\<exists>e \<in> set (caches r). lp_instance e = p \<and> (lp_serves_any e \<or> k \<in> set (lp_supported_namespaces e))))
    \<and> (secret_provider_for_scheme r k = Some q \<longrightarrow>
      (\<exists>e \<in> set (secret_providers r). lp_instance e = q \<and> k \<in> set (lp_supported_schemes e)
         \<and> (k \<in> {''env'', ''file''} \<longrightarrow> is_builtin_id (m_id (lp_manifest e)))))
    \<and> (config_provider_for_scheme r k = Some q' \<longrightarrow>
      (\<exists>e \<in> set (config_providers r). lp_instance e = q' \<and> k \<in> set (lp_supported_schemes e)
         \<and> (k \<in> {''env'', ''file''} \<longrightarrow> is_builtin_id (m_id (lp_manifest e)))))
    \<and> sorted (map fst (bound_secret_schemes r)) \<and> distinct (map fst (bound_secret_schemes r))
    \<and> sorted (map fst (bound_config_schemes r)) \<and> distinct (map fst (bound_config_schemes r))"
proof -
  have sound: "table_ok role_served (role_offers r) (store_bindings r)"
    "table_ok namespace_served (namespace_offers r) (cache_bindings r)"
    "table_ok scheme_served (scheme_offers (secret_providers r)) (secret_scheme_bindings r)"
    "table_ok scheme_served (scheme_offers (config_providers r)) (config_scheme_bindings r)"
    using reachable_sound [OF assms] by (simp_all add: sound_defs)
  have perm: "scheme_permitted k i \<longleftrightarrow> (k \<in> {''env'', ''file''} \<longrightarrow> is_builtin_id i)" for i
    by (simp add: scheme_permitted_def RESERVED_SCHEMES_def)
  have keys: "map fst (bound_secret_schemes r) = map fst (secret_scheme_bindings r)"
    "map fst (bound_config_schemes r) = map fst (config_scheme_bindings r)"
    by (simp_all add: bound_secret_schemes_def bound_config_schemes_def case_prod_beta)
  show ?thesis
    unfolding table_lookups perm [symmetric] keys
    using sound [THEN table_ok_lookup, unfolded offers_served] sound(3,4) by (simp add: table_ok_def)
qed

text \<open>
  In every reachable registry, a plugin never shadows the gateway's own paths: every HTTP route
  entry has a name and at least one route, and if it may use paths outside its own prefix then each of its
  paths is absolute, is not the root, and neither starts with a reserved prefix nor is one without its
  trailing slash.
\<close>

theorem reachable_routes_avoid_reserved_paths:
  assumes "registry_reachable r" and "e \<in> set (http_routes r)"
  shows "lp_entity_name e \<noteq> [] \<and> lp_routes e \<noteq> []
    \<and> (ov_allow_path_override (lp_overrides e) \<longrightarrow>
        (\<forall>s \<in> set (lp_routes e). starts_with (rt_path s) ''/'' \<and> rt_path s \<noteq> ''/''
           \<and> (\<forall>pre \<in> set RESERVED_OVERRIDE_PATH_PREFIXES.
                \<not> starts_with (rt_path s) pre \<and> rt_path s \<noteq> trim_end_matches (CHR ''/'') pre)))"
proof -
  have "route_ok (lp_entity_name e, lp_routes e, lp_overrides e)"
    using reachable_sound [OF assms(1)] assms(2) by (auto simp: sound_defs route_offers_def list_all_iff)
  then show ?thesis by (auto simp: route_ok_def list_all_iff is_reserved_override_path_def list_ex_iff)
qed

text \<open>A registry built by calls: a built-in provider bound to \<open>env\<close>, and an overriding route.\<close>

definition sample_env_provider :: "(trace, string) scheme_provider" where
  "sample_env_provider = sample_scheme_provider ''dev.mcpg.builtin.env'' [''env'']"

definition sample_route :: "trace plugin_object" where
  "sample_route = (sample_object ''h'' [] [])\<lparr>po_routes :=
     [\<lparr>rt_method = ''GET'', rt_path = ''/hook'', rt_requires_identity = False, rt_max_body_bytes = None\<rparr>]\<rparr>"

definition reached_1 :: "registry_error + trace registry" where
  "reached_1 = register_secret_provider_with_alias None sample_env_provider [] registry_new"

definition reached_2 :: "registry_error + trace registry" where
  "reached_2 = register_http_route_with_alias_and_overrides None ''hooks'' sample_route []
     (default_overrides\<lparr>ov_allow_path_override := True\<rparr>) [HttpRouteServe] (projr reached_1)"

definition reached_3 :: "registry_error + trace registry" where
  "reached_3 = bind_secret_scheme ''env'' ''dev.mcpg.builtin.env'' (projr reached_2)"

lemma is_ok_projr: "is_ok x \<Longrightarrow> x = Inr (projr x)"
  by (cases x) simp_all

lemma reached_ok: "is_ok reached_1" "is_ok reached_2" "is_ok reached_3"
  by code_simp+

lemma reached_reachable: "registry_reachable (projr reached_3)"
proof -
  note e = reached_ok [THEN is_ok_projr]
  have "registry_reachable (projr reached_1)"
    by (rule reach_step [OF reach_new reg_secret_provider]) (rule trans [OF reached_1_def [symmetric] e(1)])
  then have "registry_reachable (projr reached_2)"
    by (rule reach_step [OF _ reg_http_route]) (rule trans [OF reached_2_def [symmetric] e(2)])
  then show ?thesis
    by (rule reach_step [OF _ bind_secret]) (rule trans [OF reached_3_def [symmetric] e(3)])
qed

theorem reachable_registry_wf_witness: "registry_wf (projr reached_3)"
  by (rule reachable_registry_wf [OF reached_reachable])

theorem reachable_bindings_are_served_witness:
  "list_ex (\<lambda>e. ''env'' \<in> set (lp_supported_schemes e) \<and> is_builtin_id (m_id (lp_manifest e)))
     (secret_providers (projr reached_3))"
proof -
  have "secret_provider_for_scheme (projr reached_3) ''env'' \<noteq> None" by code_simp
  then obtain q where "secret_provider_for_scheme (projr reached_3) ''env'' = Some q" by fastforce
  with reachable_bindings_are_served [OF reached_reachable, of "''env''" _ q]
  have "\<exists>e \<in> set (secret_providers (projr reached_3)). ''env'' \<in> set (lp_supported_schemes e)
      \<and> is_builtin_id (m_id (lp_manifest e))" by fastforce
  then show ?thesis by (simp add: list_ex_iff)
qed

theorem reachable_routes_avoid_reserved_paths_witness:
  "http_routes (projr reached_3) \<noteq> [] \<and> lp_routes (hd (http_routes (projr reached_3))) \<noteq> []
   \<and> \<not> starts_with (rt_path (hd (lp_routes (hd (http_routes (projr reached_3)))))) ''/mcp''"
proof -
  have ne: "http_routes (projr reached_3) \<noteq> []" and ov: "ov_allow_path_override (lp_overrides (hd (http_routes (projr reached_3))))"
    by code_simp+
  with reachable_routes_avoid_reserved_paths [OF reached_reachable, of "hd (http_routes (projr reached_3))"]
  show ?thesis by (auto simp: RESERVED_OVERRIDE_PATH_PREFIXES_def)
qed

end
