(* ===== verification/Bytes.thy ===== *)
theory Bytes
  imports Host_Prelude "HOL-Library.Word"
begin

text \<open>
  Bytes and their textual forms, as several components use them: fixed-width digits of a machine
  integer (\<open>to_be_bytes\<close>, \<open>{:016x}\<close>), \<open>from_str_radix(_, 16)\<close>, the ASCII classes, \<open>trim\<close> and
  \<open>to_ascii_lowercase\<close>, and the \<open>constant_time_eq\<close> of \<open>identity_sig.rs\<close> and \<open>verify.rs\<close>. A byte
  string is a \<open>string\<close>: a character is one byte.
\<close>

unbundle bit_operations_syntax

section \<open>Digits\<close>

fun base_digits :: "nat \<Rightarrow> nat \<Rightarrow> nat \<Rightarrow> nat list" where
  "base_digits b 0 x = []"
| "base_digits b (Suc n) x = base_digits b n (x div b) @ [x mod b]"

definition digits_value :: "nat \<Rightarrow> nat list \<Rightarrow> nat" where
  "digits_value b ds = foldl (\<lambda>a d. b * a + d) 0 ds"

lemma digits_value_snoc [simp]: "digits_value b (ds @ [d]) = b * digits_value b ds + d"
  by (simp add: digits_value_def)

lemma length_base_digits [simp]: "length (base_digits b n x) = n"
  by (induction b n x rule: base_digits.induct) simp_all

lemma digits_value_base_digits: "digits_value b (base_digits b n x) = x mod b ^ n"
proof (induction b n x rule: base_digits.induct)
  case (1 b x)
  then show ?case by (simp add: digits_value_def)
next
  case (2 b n x)
  then show ?case by (simp add: mod_mult2_eq add.commute)
qed

lemma base_digits_less: "0 < b \<Longrightarrow> d \<in> set (base_digits b n x) \<Longrightarrow> d < b"
  by (induction b n x rule: base_digits.induct) auto

lemma base_digits_inject: "x < b ^ n \<Longrightarrow> y < b ^ n \<Longrightarrow> base_digits b n x = base_digits b n y \<longleftrightarrow> x = y"
  by (metis digits_value_base_digits mod_less)

section \<open>Hexadecimal\<close>

definition hex_char :: "nat \<Rightarrow> char" where
  "hex_char d = char_of (if d < 10 then 48 + d else 87 + d)"

text \<open>\<open>char::to_digit(16)\<close>: both cases are accepted.\<close>

definition hex_val :: "char \<Rightarrow> nat option" where
  "hex_val c = (let n = of_char c :: nat in
     if 48 \<le> n \<and> n \<le> 57 then Some (n - 48)
     else if 97 \<le> n \<and> n \<le> 102 then Some (n - 87)
     else if 65 \<le> n \<and> n \<le> 70 then Some (n - 55)
     else None)"

definition hex16 :: "64 word \<Rightarrow> string" where
  "hex16 d = map hex_char (base_digits 16 16 (unat d))"

fun hex_vals :: "string \<Rightarrow> nat list option" where
  "hex_vals [] = Some []"
| "hex_vals (c # s) =
     (case hex_val c of None \<Rightarrow> None | Some v \<Rightarrow>
        (case hex_vals s of None \<Rightarrow> None | Some vs \<Rightarrow> Some (v # vs)))"

text \<open>
  \<open>u64::from_str_radix(s, 16)\<close>: one leading plus sign is accepted, an empty digit string and a value
  that does not fit are errors.
\<close>

definition u64_from_hex :: "string \<Rightarrow> 64 word option" where
  "u64_from_hex s =
     (let ds = (case s of c # t \<Rightarrow> if c = CHR ''+'' then t else s | [] \<Rightarrow> [])
      in if ds = [] then None
         else (case hex_vals ds of
                 None \<Rightarrow> None
               | Some vs \<Rightarrow> if digits_value 16 vs < 2 ^ 64 then Some (word_of_nat (digits_value 16 vs)) else None))"

lemma hex_val_char [simp]: "d < 16 \<Longrightarrow> hex_val (hex_char d) = Some d"
  by (auto simp: hex_val_def hex_char_def Let_def)

lemma hex_vals_chars: "list_all (\<lambda>d. d < 16) ds \<Longrightarrow> hex_vals (map hex_char ds) = Some ds"
  by (induction ds) auto

lemma hex_char_code:
  "d < 16 \<Longrightarrow> (of_char (hex_char d) :: nat) \<in> {48..57} \<union> {97..102}"
  by (auto simp: hex_char_def)

lemma hex_char_neq: "d < 16 \<Longrightarrow> hex_char d \<noteq> CHR ''+''" "d < 16 \<Longrightarrow> hex_char d \<noteq> CHR '':''"
  using hex_char_code [of d] by auto

lemma u64_less: "unat (d :: 64 word) < 18446744073709551616"
  using unsigned_less [where w = d and 'a = nat] by simp

lemma u64_hex_roundtrip [simp]: "u64_from_hex (hex16 d) = Some d"
proof -
  let ?ds = "base_digits 16 16 (unat d)"
  have less: "list_all (\<lambda>d. d < 16) ?ds" by (auto simp: list_all_iff dest: base_digits_less [rotated])
  have "?ds \<noteq> []" by (metis length_base_digits list.size(3) zero_neq_numeral)
  then obtain x xs where ds: "?ds = x # xs" by (cases ?ds) auto
  with less have "hex_char x \<noteq> CHR ''+''" by (simp add: hex_char_neq)
  moreover have "digits_value 16 ?ds = unat d"
    using u64_less [of d] by (simp add: digits_value_base_digits)
  moreover have "unat d < 2 ^ 64" using u64_less [of d] by simp
  ultimately show ?thesis
    using hex_vals_chars [OF less] ds by (simp add: u64_from_hex_def hex16_def Let_def)
qed

lemma hex16_inject [simp]: "hex16 d = hex16 e \<longleftrightarrow> d = e"
  by (metis option.inject u64_hex_roundtrip)

lemma hex16_no_colon: "CHR '':'' \<notin> set (hex16 d)"
proof
  assume "CHR '':'' \<in> set (hex16 d)"
  then obtain x where "x \<in> set (base_digits 16 16 (unat d))" "hex_char x = CHR '':''"
    by (auto simp: hex16_def)
  with base_digits_less [of 16 x 16 "unat d"] hex_char_neq(2) [of x] show False by auto
qed

definition to_be_bytes :: "64 word \<Rightarrow> string" where
  "to_be_bytes d = map char_of (base_digits 256 8 (unat d))"

lemma length_to_be_bytes [simp]: "length (to_be_bytes d) = 8"
  by (simp add: to_be_bytes_def)

lemma to_be_bytes_inject [simp]: "to_be_bytes d = to_be_bytes e \<longleftrightarrow> d = e"
proof
  assume "to_be_bytes d = to_be_bytes e"
  then have "map of_char (to_be_bytes d) = map (of_char :: char \<Rightarrow> nat) (to_be_bytes e)" by simp
  moreover have "map of_char (to_be_bytes x) = base_digits 256 8 (unat x)" for x
    unfolding to_be_bytes_def list.map_comp
    by (rule map_idI) (auto dest: base_digits_less [rotated])
  ultimately have "base_digits 256 8 (unat d) = base_digits 256 8 (unat e)" by simp
  then show "d = e"
    using u64_less [of d] u64_less [of e] by (subst (asm) base_digits_inject) (simp_all add: word_unat_eq_iff)
qed simp

section \<open>Comparison in constant time\<close>

definition byte :: "char \<Rightarrow> 8 word" where
  "byte c = word_of_nat (of_char c)"

definition constant_time_eq :: "string \<Rightarrow> string \<Rightarrow> bool" where
  "constant_time_eq a b =
     (if length a \<noteq> length b then False
      else fold (\<lambda>(x, y) diff. diff OR (byte x XOR byte y)) (zip a b) 0 = 0)"

lemma byte_inject [simp]: "byte x = byte y \<longleftrightarrow> x = y"
proof
  assume "byte x = byte y"
  then have "(of_char x :: nat) mod 2 ^ 8 = (of_char y :: nat) mod 2 ^ 8"
    by (simp add: byte_def word_of_nat_eq_iff take_bit_eq_mod)
  moreover have "(of_char c :: nat) < 2 ^ 8" for c using nat_of_char_less_256 [of c] by simp
  ultimately show "x = y" by (metis mod_less of_char_eq_iff)
qed simp

lemma word_or_zero: "x OR y = 0 \<longleftrightarrow> x = 0 \<and> y = (0 :: 'a::len word)"
  by (auto simp: bit_eq_iff bit_or_iff)

lemma word_xor_zero: "x XOR y = 0 \<longleftrightarrow> x = (y :: 'a::len word)"
  by (auto simp: bit_eq_iff bit_xor_iff)

text \<open>The accumulated difference is zero exactly when every pair of bytes agrees.\<close>

lemma fold_diff_zero:
  "fold (\<lambda>(x, y) diff. diff OR (byte x XOR byte y)) ps d = 0 \<longleftrightarrow> d = 0 \<and> list_all (\<lambda>(x, y). x = y) ps"
proof (induction ps arbitrary: d)
  case (Cons p ps)
  then show ?case by (cases p) (simp add: word_or_zero word_xor_zero conj_assoc)
qed simp

lemma list_all_zip_eq: "length a = length b \<Longrightarrow> list_all (\<lambda>(x, y). x = y) (zip a b) \<longleftrightarrow> a = b"
  by (induction a b rule: list_induct2) auto

lemma constant_time_eq_iff [simp]: "constant_time_eq a b \<longleftrightarrow> a = b"
  by (auto simp: constant_time_eq_def fold_diff_zero list_all_zip_eq)

section \<open>ASCII and UTF-8\<close>

text \<open>\<open>char::is_whitespace\<close> on the ASCII range, and the white space of two and three bytes.\<close>

definition is_space :: "char \<Rightarrow> bool" where
  "is_space c = (let n = of_char c :: nat in n = 32 \<or> (9 \<le> n \<and> n \<le> 13))"

definition is_space2 :: "char \<Rightarrow> char \<Rightarrow> bool" where
  "is_space2 c d = (of_char c = (0xC2 :: nat) \<and> of_char d \<in> {0x85, 0xA0 :: nat})"

definition is_space3 :: "char \<Rightarrow> char \<Rightarrow> char \<Rightarrow> bool" where
  "is_space3 c d e = (let a = of_char c :: nat; b = of_char d :: nat; n = of_char e :: nat in
     (a = 0xE1 \<and> b = 0x9A \<and> n = 0x80)
     \<or> (a = 0xE2 \<and> b = 0x80 \<and> (0x80 \<le> n \<and> n \<le> 0x8A \<or> n = 0xA8 \<or> n = 0xA9 \<or> n = 0xAF))
     \<or> (a = 0xE2 \<and> b = 0x81 \<and> n = 0x9F)
     \<or> (a = 0xE3 \<and> b = 0x80 \<and> n = 0x80))"

fun trim_start :: "string \<Rightarrow> string" where
  "trim_start [] = []"
| "trim_start [c] = (if is_space c then [] else [c])"
| "trim_start [c, d] = (if is_space c then trim_start [d] else if is_space2 c d then [] else [c, d])"
| "trim_start (c # d # e # s) =
     (if is_space c then trim_start (d # e # s)
      else if is_space2 c d then trim_start (e # s)
      else if is_space3 c d e then trim_start s
      else c # d # e # s)"

text \<open>The same from the end: the argument is the reversed text.\<close>

fun trim_last :: "string \<Rightarrow> string" where
  "trim_last [] = []"
| "trim_last [c] = (if is_space c then [] else [c])"
| "trim_last [d, c] = (if is_space d then trim_last [c] else if is_space2 c d then [] else [d, c])"
| "trim_last (e # d # c # s) =
     (if is_space e then trim_last (d # c # s)
      else if is_space2 d e then trim_last (c # s)
      else if is_space3 c d e then trim_last s
      else e # d # c # s)"

definition trim_str :: "string \<Rightarrow> string" where
  "trim_str s = rev (trim_last (rev (trim_start s)))"

text \<open>The byte sequences \<open>std::str::from_utf8\<close> accepts.\<close>

definition between :: "nat \<Rightarrow> nat \<Rightarrow> char \<Rightarrow> bool" where
  "between lo hi c = (lo \<le> of_char c \<and> of_char c \<le> hi)"

fun utf8_rest :: "nat \<Rightarrow> nat \<Rightarrow> nat \<Rightarrow> string \<Rightarrow> string option" where
  "utf8_rest lo hi (Suc n) (c # s) = (if between lo hi c then utf8_rest 0x80 0xBF n s else None)"
| "utf8_rest lo hi (Suc n) [] = None"
| "utf8_rest lo hi 0 s = Some s"

definition utf8_head :: "char \<Rightarrow> (nat \<times> nat \<times> nat) option" where
  "utf8_head c =
     (if between 0 0x7F c then Some (0, 0, 0)
      else if between 0xC2 0xDF c then Some (0x80, 0xBF, 1)
      else if between 0xE0 0xE0 c then Some (0xA0, 0xBF, 2)
      else if between 0xED 0xED c then Some (0x80, 0x9F, 2)
      else if between 0xE1 0xEF c then Some (0x80, 0xBF, 2)
      else if between 0xF0 0xF0 c then Some (0x90, 0xBF, 3)
      else if between 0xF4 0xF4 c then Some (0x80, 0x8F, 3)
      else if between 0xF1 0xF3 c then Some (0x80, 0xBF, 3)
      else None)"

lemma utf8_rest_length: "utf8_rest lo hi n s = Some r \<Longrightarrow> length r \<le> length s"
  by (induction lo hi n s rule: utf8_rest.induct) (auto split: if_splits)

function valid_utf8 :: "string \<Rightarrow> bool" where
  "valid_utf8 [] = True"
| "valid_utf8 (c # s) =
     (case utf8_head c of
        None \<Rightarrow> False
      | Some (lo, hi, n) \<Rightarrow> (case utf8_rest lo hi n s of None \<Rightarrow> False | Some r \<Rightarrow> valid_utf8 r))"
  by pat_completeness auto
termination
  by (relation "measure length") (auto dest: utf8_rest_length)

lemma valid_utf8_ascii: "list_all (between 0 0x7F) s \<Longrightarrow> valid_utf8 s"
  by (induction s) (simp_all add: utf8_head_def)

definition ascii_lower :: "char \<Rightarrow> char" where
  "ascii_lower c = (let n = of_char c :: nat in if 65 \<le> n \<and> n \<le> 90 then char_of (n + 32) else c)"

definition to_ascii_lowercase :: "string \<Rightarrow> string" where
  "to_ascii_lowercase s = map ascii_lower s"

definition is_ascii_hexdigit :: "char \<Rightarrow> bool" where
  "is_ascii_hexdigit c = (hex_val c \<noteq> None)"

text \<open>Lower-case hexadecimal, as \<open>hex::encode\<close> and the normalised lists write it.\<close>

definition is_lower_hex :: "char \<Rightarrow> bool" where
  "is_lower_hex c = (let n = of_char c :: nat in (48 \<le> n \<and> n \<le> 57) \<or> (97 \<le> n \<and> n \<le> 102))"

lemma ascii_lower_idem: "ascii_lower (ascii_lower c) = ascii_lower c"
  by (auto simp: ascii_lower_def Let_def)

lemma ascii_lower_hex: "is_ascii_hexdigit (ascii_lower c) \<longleftrightarrow> is_lower_hex (ascii_lower c)"
  by (auto simp: ascii_lower_def is_ascii_hexdigit_def hex_val_def is_lower_hex_def Let_def)

lemma ascii_lower_fixed: "is_lower_hex c \<Longrightarrow> ascii_lower c = c"
  by (auto simp: ascii_lower_def is_lower_hex_def Let_def)

lemma hex_not_space: "is_lower_hex c \<Longrightarrow> \<not> is_space c"
  by (auto simp: is_lower_hex_def is_space_def Let_def)

lemma hex_not_multibyte:
  "is_lower_hex c \<Longrightarrow> \<not> is_space2 c d" "is_lower_hex c \<Longrightarrow> \<not> is_space3 c d e"
  "is_lower_hex e \<Longrightarrow> \<not> is_space2 c e" "is_lower_hex e \<Longrightarrow> \<not> is_space3 c d e"
  by (auto simp: is_lower_hex_def is_space2_def is_space3_def Let_def)

lemma trim_start_hex: "list_all is_lower_hex s \<Longrightarrow> trim_start s = s"
  by (cases s rule: trim_start.cases) (simp_all add: hex_not_space hex_not_multibyte)

lemma trim_last_hex: "list_all is_lower_hex s \<Longrightarrow> trim_last s = s"
  by (cases s rule: trim_last.cases) (simp_all add: hex_not_space hex_not_multibyte)

lemma trim_lower_hex [simp]: "list_all is_lower_hex s \<Longrightarrow> to_ascii_lowercase (trim_str s) = s"
proof -
  assume h: "list_all is_lower_hex s"
  then have "trim_str s = s" by (simp add: trim_str_def trim_start_hex trim_last_hex list_all_rev)
  moreover have "map ascii_lower s = s" using h by (induction s) (auto simp: ascii_lower_fixed)
  ultimately show ?thesis by (simp add: to_ascii_lowercase_def)
qed

end
