(* ===== verification/Identity_Relay.thy ===== *)
theory Identity_Relay
  imports Bytes Samples
begin

text \<open>
  The integrity tag on identities that cross into a native plugin and back (\<open>identity_sig.rs\<close>), the
  dispatches of a \<open>HostBridge\<close> that give the tags their lifetime, and the host callbacks that act for a
  relayed identity (\<open>host_bridge.rs\<close>).

  The serialiser and the keyed hash are parameters (\<open>tk_ser\<close> for \<open>serde_json::to_vec\<close>, \<open>tk_hash\<close> for
  BLAKE3's keyed hash in hex); what a theorem needs of them is stated as \<open>unforged\<close> (a plugin, which has
  no key, cannot produce the hash of an input the host never hashed) and \<open>ser_faithful\<close>, for the inputs it
  speaks of. The callbacks are modelled after decoding: a malformed argument is \<open>None\<close>. A host service
  is a call whose answer is \<open>None\<close> when its task was dropped without an answer
  (\<open>block_on_host_service\<close>).
\<close>

section \<open>Tags\<close>

record tagger =
  tk_key :: string
  tk_hash :: "string \<Rightarrow> string \<Rightarrow> string"
  tk_ser :: "identity \<Rightarrow> string"

definition SIG_ATTR :: string where
  "SIG_ATTR = ''__mcpg_id_sig''"

definition TAG_VERSION :: string where
  "TAG_VERSION = ''2''"

text \<open>The identity without its tag.\<close>

definition bare :: "identity \<Rightarrow> identity" where
  "bare i = i\<lparr>id_attributes := AList.delete SIG_ATTR (id_attributes i)\<rparr>"

definition mac_data :: "tagger \<Rightarrow> identity \<Rightarrow> string \<Rightarrow> 64 word \<Rightarrow> string" where
  "mac_data t i a d = tk_ser t (bare i) @ [CHR 0x00] @ a @ [CHR 0x00] @ to_be_bytes d"

definition mac :: "tagger \<Rightarrow> identity \<Rightarrow> string \<Rightarrow> 64 word \<Rightarrow> string" where
  "mac t i a d = tk_hash t (tk_key t) (mac_data t i a d)"

definition tag_of :: "tagger \<Rightarrow> identity \<Rightarrow> string \<Rightarrow> 64 word \<Rightarrow> string" where
  "tag_of t i a d = TAG_VERSION @ '':'' @ hex16 d @ '':'' @ mac t i a d"

definition sign :: "tagger \<Rightarrow> identity \<Rightarrow> string \<Rightarrow> 64 word \<Rightarrow> identity" where
  "sign t i a d = i\<lparr>id_attributes := bt_insert SIG_ATTR (tag_of t i a d) (id_attributes i)\<rparr>"

definition verify_strip :: "tagger \<Rightarrow> identity \<Rightarrow> string \<Rightarrow> (64 word \<Rightarrow> bool) \<Rightarrow> identity option" where
  "verify_strip t i a is_live =
     (case map_of (id_attributes i) SIG_ATTR of
        None \<Rightarrow> None
      | Some presented \<Rightarrow>
     (case split_once_char (CHR '':'') presented of
        None \<Rightarrow> None
      | Some (version, rest) \<Rightarrow>
         if version \<noteq> TAG_VERSION then None
         else
     (case split_once_char (CHR '':'') rest of
        None \<Rightarrow> None
      | Some (dispatch_hex, presented_mac) \<Rightarrow>
     (case u64_from_hex dispatch_hex of
        None \<Rightarrow> None
      | Some d \<Rightarrow>
         if \<not> constant_time_eq presented_mac (mac t i a d) then None
         else if \<not> is_live d then None
         else Some (bare i)))))"

definition verified_or_none :: "tagger \<Rightarrow> identity option \<Rightarrow> string \<Rightarrow> (64 word \<Rightarrow> bool) \<Rightarrow> identity option" where
  "verified_or_none t i a is_live = (case i of None \<Rightarrow> None | Some j \<Rightarrow> verify_strip t j a is_live)"

section \<open>Dispatches\<close>

record host_bridge =
  hb_alias :: string
  hb_runtime :: bool
  hb_live :: "64 word set"
  hb_next :: "64 word"

definition bridge_new :: "string \<Rightarrow> bool \<Rightarrow> host_bridge" where
  "bridge_new a rt = \<lparr>hb_alias = a, hb_runtime = rt, hb_live = {}, hb_next = 1\<rparr>"

definition is_dispatch_live :: "host_bridge \<Rightarrow> 64 word \<Rightarrow> bool" where
  "is_dispatch_live b d = (d \<in> hb_live b)"

text \<open>\<open>fetch_add\<close> returns the old counter and wraps.\<close>

definition begin_dispatch :: "tagger \<Rightarrow> identity \<Rightarrow> host_bridge \<Rightarrow> identity \<times> 64 word \<times> host_bridge" where
  "begin_dispatch t i b =
     (let d = hb_next b
      in (sign t i (hb_alias b) d, d, b\<lparr>hb_next := d + 1, hb_live := insert d (hb_live b)\<rparr>))"

definition drop_dispatch :: "64 word \<Rightarrow> host_bridge \<Rightarrow> host_bridge" where
  "drop_dispatch d b = b\<lparr>hb_live := hb_live b - {d}\<rparr>"

section \<open>Callbacks that act for an identity\<close>

datatype credential_error = CredBackend string | CredNotAuthorized string | CredOther string
datatype backend_host_error = NotImplemented | HostBackend string string

record invocation_context =
  ic_identity :: "identity option"
  ic_initiating_backend :: string
  ic_rest :: json

type_synonym ('w, 'a) service = "'w \<Rightarrow> 'a option \<times> 'w"

record 'w host_services =
  hs_issue_credential :: "string \<Rightarrow> string \<Rightarrow> identity \<Rightarrow> ('w, credential_error + json) service"
  hs_resolve_credentials :: "string \<Rightarrow> json \<Rightarrow> identity option \<Rightarrow> ('w, backend_host_error + (json \<times> nat)) service"
  hs_invoke_tool :: "invocation_context \<Rightarrow> string \<Rightarrow> json \<Rightarrow> ('w, backend_host_error + json) service"

definition HOST_SERVICE_UNAVAILABLE :: string where
  "HOST_SERVICE_UNAVAILABLE = ''host service unavailable (gateway draining or internal error)''"

definition block_on_host_service :: "('w, 'a) service \<Rightarrow> 'a \<Rightarrow> 'w \<Rightarrow> 'a \<times> 'w" where
  "block_on_host_service svc on_unavailable w =
     (case svc w of (Some a, w') \<Rightarrow> (a, w') | (None, w') \<Rightarrow> (on_unavailable, w'))"

definition host_service_unavailable_backend :: "backend_host_error + 'a" where
  "host_service_unavailable_backend = Inl (HostBackend [] HOST_SERVICE_UNAVAILABLE)"

definition host_issue_credential ::
  "tagger \<Rightarrow> 'w host_services \<Rightarrow> host_bridge \<Rightarrow> string \<Rightarrow> identity option \<Rightarrow> 'w \<Rightarrow> (credential_error + json) \<times> 'w" where
  "host_issue_credential t svc b uri decoded w =
     (case decoded of
        None \<Rightarrow> (Inl (CredBackend ''malformed identity_json''), w)
      | Some i \<Rightarrow>
     (case verify_strip t i (hb_alias b) (is_dispatch_live b) of
        None \<Rightarrow> (Inl (CredNotAuthorized (hb_alias b)), w)
      | Some k \<Rightarrow>
         if hb_runtime b then
           block_on_host_service (hs_issue_credential svc (hb_alias b) uri k)
             (Inl (CredBackend HOST_SERVICE_UNAVAILABLE)) w
         else (Inl (CredBackend ''host bridge has no tokio runtime''), w)))"

text \<open>An identity that does not decode is no identity; a value that does not decode is an error.\<close>

definition host_resolve_credentials ::
  "tagger \<Rightarrow> 'w host_services \<Rightarrow> host_bridge \<Rightarrow> json option \<Rightarrow> identity option \<Rightarrow> 'w
    \<Rightarrow> (backend_host_error + (json \<times> nat)) \<times> 'w" where
  "host_resolve_credentials t svc b decoded_value decoded_identity w =
     (if hb_runtime b then
        (case decoded_value of
           None \<Rightarrow> (Inl (HostBackend [] ''resolve_credentials: invalid value JSON''), w)
         | Some v \<Rightarrow>
             block_on_host_service
               (hs_resolve_credentials svc (hb_alias b) v
                 (verified_or_none t decoded_identity (hb_alias b) (is_dispatch_live b)))
               host_service_unavailable_backend w)
      else (Inl NotImplemented, w))"

definition host_invoke_tool ::
  "tagger \<Rightarrow> 'w host_services \<Rightarrow> host_bridge \<Rightarrow> invocation_context option \<Rightarrow> string \<Rightarrow> json option \<Rightarrow> 'w
    \<Rightarrow> (backend_host_error + json) \<times> 'w" where
  "host_invoke_tool t svc b decoded_ctx tool_name decoded_args w =
     (if hb_runtime b then
        (case decoded_ctx of
           None \<Rightarrow> (Inl (HostBackend [] ''invoke_tool: invalid context JSON''), w)
         | Some ctx \<Rightarrow>
             block_on_host_service
               (hs_invoke_tool svc
                 (ctx\<lparr>ic_identity := verified_or_none t (ic_identity ctx) (hb_alias b) (is_dispatch_live b),
                      ic_initiating_backend := hb_alias b\<rparr>)
                 tool_name (unwrap_or JNull decoded_args))
               host_service_unavailable_backend w)
      else (Inl NotImplemented, w))"

section \<open>What a tag proves\<close>

lemma split_once_char_first:
  "d \<notin> set x \<Longrightarrow> split_once_char d (x @ d # y) = Some (x, y)"
  by (induction x) auto

lemma split_once_char_Some: "split_once_char d s = Some (x, y) \<Longrightarrow> s = x @ d # y \<and> d \<notin> set x"
  by (induction s arbitrary: x y) (auto split: if_splits option.splits)

lemma bare_attr [simp]: "map_of (id_attributes (bare i)) SIG_ATTR = None"
  by (simp add: bare_def delete_conv)

lemma delete_bt_insert: "AList.delete k (bt_insert k v m) = AList.delete k m"
  by (induction m) auto

lemma bare_sign [simp]: "bare (sign t i a d) = bare i"
  by (simp add: bare_def sign_def delete_bt_insert)

lemma mac_bare: "bare i = bare j \<Longrightarrow> mac t i a d = mac t j a d"
  by (simp add: mac_def mac_data_def)

text \<open>What \<open>verify_strip\<close> does with a tag the host formats.\<close>

lemma verify_strip_tag:
  assumes "map_of (id_attributes j) SIG_ATTR = Some (tag_of t i a' d)"
  shows "verify_strip t j a is_live = (if mac t i a' d = mac t j a d \<and> is_live d then Some (bare j) else None)"
proof -
  have "split_once_char (CHR '':'') (tag_of t i a' d) = Some (TAG_VERSION, hex16 d @ '':'' @ mac t i a' d)"
    by (simp add: tag_of_def TAG_VERSION_def)
  moreover have "split_once_char (CHR '':'') (hex16 d @ '':'' @ mac t i a' d) = Some (hex16 d, mac t i a' d)"
    using split_once_char_first [OF hex16_no_colon] by simp
  ultimately show ?thesis using assms by (simp add: verify_strip_def)
qed

lemma verify_strip_Some:
  "verify_strip t j a is_live = Some k \<longleftrightarrow>
     (\<exists>h d. map_of (id_attributes j) SIG_ATTR = Some (TAG_VERSION @ '':'' @ h @ '':'' @ mac t j a d)
       \<and> CHR '':'' \<notin> set h \<and> u64_from_hex h = Some d \<and> is_live d \<and> k = bare j)"
  (is "?l \<longleftrightarrow> ?r")
proof
  assume ?l
  then obtain h d where "map_of (id_attributes j) SIG_ATTR = Some (TAG_VERSION @ '':'' @ h @ '':'' @ mac t j a d)"
    "CHR '':'' \<notin> set h" "u64_from_hex h = Some d" "is_live d" "k = bare j"
    by (auto simp: verify_strip_def split: option.splits if_splits dest!: split_once_char_Some)
  then show ?r by blast
next
  assume ?r
  then obtain h d where tag: "map_of (id_attributes j) SIG_ATTR = Some (TAG_VERSION @ '':'' @ h @ '':'' @ mac t j a d)"
    and h: "CHR '':'' \<notin> set h" "u64_from_hex h = Some d" "is_live d" "k = bare j" by blast
  have "split_once_char (CHR '':'') (TAG_VERSION @ '':'' @ h @ '':'' @ mac t j a d) = Some (TAG_VERSION, h @ '':'' @ mac t j a d)"
    by (simp add: TAG_VERSION_def)
  with tag h split_once_char_first [OF h(1)] show ?l by (simp add: verify_strip_def)
qed

text \<open>
  What the host ever hashed under its process-wide key: the dispatches in the bridge's log, for its alias,
  and whatever bridges with other aliases signed (\<open>others\<close>; an alias has one bridge, the one whose log this is).
\<close>

definition minted ::
  "(64 word \<times> identity) list \<Rightarrow> string \<Rightarrow> (identity \<times> string \<times> 64 word) set \<Rightarrow> (identity \<times> string \<times> 64 word) set" where
  "minted log a others = {(i, a, d) |i d. (d, i) \<in> set log} \<union> {m \<in> others. fst (snd m) \<noteq> a}"

text \<open>
  Unforgeability of the keyed hash, for the tag an identity presents: if the tag ends in the hash of this
  identity for this alias and some dispatch, the host hashed that very input before.
\<close>

definition unforged :: "tagger \<Rightarrow> (identity \<times> string \<times> 64 word) set \<Rightarrow> string \<Rightarrow> identity \<Rightarrow> bool" where
  "unforged t M a j \<longleftrightarrow>
     (\<forall>u d. map_of (id_attributes j) SIG_ATTR = Some (u @ tk_hash t (tk_key t) (mac_data t j a d)) \<longrightarrow>
       (\<exists>(i, a', d') \<in> M. mac_data t j a d = mac_data t i a' d'))"

text \<open>\<open>serde_json\<close> escapes control characters, so it writes no NUL byte, and different identities differ in it.\<close>

definition ser_faithful :: "tagger \<Rightarrow> identity set \<Rightarrow> bool" where
  "ser_faithful t I \<longleftrightarrow>
     (\<forall>i \<in> I. CHR 0x00 \<notin> set (tk_ser t (bare i)))
     \<and> (\<forall>i \<in> I. \<forall>j \<in> I. tk_ser t (bare i) = tk_ser t (bare j) \<longrightarrow> bare i = bare j)"

lemma sep_inject:
  fixes c :: char
  assumes "c \<notin> set x" and "c \<notin> set y"
  shows "x @ c # u = y @ c # v \<longleftrightarrow> x = y \<and> u = v"
proof
  assume "x @ c # u = y @ c # v"
  then have "split_once_char c (x @ c # u) = split_once_char c (y @ c # v)" by (rule arg_cong)
  then show "x = y \<and> u = v" by (simp add: split_once_char_first [OF assms(1)] split_once_char_first [OF assms(2)])
qed simp

lemma mac_data_inject:
  assumes "ser_faithful t I" and "i \<in> I" and "j \<in> I"
  shows "mac_data t j a d = mac_data t i a' d' \<longleftrightarrow> bare j = bare i \<and> a = a' \<and> d = d'"
proof
  assume "mac_data t j a d = mac_data t i a' d'"
  then have "tk_ser t (bare j) @ CHR 0x00 # (a @ CHR 0x00 # to_be_bytes d)
      = tk_ser t (bare i) @ CHR 0x00 # (a' @ CHR 0x00 # to_be_bytes d')" by (simp add: mac_data_def)
  moreover have "CHR 0x00 \<notin> set (tk_ser t (bare j))" "CHR 0x00 \<notin> set (tk_ser t (bare i))"
    using assms by (simp_all add: ser_faithful_def)
  ultimately have "tk_ser t (bare j) = tk_ser t (bare i)" and "a @ CHR 0x00 # to_be_bytes d = a' @ CHR 0x00 # to_be_bytes d'"
    by (simp_all add: sep_inject)
  with assms show "bare j = bare i \<and> a = a' \<and> d = d'" by (auto simp: ser_faithful_def)
qed (simp add: mac_data_def)

section \<open>The life of a bridge\<close>

text \<open>
  Dispatches begin in order and each is retired at most once, when its guard is dropped; any number may
  be open. The log keeps every dispatch with the identity handed out.
\<close>

inductive bridge_run :: "tagger \<Rightarrow> (64 word \<times> identity) list \<Rightarrow> 64 word set \<Rightarrow> host_bridge \<Rightarrow> bool" for t where
  bridge_start: "bridge_run t [] {} (bridge_new a rt)"
| bridge_begin: "bridge_run t log gs b \<Longrightarrow> begin_dispatch t i b = (j, d, b')
    \<Longrightarrow> bridge_run t (log @ [(d, i)]) (insert d gs) b'"
| bridge_drop: "bridge_run t log gs b \<Longrightarrow> d \<in> gs \<Longrightarrow> bridge_run t log (gs - {d}) (drop_dispatch d b)"

lemma bridge_run_invariant:
  "bridge_run t log gs b \<Longrightarrow>
    hb_live b = gs \<and> hb_next b = word_of_nat (Suc (length log))
    \<and> map fst log = map word_of_nat [1..<Suc (length log)] \<and> gs \<subseteq> fst ` set log"
proof (induction rule: bridge_run.induct)
  case (bridge_begin log gs b i j d b')
  then have d: "d = word_of_nat (Suc (length log))"
    and b': "b' = b\<lparr>hb_next := d + 1, hb_live := insert d (hb_live b)\<rparr>"
    by (auto simp: begin_dispatch_def Let_def)
  have "[1..<Suc (length (log @ [(d, i)]))] = [1..<Suc (length log)] @ [Suc (length log)]" by simp
  then have m: "map fst (log @ [(d, i)]) = map word_of_nat [1..<Suc (length (log @ [(d, i)]))]"
    using bridge_begin.IH by (simp add: d del: upt_Suc)
  have n: "d + 1 = word_of_nat (Suc (length (log @ [(d, i)])))" by (simp add: d)
  have g: "insert d gs \<subseteq> fst ` set (log @ [(d, i)])" using bridge_begin.IH by auto
  from bridge_begin.IH have "hb_live b' = insert d gs" by (simp add: b')
  with m n g show ?case by (simp add: b' del: upt_Suc)
next
  case (bridge_drop log gs b d)
  then show ?case by (auto simp: drop_dispatch_def)
qed (simp add: bridge_new_def)

lemma word_of_nat_less_inj:
  assumes "m < 2 ^ 64" and "n < 2 ^ 64"
  shows "word_of_nat m = (word_of_nat n :: 64 word) \<longleftrightarrow> m = n"
  using assms by (simp add: word_of_nat_eq_iff take_bit_nat_eq_self_iff [THEN iffD2])


lemma bridge_nonces:
  assumes "bridge_run t log gs b" and "length log < 2 ^ 64"
  shows "distinct (map fst log) \<and> 0 \<notin> set (map fst log)"
proof -
  have m: "map fst log = map word_of_nat [1..<Suc (length log)]" using bridge_run_invariant [OF assms(1)] by simp
  have "inj_on (word_of_nat :: nat \<Rightarrow> 64 word) (set [1..<Suc (length log)])"
  proof (rule inj_onI)
    fix x y assume "x \<in> set [1..<Suc (length log)]" "y \<in> set [1..<Suc (length log)]" "word_of_nat x = (word_of_nat y :: 64 word)"
    moreover from this assms(2) have "x < 2 ^ 64" "y < 2 ^ 64" by auto
    ultimately show "x = y" by (simp only: word_of_nat_less_inj)
  qed
  moreover have "(0 :: 64 word) \<notin> word_of_nat ` set [1..<Suc (length log)]"
  proof
    assume "(0 :: 64 word) \<in> word_of_nat ` set [1..<Suc (length log)]"
    then obtain n where "n \<in> set [1..<Suc (length log)]" "word_of_nat n = (0 :: 64 word)" by (metis imageE)
    with assms(2) word_of_nat_less_inj [of n 0] show False by auto
  qed
  ultimately show ?thesis unfolding m by (simp add: distinct_map del: upt_Suc)
qed

text \<open>The tag of \<open>j\<close> names the open dispatch \<open>d\<close> of this bridge, begun for \<open>i\<close>, and \<open>j\<close> is still \<open>i\<close>.\<close>

definition relays :: "tagger \<Rightarrow> (64 word \<times> identity) list \<Rightarrow> 64 word set \<Rightarrow> string \<Rightarrow> identity \<Rightarrow> 64 word \<Rightarrow> identity \<Rightarrow> bool" where
  "relays t log gs a j d i \<longleftrightarrow> (d, i) \<in> set log \<and> d \<in> gs \<and> bare j = bare i
     \<and> (\<exists>h. CHR '':'' \<notin> set h \<and> u64_from_hex h = Some d
          \<and> map_of (id_attributes j) SIG_ATTR = Some (TAG_VERSION @ '':'' @ h @ '':'' @ mac t i a d))"

lemma relays_tag_of:
  "(d, i) \<in> set log \<Longrightarrow> d \<in> gs \<Longrightarrow> bare j = bare i \<Longrightarrow> map_of (id_attributes j) SIG_ATTR = Some (tag_of t i a d)
    \<Longrightarrow> relays t log gs a j d i"
  by (auto simp: relays_def tag_of_def intro!: exI [of _ "hex16 d"] hex16_no_colon)

lemma verify_in_run:
  assumes "bridge_run t log gs b" and "unforged t (minted log (hb_alias b) others) (hb_alias b) j"
    and "ser_faithful t (insert j (fst ` minted log (hb_alias b) others))"
  shows "verify_strip t j (hb_alias b) (is_dispatch_live b) = Some k \<longleftrightarrow>
    (\<exists>d i. relays t log gs (hb_alias b) j d i \<and> k = bare i)"
proof
  assume "verify_strip t j (hb_alias b) (is_dispatch_live b) = Some k"
  then obtain h d where tag: "map_of (id_attributes j) SIG_ATTR = Some (TAG_VERSION @ '':'' @ h @ '':'' @ mac t j (hb_alias b) d)"
    and h: "CHR '':'' \<notin> set h" "u64_from_hex h = Some d" and d: "d \<in> gs" and k: "k = bare j"
    using bridge_run_invariant [OF assms(1)] by (auto simp: verify_strip_Some is_dispatch_live_def)
  from tag have "map_of (id_attributes j) SIG_ATTR
      = Some ((TAG_VERSION @ '':'' @ h @ '':'') @ tk_hash t (tk_key t) (mac_data t j (hb_alias b) d))"
    by (simp add: mac_def)
  with assms(2) obtain i a' d' where m: "(i, a', d') \<in> minted log (hb_alias b) others"
    and eq: "mac_data t j (hb_alias b) d = mac_data t i a' d'"
    unfolding unforged_def by blast
  from m have "i \<in> insert j (fst ` minted log (hb_alias b) others)" by force
  from eq mac_data_inject [OF assms(3) this, of j] have same: "bare j = bare i" "hb_alias b = a'" "d = d'" by simp_all
  with m have "(d, i) \<in> set log" by (auto simp: minted_def)
  moreover from tag same(1) have "map_of (id_attributes j) SIG_ATTR = Some (TAG_VERSION @ '':'' @ h @ '':'' @ mac t i (hb_alias b) d)"
    using mac_bare [OF same(1), of t "hb_alias b" d] by simp
  ultimately show "\<exists>d i. relays t log gs (hb_alias b) j d i \<and> k = bare i"
    using h d k same(1) unfolding relays_def by metis
next
  assume "\<exists>d i. relays t log gs (hb_alias b) j d i \<and> k = bare i"
  then obtain d i h where r: "d \<in> gs" "bare j = bare i" "k = bare i" "CHR '':'' \<notin> set h" "u64_from_hex h = Some d"
    "map_of (id_attributes j) SIG_ATTR = Some (TAG_VERSION @ '':'' @ h @ '':'' @ mac t i (hb_alias b) d)"
    unfolding relays_def by blast
  moreover have "is_dispatch_live b d" using r(1) bridge_run_invariant [OF assms(1)] by (simp add: is_dispatch_live_def)
  ultimately show "verify_strip t j (hb_alias b) (is_dispatch_live b) = Some k"
    unfolding verify_strip_Some using mac_bare [OF r(2), of t "hb_alias b" d] by metis
qed

section \<open>Properties\<close>

text \<open>
  An identity survives the trip through its plugin: the identity the host signs for an alias and a
  dispatch verifies for that alias exactly while the dispatch is live, and comes back as the identity that
  was signed, without the tag; whatever it carried in the reserved attribute before is dropped.
\<close>

theorem signed_identity_roundtrip:
  "verify_strip t (sign t i a d) a is_live = (if is_live d then Some (bare i) else None)
   \<and> map_of (id_attributes (bare i)) = (map_of (id_attributes i))(SIG_ATTR := None)"
proof -
  have "map_of (id_attributes (sign t i a d)) SIG_ATTR = Some (tag_of t i a d)" by (simp add: sign_def)
  from verify_strip_tag [OF this, of a is_live] mac_bare [OF bare_sign, of t t i a d a d]
  have "verify_strip t (sign t i a d) a is_live = (if is_live d then Some (bare i) else None)" by simp
  moreover have "map_of (id_attributes (bare i)) = (map_of (id_attributes i))(SIG_ATTR := None)"
    by (simp add: bare_def delete_conv')
  ultimately show ?thesis by blast
qed

text \<open>
  C3. A plugin can only act for callers the host is serving through it. In every run of a bridge, let
  a plugin present any identity \<open>j\<close> whatsoever, with any tag or none. The only thing assumed of it is that the
  keyed hash is unforgeable: \<open>j\<close> does not carry the hash of an input the host never hashed, be it for this bridge
  or for others (and serialisation is faithful on the identities involved). Then there is one caller
  that all three callbacks act for: the credential callback calls the issuer for it, or refuses and calls
  nothing when there is none, and the other two pass it on, or no identity. There is a caller exactly when
  the tag of \<open>j\<close> names a dispatch of this bridge that is still open and was begun for an identity that \<open>j\<close>
  is, the tag apart; the caller is that identity, without a tag. So an identity with no tag, a mutated
  one, a tag of another plugin, of a finished dispatch, or of one dispatch under the number of another gives
  none, while the identity and tag the host handed out for an open dispatch give it back. The plugin
  cannot name another initiating backend.
\<close>

theorem relayed_identity_is_live_caller:
  assumes "bridge_run t log gs b" and "unforged t (minted log (hb_alias b) others) (hb_alias b) j"
    and "ser_faithful t (insert j (fst ` minted log (hb_alias b) others))"
  shows "\<exists>caller.
      host_issue_credential t svc b uri (Some j) w =
      (case caller of
         None \<Rightarrow> (Inl (CredNotAuthorized (hb_alias b)), w)
       | Some k \<Rightarrow> if hb_runtime b
           then block_on_host_service (hs_issue_credential svc (hb_alias b) uri k) (Inl (CredBackend HOST_SERVICE_UNAVAILABLE)) w
           else (Inl (CredBackend ''host bridge has no tokio runtime''), w))
    \<and> (hb_runtime b \<longrightarrow>
        host_resolve_credentials t svc b (Some v) (Some j) w =
          block_on_host_service (hs_resolve_credentials svc (hb_alias b) v caller) host_service_unavailable_backend w
        \<and> host_invoke_tool t svc b (Some \<lparr>ic_identity = Some j, ic_initiating_backend = other, ic_rest = x\<rparr>) name args w =
          block_on_host_service
            (hs_invoke_tool svc \<lparr>ic_identity = caller, ic_initiating_backend = hb_alias b, ic_rest = x\<rparr> name (unwrap_or JNull args))
            host_service_unavailable_backend w)
    \<and> (\<forall>k. caller = Some k \<longleftrightarrow>
        (\<exists>d i h. (d, i) \<in> set log \<and> d \<in> gs \<and> bare j = bare i \<and> k = bare i
          \<and> CHR '':'' \<notin> set h \<and> u64_from_hex h = Some d
          \<and> map_of (id_attributes j) SIG_ATTR = Some (''2:'' @ h @ '':'' @ mac t i (hb_alias b) d)))
    \<and> (\<forall>(d, i) \<in> set log. d \<in> gs \<and> bare j = bare i
          \<and> map_of (id_attributes j) SIG_ATTR = Some (tag_of t i (hb_alias b) d) \<longrightarrow> caller = Some (bare i))"
proof -
  let ?caller = "verify_strip t j (hb_alias b) (is_dispatch_live b)"
  note caller = verify_in_run [OF assms]
  have "?caller = Some k \<longleftrightarrow> (\<exists>d i h. (d, i) \<in> set log \<and> d \<in> gs \<and> bare j = bare i \<and> k = bare i
      \<and> CHR '':'' \<notin> set h \<and> u64_from_hex h = Some d
      \<and> map_of (id_attributes j) SIG_ATTR = Some (''2:'' @ h @ '':'' @ mac t i (hb_alias b) d))" for k
    unfolding caller relays_def by (simp add: TAG_VERSION_def) blast
  moreover have "\<forall>(d, i) \<in> set log. d \<in> gs \<and> bare j = bare i
      \<and> map_of (id_attributes j) SIG_ATTR = Some (tag_of t i (hb_alias b) d) \<longrightarrow> ?caller = Some (bare i)"
    using caller relays_tag_of by blast
  ultimately show ?thesis
    by (intro exI [of _ ?caller])
      (simp add: host_issue_credential_def host_resolve_credentials_def host_invoke_tool_def verified_or_none_def)
qed

text \<open>
  Dispatch numbers are never reused before the 64-bit counter wraps: for the first \<open>2^64 - 1\<close>
  dispatches of a bridge the numbers are 1, 2, 3, and so on, so no two dispatches share one, none is the
  reserved 0, and a tag that stopped verifying never verifies again. The live set is exactly the set of
  dispatches whose guard was not dropped yet.
\<close>

theorem dispatch_numbers_are_fresh:
  assumes "bridge_run t log gs b" and "length log < 2 ^ 64"
  shows "map fst log = map word_of_nat [1..<Suc (length log)] \<and> distinct (map fst log) \<and> 0 \<notin> set (map fst log)
    \<and> hb_live b = gs \<and> gs \<subseteq> fst ` set log
    \<and> (length log < 2 ^ 64 - 1 \<longrightarrow> hb_next b \<notin> fst ` set log \<and> hb_next b \<noteq> 0)"
proof -
  have "hb_next b \<notin> fst ` set log \<and> hb_next b \<noteq> 0" if "length log < 2 ^ 64 - 1" for i :: identity
  proof -
    obtain j d b' where bg: "begin_dispatch t i b = (j, d, b')" by (metis prod_cases3)
    then have d: "hb_next b = d" by (simp add: begin_dispatch_def Let_def)
    from bridge_nonces [OF bridge_begin [OF assms(1) bg]] that show ?thesis by (auto simp: d)
  qed
  with bridge_run_invariant [OF assms(1)] bridge_nonces [OF assms] show ?thesis by blast
qed

text \<open>A tagger on which identities differ by kind, and a bridge with one open and one finished dispatch.\<close>

definition sample_tagger :: tagger where
  "sample_tagger = \<lparr>tk_key = ''k'', tk_hash = (\<lambda>k x. k @ x), tk_ser = id_kind\<rparr>"

definition sample_bridge :: host_bridge where
  "sample_bridge = drop_dispatch 1 (snd (snd (begin_dispatch sample_tagger sample_identity
     (snd (snd (begin_dispatch sample_tagger sample_identity (bridge_new ''p'' True)))))))"

lemma sample_bridge_run: "bridge_run sample_tagger [(1, sample_identity), (2, sample_identity)] {2} sample_bridge"
proof -
  let ?b0 = "bridge_new ''p'' True"
  let ?b1 = "snd (snd (begin_dispatch sample_tagger sample_identity ?b0))"
  have "bridge_run sample_tagger ([] @ [(1, sample_identity)]) (insert 1 {}) ?b1"
    by (rule bridge_begin [OF bridge_start]) (simp add: begin_dispatch_def bridge_new_def Let_def)
  then have "bridge_run sample_tagger (([] @ [(1, sample_identity)]) @ [(2, sample_identity)]) (insert 2 (insert 1 {}))
      (snd (snd (begin_dispatch sample_tagger sample_identity ?b1)))"
    by (rule bridge_begin) (simp add: begin_dispatch_def bridge_new_def Let_def)
  then have "bridge_run sample_tagger (([] @ [(1, sample_identity)]) @ [(2, sample_identity)]) (insert 2 (insert 1 {}) - {1}) sample_bridge"
    unfolding sample_bridge_def by (rule bridge_drop) simp
  moreover have "insert 2 (insert 1 {}) - {1} = {2 :: 64 word}" by auto
  ultimately show ?thesis by simp
qed

definition sample_services :: "trace host_services" where
  "sample_services = \<lparr>hs_issue_credential = (\<lambda>a uri i w. (Some (Inr (JString uri)), w @ [id_kind i])),
     hs_resolve_credentials = (\<lambda>a v i w. (None, w)), hs_invoke_tool = (\<lambda>ctx name args w. (None, w))\<rparr>"

text \<open>The sample hash keeps its input, so a tag ends in the hash of an input only if it is the input of the tag.\<close>

lemma sample_tag_ends:
  assumes "tag_of sample_tagger i a d = u @ tk_hash sample_tagger (tk_key sample_tagger) (mac_data sample_tagger j a e)"
    and "bare j = bare i"
  shows "d = e"
proof -
  have "(TAG_VERSION @ '':'' @ hex16 d @ '':'') @ ''k'' @ mac_data sample_tagger i a d
      = u @ ''k'' @ mac_data sample_tagger j a e"
    using assms(1) by (simp add: tag_of_def mac_def sample_tagger_def)
  moreover have "length (mac_data sample_tagger i a d) = length (mac_data sample_tagger j a e)"
    using assms(2) by (simp add: mac_data_def)
  ultimately have "mac_data sample_tagger i a d = mac_data sample_tagger j a e"
    by (simp del: append_assoc append.simps)
  with assms(2) show ?thesis by (simp add: mac_data_def)
qed

theorem relayed_identity_is_live_caller_witness:
  "host_issue_credential sample_tagger sample_services sample_bridge ''u'' (Some (sign sample_tagger sample_identity ''p'' 1)) []
     = (Inl (CredNotAuthorized ''p''), [])
   \<and> host_issue_credential sample_tagger sample_services sample_bridge ''u'' (Some (sign sample_tagger sample_identity ''p'' 2)) []
     = (Inr (JString ''u''), [''user''])
   \<and> host_issue_credential sample_tagger sample_services sample_bridge ''u'' (Some (bare sample_identity)) []
     = (Inl (CredNotAuthorized ''p''), [])"
proof -
  let ?log = "[(1, sample_identity), (2, sample_identity)]"
  let ?M = "minted ?log (hb_alias sample_bridge) {}"
  have tag: "map_of (id_attributes (sign sample_tagger sample_identity ''p'' d)) SIG_ATTR
      = Some (tag_of sample_tagger sample_identity ''p'' d)" for d by (simp add: sign_def)
  have kind: "id_kind (bare sample_identity) = ''user''" by (simp add: bare_def sample_identity_def)
  have al: "hb_alias sample_bridge = ''p''" "hb_runtime sample_bridge"
    by (simp_all add: sample_bridge_def drop_dispatch_def begin_dispatch_def bridge_new_def Let_def)
  have m: "(sample_identity, ''p'', d) \<in> ?M" if "d \<in> {1, 2}" for d using that al by (auto simp: minted_def)
  have u: "unforged sample_tagger ?M (hb_alias sample_bridge) (sign sample_tagger sample_identity ''p'' d)"
    if "d \<in> {1, 2}" for d
    unfolding unforged_def al tag option.inject
  proof (intro allI impI)
    fix u e
    assume "tag_of sample_tagger sample_identity ''p'' d
      = u @ tk_hash sample_tagger (tk_key sample_tagger) (mac_data sample_tagger (sign sample_tagger sample_identity ''p'' d) ''p'' e)"
    then have "d = e" by (rule sample_tag_ends) simp
    then show "\<exists>(i, a', d') \<in> minted ?log ''p'' {}. mac_data sample_tagger (sign sample_tagger sample_identity ''p'' d) ''p'' e
        = mac_data sample_tagger i a' d'"
      using m [OF that] by (intro bexI [of _ "(sample_identity, ''p'', d)"]) (simp_all add: mac_data_def al)
  qed
  have u0: "unforged sample_tagger ?M (hb_alias sample_bridge) (bare sample_identity)" by (simp add: unforged_def)
  have bb: "bare (bare sample_identity) = bare sample_identity" by (simp add: bare_def sample_identity_def)
  have ids: "fst ` ?M \<subseteq> {sample_identity}" by (auto simp: minted_def)
  have f: "ser_faithful sample_tagger (insert j (fst ` ?M))" if "bare j = bare sample_identity" for j
  proof -
    have "bare i = bare sample_identity" if "i \<in> insert j (fst ` ?M)" for i
      using that subsetD [OF ids, of i] \<open>bare j = bare sample_identity\<close> by (elim insertE) (simp_all only: singleton_iff)
    then show ?thesis unfolding ser_faithful_def by (simp add: sample_tagger_def kind)
  qed
  have one: "(1 :: 64 word) \<in> {1, 2}" and two: "(2 :: 64 word) \<in> {1, 2}" by simp_all
  note law = relayed_identity_is_live_caller [OF sample_bridge_run _ f, where svc = sample_services and uri = "''u''" and w = "[]"
      and v = JNull and other = "[]" and x = JNull and name = "[]" and args = None]
  from law [OF u [OF one] bare_sign, unfolded al(1) singleton_iff] obtain c1 where
    c1: "host_issue_credential sample_tagger sample_services sample_bridge ''u'' (Some (sign sample_tagger sample_identity ''p'' 1)) []
      = (case c1 of None \<Rightarrow> (Inl (CredNotAuthorized ''p''), [])
         | Some k \<Rightarrow> if hb_runtime sample_bridge
             then block_on_host_service (hs_issue_credential sample_services ''p'' ''u'' k) (Inl (CredBackend HOST_SERVICE_UNAVAILABLE)) []
             else (Inl (CredBackend ''host bridge has no tokio runtime''), []))"
    and iff1: "\<forall>k. c1 = Some k \<longleftrightarrow> (\<exists>d i h. (d, i) \<in> set ?log \<and> d = 2
      \<and> bare (sign sample_tagger sample_identity ''p'' 1) = bare i \<and> k = bare i \<and> CHR '':'' \<notin> set h \<and> u64_from_hex h = Some d
      \<and> map_of (id_attributes (sign sample_tagger sample_identity ''p'' 1)) SIG_ATTR = Some (''2:'' @ h @ '':'' @ mac sample_tagger i ''p'' d))"
    by (elim exE conjE) (rule that)
  have "c1 = None"
  proof (rule ccontr)
    assume "c1 \<noteq> None"
    with iff1 obtain h i where i: "bare sample_identity = bare i"
      and "tag_of sample_tagger sample_identity ''p'' 1 = (''2:'' @ h @ '':'') @ tk_hash sample_tagger (tk_key sample_tagger) (mac_data sample_tagger i ''p'' 2)"
      by (auto simp: tag mac_def simp del: set_simps)
    from sample_tag_ends [OF this(2)] i show False by simp
  qed
  then have "host_issue_credential sample_tagger sample_services sample_bridge ''u'' (Some (sign sample_tagger sample_identity ''p'' 1)) []
      = (Inl (CredNotAuthorized ''p''), [])" using c1 by simp
  moreover have "host_issue_credential sample_tagger sample_services sample_bridge ''u'' (Some (sign sample_tagger sample_identity ''p'' 2)) []
      = (Inr (JString ''u''), [''user''])"
  proof -
    from law [OF u [OF two] bare_sign, unfolded al(1) singleton_iff] obtain c where
      "host_issue_credential sample_tagger sample_services sample_bridge ''u'' (Some (sign sample_tagger sample_identity ''p'' 2)) []
        = (case c of None \<Rightarrow> (Inl (CredNotAuthorized ''p''), [])
           | Some k \<Rightarrow> if hb_runtime sample_bridge
               then block_on_host_service (hs_issue_credential sample_services ''p'' ''u'' k) (Inl (CredBackend HOST_SERVICE_UNAVAILABLE)) []
               else (Inl (CredBackend ''host bridge has no tokio runtime''), []))"
      "\<forall>(d, i) \<in> set ?log. d = 2 \<and> bare (sign sample_tagger sample_identity ''p'' 2) = bare i
         \<and> map_of (id_attributes (sign sample_tagger sample_identity ''p'' 2)) SIG_ATTR = Some (tag_of sample_tagger i ''p'' d)
         \<longrightarrow> c = Some (bare i)"
      by (elim exE conjE) (rule that)
    then show ?thesis by (simp add: tag al(2) block_on_host_service_def sample_services_def kind)
  qed
  moreover have "host_issue_credential sample_tagger sample_services sample_bridge ''u'' (Some (bare sample_identity)) []
      = (Inl (CredNotAuthorized ''p''), [])"
  proof -
    from law [OF u0 bb, unfolded al(1) bare_attr] obtain c where
      "host_issue_credential sample_tagger sample_services sample_bridge ''u'' (Some (bare sample_identity)) []
        = (case c of None \<Rightarrow> (Inl (CredNotAuthorized ''p''), [])
           | Some k \<Rightarrow> if hb_runtime sample_bridge
               then block_on_host_service (hs_issue_credential sample_services ''p'' ''u'' k) (Inl (CredBackend HOST_SERVICE_UNAVAILABLE)) []
               else (Inl (CredBackend ''host bridge has no tokio runtime''), []))"
      "\<forall>k. c = Some k \<longrightarrow> False"
      by (elim exE conjE) (rule that, assumption, blast)
    then show ?thesis by (cases c) simp_all
  qed
  ultimately show ?thesis by blast
qed

theorem dispatch_numbers_are_fresh_witness: "hb_live sample_bridge = {2} \<and> hb_next sample_bridge \<noteq> 0"
  using dispatch_numbers_are_fresh [OF sample_bridge_run] by simp

end
