(* ===== verification/Files.thy ===== *)
theory Files
  imports Bytes
begin

text \<open>
  The operating system's file tree as the host's loaders use it (\<open>std::fs\<close>, \<open>std::path\<close>). A path is its
  list of components from the root, without \<open>.\<close>, \<open>..\<close> and symbolic links. A file system says what stands
  at each path and which paths the process may read and write; reading or creating a file fails with
  \<open>None\<close> exactly where the system call reports an error. Failures in the middle of writing a file that
  could be created are not represented.
\<close>

section \<open>Paths\<close>

type_synonym path = "string list"

text \<open>\<open>Path::join\<close> of one component.\<close>

definition join :: "path \<Rightarrow> string \<Rightarrow> path" where
  "join p name = p @ [name]"

lemma join_inject [simp]: "join p a = join q b \<longleftrightarrow> p = q \<and> a = b"
  by (simp add: join_def)

text \<open>Text before and after the last dot.\<close>

definition rsplit_dot :: "string \<Rightarrow> (string \<times> string) option" where
  "rsplit_dot s =
     (if CHR ''.'' \<in> set s then
        (let after = rev (takeWhile (\<lambda>c. c \<noteq> CHR ''.'') (rev s))
         in Some (take (length s - Suc (length after)) s, after))
      else None)"

definition file_stem :: "string \<Rightarrow> string" where
  "file_stem name = (case rsplit_dot name of Some (c # before, _) \<Rightarrow> c # before | _ \<Rightarrow> name)"

definition extension :: "string \<Rightarrow> string option" where
  "extension name = (case rsplit_dot name of Some (c # before, after) \<Rightarrow> Some after | _ \<Rightarrow> None)"

text \<open>\<open>Path::with_extension\<close> for an extension that is not empty.\<close>

definition with_extension :: "path \<Rightarrow> string \<Rightarrow> path" where
  "with_extension p ext = (if p = [] then [] else butlast p @ [file_stem (last p) @ ''.'' @ ext])"

section \<open>File systems\<close>

datatype node = File string | Dir

record file_system =
  fs_nodes :: "path \<Rightarrow> node option"
  fs_readable :: "path \<Rightarrow> bool"
  fs_writable :: "path \<Rightarrow> bool"

definition is_dir :: "file_system \<Rightarrow> path \<Rightarrow> bool" where
  "is_dir fs p = (p = [] \<or> fs_nodes fs p = Some Dir)"

definition is_file :: "file_system \<Rightarrow> path \<Rightarrow> bool" where
  "is_file fs p = (case fs_nodes fs p of Some (File _) \<Rightarrow> True | _ \<Rightarrow> False)"

definition path_exists :: "file_system \<Rightarrow> path \<Rightarrow> bool" where
  "path_exists fs p = (fs_nodes fs p \<noteq> None)"

text \<open>\<open>std::fs::read\<close> and \<open>File::open\<close> followed by reading to the end.\<close>

definition fs_read :: "file_system \<Rightarrow> path \<Rightarrow> string option" where
  "fs_read fs p = (case fs_nodes fs p of
     Some (File b) \<Rightarrow> if fs_readable fs p then Some b else None
   | _ \<Rightarrow> None)"

definition can_create :: "file_system \<Rightarrow> path \<Rightarrow> bool" where
  "can_create fs p = (p \<noteq> [] \<and> fs_writable fs p \<and> is_dir fs (butlast p) \<and> fs_nodes fs p \<noteq> Some Dir)"

text \<open>\<open>File::create\<close>, then the bytes written to the file.\<close>

definition fs_create :: "path \<Rightarrow> string \<Rightarrow> file_system \<Rightarrow> file_system option" where
  "fs_create p b fs = (if can_create fs p then Some (fs\<lparr>fs_nodes := (fs_nodes fs)(p \<mapsto> File b)\<rparr>) else None)"

text \<open>\<open>std::fs::create_dir_all\<close>: the directories made so far stay when one cannot be made.\<close>

fun mkdirs :: "path \<Rightarrow> string list \<Rightarrow> file_system \<Rightarrow> bool \<times> file_system" where
  "mkdirs base [] fs = (True, fs)"
| "mkdirs base (c # cs) fs =
     (let p = base @ [c] in
      case fs_nodes fs p of
        Some Dir \<Rightarrow> mkdirs p cs fs
      | Some (File _) \<Rightarrow> (False, fs)
      | None \<Rightarrow> if fs_writable fs p then mkdirs p cs (fs\<lparr>fs_nodes := (fs_nodes fs)(p \<mapsto> Dir)\<rparr>) else (False, fs))"

definition create_dir_all :: "path \<Rightarrow> file_system \<Rightarrow> bool \<times> file_system" where
  "create_dir_all p fs = mkdirs [] p fs"

section \<open>Laws\<close>

lemma dot_split: "CHR ''.'' \<in> set s \<Longrightarrow> rsplit_dot s = Some (a, b) \<Longrightarrow> s = a @ ''.'' @ b"
proof -
  assume dot: "CHR ''.'' \<in> set s" and r: "rsplit_dot s = Some (a, b)"
  let ?t = "takeWhile (\<lambda>c. c \<noteq> CHR ''.'') (rev s)" and ?d = "dropWhile (\<lambda>c. c \<noteq> CHR ''.'') (rev s)"
  from dot have "?d \<noteq> []" by (auto simp: dropWhile_eq_Nil_conv)
  then obtain rest where d: "?d = CHR ''.'' # rest"
    using hd_dropWhile [of "\<lambda>c. c \<noteq> CHR ''.''" "rev s"] by (cases ?d) auto
  have "rev s = ?t @ ?d" by simp
  with d have "s = rev (?t @ CHR ''.'' # rest)" by (metis rev_rev_ident)
  then have s: "s = rev rest @ ''.'' @ rev ?t" by simp
  with dot r have "b = rev ?t" by (simp add: rsplit_dot_def Let_def)
  moreover have "a = rev rest"
  proof -
    have "length s - Suc (length ?t) = length rest" using arg_cong [OF s, of length] by simp
    with dot r s show ?thesis by (simp add: rsplit_dot_def Let_def)
  qed
  ultimately show ?thesis using s by simp
qed

text \<open>A file with an extension keeps its whole name in front of the new one.\<close>

lemma stem_extension: "extension name = Some e \<Longrightarrow> file_stem name @ ''.'' @ e = name"
proof -
  assume e: "extension name = Some e"
  then obtain c before where r: "rsplit_dot name = Some (c # before, e)"
    by (auto simp: extension_def split: option.splits list.splits)
  then have "CHR ''.'' \<in> set name" by (auto simp: rsplit_dot_def split: if_splits)
  from dot_split [OF this r] r show ?thesis by (simp add: file_stem_def)
qed

lemma fs_read_cong:
  "fs_nodes fs p = fs_nodes fs' p \<Longrightarrow> fs_readable fs p = fs_readable fs' p \<Longrightarrow> fs_read fs p = fs_read fs' p"
  by (simp add: fs_read_def split: option.splits node.splits)

lemma fs_create_nodes:
  "fs_create p b fs = Some fs' \<Longrightarrow> fs_nodes fs' = (fs_nodes fs)(p \<mapsto> File b)
    \<and> fs_readable fs' = fs_readable fs \<and> fs_writable fs' = fs_writable fs"
  by (auto simp: fs_create_def split: if_splits)

lemma mkdirs_frame:
  "mkdirs base cs fs = (ok, fs') \<Longrightarrow>
    fs_readable fs' = fs_readable fs \<and> fs_writable fs' = fs_writable fs
    \<and> (fs_nodes fs' q = fs_nodes fs q
      \<or> (fs_nodes fs q = None \<and> fs_nodes fs' q = Some Dir \<and> strict_prefix base q \<and> prefix q (base @ cs)))"
proof (induction base cs fs arbitrary: ok fs' rule: mkdirs.induct)
  case (2 base c cs fs)
  show ?case
  proof (cases "fs_nodes fs (base @ [c])")
    case None
    show ?thesis
    proof (cases "fs_writable fs (base @ [c])")
      case True
      with None "2.prems" have "mkdirs (base @ [c]) cs (fs\<lparr>fs_nodes := (fs_nodes fs)(base @ [c] \<mapsto> Dir)\<rparr>) = (ok, fs')"
        by (simp add: Let_def)
      from "2.IH"(1) [OF refl None True this] None show ?thesis
        by (auto simp: strict_prefix_def prefix_def split: if_splits)
    next
      case False
      with None "2.prems" show ?thesis by (simp add: Let_def)
    qed
  next
    case (Some nd)
    show ?thesis
    proof (cases nd)
      case Dir
      with Some "2.prems" have "mkdirs (base @ [c]) cs fs = (ok, fs')" by (simp add: Let_def)
      from "2.IH"(2) [OF refl _ _ this] Some Dir show ?thesis
        by (auto simp: strict_prefix_def prefix_def)
    next
      case (File b)
      with Some "2.prems" show ?thesis by (simp add: Let_def)
    qed
  qed
qed simp

lemma create_dir_all_frame:
  assumes "create_dir_all t fs = (ok, fs')"
  shows "fs_readable fs' = fs_readable fs" and "fs_writable fs' = fs_writable fs"
    and "fs_nodes fs' q = fs_nodes fs q
      \<or> (fs_nodes fs q = None \<and> fs_nodes fs' q = Some Dir \<and> prefix q t)"
  using mkdirs_frame [OF assms [unfolded create_dir_all_def], of q] by auto

lemma mkdirs_dir: "mkdirs base cs fs = (True, fs') \<Longrightarrow> is_dir fs base \<Longrightarrow> is_dir fs' (base @ cs)"
proof (induction base cs fs rule: mkdirs.induct)
  case (2 base c cs fs)
  then show ?case by (auto simp: is_dir_def Let_def split: option.splits node.splits if_splits)
qed simp

lemma create_dir_all_dir: "create_dir_all t fs = (True, fs') \<Longrightarrow> is_dir fs' t"
  unfolding create_dir_all_def by (drule mkdirs_dir) (simp_all add: is_dir_def)

text \<open>Where the directory already stands, nothing happens.\<close>

lemma mkdirs_id:
  "(\<And>q. strict_prefix base q \<Longrightarrow> prefix q (base @ cs) \<Longrightarrow> fs_nodes fs q = Some Dir) \<Longrightarrow> mkdirs base cs fs = (True, fs)"
proof (induction base cs fs rule: mkdirs.induct)
  case (2 base c cs fs)
  have d: "fs_nodes fs (base @ [c]) = Some Dir" by (rule "2.prems") (simp_all add: strict_prefix_def)
  have "mkdirs (base @ [c]) cs fs = (True, fs)"
    by (rule "2.IH"(2) [OF refl d refl], rule "2.prems") (auto simp: strict_prefix_def prefix_def)
  with d show ?case by (simp add: Let_def)
qed simp

end
