(* ===== verification/Descriptor.thy ===== *)
theory Descriptor
  imports Files Protocol
begin

text \<open>
  The plugin descriptor (\<open>descriptor.rs\<close>): reading \<open>plugin.yaml\<close> from disk and comparing it with the
  manifest in the plugin's code. The YAML parser and the check of the watch strategies belong to other
  crates and are parameters.
\<close>

record plugin_descriptor =
  ds_schema :: string
  ds_id :: string
  ds_name :: string
  ds_class :: string
  ds_runtime :: string
  ds_protocol_version :: string
  ds_provides :: "string list"
  ds_provides_schemes :: "string list"
  ds_required_capabilities :: "capability list"
  ds_watch_strategies :: json

definition DESCRIPTOR_SCHEMA_V1 :: string where
  "DESCRIPTOR_SCHEMA_V1 = ''mcpg.dev/plugin/v1''"

datatype descriptor_error =
    DescriptorIo path
  | DescriptorParse path
  | UnknownSchema path string string
  | WatchStrategies path string
  | ManifestMismatch string string string

record descriptor_env =
  de_parse_yaml :: "string \<Rightarrow> plugin_descriptor option"
  de_validate_watch_strategies :: "plugin_descriptor \<Rightarrow> string option"

definition load_descriptor :: "descriptor_env \<Rightarrow> file_system \<Rightarrow> path \<Rightarrow> (descriptor_error, plugin_descriptor) rresult" where
  "load_descriptor env fs p =
     (case fs_read fs p of
        None \<Rightarrow> Inl (DescriptorIo p)
      | Some raw \<Rightarrow>
          if \<not> valid_utf8 raw then Inl (DescriptorIo p)
          else (case de_parse_yaml env raw of
                  None \<Rightarrow> Inl (DescriptorParse p)
                | Some d \<Rightarrow>
                    if ds_schema d \<noteq> DESCRIPTOR_SCHEMA_V1 then Inl (UnknownSchema p DESCRIPTOR_SCHEMA_V1 (ds_schema d))
                    else (case de_validate_watch_strategies env d of
                            Some reason \<Rightarrow> Inl (WatchStrategies p reason)
                          | None \<Rightarrow> Inr d)))"

text \<open>\<open>split('.').next()\<close>: the text before the first dot.\<close>

definition major :: "string \<Rightarrow> string" where
  "major v = hd (split_char (CHR ''.'') v)"

definition validate_descriptor :: "plugin_descriptor \<Rightarrow> manifest \<Rightarrow> (descriptor_error, unit) rresult" where
  "validate_descriptor d m =
     (if ds_id d \<noteq> m_id m then Inl (ManifestMismatch ''id'' (ds_id d) (m_id m))
      else if ds_name d \<noteq> m_name m then Inl (ManifestMismatch ''name'' (ds_name d) (m_name m))
      else if ds_class d \<noteq> m_plugin_class m then Inl (ManifestMismatch ''class'' (ds_class d) (m_plugin_class m))
      else if major (ds_protocol_version d) \<noteq> major (m_protocol_version m)
        then Inl (ManifestMismatch ''protocol_version'' (ds_protocol_version d) (m_protocol_version m))
      else if set (ds_provides d) \<noteq> set (m_provides m)
        then Inl (ManifestMismatch ''provides'' (join_str '','' (ds_provides d)) (join_str '','' (m_provides m)))
      else Inr ())"

text \<open>What a descriptor and a manifest have to agree on.\<close>

definition agrees :: "plugin_descriptor \<Rightarrow> manifest \<Rightarrow> bool" where
  "agrees d m = (ds_id d = m_id m \<and> ds_name d = m_name m \<and> ds_class d = m_plugin_class m
     \<and> major (ds_protocol_version d) = major (m_protocol_version m) \<and> set (ds_provides d) = set (m_provides m))"

lemma validate_descriptor_ok [simp]: "validate_descriptor d m = Inr u \<longleftrightarrow> agrees d m"
  by (cases u) (auto simp: validate_descriptor_def agrees_def)

lemma load_descriptor_ok:
  "load_descriptor env fs p = Inr d \<longleftrightarrow>
    (\<exists>raw. fs_read fs p = Some raw \<and> valid_utf8 raw \<and> de_parse_yaml env raw = Some d
      \<and> ds_schema d = DESCRIPTOR_SCHEMA_V1 \<and> de_validate_watch_strategies env d = None)"
  by (auto simp: load_descriptor_def split: option.splits if_splits)

text \<open>Only the one file is read.\<close>

lemma load_descriptor_local:
  "fs_read fs p = fs_read fs' p \<Longrightarrow> load_descriptor env fs p = load_descriptor env fs' p"
  by (simp add: load_descriptor_def)

end
