(* ===== verification/Artifact_Trust.thy ===== *)
theory Artifact_Trust
  imports Files Protocol
begin

text \<open>
  The checks a native artifact passes before it is loaded: \<open>signature.rs\<close> (the policy), \<open>revocation.rs\<close>
  (the operator's list), \<open>verify.rs\<close> (hashes, detached signatures) and \<open>native.rs\<close>
  (\<open>verify_native_artifact\<close>). SHA-256 is a streaming hasher that yields the digest in hexadecimal, and
  Ed25519 is a function from key, data and signature to a verdict (\<open>None\<close> when the key is no curve point):
  both are parameters.
\<close>

section \<open>Policy\<close>

datatype signature_policy = Disabled | Warn | Enforce

definition default_signature_policy :: signature_policy where
  "default_signature_policy = Enforce"

definition skips_verification :: "signature_policy \<Rightarrow> bool" where
  "skips_verification p = (p = Disabled)"

definition refuses_on_failure :: "signature_policy \<Rightarrow> bool" where
  "refuses_on_failure p = (p = Enforce)"

fun as_label :: "signature_policy \<Rightarrow> string" where
  "as_label Disabled = ''disabled''"
| "as_label Warn = ''warn''"
| "as_label Enforce = ''enforce''"

section \<open>Revocation list\<close>

record revocation_entry =
  rv_artifact_sha256 :: string
  rv_reason :: string
  rv_revoked_at :: "string option"

record revocation_list_file =
  rf_version :: nat
  rf_issued_at :: "string option"
  rf_revocations :: "revocation_entry list"

type_synonym revocation_list = "(string, revocation_entry) bmap"

datatype revocation_error =
    UnsupportedVersion nat
  | InvalidSha256 string
  | MissingReason string
  | DuplicateEntry string

definition SCHEMA_VERSION :: nat where
  "SCHEMA_VERSION = 1"

definition revocation_empty :: revocation_list where
  "revocation_empty = []"

definition revocation_len :: "revocation_list \<Rightarrow> nat" where
  "revocation_len l = length l"

definition revocation_lookup :: "revocation_list \<Rightarrow> string \<Rightarrow> revocation_entry option" where
  "revocation_lookup l sha = map_of l sha"

definition normalised_sha :: "revocation_entry \<Rightarrow> string" where
  "normalised_sha e = to_ascii_lowercase (trim_str (rv_artifact_sha256 e))"

text \<open>One pass over the entries; the keys already indexed are the ones \<open>seen\<close>.\<close>

fun index_entries :: "revocation_entry list \<Rightarrow> revocation_list \<Rightarrow> (revocation_error, revocation_list) rresult" where
  "index_entries [] l = Inr l"
| "index_entries (e # es) l =
     (let sha = normalised_sha e in
      if length sha \<noteq> 64 \<or> \<not> list_all is_ascii_hexdigit sha then Inl (InvalidSha256 (rv_artifact_sha256 e))
      else if trim_str (rv_reason e) = [] then Inl (MissingReason sha)
      else if map_of l sha \<noteq> None then Inl (DuplicateEntry sha)
      else index_entries es (bt_insert sha (e\<lparr>rv_artifact_sha256 := sha\<rparr>) l))"

definition revocation_from_file :: "revocation_list_file \<Rightarrow> (revocation_error, revocation_list) rresult" where
  "revocation_from_file f =
     (if rf_version f \<noteq> SCHEMA_VERSION then Inl (UnsupportedVersion (rf_version f))
      else index_entries (rf_revocations f) revocation_empty)"

datatype revocation_file_error = RevocationUnreadable path | RevocationUnparsable path | RevocationInvalid revocation_error

definition revocation_from_file_path ::
  "(string \<Rightarrow> revocation_list_file option) \<Rightarrow> file_system \<Rightarrow> path \<Rightarrow> (revocation_file_error, revocation_list) rresult" where
  "revocation_from_file_path parse fs p =
     (case fs_read fs p of
        None \<Rightarrow> Inl (RevocationUnreadable p)
      | Some b \<Rightarrow> (case parse b of
            None \<Rightarrow> Inl (RevocationUnparsable p)
          | Some f \<Rightarrow> (case revocation_from_file f of
                Inl e \<Rightarrow> Inl (RevocationInvalid e)
              | Inr l \<Rightarrow> Inr l)))"

section \<open>Hashes\<close>

record 'h hasher =
  hs_new :: 'h
  hs_update :: "'h \<Rightarrow> string \<Rightarrow> 'h"
  hs_hex :: "'h \<Rightarrow> string"

definition sha256_hex :: "'h hasher \<Rightarrow> string \<Rightarrow> string" where
  "sha256_hex hs b = hs_hex hs (hs_update hs (hs_new hs) b)"

text \<open>The file is hashed in buffers of 8192 bytes.\<close>

function hash_buffers :: "'h hasher \<Rightarrow> 'h \<Rightarrow> string \<Rightarrow> 'h" where
  "hash_buffers hs h b = (if b = [] then h else hash_buffers hs (hs_update hs h (take 8192 b)) (drop 8192 b))"
  by pat_completeness auto
termination
  by (relation "measure (\<lambda>(hs, h, b). length b)") auto

declare hash_buffers.simps [simp del]

definition sha256_file :: "'h hasher \<Rightarrow> file_system \<Rightarrow> path \<Rightarrow> string option" where
  "sha256_file hs fs p = (case fs_read fs p of
     None \<Rightarrow> None
   | Some b \<Rightarrow> Some (hs_hex hs (hash_buffers hs (hs_new hs) b)))"

definition verify_file_hash :: "'h hasher \<Rightarrow> file_system \<Rightarrow> path \<Rightarrow> string \<Rightarrow> bool option" where
  "verify_file_hash hs fs p expected = (case sha256_file hs fs p of
     None \<Rightarrow> None
   | Some actual \<Rightarrow> Some (constant_time_eq actual expected))"

section \<open>Detached signatures\<close>

type_synonym ed25519 = "string \<Rightarrow> string \<Rightarrow> string \<Rightarrow> bool option"

datatype signature_error = SigNotFound path | SigUnreadable path | SigLength nat | InvalidKey | ArtifactUnreadable path

definition verify_ed25519_signature :: "ed25519 \<Rightarrow> string \<Rightarrow> string \<Rightarrow> string \<Rightarrow> (signature_error, bool) rresult" where
  "verify_ed25519_signature ed key data sig = (case ed key data sig of None \<Rightarrow> Inl InvalidKey | Some v \<Rightarrow> Inr v)"

definition sig_path_for :: "path \<Rightarrow> path" where
  "sig_path_for p =
     (let ext = (case p of [] \<Rightarrow> None | _ \<Rightarrow> extension (last p));
          known = (case ext of Some e \<Rightarrow> if valid_utf8 e then Some e else None | None \<Rightarrow> None)
      in with_extension p (unwrap_or ''bin'' known @ ''.sig''))"

definition verify_signature_over_bytes ::
  "ed25519 \<Rightarrow> file_system \<Rightarrow> path \<Rightarrow> string \<Rightarrow> string \<Rightarrow> (signature_error, bool) rresult" where
  "verify_signature_over_bytes ed fs p bytes key =
     (let sp = sig_path_for p in
      if \<not> path_exists fs sp then Inl (SigNotFound sp)
      else (case fs_read fs sp of
              None \<Rightarrow> Inl (SigUnreadable sp)
            | Some sig \<Rightarrow>
                if length sig \<noteq> 64 then Inl (SigLength (length sig))
                else verify_ed25519_signature ed key bytes sig))"

definition verify_file_signature :: "ed25519 \<Rightarrow> file_system \<Rightarrow> path \<Rightarrow> string \<Rightarrow> (signature_error, bool) rresult" where
  "verify_file_signature ed fs p key =
     (case fs_read fs p of
        None \<Rightarrow> Inl (ArtifactUnreadable p)
      | Some b \<Rightarrow> verify_signature_over_bytes ed fs p b key)"

section \<open>The artifact check\<close>

datatype no_signature = NoTrustedKeys | NoValidSignature

fun try_keys :: "ed25519 \<Rightarrow> file_system \<Rightarrow> path \<Rightarrow> string \<Rightarrow> string list \<Rightarrow> (no_signature, unit) rresult" where
  "try_keys ed fs p bytes [] = Inl NoValidSignature"
| "try_keys ed fs p bytes (key # keys) =
     (case verify_signature_over_bytes ed fs p bytes key of
        Inr True \<Rightarrow> Inr ()
      | Inr False \<Rightarrow> try_keys ed fs p bytes keys
      | Inl e \<Rightarrow> try_keys ed fs p bytes keys)"

definition try_verify_signature ::
  "ed25519 \<Rightarrow> file_system \<Rightarrow> path \<Rightarrow> string \<Rightarrow> string list \<Rightarrow> (no_signature, unit) rresult" where
  "try_verify_signature ed fs p bytes keys =
     (if keys = [] then Inl NoTrustedKeys else try_keys ed fs p bytes keys)"

record native_verify_options =
  vo_expected_sha256 :: "string option"
  vo_trusted_public_keys :: "string list"
  vo_policy :: signature_policy
  vo_revocation_list :: "revocation_list option"

record native_verify_result =
  vr_artifact_hash :: string
  vr_signature_verified :: bool
  vr_source_path :: path

datatype verify_error =
    ReadFailed path
  | HashMismatch string string
  | SignatureFailed signature_policy bool no_signature
  | ArtifactRevoked revocation_entry

definition verify_native_artifact ::
  "'h hasher \<Rightarrow> ed25519 \<Rightarrow> file_system \<Rightarrow> path \<Rightarrow> native_verify_options \<Rightarrow> (verify_error, native_verify_result) rresult" where
  "verify_native_artifact hs ed fs p opts =
     (case fs_read fs p of
        None \<Rightarrow> Inl (ReadFailed p)
      | Some bytes \<Rightarrow>
          (let hash = sha256_hex hs bytes;
               keyed = (vo_trusted_public_keys opts \<noteq> [])
           in try_then (case vo_expected_sha256 opts of
                          None \<Rightarrow> Inr ()
                        | Some expected \<Rightarrow> ensure (hash = expected) (HashMismatch expected hash))
             (\<lambda>_. try_then
                (if skips_verification (vo_policy opts) then Inr False
                 else (case try_verify_signature ed fs p bytes (vo_trusted_public_keys opts) of
                         Inr _ \<Rightarrow> Inr True
                       | Inl failure \<Rightarrow>
                           if refuses_on_failure (vo_policy opts) \<or> keyed
                           then Inl (SignatureFailed (vo_policy opts) keyed failure)
                           else Inr False))
             (\<lambda>verified.
                case (case vo_revocation_list opts of None \<Rightarrow> None | Some l \<Rightarrow> revocation_lookup l hash) of
                  Some entry \<Rightarrow> Inl (ArtifactRevoked entry)
                | None \<Rightarrow> Inr \<lparr>vr_artifact_hash = hash, vr_signature_verified = verified, vr_source_path = p\<rparr>))))"

record native_plugin_meta =
  nm_manifest :: manifest
  nm_source_path :: "path option"
  nm_signature_verified :: bool
  nm_artifact_hash :: "string option"

definition into_meta :: "native_verify_result \<Rightarrow> manifest \<Rightarrow> native_plugin_meta" where
  "into_meta r m = \<lparr>nm_manifest = m, nm_source_path = Some (vr_source_path r),
     nm_signature_verified = vr_signature_verified r, nm_artifact_hash = Some (vr_artifact_hash r)\<rparr>"

section \<open>What the checks compute\<close>

text \<open>SHA-256 consumes its input as a stream and prints 64 lower-case digits.\<close>

definition streaming :: "'h hasher \<Rightarrow> bool" where
  "streaming hs = (\<forall>h a b. hs_update hs h (a @ b) = hs_update hs (hs_update hs h a) b \<and> hs_update hs h [] = h)"

definition lower_digests :: "'h hasher \<Rightarrow> bool" where
  "lower_digests hs = (\<forall>h. length (hs_hex hs h) = 64 \<and> list_all is_lower_hex (hs_hex hs h))"

lemma hash_buffers_stream: "streaming hs \<Longrightarrow> hash_buffers hs h b = hs_update hs h b"
proof (induction hs h b rule: hash_buffers.induct)
  case (1 hs h b)
  show ?case
  proof (cases "b = []")
    case True
    with "1.prems" show ?thesis by (simp add: hash_buffers.simps streaming_def)
  next
    case False
    with 1 have "hash_buffers hs h b = hs_update hs (hs_update hs h (take 8192 b)) (drop 8192 b)"
      by (simp add: hash_buffers.simps [of hs h b])
    also have "\<dots> = hs_update hs h (take 8192 b @ drop 8192 b)"
      using "1.prems" unfolding streaming_def by metis
    finally show ?thesis by simp
  qed
qed

text \<open>A trusted key vouches for the bytes through the signature file beside the artifact.\<close>

definition vouched :: "ed25519 \<Rightarrow> file_system \<Rightarrow> path \<Rightarrow> string \<Rightarrow> string list \<Rightarrow> bool" where
  "vouched ed fs p bytes keys =
     (\<exists>sig. fs_read fs (sig_path_for p) = Some sig \<and> length sig = 64 \<and> (\<exists>key \<in> set keys. ed key bytes sig = Some True))"

lemma fs_read_exists: "fs_read fs p = Some b \<Longrightarrow> path_exists fs p"
  by (auto simp: fs_read_def path_exists_def split: option.splits)

lemma verify_signature_over_bytes_true:
  "verify_signature_over_bytes ed fs p bytes key = Inr True \<longleftrightarrow> vouched ed fs p bytes [key]"
  by (auto simp: verify_signature_over_bytes_def verify_ed25519_signature_def vouched_def Let_def fs_read_exists
      split: option.splits if_splits)

lemma try_keys_ok: "try_keys ed fs p bytes keys = Inr () \<longleftrightarrow> vouched ed fs p bytes keys"
proof (induction keys)
  case (Cons key keys)
  have "vouched ed fs p bytes (key # keys) \<longleftrightarrow> vouched ed fs p bytes [key] \<or> vouched ed fs p bytes keys"
    by (auto simp: vouched_def)
  with Cons show ?case
    using verify_signature_over_bytes_true [of ed fs p bytes key]
    by (auto split: sum.splits bool.splits)
qed (simp add: vouched_def)

lemma try_verify_signature_ok: "try_verify_signature ed fs p bytes keys = Inr u \<longleftrightarrow> vouched ed fs p bytes keys"
  by (cases u) (auto simp: try_verify_signature_def try_keys_ok, auto simp: vouched_def)

section \<open>What the list indexes\<close>

definition entry_ok :: "revocation_entry \<Rightarrow> bool" where
  "entry_ok e = (length (normalised_sha e) = 64 \<and> list_all is_lower_hex (normalised_sha e) \<and> trim_str (rv_reason e) \<noteq> [])"

lemma normalised_hex: "list_all is_ascii_hexdigit (normalised_sha e) \<longleftrightarrow> list_all is_lower_hex (normalised_sha e)"
  by (simp add: normalised_sha_def to_ascii_lowercase_def list_all_iff ascii_lower_hex)

lemma index_entries_step:
  "index_entries (e # es) l = Inr l' \<longleftrightarrow>
    entry_ok e \<and> map_of l (normalised_sha e) = None
    \<and> index_entries es (bt_insert (normalised_sha e) (e\<lparr>rv_artifact_sha256 := normalised_sha e\<rparr>) l) = Inr l'"
  by (auto simp: entry_ok_def Let_def normalised_hex split: if_splits)

lemma index_entries_ok:
  "(\<exists>l'. index_entries es l = Inr l') \<longleftrightarrow>
    list_all entry_ok es \<and> distinct (map normalised_sha es) \<and> (\<forall>e \<in> set es. map_of l (normalised_sha e) = None)"
proof (induction es arbitrary: l)
  case (Cons e es)
  show ?case unfolding index_entries_step using Cons by (auto simp: image_iff split: if_splits)
qed simp

lemma index_entries_lookup:
  "index_entries es l = Inr l' \<Longrightarrow>
    map_of l' sha = (case find (\<lambda>e. normalised_sha e = sha) es of
       Some e \<Rightarrow> Some (e\<lparr>rv_artifact_sha256 := sha\<rparr>) | None \<Rightarrow> map_of l sha)"
proof (induction es arbitrary: l)
  case (Cons e es)
  let ?l = "bt_insert (normalised_sha e) (e\<lparr>rv_artifact_sha256 := normalised_sha e\<rparr>) l"
  from Cons.prems have ok: "index_entries es ?l = Inr l'" by (simp add: index_entries_step del: index_entries.simps)
  then have "\<forall>x \<in> set es. map_of ?l (normalised_sha x) = None" using index_entries_ok [of es ?l] by blast
  then have "find (\<lambda>x. normalised_sha x = normalised_sha e) es = None" by (auto simp: find_None_iff)
  with Cons.IH [OF ok] show ?case by (cases "normalised_sha e = sha") (auto split: option.splits)
qed simp

text \<open>The first entry that names the artifact, however it spells the digest.\<close>

definition revoked_by :: "revocation_list_file \<Rightarrow> string \<Rightarrow> revocation_entry option" where
  "revoked_by f sha = map_option (\<lambda>e. e\<lparr>rv_artifact_sha256 := sha\<rparr>)
     (find (\<lambda>e. normalised_sha e = sha) (rf_revocations f))"

lemma revocation_lookup_from_file:
  "revocation_from_file f = Inr l \<Longrightarrow> revocation_lookup l sha = revoked_by f sha"
  using index_entries_lookup [of "rf_revocations f" "[]" l sha]
  by (auto simp: revocation_from_file_def revocation_lookup_def revoked_by_def revocation_empty_def
      split: if_splits option.splits)

lemma find_distinct:
  "distinct (map g xs) \<Longrightarrow> find (\<lambda>x. g x = s) xs = Some x \<longleftrightarrow> x \<in> set xs \<and> g x = s"
  by (induction xs) auto

text \<open>The signature step, and what it verified.\<close>

lemma signature_stage:
  "(if skips_verification (vo_policy opts) then Inr False
     else (case try_verify_signature ed fs p bytes (vo_trusted_public_keys opts) of
             Inr _ \<Rightarrow> Inr True
           | Inl failure \<Rightarrow>
               if refuses_on_failure (vo_policy opts) \<or> vo_trusted_public_keys opts \<noteq> []
               then Inl (SignatureFailed (vo_policy opts) (vo_trusted_public_keys opts \<noteq> []) failure)
               else Inr False)) = Inr v \<longleftrightarrow>
    v = (vo_policy opts \<noteq> Disabled \<and> vouched ed fs p bytes (vo_trusted_public_keys opts))
    \<and> (v \<or> vo_policy opts = Disabled \<or> vo_policy opts = Warn \<and> vo_trusted_public_keys opts = [])"
  using try_verify_signature_ok [of ed fs p bytes "vo_trusted_public_keys opts"]
  by (cases "vo_policy opts")
     (auto simp: skips_verification_def refuses_on_failure_def vouched_def split: sum.splits)

lemma accepted_is_vouched:
  "verify_native_artifact hs ed fs p opts = Inr r \<Longrightarrow> vo_policy opts = Enforce \<Longrightarrow>
    \<exists>sig. fs_read fs (sig_path_for p) = Some sig"
proof (cases "fs_read fs p")
  case None
  then show "verify_native_artifact hs ed fs p opts = Inr r \<Longrightarrow> ?thesis" by (simp add: verify_native_artifact_def)
next
  case (Some bytes)
  assume "verify_native_artifact hs ed fs p opts = Inr r" and "vo_policy opts = Enforce"
  then have "vouched ed fs p bytes (vo_trusted_public_keys opts)"
    unfolding verify_native_artifact_def Some option.case Let_def try_then_eq_Inr signature_stage by simp
  then show ?thesis by (auto simp: vouched_def)
qed

section \<open>Properties\<close>

text \<open>
  C6. An artifact passes the check exactly under the operator's posture: the file can be read, its
  digest is the pinned one where one is pinned, the list has no entry for it however the entry spells the
  digest, and either a trusted key vouches for the very bytes that were hashed, or the policy is
  \<open>disabled\<close>, or it is \<open>warn\<close> and no trusted key is configured. The result then carries the digest, and
  claims a verified signature only if there is one.
\<close>

theorem artifact_accepted_exactly:
  assumes "vo_revocation_list opts = map_option snd listed"
    and "case listed of None \<Rightarrow> True | Some (f, l) \<Rightarrow> revocation_from_file f = Inr l"
  shows "verify_native_artifact hs ed fs p opts = Inr r \<longleftrightarrow>
    (\<exists>bytes. fs_read fs p = Some bytes
      \<and> (let sha = sha256_hex hs bytes; keys = vo_trusted_public_keys opts;
             good = (vo_policy opts \<noteq> Disabled \<and> vouched ed fs p bytes keys)
         in (vo_expected_sha256 opts = None \<or> vo_expected_sha256 opts = Some sha)
          \<and> (good \<or> vo_policy opts = Disabled \<or> vo_policy opts = Warn \<and> keys = [])
          \<and> (case listed of None \<Rightarrow> True | Some (f, l) \<Rightarrow> \<forall>e. e \<in> set (rf_revocations f) \<longrightarrow> normalised_sha e \<noteq> sha)
          \<and> r = \<lparr>vr_artifact_hash = sha, vr_signature_verified = good, vr_source_path = p\<rparr>))"
proof (cases "fs_read fs p")
  case None
  then show ?thesis by (simp add: verify_native_artifact_def)
next
  case (Some bytes)
  let ?sha = "sha256_hex hs bytes" and ?keys = "vo_trusted_public_keys opts"
  have rev: "(case vo_revocation_list opts of None \<Rightarrow> None | Some l \<Rightarrow> revocation_lookup l ?sha) = None \<longleftrightarrow>
      (case listed of None \<Rightarrow> True | Some (f, l) \<Rightarrow> \<forall>e. e \<in> set (rf_revocations f) \<longrightarrow> normalised_sha e \<noteq> ?sha)"
    using assms by (auto simp: revocation_lookup_from_file revoked_by_def find_None_iff split: option.splits)
  have hash: "(case vo_expected_sha256 opts of None \<Rightarrow> Inr ()
      | Some expected \<Rightarrow> ensure (?sha = expected) (HashMismatch expected ?sha)) = Inr u
      \<longleftrightarrow> vo_expected_sha256 opts = None \<or> vo_expected_sha256 opts = Some ?sha" for u
    by (auto split: option.splits)
  show ?thesis
    unfolding verify_native_artifact_def Some option.case Let_def try_then_eq_Inr signature_stage hash
    using rev by (auto split: option.splits)
qed

text \<open>
  A revocation file loads exactly when it has the supported version and every entry has a reason and
  names a digest of 64 hexadecimal digits that no other entry names, up to case and surrounding white space;
  the list then holds each of its entries under the normalised digest, so that every digest the host
  computes is found, and nothing else.
\<close>

theorem revocation_list_exact:
  "((\<exists>l. revocation_from_file f = Inr l) \<longleftrightarrow>
      rf_version f = 1 \<and> list_all entry_ok (rf_revocations f) \<and> distinct (map normalised_sha (rf_revocations f)))
    \<and> (revocation_from_file f = Inr l \<longrightarrow> (revocation_lookup l sha = Some e \<longleftrightarrow>
        (\<exists>e0. e0 \<in> set (rf_revocations f) \<and> normalised_sha e0 = sha \<and> e = e0\<lparr>rv_artifact_sha256 := sha\<rparr>)))
    \<and> (list_all is_lower_hex (rv_artifact_sha256 e) \<longrightarrow> normalised_sha e = rv_artifact_sha256 e)"
proof (intro conjI impI)
  show ok: "(\<exists>l. revocation_from_file f = Inr l) \<longleftrightarrow>
      rf_version f = 1 \<and> list_all entry_ok (rf_revocations f) \<and> distinct (map normalised_sha (rf_revocations f))"
    using index_entries_ok [of "rf_revocations f" "[]"]
    by (simp add: revocation_from_file_def SCHEMA_VERSION_def revocation_empty_def)
  assume l: "revocation_from_file f = Inr l"
  with ok have d: "distinct (map normalised_sha (rf_revocations f))" by blast
  show "revocation_lookup l sha = Some e \<longleftrightarrow>
      (\<exists>e0. e0 \<in> set (rf_revocations f) \<and> normalised_sha e0 = sha \<and> e = e0\<lparr>rv_artifact_sha256 := sha\<rparr>)"
    unfolding revocation_lookup_from_file [OF l] revoked_by_def by (auto simp: find_distinct [OF d])
qed (simp add: normalised_sha_def)

section \<open>Witnesses\<close>

definition sample_hasher :: "string hasher" where
  "sample_hasher = \<lparr>hs_new = [], hs_update = (\<lambda>h b. h @ b), hs_hex = (\<lambda>h. replicate 64 (CHR ''a''))\<rparr>"

definition sample_ed25519 :: ed25519 where
  "sample_ed25519 key data sig = Some (key = ''k'' \<and> sig = replicate 64 (CHR ''s''))"

definition sample_fs :: file_system where
  "sample_fs = \<lparr>fs_nodes = [[''plugin.so''] \<mapsto> File ''elf'', [''plugin.so.sig''] \<mapsto> File (replicate 64 (CHR ''s''))],
     fs_readable = (\<lambda>p. True), fs_writable = (\<lambda>p. True)\<rparr>"

definition sample_revocations :: revocation_list_file where
  "sample_revocations = \<lparr>rf_version = 1, rf_issued_at = None, rf_revocations =
     [\<lparr>rv_artifact_sha256 = replicate 64 (CHR ''B''), rv_reason = ''leaked'', rv_revoked_at = None\<rparr>]\<rparr>"

definition sample_revocation_list :: revocation_list where
  "sample_revocation_list = [(replicate 64 (CHR ''b''),
     \<lparr>rv_artifact_sha256 = replicate 64 (CHR ''b''), rv_reason = ''leaked'', rv_revoked_at = None\<rparr>)]"

definition sample_options :: native_verify_options where
  "sample_options = \<lparr>vo_expected_sha256 = Some (replicate 64 (CHR ''a'')), vo_trusted_public_keys = [''j'', ''k''],
     vo_policy = Enforce, vo_revocation_list = Some sample_revocation_list\<rparr>"

lemma sample_revocations_load: "revocation_from_file sample_revocations = Inr sample_revocation_list"
  by code_simp

theorem artifact_accepted_exactly_witness:
  "verify_native_artifact sample_hasher sample_ed25519 sample_fs [''plugin.so''] sample_options =
    Inr \<lparr>vr_artifact_hash = replicate 64 (CHR ''a''), vr_signature_verified = True, vr_source_path = [''plugin.so'']\<rparr>"
proof -
  have sp: "sig_path_for [''plugin.so''] = [''plugin.so.sig'']" by code_simp
  have n: "normalised_sha \<lparr>rv_artifact_sha256 = replicate 64 (CHR ''B''), rv_reason = ''leaked'', rv_revoked_at = None\<rparr>
      = replicate 64 (CHR ''b'')" by code_simp
  have ne: "replicate 64 (CHR ''b'') \<noteq> replicate 64 (CHR ''a'')" by code_simp
  have "vouched sample_ed25519 sample_fs [''plugin.so''] ''elf'' [''j'', ''k'']"
    by (auto simp: vouched_def sp sample_fs_def fs_read_def sample_ed25519_def)
  then show ?thesis
    using sample_revocations_load n ne
    by (subst artifact_accepted_exactly [where listed = "Some (sample_revocations, sample_revocation_list)"])
       (auto simp: sample_options_def sample_fs_def fs_read_def sha256_hex_def sample_hasher_def sample_revocations_def)
qed

theorem revocation_list_exact_witness:
  "revocation_lookup sample_revocation_list (replicate 64 (CHR ''a'')) = None"
proof -
  have "normalised_sha \<lparr>rv_artifact_sha256 = replicate 64 (CHR ''B''), rv_reason = ''leaked'', rv_revoked_at = None\<rparr>
      \<noteq> replicate 64 (CHR ''a'')" by code_simp
  then show ?thesis
    using revocation_list_exact [of sample_revocations sample_revocation_list "replicate 64 (CHR ''a'')"]
      sample_revocations_load
    by (cases "revocation_lookup sample_revocation_list (replicate 64 (CHR ''a''))") (auto simp: sample_revocations_def)
qed

end
