(* ===== verification/Package.thy ===== *)
theory Package
  imports Descriptor Artifact_Trust
begin

text \<open>
  Packaged plugins (\<open>package.rs\<close>): building the zip archive of a plugin, extracting it, and the cache of
  extracted archives. The zip format belongs to another crate: \<open>zip_format\<close> says whether an entry can be
  started after the ones before it, which bytes a finished archive has, which bytes an abandoned one leaves
  behind, and how bytes read back as entries. An archive whose input file is the output file itself is
  outside the model.
\<close>

section \<open>Archives\<close>

definition DESCRIPTOR :: string where "DESCRIPTOR = ''plugin.yaml''"
definition NATIVE_ARTIFACT :: string where "NATIVE_ARTIFACT = ''plugin.so''"
definition WASM_ARTIFACT :: string where "WASM_ARTIFACT = ''plugin.wasm''"
definition SIGNATURE :: string where "SIGNATURE = ''plugin.sig''"
definition LICENSE :: string where "LICENSE = ''LICENSE''"

lemmas entry_names = DESCRIPTOR_def NATIVE_ARTIFACT_def WASM_ARTIFACT_def SIGNATURE_def LICENSE_def

datatype path_component = NormalName string | NotUtf8Name | CurDir | ParentDir | RootDir

text \<open>
  An entry of an archive: its displayed name, whether it is a directory, its \<open>enclosed_name\<close> as components
  (\<open>None\<close> when it leaves the archive), the bytes that can be read from it, and whether reading ends
  without an error.
\<close>

record zip_entry =
  ze_shown :: string
  ze_is_dir :: bool
  ze_enclosed :: "path_component list option"
  ze_data :: string
  ze_intact :: bool

record zip_format =
  zf_start :: "(string \<times> string) list \<Rightarrow> string \<Rightarrow> bool"
  zf_finish :: "(string \<times> string) list \<Rightarrow> string option"
  zf_abandon :: "(string \<times> string) list \<Rightarrow> string"
  zf_entries :: "string \<Rightarrow> zip_entry option list option"

datatype package_error =
    PackageIo path
  | PackageDescriptor descriptor_error
  | PackageZip path
  | AmbiguousArtifact "string list"
  | MissingArtifact
  | MissingDescriptor
  | UnexpectedEntry string

datatype artifact_kind = Native | Wasm

fun archive_entry :: "artifact_kind \<Rightarrow> string" where
  "archive_entry Native = NATIVE_ARTIFACT"
| "archive_entry Wasm = WASM_ARTIFACT"

record pack_inputs =
  pi_descriptor_path :: path
  pi_artifact_path :: path
  pi_artifact_kind :: artifact_kind
  pi_signature_path :: "path option"
  pi_license_path :: "path option"

record unpacked_package =
  up_descriptor :: plugin_descriptor
  up_descriptor_path :: path
  up_artifact_kind :: artifact_kind
  up_artifact_path :: path
  up_signature_path :: "path option"
  up_license_path :: "path option"

definition canonical_filename :: "string \<Rightarrow> string \<Rightarrow> string \<Rightarrow> string \<Rightarrow> string" where
  "canonical_filename name version os arch =
     ''mcpg-plugin-'' @ name @ ''_'' @ version @ ''_'' @ os @ ''_'' @ arch @ ''.zip''"

definition short_name_from_id :: "string \<Rightarrow> string" where
  "short_name_from_id i = last (split_char (CHR ''.'') i)"

section \<open>Packing\<close>

text \<open>The archive under construction is the list of its entries.\<close>

definition append_file ::
  "zip_format \<Rightarrow> file_system \<Rightarrow> path \<Rightarrow> string \<Rightarrow> path \<Rightarrow> (string \<times> string) list
    \<Rightarrow> (package_error, (string \<times> string) list) rresult" where
  "append_file z fs src name archive es =
     (case fs_read fs src of
        None \<Rightarrow> Inl (PackageIo src)
      | Some b \<Rightarrow> if zf_start z es name then Inr (es @ [(name, b)]) else Inl (PackageZip archive))"

text \<open>
  The inputs in the order they are appended. An error abandons the archive with the entries appended so
  far.
\<close>

definition pack_list :: "pack_inputs \<Rightarrow> (string \<times> path) list" where
  "pack_list i =
     [(DESCRIPTOR, pi_descriptor_path i), (archive_entry (pi_artifact_kind i), pi_artifact_path i)]
     @ (case pi_signature_path i of None \<Rightarrow> [] | Some p \<Rightarrow> [(SIGNATURE, p)])
     @ (case pi_license_path i of None \<Rightarrow> [] | Some p \<Rightarrow> [(LICENSE, p)])"

fun append_files ::
  "zip_format \<Rightarrow> file_system \<Rightarrow> path \<Rightarrow> (string \<times> path) list \<Rightarrow> (string \<times> string) list
    \<Rightarrow> package_error option \<times> (string \<times> string) list" where
  "append_files z fs archive [] es = (None, es)"
| "append_files z fs archive ((name, src) # ps) es =
     (case append_file z fs src name archive es of
        Inl e \<Rightarrow> (Some e, es)
      | Inr es' \<Rightarrow> append_files z fs archive ps es')"

definition set_file :: "path \<Rightarrow> string \<Rightarrow> file_system \<Rightarrow> file_system" where
  "set_file p b fs = fs\<lparr>fs_nodes := (fs_nodes fs)(p \<mapsto> File b)\<rparr>"

definition pack :: "zip_format \<Rightarrow> pack_inputs \<Rightarrow> path \<Rightarrow> file_system \<Rightarrow> (package_error, unit) rresult \<times> file_system" where
  "pack z i out fs =
     (case fs_create out [] fs of
        None \<Rightarrow> (Inl (PackageIo out), fs)
      | Some fs1 \<Rightarrow>
          (case append_files z fs1 out (pack_list i) [] of
             (Some e, es) \<Rightarrow> (Inl e, set_file out (zf_abandon z es) fs1)
           | (None, es) \<Rightarrow>
               (case zf_finish z es of
                  None \<Rightarrow> (Inl (PackageZip out), set_file out (zf_abandon z es) fs1)
                | Some b \<Rightarrow> (Inr (), set_file out b fs1))))"

section \<open>Unpacking\<close>

definition extract_entry :: "zip_entry \<Rightarrow> path \<Rightarrow> file_system \<Rightarrow> (package_error, unit) rresult \<times> file_system" where
  "extract_entry e dest fs =
     (case fs_create dest (ze_data e) fs of
        None \<Rightarrow> (Inl (PackageIo dest), fs)
      | Some fs' \<Rightarrow> (if ze_intact e then Inr () else Inl (PackageIo dest), fs'))"

definition file_name :: "path_component list \<Rightarrow> string" where
  "file_name cs = (case cs of [] \<Rightarrow> [] | _ \<Rightarrow> (case last cs of NormalName s \<Rightarrow> s | _ \<Rightarrow> []))"

text \<open>The flags the loop keeps are the names it has extracted.\<close>

fun unpack_entries ::
  "path \<Rightarrow> path \<Rightarrow> zip_entry option list \<Rightarrow> string list \<Rightarrow> file_system
    \<Rightarrow> (package_error, string list) rresult \<times> file_system" where
  "unpack_entries archive target [] seen fs = (Inr seen, fs)"
| "unpack_entries archive target (None # es) seen fs = (Inl (PackageZip archive), fs)"
| "unpack_entries archive target (Some e # es) seen fs =
     (if ze_is_dir e then (Inl (UnexpectedEntry (ze_shown e)), fs)
      else (case ze_enclosed e of
              None \<Rightarrow> (Inl (UnexpectedEntry (ze_shown e)), fs)
            | Some cs \<Rightarrow>
                if length cs \<noteq> 1 then (Inl (UnexpectedEntry (ze_shown e)), fs)
                else (let name = file_name cs in
                  if name \<in> {DESCRIPTOR, NATIVE_ARTIFACT, WASM_ARTIFACT, SIGNATURE, LICENSE} then
                    (case extract_entry e (join target name) fs of
                       (Inl err, fs') \<Rightarrow> (Inl err, fs')
                     | (Inr _, fs') \<Rightarrow> unpack_entries archive target es (seen @ [name]) fs')
                  else (Inl (UnexpectedEntry name), fs))))"

definition seen_path :: "path \<Rightarrow> string list \<Rightarrow> string \<Rightarrow> path option" where
  "seen_path target seen name = (if name \<in> set seen then Some (join target name) else None)"

definition unpack_to ::
  "descriptor_env \<Rightarrow> zip_format \<Rightarrow> path \<Rightarrow> path \<Rightarrow> file_system
    \<Rightarrow> (package_error, unpacked_package) rresult \<times> file_system" where
  "unpack_to env z archive target fs =
     (case create_dir_all target fs of
        (False, fs1) \<Rightarrow> (Inl (PackageIo target), fs1)
      | (True, fs1) \<Rightarrow>
          (case fs_read fs1 archive of
             None \<Rightarrow> (Inl (PackageIo archive), fs1)
           | Some b \<Rightarrow>
               (case zf_entries z b of
                  None \<Rightarrow> (Inl (PackageZip archive), fs1)
                | Some es \<Rightarrow>
                    (case unpack_entries archive target es [] fs1 of
                       (Inl e, fs2) \<Rightarrow> (Inl e, fs2)
                     | (Inr seen, fs2) \<Rightarrow>
                         if DESCRIPTOR \<notin> set seen then (Inl MissingDescriptor, fs2)
                         else if NATIVE_ARTIFACT \<notin> set seen \<and> WASM_ARTIFACT \<notin> set seen then (Inl MissingArtifact, fs2)
                         else if NATIVE_ARTIFACT \<in> set seen \<and> WASM_ARTIFACT \<in> set seen
                           then (Inl (AmbiguousArtifact [NATIVE_ARTIFACT, WASM_ARTIFACT]), fs2)
                         else (case load_descriptor env fs2 (join target DESCRIPTOR) of
                                 Inl e \<Rightarrow> (Inl (PackageDescriptor e), fs2)
                               | Inr d \<Rightarrow>
                                   (let kind = (if NATIVE_ARTIFACT \<in> set seen then Native else Wasm) in
                                    (Inr \<lparr>up_descriptor = d, up_descriptor_path = join target DESCRIPTOR,
                                          up_artifact_kind = kind, up_artifact_path = join target (archive_entry kind),
                                          up_signature_path = seen_path target seen SIGNATURE,
                                          up_license_path = seen_path target seen LICENSE\<rparr>, fs2)))))))"

section \<open>The extraction cache\<close>

definition file_path :: "file_system \<Rightarrow> path \<Rightarrow> path option" where
  "file_path fs p = (if is_file fs p then Some p else None)"

definition inspect_cache_hit :: "descriptor_env \<Rightarrow> path \<Rightarrow> file_system \<Rightarrow> unpacked_package option" where
  "inspect_cache_hit env target fs =
     (if \<not> is_dir fs target then None
      else if \<not> is_file fs (join target DESCRIPTOR) then None
      else (let native = is_file fs (join target NATIVE_ARTIFACT); wasm = is_file fs (join target WASM_ARTIFACT) in
            if native = wasm then None
            else (case load_descriptor env fs (join target DESCRIPTOR) of
                    Inl _ \<Rightarrow> None
                  | Inr d \<Rightarrow>
                      (let kind = (if native then Native else Wasm) in
                       Some \<lparr>up_descriptor = d, up_descriptor_path = join target DESCRIPTOR,
                             up_artifact_kind = kind, up_artifact_path = join target (archive_entry kind),
                             up_signature_path = file_path fs (join target SIGNATURE),
                             up_license_path = file_path fs (join target LICENSE)\<rparr>))))"

definition unpack_cached_to ::
  "descriptor_env \<Rightarrow> zip_format \<Rightarrow> 'h hasher \<Rightarrow> path \<Rightarrow> path \<Rightarrow> file_system
    \<Rightarrow> (package_error, unpacked_package) rresult \<times> file_system" where
  "unpack_cached_to env z hs archive base fs =
     (case sha256_file hs fs archive of
        None \<Rightarrow> (Inl (PackageIo archive), fs)
      | Some hash \<Rightarrow>
          (let target = join base (take 16 hash) in
           case inspect_cache_hit env target fs of
             Some existing \<Rightarrow> (Inr existing, fs)
           | None \<Rightarrow> unpack_to env z archive target fs))"

section \<open>What extraction touches\<close>

definition package_names :: "string set" where
  "package_names = {DESCRIPTOR, NATIVE_ARTIFACT, WASM_ARTIFACT, SIGNATURE, LICENSE}"

lemma extract_entry_frame:
  "extract_entry e dest fs = (res, fs') \<Longrightarrow>
    fs_readable fs' = fs_readable fs \<and> fs_writable fs' = fs_writable fs \<and> (q \<noteq> dest \<longrightarrow> fs_nodes fs' q = fs_nodes fs q)"
  by (auto simp: extract_entry_def fs_create_def split: if_splits)

text \<open>The name an entry is extracted under, if it is.\<close>

definition entry_name :: "zip_entry \<Rightarrow> string option" where
  "entry_name e =
     (if ze_is_dir e then None
      else (case ze_enclosed e of
              Some [c] \<Rightarrow> if file_name [c] \<in> package_names then Some (file_name [c]) else None
            | _ \<Rightarrow> None))"

definition refused_as :: "zip_entry \<Rightarrow> string" where
  "refused_as e = (if ze_is_dir e then ze_shown e
     else (case ze_enclosed e of Some [c] \<Rightarrow> file_name [c] | _ \<Rightarrow> ze_shown e))"

lemma unpack_entries_step:
  "unpack_entries archive target (Some e # es) seen fs =
     (case entry_name e of
        None \<Rightarrow> (Inl (UnexpectedEntry (refused_as e)), fs)
      | Some name \<Rightarrow> (case extract_entry e (join target name) fs of
            (Inl err, fs') \<Rightarrow> (Inl err, fs')
          | (Inr u, fs') \<Rightarrow> unpack_entries archive target es (seen @ [name]) fs'))"
proof (cases "ze_is_dir e")
  case False
  show ?thesis
  proof (cases "ze_enclosed e")
    case (Some cs)
    show ?thesis
    proof (cases "length cs = 1")
      case True
      then obtain c where "cs = [c]" by (metis One_nat_def length_0_conv length_Suc_conv)
      with False Some show ?thesis
        by (simp add: entry_name_def refused_as_def Let_def package_names_def)
    next
      case len: False
      then have "entry_name e = None" "refused_as e = ze_shown e"
        using False Some by (auto simp: entry_name_def refused_as_def split: list.splits)
      with False Some len show ?thesis by simp
    qed
  qed (use False in \<open>simp add: entry_name_def refused_as_def\<close>)
qed (simp add: entry_name_def refused_as_def)

declare unpack_entries.simps(3) [simp del]

lemma entry_name_known: "entry_name e = Some n \<Longrightarrow> n \<in> package_names"
  by (auto simp: entry_name_def split: if_splits option.splits list.splits)

lemma unpack_entries_cases:
  "unpack_entries archive target (Some e # es) seen fs = (res, fs') \<Longrightarrow>
    (entry_name e = None \<and> res = Inl (UnexpectedEntry (refused_as e)) \<and> fs' = fs)
    \<or> (\<exists>n err. entry_name e = Some n \<and> extract_entry e (join target n) fs = (Inl err, fs') \<and> res = Inl err)
    \<or> (\<exists>n fs1. entry_name e = Some n \<and> extract_entry e (join target n) fs = (Inr (), fs1)
        \<and> unpack_entries archive target es (seen @ [n]) fs1 = (res, fs'))"
  unfolding unpack_entries_step by (auto split: option.splits prod.splits sum.splits)

lemma unpack_entries_frame:
  "unpack_entries archive target es seen fs = (res, fs') \<Longrightarrow>
    fs_readable fs' = fs_readable fs \<and> fs_writable fs' = fs_writable fs
    \<and> (q \<notin> join target ` package_names \<longrightarrow> fs_nodes fs' q = fs_nodes fs q)"
proof (induction es arbitrary: seen fs)
  case (Cons x es)
  show ?case
  proof (cases x)
    case None
    with Cons.prems show ?thesis by auto
  next
    case (Some e)
    from unpack_entries_cases [OF Cons.prems [unfolded Some]] show ?thesis
    proof (elim disjE exE conjE)
      fix n err assume "entry_name e = Some n" and x: "extract_entry e (join target n) fs = (Inl err, fs')"
      with extract_entry_frame [OF x, of q] entry_name_known show ?thesis by auto
    next
      fix n fs1 assume n: "entry_name e = Some n" and x: "extract_entry e (join target n) fs = (Inr (), fs1)"
        and rest: "unpack_entries archive target es (seen @ [n]) fs1 = (res, fs')"
      with extract_entry_frame [OF x, of q] Cons.IH [OF rest] entry_name_known [OF n] show ?thesis by auto
    qed simp
  qed
qed auto

text \<open>Whatever fails, the extraction goes through the directories and the entries alone.\<close>

lemma unpack_to_stages:
  assumes "unpack_to env z archive target fs = (res, fs')"
  obtains ok fs1 where "create_dir_all target fs = (ok, fs1)"
    and "fs' = fs1 \<or> (ok \<and> (\<exists>b es r. fs_read fs1 archive = Some b \<and> zf_entries z b = Some es
          \<and> unpack_entries archive target es [] fs1 = (r, fs')))"
proof -
  obtain ok fs1 where c: "create_dir_all target fs = (ok, fs1)" by force
  have "fs' = fs1 \<or> (ok \<and> (\<exists>b es r. fs_read fs1 archive = Some b \<and> zf_entries z b = Some es
          \<and> unpack_entries archive target es [] fs1 = (r, fs')))"
  proof (cases ok)
    case True
    show ?thesis
    proof (cases "\<exists>b es. fs_read fs1 archive = Some b \<and> zf_entries z b = Some es")
      case True
      then obtain b es where b: "fs_read fs1 archive = Some b" "zf_entries z b = Some es" by blast
      obtain r fs2 where u: "unpack_entries archive target es [] fs1 = (r, fs2)" by force
      from assms c \<open>ok\<close> b u have "fs' = fs2"
        by (cases r) (auto simp: unpack_to_def Let_def split: if_splits sum.splits)
      with b u \<open>ok\<close> show ?thesis by blast
    next
      case False
      with assms c True have "fs' = fs1" by (auto simp: unpack_to_def split: option.splits)
      then show ?thesis ..
    qed
  next
    case False
    with assms c show ?thesis by (simp add: unpack_to_def)
  qed
  with c show thesis by (rule that)
qed

section \<open>What extraction leaves behind\<close>

text \<open>Names and contents of the entries, in archive order.\<close>

definition archive_files :: "zip_entry option list \<Rightarrow> (string \<times> string) list" where
  "archive_files es = map (\<lambda>x. (the (entry_name (the x)), ze_data (the x))) es"

definition entry_accepted :: "zip_entry option \<Rightarrow> bool" where
  "entry_accepted x = (case x of None \<Rightarrow> False | Some e \<Rightarrow> entry_name e \<noteq> None \<and> ze_intact e)"

text \<open>A later entry of the same name overwrites an earlier one.\<close>

definition file_after :: "(string \<times> string) list \<Rightarrow> path \<Rightarrow> (path \<Rightarrow> node option) \<Rightarrow> string \<Rightarrow> node option" where
  "file_after fsn target nodes n =
     (case map_of (rev fsn) n of Some b \<Rightarrow> Some (File b) | None \<Rightarrow> nodes (join target n))"

lemma extract_entry_ok:
  "extract_entry e dest fs = (Inr u, fs') \<longleftrightarrow>
    ze_intact e \<and> can_create fs dest \<and> fs' = fs\<lparr>fs_nodes := (fs_nodes fs)(dest \<mapsto> File (ze_data e))\<rparr>"
  by (cases u) (auto simp: extract_entry_def fs_create_def split: option.splits if_splits)

lemma unpack_entries_ok:
  "unpack_entries archive target es seen fs = (Inr seen', fs') \<Longrightarrow>
    list_all entry_accepted es \<and> seen' = seen @ map fst (archive_files es)
    \<and> fs_nodes fs' (join target n) = file_after (archive_files es) target (fs_nodes fs) n"
proof (induction es arbitrary: seen fs)
  case Nil
  then show ?case by (simp add: archive_files_def file_after_def)
next
  case (Cons x es)
  then obtain e where x: "x = Some e" by (cases x) auto
  from unpack_entries_cases [OF Cons.prems [unfolded x]] obtain m fs1 where
    m: "entry_name e = Some m" and ex: "extract_entry e (join target m) fs = (Inr (), fs1)"
    and rest: "unpack_entries archive target es (seen @ [m]) fs1 = (Inr seen', fs')" by auto
  from ex have fs1: "ze_intact e" "fs1 = fs\<lparr>fs_nodes := (fs_nodes fs)(join target m \<mapsto> File (ze_data e))\<rparr>"
    by (simp_all add: extract_entry_ok)
  from Cons.IH [OF rest] m fs1 x show ?case
    by (auto simp: archive_files_def file_after_def entry_accepted_def map_of_append map_add_def split: option.splits)
qed

text \<open>Where every entry can be written, an archive of accepted entries is extracted.\<close>

definition usable :: "file_system \<Rightarrow> path \<Rightarrow> bool" where
  "usable fs target =
     (\<forall>n \<in> package_names. fs_readable fs (join target n) \<and> fs_writable fs (join target n)
        \<and> fs_nodes fs (join target n) \<noteq> Some Dir)"

lemma usable_can_create: "usable fs target \<Longrightarrow> is_dir fs target \<Longrightarrow> n \<in> package_names \<Longrightarrow> can_create fs (join target n)"
  by (auto simp: usable_def can_create_def join_def)

lemma unpack_entries_accepts:
  "list_all entry_accepted es \<Longrightarrow> usable fs target \<Longrightarrow> is_dir fs target \<Longrightarrow>
    \<exists>seen' fs'. unpack_entries archive target es seen fs = (Inr seen', fs')"
proof (induction es arbitrary: seen fs)
  case (Cons x es)
  then obtain e m where x: "x = Some e" "entry_name e = Some m" "ze_intact e" by (auto simp: entry_accepted_def split: option.splits)
  let ?fs = "fs\<lparr>fs_nodes := (fs_nodes fs)(join target m \<mapsto> File (ze_data e))\<rparr>"
  have ex: "extract_entry e (join target m) fs = (Inr (), ?fs)"
    using Cons.prems x entry_name_known [OF x(2)] by (simp add: extract_entry_ok usable_can_create)
  have "usable ?fs target" using Cons.prems(2) by (auto simp: usable_def)
  moreover have "is_dir ?fs target" using Cons.prems(3) by (auto simp: is_dir_def join_def)
  ultimately have "\<exists>seen' fs'. unpack_entries archive target es (seen @ [m]) ?fs = (Inr seen', fs')"
    using Cons by simp
  with x ex show ?case by (simp add: unpack_entries_step)
qed simp

text \<open>When extraction succeeds: the entries, the shape of the archive and the description returned.\<close>

definition described :: "descriptor_env \<Rightarrow> path \<Rightarrow> string list \<Rightarrow> plugin_descriptor \<Rightarrow> unpacked_package" where
  "described env target names d =
     (let kind = (if NATIVE_ARTIFACT \<in> set names then Native else Wasm) in
      \<lparr>up_descriptor = d, up_descriptor_path = join target DESCRIPTOR,
       up_artifact_kind = kind, up_artifact_path = join target (archive_entry kind),
       up_signature_path = seen_path target names SIGNATURE, up_license_path = seen_path target names LICENSE\<rparr>)"

definition complete :: "string list \<Rightarrow> bool" where
  "complete names = (DESCRIPTOR \<in> set names \<and> (NATIVE_ARTIFACT \<in> set names) \<noteq> (WASM_ARTIFACT \<in> set names))"

lemma unpack_to_ok:
  "unpack_to env z archive target fs = (Inr u, fs') \<longleftrightarrow>
    (\<exists>fs1 b es seen d. create_dir_all target fs = (True, fs1) \<and> fs_read fs1 archive = Some b
      \<and> zf_entries z b = Some es \<and> unpack_entries archive target es [] fs1 = (Inr seen, fs') \<and> complete seen
      \<and> load_descriptor env fs' (join target DESCRIPTOR) = Inr d \<and> u = described env target seen d)"
  (is "_ \<longleftrightarrow> ?R")
proof
  assume l: "unpack_to env z archive target fs = (Inr u, fs')"
  obtain ok fs1 where c: "create_dir_all target fs = (ok, fs1)" by force
  with l have "ok" by (auto simp: unpack_to_def split: bool.splits)
  from c l \<open>ok\<close> obtain b es where b: "fs_read fs1 archive = Some b" "zf_entries z b = Some es"
    by (auto simp: unpack_to_def split: option.splits)
  obtain r fs2 where u: "unpack_entries archive target es [] fs1 = (r, fs2)" by force
  from l c \<open>ok\<close> b u obtain seen where r: "r = Inr seen" by (cases r) (auto simp: unpack_to_def)
  from l c \<open>ok\<close> b u r obtain d where "load_descriptor env fs2 (join target DESCRIPTOR) = Inr d"
    "complete seen" "u = described env target seen d" "fs' = fs2"
    by (auto simp: unpack_to_def complete_def described_def Let_def split: if_splits sum.splits)
  with c \<open>ok\<close> b u r show ?R by auto
next
  assume ?R
  then show "unpack_to env z archive target fs = (Inr u, fs')"
    by (elim exE conjE) (auto simp: unpack_to_def complete_def described_def Let_def)
qed

section \<open>What packing produces\<close>

definition plain_entry :: "string \<times> string \<Rightarrow> zip_entry" where
  "plain_entry f = \<lparr>ze_shown = fst f, ze_is_dir = False, ze_enclosed = Some [NormalName (fst f)],
     ze_data = snd f, ze_intact = True\<rparr>"

text \<open>Reading a finished archive of the known files gives its entries back.\<close>

definition zip_faithful :: "zip_format \<Rightarrow> bool" where
  "zip_faithful z =
     (\<forall>es b. zf_finish z es = Some b \<longrightarrow> distinct (map fst es) \<longrightarrow> fst ` set es \<subseteq> package_names \<longrightarrow>
        zf_entries z b = Some (map (\<lambda>f. Some (plain_entry f)) es))"

definition packed_files :: "file_system \<Rightarrow> pack_inputs \<Rightarrow> (string \<times> string) list" where
  "packed_files fs i = map (\<lambda>(n, src). (n, the (fs_read fs src))) (pack_list i)"

lemma append_files_ok:
  "append_files z fs archive ps es0 = (None, es) \<Longrightarrow>
    es = es0 @ map (\<lambda>(n, src). (n, the (fs_read fs src))) ps \<and> (\<forall>(n, src) \<in> set ps. fs_read fs src \<noteq> None)"
  by (induction z fs archive ps es0 rule: append_files.induct)
     (auto simp: append_file_def split: option.splits if_splits)

lemma pack_ok:
  assumes "pack z i out fs = (Inr (), fs1)" and "out \<notin> snd ` set (pack_list i)"
  shows "\<exists>b. zf_finish z (packed_files fs i) = Some b \<and> fs1 = set_file out b fs
    \<and> (\<forall>(n, src) \<in> set (pack_list i). fs_read fs src \<noteq> None)"
proof -
  from assms(1) obtain fs0 es b where c: "fs_create out [] fs = Some fs0"
    and a: "append_files z fs0 out (pack_list i) [] = (None, es)"
    and f: "zf_finish z es = Some b" "fs1 = set_file out b fs0"
    by (auto simp: pack_def split: option.splits prod.splits)
  have same: "fs_read fs0 src = fs_read fs src" if "(n, src) \<in> set (pack_list i)" for n src
  proof -
    from that assms(2) have "src \<noteq> out" by force
    with fs_create_nodes [OF c] show ?thesis by (intro fs_read_cong) simp_all
  qed
  have "es = packed_files fs i" "\<forall>(n, src) \<in> set (pack_list i). fs_read fs src \<noteq> None"
    using append_files_ok [OF a] same by (auto simp: packed_files_def)
  moreover have "set_file out b fs0 = set_file out b fs"
    using c by (auto simp: fs_create_def set_file_def split: if_splits)
  ultimately show ?thesis using f by simp
qed

lemma pack_list_names:
  "distinct (map fst (pack_list i))" "fst ` set (pack_list i) \<subseteq> package_names"
  by (cases "pi_artifact_kind i"; auto simp: pack_list_def package_names_def entry_names split: option.splits)+

lemma packed_names: "map fst (packed_files fs i) = map fst (pack_list i)"
  by (simp add: packed_files_def comp_def case_prod_beta)

lemma entry_name_plain: "n \<in> package_names \<Longrightarrow> entry_name (plain_entry (n, b)) = Some n"
  by (simp add: entry_name_def plain_entry_def file_name_def)

lemma archive_files_plain:
  "fst ` set es \<subseteq> package_names \<Longrightarrow> archive_files (map (\<lambda>f. Some (plain_entry f)) es) = es
    \<and> list_all entry_accepted (map (\<lambda>f. Some (plain_entry f)) es)"
proof (induction es)
  case (Cons f es)
  then show ?case
    by (cases f) (simp add: archive_files_def entry_accepted_def entry_name_plain, simp add: plain_entry_def)
qed (simp add: archive_files_def)

lemma described_packed:
  "complete (map fst (pack_list i)) \<and> described env target (map fst (pack_list i)) d =
    \<lparr>up_descriptor = d, up_descriptor_path = join target DESCRIPTOR, up_artifact_kind = pi_artifact_kind i,
     up_artifact_path = join target (archive_entry (pi_artifact_kind i)),
     up_signature_path = map_option (\<lambda>_. join target SIGNATURE) (pi_signature_path i),
     up_license_path = map_option (\<lambda>_. join target LICENSE) (pi_license_path i)\<rparr>"
  by (cases "pi_artifact_kind i"; cases "pi_signature_path i"; cases "pi_license_path i")
     (simp_all add: complete_def described_def pack_list_def seen_path_def entry_names Let_def)

lemma unpack_to_frame:
  assumes "unpack_to env z archive target fs = (res, fs')"
  shows "fs_readable fs' = fs_readable fs" and "fs_writable fs' = fs_writable fs"
    and "fs_nodes fs' q = fs_nodes fs q \<or> (fs_nodes fs q = None \<and> fs_nodes fs' q = Some Dir \<and> prefix q target)
      \<or> q \<in> join target ` package_names"
proof -
  from unpack_to_stages [OF assms] obtain ok fs1 where c: "create_dir_all target fs = (ok, fs1)"
    and s: "fs' = fs1 \<or> (\<exists>es r. unpack_entries archive target es [] fs1 = (r, fs'))" by metis
  from s have f: "fs_readable fs' = fs_readable fs1 \<and> fs_writable fs' = fs_writable fs1
      \<and> (fs_nodes fs' q = fs_nodes fs1 q \<or> q \<in> join target ` package_names)"
    using unpack_entries_frame [of archive target _ "[]" fs1 _ fs' q] by blast
  with create_dir_all_frame [OF c] show "fs_readable fs' = fs_readable fs" "fs_writable fs' = fs_writable fs" by simp_all
  from f create_dir_all_frame(3) [OF c, of q]
  show "fs_nodes fs' q = fs_nodes fs q \<or> (fs_nodes fs q = None \<and> fs_nodes fs' q = Some Dir \<and> prefix q target)
      \<or> q \<in> join target ` package_names" by metis
qed

section \<open>Properties\<close>

text \<open>
  C13. Extraction stays inside its directory: whatever the archive holds (absolute names, \<open>..\<close> components,
  nested paths, unknown files, corrupt entries) and however the extraction ends, nothing changes in the
  file system but directories created on the way to the target and the five known files directly in it.
\<close>

theorem extraction_stays_in_target:
  "let fs' = snd (unpack_to env z archive target fs)
   in fs_nodes fs' q = fs_nodes fs q
      \<or> (fs_nodes fs q = None \<and> fs_nodes fs' q = Some Dir \<and> prefix q target)
      \<or> q \<in> {join target ''plugin.yaml'', join target ''plugin.so'', join target ''plugin.wasm'',
             join target ''plugin.sig'', join target ''LICENSE''}"
proof -
  obtain res fs' where r: "unpack_to env z archive target fs = (res, fs')" by force
  from unpack_to_frame(3) [OF r, of q] show ?thesis
    unfolding r snd_conv Let_def package_names_def entry_names image_insert image_empty by blast
qed

text \<open>
  An extraction that succeeds describes exactly the archive: every entry is one of the five files and
  intact, a descriptor and exactly one artifact are among them, the paths returned are those of the entries
  the archive has (a signature or license path exactly when there is such an entry), each file holds the
  bytes of the last entry of its name, and the descriptor is the one those bytes parse to.
\<close>

theorem unpacked_package_is_the_archive:
  assumes "unpack_to env z archive target fs = (Inr u, fs')"
  shows "\<exists>b es. fs_nodes fs archive = Some (File b) \<and> zf_entries z b = Some es \<and> list_all entry_accepted es
    \<and> (let names = map fst (archive_files es); content = map_of (rev (archive_files es)) in
        complete names \<and> u = described env target names (up_descriptor u)
        \<and> (\<forall>n data. content n = Some data \<longrightarrow> fs_nodes fs' (join target n) = Some (File data))
        \<and> (\<exists>yaml. content DESCRIPTOR = Some yaml \<and> de_parse_yaml env yaml = Some (up_descriptor u)
            \<and> ds_schema (up_descriptor u) = DESCRIPTOR_SCHEMA_V1))"
proof -
  from assms obtain fs1 b es seen d where c: "create_dir_all target fs = (True, fs1)"
    and b: "fs_read fs1 archive = Some b" and es: "zf_entries z b = Some es"
    and u: "unpack_entries archive target es [] fs1 = (Inr seen, fs')" and seen: "complete seen"
    and d: "load_descriptor env fs' (join target DESCRIPTOR) = Inr d" and ud: "u = described env target seen d"
    by (auto simp: unpack_to_ok)
  note after = unpack_entries_ok [OF u]
  from after have names: "seen = map fst (archive_files es)" and acc: "list_all entry_accepted es" by auto
  have "fs_nodes fs archive = Some (File b)"
    using b create_dir_all_frame(3) [OF c, of archive] by (auto simp: fs_read_def split: option.splits node.splits if_splits)
  moreover from seen names obtain yaml where y: "map_of (rev (archive_files es)) DESCRIPTOR = Some yaml"
    by (cases "map_of (rev (archive_files es)) DESCRIPTOR") (auto simp: complete_def map_of_eq_None_iff)
  moreover have "fs_nodes fs' (join target DESCRIPTOR) = Some (File yaml)"
    using after [of DESCRIPTOR] y by (simp add: file_after_def)
  with d have "de_parse_yaml env yaml = Some d" "ds_schema d = DESCRIPTOR_SCHEMA_V1"
    by (auto simp: load_descriptor_ok fs_read_def split: if_splits)
  moreover have "fs_nodes fs' (join target n) = Some (File data)" if "map_of (rev (archive_files es)) n = Some data" for n data
    using after [of n] that by (simp add: file_after_def)
  moreover have "up_descriptor u = d" by (simp add: ud described_def Let_def)
  ultimately show ?thesis using es acc seen names ud by (auto simp: Let_def)
qed

text \<open>
  C29. Packing and unpacking are inverse: when a package was built from a loadable descriptor, an artifact
  and the optional signature and license, extracting it into a directory that can be used succeeds, and
  gives back the descriptor, the kind of artifact, a path for each optional file exactly when one was
  packed, and every file byte for byte.
\<close>

theorem pack_unpack_roundtrip:
  assumes "zip_faithful z" and packed: "pack z i out fs = (Inr (), fs1)"
    and out: "out \<notin> snd ` set (pack_list i)" "fs_readable fs out"
    and d: "load_descriptor env fs (pi_descriptor_path i) = Inr d"
    and target: "create_dir_all target fs1 = (True, fs2)" "usable fs2 target"
  shows "\<exists>fs3. unpack_to env z out target fs1 =
      (Inr \<lparr>up_descriptor = d, up_descriptor_path = join target DESCRIPTOR, up_artifact_kind = pi_artifact_kind i,
            up_artifact_path = join target (archive_entry (pi_artifact_kind i)),
            up_signature_path = map_option (\<lambda>_. join target SIGNATURE) (pi_signature_path i),
            up_license_path = map_option (\<lambda>_. join target LICENSE) (pi_license_path i)\<rparr>, fs3)
    \<and> (\<forall>n src. (n, src) \<in> set (pack_list i) \<longrightarrow> fs_nodes fs3 (join target n) = fs_nodes fs src)"
proof -
  let ?es = "map (\<lambda>f. Some (plain_entry f)) (packed_files fs i)"
  from pack_ok [OF packed out(1)] obtain b where b: "zf_finish z (packed_files fs i) = Some b"
    and fs1: "fs1 = set_file out b fs" and readable: "\<forall>(n, src) \<in> set (pack_list i). fs_read fs src \<noteq> None" by blast
  have sub: "fst ` set (packed_files fs i) \<subseteq> package_names" and dist: "distinct (map fst (packed_files fs i))"
    using pack_list_names [of i] packed_names [of fs i] by (simp_all flip: set_map)
  with assms(1) b have entries: "zf_entries z b = Some ?es" by (simp add: zip_faithful_def)
  note frame = create_dir_all_frame [OF target(1)]
  have read: "fs_read fs2 out = Some b"
    using frame(3) [of out] frame(1) out(2) by (auto simp: fs1 set_file_def fs_read_def)
  note plain = archive_files_plain [OF sub]
  obtain seen fs3 where u: "unpack_entries out target ?es [] fs2 = (Inr seen, fs3)"
    using unpack_entries_accepts [of ?es fs2 target out "[]"] plain target(2) create_dir_all_dir [OF target(1)] by blast
  note after = unpack_entries_ok [OF u]
  have content: "fs_nodes fs3 (join target n) = fs_nodes fs src" if "(n, src) \<in> set (pack_list i)" for n src
  proof -
    from that readable obtain data where data: "fs_read fs src = Some data" by fastforce
    with that have "(n, data) \<in> set (packed_files fs i)" by (force simp: packed_files_def)
    then have "map_of (rev (packed_files fs i)) n = Some data" using dist by (intro map_of_is_SomeI) (simp_all flip: rev_map)
    with after [of n] plain have "fs_nodes fs3 (join target n) = Some (File data)" by (simp add: file_after_def)
    with data show ?thesis by (auto simp: fs_read_def split: option.splits node.splits if_splits)
  qed
  have yaml: "(DESCRIPTOR, pi_descriptor_path i) \<in> set (pack_list i)" by (simp add: pack_list_def)
  have "fs_readable fs3 (join target DESCRIPTOR)"
    using target(2) unpack_entries_frame [OF u] by (simp add: usable_def package_names_def)
  with content [OF yaml] d have "fs_read fs3 (join target DESCRIPTOR) = fs_read fs (pi_descriptor_path i)"
    by (auto simp: load_descriptor_ok fs_read_def split: option.splits node.splits if_splits)
  with d have "load_descriptor env fs3 (join target DESCRIPTOR) = Inr d" by (simp add: load_descriptor_ok)
  moreover have "seen = map fst (pack_list i)" using after plain packed_names by simp
  ultimately show ?thesis
    using target(1) read entries u described_packed [of i env target d] content
    by (intro exI [of _ fs3] conjI) (auto simp: unpack_to_ok)
qed

text \<open>
  A second boot finds the package of the first: when an archive has been extracted through the cache
  into a directory that held none of the five files, the next call returns the same description from the
  directory alone and writes nothing.
\<close>

theorem cached_unpack_is_idempotent:
  assumes first: "unpack_cached_to env z hs archive base fs = (Inr u, fs1)"
    and hash: "sha256_file hs fs archive = Some h"
    and fresh: "\<forall>n. n \<in> package_names \<longrightarrow> fs_nodes fs (join (join base (take 16 h)) n) = None"
  shows "unpack_cached_to env z hs archive base fs1 = (Inr u, fs1)"
proof -
  let ?t = "join base (take 16 h)"
  have "\<not> is_file fs (join ?t DESCRIPTOR)" using fresh by (simp add: is_file_def package_names_def)
  then have "inspect_cache_hit env ?t fs = None" by (simp add: inspect_cache_hit_def)
  with first hash have ut: "unpack_to env z archive ?t fs = (Inr u, fs1)" by (simp add: unpack_cached_to_def Let_def)
  then obtain fs0 b es seen d where c: "create_dir_all ?t fs = (True, fs0)" and b: "fs_read fs0 archive = Some b"
    and ue: "unpack_entries archive ?t es [] fs0 = (Inr seen, fs1)" and seen: "complete seen"
    and d: "load_descriptor env fs1 (join ?t DESCRIPTOR) = Inr d" and u: "u = described env ?t seen d"
    by (auto simp: unpack_to_ok)
  note frame = create_dir_all_frame [OF c] and frame1 = unpack_entries_frame [OF ue] and after = unpack_entries_ok [OF ue]
  have names: "seen = map fst (archive_files es)" using after by simp
  have fresh0: "fs_nodes fs0 (join ?t n) = None" if "n \<in> package_names" for n
    using frame(3) [of "join ?t n"] fresh that by (auto simp: join_def)
  have isf: "is_file fs1 (join ?t n) \<longleftrightarrow> n \<in> set seen" if "n \<in> package_names" for n
    using after [of n] fresh0 [OF that]
    by (cases "map_of (rev (archive_files es)) n")
       (auto simp: is_file_def file_after_def names map_of_eq_None_iff dest!: map_of_SomeD intro: rev_image_eqI)
  have "archive \<notin> join ?t ` package_names"
    using hash fresh by (auto simp: sha256_file_def fs_read_def)
  then have "fs_nodes fs1 archive = fs_nodes fs archive" "fs_readable fs1 = fs_readable fs"
    using frame1 [of archive] frame(1) frame(3) [of archive] hash
    by (auto simp: sha256_file_def fs_read_def split: option.splits)
  then have "fs_read fs1 archive = fs_read fs archive" by (intro fs_read_cong) simp_all
  with hash have "sha256_file hs fs1 archive = Some h" by (simp add: sha256_file_def)
  moreover have "is_dir fs1 ?t"
  proof -
    have "?t \<notin> join ?t ` package_names" by (auto simp: join_def)
    with create_dir_all_dir [OF c] frame1 [of ?t] show ?thesis by (simp add: is_dir_def)
  qed
  then have "inspect_cache_hit env ?t fs1 = Some u"
    using seen d u isf
    by (simp add: inspect_cache_hit_def complete_def described_def file_path_def seen_path_def package_names_def Let_def)
  ultimately show ?thesis by (simp add: unpack_cached_to_def Let_def)
qed

section \<open>Witnesses\<close>

definition sample_descriptor :: plugin_descriptor where
  "sample_descriptor = \<lparr>ds_schema = ''mcpg.dev/plugin/v1'', ds_id = ''a.b'', ds_name = ''b'', ds_class = ''tool_gate'',
     ds_runtime = ''native-cdylib-v1'', ds_protocol_version = ''1.0'', ds_provides = [], ds_provides_schemes = [], ds_required_capabilities = [], ds_watch_strategies = JNull\<rparr>"

definition sample_descriptor_env :: descriptor_env where
  "sample_descriptor_env = \<lparr>de_parse_yaml = (\<lambda>s. if s = ''yaml'' then Some sample_descriptor else None),
     de_validate_watch_strategies = (\<lambda>d. None)\<rparr>"

definition sample_packed :: "(string \<times> string) list" where
  "sample_packed = [(''plugin.yaml'', ''yaml''), (''plugin.so'', ''elf'')]"

text \<open>An archive format with one archive, and one with a stray entry behind the package.\<close>

definition sample_zip :: zip_format where
  "sample_zip = \<lparr>zf_start = (\<lambda>es n. True), zf_finish = (\<lambda>es. if es = sample_packed then Some ''PK'' else None),
     zf_abandon = (\<lambda>es. []), zf_entries = (\<lambda>b. if b = ''PK'' then Some (map (\<lambda>f. Some (plain_entry f)) sample_packed) else
       if b = ''PX'' then Some (map (\<lambda>f. Some (plain_entry f)) (sample_packed @ [(''stray'', ''x'')])) else None)\<rparr>"

definition build_fs :: file_system where
  "build_fs = \<lparr>fs_nodes = [[''p.yaml''] \<mapsto> File ''yaml'', [''lib.so''] \<mapsto> File ''elf'', [''bad.zip''] \<mapsto> File ''PX''],
     fs_readable = (\<lambda>p. True), fs_writable = (\<lambda>p. True)\<rparr>"

definition sample_inputs :: pack_inputs where
  "sample_inputs = \<lparr>pi_descriptor_path = [''p.yaml''], pi_artifact_path = [''lib.so''], pi_artifact_kind = Native,
     pi_signature_path = None, pi_license_path = None\<rparr>"

lemma sample_zip_faithful: "zip_faithful sample_zip"
  by (simp add: zip_faithful_def sample_zip_def)

lemma sample_pack: "pack sample_zip sample_inputs [''b.zip''] build_fs = (Inr (), set_file [''b.zip''] ''PK'' build_fs)"
  by (simp add: pack_def fs_create_def can_create_def is_dir_def build_fs_def sample_inputs_def pack_list_def
      append_file_def fs_read_def sample_zip_def sample_packed_def set_file_def entry_names)

definition shipped_fs :: file_system where
  "shipped_fs = set_file [''b.zip''] ''PK'' build_fs"

definition target_fs :: "path \<Rightarrow> file_system" where
  "target_fs t = shipped_fs\<lparr>fs_nodes := (fs_nodes shipped_fs)(t \<mapsto> Dir)\<rparr>"

definition unpacked_fs :: "path \<Rightarrow> file_system" where
  "unpacked_fs t = (target_fs t)\<lparr>fs_nodes := (fs_nodes (target_fs t))
     (join t ''plugin.yaml'' \<mapsto> File ''yaml'', join t ''plugin.so'' \<mapsto> File ''elf'')\<rparr>"

lemmas sample_package_simps = shipped_fs_def target_fs_def unpacked_fs_def build_fs_def set_file_def join_def
  entry_names is_dir_def fs_read_def

lemma yaml_utf8: "valid_utf8 ''yaml''"
  by code_simp

lemma sample_descriptor_loads:
  "fs_read fs p = Some ''yaml'' \<Longrightarrow> load_descriptor sample_descriptor_env fs p = Inr sample_descriptor"
  using yaml_utf8 by (simp add: load_descriptor_ok sample_descriptor_env_def sample_descriptor_def DESCRIPTOR_SCHEMA_V1_def)

lemma sample_dirs: "create_dir_all [''t''] shipped_fs = (True, target_fs [''t''])"
  by (simp add: create_dir_all_def sample_package_simps Let_def)

lemma sample_unpack:
  "unpack_to sample_descriptor_env sample_zip [''b.zip''] [''t''] shipped_fs =
    (Inr (described sample_descriptor_env [''t''] [''plugin.yaml'', ''plugin.so''] sample_descriptor), unpacked_fs [''t''])"
proof -
  have "unpack_entries [''b.zip''] [''t''] (map (\<lambda>f. Some (plain_entry f)) sample_packed) [] (target_fs [''t''])
      = (Inr [''plugin.yaml'', ''plugin.so''], unpacked_fs [''t''])"
    by (simp add: sample_packed_def unpack_entries_step entry_name_def plain_entry_def file_name_def package_names_def
        extract_entry_def fs_create_def can_create_def sample_package_simps)
  moreover have "fs_read (target_fs [''t'']) [''b.zip''] = Some ''PK''" by (simp add: sample_package_simps)
  moreover have "load_descriptor sample_descriptor_env (unpacked_fs [''t'']) (join [''t''] DESCRIPTOR) = Inr sample_descriptor"
    by (rule sample_descriptor_loads) (simp add: sample_package_simps)
  moreover have "complete [''plugin.yaml'', ''plugin.so'']" by (simp add: complete_def entry_names)
  ultimately show ?thesis using sample_dirs by (simp add: unpack_to_ok sample_zip_def)
qed

theorem unpacked_package_is_the_archive_witness:
  "fs_nodes (unpacked_fs [''t'']) [''t'', ''plugin.so''] = Some (File ''elf'')"
  using unpacked_package_is_the_archive [OF sample_unpack]
  by (auto simp: Let_def sample_zip_def shipped_fs_def build_fs_def set_file_def sample_packed_def archive_files_def
      entry_name_def plain_entry_def file_name_def package_names_def entry_names join_def split: if_splits)

theorem pack_unpack_roundtrip_witness:
  "\<exists>u fs3. unpack_to sample_descriptor_env sample_zip [''b.zip''] [''t''] shipped_fs = (Inr u, fs3)
    \<and> up_descriptor u = sample_descriptor \<and> up_signature_path u = None
    \<and> fs_nodes fs3 [''t'', ''plugin.so''] = Some (File ''elf'')"
proof -
  have out: "[''b.zip''] \<notin> snd ` set (pack_list sample_inputs)" "fs_readable build_fs [''b.zip'']"
    by (simp_all add: pack_list_def sample_inputs_def build_fs_def)
  have d: "load_descriptor sample_descriptor_env build_fs (pi_descriptor_path sample_inputs) = Inr sample_descriptor"
    by (rule sample_descriptor_loads) (simp add: sample_inputs_def sample_package_simps)
  have "usable (target_fs [''t'']) [''t'']" by (simp add: usable_def package_names_def sample_package_simps)
  from pack_unpack_roundtrip [OF sample_zip_faithful sample_pack out d sample_dirs [unfolded shipped_fs_def] this]
  show ?thesis
    by (auto simp: shipped_fs_def pack_list_def sample_inputs_def build_fs_def join_def entry_names)
qed

text \<open>
  A rejected archive is accepted on the next boot: the files extracted before the offending entry stay
  in the cache directory and look like a complete package. An archive that holds a package and a stray
  entry is refused, and refused only once.
\<close>

theorem rejected_archive_accepted_on_retry:
  "\<exists>fs1 u. unpack_cached_to sample_descriptor_env sample_zip sample_hasher [''bad.zip''] [''cache''] build_fs
      = (Inl (UnexpectedEntry ''stray''), fs1)
    \<and> unpack_cached_to sample_descriptor_env sample_zip sample_hasher [''bad.zip''] [''cache''] fs1 = (Inr u, fs1)"
proof -
  let ?t = "[''cache'', replicate 16 (CHR ''a'')]"
  let ?dirs = "build_fs\<lparr>fs_nodes := (fs_nodes build_fs)([''cache''] \<mapsto> Dir, ?t \<mapsto> Dir)\<rparr>"
  let ?fs1 = "?dirs\<lparr>fs_nodes := (fs_nodes ?dirs)(join ?t ''plugin.yaml'' \<mapsto> File ''yaml'', join ?t ''plugin.so'' \<mapsto> File ''elf'')\<rparr>"
  have t: "join [''cache''] (take 16 (replicate 64 (CHR ''a''))) = ?t" by (simp add: join_def)
  have "sha256_file sample_hasher build_fs [''bad.zip''] = Some (replicate 64 (CHR ''a''))"
    by (simp add: sha256_file_def fs_read_def build_fs_def sample_hasher_def)
  moreover have "inspect_cache_hit sample_descriptor_env ?t build_fs = None"
    by (simp add: inspect_cache_hit_def is_dir_def build_fs_def)
  moreover have "unpack_to sample_descriptor_env sample_zip [''bad.zip''] ?t build_fs = (Inl (UnexpectedEntry ''stray''), ?fs1)"
  proof -
    have "create_dir_all ?t build_fs = (True, ?dirs)"
      by (simp add: create_dir_all_def build_fs_def Let_def)
    moreover have "fs_read ?dirs [''bad.zip''] = Some ''PX''" by (simp add: fs_read_def build_fs_def)
    moreover have "zf_entries sample_zip ''PX'' = Some (map (\<lambda>f. Some (plain_entry f)) (sample_packed @ [(''stray'', ''x'')]))"
      by (simp add: sample_zip_def)
    moreover have "unpack_entries [''bad.zip''] ?t (map (\<lambda>f. Some (plain_entry f)) (sample_packed @ [(''stray'', ''x'')])) [] ?dirs
        = (Inl (UnexpectedEntry ''stray''), ?fs1)"
      by (simp add: sample_packed_def unpack_entries_step entry_name_def plain_entry_def file_name_def package_names_def
          entry_names extract_entry_def fs_create_def can_create_def is_dir_def join_def build_fs_def refused_as_def)
    ultimately show ?thesis by (simp add: unpack_to_def)
  qed
  ultimately have "unpack_cached_to sample_descriptor_env sample_zip sample_hasher [''bad.zip''] [''cache''] build_fs
      = (Inl (UnexpectedEntry ''stray''), ?fs1)"
    by (simp only: unpack_cached_to_def option.case Let_def t)
  moreover have "\<exists>u. unpack_cached_to sample_descriptor_env sample_zip sample_hasher [''bad.zip''] [''cache''] ?fs1 = (Inr u, ?fs1)"
  proof -
    have "sha256_file sample_hasher ?fs1 [''bad.zip''] = Some (replicate 64 (CHR ''a''))"
      by (simp add: sha256_file_def fs_read_def build_fs_def sample_hasher_def join_def)
    moreover have "load_descriptor sample_descriptor_env ?fs1 (join ?t DESCRIPTOR) = Inr sample_descriptor"
    proof -
      have "valid_utf8 ''yaml''" by code_simp
      then show ?thesis
        by (simp add: load_descriptor_ok fs_read_def entry_names join_def build_fs_def sample_descriptor_env_def
            sample_descriptor_def DESCRIPTOR_SCHEMA_V1_def)
    qed
    then obtain u where "inspect_cache_hit sample_descriptor_env ?t ?fs1 = Some u"
      by (simp add: inspect_cache_hit_def is_dir_def is_file_def entry_names join_def build_fs_def Let_def)
    ultimately show ?thesis by (simp only: unpack_cached_to_def option.case Let_def t) blast
  qed
  ultimately show ?thesis by blast
qed

theorem cached_unpack_is_idempotent_witness:
  "\<exists>u fs1. unpack_cached_to sample_descriptor_env sample_zip sample_hasher [''b.zip''] [] fs1 = (Inr u, fs1)
    \<and> fs1 = unpacked_fs [replicate 16 (CHR ''a'')]"
proof -
  let ?t = "[replicate 16 (CHR ''a'')]"
  have t: "join [] (take 16 (replicate 64 (CHR ''a''))) = ?t" by (simp add: join_def)
  have ne: "''b.zip'' \<noteq> replicate 16 (CHR ''a'')" "replicate 16 (CHR ''a'') \<noteq> ''b.zip''"
    "replicate 16 (CHR ''a'') \<noteq> ''p.yaml''" "replicate 16 (CHR ''a'') \<noteq> ''lib.so''" "replicate 16 (CHR ''a'') \<noteq> ''bad.zip''"
    by code_simp+
  have hash: "sha256_file sample_hasher shipped_fs [''b.zip''] = Some (replicate 64 (CHR ''a''))"
    by (simp add: sha256_file_def sample_hasher_def sample_package_simps)
  have "unpack_entries [''b.zip''] ?t (map (\<lambda>f. Some (plain_entry f)) sample_packed) [] (target_fs ?t)
      = (Inr [''plugin.yaml'', ''plugin.so''], unpacked_fs ?t)"
    by (simp add: sample_packed_def unpack_entries_step entry_name_def plain_entry_def file_name_def package_names_def
        extract_entry_def fs_create_def can_create_def sample_package_simps)
  moreover have "fs_read (target_fs ?t) [''b.zip''] = Some ''PK''" using ne by (simp add: sample_package_simps)
  moreover have "create_dir_all ?t shipped_fs = (True, target_fs ?t)"
    using ne by (simp add: create_dir_all_def sample_package_simps Let_def)
  moreover have "load_descriptor sample_descriptor_env (unpacked_fs ?t) (join ?t DESCRIPTOR) = Inr sample_descriptor"
    by (rule sample_descriptor_loads) (simp add: sample_package_simps)
  moreover have "complete [''plugin.yaml'', ''plugin.so'']" by (simp add: complete_def entry_names)
  ultimately have "\<exists>u. unpack_to sample_descriptor_env sample_zip [''b.zip''] ?t shipped_fs = (Inr u, unpacked_fs ?t)"
    by (simp add: unpack_to_ok sample_zip_def)
  moreover have "inspect_cache_hit sample_descriptor_env ?t shipped_fs = None"
    using ne by (simp add: inspect_cache_hit_def sample_package_simps)
  ultimately obtain u where first:
    "unpack_cached_to sample_descriptor_env sample_zip sample_hasher [''b.zip''] [] shipped_fs = (Inr u, unpacked_fs ?t)"
    by (auto simp only: unpack_cached_to_def hash option.case Let_def t)
  have "\<forall>n. n \<in> package_names \<longrightarrow> fs_nodes shipped_fs (join (join [] (take 16 (replicate 64 (CHR ''a'')))) n) = None"
    by (auto simp only: t) (simp add: sample_package_simps)
  from cached_unpack_is_idempotent [OF first hash this] show ?thesis by blast
qed

end
