(* ===== verification/Firstparty.thy ===== *)
theory Firstparty
  imports Descriptor Registry_Admin Samples
begin

text \<open>
  The registrar (\<open>firstparty.rs\<close>): the one way descriptors, capability grants and runtime manifests are
  compared around a registration, with \<open>PluginRegistry::validate_registered_descriptor\<close>. The closure that
  registers the plugin is a function on the registry that may fail; the comparison of required with
  granted capabilities and the schema test belong to the protocol crate and are parameters.
\<close>

datatype capability_check =
    Satisfied
  | UnknownRequiredCapabilities "string list"
  | UnknownGrantedCapabilities "string list"
  | UngrantedCapabilities "string list"

record registrar_env =
  re_parse_yaml :: "string \<Rightarrow> plugin_descriptor option"
  re_is_current_schema :: "plugin_descriptor \<Rightarrow> bool"
  re_validate_typed_capabilities :: "string \<Rightarrow> capability list \<Rightarrow> capability list \<Rightarrow> capability_check"

datatype registrar_error =
    RegistrarParse
  | RegistrarSchema string string
  | RegistrarCapabilities string capability_check
  | RegistrarClosure string registry_error
  | RegistrarUnregistered string
  | RegistrarMismatch string descriptor_error

definition validate_registered_descriptor :: "'w registry \<Rightarrow> plugin_descriptor \<Rightarrow> (registrar_error, unit) rresult" where
  "validate_registered_descriptor r d =
     (case find_manifest r (ds_id d) of
        None \<Rightarrow> Inl (RegistrarUnregistered (ds_id d))
      | Some m \<Rightarrow> (case validate_descriptor d m of
            Inl e \<Rightarrow> Inl (RegistrarMismatch (ds_id d) e)
          | Inr _ \<Rightarrow> Inr ()))"

type_synonym ('h, 'w) register_fn = "'h \<Rightarrow> 'w registry \<Rightarrow> (registry_error, unit) rresult \<times> 'w registry"

definition register_with_descriptor ::
  "registrar_env \<Rightarrow> plugin_descriptor \<Rightarrow> capability list \<Rightarrow> 'h \<Rightarrow> ('h, 'w) register_fn \<Rightarrow> 'w registry
    \<Rightarrow> (registrar_error, unit) rresult \<times> 'w registry" where
  "register_with_descriptor env d granted host register_fn r =
     (if \<not> re_is_current_schema env d then (Inl (RegistrarSchema (ds_id d) (ds_schema d)), r)
      else (case re_validate_typed_capabilities env (ds_id d) (ds_required_capabilities d) granted of
              Satisfied \<Rightarrow>
                (case register_fn host r of
                   (Inl e, r1) \<Rightarrow> (Inl (RegistrarClosure (ds_id d) e), r1)
                 | (Inr _, r1) \<Rightarrow> (validate_registered_descriptor r1 d, r1))
            | refusal \<Rightarrow> (Inl (RegistrarCapabilities (ds_id d) refusal), r)))"

definition registrar_register ::
  "registrar_env \<Rightarrow> string \<Rightarrow> capability list \<Rightarrow> 'h \<Rightarrow> ('h, 'w) register_fn \<Rightarrow> 'w registry
    \<Rightarrow> (registrar_error, unit) rresult \<times> 'w registry" where
  "registrar_register env yaml granted host register_fn r =
     (case re_parse_yaml env yaml of
        None \<Rightarrow> (Inl RegistrarParse, r)
      | Some d \<Rightarrow> register_with_descriptor env d granted host register_fn r)"

definition cross_check_cdylib_capabilities ::
  "string \<Rightarrow> capability list \<Rightarrow> capability list \<Rightarrow> (string \<times> capability set \<times> capability set, unit) rresult" where
  "cross_check_cdylib_capabilities plugin_id descriptor cdylib =
     (if set descriptor \<noteq> set cdylib
      then Inl (plugin_id, set descriptor - set cdylib, set cdylib - set descriptor)
      else Inr ())"

lemma cross_check_cdylib_ok [simp]: "cross_check_cdylib_capabilities i d c = Inr u \<longleftrightarrow> set d = set c"
  by (cases u) (simp add: cross_check_cdylib_capabilities_def)

lemma validate_descriptor_err: "validate_descriptor d m = Inl e \<Longrightarrow> \<not> agrees d m"
  using validate_descriptor_ok [of d m "()"] by auto

lemma validate_registered_descriptor_ok:
  "validate_registered_descriptor r d = Inr u \<longleftrightarrow> (\<exists>m. find_manifest r (ds_id d) = Some m \<and> agrees d m)"
  by (cases u) (auto simp: validate_registered_descriptor_def dest: validate_descriptor_err split: option.splits sum.splits)

text \<open>A closure that wraps one of the registry's \<open>register_*\<close> functions.\<close>

definition registering :: "('w registry \<Rightarrow> (registry_error, 'w registry) rresult) \<Rightarrow> ('h, 'w) register_fn" where
  "registering f host r = (case f r of Inl e \<Rightarrow> (Inl e, r) | Inr r' \<Rightarrow> (Inr (), r'))"

lemma find_manifest_first_match: "find_manifest r i = Some m \<Longrightarrow> m \<in> set (iter_manifests r) \<and> m_id m = i"
  by (auto simp: find_manifest_def find_Some_iff)

text \<open>
  The registrar accepts a plugin only with its descriptor: the registration closure is not run, and the
  registry is untouched, unless the YAML parses, its schema is current and the operator granted what it
  requires; and when the registrar answers \<open>Ok\<close>, the closure succeeded and a registered manifest of that id
  agrees with the descriptor on name, class, major protocol version and provided roles. A disagreement is
  found only after the registration: the plugin is then refused and stays in the registry.
\<close>

theorem registrar_accepts_exactly:
  "(registrar_register env yaml granted host f r = (Inr (), r') \<longleftrightarrow>
     (\<exists>d m. re_parse_yaml env yaml = Some d \<and> re_is_current_schema env d
       \<and> re_validate_typed_capabilities env (ds_id d) (ds_required_capabilities d) granted = Satisfied
       \<and> f host r = (Inr (), r') \<and> find_manifest r' (ds_id d) = Some m \<and> agrees d m))
   \<and> (registrar_register env yaml granted host f r = (Inl e, r') \<longrightarrow>
       r' = r \<or> (\<exists>d. re_parse_yaml env yaml = Some d \<and> re_is_current_schema env d
         \<and> re_validate_typed_capabilities env (ds_id d) (ds_required_capabilities d) granted = Satisfied
         \<and> r' = snd (f host r)))"
proof (cases "re_parse_yaml env yaml")
  case None
  then show ?thesis by (simp add: registrar_register_def)
next
  case (Some d)
  obtain res r1 where f: "f host r = (res, r1)" by force
  let ?c = "re_validate_typed_capabilities env (ds_id d) (ds_required_capabilities d) granted"
  show ?thesis
    using Some f validate_registered_descriptor_ok [of r1 d "()"]
    by (cases "re_is_current_schema env d"; cases ?c; cases res)
       (auto simp: registrar_register_def register_with_descriptor_def)
qed

definition refusing_env :: registrar_env where
  "refusing_env = \<lparr>re_parse_yaml = (\<lambda>s. Some \<lparr>ds_schema = DESCRIPTOR_SCHEMA_V1, ds_id = ''a'', ds_name = ''a'',
       ds_class = ''tool_gate'', ds_runtime = ''static-firstparty-v1'', ds_protocol_version = ''1.0'', ds_provides = [], ds_provides_schemes = [],
       ds_required_capabilities = [HttpRouteServe], ds_watch_strategies = JNull\<rparr>),
     re_is_current_schema = (\<lambda>d. ds_schema d = DESCRIPTOR_SCHEMA_V1),
     re_validate_typed_capabilities = (\<lambda>i required granted.
       if set required \<subseteq> set granted then Satisfied else UngrantedCapabilities [''http_route_serve''])\<rparr>"

definition sample_register_fn :: "(unit, trace) register_fn" where
  "sample_register_fn = registering (register_tool_gate 0 (sample_gate ''a'' (Allow None None None)) ''native'' JNull)"

theorem registrar_accepts_exactly_witness:
  "snd (registrar_register refusing_env ''yaml'' [] () sample_register_fn registry_new) = registry_new"
proof -
  obtain e r' where x: "registrar_register refusing_env ''yaml'' [] () sample_register_fn registry_new = (Inl e, r')"
    by (simp add: registrar_register_def register_with_descriptor_def refusing_env_def)
  then show ?thesis
    using registrar_accepts_exactly [of refusing_env "''yaml''" "[]" "()" sample_register_fn registry_new r' e]
    by (simp add: refusing_env_def)
qed

end
