(* ===== verification/Secret_Watcher.thy ===== *)
theory Secret_Watcher
  imports Bindings Bytes
begin

text \<open>
  The watch of secret rotations (\<open>secret_watcher.rs\<close>): the tasks that \<open>SecretWatcherSet::spawn\<close> starts, and the
  loop of a task with its debounce window.

  The loop waits for the first of three things: the cancellation, its timer, the next item of the stream. Which
  one comes when is up to the rest of the world, so the loop is a step relation with the clock in its state
  (the order in which \<open>select!\<close> polls the three only removes runs: what holds of every run here holds of its runs).
  Three components only record the history: \<open>wl_seen\<close> and \<open>wl_fired\<close> the versions that arrived and the fan-outs, both
  with their times, and \<open>wl_reported\<close> how many arrivals the fan-outs so far account for.
\<close>

definition DEFAULT_DEBOUNCE :: nat where
  "DEFAULT_DEBOUNCE = 75"

section \<open>Versions\<close>

text \<open>\<open>str::parse::<u64>\<close>: decimal digits after an optional plus sign.\<close>

definition dec_val :: "char \<Rightarrow> nat" where
  "dec_val c = of_char c - 48"

definition is_dec_digit :: "char \<Rightarrow> bool" where
  "is_dec_digit c \<longleftrightarrow> (48 \<le> (of_char c :: nat) \<and> (of_char c :: nat) \<le> 57)"

definition u64_from_dec :: "string \<Rightarrow> 64 word option" where
  "u64_from_dec s =
     (let digits = (case s of c # cs \<Rightarrow> if c = CHR ''+'' then cs else s | [] \<Rightarrow> s);
          n = foldl (\<lambda>n c. 10 * n + dec_val c) 0 digits
      in if digits = [] \<or> \<not> list_all is_dec_digit digits \<or> 2 ^ 64 \<le> n then None else Some (of_nat n))"

definition parse_version :: "string option \<Rightarrow> 64 word" where
  "parse_version version = (case version of Some s \<Rightarrow> unwrap_or 0 (u64_from_dec s) | None \<Rightarrow> 0)"

section \<open>The set of tasks\<close>

text \<open>
  One task per reference, in their order; \<open>parse_ref\<close> is \<open>parse_secret_ref\<close> of the protocol, and \<open>watch\<close> the method
  of a provider, which succeeds or not. The result are the references that are watched.
\<close>

fun spawn_watchers ::
  "(string \<Rightarrow> (string \<times> string) option) \<Rightarrow> (('w, string) scheme_provider \<Rightarrow> string \<Rightarrow> 'w \<Rightarrow> bool \<times> 'w) \<Rightarrow> 'w registry
    \<Rightarrow> string list \<Rightarrow> 'w \<Rightarrow> string list \<times> 'w" where
  "spawn_watchers parse_ref watch r [] w = ([], w)"
| "spawn_watchers parse_ref watch r (secret_ref # refs) w =
     (case parse_ref secret_ref of
        None \<Rightarrow> spawn_watchers parse_ref watch r refs w
      | Some (scheme, _) \<Rightarrow>
          (case secret_provider_for_scheme r scheme of
             None \<Rightarrow> spawn_watchers parse_ref watch r refs w
           | Some provider \<Rightarrow>
               (case watch provider secret_ref w of
                  (False, w1) \<Rightarrow> spawn_watchers parse_ref watch r refs w1
                | (True, w1) \<Rightarrow> map_prod (Cons secret_ref) id (spawn_watchers parse_ref watch r refs w1))))"

section \<open>The loop of a task\<close>

record watch_loop =
  wl_now :: nat
  wl_latest :: "64 word option"
  wl_next_fire :: "nat option"
  wl_seen :: "(nat \<times> 64 word) list"
  wl_reported :: nat
  wl_fired :: "(nat \<times> 64 word) list"
  wl_done :: bool
  wl_cancelled :: bool

definition loop_start :: "nat \<Rightarrow> watch_loop" where
  "loop_start now = \<lparr>wl_now = now, wl_latest = None, wl_next_fire = None, wl_seen = [], wl_reported = 0, wl_fired = [],
     wl_done = False, wl_cancelled = False\<rparr>"

text \<open>\<open>latest.take()\<close> with the call of \<open>fan_out\<close>.\<close>

definition fire_latest :: "watch_loop \<Rightarrow> watch_loop" where
  "fire_latest s =
     (case wl_latest s of
        None \<Rightarrow> s
      | Some v \<Rightarrow> s\<lparr>wl_latest := None, wl_fired := wl_fired s @ [(wl_now s, v)], wl_reported := length (wl_seen s)\<rparr>)"

definition on_timer :: "watch_loop \<Rightarrow> watch_loop" where
  "on_timer s = (fire_latest s)\<lparr>wl_next_fire := None\<rparr>"

definition on_rotation :: "nat \<Rightarrow> string option \<Rightarrow> watch_loop \<Rightarrow> watch_loop" where
  "on_rotation debounce version s =
     s\<lparr>wl_latest := Some (parse_version version), wl_seen := wl_seen s @ [(wl_now s, parse_version version)],
       wl_next_fire := (case wl_next_fire s of None \<Rightarrow> Some (wl_now s + debounce) | Some d \<Rightarrow> Some d)\<rparr>"

definition on_stream_end :: "watch_loop \<Rightarrow> watch_loop" where
  "on_stream_end s = (fire_latest s)\<lparr>wl_done := True\<rparr>"

inductive watch_loop_step :: "nat \<Rightarrow> watch_loop \<Rightarrow> watch_loop \<Rightarrow> bool" for debounce where
  wait: "\<not> wl_done s \<Longrightarrow> wl_now s \<le> t \<Longrightarrow> watch_loop_step debounce s (s\<lparr>wl_now := t\<rparr>)"
| timer: "\<not> wl_done s \<Longrightarrow> wl_next_fire s = Some d \<Longrightarrow> d \<le> wl_now s \<Longrightarrow> watch_loop_step debounce s (on_timer s)"
| rotation: "\<not> wl_done s \<Longrightarrow> watch_loop_step debounce s (on_rotation debounce version s)"
| stream_end: "\<not> wl_done s \<Longrightarrow> watch_loop_step debounce s (on_stream_end s)"
| cancelled: "\<not> wl_done s \<Longrightarrow> watch_loop_step debounce s (s\<lparr>wl_done := True, wl_cancelled := True\<rparr>)"

inductive watch_loop_run :: "nat \<Rightarrow> watch_loop \<Rightarrow> bool" for debounce where
  loop_begin: "watch_loop_run debounce (loop_start now)"
| loop_next: "watch_loop_run debounce s \<Longrightarrow> watch_loop_step debounce s t \<Longrightarrow> watch_loop_run debounce t"

section \<open>Invariant\<close>

definition spaced :: "nat \<Rightarrow> (nat \<times> 64 word) list \<Rightarrow> bool" where
  "spaced debounce = sorted_wrt (\<lambda>a b. fst a + debounce \<le> fst b)"

definition loop_inv :: "nat \<Rightarrow> watch_loop \<Rightarrow> bool" where
  "loop_inv debounce s \<longleftrightarrow>
     wl_reported s \<le> length (wl_seen s)
   \<and> (wl_latest s = None \<longleftrightarrow> wl_reported s = length (wl_seen s))
   \<and> (\<not> wl_done s \<longrightarrow> wl_next_fire s =
        (if wl_reported s < length (wl_seen s) then Some (fst (wl_seen s ! wl_reported s) + debounce) else None))
   \<and> (\<forall>v. wl_latest s = Some v \<longrightarrow> snd (last (wl_seen s)) = v)
   \<and> (if wl_reported s = 0 then wl_fired s = []
      else wl_fired s \<noteq> [] \<and> snd (last (wl_fired s)) = snd (wl_seen s ! (wl_reported s - 1)))
   \<and> snd ` set (wl_fired s) \<subseteq> snd ` set (wl_seen s)
   \<and> (\<forall>e \<in> set (wl_fired s). fst e \<le> wl_now s)
   \<and> (\<forall>e \<in> set (wl_seen s). fst e \<le> wl_now s)
   \<and> (\<forall>e \<in> set (wl_fired s). wl_reported s < length (wl_seen s) \<longrightarrow> fst e \<le> fst (wl_seen s ! wl_reported s))
   \<and> spaced debounce (if wl_done s then butlast (wl_fired s) else wl_fired s)"

lemma spaced_butlast: "spaced debounce xs \<Longrightarrow> spaced debounce (butlast xs)"
  unfolding spaced_def by (cases xs rule: rev_cases) (simp_all add: sorted_wrt_append)

lemma spaced_snoc: "spaced debounce (xs @ [x]) \<longleftrightarrow> spaced debounce xs \<and> (\<forall>e \<in> set xs. fst e + debounce \<le> fst x)"
  by (simp add: spaced_def sorted_wrt_append)

lemma loop_inv_fire:
  assumes inv: "loop_inv debounce s" and v: "wl_latest s = Some v" and live: "\<not> wl_done s"
    and due: "wl_next_fire s = Some d" "d \<le> wl_now s"
  shows "loop_inv debounce (on_timer s)"
proof -
  from inv v have pend: "wl_reported s < length (wl_seen s)" by (auto simp: loop_inv_def)
  with inv live due have "fst (wl_seen s ! wl_reported s) + debounce \<le> wl_now s" by (auto simp: loop_inv_def)
  with inv pend have "fst e + debounce \<le> wl_now s" if "e \<in> set (wl_fired s)" for e
    using that by (fastforce simp: loop_inv_def)
  moreover from pend have "wl_seen s \<noteq> []" by auto
  ultimately show ?thesis
    using inv v live by (auto simp: loop_inv_def on_timer_def fire_latest_def spaced_snoc last_conv_nth)
qed

lemma loop_inv_step:
  assumes "loop_inv debounce s" and "watch_loop_step debounce s t"
  shows "loop_inv debounce t"
  using assms(2,1)
proof cases
  case (wait u)
  with assms(1) show ?thesis by (auto simp: loop_inv_def intro: order_trans)
next
  case (timer d)
  with assms(1) have "wl_latest s \<noteq> None" by (auto simp: loop_inv_def split: if_splits)
  with timer assms(1) show ?thesis by (auto intro: loop_inv_fire)
next
  case (rotation version)
  with assms(1) show ?thesis
    by (auto simp: loop_inv_def on_rotation_def nth_append less_Suc_eq split: option.splits if_splits)
next
  case stream_end
  with assms(1) show ?thesis
    by (cases "wl_latest s") (auto simp: loop_inv_def on_stream_end_def fire_latest_def spaced_butlast last_conv_nth)
next
  case cancelled
  with assms(1) show ?thesis by (auto simp: loop_inv_def spaced_butlast)
qed

lemma loop_run_inv: "watch_loop_run debounce s \<Longrightarrow> loop_inv debounce s"
  by (induction rule: watch_loop_run.induct) (simp add: loop_inv_def loop_start_def spaced_def, erule (1) loop_inv_step)

section \<open>Properties\<close>

text \<open>
  C34. A burst of rotations collapses and none is lost. In every run of a watch loop the fan-outs are at least the
  debounce window apart (but for the one that the end of the stream forces), each carries a version that
  arrived, and the last one carries the version of the last arrival it accounts for; once nothing is
  pending that is the version that arrived last, unless the watch was cancelled meanwhile. While something is
  pending, the timer stands at exactly one window after the first arrival that no fan-out accounts for yet,
  however many others follow: a steady stream of rotations cannot put the fan-out off. As soon as the clock is
  there the loop can fire, and then it reports the latest version and accounts for every arrival.
\<close>

theorem watcher_fans_out_latest:
  assumes "watch_loop_run debounce s"
  shows "sorted_wrt (\<lambda>a b. fst a + debounce \<le> fst b) (if wl_done s then butlast (wl_fired s) else wl_fired s)
    \<and> snd ` set (wl_fired s) \<subseteq> snd ` set (wl_seen s)
    \<and> (if wl_reported s = 0 then wl_fired s = []
       else wl_fired s \<noteq> [] \<and> snd (last (wl_fired s)) = snd (wl_seen s ! (wl_reported s - 1)))
    \<and> (wl_latest s = None \<longleftrightarrow> wl_reported s = length (wl_seen s))
    \<and> (wl_latest s = None \<longrightarrow>
        (if wl_seen s = [] then wl_fired s = [] else wl_fired s \<noteq> [] \<and> snd (last (wl_fired s)) = snd (last (wl_seen s))))
    \<and> (\<not> wl_done s \<and> wl_latest s \<noteq> None \<longrightarrow>
        wl_reported s < length (wl_seen s)
        \<and> wl_next_fire s = Some (fst (wl_seen s ! wl_reported s) + debounce)
        \<and> fst (wl_seen s ! wl_reported s) \<le> wl_now s)
    \<and> (\<not> wl_done s \<and> wl_latest s \<noteq> None \<and> fst (wl_seen s ! wl_reported s) + debounce \<le> wl_now s \<longrightarrow>
        (\<exists>t. watch_loop_step debounce s t \<and> wl_fired t = wl_fired s @ [(wl_now s, snd (last (wl_seen s)))]
           \<and> wl_reported t = length (wl_seen t) \<and> wl_seen t = wl_seen s \<and> wl_latest t = None))"
proof -
  note inv = loop_run_inv [OF assms]
  have "\<exists>t. watch_loop_step debounce s t \<and> wl_fired t = wl_fired s @ [(wl_now s, snd (last (wl_seen s)))]
      \<and> wl_reported t = length (wl_seen t) \<and> wl_seen t = wl_seen s \<and> wl_latest t = None"
    if "\<not> wl_done s" "wl_latest s \<noteq> None" "fst (wl_seen s ! wl_reported s) + debounce \<le> wl_now s"
  proof (intro exI [of _ "on_timer s"] conjI)
    from inv that show "watch_loop_step debounce s (on_timer s)"
      by (intro watch_loop_step.timer) (auto simp: loop_inv_def)
  qed (use inv that in \<open>auto simp: loop_inv_def on_timer_def fire_latest_def\<close>)
  then show ?thesis using inv unfolding loop_inv_def spaced_def by (auto simp: last_conv_nth)
qed

theorem watcher_fans_out_latest_witness:
  "snd (last (wl_fired (on_timer ((on_rotation 75 (Some ''3'') (on_rotation 75 (Some ''x'') (loop_start 0)))\<lparr>wl_now := 80\<rparr>)))) = 3"
proof -
  let ?s = "on_rotation 75 (Some ''3'') (on_rotation 75 (Some ''x'') (loop_start 0))"
  have "watch_loop_run 75 ?s"
    by (intro loop_next [OF loop_next [OF loop_begin rotation] rotation]) (simp_all add: loop_start_def on_rotation_def)
  then have "watch_loop_run 75 (?s\<lparr>wl_now := 80\<rparr>)"
    by (rule loop_next [OF _ wait]) (simp_all add: loop_start_def on_rotation_def)
  then have "watch_loop_run 75 (on_timer (?s\<lparr>wl_now := 80\<rparr>))"
    by (rule loop_next [OF _ timer [where d = 75]]) (simp_all add: loop_start_def on_rotation_def)
  from watcher_fans_out_latest [OF this]
  show ?thesis by (simp add: on_timer_def fire_latest_def on_rotation_def loop_start_def parse_version_def u64_from_dec_def dec_val_def is_dec_digit_def)
qed

end
