(* ===== verification/Oci.thy ===== *)
theory Oci
  imports Package
begin

text \<open>
  Distribution through OCI registries (\<open>oci.rs\<close>): which registries are spoken to over plain HTTP, the config
  blob of a package, \<open>push\<close> and \<open>pull\<close> with the pinned digest.

  The registry client (crate \<open>oci_client\<close>), the JSON coding of the config blob, the digest of a layer and the
  fingerprint of the ABI belong to other crates and are fields of \<open>oci_env\<close>. A temporary directory gets a
  name that \<open>oe_temp_name\<close> chooses and is removed with everything in it at the end.
\<close>

section \<open>Plain HTTP\<close>

definition rsplit_once_char :: "char \<Rightarrow> string \<Rightarrow> (string \<times> string) option" where
  "rsplit_once_char d s = (case split_once_char d (rev s) of None \<Rightarrow> None | Some (b, a) \<Rightarrow> Some (rev a, rev b))"

definition LOCALHOST_HOSTS :: "string list" where
  "LOCALHOST_HOSTS = [''localhost'', ''127.0.0.1'', ''[::1]'', ''::1'']"

definition is_localhost_registry :: "string \<Rightarrow> bool" where
  "is_localhost_registry registry =
     (case strip_prefix_str registry ''['' of
        Some rest \<Rightarrow> (case split_once_char (CHR '']'') rest of None \<Rightarrow> False | Some (host, _) \<Rightarrow> host \<in> set LOCALHOST_HOSTS)
      | None \<Rightarrow>
          (let host = (case rsplit_once_char (CHR '':'') registry of
                         Some (host, _) \<Rightarrow> if CHR '':'' \<notin> set host then host else registry
                       | None \<Rightarrow> registry)
           in host \<in> set LOCALHOST_HOSTS))"

record oci_client_options =
  oo_insecure_registries :: "string list"

text \<open>The list of \<open>ClientProtocol::HttpsExcept\<close>.\<close>

definition client_config_for :: "oci_client_options \<Rightarrow> string \<Rightarrow> string list" where
  "client_config_for options reference_registry =
     (if is_localhost_registry reference_registry \<and> reference_registry \<notin> set (oo_insecure_registries options)
      then oo_insecure_registries options @ [reference_registry]
      else oo_insecure_registries options)"

section \<open>Data\<close>

definition CONFIG_MEDIA_TYPE :: string where "CONFIG_MEDIA_TYPE = ''application/vnd.mcpg.plugin.config.v1+json''"
definition LAYER_MEDIA_TYPE :: string where "LAYER_MEDIA_TYPE = ''application/vnd.mcpg.plugin.package.v1+zip''"
definition ARTIFACT_TYPE :: string where "ARTIFACT_TYPE = ''application/vnd.mcpg.plugin.v1''"

datatype oci_error =
    OciInvalidReference string
  | OciPackage package_error
  | OciDistribution string
  | OciIo path
  | WrongLayer string "string list"
  | DigestMismatch string string

datatype oci_auth = OciAnonymous | OciBasic string string

datatype registry_auth = RegistryAnonymous | RegistryBasic string string

fun into_registry_auth :: "oci_auth \<Rightarrow> registry_auth" where
  "into_registry_auth OciAnonymous = RegistryAnonymous"
| "into_registry_auth (OciBasic username password) = RegistryBasic username password"

record plugin_artifact_config =
  pc_id :: string
  pc_name :: string
  pc_class :: string
  pc_runtime :: string
  pc_protocol_version :: string
  pc_schema :: string
  pc_has_signature :: bool
  pc_packaged_with_abi_version :: "32 word"
  pc_packaged_with_abi_layout :: string

text \<open>A blob is its bytes with the media type: a layer or the config of an image.\<close>

record blob =
  bl_data :: string
  bl_media_type :: string

record image_data =
  im_layers :: "blob list"
  im_config :: blob
  im_digest :: "string option"

record push_outcome =
  po_manifest_digest :: string
  po_manifest_url :: string

record pull_outcome =
  lo_manifest_digest :: string
  lo_layer_digest :: string
  lo_output_path :: path
  lo_config :: "plugin_artifact_config option"

text \<open>
  \<open>'r\<close> are the references, \<open>'m\<close> the manifests and \<open>'w\<close> the world with the registry; the first argument of
  \<open>oe_push\<close> and \<open>oe_pull\<close> is the list of registries without TLS.
\<close>

record ('r, 'm, 'w) oci_env =
  oe_parse :: "string \<Rightarrow> 'r option"
  oe_registry :: "'r \<Rightarrow> string"
  oe_build_manifest :: "blob list \<Rightarrow> blob \<Rightarrow> string \<Rightarrow> 'm"
  oe_push :: "string list \<Rightarrow> 'r \<Rightarrow> blob list \<Rightarrow> blob \<Rightarrow> registry_auth \<Rightarrow> 'm \<Rightarrow> 'w \<Rightarrow> (string, string) rresult \<times> 'w"
  oe_pull :: "string list \<Rightarrow> 'r \<Rightarrow> registry_auth \<Rightarrow> string list \<Rightarrow> 'w \<Rightarrow> (string, image_data) rresult \<times> 'w"
  oe_layer_digest :: "string \<Rightarrow> string"
  oe_config_to_json :: "plugin_artifact_config \<Rightarrow> string option"
  oe_config_of_json :: "string \<Rightarrow> plugin_artifact_config option"
  oe_abi_version :: "32 word"
  oe_abi_layout :: string
  oe_temp_dir :: path
  oe_temp_name :: "file_system \<Rightarrow> string"
  oe_descriptor_env :: descriptor_env
  oe_zip :: zip_format

section \<open>The config blob\<close>

definition make_temp_dir :: "path \<Rightarrow> file_system \<Rightarrow> file_system option" where
  "make_temp_dir p fs =
     (if p \<noteq> [] \<and> is_dir fs (butlast p) \<and> fs_nodes fs p = None \<and> fs_writable fs p
      then Some (fs\<lparr>fs_nodes := (fs_nodes fs)(p \<mapsto> Dir)\<rparr>) else None)"

definition remove_tree :: "path \<Rightarrow> file_system \<Rightarrow> file_system" where
  "remove_tree p fs = fs\<lparr>fs_nodes := (\<lambda>q. if prefix p q then None else fs_nodes fs q)\<rparr>"

definition artifact_config_for ::
  "('r, 'm, 'w) oci_env \<Rightarrow> path \<Rightarrow> file_system \<Rightarrow> (oci_error, plugin_artifact_config) rresult \<times> file_system" where
  "artifact_config_for env archive_path fs =
     (let tmp = join (oe_temp_dir env) (oe_temp_name env fs) in
      case make_temp_dir tmp fs of
        None \<Rightarrow> (Inl (OciIo (oe_temp_dir env)), fs)
      | Some fs1 \<Rightarrow>
          (case unpack_to (oe_descriptor_env env) (oe_zip env) archive_path tmp fs1 of
             (Inl e, fs2) \<Rightarrow> (Inl (OciPackage e), remove_tree tmp fs2)
           | (Inr unpacked, fs2) \<Rightarrow>
               (Inr \<lparr>pc_id = ds_id (up_descriptor unpacked), pc_name = ds_name (up_descriptor unpacked),
                     pc_class = ds_class (up_descriptor unpacked), pc_runtime = ds_runtime (up_descriptor unpacked),
                     pc_protocol_version = ds_protocol_version (up_descriptor unpacked),
                     pc_schema = ds_schema (up_descriptor unpacked),
                     pc_has_signature = (up_signature_path unpacked \<noteq> None),
                     pc_packaged_with_abi_version = oe_abi_version env,
                     pc_packaged_with_abi_layout = oe_abi_layout env\<rparr>, remove_tree tmp fs2)))"

section \<open>Push\<close>

definition push ::
  "('r, 'm, 'w) oci_env \<Rightarrow> path \<Rightarrow> string \<Rightarrow> oci_auth \<Rightarrow> oci_client_options \<Rightarrow> file_system \<Rightarrow> 'w
    \<Rightarrow> (oci_error, push_outcome) rresult \<times> file_system \<times> 'w" where
  "push env archive_path reference_str auth options fs w =
     (case oe_parse env reference_str of
        None \<Rightarrow> (Inl (OciInvalidReference reference_str), fs, w)
      | Some reference \<Rightarrow>
          (case fs_read fs archive_path of
             None \<Rightarrow> (Inl (OciIo archive_path), fs, w)
           | Some layer_bytes \<Rightarrow>
               (case artifact_config_for env archive_path fs of
                  (Inl e, fs1) \<Rightarrow> (Inl e, fs1, w)
                | (Inr artifact_config, fs1) \<Rightarrow>
                    (case oe_config_to_json env artifact_config of
                       None \<Rightarrow> (Inl (OciIo archive_path), fs1, w)
                     | Some config_json \<Rightarrow>
                         (let layer = \<lparr>bl_data = layer_bytes, bl_media_type = LAYER_MEDIA_TYPE\<rparr>;
                              config = \<lparr>bl_data = config_json, bl_media_type = CONFIG_MEDIA_TYPE\<rparr>;
                              manifest = oe_build_manifest env [layer] config ARTIFACT_TYPE
                          in case oe_push env (client_config_for options (oe_registry env reference)) reference [layer] config
                                    (into_registry_auth auth) manifest w of
                               (Inl e, w1) \<Rightarrow> (Inl (OciDistribution e), fs1, w1)
                             | (Inr manifest_url, w1) \<Rightarrow>
                                 (Inr \<lparr>po_manifest_digest = last (split_char (CHR ''/'') manifest_url),
                                       po_manifest_url = manifest_url\<rparr>, fs1, w1))))))"

section \<open>Pull\<close>

definition warn_on_abi_layout_mismatch :: "('r, 'm, 'w) oci_env \<Rightarrow> string \<Rightarrow> bool" where
  "warn_on_abi_layout_mismatch env packaged = (packaged \<noteq> [] \<and> packaged \<noteq> oe_abi_layout env)"

definition strip_sha256 :: "string \<Rightarrow> string" where
  "strip_sha256 s = unwrap_or s (strip_prefix_str s ''sha256:'')"

definition same_digest :: "string \<Rightarrow> string \<Rightarrow> bool" where
  "same_digest a b \<longleftrightarrow> to_ascii_lowercase (strip_sha256 a) = to_ascii_lowercase (strip_sha256 b)"

text \<open>\<open>create_dir_all\<close> of the parent and \<open>std::fs::write\<close>.\<close>

definition write_layer :: "path \<Rightarrow> string \<Rightarrow> file_system \<Rightarrow> (oci_error, unit) rresult \<times> file_system" where
  "write_layer output_path data fs =
     (case (if output_path = [] then (True, fs) else create_dir_all (butlast output_path) fs) of
        (False, fs1) \<Rightarrow> (Inl (OciIo (butlast output_path)), fs1)
      | (True, fs1) \<Rightarrow>
          (case fs_create output_path data fs1 of
             None \<Rightarrow> (Inl (OciIo output_path), fs1)
           | Some fs2 \<Rightarrow> (Inr (), fs2)))"

text \<open>The config blob of a pulled image, if it is one of a plugin. The warning about its ABI layout goes to the log and to a counter.\<close>

definition pulled_config :: "('r, 'm, 'w) oci_env \<Rightarrow> image_data \<Rightarrow> plugin_artifact_config option" where
  "pulled_config env pulled =
     (if bl_media_type (im_config pulled) = CONFIG_MEDIA_TYPE then oe_config_of_json env (bl_data (im_config pulled)) else None)"

definition pull ::
  "('r, 'm, 'w) oci_env \<Rightarrow> string \<Rightarrow> path \<Rightarrow> oci_auth \<Rightarrow> oci_client_options \<Rightarrow> string option \<Rightarrow> file_system \<Rightarrow> 'w
    \<Rightarrow> (oci_error, pull_outcome) rresult \<times> file_system \<times> 'w" where
  "pull env reference_str output_path auth options expected_digest fs w =
     (case oe_parse env reference_str of
        None \<Rightarrow> (Inl (OciInvalidReference reference_str), fs, w)
      | Some reference \<Rightarrow>
          (case oe_pull env (client_config_for options (oe_registry env reference)) reference (into_registry_auth auth)
                  [LAYER_MEDIA_TYPE] w of
             (Inl e, w1) \<Rightarrow> (Inl (OciDistribution e), fs, w1)
           | (Inr pulled, w1) \<Rightarrow>
               (case find (\<lambda>l. bl_media_type l = LAYER_MEDIA_TYPE) (im_layers pulled) of
                  None \<Rightarrow> (Inl (WrongLayer LAYER_MEDIA_TYPE (map bl_media_type (im_layers pulled))), fs, w1)
                | Some layer \<Rightarrow>
                    (let manifest_digest = unwrap_or [] (im_digest pulled) in
                     if (case expected_digest of None \<Rightarrow> False | Some want \<Rightarrow> \<not> same_digest manifest_digest want)
                     then (Inl (DigestMismatch (the expected_digest) manifest_digest), fs, w1)
                     else (case write_layer output_path (bl_data layer) fs of
                             (Inl e, fs1) \<Rightarrow> (Inl e, fs1, w1)
                           | (Inr _, fs1) \<Rightarrow>
                               (Inr \<lparr>lo_manifest_digest = manifest_digest,
                                     lo_layer_digest = oe_layer_digest env (bl_data layer),
                                     lo_output_path = output_path, lo_config = pulled_config env pulled\<rparr>, fs1, w1))))))"

section \<open>Which registries are spoken to without TLS\<close>

lemma split_once_char_iff:
  "split_once_char d s = Some (a, b) \<longleftrightarrow> s = a @ d # b \<and> d \<notin> set a"
proof (induction s arbitrary: a)
  case (Cons c s)
  show ?case
  proof (cases a)
    case Nil
    then show ?thesis by (auto split: option.splits)
  next
    case a: (Cons x a')
    have "split_once_char d (c # s) = Some (a, b) \<longleftrightarrow> c \<noteq> d \<and> x = c \<and> split_once_char d s = Some (a', b)"
      by (auto simp: a split: option.splits)
    with Cons.IH [of a'] show ?thesis by (auto simp: a)
  qed
qed simp

lemma split_once_char_None: "split_once_char d s = None \<longleftrightarrow> d \<notin> set s"
  by (induction s) (auto split: option.splits)

lemma rsplit_once_char_iff:
  "rsplit_once_char d s = Some (a, b) \<longleftrightarrow> s = a @ d # b \<and> d \<notin> set b"
proof -
  have "rsplit_once_char d s = Some (a, b) \<longleftrightarrow> split_once_char d (rev s) = Some (rev b, rev a)"
    by (auto simp: rsplit_once_char_def split: option.splits)
  also have "\<dots> \<longleftrightarrow> rev s = rev (a @ d # b) \<and> d \<notin> set b" by (simp add: split_once_char_iff)
  finally show ?thesis by (simp only: rev_is_rev_conv)
qed

lemma rsplit_once_char_None: "rsplit_once_char d s = None \<longleftrightarrow> d \<notin> set s"
proof -
  have "rsplit_once_char d s = None \<longleftrightarrow> split_once_char d (rev s) = None"
    by (auto simp: rsplit_once_char_def split: option.splits)
  then show ?thesis by (simp add: split_once_char_None)
qed

definition loopback_name :: "string \<Rightarrow> bool" where
  "loopback_name registry \<longleftrightarrow> registry = ''::1''
     \<or> (\<exists>h \<in> {''localhost'', ''127.0.0.1''}. registry = h \<or> (\<exists>port. CHR '':'' \<notin> set port \<and> registry = h @ '':'' @ port))"

lemma localhost_bracketed:
  "is_localhost_registry (CHR ''['' # rest) \<longleftrightarrow> (\<exists>h \<in> {''localhost'', ''127.0.0.1'', ''::1''}. \<exists>after. rest = h @ '']'' @ after)"
proof (cases "split_once_char (CHR '']'') rest")
  case None
  then have "CHR '']'' \<notin> set rest" using split_once_char_None by metis
  then show ?thesis by (auto simp: is_localhost_registry_def None)
next
  case (Some ab)
  then obtain a b where ab: "split_once_char (CHR '']'') rest = Some (a, b)" by (cases ab) simp
  then have r: "rest = a @ CHR '']'' # b" "CHR '']'' \<notin> set a" using split_once_char_iff by metis+
  have e: "(\<exists>after. rest = h @ '']'' @ after) \<longleftrightarrow> h = a" if "CHR '']'' \<notin> set h" for h
    using that ab r split_once_char_iff [of "CHR '']''" rest h] by auto
  have "a \<noteq> ''[::1]''" using r(2) by auto
  moreover have "(\<exists>h \<in> {''localhost'', ''127.0.0.1'', ''::1''}. \<exists>after. rest = h @ '']'' @ after)
      \<longleftrightarrow> (\<exists>h \<in> {''localhost'', ''127.0.0.1'', ''::1''}. h = a)"
    by (rule bex_cong [OF refl], rule e) auto
  ultimately show ?thesis by (auto simp: is_localhost_registry_def ab LOCALHOST_HOSTS_def)
qed

lemma localhost_plain:
  assumes "\<not> starts_with registry ''[''"
  shows "is_localhost_registry registry \<longleftrightarrow> loopback_name registry"
proof (cases "rsplit_once_char (CHR '':'') registry")
  case None
  then have n: "CHR '':'' \<notin> set registry" using rsplit_once_char_None by metis
  from assms have s: "strip_prefix_str registry ''['' = None" by (simp add: strip_prefix_str_None)
  from assms have "registry \<noteq> ''[::1]''" by (auto simp: starts_with_def)
  moreover from n have "registry \<noteq> ''::1''" "registry \<noteq> h @ '':'' @ port" for h port by auto
  ultimately show ?thesis by (simp add: is_localhost_registry_def s None loopback_name_def LOCALHOST_HOSTS_def)
next
  case (Some ab)
  then obtain a b where ab: "rsplit_once_char (CHR '':'') registry = Some (a, b)" by (cases ab) simp
  then have r: "registry = a @ CHR '':'' # b" "CHR '':'' \<notin> set b" using rsplit_once_char_iff by metis+
  from assms have s: "strip_prefix_str registry ''['' = None" by (simp add: strip_prefix_str_None)
  have u: "registry = h @ '':'' @ port \<and> CHR '':'' \<notin> set port \<longleftrightarrow> h = a \<and> port = b" for h port
    using ab rsplit_once_char_iff [of "CHR '':''" registry h port] by auto
  have v: "registry = ''::1'' \<longleftrightarrow> a = '':'' \<and> b = ''1''"
    using u [of "'':''" "''1''"] by auto
  have w: "registry \<noteq> ''localhost'' \<and> registry \<noteq> ''127.0.0.1'' \<and> registry \<noteq> ''[::1]''"
  proof -
    have "CHR '':'' \<in> set registry" by (simp add: r(1))
    moreover have "registry \<noteq> ''[::1]''" using assms by (auto simp: starts_with_def)
    ultimately show ?thesis by auto
  qed
  have p: "(\<exists>port. CHR '':'' \<notin> set port \<and> registry = h @ '':'' @ port) \<longleftrightarrow> a = h" for h
    using u by blast
  have l: "loopback_name registry \<longleftrightarrow> registry = ''::1'' \<or> a = ''localhost'' \<or> a = ''127.0.0.1''"
    unfolding loopback_name_def p using w by auto
  show ?thesis
  proof (cases "CHR '':'' \<in> set a")
    case True
    then have "is_localhost_registry registry \<longleftrightarrow> registry = ''::1''"
      using w by (simp add: is_localhost_registry_def s ab LOCALHOST_HOSTS_def)
    moreover have "loopback_name registry \<longleftrightarrow> registry = ''::1''"
      using True unfolding l by auto
    ultimately show ?thesis by simp
  next
    case False
    then have "is_localhost_registry registry \<longleftrightarrow> a \<in> set LOCALHOST_HOSTS"
      by (simp add: is_localhost_registry_def s ab)
    moreover have "a \<noteq> ''[::1]''" "a \<noteq> ''::1''" using False by auto
    ultimately have "is_localhost_registry registry \<longleftrightarrow> a = ''localhost'' \<or> a = ''127.0.0.1''"
      by (simp add: LOCALHOST_HOSTS_def)
    moreover have "a \<noteq> '':''" using False by auto
    then have "registry \<noteq> ''::1''" unfolding v by blast
    ultimately show ?thesis unfolding l by blast
  qed
qed

lemma is_localhost_registry_iff:
  "is_localhost_registry registry \<longleftrightarrow> loopback_name registry
     \<or> (\<exists>h \<in> {''localhost'', ''127.0.0.1'', ''::1''}. \<exists>after. registry = ''['' @ h @ '']'' @ after)"
proof (cases "starts_with registry ''[''")
  case True
  then obtain rest where r: "registry = CHR ''['' # rest" by (auto simp: starts_with_def prefix_def)
  have "\<not> loopback_name registry" by (auto simp: r loopback_name_def)
  then show ?thesis by (simp add: r localhost_bracketed)
next
  case False
  then show ?thesis by (auto simp: localhost_plain starts_with_def)
qed

section \<open>What the operations leave behind\<close>

lemma write_layer_frame:
  assumes "write_layer out data fs = (res, fs')"
  shows "fs_readable fs' = fs_readable fs" and "fs_writable fs' = fs_writable fs"
    and "res = Inr () \<Longrightarrow> fs_nodes fs' out = Some (File data)"
    and "q \<noteq> out \<or> is_err res \<Longrightarrow> fs_nodes fs' q = fs_nodes fs q
      \<or> (fs_nodes fs q = None \<and> fs_nodes fs' q = Some Dir \<and> strict_prefix q out)"
proof -
  obtain ok fs1 where c: "(if out = [] then (True, fs) else create_dir_all (butlast out) fs) = (ok, fs1)" by force
  have f: "fs_readable fs1 = fs_readable fs \<and> fs_writable fs1 = fs_writable fs
      \<and> (fs_nodes fs1 p = fs_nodes fs p \<or> (fs_nodes fs p = None \<and> fs_nodes fs1 p = Some Dir \<and> strict_prefix p out))" for p
  proof (cases "out = []")
    case False
    with c have d: "create_dir_all (butlast out) fs = (ok, fs1)" by simp
    have "strict_prefix p out" if "prefix p (butlast out)"
    proof -
      from False have "out = butlast out @ [last out]" by simp
      then have "strict_prefix (butlast out) out" by (metis strict_prefixI' append_Nil2)
      with that show ?thesis by (rule prefix_order.le_less_trans)
    qed
    with create_dir_all_frame [OF d] create_dir_all_frame(3) [OF d, of p] show ?thesis by blast
  qed (use c in simp)
  have r: "res = Inr () \<and> fs_create out data fs1 = Some fs' \<or> is_err res \<and> fs' = fs1"
    using assms c by (auto simp: write_layer_def is_err_def split: bool.splits option.splits)
  from r f [of out] show "fs_readable fs' = fs_readable fs" "fs_writable fs' = fs_writable fs"
    "res = Inr () \<Longrightarrow> fs_nodes fs' out = Some (File data)"
    by (auto simp: is_err_def dest: fs_create_nodes)
  from r f [of q] show "q \<noteq> out \<or> is_err res \<Longrightarrow> fs_nodes fs' q = fs_nodes fs q
      \<or> (fs_nodes fs q = None \<and> fs_nodes fs' q = Some Dir \<and> strict_prefix q out)"
    by (auto simp: is_err_def dest: fs_create_nodes)
qed

text \<open>The stages of a pull.\<close>

lemma pull_cases:
  assumes "pull env reference_str out auth options expected fs w = (res, fs', w')"
  obtains (refused) e where "res = Inl e" and "fs' = fs"
  | (written) reference pulled layer wr
    where "oe_parse env reference_str = Some reference"
      and "oe_pull env (client_config_for options (oe_registry env reference)) reference (into_registry_auth auth)
             [LAYER_MEDIA_TYPE] w = (Inr pulled, w')"
      and "find (\<lambda>l. bl_media_type l = LAYER_MEDIA_TYPE) (im_layers pulled) = Some layer"
      and "\<And>want. expected = Some want \<Longrightarrow> same_digest (unwrap_or [] (im_digest pulled)) want"
      and "write_layer out (bl_data layer) fs = (wr, fs')"
      and "res = map_sum id (\<lambda>_. \<lparr>lo_manifest_digest = unwrap_or [] (im_digest pulled),
             lo_layer_digest = oe_layer_digest env (bl_data layer), lo_output_path = out,
             lo_config = pulled_config env pulled\<rparr>) wr"
  using assms unfolding pull_def Let_def
  by (auto split: option.splits prod.splits sum.splits if_splits)

lemma find_layer: "find P xs = Some x \<Longrightarrow> x \<in> set xs \<and> P x"
  by (auto simp: find_Some_iff)

lemma remove_tree_fresh:
  assumes "\<And>q. prefix p q \<Longrightarrow> fs_nodes fs q = None"
    and "\<And>q. \<not> prefix p q \<Longrightarrow> fs_nodes fs' q = fs_nodes fs q"
    and "fs_readable fs' = fs_readable fs" and "fs_writable fs' = fs_writable fs"
  shows "remove_tree p fs' = fs"
proof -
  have "(\<lambda>q. if prefix p q then None else fs_nodes fs' q) = fs_nodes fs" using assms(1,2) by (intro ext) simp
  with assms(3,4) show ?thesis by (simp add: remove_tree_def)
qed

lemma artifact_config_restores:
  assumes fresh: "\<And>q. prefix (join (oe_temp_dir env) (oe_temp_name env fs)) q \<Longrightarrow> fs_nodes fs q = None"
    and tree: "\<And>q. strict_prefix q (join (oe_temp_dir env) (oe_temp_name env fs)) \<Longrightarrow> fs_nodes fs q \<noteq> None"
  shows "snd (artifact_config_for env archive_path fs) = fs"
proof -
  let ?tmp = "join (oe_temp_dir env) (oe_temp_name env fs)"
  show ?thesis
  proof (cases "make_temp_dir ?tmp fs")
    case (Some fs1)
    then have fs1: "fs1 = fs\<lparr>fs_nodes := (fs_nodes fs)(?tmp \<mapsto> Dir)\<rparr>"
      by (auto simp: make_temp_dir_def split: if_splits)
    obtain res fs2 where u: "unpack_to (oe_descriptor_env env) (oe_zip env) archive_path ?tmp fs1 = (res, fs2)" by force
    have "fs_nodes fs2 q = fs_nodes fs q" if "\<not> prefix ?tmp q" for q
      using unpack_to_frame(3) [OF u, of q] that tree [of q]
      by (auto simp: fs1 join_def strict_prefix_def split: if_splits)
    with unpack_to_frame(1,2) [OF u] have "remove_tree ?tmp fs2 = fs"
      by (intro remove_tree_fresh fresh) (simp_all add: fs1)
    then show ?thesis by (cases res) (simp_all add: artifact_config_for_def Let_def Some u)
  qed (simp add: artifact_config_for_def)
qed

section \<open>Registries that keep what they are given\<close>

text \<open>A pull right after a push, with the same options and credentials, gives back the image that was pushed.\<close>

definition registry_faithful :: "('r, 'm, 'w) oci_env \<Rightarrow> bool" where
  "registry_faithful env \<longleftrightarrow>
     (\<forall>ins reference layers config auth manifest accepted w url w'.
        oe_push env ins reference layers config auth manifest w = (Inr url, w') \<and> (\<forall>l \<in> set layers. bl_media_type l \<in> set accepted)
        \<longrightarrow> (\<exists>digest w''. oe_pull env ins reference auth accepted w'
               = (Inr \<lparr>im_layers = layers, im_config = config, im_digest = Some digest\<rparr>, w'')))"

definition config_codec :: "('r, 'm, 'w) oci_env \<Rightarrow> bool" where
  "config_codec env \<longleftrightarrow> (\<forall>c s. oe_config_to_json env c = Some s \<longrightarrow> oe_config_of_json env s = Some c)"

lemma push_ok:
  assumes "push env archive_path reference_str auth options fs w = (Inr outcome, fs', w')"
  obtains reference bytes config json where "oe_parse env reference_str = Some reference"
    and "fs_read fs archive_path = Some bytes" and "artifact_config_for env archive_path fs = (Inr config, fs')"
    and "oe_config_to_json env config = Some json"
    and "oe_push env (client_config_for options (oe_registry env reference)) reference
           [\<lparr>bl_data = bytes, bl_media_type = LAYER_MEDIA_TYPE\<rparr>] \<lparr>bl_data = json, bl_media_type = CONFIG_MEDIA_TYPE\<rparr>
           (into_registry_auth auth)
           (oe_build_manifest env [\<lparr>bl_data = bytes, bl_media_type = LAYER_MEDIA_TYPE\<rparr>]
             \<lparr>bl_data = json, bl_media_type = CONFIG_MEDIA_TYPE\<rparr> ARTIFACT_TYPE) w = (Inr (po_manifest_url outcome), w')"
  using assms unfolding push_def Let_def by (auto split: option.splits prod.splits sum.splits)

section \<open>Properties\<close>

text \<open>
  C28. A pull stores nothing but the pinned layer. Whatever the registry answers, the file system changes at most by
  the file at the output path and by directories on the way to it, and the file only when the pull
  succeeds; then it holds exactly the bytes of a layer of the plugin media type out of the image the
  registry sent, the reported layer digest is the one of these bytes, and with a pin the digest of the
  manifest is the pinned one up to case and the \<open>sha256:\<close> prefix.
\<close>

theorem pull_stores_only_pinned_layer:
  "let (res, fs', w') = pull env reference_str out auth options expected fs w in
     (\<forall>q. q \<noteq> out \<or> is_err res \<longrightarrow> fs_nodes fs' q = fs_nodes fs q
        \<or> (fs_nodes fs q = None \<and> fs_nodes fs' q = Some Dir \<and> strict_prefix q out))
   \<and> (\<forall>outcome. res = Inr outcome \<longrightarrow>
        (\<exists>reference pulled layer.
           oe_parse env reference_str = Some reference
         \<and> oe_pull env (client_config_for options (oe_registry env reference)) reference (into_registry_auth auth)
             [LAYER_MEDIA_TYPE] w = (Inr pulled, w')
         \<and> layer \<in> set (im_layers pulled) \<and> bl_media_type layer = LAYER_MEDIA_TYPE
         \<and> fs_nodes fs' out = Some (File (bl_data layer))
         \<and> lo_layer_digest outcome = oe_layer_digest env (bl_data layer)
         \<and> lo_manifest_digest outcome = unwrap_or [] (im_digest pulled)
         \<and> (\<forall>pin. expected = Some pin \<longrightarrow>
              to_ascii_lowercase (strip_sha256 (lo_manifest_digest outcome)) = to_ascii_lowercase (strip_sha256 pin))))"
proof -
  obtain res fs' w' where p: "pull env reference_str out auth options expected fs w = (res, fs', w')" by (metis prod_cases3)
  from p show ?thesis
  proof (cases rule: pull_cases)
    case refused
    then show ?thesis by (simp add: p)
  next
    case (written reference pulled layer wr)
    have frame: "fs_nodes fs' q = fs_nodes fs q \<or> (fs_nodes fs q = None \<and> fs_nodes fs' q = Some Dir \<and> strict_prefix q out)"
      if "q \<noteq> out \<or> is_err res" for q
      using write_layer_frame(4) [OF written(5)] that written(6) by (cases wr) (auto simp: is_err_def)
    have wr: "wr = Inr ()" if "res = Inr outcome" for outcome using written(6) that by (cases wr) auto
    have "\<forall>outcome. res = Inr outcome \<longrightarrow> layer \<in> set (im_layers pulled) \<and> bl_media_type layer = LAYER_MEDIA_TYPE
         \<and> fs_nodes fs' out = Some (File (bl_data layer))
         \<and> lo_layer_digest outcome = oe_layer_digest env (bl_data layer)
         \<and> lo_manifest_digest outcome = unwrap_or [] (im_digest pulled)
         \<and> (\<forall>pin. expected = Some pin \<longrightarrow> same_digest (lo_manifest_digest outcome) pin)"
      using wr write_layer_frame(3) [OF written(5)] find_layer [OF written(3)] written(4,6) by auto
    with frame written(1,2) show ?thesis unfolding p same_digest_def Let_def prod.case by blast
  qed
qed

text \<open>
  C30. What was pushed is what is pulled. If a push succeeds, a pull of the same reference into any file system
  where the output path can be written gives the bytes of the archive, the digest of exactly these
  bytes, and the config blob that describes the package; the push itself leaves the file system as it was.
\<close>

theorem pushed_package_is_pulled:
  assumes "registry_faithful env" and "config_codec env"
    and pushed: "push env archive_path reference_str auth options fs w = (Inr outcome, fs1, w1)"
    and fresh: "\<forall>q. prefix (join (oe_temp_dir env) (oe_temp_name env fs)) q \<longrightarrow> fs_nodes fs q = None"
    and tree: "\<forall>q. strict_prefix q (join (oe_temp_dir env) (oe_temp_name env fs)) \<longrightarrow> fs_nodes fs q \<noteq> None"
    and out: "out \<noteq> []" "create_dir_all (butlast out) fs2 = (True, fs3)" "can_create fs3 out"
  shows "\<exists>bytes config digest fs4 w2. fs_read fs archive_path = Some bytes
    \<and> fst (artifact_config_for env archive_path fs) = Inr config \<and> fs1 = fs
    \<and> pull env reference_str out auth options None fs2 w1
        = (Inr \<lparr>lo_manifest_digest = digest, lo_layer_digest = oe_layer_digest env bytes, lo_output_path = out,
                lo_config = Some config\<rparr>, fs4, w2)
    \<and> fs_nodes fs4 out = Some (File bytes)"
proof -
  from push_ok [OF pushed] obtain reference bytes config json where p: "oe_parse env reference_str = Some reference"
    "fs_read fs archive_path = Some bytes" "artifact_config_for env archive_path fs = (Inr config, fs1)"
    "oe_config_to_json env config = Some json"
    "oe_push env (client_config_for options (oe_registry env reference)) reference
       [\<lparr>bl_data = bytes, bl_media_type = LAYER_MEDIA_TYPE\<rparr>] \<lparr>bl_data = json, bl_media_type = CONFIG_MEDIA_TYPE\<rparr>
       (into_registry_auth auth) (oe_build_manifest env [\<lparr>bl_data = bytes, bl_media_type = LAYER_MEDIA_TYPE\<rparr>]
         \<lparr>bl_data = json, bl_media_type = CONFIG_MEDIA_TYPE\<rparr> ARTIFACT_TYPE) w = (Inr (po_manifest_url outcome), w1)"
    by metis
  obtain digest w2 where d: "oe_pull env (client_config_for options (oe_registry env reference)) reference
      (into_registry_auth auth) [LAYER_MEDIA_TYPE] w1 = (Inr \<lparr>im_layers = [\<lparr>bl_data = bytes, bl_media_type = LAYER_MEDIA_TYPE\<rparr>],
        im_config = \<lparr>bl_data = json, bl_media_type = CONFIG_MEDIA_TYPE\<rparr>, im_digest = Some digest\<rparr>, w2)"
    using assms(1) p(5) unfolding registry_faithful_def by fastforce
  from assms(2) p(4) have c: "oe_config_of_json env json = Some config" by (simp add: config_codec_def)
  from fresh tree have "snd (artifact_config_for env archive_path fs) = fs" by (intro artifact_config_restores) blast+
  with p(3) have fs1: "fs1 = fs" by simp
  from out obtain fs4 where wl: "write_layer out bytes fs2 = (Inr (), fs4)"
    by (auto simp: write_layer_def fs_create_def)
  from write_layer_frame(3) [OF wl] have f: "fs_nodes fs4 out = Some (File bytes)" by simp
  have "pull env reference_str out auth options None fs2 w1 = (Inr \<lparr>lo_manifest_digest = digest,
      lo_layer_digest = oe_layer_digest env bytes, lo_output_path = out, lo_config = Some config\<rparr>, fs4, w2)"
    by (simp add: pull_def p(1) d wl pulled_config_def c unwrap_or_def)
  with p(2,3) fs1 f show ?thesis by auto
qed

text \<open>
  Plain HTTP is used for the registries the caller listed and, beyond them, only for the registry of the reference
  itself when it names a loopback host: \<open>::1\<close>, or \<open>localhost\<close> or \<open>127.0.0.1\<close> with or without a port, or one
  of the three in brackets. For the last form what follows the bracket is not looked at.
\<close>

theorem plain_http_exactly:
  "r \<in> set (client_config_for options registry) \<longleftrightarrow> r \<in> set (oo_insecure_registries options)
    \<or> (r = registry \<and>
        (registry = ''::1''
         \<or> (\<exists>h \<in> {''localhost'', ''127.0.0.1''}. registry = h \<or> (\<exists>port. CHR '':'' \<notin> set port \<and> registry = h @ '':'' @ port))
         \<or> (\<exists>h \<in> {''localhost'', ''127.0.0.1'', ''::1''}. \<exists>after. registry = ''['' @ h @ '']'' @ after)))"
proof -
  have "r \<in> set (client_config_for options registry)
      \<longleftrightarrow> r \<in> set (oo_insecure_registries options) \<or> (r = registry \<and> is_localhost_registry registry)"
    by (auto simp: client_config_for_def)
  then show ?thesis unfolding is_localhost_registry_iff loopback_name_def by blast
qed

section \<open>Witnesses\<close>

text \<open>A registry that keeps the last image, for a host whose temporary directories are \<open>/t\<close>.\<close>

definition sample_config :: plugin_artifact_config where
  "sample_config = \<lparr>pc_id = ''a.b'', pc_name = ''b'', pc_class = ''tool_gate'', pc_runtime = ''native-cdylib-v1'',
     pc_protocol_version = ''1.0'', pc_schema = ''mcpg.dev/plugin/v1'', pc_has_signature = False,
     pc_packaged_with_abi_version = 7, pc_packaged_with_abi_layout = ''L''\<rparr>"

definition sample_oci :: "(string, unit, image_data option) oci_env" where
  "sample_oci = \<lparr>oe_parse = Some, oe_registry = (\<lambda>r. r), oe_build_manifest = (\<lambda>layers config kind. ()),
     oe_push = (\<lambda>ins r layers config auth m w.
       (Inr ''r/v2/sha256:AB'', Some \<lparr>im_layers = layers, im_config = config, im_digest = Some ''sha256:AB''\<rparr>)),
     oe_pull = (\<lambda>ins r auth accepted w. (case w of None \<Rightarrow> (Inl ''not found'', w) | Some i \<Rightarrow> (Inr i, w))),
     oe_layer_digest = (\<lambda>b. ''sha256:'' @ b), oe_config_to_json = (\<lambda>c. if c = sample_config then Some ''C'' else None),
     oe_config_of_json = (\<lambda>s. if s = ''C'' then Some sample_config else None),
     oe_abi_version = 7, oe_abi_layout = ''L'', oe_temp_dir = [], oe_temp_name = (\<lambda>fs. ''t''),
     oe_descriptor_env = sample_descriptor_env, oe_zip = sample_zip\<rparr>"

definition sample_image :: image_data where
  "sample_image = \<lparr>im_layers = [\<lparr>bl_data = ''PK'', bl_media_type = LAYER_MEDIA_TYPE\<rparr>],
     im_config = \<lparr>bl_data = ''C'', bl_media_type = CONFIG_MEDIA_TYPE\<rparr>, im_digest = Some ''sha256:AB''\<rparr>"

definition push_fs :: file_system where
  "push_fs = shipped_fs\<lparr>fs_nodes := (fs_nodes shipped_fs)([] \<mapsto> Dir)\<rparr>"

lemma sample_config_blob:
  "fst (artifact_config_for sample_oci [''b.zip''] push_fs) = Inr sample_config"
proof -
  let ?fs1 = "push_fs\<lparr>fs_nodes := (fs_nodes push_fs)([''t''] \<mapsto> Dir)\<rparr>"
  let ?fs2 = "?fs1\<lparr>fs_nodes := (fs_nodes ?fs1)(join [''t''] ''plugin.yaml'' \<mapsto> File ''yaml'', join [''t''] ''plugin.so'' \<mapsto> File ''elf'')\<rparr>"
  have "unpack_entries [''b.zip''] [''t''] (map (\<lambda>f. Some (plain_entry f)) sample_packed) [] ?fs1
      = (Inr [''plugin.yaml'', ''plugin.so''], ?fs2)"
    by (simp add: sample_packed_def unpack_entries_step entry_name_def plain_entry_def file_name_def package_names_def
        extract_entry_def fs_create_def can_create_def sample_package_simps push_fs_def)
  moreover have "fs_read ?fs1 [''b.zip''] = Some ''PK''" by (simp add: sample_package_simps push_fs_def)
  moreover have "load_descriptor sample_descriptor_env ?fs2 (join [''t''] DESCRIPTOR) = Inr sample_descriptor"
    by (rule sample_descriptor_loads) (simp add: sample_package_simps push_fs_def)
  moreover have "complete [''plugin.yaml'', ''plugin.so'']" by (simp add: complete_def entry_names)
  moreover have "create_dir_all [''t''] ?fs1 = (True, ?fs1)"
    by (simp add: create_dir_all_def sample_package_simps push_fs_def Let_def)
  ultimately have u: "unpack_to sample_descriptor_env sample_zip [''b.zip''] [''t''] ?fs1
      = (Inr (described sample_descriptor_env [''t''] [''plugin.yaml'', ''plugin.so''] sample_descriptor), ?fs2)"
    by (simp add: unpack_to_ok sample_zip_def)
  have "make_temp_dir [''t''] push_fs = Some ?fs1"
    by (simp add: make_temp_dir_def push_fs_def sample_package_simps)
  with u show ?thesis
    by (simp add: artifact_config_for_def sample_oci_def join_def described_def sample_descriptor_def sample_config_def
        seen_path_def entry_names Let_def)
qed

theorem pull_stores_only_pinned_layer_witness:
  "\<exists>fs' outcome. pull sample_oci ''r'' [''d'', ''x.zip''] OciAnonymous \<lparr>oo_insecure_registries = []\<rparr> (Some ''ab'') push_fs (Some sample_image)
      = (Inr outcome, fs', Some sample_image)
    \<and> fs_nodes fs' [''d'', ''x.zip''] = Some (File ''PK'') \<and> to_ascii_lowercase (strip_sha256 (lo_manifest_digest outcome)) = ''ab''"
proof -
  obtain res fs' w' where p: "pull sample_oci ''r'' [''d'', ''x.zip''] OciAnonymous \<lparr>oo_insecure_registries = []\<rparr> (Some ''ab'')
      push_fs (Some sample_image) = (res, fs', w')" by (metis prod_cases3)
  have "same_digest ''sha256:AB'' ''ab''" by code_simp
  with p have "\<exists>outcome. res = Inr outcome" "w' = Some sample_image"
    by (auto simp: pull_def sample_oci_def sample_image_def unwrap_or_def write_layer_def create_dir_all_def
        fs_create_def can_create_def push_fs_def sample_package_simps Let_def split: if_splits)
  moreover have "to_ascii_lowercase (strip_sha256 ''ab'') = ''ab''" by code_simp
  ultimately show ?thesis
    using p pull_stores_only_pinned_layer [of sample_oci "''r''" "[''d'', ''x.zip'']" OciAnonymous "\<lparr>oo_insecure_registries = []\<rparr>"
      "Some ''ab''" push_fs "Some sample_image"]
    by (auto simp: sample_oci_def sample_image_def)
qed

theorem pushed_package_is_pulled_witness:
  "\<exists>fs1 w1 outcome fs4 w2 pulled. push sample_oci [''b.zip''] ''r'' OciAnonymous \<lparr>oo_insecure_registries = []\<rparr> push_fs None = (Inr outcome, fs1, w1)
    \<and> pull sample_oci ''r'' [''x.zip''] OciAnonymous \<lparr>oo_insecure_registries = []\<rparr> None push_fs w1 = (Inr pulled, fs4, w2)
    \<and> fs_nodes fs4 [''x.zip''] = Some (File ''PK'') \<and> lo_config pulled = Some sample_config"
proof -
  obtain fs1 where a: "artifact_config_for sample_oci [''b.zip''] push_fs = (Inr sample_config, fs1)"
    using sample_config_blob by (metis prod.collapse)
  then obtain w1 outcome where push: "push sample_oci [''b.zip''] ''r'' OciAnonymous \<lparr>oo_insecure_registries = []\<rparr> push_fs None
      = (Inr outcome, fs1, w1)"
    by (auto simp: push_def sample_oci_def push_fs_def sample_package_simps Let_def)
  have f: "registry_faithful sample_oci" "config_codec sample_oci"
    by (auto simp: registry_faithful_def config_codec_def sample_oci_def split: if_splits)
  have t: "\<forall>q. prefix (join (oe_temp_dir sample_oci) (oe_temp_name sample_oci push_fs)) q \<longrightarrow> fs_nodes push_fs q = None"
    "\<forall>q. strict_prefix q (join (oe_temp_dir sample_oci) (oe_temp_name sample_oci push_fs)) \<longrightarrow> fs_nodes push_fs q \<noteq> None"
    by (auto simp: sample_oci_def push_fs_def sample_package_simps prefix_def strict_prefix_def Cons_eq_append_conv)
  have "create_dir_all (butlast [''x.zip'']) push_fs = (True, push_fs)" "can_create push_fs [''x.zip'']"
    by (simp_all add: create_dir_all_def can_create_def push_fs_def sample_package_simps)
  from pushed_package_is_pulled [OF f push t _ this] sample_config_blob
  show ?thesis using push by (auto simp: push_fs_def sample_package_simps)
qed

text \<open>
  A name that only begins with a bracketed loopback address counts as loopback, where the function is
  documented to compare the host exactly.
\<close>

lemma bracketed_prefix_is_plain_http:
  "''[::1].example.com'' \<in> set (client_config_for \<lparr>oo_insecure_registries = []\<rparr> ''[::1].example.com'')"
  by code_simp

end
