(* ===== verification/Docker_Credentials.thy ===== *)
theory Docker_Credentials
  imports Oci
begin

text \<open>
  Registry credentials out of a Docker \<open>config.json\<close> (\<open>docker_credentials.rs\<close>): helpers for a host, inline
  entries, the default store, in this order.

  The JSON parser, base64 and the run of a helper process are fields of \<open>docker_env\<close>; a run ends in one of the
  ways the system calls report, and the texts of system errors are left out.
\<close>

section \<open>Data\<close>

record docker_auth_entry =
  da_auth :: "string option"
  da_username :: "string option"
  da_password :: "string option"

record docker_config =
  dc_auths :: "(string, docker_auth_entry) bmap"
  dc_cred_helpers :: "(string, string) bmap"
  dc_creds_store :: "string option"

datatype docker_config_error =
    HomeNotSet
  | DockerIo path
  | DockerParse path
  | AuthBase64
  | AuthNotUtf8
  | MalformedAuth
  | HelperLaunchFailed string
  | HelperStdinUnavailable
  | HelperStdinWriteFailed
  | HelperWaitFailed
  | HelperExitNonZero string int string
  | HelperParseFailed string

text \<open>How a child process ends: not started, no pipe, broken pipe, not waited for, or with status, output and errors.\<close>

datatype helper_run = LaunchFailed | NoStdin | StdinFailed | WaitFailed | Exited int string string

record helper_response =
  hr_username :: string
  hr_secret :: string

record 'w docker_env =
  dk_home :: "path option"
  dk_parse :: "string \<Rightarrow> docker_config option"
  dk_base64_decode :: "string \<Rightarrow> string option"
  dk_spawn :: "string \<Rightarrow> string \<Rightarrow> string \<Rightarrow> 'w \<Rightarrow> helper_run \<times> 'w"
  dk_parse_response :: "string \<Rightarrow> helper_response option"

section \<open>Operations\<close>

definition default_docker_config_path :: "'w docker_env \<Rightarrow> path option" where
  "default_docker_config_path env = map_option (\<lambda>h. join (join h ''.docker'') ''config.json'') (dk_home env)"

definition lookup_matching :: "(string, 'v) bmap \<Rightarrow> string \<Rightarrow> 'v option" where
  "lookup_matching m host =
     (case map_of m host of
        Some v \<Rightarrow> Some v
      | None \<Rightarrow> (case map_of m (''https://'' @ host) of
                   Some v \<Rightarrow> Some v
                 | None \<Rightarrow> map_of m (''http://'' @ host)))"

definition decode_basic_auth :: "'w docker_env \<Rightarrow> string \<Rightarrow> (docker_config_error, string \<times> string) rresult" where
  "decode_basic_auth env b64 =
     (case dk_base64_decode env (trim_str b64) of
        None \<Rightarrow> Inl AuthBase64
      | Some bytes \<Rightarrow>
          if \<not> valid_utf8 bytes then Inl AuthNotUtf8
          else (case split_once_char (CHR '':'') bytes of
                  None \<Rightarrow> Inl MalformedAuth
                | Some (u, p) \<Rightarrow> Inr (u, p)))"

definition run_credential_helper ::
  "'w docker_env \<Rightarrow> string \<Rightarrow> string \<Rightarrow> 'w \<Rightarrow> (docker_config_error, oci_auth) rresult \<times> 'w" where
  "run_credential_helper env helper host w =
     (let binary = ''docker-credential-'' @ helper in
      case dk_spawn env binary ''get'' host w of
        (LaunchFailed, w1) \<Rightarrow> (Inl (HelperLaunchFailed binary), w1)
      | (NoStdin, w1) \<Rightarrow> (Inl HelperStdinUnavailable, w1)
      | (StdinFailed, w1) \<Rightarrow> (Inl HelperStdinWriteFailed, w1)
      | (WaitFailed, w1) \<Rightarrow> (Inl HelperWaitFailed, w1)
      | (Exited status stdout stderr, w1) \<Rightarrow>
          if status \<noteq> 0 then (Inl (HelperExitNonZero binary status stderr), w1)
          else (case dk_parse_response env stdout of
                  None \<Rightarrow> (Inl (HelperParseFailed binary), w1)
                | Some resp \<Rightarrow> (Inr (OciBasic (hr_username resp) (hr_secret resp)), w1)))"

text \<open>The default store, the fourth source.\<close>

definition from_creds_store ::
  "'w docker_env \<Rightarrow> docker_config \<Rightarrow> string \<Rightarrow> 'w \<Rightarrow> (docker_config_error, oci_auth option) rresult \<times> 'w" where
  "from_creds_store env config host w =
     (case dc_creds_store config of
        Some store \<Rightarrow> if trim_str store \<noteq> [] then apfst (map_sum id Some) (run_credential_helper env store host w) else (Inr None, w)
      | None \<Rightarrow> (Inr None, w))"

definition resolve_from_parsed ::
  "'w docker_env \<Rightarrow> docker_config \<Rightarrow> string \<Rightarrow> 'w \<Rightarrow> (docker_config_error, oci_auth option) rresult \<times> 'w" where
  "resolve_from_parsed env config host w =
     (case lookup_matching (dc_cred_helpers config) host of
        Some helper \<Rightarrow> apfst (map_sum id Some) (run_credential_helper env helper host w)
      | None \<Rightarrow>
          (case lookup_matching (dc_auths config) host of
             None \<Rightarrow> from_creds_store env config host w
           | Some entry \<Rightarrow>
               if (case da_auth entry of Some auth \<Rightarrow> trim_str auth \<noteq> [] | None \<Rightarrow> False)
               then (map_sum id (\<lambda>(u, p). Some (OciBasic u p)) (decode_basic_auth env (the (da_auth entry))), w)
               else (case (da_username entry, da_password entry) of
                       (Some u, Some p) \<Rightarrow> (Inr (Some (OciBasic u p)), w)
                     | _ \<Rightarrow> from_creds_store env config host w)))"

definition resolve_from_docker_config ::
  "'w docker_env \<Rightarrow> string \<Rightarrow> path option \<Rightarrow> file_system \<Rightarrow> 'w
    \<Rightarrow> (docker_config_error, oci_auth option) rresult \<times> 'w" where
  "resolve_from_docker_config env host config_path fs w =
     (case or_else config_path (default_docker_config_path env) of
        None \<Rightarrow> (Inl HomeNotSet, w)
      | Some p \<Rightarrow>
          if \<not> path_exists fs p then (Inr None, w)
          else (case fs_read fs p of
                  None \<Rightarrow> (Inl (DockerIo p), w)
                | Some bytes \<Rightarrow>
                    (case dk_parse env bytes of
                       None \<Rightarrow> (Inl (DockerParse p), w)
                     | Some config \<Rightarrow> resolve_from_parsed env config host w)))"

section \<open>Lemmas\<close>

text \<open>The three forms under which a host is looked up.\<close>

definition host_forms :: "string \<Rightarrow> string set" where
  "host_forms host = {host, ''https://'' @ host, ''http://'' @ host}"

lemma host_forms_mem:
  "host \<in> host_forms host" "''https://'' @ host \<in> host_forms host" "''http://'' @ host \<in> host_forms host"
  by (simp_all only: host_forms_def insertI1 insertI2)

lemma lookup_matching_cong:
  assumes "\<And>k. k \<in> host_forms host \<Longrightarrow> map_of m k = map_of m' k"
  shows "lookup_matching m host = lookup_matching m' host"
  unfolding lookup_matching_def by (simp only: assms host_forms_mem)

lemma lookup_matching_Some:
  assumes "lookup_matching m host = Some v"
  obtains k where "k \<in> host_forms host" and "map_of m k = Some v"
  using assms host_forms_mem unfolding lookup_matching_def by (fastforce split: option.splits)

lemma lookup_matching_None: "lookup_matching m host = None \<longleftrightarrow> (\<forall>k \<in> host_forms host. map_of m k = None)"
  by (auto simp: lookup_matching_def host_forms_def split: option.splits)

lemma lookup_matching_single:
  assumes "k \<in> host_forms host" and "map_of m k = Some v"
    and "\<And>k'. k' \<in> host_forms host \<Longrightarrow> k' \<noteq> k \<Longrightarrow> map_of m k' = None"
  shows "lookup_matching m host = Some v"
proof (cases "lookup_matching m host")
  case None
  with assms(1,2) show ?thesis unfolding lookup_matching_None by fastforce
next
  case (Some v')
  from lookup_matching_Some [OF Some] assms show ?thesis by (metis Some option.distinct(1) option.inject)
qed

lemma split_user: "CHR '':'' \<notin> set u \<Longrightarrow> split_once_char (CHR '':'') (u @ '':'' @ p) = Some (u, p)"
  using split_once_char_iff [of "CHR '':''" "u @ '':'' @ p" u p] by simp

text \<open>Credentials of an inline entry: the base64 pair when there is one, else the plain fields.\<close>

definition inline_credentials :: "'w docker_env \<Rightarrow> docker_auth_entry \<Rightarrow> oci_auth \<Rightarrow> bool" where
  "inline_credentials env e auth \<longleftrightarrow>
     (\<exists>b u p. da_auth e = Some b \<and> trim_str b \<noteq> [] \<and> decode_basic_auth env b = Inr (u, p) \<and> auth = OciBasic u p)
   \<or> ((\<forall>b. da_auth e = Some b \<longrightarrow> trim_str b = []) \<and> (\<exists>u p. da_username e = Some u \<and> da_password e = Some p \<and> auth = OciBasic u p))"

lemma map_ok_iff: "apfst (map_sum id f) r = (Inr y, w') \<longleftrightarrow> (\<exists>x. r = (Inr x, w') \<and> y = f x)"
  by (cases r; cases "fst r") auto

lemma from_creds_store_Some:
  "from_creds_store env config host w = (Inr (Some auth), w') \<Longrightarrow>
    \<exists>store. dc_creds_store config = Some store \<and> run_credential_helper env store host w = (Inr auth, w')"
  by (auto simp: from_creds_store_def map_ok_iff split: option.splits if_splits)

lemma resolved_for_host:
  assumes r: "resolve_from_parsed env config host w = (Inr (Some auth), w')"
  shows "(\<exists>k \<in> host_forms host. \<exists>helper.
            map_of (dc_cred_helpers config) k = Some helper \<and> run_credential_helper env helper host w = (Inr auth, w'))
    \<or> ((\<forall>k \<in> host_forms host. map_of (dc_cred_helpers config) k = None) \<and>
        ((\<exists>k \<in> host_forms host. \<exists>e. map_of (dc_auths config) k = Some e \<and> inline_credentials env e auth \<and> w' = w)
         \<or> (\<exists>store. dc_creds_store config = Some store \<and> run_credential_helper env store host w = (Inr auth, w'))))"
proof (cases "lookup_matching (dc_cred_helpers config) host")
  case (Some helper)
  from r Some have "run_credential_helper env helper host w = (Inr auth, w')"
    by (simp add: resolve_from_parsed_def map_ok_iff)
  with lookup_matching_Some [OF Some] show ?thesis by metis
next
  case None
  then have none: "\<forall>k \<in> host_forms host. map_of (dc_cred_helpers config) k = None" by (simp only: lookup_matching_None)
  show ?thesis
  proof (cases "from_creds_store env config host w = (Inr (Some auth), w')")
    case True
    from from_creds_store_Some [OF this] none show ?thesis by blast
  next
    case False
    with r None obtain e where e: "lookup_matching (dc_auths config) host = Some e"
      by (auto simp: resolve_from_parsed_def split: option.splits)
    with r None False have "inline_credentials env e auth \<and> w' = w"
      by (auto simp: resolve_from_parsed_def inline_credentials_def split: option.splits if_splits)
        (cases "decode_basic_auth env (the (da_auth e))"; auto)+
    with lookup_matching_Some [OF e] none show ?thesis by metis
  qed
qed

section \<open>Properties\<close>

text \<open>
  Credentials that are found belong to the host that was asked for. They come from the helper listed for one of the
  three forms of the host, asked about this host; or, if no helper is listed for it, from the inline entry of
  one of the three forms; or from the default store, asked about this host. An entry of any other host
  plays no role.
\<close>

theorem docker_credentials_are_for_host:
  assumes "resolve_from_parsed env config host w = (Inr (Some auth), w')"
  shows "(\<exists>k \<in> {host, ''https://'' @ host, ''http://'' @ host}. \<exists>helper.
            map_of (dc_cred_helpers config) k = Some helper \<and> run_credential_helper env helper host w = (Inr auth, w'))
    \<or> ((\<forall>k \<in> {host, ''https://'' @ host, ''http://'' @ host}. map_of (dc_cred_helpers config) k = None) \<and>
        ((\<exists>k \<in> {host, ''https://'' @ host, ''http://'' @ host}. \<exists>e.
            map_of (dc_auths config) k = Some e \<and> inline_credentials env e auth \<and> w' = w)
         \<or> (\<exists>store. dc_creds_store config = Some store \<and> run_credential_helper env store host w = (Inr auth, w'))))"
  using resolved_for_host [OF assms] unfolding host_forms_def .

text \<open>
  What \<open>docker login\<close> stored is found again: for a host without helper that is listed in one of its three
  forms, the user and the password are exactly those of the entry, also when the password has colons in it.
\<close>

theorem docker_login_found:
  assumes "or_else config_path (default_docker_config_path env) = Some p"
    and "fs_read fs p = Some bytes" and "dk_parse env bytes = Some config"
    and "\<forall>k \<in> host_forms host. map_of (dc_cred_helpers config) k = None"
    and "k \<in> host_forms host" and "map_of (dc_auths config) k = Some entry"
    and "\<forall>k' \<in> host_forms host. k' \<noteq> k \<longrightarrow> map_of (dc_auths config) k' = None"
    and "da_auth entry = Some encoded" and "trim_str encoded \<noteq> []"
    and "dk_base64_decode env (trim_str encoded) = Some (u @ '':'' @ pw)"
    and "valid_utf8 (u @ '':'' @ pw)" and "CHR '':'' \<notin> set u"
  shows "resolve_from_docker_config env host config_path fs w = (Inr (Some (OciBasic u pw)), w)"
proof -
  have "decode_basic_auth env encoded = Inr (u, pw)"
    unfolding decode_basic_auth_def by (simp only: assms(10,11) split_user [OF assms(12)] option.case prod.case simp_thms if_False)
  moreover have "lookup_matching (dc_cred_helpers config) host = None"
    using assms(4) unfolding lookup_matching_None .
  moreover have "lookup_matching (dc_auths config) host = Some entry"
    by (rule lookup_matching_single [OF assms(5,6)]) (use assms(7) in blast)
  ultimately have "resolve_from_parsed env config host w = (Inr (Some (OciBasic u pw)), w)"
    using assms(8,9) by (simp add: resolve_from_parsed_def)
  moreover have "path_exists fs p" using assms(2) by (auto simp: path_exists_def fs_read_def split: option.splits)
  ultimately show ?thesis using assms(1-3) by (simp add: resolve_from_docker_config_def)
qed

section \<open>Witnesses\<close>

definition sample_entry :: docker_auth_entry where
  "sample_entry = \<lparr>da_auth = Some ''YTpiOmM='', da_username = None, da_password = None\<rparr>"

definition sample_docker_config :: docker_config where
  "sample_docker_config = \<lparr>dc_auths = [(''https://h'', sample_entry)], dc_cred_helpers = [(''g'', ''pass'')], dc_creds_store = None\<rparr>"

definition sample_docker :: "unit docker_env" where
  "sample_docker = \<lparr>dk_home = Some [''root''], dk_parse = (\<lambda>s. Some sample_docker_config),
     dk_base64_decode = (\<lambda>s. if s = ''YTpiOmM='' then Some ''a:b:c'' else None),
     dk_spawn = (\<lambda>binary arg stdin w. (Exited 0 ''{}'' [], w)), dk_parse_response = (\<lambda>s. Some \<lparr>hr_username = ''u'', hr_secret = ''s''\<rparr>)\<rparr>"

definition docker_fs :: file_system where
  "docker_fs = \<lparr>fs_nodes = [[''root'', ''.docker'', ''config.json''] \<mapsto> File ''json''], fs_readable = (\<lambda>p. True), fs_writable = (\<lambda>p. False)\<rparr>"

theorem docker_login_found_witness:
  "resolve_from_docker_config sample_docker ''h'' None docker_fs () = (Inr (Some (OciBasic ''a'' ''b:c'')), ())"
proof (rule docker_login_found [where p = "[''root'', ''.docker'', ''config.json'']" and bytes = "''json''" and k = "''https://h''"
      and encoded = "''YTpiOmM=''" and entry = sample_entry and config = sample_docker_config])
  show "valid_utf8 (''a'' @ '':'' @ ''b:c'')" by code_simp
  show "trim_str ''YTpiOmM='' \<noteq> []" by code_simp
  have "trim_str ''YTpiOmM='' = ''YTpiOmM=''" by code_simp
  then show "dk_base64_decode sample_docker (trim_str ''YTpiOmM='') = Some (''a'' @ '':'' @ ''b:c'')" by (simp add: sample_docker_def)
qed (simp_all add: sample_docker_def sample_docker_config_def sample_entry_def docker_fs_def default_docker_config_path_def join_def fs_read_def host_forms_def)

theorem docker_credentials_are_for_host_witness:
  "\<exists>helper. run_credential_helper sample_docker helper ''g'' () = (Inr (OciBasic ''u'' ''s''), ())
    \<and> map_of (dc_cred_helpers sample_docker_config) ''g'' = Some helper"
proof -
  have "resolve_from_parsed sample_docker sample_docker_config ''g'' () = (Inr (Some (OciBasic ''u'' ''s'')), ())"
    by (simp add: resolve_from_parsed_def lookup_matching_def run_credential_helper_def sample_docker_def sample_docker_config_def)
  from docker_credentials_are_for_host [OF this] show ?thesis
    by (auto simp: sample_docker_config_def split: if_splits)
qed

end
