(* ===== verification/Per_Profile.thy ===== *)
theory Per_Profile
  imports Registry_State "HOL-Library.Word"
begin

text \<open>
  \<open>PerProfile\<close> of \<open>native_loader.rs\<close>: values a backend derives from the registered spec of a profile, kept
  from one registration of any profile to the next. \<open>get_or_read\<close> as one call, and the interleaving of its
  accesses to the counter and to the map, which is what its comment promises something about.
\<close>

text \<open>The part of the world that holds a piece of shared state.\<close>

record ('w, 's) lens =
  ln_get :: "'w \<Rightarrow> 's"
  ln_put :: "'s \<Rightarrow> 'w \<Rightarrow> 'w"

definition ln_modify :: "('w, 's) lens \<Rightarrow> ('s \<Rightarrow> 's) \<Rightarrow> 'w \<Rightarrow> 'w" where
  "ln_modify l f w = ln_put l (f (ln_get l w)) w"

definition lens_ok :: "('w, 's) lens \<Rightarrow> bool" where
  "lens_ok l \<longleftrightarrow> (\<forall>s w. ln_get l (ln_put l s w) = s)"

section \<open>Values kept per profile\<close>

record 'a per_profile =
  pp_registrations :: "64 word"
  pp_values :: "(string, 64 word \<times> 'a) hmap"

definition per_profile_new :: "'a per_profile" where
  "per_profile_new = \<lparr>pp_registrations = 0, pp_values = []\<rparr>"

definition kept :: "'a per_profile \<Rightarrow> string \<Rightarrow> 64 word \<Rightarrow> 'a option" where
  "kept pp profile registrations =
     (case map_of (pp_values pp) profile of
        Some (read_under, value) \<Rightarrow> if read_under = registrations then Some value else None
      | None \<Rightarrow> None)"

definition keep :: "string \<Rightarrow> 64 word \<Rightarrow> 'a \<Rightarrow> 'a per_profile \<Rightarrow> 'a per_profile" where
  "keep profile registrations value pp = pp\<lparr>pp_values := hm_insert profile (registrations, value) (pp_values pp)\<rparr>"

text \<open>\<open>read\<close> is a call into the plugin, during which other threads may register profiles.\<close>

definition get_or_read ::
  "('w, 'a per_profile) lens \<Rightarrow> string \<Rightarrow> ('w \<Rightarrow> 'a option \<times> 'w) \<Rightarrow> 'w \<Rightarrow> 'a option \<times> 'w" where
  "get_or_read l profile read w =
     (let registrations = pp_registrations (ln_get l w)
      in case kept (ln_get l w) profile registrations of
           Some value \<Rightarrow> (Some value, w)
         | None \<Rightarrow>
             (case read w of
                (None, w1) \<Rightarrow> (None, w1)
              | (Some value, w1) \<Rightarrow> (Some value, ln_modify l (keep profile registrations value) w1)))"

definition registered :: "'a per_profile \<Rightarrow> 'a per_profile" where
  "registered pp = pp\<lparr>pp_registrations := pp_registrations pp + 1\<rparr>"


section \<open>Interleavings\<close>

text \<open>
  The accesses to the shared state, one step each: the load of the counter, the look into the map, the end of
  the reading with the insertion, and \<open>registered\<close>. \<open>ps_count\<close> counts the registrations without wrapping;
  a task remembers the profile, the counter it loaded and \<open>ps_count\<close> at that moment, and whether it is in
  \<open>read\<close>. \<open>ps_read\<close> and \<open>ps_served\<close> record what was read and what \<open>get_or_read\<close> returned, with the profile
  and the number of registrations at the load.
\<close>

record 'a pp_sys =
  ps_pp :: "'a per_profile"
  ps_count :: nat
  ps_tasks :: "nat \<Rightarrow> (string \<times> 64 word \<times> nat \<times> bool) option"
  ps_read :: "(string \<times> nat \<times> 'a) set"
  ps_served :: "(string \<times> nat \<times> 'a) set"

inductive pp_step :: "'a pp_sys \<Rightarrow> 'a pp_sys \<Rightarrow> bool" where
  pp_register: "pp_step s (s\<lparr>ps_pp := registered (ps_pp s), ps_count := ps_count s + 1\<rparr>)"
| pp_load: "ps_tasks s t = None \<Longrightarrow>
    pp_step s (s\<lparr>ps_tasks := (ps_tasks s)(t \<mapsto> (p, pp_registrations (ps_pp s), ps_count s, False))\<rparr>)"
| pp_hit: "ps_tasks s t = Some (p, r, n, False) \<Longrightarrow> kept (ps_pp s) p r = Some v \<Longrightarrow>
    pp_step s (s\<lparr>ps_tasks := (ps_tasks s)(t := None), ps_served := insert (p, n, v) (ps_served s)\<rparr>)"
| pp_miss: "ps_tasks s t = Some (p, r, n, False) \<Longrightarrow> kept (ps_pp s) p r = None \<Longrightarrow>
    pp_step s (s\<lparr>ps_tasks := (ps_tasks s)(t \<mapsto> (p, r, n, True))\<rparr>)"
| pp_failed: "ps_tasks s t = Some (p, r, n, True) \<Longrightarrow> pp_step s (s\<lparr>ps_tasks := (ps_tasks s)(t := None)\<rparr>)"
| pp_answered: "ps_tasks s t = Some (p, r, n, True) \<Longrightarrow>
    pp_step s (s\<lparr>ps_pp := keep p r v (ps_pp s), ps_tasks := (ps_tasks s)(t := None),
      ps_read := insert (p, n, v) (ps_read s), ps_served := insert (p, n, v) (ps_served s)\<rparr>)"

inductive_cases pp_stepE: "pp_step s t"

definition pp_start :: "'a pp_sys" where
  "pp_start = \<lparr>ps_pp = per_profile_new, ps_count = 0, ps_tasks = (\<lambda>_. None), ps_read = {}, ps_served = {}\<rparr>"

inductive pp_reachable :: "'a pp_sys \<Rightarrow> bool" where
  pp_init: "pp_reachable pp_start"
| pp_next: "pp_reachable s \<Longrightarrow> pp_step s t \<Longrightarrow> pp_reachable t"

definition pp_inv :: "'a pp_sys \<Rightarrow> bool" where
  "pp_inv s \<longleftrightarrow> pp_registrations (ps_pp s) = of_nat (ps_count s)
   \<and> (\<forall>t p r n b. ps_tasks s t = Some (p, r, n, b) \<longrightarrow> n \<le> ps_count s \<and> r = of_nat n)
   \<and> (\<forall>p r v. map_of (pp_values (ps_pp s)) p = Some (r, v) \<longrightarrow> (\<exists>n \<le> ps_count s. r = of_nat n \<and> (p, n, v) \<in> ps_read s))
   \<and> (ps_count s < 2 ^ 64 \<longrightarrow> ps_served s \<subseteq> ps_read s)"

lemma kept_SomeD: "kept pp p r = Some v \<Longrightarrow> map_of (pp_values pp) p = Some (r, v)"
  by (auto simp: kept_def split: option.splits prod.splits if_splits)

lemma pp_hit_read:
  assumes "pp_inv s" and "ps_tasks s t = Some (p, r, n, b)" and "kept (ps_pp s) p r = Some v" and "ps_count s < 2 ^ 64"
  shows "(p, n, v) \<in> ps_read s"
proof -
  from assms(1,2) have n: "n \<le> ps_count s" "r = of_nat n" unfolding pp_inv_def by blast+
  from assms(1) kept_SomeD [OF assms(3)] obtain m where m: "m \<le> ps_count s" "r = of_nat m" "(p, m, v) \<in> ps_read s"
    unfolding pp_inv_def by blast
  have "unat (of_nat k :: 64 word) = k" if "k \<le> ps_count s" for k
    using that assms(4) by (simp add: unat_of_nat)
  with n m show ?thesis by metis
qed

lemma pp_inv_step:
  assumes inv: "pp_inv s" and step: "pp_step s s'"
  shows "pp_inv s'"
  using step
proof cases
  case pp_register
  with inv show ?thesis by (fastforce simp: pp_inv_def registered_def intro: le_SucI)
next
  case pp_load
  with inv show ?thesis by (auto simp: pp_inv_def)
next
  case (pp_hit t p r n v)
  with inv pp_hit_read [OF inv pp_hit(2,3)] show ?thesis by (auto simp: pp_inv_def)
next
  case (pp_miss t p r n)
  with inv have "n \<le> ps_count s" "r = of_nat n" unfolding pp_inv_def by blast+
  with inv pp_miss(1) show ?thesis by (auto simp: pp_inv_def)
next
  case pp_failed
  with inv show ?thesis by (auto simp: pp_inv_def)
next
  case pp_answered
  with inv show ?thesis by (fastforce simp: pp_inv_def keep_def)
qed

lemma pp_reachable_inv: "pp_reachable s \<Longrightarrow> pp_inv s"
  by (induction rule: pp_reachable.induct) (simp add: pp_inv_def pp_start_def per_profile_new_def, erule (1) pp_inv_step)

section \<open>Properties\<close>

text \<open>
  Whatever the interleaving of registrations and readings, and short of \<open>2 ^ 64\<close> registrations, a caller
  of \<open>get_or_read\<close> is answered with a value that the plugin gave to a reading of the same profile which began
  after the last registration the caller saw, and before the next one: a value that a registration overtook
  is never served to those who come after it.
\<close>

theorem per_profile_never_stale:
  assumes "pp_reachable s" and "ps_count s < 2 ^ 64" and "(p, n, v) \<in> ps_served s"
  shows "(p, n, v) \<in> ps_read s"
  using pp_reachable_inv [OF assms(1)] assms(2,3) unfolding pp_inv_def by blast

text \<open>A reading, overtaken by a registration before the next caller looks into the map.\<close>

definition pp_sample :: "bool pp_sys" where
  "pp_sample = \<lparr>ps_pp = \<lparr>pp_registrations = 1, pp_values = [(''p'', 0, True)]\<rparr>, ps_count = 1, ps_tasks = (\<lambda>_. None),
     ps_read = {(''p'', 0, True)}, ps_served = {(''p'', 0, True)}\<rparr>"

lemma pp_sample_reachable: "pp_reachable pp_sample"
proof -
  let ?p0 = "pp_start :: bool pp_sys"
  have 1: "pp_reachable (?p0\<lparr>ps_tasks := (ps_tasks ?p0)(7 \<mapsto> (''p'', pp_registrations (ps_pp ?p0), ps_count ?p0, False))\<rparr>)" (is "pp_reachable ?p1")
    by (rule pp_next [OF pp_init pp_load]) (simp add: pp_start_def)
  have 2: "pp_reachable (?p1\<lparr>ps_tasks := (ps_tasks ?p1)(7 \<mapsto> (''p'', 0, 0, True))\<rparr>)" (is "pp_reachable ?p2")
    by (rule pp_next [OF 1 pp_miss]) (simp_all add: pp_start_def per_profile_new_def kept_def)
  have 3: "pp_reachable (?p2\<lparr>ps_pp := keep ''p'' 0 True (ps_pp ?p2), ps_tasks := (ps_tasks ?p2)(7 := None),
      ps_read := insert (''p'', 0, True) (ps_read ?p2), ps_served := insert (''p'', 0, True) (ps_served ?p2)\<rparr>)" (is "pp_reachable ?p3")
    by (rule pp_next [OF 2 pp_answered]) simp
  have "pp_reachable (?p3\<lparr>ps_pp := registered (ps_pp ?p3), ps_count := ps_count ?p3 + 1\<rparr>)"
    by (rule pp_next [OF 3 pp_register])
  then show ?thesis
    by (simp add: pp_start_def per_profile_new_def pp_sample_def keep_def registered_def hm_insert_def)
qed

theorem per_profile_never_stale_witness:
  "(''p'', 0, True) \<in> ps_read pp_sample \<and> kept (ps_pp pp_sample) ''p'' (pp_registrations (ps_pp pp_sample)) = None"
  using per_profile_never_stale [OF pp_sample_reachable, of "''p''" 0 True] by (simp add: pp_sample_def kept_def)

end
