(* ===== verification/Host_Callbacks.thy ===== *)
theory Host_Callbacks
  imports Identity_Relay Per_Profile
begin

text \<open>
  What a plugin can ask of the host: the service surface with its stub and the late-bound handle
  (\<open>host_services.rs\<close>), the callbacks of the bridge that do not act for a caller (\<open>host_bridge.rs\<close>; those that do
  are in \<open>Identity_Relay\<close>), the subscriptions of a bridge, and the log lines of a plugin (\<open>plugin_log.rs\<close>).

  As in \<open>Identity_Relay\<close>, arguments that arrive as JSON are taken after decoding, and are \<open>None\<close> when they are malformed;
  answers are taken before encoding. A subscription guard is the action that dropping it performs. The host
  services that the gateway binds, base64 and the redaction of log texts are parameters.
\<close>

section \<open>Host services\<close>

record 'w plugin_services = "'w host_services" +
  hs_resolve_secret :: "string \<Rightarrow> string \<Rightarrow> ('w, fetch_error + json) service"
  hs_config_snapshot :: "string \<Rightarrow> string \<Rightarrow> ('w, fetch_error + json) service"
  hs_audit_event :: "string \<Rightarrow> audit_event \<Rightarrow> ('w, audit_error + audit_receipt) service"
  hs_metric_emit :: "string \<Rightarrow> json \<Rightarrow> 'w \<Rightarrow> 'w"
  hs_span_start :: "string \<Rightarrow> string \<Rightarrow> json \<Rightarrow> 'w \<Rightarrow> 64 word \<times> 'w"
  hs_span_end :: "64 word \<Rightarrow> 'w \<Rightarrow> 'w"
  hs_span_event :: "64 word \<Rightarrow> string \<Rightarrow> json \<Rightarrow> 'w \<Rightarrow> 'w"
  hs_cache_get :: "string \<Rightarrow> string \<Rightarrow> string \<Rightarrow> ('w, backend_host_error + string option) service"
  hs_cache_put :: "string \<Rightarrow> string \<Rightarrow> string \<Rightarrow> string \<Rightarrow> nat \<Rightarrow> ('w, backend_host_error + unit) service"
  hs_fetch_content :: "string \<Rightarrow> string \<Rightarrow> ('w, backend_host_error + string option) service"
  hs_store_content :: "string \<Rightarrow> string \<Rightarrow> string \<Rightarrow> nat option \<Rightarrow> ('w, backend_host_error + json) service"
  hs_subscribe_credential_revoked :: "string \<Rightarrow> (string \<Rightarrow> string \<Rightarrow> 'w \<Rightarrow> 'w) \<Rightarrow> 'w \<Rightarrow> ('w \<Rightarrow> 'w) \<times> 'w"
  hs_subscribe_secret_rotation :: "string \<Rightarrow> (string \<Rightarrow> 64 word \<Rightarrow> 'w \<Rightarrow> 'w) \<Rightarrow> 'w \<Rightarrow> ('w \<Rightarrow> 'w) \<times> 'w"

text \<open>A service that answers at once and does nothing else.\<close>

definition answer :: "'a \<Rightarrow> ('w, 'a) service" where
  "answer a = (\<lambda>w. (Some a, w))"

definition NOT_WIRED :: string where
  "NOT_WIRED = ''host services not wired (NullHostServices)''"

text \<open>\<open>NullHostServices\<close>; the methods it does not define are the defaults of the trait.\<close>

definition null_host_services :: "'w plugin_services" where
  "null_host_services =
     \<lparr>hs_issue_credential = (\<lambda>alias uri i. answer (Inl (CredBackend NOT_WIRED))),
      hs_resolve_credentials = (\<lambda>alias value i. answer (Inr (value, 0))),
      hs_invoke_tool = (\<lambda>ctx tool_name args. answer (Inl NotImplemented)),
      hs_resolve_secret = (\<lambda>alias uri. answer (Inl (FetchBackend NOT_WIRED))),
      hs_config_snapshot = (\<lambda>alias uri. answer (Inl (FetchBackend NOT_WIRED))),
      hs_audit_event = (\<lambda>alias event. answer (Inl (AuditWriteFailed NOT_WIRED))),
      hs_metric_emit = (\<lambda>alias point w. w),
      hs_span_start = (\<lambda>alias name attrs w. (0, w)),
      hs_span_end = (\<lambda>span_id w. w),
      hs_span_event = (\<lambda>span_id name attrs w. w),
      hs_cache_get = (\<lambda>alias binding key. answer (Inr None)),
      hs_cache_put = (\<lambda>alias binding key value ttl. answer (Inr ())),
      hs_fetch_content = (\<lambda>alias uri. answer (Inr None)),
      hs_store_content = (\<lambda>alias bytes mime_type ttl. answer (Inl NotImplemented)),
      hs_subscribe_credential_revoked = (\<lambda>alias cb w. (id, w)),
      hs_subscribe_secret_rotation = (\<lambda>alias cb w. (id, w))\<rparr>"

section \<open>Late binding\<close>

text \<open>The two subscriptions of a \<open>BackendHost\<close>.\<close>

record 'w subscription_host =
  sh_credential_revoked :: "(string \<Rightarrow> string \<Rightarrow> 'w \<Rightarrow> 'w) \<Rightarrow> 'w \<Rightarrow> ('w \<Rightarrow> 'w) \<times> 'w"
  sh_secret_rotation :: "(string \<Rightarrow> 64 word \<Rightarrow> 'w \<Rightarrow> 'w) \<Rightarrow> 'w \<Rightarrow> ('w \<Rightarrow> 'w) \<times> 'w"

text \<open>
  The lock with the binding is shared by all clones of the handle: it is a part of the world, and holds the
  address of the services that are bound; \<open>lb_at\<close> is what stands at an address.
\<close>

record 'w late_bound =
  lb_inner :: "('w, nat option) lens"
  lb_at :: "nat \<Rightarrow> 'w plugin_services"
  lb_subscriptions :: "'w subscription_host option"

definition lb_new :: "('w, nat option) lens \<Rightarrow> (nat \<Rightarrow> 'w plugin_services) \<Rightarrow> 'w \<Rightarrow> 'w late_bound \<times> 'w" where
  "lb_new l at w = (\<lparr>lb_inner = l, lb_at = at, lb_subscriptions = None\<rparr>, ln_put l None w)"

definition with_subscriptions :: "'w subscription_host \<Rightarrow> 'w late_bound \<Rightarrow> 'w late_bound" where
  "with_subscriptions host lb = lb\<lparr>lb_subscriptions := Some host\<rparr>"

definition lb_resolve :: "'w late_bound \<Rightarrow> 'w \<Rightarrow> 'w plugin_services" where
  "lb_resolve lb w = (case ln_get (lb_inner lb) w of Some s \<Rightarrow> lb_at lb s | None \<Rightarrow> null_host_services)"

definition lb_set :: "'w late_bound \<Rightarrow> nat \<Rightarrow> 'w \<Rightarrow> 'w" where
  "lb_set lb services w = ln_put (lb_inner lb) (Some services) w"

definition is_bound :: "'w late_bound \<Rightarrow> 'w \<Rightarrow> bool" where
  "is_bound lb w = (ln_get (lb_inner lb) w \<noteq> None)"

definition late_bound_services :: "'w late_bound \<Rightarrow> 'w plugin_services" where
  "late_bound_services lb =
     \<lparr>hs_issue_credential = (\<lambda>alias uri i w. hs_issue_credential (lb_resolve lb w) alias uri i w),
      hs_resolve_credentials = (\<lambda>alias value i w. hs_resolve_credentials (lb_resolve lb w) alias value i w),
      hs_invoke_tool = (\<lambda>ctx tool_name args w. hs_invoke_tool (lb_resolve lb w) ctx tool_name args w),
      hs_resolve_secret = (\<lambda>alias uri w. hs_resolve_secret (lb_resolve lb w) alias uri w),
      hs_config_snapshot = (\<lambda>alias uri w. hs_config_snapshot (lb_resolve lb w) alias uri w),
      hs_audit_event = (\<lambda>alias event w. hs_audit_event (lb_resolve lb w) alias event w),
      hs_metric_emit = (\<lambda>alias point w. hs_metric_emit (lb_resolve lb w) alias point w),
      hs_span_start = (\<lambda>alias name attrs w. hs_span_start (lb_resolve lb w) alias name attrs w),
      hs_span_end = (\<lambda>span_id w. hs_span_end (lb_resolve lb w) span_id w),
      hs_span_event = (\<lambda>span_id name attrs w. hs_span_event (lb_resolve lb w) span_id name attrs w),
      hs_cache_get = (\<lambda>alias binding key w. hs_cache_get (lb_resolve lb w) alias binding key w),
      hs_cache_put = (\<lambda>alias binding key value ttl w. hs_cache_put (lb_resolve lb w) alias binding key value ttl w),
      hs_fetch_content = (\<lambda>alias uri w. hs_fetch_content (lb_resolve lb w) alias uri w),
      hs_store_content = (\<lambda>alias bytes mime_type ttl w. hs_store_content (lb_resolve lb w) alias bytes mime_type ttl w),
      hs_subscribe_credential_revoked = (\<lambda>alias cb w.
        (case lb_subscriptions lb of
           Some host \<Rightarrow> sh_credential_revoked host cb w
         | None \<Rightarrow> hs_subscribe_credential_revoked (lb_resolve lb w) alias cb w)),
      hs_subscribe_secret_rotation = (\<lambda>alias cb w.
        (case lb_subscriptions lb of
           Some host \<Rightarrow> sh_secret_rotation host cb w
         | None \<Rightarrow> hs_subscribe_secret_rotation (lb_resolve lb w) alias cb w))\<rparr>"

section \<open>Callbacks\<close>

definition NO_RUNTIME :: string where
  "NO_RUNTIME = ''host bridge has no tokio runtime''"

definition bad_args :: "string \<Rightarrow> backend_host_error + 'a" where
  "bad_args message = Inl (HostBackend [] message)"

definition host_resolve_secret ::
  "'w plugin_services \<Rightarrow> host_bridge \<Rightarrow> string \<Rightarrow> 'w \<Rightarrow> (fetch_error + json) \<times> 'w" where
  "host_resolve_secret svc b uri w =
     (if hb_runtime b
      then block_on_host_service (hs_resolve_secret svc (hb_alias b) uri) (Inl (FetchBackend HOST_SERVICE_UNAVAILABLE)) w
      else (Inl (FetchBackend NO_RUNTIME), w))"

definition host_config_snapshot ::
  "'w plugin_services \<Rightarrow> host_bridge \<Rightarrow> string \<Rightarrow> 'w \<Rightarrow> (fetch_error + json) \<times> 'w" where
  "host_config_snapshot svc b uri w =
     (if hb_runtime b
      then block_on_host_service (hs_config_snapshot svc (hb_alias b) uri) (Inl (FetchBackend HOST_SERVICE_UNAVAILABLE)) w
      else (Inl (FetchBackend NO_RUNTIME), w))"

definition host_audit_event ::
  "'w plugin_services \<Rightarrow> host_bridge \<Rightarrow> audit_event option \<Rightarrow> 'w \<Rightarrow> (audit_error + audit_receipt) \<times> 'w" where
  "host_audit_event svc b decoded w =
     (case decoded of
        None \<Rightarrow> (Inl (AuditWriteFailed ''malformed event_json''), w)
      | Some event \<Rightarrow>
          if hb_runtime b
          then block_on_host_service (hs_audit_event svc (hb_alias b) event) (Inl (AuditWriteFailed HOST_SERVICE_UNAVAILABLE)) w
          else (Inl (AuditWriteFailed NO_RUNTIME), w))"

record base64_codec =
  b64_encode :: "string \<Rightarrow> string"
  b64_decode :: "string \<Rightarrow> string option"

text \<open>The answer to \<open>cache_get\<close> and \<open>fetch_content\<close> crosses as base64.\<close>

definition encoded :: "base64_codec \<Rightarrow> (backend_host_error + string option) \<times> 'w \<Rightarrow> (backend_host_error + string option) \<times> 'w" where
  "encoded c r = apfst (map_sum id (map_option (b64_encode c))) r"

definition host_cache_get ::
  "base64_codec \<Rightarrow> 'w plugin_services \<Rightarrow> host_bridge \<Rightarrow> string \<Rightarrow> string \<Rightarrow> 'w
    \<Rightarrow> (backend_host_error + string option) \<times> 'w" where
  "host_cache_get c svc b binding key w =
     (if hb_runtime b
      then encoded c (block_on_host_service (hs_cache_get svc (hb_alias b) binding key) host_service_unavailable_backend w)
      else (Inl NotImplemented, w))"

record cache_put_args =
  cp_key :: string
  cp_value :: string
  cp_ttl_ms :: nat

definition host_cache_put ::
  "base64_codec \<Rightarrow> 'w plugin_services \<Rightarrow> host_bridge \<Rightarrow> string \<Rightarrow> cache_put_args option \<Rightarrow> 'w
    \<Rightarrow> (backend_host_error + unit) \<times> 'w" where
  "host_cache_put c svc b binding decoded w =
     (if hb_runtime b then
        (case decoded of
           None \<Rightarrow> (bad_args ''cache_put: invalid arguments JSON'', w)
         | Some args \<Rightarrow>
             (case b64_decode c (cp_value args) of
                None \<Rightarrow> (bad_args ''cache_put: bad base64'', w)
              | Some value \<Rightarrow>
                  block_on_host_service (hs_cache_put svc (hb_alias b) binding (cp_key args) value (cp_ttl_ms args))
                    host_service_unavailable_backend w))
      else (Inl NotImplemented, w))"

definition host_fetch_content ::
  "base64_codec \<Rightarrow> 'w plugin_services \<Rightarrow> host_bridge \<Rightarrow> string \<Rightarrow> 'w
    \<Rightarrow> (backend_host_error + string option) \<times> 'w" where
  "host_fetch_content c svc b uri w =
     (if hb_runtime b
      then encoded c (block_on_host_service (hs_fetch_content svc (hb_alias b) uri) host_service_unavailable_backend w)
      else (Inl NotImplemented, w))"

text \<open>\<open>Value::as_u64\<close>.\<close>

fun json_as_u64 :: "json \<Rightarrow> nat option" where
  "json_as_u64 (JNumber n) = (if 0 \<le> n \<and> n < 2 ^ 64 then Some (nat n) else None)"
| "json_as_u64 _ = None"

definition host_store_content ::
  "base64_codec \<Rightarrow> 'w plugin_services \<Rightarrow> host_bridge \<Rightarrow> json option \<Rightarrow> 'w
    \<Rightarrow> (backend_host_error + json) \<times> 'w" where
  "host_store_content c svc b args_json w =
     (if hb_runtime b then
        (case args_json of
           None \<Rightarrow> (bad_args ''store_content: invalid args JSON'', w)
         | Some args \<Rightarrow>
             (let b64 = unwrap_or [] (Option.bind (json_get args ''bytes'') json_as_str);
                  mime_type = unwrap_or ''application/octet-stream'' (Option.bind (json_get args ''mime_type'') json_as_str);
                  ttl = Option.bind (json_get args ''ttl_ms'') json_as_u64
              in case b64_decode c b64 of
                   None \<Rightarrow> (bad_args ''store_content: invalid base64 bytes'', w)
                 | Some raw \<Rightarrow>
                     block_on_host_service (hs_store_content svc (hb_alias b) raw mime_type ttl) host_service_unavailable_backend w))
      else (Inl NotImplemented, w))"

definition host_metric_emit :: "'w plugin_services \<Rightarrow> host_bridge \<Rightarrow> json option \<Rightarrow> 'w \<Rightarrow> 'w" where
  "host_metric_emit svc b point w = (case point of None \<Rightarrow> w | Some p \<Rightarrow> hs_metric_emit svc (hb_alias b) p w)"

definition host_span_start ::
  "'w plugin_services \<Rightarrow> host_bridge \<Rightarrow> string \<Rightarrow> json option \<Rightarrow> 'w \<Rightarrow> 64 word \<times> 'w" where
  "host_span_start svc b name attrs w = hs_span_start svc (hb_alias b) name (unwrap_or (JObject []) attrs) w"

definition host_span_end :: "'w plugin_services \<Rightarrow> 64 word \<Rightarrow> 'w \<Rightarrow> 'w" where
  "host_span_end svc span_id w = hs_span_end svc span_id w"

section \<open>Log lines of a plugin\<close>

datatype log_level = LogError | LogWarn | LogInfo | LogDebug | LogTrace

record log_record =
  lr_level :: log_level
  lr_target :: string
  lr_message :: string
  lr_fields :: "(string, json) bmap"

text \<open>
  \<open>le_redact_text\<close> and \<open>le_redact_value\<close> are the redaction of the protocol crate, \<open>le_to_string\<close> the printer of JSON,
  \<open>le_write\<close> the log of the host, with level, alias, target and message.
\<close>

record 'w log_env =
  le_plugin_log_event :: string
  le_redact_text :: "string \<Rightarrow> string"
  le_redact_value :: "json \<Rightarrow> json"
  le_to_string :: "json \<Rightarrow> string"
  le_write :: "log_level \<Rightarrow> string \<Rightarrow> string \<Rightarrow> string \<Rightarrow> 'w \<Rightarrow> 'w"

definition field_text :: "'w log_env \<Rightarrow> json \<Rightarrow> string" where
  "field_text le v = (case le_redact_value le v of JString s \<Rightarrow> s | other \<Rightarrow> le_to_string le other)"

definition render :: "'w log_env \<Rightarrow> string \<Rightarrow> (string, json) bmap \<Rightarrow> string" where
  "render le message kvs =
     fold (\<lambda>(key, v) out. out @ '' '' @ key @ ''='' @ field_text le v) kvs (le_redact_text le message)"

definition emit :: "'w log_env \<Rightarrow> string \<Rightarrow> log_record \<Rightarrow> 'w \<Rightarrow> 'w" where
  "emit le alias r w = le_write le (lr_level r) alias (lr_target r) (render le (lr_message r) (lr_fields r)) w"

text \<open>The event name of log records takes its attributes as a record, any other as JSON.\<close>

definition host_span_event ::
  "'w log_env \<Rightarrow> 'w plugin_services \<Rightarrow> host_bridge \<Rightarrow> 64 word \<Rightarrow> string \<Rightarrow> log_record option \<Rightarrow> json option \<Rightarrow> 'w \<Rightarrow> 'w" where
  "host_span_event le svc b span_id name decoded_record attrs w =
     (if name = le_plugin_log_event le
      then (case decoded_record of Some r \<Rightarrow> emit le (hb_alias b) r w | None \<Rightarrow> w)
      else hs_span_event svc span_id name (unwrap_or (JObject []) attrs) w)"

section \<open>The bridge with its subscriptions\<close>

text \<open>\<open>'c\<close> are the references to a cluster client.\<close>

record ('w, 'c) bridge =
  br_base :: host_bridge
  br_cluster :: "'c option"
  br_subscriptions :: "64 word \<rightharpoonup> ('w \<Rightarrow> 'w)"
  br_next_sub_id :: "64 word"

definition bridge_with_services :: "'c option \<Rightarrow> string \<Rightarrow> bool \<Rightarrow> ('w, 'c) bridge" where
  "bridge_with_services cluster alias runtime =
     \<lparr>br_base = bridge_new alias runtime, br_cluster = cluster, br_subscriptions = Map.empty, br_next_sub_id = 1\<rparr>"

definition bridge_stub :: "bool \<Rightarrow> ('w, 'c) bridge" where
  "bridge_stub runtime = bridge_with_services None [] runtime"

definition host_cluster :: "('w, 'c) bridge \<Rightarrow> 'c option" where
  "host_cluster br = br_cluster br"

definition host_alias :: "('w, 'c) bridge \<Rightarrow> string" where
  "host_alias br = hb_alias (br_base br)"

text \<open>\<open>HashMap::insert\<close> and \<open>remove\<close> drop the guard that stood under the id.\<close>

definition drop_guard :: "64 word \<Rightarrow> ('w, 'c) bridge \<Rightarrow> 'w \<Rightarrow> 'w" where
  "drop_guard i br w = (case br_subscriptions br i of None \<Rightarrow> w | Some g \<Rightarrow> g w)"

definition park_guard :: "('w \<Rightarrow> 'w) \<Rightarrow> ('w, 'c) bridge \<Rightarrow> 'w \<Rightarrow> 64 word \<times> ('w, 'c) bridge \<times> 'w" where
  "park_guard g br w =
     (let i = br_next_sub_id br
      in (i, br\<lparr>br_next_sub_id := i + 1, br_subscriptions := (br_subscriptions br)(i \<mapsto> g)\<rparr>, drop_guard i br w))"

text \<open>
  A callback of the plugin is \<open>None\<close> for a null pointer. It may panic: then its first component is \<open>None\<close>, which
  \<open>catch_unwind\<close> swallows.
\<close>

definition host_subscribe_credential_revoked ::
  "'w plugin_services \<Rightarrow> (string \<Rightarrow> string \<Rightarrow> 'w \<Rightarrow> unit option \<times> 'w) option \<Rightarrow> ('w, 'c) bridge \<Rightarrow> 'w
    \<Rightarrow> 64 word \<times> ('w, 'c) bridge \<times> 'w" where
  "host_subscribe_credential_revoked svc cb br w =
     (case cb of
        None \<Rightarrow> (0, br, w)
      | Some trampoline \<Rightarrow>
          (case hs_subscribe_credential_revoked svc (host_alias br) (\<lambda>plugin_id target w. snd (trampoline plugin_id target w)) w of
             (g, w1) \<Rightarrow> park_guard g br w1))"

definition host_subscribe_secret_rotation ::
  "'w plugin_services \<Rightarrow> (string \<Rightarrow> 64 word \<Rightarrow> 'w \<Rightarrow> unit option \<times> 'w) option \<Rightarrow> ('w, 'c) bridge \<Rightarrow> 'w
    \<Rightarrow> 64 word \<times> ('w, 'c) bridge \<times> 'w" where
  "host_subscribe_secret_rotation svc cb br w =
     (case cb of
        None \<Rightarrow> (0, br, w)
      | Some trampoline \<Rightarrow>
          (case hs_subscribe_secret_rotation svc (host_alias br) (\<lambda>secret_ref version w. snd (trampoline secret_ref version w)) w of
             (g, w1) \<Rightarrow> park_guard g br w1))"

definition host_unsubscribe :: "64 word \<Rightarrow> ('w, 'c) bridge \<Rightarrow> 'w \<Rightarrow> ('w, 'c) bridge \<times> 'w" where
  "host_unsubscribe sub_id br w =
     (if sub_id = 0 then (br, w)
      else (br\<lparr>br_subscriptions := (br_subscriptions br)(sub_id := None)\<rparr>, drop_guard sub_id br w))"

section \<open>Runs of subscriptions\<close>

text \<open>
  A bridge from its construction on: the plugin subscribes and unsubscribes, with any ids, and the world moves
  in between. The run records the ids handed out and those given back.
\<close>

inductive sub_run :: "'w plugin_services \<Rightarrow> ('w, 'c) bridge \<Rightarrow> 64 word list \<Rightarrow> 64 word set \<Rightarrow> 'w \<Rightarrow> bool" for svc where
  built: "sub_run svc (bridge_with_services cluster alias runtime) [] {} w"
| subscribed_revocation:
    "sub_run svc br issued released w \<Longrightarrow> host_subscribe_credential_revoked svc (Some cb) br w = (i, br', w')
      \<Longrightarrow> sub_run svc br' (issued @ [i]) released w'"
| subscribed_rotation:
    "sub_run svc br issued released w \<Longrightarrow> host_subscribe_secret_rotation svc (Some cb2) br w = (i, br', w')
      \<Longrightarrow> sub_run svc br' (issued @ [i]) released w'"
| null_revocation:
    "sub_run svc br issued released w \<Longrightarrow> host_subscribe_credential_revoked svc None br w = (i, br', w')
      \<Longrightarrow> sub_run svc br' issued released w'"
| unsubscribed:
    "sub_run svc br issued released w \<Longrightarrow> host_unsubscribe i br w = (br', w')
      \<Longrightarrow> sub_run svc br' issued (if i \<in> set issued then insert i released else released) w'"
| world: "sub_run svc br issued released w \<Longrightarrow> sub_run svc br issued released w'"

definition sub_inv :: "('w, 'c) bridge \<Rightarrow> 64 word list \<Rightarrow> 64 word set \<Rightarrow> bool" where
  "sub_inv br issued released \<longleftrightarrow>
     br_next_sub_id br = of_nat (Suc (length issued))
   \<and> issued = map (\<lambda>n. of_nat (Suc n)) [0..<length issued]
   \<and> (length issued < 2 ^ 64 \<longrightarrow> dom (br_subscriptions br) = set issued - released)
   \<and> released \<subseteq> set issued"

lemma word_ids_distinct:
  "n < 2 ^ 64 \<Longrightarrow> distinct (map (\<lambda>n. of_nat (Suc n) :: 64 word) [0..<n]) \<and> 0 \<notin> set (map (\<lambda>n. of_nat (Suc n) :: 64 word) [0..<n])"
proof -
  assume n: "n < 2 ^ 64"
  have u: "unat (of_nat (Suc k) :: 64 word) = Suc k" if "k < n" for k
    using n that by (simp add: unsigned_of_nat take_bit_nat_eq_self del: of_nat_Suc)
  have "inj_on (\<lambda>n. of_nat (Suc n) :: 64 word) {0..<n}"
    by (rule inj_onI) (metis atLeastLessThan_iff nat.inject u)
  moreover have "(of_nat (Suc k) :: 64 word) \<noteq> 0" if "k < n" for k
    using u [OF that] by (metis nat.distinct(1) unat_0)
  ultimately show ?thesis by (auto simp: distinct_map simp del: of_nat_Suc)
qed

lemma park_guard_inv:
  assumes "sub_inv br issued released" and "park_guard g br w = (i, br', w')"
  shows "sub_inv br' (issued @ [i]) released"
proof -
  from assms(1) have next_id: "br_next_sub_id br = of_nat (Suc (length issued))"
    and ids: "issued = map (\<lambda>n. of_nat (Suc n)) [0..<length issued]" and rel: "released \<subseteq> set issued"
    and d: "length issued < 2 ^ 64 \<longrightarrow> dom (br_subscriptions br) = set issued - released"
    unfolding sub_inv_def by blast+
  from assms(2) have i: "i = br_next_sub_id br"
    and br': "br' = br\<lparr>br_next_sub_id := i + 1, br_subscriptions := (br_subscriptions br)(i \<mapsto> g)\<rparr>"
    by (auto simp: park_guard_def Let_def)
  have new: "issued @ [i] = map (\<lambda>n. of_nat (Suc n)) [0..<length (issued @ [i])]"
    using ids i next_id by simp
  have "i \<notin> released" if l: "length (issued @ [i]) < 2 ^ 64"
  proof -
    from word_ids_distinct [OF l] new have "distinct (issued @ [i])" by metis
    with rel show ?thesis by auto
  qed
  with d rel new i next_id br' show ?thesis by (auto simp: sub_inv_def)
qed

lemma sub_run_inv: "sub_run svc br issued released w \<Longrightarrow> sub_inv br issued released"
proof (induction rule: sub_run.induct)
  case built
  then show ?case by (simp add: sub_inv_def bridge_with_services_def)
next
  case (subscribed_revocation br issued released w cb i br' w')
  then show ?case
    by (auto simp: host_subscribe_credential_revoked_def split: prod.splits intro: park_guard_inv)
next
  case (subscribed_rotation br issued released w cb2 i br' w')
  then show ?case
    by (auto simp: host_subscribe_secret_rotation_def split: prod.splits intro: park_guard_inv)
next
  case (null_revocation br issued released w i br' w')
  then show ?case by (simp add: host_subscribe_credential_revoked_def)
next
  case (unsubscribed br issued released w i br' w')
  have "0 \<notin> set issued" if "length issued < 2 ^ 64"
    using word_ids_distinct [OF that] unsubscribed.IH unfolding sub_inv_def by metis
  then have "i \<noteq> 0" if "length issued < 2 ^ 64" "i \<in> set issued" using that by metis
  moreover from unsubscribed.hyps have "br_next_sub_id br' = br_next_sub_id br"
    "br_subscriptions br' = (if i = 0 then br_subscriptions br else (br_subscriptions br)(i := None))"
    by (auto simp: host_unsubscribe_def split: if_splits)
  ultimately show ?case using unsubscribed.IH unfolding sub_inv_def by (simp add: dom_fun_upd) blast
qed

section \<open>Properties\<close>

text \<open>The services of a bridge with the alias fixed, whatever alias they are called with.\<close>

definition pin_alias :: "string \<Rightarrow> 'w plugin_services \<Rightarrow> 'w plugin_services" where
  "pin_alias a svc = svc
     \<lparr>hs_issue_credential := (\<lambda>_. hs_issue_credential svc a),
      hs_resolve_credentials := (\<lambda>_. hs_resolve_credentials svc a),
      hs_invoke_tool := (\<lambda>ctx. hs_invoke_tool svc (ctx\<lparr>ic_initiating_backend := a\<rparr>)),
      hs_resolve_secret := (\<lambda>_. hs_resolve_secret svc a),
      hs_config_snapshot := (\<lambda>_. hs_config_snapshot svc a),
      hs_audit_event := (\<lambda>_. hs_audit_event svc a),
      hs_metric_emit := (\<lambda>_. hs_metric_emit svc a),
      hs_span_start := (\<lambda>_. hs_span_start svc a),
      hs_cache_get := (\<lambda>_. hs_cache_get svc a),
      hs_cache_put := (\<lambda>_. hs_cache_put svc a),
      hs_fetch_content := (\<lambda>_. hs_fetch_content svc a),
      hs_store_content := (\<lambda>_. hs_store_content svc a),
      hs_subscribe_credential_revoked := (\<lambda>_. hs_subscribe_credential_revoked svc a),
      hs_subscribe_secret_rotation := (\<lambda>_. hs_subscribe_secret_rotation svc a)\<rparr>"

text \<open>
  C4. A plugin acts under its own alias only. Whatever a plugin passes through its bridge, every service is called with
  the alias the operator gave it: the callbacks behave exactly as over services in which the alias is
  fixed. In particular a tool call names this plugin as its initiator whatever the context said.
\<close>

theorem callbacks_pin_alias:
  fixes svc :: "'w plugin_services" and br :: "('w, 'c) bridge"
  defines "b \<equiv> br_base br"
  defines "own \<equiv> pin_alias (hb_alias b) svc"
  shows "host_issue_credential t (host_services.truncate svc) b uri i w = host_issue_credential t (host_services.truncate own) b uri i w
    \<and> host_resolve_credentials t (host_services.truncate svc) b v i w = host_resolve_credentials t (host_services.truncate own) b v i w
    \<and> host_invoke_tool t (host_services.truncate svc) b ctx tool args w = host_invoke_tool t (host_services.truncate own) b ctx tool args w
    \<and> host_resolve_secret svc b uri w = host_resolve_secret own b uri w
    \<and> host_config_snapshot svc b uri w = host_config_snapshot own b uri w
    \<and> host_audit_event svc b event w = host_audit_event own b event w
    \<and> host_cache_get c svc b binding key w = host_cache_get c own b binding key w
    \<and> host_cache_put c svc b binding put w = host_cache_put c own b binding put w
    \<and> host_fetch_content c svc b uri w = host_fetch_content c own b uri w
    \<and> host_store_content c svc b content w = host_store_content c own b content w
    \<and> host_metric_emit svc b point w = host_metric_emit own b point w
    \<and> host_span_start svc b name attrs w = host_span_start own b name attrs w
    \<and> host_subscribe_credential_revoked svc cb br w = host_subscribe_credential_revoked own cb br w
    \<and> host_subscribe_secret_rotation svc cb2 br w = host_subscribe_secret_rotation own cb2 br w"
  unfolding own_def b_def
  by (intro conjI; simp add: pin_alias_def host_services.truncate_def host_issue_credential_def host_resolve_credentials_def
      host_invoke_tool_def host_resolve_secret_def host_config_snapshot_def host_audit_event_def host_cache_get_def
      host_cache_put_def host_fetch_content_def host_store_content_def host_metric_emit_def host_span_start_def
      host_subscribe_credential_revoked_def host_subscribe_secret_rotation_def host_alias_def Let_def
      split: option.splits)

text \<open>
  A subscription lives exactly until the plugin gives its id back. The ids a bridge hands out are distinct and never 0,
  the guards it holds are those of the ids handed out and not given back, and a new subscription drops no
  guard; for fewer than \<open>2 ^ 64\<close> subscriptions, which is what the 64-bit counter allows.
\<close>

theorem subscription_lives_until_unsubscribed:
  assumes "sub_run svc br issued released w" and "length issued + 1 < 2 ^ 64"
  shows "distinct issued \<and> 0 \<notin> set issued \<and> dom (br_subscriptions br) = set issued - released
    \<and> drop_guard (br_next_sub_id br) br w = w"
proof -
  from sub_run_inv [OF assms(1)] have inv: "sub_inv br issued released" .
  let ?ids = "\<lambda>n. map (\<lambda>n. of_nat (Suc n) :: 64 word) [0..<n]"
  from inv have i: "issued = ?ids (length issued)" and n: "br_next_sub_id br = of_nat (Suc (length issued))"
    and d: "length issued < 2 ^ 64 \<longrightarrow> dom (br_subscriptions br) = set issued - released"
    unfolding sub_inv_def by blast+
  from assms(2) d have dom: "dom (br_subscriptions br) = set issued - released" by simp
  have "distinct issued \<and> 0 \<notin> set issued"
    using word_ids_distinct [of "length issued"] i assms(2) by (metis add_lessD1)
  moreover have "distinct (?ids (Suc (length issued)))"
    using word_ids_distinct [of "Suc (length issued)"] assms(2) by simp
  then have "br_next_sub_id br \<notin> set (?ids (length issued))" unfolding n by simp
  then have "br_next_sub_id br \<notin> set issued" by (subst i)
  then have "br_subscriptions br (br_next_sub_id br) = None" using dom by (metis Diff_iff domIff)
  ultimately show ?thesis using dom by (simp add: drop_guard_def)
qed

text \<open>
  The late-bound handle is the services bound last. After \<open>set\<close> every call through the handle is the call of the
  services that were set, made in the same world; before any \<open>set\<close> it is the one of the stub. Only
  subscriptions go to the subscription host, if there is one, bound or not.
\<close>

theorem late_bound_acts_as_bound:
  fixes lb :: "'w late_bound"
  assumes ok: "lens_ok (lb_inner lb)"
    and s: "(w' = lb_set lb services w \<and> s = lb_at lb services) \<or> (\<not> is_bound lb w' \<and> s = null_host_services)"
  shows "hs_resolve_secret (late_bound_services lb) a uri w' = hs_resolve_secret s a uri w'
    \<and> hs_issue_credential (late_bound_services lb) a uri i w' = hs_issue_credential s a uri i w'
    \<and> hs_config_snapshot (late_bound_services lb) a uri w' = hs_config_snapshot s a uri w'
    \<and> hs_audit_event (late_bound_services lb) a event w' = hs_audit_event s a event w'
    \<and> hs_metric_emit (late_bound_services lb) a point w' = hs_metric_emit s a point w'
    \<and> hs_span_start (late_bound_services lb) a name attrs w' = hs_span_start s a name attrs w'
    \<and> hs_span_end (late_bound_services lb) span w' = hs_span_end s span w'
    \<and> hs_span_event (late_bound_services lb) span name attrs w' = hs_span_event s span name attrs w'
    \<and> hs_resolve_credentials (late_bound_services lb) a v oi w' = hs_resolve_credentials s a v oi w'
    \<and> hs_cache_get (late_bound_services lb) a binding key w' = hs_cache_get s a binding key w'
    \<and> hs_cache_put (late_bound_services lb) a binding key v2 ttl w' = hs_cache_put s a binding key v2 ttl w'
    \<and> hs_fetch_content (late_bound_services lb) a uri w' = hs_fetch_content s a uri w'
    \<and> hs_store_content (late_bound_services lb) a bytes mime ottl w' = hs_store_content s a bytes mime ottl w'
    \<and> hs_invoke_tool (late_bound_services lb) ctx tool args w' = hs_invoke_tool s ctx tool args w'
    \<and> hs_subscribe_credential_revoked (late_bound_services lb) a cb w'
        = (case lb_subscriptions lb of Some h \<Rightarrow> sh_credential_revoked h cb w' | None \<Rightarrow> hs_subscribe_credential_revoked s a cb w')
    \<and> hs_subscribe_secret_rotation (late_bound_services lb) a cb2 w'
        = (case lb_subscriptions lb of Some h \<Rightarrow> sh_secret_rotation h cb2 w' | None \<Rightarrow> hs_subscribe_secret_rotation s a cb2 w')"
proof -
  from ok s have r: "lb_resolve lb w' = s" by (auto simp: lb_resolve_def lb_set_def lens_ok_def is_bound_def)
  show ?thesis by (intro conjI; simp add: late_bound_services_def r split: option.split)
qed

text \<open>
  A plugin that is only asked for its manifest can do nothing: over the stub services every callback leaves the world
  as it is, and no secret, credential, configuration, audit receipt, content or tool result is given out.
\<close>

theorem stub_bridge_is_inert:
  fixes b :: host_bridge
  defines "svc \<equiv> (null_host_services :: 'w plugin_services)"
  shows "(\<exists>e. host_resolve_secret svc b uri w = (Inl e, w)) \<and> (\<exists>e. host_config_snapshot svc b uri w = (Inl e, w))
    \<and> (\<exists>e. host_audit_event svc b event w = (Inl e, w)) \<and> (\<exists>e. host_store_content c svc b content w = (Inl e, w))
    \<and> (\<exists>e. host_issue_credential t (host_services.truncate svc) b uri i w = (Inl e, w))
    \<and> (\<exists>e. host_invoke_tool t (host_services.truncate svc) b ctx tool args w = (Inl e, w))
    \<and> host_cache_get c svc b binding key w \<in> {(Inr None, w), (Inl NotImplemented, w)}
    \<and> host_fetch_content c svc b uri w \<in> {(Inr None, w), (Inl NotImplemented, w)}
    \<and> snd (host_resolve_credentials t (host_services.truncate svc) b v i w) = w
    \<and> snd (host_cache_put c svc b binding put w) = w
    \<and> host_metric_emit svc b point w = w \<and> snd (host_span_start svc b name attrs w) = w \<and> host_span_end svc span w = w"
  unfolding svc_def
  by (intro conjI; simp add: null_host_services_def answer_def host_services.truncate_def host_issue_credential_def host_resolve_credentials_def
      host_invoke_tool_def host_resolve_secret_def host_config_snapshot_def host_audit_event_def host_cache_get_def
      host_cache_put_def host_fetch_content_def host_store_content_def host_metric_emit_def host_span_start_def host_span_end_def
      block_on_host_service_def encoded_def bad_args_def Let_def split: option.splits)

section \<open>Witnesses\<close>

theorem subscription_lives_until_unsubscribed_witness:
  "dom (br_subscriptions (fst (snd (host_subscribe_credential_revoked null_host_services (Some (\<lambda>p t w. (None, w)))
      (bridge_with_services (None :: unit option) ''p'' True) ())))) = {1}"
proof -
  let ?br = "bridge_with_services (None :: unit option) ''p'' True :: (unit, unit) bridge"
  let ?cb = "\<lambda>p t (w :: unit). (None :: unit option, w)"
  obtain i br' w' where p: "host_subscribe_credential_revoked null_host_services (Some ?cb) ?br () = (i, br', w')"
    by (metis prod_cases3)
  from sub_run.subscribed_revocation [OF sub_run.built p]
  have "sub_run null_host_services br' ([] @ [i]) {} w'" .
  from subscription_lives_until_unsubscribed [OF this] have "dom (br_subscriptions br') = {i}" by simp
  moreover have "i = 1" using p
    by (auto simp: host_subscribe_credential_revoked_def null_host_services_def park_guard_def bridge_with_services_def Let_def)
  ultimately show ?thesis using p by simp
qed

definition sample_late_bound :: "nat option late_bound" where
  "sample_late_bound = \<lparr>lb_inner = \<lparr>ln_get = id, ln_put = (\<lambda>s w. s)\<rparr>,
     lb_at = (\<lambda>n. null_host_services\<lparr>hs_cache_get := (\<lambda>alias binding key. answer (Inr (Some key)))\<rparr>), lb_subscriptions = None\<rparr>"

theorem late_bound_acts_as_bound_witness:
  "fst (hs_cache_get (late_bound_services sample_late_bound) ''p'' ''b'' ''k'' (lb_set sample_late_bound 7 None)) = Some (Inr (Some ''k''))"
proof -
  have "lens_ok (lb_inner sample_late_bound)" by (simp add: lens_ok_def sample_late_bound_def)
  then have "hs_cache_get (late_bound_services sample_late_bound) ''p'' ''b'' ''k'' (lb_set sample_late_bound 7 None)
      = hs_cache_get (lb_at sample_late_bound 7) ''p'' ''b'' ''k'' (lb_set sample_late_bound 7 None)"
    by (rule late_bound_acts_as_bound [THEN conjunct2, THEN conjunct2, THEN conjunct2, THEN conjunct2, THEN conjunct2,
        THEN conjunct2, THEN conjunct2, THEN conjunct2, THEN conjunct2, THEN conjunct1]) blast
  then show ?thesis by (simp add: sample_late_bound_def answer_def)
qed

end
