(* ===== verification/Event_Fanout.thy ===== *)
theory Event_Fanout
  imports Registry_Run
begin

text \<open>
  The best-effort fan-outs of \<open>registry.rs\<close> (telemetry, log and metrics sinks) and the lookups through which the
  gateway reaches single plugins: backends, content stores, watch strategies, HTTP routes, transports,
  catalog providers and approval notifiers.

  The metrics of a dispatch and the log line of a failed flush are left out. The order of a \<open>HashMap\<close> is the one
  of its association list.
\<close>

section \<open>Fan-out\<close>

text \<open>The loop of all \<open>emit_*\<close> methods: the serving sinks in registration order, one after the other.\<close>

fun emit_each :: "(string \<Rightarrow> bool) \<Rightarrow> string \<Rightarrow> json \<Rightarrow> 'w event_sink loaded list \<Rightarrow> 'w \<Rightarrow> 'w" where
  "emit_each allowed op payload [] w = w"
| "emit_each allowed op payload (sink # sinks) w =
     (if \<not> serving sink then emit_each allowed op payload sinks w
      else if \<not> allowed (m_id (lp_manifest sink)) then emit_each allowed op payload sinks w
      else emit_each allowed op payload sinks (snd (await (es_event (lp_instance sink) op payload) w)))"

definition any_id :: "string \<Rightarrow> bool" where
  "any_id i = True"

definition emit_telemetry_span_started :: "'w registry \<Rightarrow> json \<Rightarrow> 'w \<Rightarrow> 'w" where
  "emit_telemetry_span_started r span w = emit_each any_id ''span_started'' span (telemetry_sinks r) w"

definition emit_telemetry_span_started_filtered :: "'w registry \<Rightarrow> json \<Rightarrow> string set \<Rightarrow> 'w \<Rightarrow> 'w" where
  "emit_telemetry_span_started_filtered r span ids w = emit_each (\<lambda>i. i \<in> ids) ''span_started'' span (telemetry_sinks r) w"

definition emit_telemetry_span_ended :: "'w registry \<Rightarrow> json \<Rightarrow> 'w \<Rightarrow> 'w" where
  "emit_telemetry_span_ended r span w = emit_each any_id ''span_ended'' span (telemetry_sinks r) w"

definition emit_telemetry_span_ended_filtered :: "'w registry \<Rightarrow> json \<Rightarrow> string set \<Rightarrow> 'w \<Rightarrow> 'w" where
  "emit_telemetry_span_ended_filtered r span ids w = emit_each (\<lambda>i. i \<in> ids) ''span_ended'' span (telemetry_sinks r) w"

definition emit_telemetry_metric :: "'w registry \<Rightarrow> json \<Rightarrow> 'w \<Rightarrow> 'w" where
  "emit_telemetry_metric r metric w = emit_each any_id ''metric_recorded'' metric (telemetry_sinks r) w"

definition emit_telemetry_metric_filtered :: "'w registry \<Rightarrow> json \<Rightarrow> string set \<Rightarrow> 'w \<Rightarrow> 'w" where
  "emit_telemetry_metric_filtered r metric ids w = emit_each (\<lambda>i. i \<in> ids) ''metric_recorded'' metric (telemetry_sinks r) w"

definition emit_log_record :: "'w registry \<Rightarrow> json \<Rightarrow> 'w \<Rightarrow> 'w" where
  "emit_log_record r rec w = emit_each any_id ''emit'' rec (log_sinks r) w"

definition emit_log_record_filtered :: "'w registry \<Rightarrow> json \<Rightarrow> string set \<Rightarrow> 'w \<Rightarrow> 'w" where
  "emit_log_record_filtered r rec ids w = emit_each (\<lambda>i. i \<in> ids) ''emit'' rec (log_sinks r) w"

definition emit_metric_event :: "'w registry \<Rightarrow> json \<Rightarrow> 'w \<Rightarrow> 'w" where
  "emit_metric_event r metric w = emit_each any_id ''emit'' metric (metrics_sinks r) w"

definition emit_metric_event_filtered :: "'w registry \<Rightarrow> json \<Rightarrow> string set \<Rightarrow> 'w \<Rightarrow> 'w" where
  "emit_metric_event_filtered r metric ids w = emit_each (\<lambda>i. i \<in> ids) ''emit'' metric (metrics_sinks r) w"

fun flush_each :: "nat \<Rightarrow> 'w event_sink loaded list \<Rightarrow> 'w \<Rightarrow> 'w" where
  "flush_each timeout [] w = w"
| "flush_each timeout (sink # sinks) w =
     (if \<not> serving sink then flush_each timeout sinks w
      else flush_each timeout sinks (snd (await (es_flush (lp_instance sink) timeout) w)))"

definition flush_telemetry_sinks :: "'w registry \<Rightarrow> nat \<Rightarrow> 'w \<Rightarrow> 'w" where
  "flush_telemetry_sinks r timeout w = flush_each timeout (telemetry_sinks r) w"

definition flush_log_sinks :: "'w registry \<Rightarrow> nat \<Rightarrow> 'w \<Rightarrow> 'w" where
  "flush_log_sinks r timeout w = flush_each timeout (log_sinks r) w"

definition flush_metrics_sinks :: "'w registry \<Rightarrow> nat \<Rightarrow> 'w \<Rightarrow> 'w" where
  "flush_metrics_sinks r timeout w = flush_each timeout (metrics_sinks r) w"

definition metrics_sink_render_text_exposition :: "'w registry \<Rightarrow> string \<Rightarrow> 'w \<Rightarrow> string option \<times> 'w" where
  "metrics_sink_render_text_exposition r plugin_id w =
     (case find (\<lambda>s. m_id (lp_manifest s) = plugin_id) (metrics_sinks r) of
        None \<Rightarrow> (None, w)
      | Some sink \<Rightarrow> if \<not> serving sink then (None, w) else await (es_render (lp_instance sink)) w)"

section \<open>Lookups\<close>

text \<open>\<open>get(kind).filter(serves_traffic)\<close>.\<close>

definition serving_at :: "(string, 'i loaded) hmap \<Rightarrow> string \<Rightarrow> 'i option" where
  "serving_at m kind = (case map_of m kind of None \<Rightarrow> None | Some p \<Rightarrow> if serving p then Some (lp_instance p) else None)"

definition backend :: "'w registry \<Rightarrow> string \<Rightarrow> 'w plugin_object option" where
  "backend r kind = serving_at (backends r) kind"

definition content_store_plugin :: "'w registry \<Rightarrow> string \<Rightarrow> 'w plugin_object option" where
  "content_store_plugin r kind = serving_at (content_stores r) kind"

definition watch_strategy :: "'w registry \<Rightarrow> string \<Rightarrow> 'w plugin_object option" where
  "watch_strategy r kind = serving_at (watch_strategies r) kind"

definition content_store_plugins :: "'w registry \<Rightarrow> (string \<times> 'w plugin_object) list" where
  "content_store_plugins r = map (\<lambda>(kind, p). (kind, lp_instance p)) (filter (\<lambda>(_, p). serving p) (content_stores r))"

definition content_store_kinds :: "'w registry \<Rightarrow> string list" where
  "content_store_kinds r = map fst (content_stores r)"

definition backend_kinds :: "'w registry \<Rightarrow> string list" where
  "backend_kinds r = map fst (backends r)"

definition watch_strategy_kinds :: "'w registry \<Rightarrow> string list" where
  "watch_strategy_kinds r = map fst (watch_strategies r)"

definition backend_alias :: "'w registry \<Rightarrow> string \<Rightarrow> string option" where
  "backend_alias r kind = map_option lp_alias (map_of (backends r) kind)"

definition transform_by_id :: "'w registry \<Rightarrow> string \<Rightarrow> 'w transform_plugin option" where
  "transform_by_id r i = map_option lp_instance (find (\<lambda>p. lp_alias p = i \<and> serving p) (transform_chain r))"

definition find_route :: "'w registry \<Rightarrow> string \<Rightarrow> string \<Rightarrow> 'w plugin_object http_entry option" where
  "find_route r plugin_id entity_name =
     find (\<lambda>p. m_id (lp_manifest p) = plugin_id \<and> lp_entity_name p = entity_name) (http_routes r)"

definition http_route :: "'w registry \<Rightarrow> string \<Rightarrow> string \<Rightarrow> 'w plugin_object option" where
  "http_route r plugin_id entity_name =
     (case find_route r plugin_id entity_name of None \<Rightarrow> None | Some p \<Rightarrow> if serving p then Some (lp_instance p) else None)"

definition route_overrides :: "'w registry \<Rightarrow> string \<Rightarrow> string \<Rightarrow> http_route_overrides option" where
  "route_overrides r plugin_id entity_name = map_option lp_overrides (find_route r plugin_id entity_name)"

record http_route_entry =
  re_plugin_id :: string
  re_entity_name :: string
  re_state :: plugin_state
  re_routes :: "route_spec list"

definition http_route_entries :: "'w registry \<Rightarrow> http_route_entry list" where
  "http_route_entries r =
     map (\<lambda>p. \<lparr>re_plugin_id = m_id (lp_manifest p), re_entity_name = lp_entity_name p, re_state = lp_state p,
               re_routes = lp_routes p\<rparr>) (http_routes r)"

record http_route_override_entry =
  ro_plugin_id :: string
  ro_entity_name :: string
  ro_method :: string
  ro_path :: string

definition override_rows :: "'w plugin_object http_entry \<Rightarrow> http_route_override_entry list" where
  "override_rows p =
     map (\<lambda>spec. \<lparr>ro_plugin_id = m_id (lp_manifest p), ro_entity_name = lp_entity_name p, ro_method = rt_method spec,
                  ro_path = rt_path spec\<rparr>) (lp_routes p)"

definition http_route_override_entries :: "'w registry \<Rightarrow> http_route_override_entry list" where
  "http_route_override_entries r =
     fold (\<lambda>p out. if ov_allow_path_override (lp_overrides p) then out @ override_rows p else out) (http_routes r) []"

definition transport_by_name :: "'w registry \<Rightarrow> string \<Rightarrow> 'w plugin_object option" where
  "transport_by_name r name = map_option lp_instance (find (\<lambda>p. lp_name p = name) (transports r))"

definition transport_by_id :: "'w registry \<Rightarrow> string \<Rightarrow> 'w plugin_object option" where
  "transport_by_id r plugin_id = map_option lp_instance (find (\<lambda>p. m_id (lp_manifest p) = plugin_id) (transports r))"

definition transport_names :: "'w registry \<Rightarrow> string list" where
  "transport_names r = sort (map lp_name (transports r))"

definition is_active :: "('i, 'z) loaded_scheme \<Rightarrow> bool" where
  "is_active p = (lp_state p = Active)"

definition active_catalog_chain :: "'w registry \<Rightarrow> 'w plugin_object list" where
  "active_catalog_chain r = map lp_instance (filter is_active (catalog_chain r))"

definition approval_notifier :: "'w registry \<Rightarrow> string \<Rightarrow> 'w plugin_object option" where
  "approval_notifier r plugin_id =
     (case map_of (approval_notifiers r) plugin_id of None \<Rightarrow> None | Some p \<Rightarrow> if is_active p then Some (lp_instance p) else None)"

definition resolve_approval_notifiers :: "'w registry \<Rightarrow> string list \<Rightarrow> 'w plugin_object list" where
  "resolve_approval_notifiers r targets =
     (if targets = [] then map lp_instance (filter is_active (map snd (approval_notifiers r)))
      else fold (\<lambda>i out. case approval_notifier r i of Some p \<Rightarrow> out @ [p] | None \<Rightarrow> out) targets [])"

section \<open>Lemmas\<close>

lemma emit_each_fold:
  "emit_each allowed op payload sinks w
    = fold (\<lambda>s w. snd (await (es_event (lp_instance s) op payload) w)) (filter (\<lambda>s. serving s \<and> allowed (m_id (lp_manifest s))) sinks) w"
  by (induction sinks arbitrary: w) simp_all

lemma flush_each_fold:
  "flush_each timeout sinks w = fold (\<lambda>s w. snd (await (es_flush (lp_instance s) timeout) w)) (filter serving sinks) w"
  by (induction sinks arbitrary: w) simp_all

lemma fold_collect: "fold (\<lambda>x out. if P x then out @ f x else out) xs acc = acc @ concat (map f (filter P xs))"
  by (induction xs arbitrary: acc) simp_all

lemma fold_collect_option:
  "fold (\<lambda>x out. case f x of Some y \<Rightarrow> out @ [y] | None \<Rightarrow> out) xs acc = acc @ List.map_filter f xs"
  by (induction xs arbitrary: acc) (simp_all add: map_filter_simps split: option.splits)

lemma serving_at_Some:
  "serving_at m kind = Some x \<longleftrightarrow> (\<exists>p. map_of m kind = Some p \<and> serving p \<and> x = lp_instance p)"
  by (auto simp: serving_at_def split: option.splits if_splits)

lemmas fan_out_defs = emit_telemetry_span_started_def emit_telemetry_span_started_filtered_def emit_telemetry_span_ended_def
  emit_telemetry_span_ended_filtered_def emit_telemetry_metric_def emit_telemetry_metric_filtered_def emit_log_record_def
  emit_log_record_filtered_def emit_metric_event_def emit_metric_event_filtered_def

section \<open>Properties\<close>

text \<open>
  Every fan-out reaches exactly the serving sinks of its class, each once and in the order of registration, whatever the
  others do; a filtered one exactly those of them whose id is allowed, so that filtering by all ids is
  the unfiltered fan-out. A flush reaches the serving sinks of its class, also after one of them failed.
\<close>

theorem fan_out_reaches_serving_sinks:
  defines "deliver \<equiv> \<lambda>op (e :: json) sinks (w :: 'w). fold (\<lambda>s w. snd (await (es_event (lp_instance s) op e) w)) sinks w"
    and "kept \<equiv> \<lambda>ids sinks. filter (\<lambda>s. m_id (lp_manifest s) \<in> ids) (filter serving sinks)"
  shows "emit_telemetry_span_started r e w = deliver ''span_started'' e (filter serving (telemetry_sinks r)) w
    \<and> emit_telemetry_span_started_filtered r e ids w = deliver ''span_started'' e (kept ids (telemetry_sinks r)) w
    \<and> emit_telemetry_span_ended r e w = deliver ''span_ended'' e (filter serving (telemetry_sinks r)) w
    \<and> emit_telemetry_span_ended_filtered r e ids w = deliver ''span_ended'' e (kept ids (telemetry_sinks r)) w
    \<and> emit_telemetry_metric r e w = deliver ''metric_recorded'' e (filter serving (telemetry_sinks r)) w
    \<and> emit_telemetry_metric_filtered r e ids w = deliver ''metric_recorded'' e (kept ids (telemetry_sinks r)) w
    \<and> emit_log_record r e w = deliver ''emit'' e (filter serving (log_sinks r)) w
    \<and> emit_log_record_filtered r e ids w = deliver ''emit'' e (kept ids (log_sinks r)) w
    \<and> emit_metric_event r e w = deliver ''emit'' e (filter serving (metrics_sinks r)) w
    \<and> emit_metric_event_filtered r e ids w = deliver ''emit'' e (kept ids (metrics_sinks r)) w
    \<and> flush_telemetry_sinks r t w = fold (\<lambda>s w. snd (await (es_flush (lp_instance s) t) w)) (filter serving (telemetry_sinks r)) w
    \<and> flush_log_sinks r t w = fold (\<lambda>s w. snd (await (es_flush (lp_instance s) t) w)) (filter serving (log_sinks r)) w
    \<and> flush_metrics_sinks r t w = fold (\<lambda>s w. snd (await (es_flush (lp_instance s) t) w)) (filter serving (metrics_sinks r)) w"
  by (simp add: deliver_def kept_def fan_out_defs emit_each_fold flush_each_fold any_id_def conj_commute
      flush_telemetry_sinks_def flush_log_sinks_def flush_metrics_sinks_def)

text \<open>
  The rows the gateway mounts outside the plugin prefix never shadow a path of its own: in every registry the
  operations can build, each row of \<open>http_route_override_entries\<close> comes from a registered entity that may override paths
  and has an absolute path that is not the root and neither starts with a reserved prefix nor is one
  without its trailing slash.
\<close>

theorem mounted_overrides_avoid_reserved_paths:
  assumes "registry_reachable r" and "row \<in> set (http_route_override_entries r)"
  shows "(\<exists>e \<in> set (http_routes r). ov_allow_path_override (lp_overrides e) \<and> m_id (lp_manifest e) = ro_plugin_id row
      \<and> lp_entity_name e = ro_entity_name row \<and> ro_path row \<in> rt_path ` set (lp_routes e))
    \<and> starts_with (ro_path row) ''/'' \<and> ro_path row \<noteq> ''/''
    \<and> (\<forall>pre \<in> set RESERVED_OVERRIDE_PATH_PREFIXES.
         \<not> starts_with (ro_path row) pre \<and> ro_path row \<noteq> trim_end_matches (CHR ''/'') pre)"
proof -
  from assms(2) obtain e spec where e: "e \<in> set (http_routes r)" "ov_allow_path_override (lp_overrides e)"
    and spec: "spec \<in> set (lp_routes e)" and row: "row = \<lparr>ro_plugin_id = m_id (lp_manifest e), ro_entity_name = lp_entity_name e,
      ro_method = rt_method spec, ro_path = rt_path spec\<rparr>"
    by (auto simp: http_route_override_entries_def fold_collect override_rows_def)
  from reachable_routes_avoid_reserved_paths [OF assms(1) e(1)] e(2) spec
  show ?thesis using e spec by (auto simp: row)
qed

text \<open>
  An approval is sent to active notifiers only: without targets to all of them in the order of their ids, with targets
  to the active ones among them, in the order of the targets and as often as they are named.
\<close>

theorem approvals_go_to_active_notifiers:
  "resolve_approval_notifiers r targets =
     (if targets = [] then map lp_instance (filter is_active (map snd (approval_notifiers r)))
      else List.map_filter (approval_notifier r) targets)
   \<and> set (resolve_approval_notifiers r targets) \<subseteq> {lp_instance p | p. p \<in> snd ` set (approval_notifiers r) \<and> lp_state p = Active}"
proof -
  have r: "resolve_approval_notifiers r targets =
     (if targets = [] then map lp_instance (filter is_active (map snd (approval_notifiers r)))
      else List.map_filter (approval_notifier r) targets)"
    by (simp add: resolve_approval_notifiers_def fold_collect_option)
  have "x \<in> {lp_instance p | p. p \<in> snd ` set (approval_notifiers r) \<and> lp_state p = Active}"
    if "approval_notifier r i = Some x" for i x
    using that by (force simp: approval_notifier_def is_active_def split: option.splits if_splits dest: map_of_SomeD)
  then have "set (List.map_filter (approval_notifier r) targets)
      \<subseteq> {lp_instance p | p. p \<in> snd ` set (approval_notifiers r) \<and> lp_state p = Active}"
    by (auto simp: map_filter_def)
  with r show ?thesis by (auto simp: is_active_def)
qed

section \<open>Witnesses\<close>

theorem mounted_overrides_avoid_reserved_paths_witness:
  "http_route_override_entries (projr reached_3) \<noteq> []
    \<and> \<not> starts_with (ro_path (hd (http_route_override_entries (projr reached_3)))) ''/mcp''"
proof -
  have ne: "http_route_override_entries (projr reached_3) \<noteq> []" by code_simp
  from mounted_overrides_avoid_reserved_paths [OF reached_reachable, OF hd_in_set [OF ne]] ne
  show ?thesis by (auto simp: RESERVED_OVERRIDE_PATH_PREFIXES_def)
qed

end
