(* ===== verification/Audit_Builders.thy ===== *)
theory Audit_Builders
  imports Audit_Events Bytes
begin

text \<open>
  The remaining audit event builders (\<open>audit_events.rs\<close>), which the gateway calls, and the cap on text that a
  client chose. As in \<open>Audit_Events\<close> the event id and the timestamp are the first argument. Floating-point
  numbers are passed as the JSON value they serialise to.
\<close>

section \<open>Capped text\<close>

text \<open>A \<open>str\<close> is its UTF-8 bytes; \<open>str::is_char_boundary\<close>.\<close>

definition is_continuation :: "char \<Rightarrow> bool" where
  "is_continuation c = between 0x80 0xBF c"

definition is_char_boundary :: "string \<Rightarrow> nat \<Rightarrow> bool" where
  "is_char_boundary s i = (i = 0 \<or> i = length s \<or> (i < length s \<and> \<not> is_continuation (s ! i)))"

fun boundary_from :: "string \<Rightarrow> nat \<Rightarrow> nat" where
  "boundary_from s 0 = 0"
| "boundary_from s (Suc n) = (if is_char_boundary s (Suc n) then Suc n else boundary_from s n)"

definition sanitize_resource_segment :: "string \<Rightarrow> nat \<Rightarrow> string" where
  "sanitize_resource_segment s max_bytes =
     (if length s \<le> max_bytes then s else take (boundary_from s max_bytes) s)"

section \<open>Builders\<close>

text \<open>What all builders have in common: no upstream request, no node, no predecessor.\<close>

definition event_of ::
  "stamp \<Rightarrow> identity \<Rightarrow> string \<Rightarrow> string option \<Rightarrow> audit_outcome \<Rightarrow> string option \<Rightarrow> json \<Rightarrow> audit_event" where
  "event_of st actor action resource outcome request_id details =
     \<lparr>ev_event_id = fst st, ev_occurred_at = snd st, ev_actor = actor, ev_action = action, ev_resource = resource,
      ev_outcome = outcome, ev_request_id = request_id, ev_upstream_request_id = None, ev_node_id = None,
      ev_details = details, ev_prev_event_hash = None\<rparr>"

definition backend_details ::
  "string \<Rightarrow> string \<Rightarrow> string option \<Rightarrow> nat \<Rightarrow> nat \<Rightarrow> nat \<Rightarrow> string option \<Rightarrow> json_map" where
  "backend_details kind profile session_id duration_ms payload_bytes response_bytes error_message =
     fold (\<lambda>(k, v). bt_insert k v)
       [(''kind'', JString kind), (''profile'', JString profile), (''session_id'', json_opt_str session_id),
        (''duration_ms'', JNumber (int duration_ms)), (''payload_bytes'', JNumber (int payload_bytes)),
        (''response_bytes'', JNumber (int response_bytes)), (''error_message'', json_opt_str error_message)] []"

text \<open>\<open>details.entry(k).or_insert(v)\<close> for the keys a plugin adds.\<close>

definition baseline_or_insert :: "json_map \<Rightarrow> json_map \<Rightarrow> json_map" where
  "baseline_or_insert extra m = fold (\<lambda>(k, v) m. if map_of m k = None then bt_insert k v m else m) extra m"

definition hidden_json :: "string \<times> string \<Rightarrow> json" where
  "hidden_json h = json_obj [(''name'', JString (fst h)), (''plugin_id'', JString (snd h))]"

definition tool_call_unknown_event ::
  "stamp \<Rightarrow> plugin_context \<Rightarrow> audit_event" where
  "tool_call_unknown_event st ctx =
     (let safe_name = sanitize_resource_segment (cx_tool_name ctx) 256 in
      event_of st (cx_identity ctx) ''mcpg.tool.call.unknown''
       (Some (''tool://'' @ safe_name)) Failure (Some (cx_request_id ctx))
       (json_obj [(''surface'', JString (cx_surface ctx)), (''transport'', JString (cx_transport ctx)),
         (''reason'', JString ''tool_not_registered'')]))"

definition tool_call_access_denied_event ::
  "stamp \<Rightarrow> plugin_context \<Rightarrow> string \<Rightarrow> audit_event" where
  "tool_call_access_denied_event st ctx audit_reason =
     event_of st (cx_identity ctx) ''mcpg.tool.call.access_denied''
       (Some (''tool://'' @ cx_tool_name ctx)) Denied (Some (cx_request_id ctx))
       (json_obj [(''surface'', JString (cx_surface ctx)), (''transport'', JString (cx_transport ctx)),
         (''audit_reason'', JString audit_reason), (''trust_level'', JString (id_trust_level (cx_identity ctx)))])"

definition resource_read_success_event ::
  "stamp \<Rightarrow> plugin_context \<Rightarrow> string \<Rightarrow> nat \<Rightarrow> audit_event" where
  "resource_read_success_event st ctx uri bytes_returned =
     (let safe_uri = sanitize_resource_segment uri 1024 in
      event_of st (cx_identity ctx) ''mcpg.resource.read.success''
       (Some (''resource://'' @ safe_uri)) Success (Some (cx_request_id ctx))
       (json_obj [(''surface'', JString (cx_surface ctx)), (''transport'', JString (cx_transport ctx)),
         (''bytes_returned'', JNumber (int bytes_returned))]))"

definition resource_read_denied_event ::
  "stamp \<Rightarrow> plugin_context \<Rightarrow> string \<Rightarrow> string \<Rightarrow> audit_event" where
  "resource_read_denied_event st ctx uri plugin_id =
     (let safe_uri = sanitize_resource_segment uri 1024 in
      event_of st (cx_identity ctx) ''mcpg.resource.read.denied''
       (Some (''resource://'' @ safe_uri)) Denied (Some (cx_request_id ctx))
       (json_obj [(''surface'', JString (cx_surface ctx)), (''transport'', JString (cx_transport ctx)),
         (''denied_by_plugin'', JString plugin_id)]))"

definition resource_read_not_found_event ::
  "stamp \<Rightarrow> plugin_context \<Rightarrow> string \<Rightarrow> audit_event" where
  "resource_read_not_found_event st ctx uri =
     (let safe_uri = sanitize_resource_segment uri 1024 in
      event_of st (cx_identity ctx) ''mcpg.resource.read.not_found''
       (Some (''resource://'' @ safe_uri)) Failure (Some (cx_request_id ctx))
       (json_obj [(''surface'', JString (cx_surface ctx)), (''transport'', JString (cx_transport ctx)),
         (''reason'', JString ''resource_not_registered'')]))"

definition prompt_get_success_event ::
  "stamp \<Rightarrow> plugin_context \<Rightarrow> string \<Rightarrow> audit_event" where
  "prompt_get_success_event st ctx prompt_name =
     (let safe_name = sanitize_resource_segment prompt_name 256 in
      event_of st (cx_identity ctx) ''mcpg.prompt.get.success''
       (Some (''prompt://'' @ safe_name)) Success (Some (cx_request_id ctx))
       (json_obj [(''surface'', JString (cx_surface ctx)), (''transport'', JString (cx_transport ctx))]))"

definition prompt_get_denied_event ::
  "stamp \<Rightarrow> plugin_context \<Rightarrow> string \<Rightarrow> string \<Rightarrow> audit_event" where
  "prompt_get_denied_event st ctx prompt_name plugin_id =
     (let safe_name = sanitize_resource_segment prompt_name 256 in
      event_of st (cx_identity ctx) ''mcpg.prompt.get.denied''
       (Some (''prompt://'' @ safe_name)) Denied (Some (cx_request_id ctx))
       (json_obj [(''surface'', JString (cx_surface ctx)), (''transport'', JString (cx_transport ctx)),
         (''denied_by_plugin'', JString plugin_id)]))"

definition list_call_event ::
  "stamp \<Rightarrow> identity \<Rightarrow> string \<Rightarrow> string option \<Rightarrow> string \<Rightarrow> nat \<Rightarrow> string \<Rightarrow> audit_event" where
  "list_call_event st actor request_id session_id kind cnt transport =
     event_of st actor (''mcpg.'' @ kind @ ''.list'')
       (Some (''catalog://'' @ kind)) Success (Some request_id)
       (json_obj [(''kind'', JString kind), (''count'', JNumber (int cnt)), (''session_id'', json_opt_str session_id),
         (''transport'', JString transport)])"

definition apps_offered_event ::
  "stamp \<Rightarrow> identity \<Rightarrow> string \<Rightarrow> string option \<Rightarrow> string \<Rightarrow> json \<Rightarrow> audit_event" where
  "apps_offered_event st actor request_id session_id transport apps =
     event_of st actor ''mcpg.apps.offered''
       (Some ''catalog://tool'') Success (Some request_id)
       (json_obj [(''apps'', apps), (''session_id'', json_opt_str session_id), (''transport'', JString transport)])"

definition resource_subscribe_event ::
  "stamp \<Rightarrow> plugin_context \<Rightarrow> string \<Rightarrow> audit_event" where
  "resource_subscribe_event st ctx uri =
     (let safe_uri = sanitize_resource_segment uri 1024 in
      event_of st (cx_identity ctx) ''mcpg.resource.subscribe''
       (Some (''resource://'' @ safe_uri)) Success (Some (cx_request_id ctx))
       (json_obj [(''uri'', JString safe_uri), (''transport'', JString (cx_transport ctx))]))"

definition resource_unsubscribe_event ::
  "stamp \<Rightarrow> plugin_context \<Rightarrow> string \<Rightarrow> bool \<Rightarrow> audit_event" where
  "resource_unsubscribe_event st ctx uri was_subscribed =
     (let safe_uri = sanitize_resource_segment uri 1024 in
      event_of st (cx_identity ctx) ''mcpg.resource.unsubscribe''
       (Some (''resource://'' @ safe_uri)) Success (Some (cx_request_id ctx))
       (json_obj [(''uri'', JString safe_uri), (''was_subscribed'', JBool was_subscribed),
         (''transport'', JString (cx_transport ctx))]))"

definition elicitation_requested_event ::
  "stamp \<Rightarrow> identity \<Rightarrow> string \<Rightarrow> string option \<Rightarrow> string \<Rightarrow> string \<Rightarrow> string \<Rightarrow> string \<Rightarrow> audit_event" where
  "elicitation_requested_event st actor request_id session_id pipeline_id step_id server_request_id mode =
     event_of st actor ''mcpg.elicitation.requested''
       (Some (''elicitation://'' @ step_id)) Success (Some request_id)
       (json_obj [(''session_id'', json_opt_str session_id), (''pipeline_id'', JString pipeline_id),
         (''step_id'', JString step_id), (''server_request_id'', JString server_request_id), (''mode'', JString mode)])"

definition elicitation_completed_event ::
  "stamp \<Rightarrow> plugin_context \<Rightarrow> string \<Rightarrow> string \<Rightarrow> audit_event" where
  "elicitation_completed_event st ctx elicitation_id user_action =
     event_of st (cx_identity ctx) ''mcpg.elicitation.completed''
       (Some (''elicitation://'' @ elicitation_id)) (if user_action = ''accept'' then Success else
         if user_action = ''decline'' \<or> user_action = ''cancel'' then Denied else Failure) (Some (cx_request_id ctx))
       (json_obj [(''elicitation_id'', JString elicitation_id), (''user_action'', JString user_action),
         (''transport'', JString (cx_transport ctx))])"

definition roots_requested_event ::
  "stamp \<Rightarrow> identity \<Rightarrow> string \<Rightarrow> string option \<Rightarrow> string \<Rightarrow> string \<Rightarrow> string \<Rightarrow> audit_event" where
  "roots_requested_event st actor request_id session_id pipeline_id step_id server_request_id =
     event_of st actor ''mcpg.roots.requested''
       (Some (''roots://'' @ step_id)) Success (Some request_id)
       (json_obj [(''session_id'', json_opt_str session_id), (''pipeline_id'', JString pipeline_id),
         (''step_id'', JString step_id), (''server_request_id'', JString server_request_id)])"

definition completion_requested_event ::
  "stamp \<Rightarrow> plugin_context \<Rightarrow> string \<Rightarrow> string \<Rightarrow> string \<Rightarrow> nat \<Rightarrow> audit_event" where
  "completion_requested_event st ctx ref_kind ref_name argument_name suggestion_count =
     event_of st (cx_identity ctx) ''mcpg.completion.requested''
       (Some (''completion://'' @ ref_kind @ ''/'' @ ref_name)) Success (Some (cx_request_id ctx))
       (json_obj [(''ref_kind'', JString ref_kind), (''ref_name'', JString ref_name),
         (''argument_name'', JString argument_name), (''suggestion_count'', JNumber (int suggestion_count)),
           (''transport'', JString (cx_transport ctx))])"

definition operation_cancelled_event ::
  "stamp \<Rightarrow> plugin_context \<Rightarrow> string \<Rightarrow> string option \<Rightarrow> audit_event" where
  "operation_cancelled_event st ctx cancelled_request_id reason =
     event_of st (cx_identity ctx) ''mcpg.operation.cancelled''
       (Some (''request://'' @ cancelled_request_id)) Success (Some (cx_request_id ctx))
       (json_obj [(''cancelled_request_id'', JString cancelled_request_id), (''reason'', json_opt_str reason),
         (''transport'', JString (cx_transport ctx))])"

definition pipeline_started_event ::
  "stamp \<Rightarrow> identity \<Rightarrow> string \<Rightarrow> string option \<Rightarrow> string \<Rightarrow> string \<Rightarrow> nat \<Rightarrow> audit_event" where
  "pipeline_started_event st actor request_id session_id pipeline_id profile step_count =
     event_of st actor ''mcpg.pipeline.started''
       (Some (''pipeline://'' @ profile)) Success (Some request_id)
       (json_obj [(''pipeline_id'', JString pipeline_id), (''session_id'', json_opt_str session_id),
         (''profile'', JString profile), (''step_count'', JNumber (int step_count))])"

definition pipeline_completed_event ::
  "stamp \<Rightarrow> identity \<Rightarrow> string \<Rightarrow> string option \<Rightarrow> string \<Rightarrow> string \<Rightarrow> bool \<Rightarrow> nat \<Rightarrow> nat \<Rightarrow> string option \<Rightarrow> audit_event" where
  "pipeline_completed_event st actor request_id session_id pipeline_id profile success steps_completed duration_ms error_message =
     event_of st actor (if success then ''mcpg.pipeline.completed'' else ''mcpg.pipeline.failed'')
       (Some (''pipeline://'' @ profile)) (if success then Success else Failure) (Some request_id)
       (json_obj [(''pipeline_id'', JString pipeline_id), (''session_id'', json_opt_str session_id),
         (''profile'', JString profile), (''steps_completed'', JNumber (int steps_completed)),
           (''duration_ms'', JNumber (int duration_ms)), (''error_message'', json_opt_str error_message)])"

definition sampling_requested_event ::
  "stamp \<Rightarrow> identity \<Rightarrow> string \<Rightarrow> string option \<Rightarrow> string \<Rightarrow> string \<Rightarrow> string \<Rightarrow> string \<Rightarrow> nat \<Rightarrow> int \<Rightarrow> string option
    \<Rightarrow> (string option) \<Rightarrow> audit_event" where
  "sampling_requested_event st actor request_id session_id pipeline_id step_id server_request_id prompt_hash message_count max_tokens model_hint include_context =
     event_of st actor ''mcpg.sampling.created''
       (Some (''sampling://'' @ unwrap_or ''any'' model_hint)) Success (Some request_id)
       (json_obj [(''session_id'', json_opt_str session_id), (''pipeline_id'', JString pipeline_id),
         (''step_id'', JString step_id), (''server_request_id'', JString server_request_id),
           (''prompt_hash'', JString prompt_hash), (''message_count'', JNumber (int message_count)),
             (''max_tokens'', JNumber max_tokens), (''model_hint'', json_opt_str model_hint),
               (''include_context'', json_opt_str include_context)])"

definition auth_failed_event ::
  "stamp \<Rightarrow> string \<Rightarrow> string \<Rightarrow> string \<Rightarrow> string \<Rightarrow> audit_event" where
  "auth_failed_event st auth_method reason request_id transport =
     (let safe_reason = sanitize_resource_segment reason 1024 in
      event_of st system_identity ''mcpg.auth.failed''
       None Failure (Some request_id)
       (json_obj [(''auth_method'', JString auth_method), (''reason'', JString safe_reason),
         (''transport'', JString transport)]))"

definition session_opened_event ::
  "stamp \<Rightarrow> identity \<Rightarrow> string \<Rightarrow> string \<Rightarrow> string \<Rightarrow> string \<Rightarrow> string \<Rightarrow> audit_event" where
  "session_opened_event st actor session_id protocol_version client_name client_version transport =
     event_of st actor ''mcpg.session.opened''
       (Some (''session://'' @ session_id)) Success None
       (json_obj [(''session_id'', JString session_id), (''protocol_version'', JString protocol_version),
         (''client_name'', JString client_name), (''client_version'', JString client_version),
           (''transport'', JString transport)])"

definition session_terminated_event ::
  "stamp \<Rightarrow> string \<Rightarrow> json \<Rightarrow> string \<Rightarrow> string option \<Rightarrow> audit_event" where
  "session_terminated_event st session_id duration_secs reason client_name =
     event_of st system_identity ''mcpg.session.terminated''
       (Some (''session://'' @ session_id)) Success None
       (json_obj [(''session_id'', JString session_id), (''duration_secs'', duration_secs), (''reason'', JString reason),
         (''client_name'', json_opt_str client_name)])"

definition prompt_get_not_found_event ::
  "stamp \<Rightarrow> plugin_context \<Rightarrow> string \<Rightarrow> audit_event" where
  "prompt_get_not_found_event st ctx prompt_name =
     (let safe_name = sanitize_resource_segment prompt_name 256 in
      event_of st (cx_identity ctx) ''mcpg.prompt.get.not_found''
       (Some (''prompt://'' @ safe_name)) Failure (Some (cx_request_id ctx))
       (json_obj [(''surface'', JString (cx_surface ctx)), (''transport'', JString (cx_transport ctx)),
         (''reason'', JString ''prompt_not_registered'')]))"

definition admin_event ::
  "stamp \<Rightarrow> identity \<Rightarrow> string \<Rightarrow> string \<Rightarrow> audit_outcome \<Rightarrow> json \<Rightarrow> audit_event" where
  "admin_event st actor action plugin_id outcome details =
     event_of st actor action
       (Some (''plugin://'' @ plugin_id)) outcome None
       details"

definition lifecycle_event ::
  "stamp \<Rightarrow> string \<Rightarrow> audit_outcome \<Rightarrow> json \<Rightarrow> audit_event" where
  "lifecycle_event st action outcome details =
     event_of st system_identity action
       None outcome None
       details"

definition backend_executed_event ::
  "stamp \<Rightarrow> identity \<Rightarrow> string \<Rightarrow> string option \<Rightarrow> string \<Rightarrow> string \<Rightarrow> bool \<Rightarrow> nat \<Rightarrow> nat \<Rightarrow> nat \<Rightarrow> string option \<Rightarrow> json_map
    \<Rightarrow> audit_event" where
  "backend_executed_event st actor request_id session_id kind profile success duration_ms payload_bytes response_bytes error_message extra_details =
     event_of st actor (if success then ''mcpg.backend.executed'' else ''mcpg.backend.failed'')
       (Some (''backend://'' @ kind @ ''/'' @ profile)) (if success then Success else Failure) (Some request_id)
       (JObject (baseline_or_insert extra_details (backend_details kind profile session_id duration_ms payload_bytes response_bytes error_message)))"

definition catalog_filtered_event ::
  "stamp \<Rightarrow> identity \<Rightarrow> string \<Rightarrow> string option \<Rightarrow> string \<Rightarrow> nat \<Rightarrow> nat \<Rightarrow> (string \<times> string) list \<Rightarrow> audit_event" where
  "catalog_filtered_event st actor request_id session_id surface before_count after_count hidden =
     event_of st actor ''mcpg.catalog.filtered''
       (Some (''catalog://'' @ surface)) Success (Some request_id)
       (json_obj [(''surface'', JString surface), (''session_id'', json_opt_str session_id),
         (''before_count'', JNumber (int before_count)), (''after_count'', JNumber (int after_count)),
           (''hidden_count'', JNumber (int (length hidden))), (''hidden'', JArray (map hidden_json hidden))])"

definition watch_fired_event ::
  "stamp \<Rightarrow> string \<Rightarrow> string \<Rightarrow> string option \<Rightarrow> nat \<Rightarrow> audit_event" where
  "watch_fired_event st uri strategy plugin_kind subscriber_count =
     event_of st system_identity ''mcpg.watch.fired''
       (Some (''resource://'' @ uri)) Success None
       (json_obj [(''uri'', JString uri), (''strategy'', JString strategy), (''plugin_kind'', json_opt_str plugin_kind),
         (''subscriber_count'', JNumber (int subscriber_count))])"

definition config_loaded_event ::
  "stamp \<Rightarrow> string \<Rightarrow> string list \<Rightarrow> audit_event" where
  "config_loaded_event st sha256 source_paths =
     event_of st system_identity ''mcpg.config.loaded''
       (Some ''config://gateway'') Success None
       (json_obj [(''config_sha256'', JString sha256), (''source_paths'', JArray (map JString source_paths))])"

definition config_secrets_resolved_event ::
  "stamp \<Rightarrow> json \<Rightarrow> audit_event" where
  "config_secrets_resolved_event st refs =
     event_of st system_identity ''mcpg.config.secrets_resolved''
       (Some ''config://gateway/secrets'') Success None
       (json_obj [(''refs'', refs)])"

definition config_feature_flags_active_event ::
  "stamp \<Rightarrow> json \<Rightarrow> audit_event" where
  "config_feature_flags_active_event st active =
     event_of st system_identity ''mcpg.config.feature_flags_active''
       (Some ''config://gateway/feature_flags'') Success None
       active"

definition config_reloaded_event ::
  "stamp \<Rightarrow> string \<Rightarrow> bool \<Rightarrow> string option \<Rightarrow> (string option) \<Rightarrow> string option \<Rightarrow> audit_event" where
  "config_reloaded_event st source success error prev_sha256 next_sha256 =
     event_of st system_identity ''mcpg.config.reloaded''
       (Some ''config://gateway'') (if success then Success else Failure) None
       (json_obj [(''source'', JString source), (''error'', json_opt_str error),
         (''prev_config_sha256'', json_opt_str prev_sha256), (''next_config_sha256'', json_opt_str next_sha256)])"

definition quota_exceeded_event ::
  "stamp \<Rightarrow> identity \<Rightarrow> string \<Rightarrow> string \<Rightarrow> string \<Rightarrow> string \<Rightarrow> string \<Rightarrow> audit_event" where
  "quota_exceeded_event st actor request_id backend_name policy_id kind reason =
     event_of st actor ''governance.quota.exceeded''
       (Some (''tool://'' @ backend_name)) Failure (Some request_id)
       (json_obj [(''policy_id'', JString policy_id), (''kind'', JString kind), (''reason'', JString reason)])"

definition quota_warn_event ::
  "stamp \<Rightarrow> identity \<Rightarrow> string \<Rightarrow> string \<Rightarrow> string \<Rightarrow> string \<Rightarrow> json \<Rightarrow> json \<Rightarrow> nat \<Rightarrow> audit_event" where
  "quota_warn_event st actor request_id backend_name policy_id measure_name used cap warn_at_pct =
     event_of st actor ''governance.quota.warn''
       (Some (''tool://'' @ backend_name)) Success (Some request_id)
       (json_obj [(''policy_id'', JString policy_id), (''measure'', JString measure_name), (''used'', used), (''cap'', cap),
         (''warn_at_pct'', JNumber (int warn_at_pct))])"

definition approval_requested_event ::
  "stamp \<Rightarrow> identity \<Rightarrow> string \<Rightarrow> string \<Rightarrow> string \<Rightarrow> string \<Rightarrow> string \<Rightarrow> string list \<Rightarrow> audit_event" where
  "approval_requested_event st actor request_id approval_id tool_name summary deadline_at target_notifiers =
     event_of st actor ''mcpg.approval.requested''
       (Some (''approval://'' @ approval_id)) Success (Some request_id)
       (json_obj [(''approval_id'', JString approval_id), (''tool_name'', JString tool_name),
         (''summary'', JString summary), (''deadline_at'', JString deadline_at),
           (''target_notifiers'', JArray (map JString target_notifiers))])"

definition approval_resolved_event ::
  "stamp \<Rightarrow> identity \<Rightarrow> string \<Rightarrow> string \<Rightarrow> string \<Rightarrow> bool \<Rightarrow> string option \<Rightarrow> (string option) \<Rightarrow> audit_event" where
  "approval_resolved_event st actor request_id approval_id tool_name granted approver_subject reason =
     event_of st actor (if granted then ''mcpg.approval.granted'' else ''mcpg.approval.denied'')
       (Some (''approval://'' @ approval_id)) (if granted then Success else Denied) (Some request_id)
       (json_obj [(''approval_id'', JString approval_id), (''tool_name'', JString tool_name),
         (''approver_subject'', json_opt_str approver_subject), (''reason'', json_opt_str reason)])"

definition approval_expired_event ::
  "stamp \<Rightarrow> identity \<Rightarrow> string \<Rightarrow> string \<Rightarrow> string \<Rightarrow> string \<Rightarrow> audit_event" where
  "approval_expired_event st actor request_id approval_id tool_name deadline_at =
     event_of st actor ''mcpg.approval.expired''
       (Some (''approval://'' @ approval_id)) Failure (Some request_id)
       (json_obj [(''approval_id'', JString approval_id), (''tool_name'', JString tool_name),
         (''deadline_at'', JString deadline_at)])"

definition http_route_dispatched_event ::
  "stamp \<Rightarrow> identity option \<Rightarrow> string \<Rightarrow> string \<Rightarrow> string \<Rightarrow> string \<Rightarrow> string \<Rightarrow> nat \<Rightarrow> nat \<Rightarrow> audit_event" where
  "http_route_dispatched_event st actor request_id plugin_id entity_name method path status duration_ms =
     event_of st (unwrap_or system_identity actor) ''mcpg.http_route.dispatched''
       (Some (''http_route://'' @ plugin_id @ ''/'' @ entity_name)) (if 200 \<le> status \<and> status < 400 then Success else
         if 400 \<le> status \<and> status < 500 then Denied else Failure) (Some request_id)
       (json_obj [(''plugin_id'', JString plugin_id), (''entity_name'', JString entity_name),
         (''method'', JString method), (''path'', JString path), (''status'', JNumber (int status)),
           (''duration_ms'', JNumber (int duration_ms))])"

definition cluster_member_event ::
  "stamp \<Rightarrow> string \<Rightarrow> string \<Rightarrow> string option \<Rightarrow> json option \<Rightarrow> audit_event" where
  "cluster_member_event st kind node_id health metadata =
     (event_of st system_identity (if kind = ''joined'' then ''mcpg.cluster.member_joined'' else if kind = ''left''
       then ''mcpg.cluster.member_left''
        else if kind = ''health_changed'' then ''mcpg.cluster.member_health_changed'' else ''mcpg.cluster.member_event'')
       (Some (''node://'' @ node_id)) Success None
       (json_obj [(''kind'', JString kind), (''node_id'', JString node_id), (''health'', json_opt_str health),
         (''metadata'', json_opt metadata)]))\<lparr>ev_node_id := Some node_id\<rparr>"

definition cluster_leader_event ::
  "stamp \<Rightarrow> string \<Rightarrow> string \<Rightarrow> bool \<Rightarrow> string option \<Rightarrow> audit_event" where
  "cluster_leader_event st plugin_id role success error =
     event_of st system_identity (if success then ''mcpg.cluster.leader_changed'' else ''mcpg.cluster.leader_acquire_failed'')
       (Some (''leadership://'' @ role)) (if success then Success else Failure) None
       (json_obj [(''plugin_id'', JString plugin_id), (''role'', JString role), (''error'', json_opt_str error)])"

definition ping_received_event ::
  "stamp \<Rightarrow> identity \<Rightarrow> string \<Rightarrow> string option \<Rightarrow> string \<Rightarrow> audit_event" where
  "ping_received_event st actor request_id session_id transport =
     event_of st actor ''mcpg.ping.received''
       (Some ''system://ping'') Success (Some request_id)
       (json_obj [(''session_id'', json_opt_str session_id), (''transport'', JString transport)])"

definition session_initialized_acked_event ::
  "stamp \<Rightarrow> identity \<Rightarrow> string option \<Rightarrow> string \<Rightarrow> audit_event" where
  "session_initialized_acked_event st actor session_id transport =
     event_of st actor ''mcpg.session.initialized_acked''
       (map_option (\<lambda>s. ''session://'' @ s) session_id) Success None
       (json_obj [(''session_id'', json_opt_str session_id), (''transport'', JString transport)])"

definition progress_notified_event ::
  "stamp \<Rightarrow> identity \<Rightarrow> string \<Rightarrow> string option \<Rightarrow> json \<Rightarrow> json option \<Rightarrow> audit_event" where
  "progress_notified_event st actor progress_token session_id progress_value progress_total =
     event_of st actor ''mcpg.progress.notified''
       (Some (''request://'' @ progress_token)) Success None
       (json_obj [(''progress_token'', JString progress_token), (''session_id'', json_opt_str session_id),
         (''progress'', progress_value), (''total'', json_opt progress_total)])"

definition list_changed_event ::
  "stamp \<Rightarrow> string \<Rightarrow> nat \<Rightarrow> audit_event" where
  "list_changed_event st kind session_count =
     event_of st system_identity ''mcpg.list.changed_broadcast''
       (Some (''catalog://'' @ kind)) Success None
       (json_obj [(''kind'', JString kind), (''session_count'', JNumber (int session_count))])"

definition logging_level_set_event ::
  "stamp \<Rightarrow> identity \<Rightarrow> string \<Rightarrow> string option \<Rightarrow> string \<Rightarrow> audit_event" where
  "logging_level_set_event st actor request_id session_id level =
     event_of st actor ''mcpg.logging.level_set''
       (map_option (\<lambda>s. ''session://'' @ s) session_id) Success (Some request_id)
       (json_obj [(''session_id'', json_opt_str session_id), (''level'', JString level)])"

lemmas client_text_builders = tool_call_unknown_event_def prompt_get_success_event_def prompt_get_denied_event_def
  prompt_get_not_found_event_def resource_read_success_event_def resource_read_denied_event_def resource_read_not_found_event_def
  resource_subscribe_event_def resource_unsubscribe_event_def

section \<open>Cutting at character boundaries\<close>

lemma utf8_head_range:
  "utf8_head c = Some (lo, hi, n) \<Longrightarrow> \<not> is_continuation c \<and> n \<le> 3 \<and> (n = 0 \<or> (0x80 \<le> lo \<and> hi \<le> 0xBF))"
  by (auto simp: utf8_head_def between_def is_continuation_def split: if_splits)

lemma utf8_rest_split:
  "utf8_rest lo hi n s = Some r \<Longrightarrow> n = 0 \<or> (0x80 \<le> lo \<and> hi \<le> 0xBF) \<Longrightarrow>
    \<exists>t. s = t @ r \<and> length t = n \<and> list_all is_continuation t \<and> (\<forall>x. utf8_rest lo hi n (t @ x) = Some x)"
proof (induction lo hi n s rule: utf8_rest.induct)
  case (1 lo hi n c s)
  then have c: "between lo hi c" and "utf8_rest 0x80 0xBF n s = Some r" by (simp_all split: if_splits)
  with 1 obtain t where "s = t @ r" "length t = n" "list_all is_continuation t" "\<forall>x. utf8_rest 0x80 0xBF n (t @ x) = Some x"
    by auto
  moreover from c 1(3) have "is_continuation c" by (auto simp: is_continuation_def between_def)
  ultimately show ?case using c by (intro exI [of _ "c # t"]) auto
qed auto

lemma valid_utf8_Cons:
  assumes "valid_utf8 (c # s)"
  obtains t r where "s = t @ r" and "length t \<le> 3" and "list_all is_continuation t" and "\<not> is_continuation c"
    and "valid_utf8 r" and "\<And>x. valid_utf8 (c # t @ x) = valid_utf8 x"
proof -
  from assms obtain lo hi n r where h: "utf8_head c = Some (lo, hi, n)" and r: "utf8_rest lo hi n s = Some r" and v: "valid_utf8 r"
    by (auto split: option.splits)
  from utf8_head_range [OF h] have hd: "\<not> is_continuation c" "n \<le> 3" "n = 0 \<or> (0x80 \<le> lo \<and> hi \<le> 0xBF)" by simp_all
  from utf8_rest_split [OF r hd(3)] obtain t where t: "s = t @ r" "length t = n" "list_all is_continuation t"
    "\<forall>x. utf8_rest lo hi n (t @ x) = Some x" by blast
  from t(4) h have "valid_utf8 (c # t @ x) = valid_utf8 x" for x by simp
  with t hd v show thesis by (intro that [of t r]) auto
qed

text \<open>A boundary of a valid text is at its start or behind its first character.\<close>

lemma boundary_cases:
  assumes "list_all is_continuation t" and "is_char_boundary (c # t @ r) i" and "i \<le> length (c # t @ r)"
  shows "i = 0 \<or> (\<exists>j \<le> length r. i = Suc (length t + j) \<and> is_char_boundary r j)"
proof (cases "i \<le> length t")
  case True
  have "i = 0"
  proof (rule ccontr)
    assume "i \<noteq> 0"
    with True have "(c # t @ r) ! i = t ! (i - 1)" "i - 1 < length t" by (auto simp: nth_Cons' nth_append)
    with assms(1) have "is_continuation ((c # t @ r) ! i)" by (simp add: list_all_length)
    with assms(2) True \<open>i \<noteq> 0\<close> show False by (auto simp: is_char_boundary_def)
  qed
  then show ?thesis ..
next
  case False
  then obtain j where j: "i = Suc (length t + j)" by (metis add_Suc less_iff_Suc_add not_le_imp_less)
  with assms(2,3) have "j \<le> length r \<and> is_char_boundary r j" by (auto simp: is_char_boundary_def nth_append)
  with j show ?thesis by blast
qed

lemma take_boundary_valid:
  "valid_utf8 s \<Longrightarrow> is_char_boundary s i \<Longrightarrow> i \<le> length s \<Longrightarrow> valid_utf8 (take i s)"
proof (induction "length s" arbitrary: s i rule: less_induct)
  case less
  show ?case
  proof (cases s)
    case (Cons c s')
    with less.prems(1) obtain t r where t: "s' = t @ r" "list_all is_continuation t" "valid_utf8 r"
      "\<And>x. valid_utf8 (c # t @ x) = valid_utf8 x" by (metis valid_utf8_Cons)
    from boundary_cases [OF t(2)] less.prems(2,3) Cons t(1) consider "i = 0"
      | j where "j \<le> length r" "i = Suc (length t + j)" "is_char_boundary r j" by metis
    then show ?thesis
    proof cases
      case 2
      with less.hyps [of r j] t(1,3) Cons have "valid_utf8 (take j r)" by simp
      with 2(2) t Cons show ?thesis by simp
    qed simp
  qed simp
qed

lemma boundary_near:
  "valid_utf8 s \<Longrightarrow> i \<le> length s \<Longrightarrow> \<exists>j \<le> i. i \<le> j + 3 \<and> is_char_boundary s j"
proof (induction "length s" arbitrary: s i rule: less_induct)
  case less
  show ?case
  proof (cases s)
    case (Cons c s')
    with less.prems(1) obtain t r where t: "s' = t @ r" "length t \<le> 3" "valid_utf8 r" by (metis valid_utf8_Cons)
    show ?thesis
    proof (cases "i \<le> length t")
      case True
      with t(2) show ?thesis by (intro exI [of _ 0]) (simp add: is_char_boundary_def)
    next
      case False
      then obtain k where k: "i = Suc (length t + k)" by (metis add_Suc less_iff_Suc_add not_le_imp_less)
      with less.prems(2) Cons t(1) have "k \<le> length r" by simp
      with less.hyps [of r k] t(1,3) Cons obtain j where j: "j \<le> k" "k \<le> j + 3" "is_char_boundary r j" by auto
      have "is_char_boundary s (Suc (length t + j))"
      proof (cases "j = 0 \<and> r \<noteq> []")
        case True
        then obtain d r' where "r = d # r'" by (cases r) auto
        with t(3) True have "\<not> is_continuation (r ! 0)" by (metis nth_Cons_0 valid_utf8_Cons)
        with True show ?thesis by (simp add: Cons t(1) is_char_boundary_def nth_append)
      next
        case False
        with j(3) show ?thesis by (auto simp: Cons t(1) is_char_boundary_def nth_append)
      qed
      with j k show ?thesis by (intro exI [of _ "Suc (length t + j)"]) simp
    qed
  qed (use less.prems(2) in \<open>simp add: is_char_boundary_def\<close>)
qed

lemma boundary_from_le: "boundary_from s n \<le> n"
  by (induction n) auto

lemma boundary_from_boundary: "is_char_boundary s (boundary_from s n)"
  by (induction n) (auto simp: is_char_boundary_def)

lemma boundary_from_largest: "j \<le> n \<Longrightarrow> is_char_boundary s j \<Longrightarrow> j \<le> boundary_from s n"
  by (induction n) (auto simp: le_Suc_eq)

lemma sanitize_length: "length (sanitize_resource_segment s n) \<le> n"
  using boundary_from_le [of s n] by (simp add: sanitize_resource_segment_def)

lemma sanitize_valid: "valid_utf8 s \<Longrightarrow> valid_utf8 (sanitize_resource_segment s n)"
  using boundary_from_le [of s n] by (simp add: sanitize_resource_segment_def take_boundary_valid boundary_from_boundary)

lemma baseline_or_insert_map: "map_of (baseline_or_insert extra m) k = or_else (map_of m k) (map_of extra k)"
  unfolding baseline_or_insert_def
  by (induction extra arbitrary: m) (auto simp: or_else_def split: option.splits)

section \<open>Properties\<close>

text \<open>
  Text that a client chose is kept short in the audit trail without being mangled: for a valid UTF-8 text the cap keeps
  a beginning of it that is valid UTF-8, has at most the allowed number of bytes, is the whole text if that
  fits, and otherwise loses at most three bytes to the boundary. So the resource of every event about an unknown
  tool, a resource or a prompt, and the reason of a failed authentication, are bounded whatever was sent.
\<close>

theorem audit_text_is_bounded:
  assumes "valid_utf8 s"
  defines "kept_text \<equiv> sanitize_resource_segment s"
  shows "prefix (kept_text n) s \<and> valid_utf8 (kept_text n) \<and> length (kept_text n) \<le> n \<and> (length s \<le> n \<longrightarrow> kept_text n = s)
      \<and> (n < length s \<longrightarrow> n \<le> length (kept_text n) + 3)
    \<and> (\<forall>e \<in> {tool_call_unknown_event st (ctx\<lparr>cx_tool_name := s\<rparr>), prompt_get_success_event st ctx s, prompt_get_denied_event st ctx s p,
            prompt_get_not_found_event st ctx s, resource_read_success_event st ctx s b, resource_read_denied_event st ctx s p,
            resource_read_not_found_event st ctx s, resource_subscribe_event st ctx s, resource_unsubscribe_event st ctx s u}.
         \<exists>r. ev_resource e = Some r \<and> length r \<le> 1035)
    \<and> json_get (ev_details (auth_failed_event st m s q tr)) ''reason'' = Some (JString (kept_text 1024))"
proof -
  have "prefix (kept_text n) s" by (simp add: kept_text_def sanitize_resource_segment_def take_is_prefix)
  moreover have "valid_utf8 (kept_text n)" unfolding kept_text_def using assms(1) by (rule sanitize_valid)
  moreover have "length (kept_text n) \<le> n" unfolding kept_text_def by (rule sanitize_length)
  moreover have "length s \<le> n \<longrightarrow> kept_text n = s" by (simp add: kept_text_def sanitize_resource_segment_def)
  moreover have "n \<le> length (kept_text n) + 3" if "n < length s"
  proof -
    from boundary_near [OF assms(1), of n] that obtain j where "j \<le> n" "n \<le> j + 3" "is_char_boundary s j" by auto
    with boundary_from_largest [of j n s] boundary_from_le [of s n] that show ?thesis
      by (simp add: kept_text_def sanitize_resource_segment_def)
  qed
  moreover have "\<forall>e \<in> {tool_call_unknown_event st (ctx\<lparr>cx_tool_name := s\<rparr>), prompt_get_success_event st ctx s, prompt_get_denied_event st ctx s p,
            prompt_get_not_found_event st ctx s, resource_read_success_event st ctx s b, resource_read_denied_event st ctx s p,
            resource_read_not_found_event st ctx s, resource_subscribe_event st ctx s, resource_unsubscribe_event st ctx s u}.
         \<exists>r. ev_resource e = Some r \<and> length r \<le> 1035"
    using sanitize_length [of s 256] sanitize_length [of s 1024]
    by (simp add: client_text_builders event_of_def Let_def)
  moreover have "json_get (ev_details (auth_failed_event st m s q tr)) ''reason'' = Some (JString (kept_text 1024))"
    by (simp add: auth_failed_event_def event_of_def Let_def json_obj_def kept_text_def)
  ultimately show ?thesis by blast
qed

text \<open>
  A backend cannot rewrite its own audit record: whatever details it adds, the seven fields the gateway fills in keep
  their values, as do action, outcome, resource and actor; a key of its own appears with the value it gave first.
\<close>

theorem backend_cannot_override_audit_fields:
  fixes st :: stamp and actor :: identity and request_id kind profile :: string and session_id err :: "string option"
    and success :: bool and d p r :: nat
  defines "e \<equiv> \<lambda>extra. backend_executed_event st actor request_id session_id kind profile success d p r err extra"
    and "own \<equiv> {''kind'', ''profile'', ''session_id'', ''duration_ms'', ''payload_bytes'', ''response_bytes'', ''error_message''}"
  shows "json_get (ev_details (e extra)) k = (if k \<in> own then json_get (ev_details (e [])) k else map_of extra k)
    \<and> (k \<in> own \<longleftrightarrow> json_get (ev_details (e [])) k \<noteq> None)
    \<and> (e extra)\<lparr>ev_details := x\<rparr> = (e [])\<lparr>ev_details := x\<rparr>"
proof -
  let ?m = "backend_details kind profile session_id d p r err"
  have m: "map_of ?m k \<noteq> None \<longleftrightarrow> k \<in> own" by (auto simp: backend_details_def own_def)
  have g: "json_get (ev_details (e extra)) k = or_else (map_of ?m k) (map_of extra k)" for extra
    by (simp add: e_def backend_executed_event_def event_of_def baseline_or_insert_map)
  from m g [of extra] g [of "[]"] show ?thesis
    by (auto simp: or_else_def e_def backend_executed_event_def event_of_def split: option.splits)
qed

section \<open>Witnesses\<close>

theorem audit_text_is_bounded_witness:
  "length (sanitize_resource_segment (replicate 300 (CHR ''a'')) 256) \<ge> 253"
proof -
  have "valid_utf8 (replicate 300 (CHR ''a''))" by (rule valid_utf8_ascii) (simp add: list_all_iff between_def)
  from audit_text_is_bounded [OF this, of 256] show ?thesis by simp
qed

end
