(* ===== verification/Credential_Cache.thy ===== *)
theory Credential_Cache
  imports Samples "HOL-Library.Product_Lexorder"
begin

text \<open>
  The in-process credential cache (\<open>credential_cache.rs\<close>): its entries, its revocation subscribers and
  every operation on them. Instants and durations are milliseconds. The hash of an identity over the
  configured attributes is the protocol crate's and a parameter. A subscriber's callback is the
  notification it receives: the operations that revoke return the notifications in the order they fire.

  The lock is taken per operation, and \<open>get_or_issue\<close> releases it while the issuer runs; so it is two
  operations here, \<open>cache_lookup\<close> and \<open>cache_insert\<close>, and \<open>get_or_issue\<close> composes them for a caller that is
  alone. The clock is read before the lock is taken: an operation may carry an older instant than the ones
  before it.
\<close>

section \<open>State\<close>

record issued_credential =
  cd_value :: "string option"
  cd_parts :: "(string, string) bmap"
  cd_ttl_seconds :: nat
  cd_lease_id :: "string option"

text \<open>Identity hash, plugin id, target: compared in this order.\<close>

type_synonym cache_key = "string \<times> string \<times> string"

record cached_entry =
  ce_credential :: issued_credential
  ce_expires_at :: nat
  ce_last_access :: nat

record cache_config =
  cc_max_entries :: nat
  cc_max_cache_ttl :: nat
  cc_key_attributes :: "string list"

definition default_cache_config :: cache_config where
  "default_cache_config = \<lparr>cc_max_entries = 10000, cc_max_cache_ttl = 3600000, cc_key_attributes = []\<rparr>"

record credential_cache =
  ca_entries :: "(cache_key, cached_entry) bmap"
  ca_subscribers :: "64 word list"
  ca_next_subscriber :: "64 word"

definition cache_new :: credential_cache where
  "cache_new = \<lparr>ca_entries = [], ca_subscribers = [], ca_next_subscriber = 0\<rparr>"

type_synonym revocation = "64 word \<times> string \<times> string"

section \<open>Subscribers\<close>

definition on_revoked :: "credential_cache \<Rightarrow> 64 word \<times> credential_cache" where
  "on_revoked c = (let i = ca_next_subscriber c
     in (i, c\<lparr>ca_next_subscriber := i + 1, ca_subscribers := ca_subscribers c @ [i]\<rparr>))"

definition unsubscribe :: "64 word \<Rightarrow> credential_cache \<Rightarrow> credential_cache" where
  "unsubscribe i c = c\<lparr>ca_subscribers := filter (\<lambda>s. s \<noteq> i) (ca_subscribers c)\<rparr>"

definition notify_revoked :: "64 word list \<Rightarrow> string \<Rightarrow> string \<Rightarrow> revocation list" where
  "notify_revoked subs plugin_id tgt = map (\<lambda>s. (s, plugin_id, tgt)) subs"

section \<open>Lookup and insertion\<close>

definition cache_lookup :: "cache_key \<Rightarrow> nat \<Rightarrow> credential_cache \<Rightarrow> issued_credential option \<times> credential_cache" where
  "cache_lookup k now c =
     (case map_of (ca_entries c) k of
        None \<Rightarrow> (None, c)
      | Some e \<Rightarrow>
         if ce_expires_at e \<le> now then (None, c\<lparr>ca_entries := AList.delete k (ca_entries c)\<rparr>)
         else (Some (ce_credential e), c\<lparr>ca_entries := bt_insert k (e\<lparr>ce_last_access := now\<rparr>) (ca_entries c)\<rparr>))"

text \<open>\<open>min_by_key\<close>: the first of the entries that were accessed longest ago.\<close>

fun lru_key :: "(cache_key, cached_entry) bmap \<Rightarrow> cache_key option" where
  "lru_key [] = None"
| "lru_key ((k, e) # m) =
     (case lru_key m of
        None \<Rightarrow> Some k
      | Some k' \<Rightarrow> (case map_of m k' of
            None \<Rightarrow> Some k
          | Some e' \<Rightarrow> if ce_last_access e' < ce_last_access e then Some k' else Some k))"

lemma lru_key_mem: "lru_key m = Some k \<Longrightarrow> k \<in> fst ` set m"
  by (induction m arbitrary: k rule: lru_key.induct) (auto split: option.splits if_splits dest: map_of_SomeD)

lemma length_delete_less: "k \<in> fst ` set m \<Longrightarrow> length (AList.delete k m) < length m"
proof (induction m)
  case (Cons p m)
  then show ?case using length_delete_le [of k m] by (cases "fst p = k") auto
qed simp

function evict :: "nat \<Rightarrow> (cache_key, cached_entry) bmap \<Rightarrow> (cache_key, cached_entry) bmap" where
  "evict max_entries m =
     (if max_entries \<le> length m then
        (case lru_key m of
           Some k \<Rightarrow> evict max_entries (AList.delete k m)
         | None \<Rightarrow> m)
      else m)"
  by pat_completeness auto
termination
  by (relation "measure (\<lambda>(n, m). length m)") (auto intro!: length_delete_less lru_key_mem)

declare evict.simps [simp del]

definition cache_insert :: "cache_config \<Rightarrow> cache_key \<Rightarrow> issued_credential \<Rightarrow> nat \<Rightarrow> credential_cache \<Rightarrow> credential_cache" where
  "cache_insert cfg k cred now c =
     (let ttl = min (1000 * cd_ttl_seconds cred) (cc_max_cache_ttl cfg);
          entry = \<lparr>ce_credential = cred, ce_expires_at = now + ttl, ce_last_access = now\<rparr>
      in c\<lparr>ca_entries := bt_insert k entry (evict (cc_max_entries cfg) (ca_entries c))\<rparr>)"

section \<open>Operations\<close>

type_synonym id_hash = "identity \<Rightarrow> string list \<Rightarrow> string"

definition cache_key_of :: "id_hash \<Rightarrow> cache_config \<Rightarrow> identity \<Rightarrow> string \<Rightarrow> string \<Rightarrow> cache_key" where
  "cache_key_of h cfg i plugin_id tgt = (h i (cc_key_attributes cfg), plugin_id, tgt)"

definition try_get ::
  "id_hash \<Rightarrow> cache_config \<Rightarrow> identity \<Rightarrow> string \<Rightarrow> string \<Rightarrow> nat \<Rightarrow> credential_cache \<Rightarrow> issued_credential option \<times> credential_cache" where
  "try_get h cfg i plugin_id tgt now c = cache_lookup (cache_key_of h cfg i plugin_id tgt) now c"

definition insert_external ::
  "id_hash \<Rightarrow> cache_config \<Rightarrow> identity \<Rightarrow> string \<Rightarrow> string \<Rightarrow> issued_credential \<Rightarrow> nat \<Rightarrow> credential_cache \<Rightarrow> credential_cache" where
  "insert_external h cfg i plugin_id tgt cred now c = cache_insert cfg (cache_key_of h cfg i plugin_id tgt) cred now c"

definition insert_by_hash ::
  "cache_config \<Rightarrow> string \<Rightarrow> string \<Rightarrow> string \<Rightarrow> issued_credential \<Rightarrow> nat \<Rightarrow> credential_cache \<Rightarrow> credential_cache" where
  "insert_by_hash cfg hash plugin_id tgt cred now c = cache_insert cfg (hash, plugin_id, tgt) cred now c"

definition invalidate_by_hash :: "string \<Rightarrow> string \<Rightarrow> string \<Rightarrow> credential_cache \<Rightarrow> revocation list \<times> credential_cache" where
  "invalidate_by_hash hash plugin_id tgt c =
     (notify_revoked (ca_subscribers c) plugin_id tgt,
      c\<lparr>ca_entries := AList.delete (hash, plugin_id, tgt) (ca_entries c)\<rparr>)"

definition invalidate ::
  "id_hash \<Rightarrow> cache_config \<Rightarrow> identity \<Rightarrow> string \<Rightarrow> string \<Rightarrow> credential_cache \<Rightarrow> revocation list \<times> credential_cache" where
  "invalidate h cfg i plugin_id tgt c =
     (notify_revoked (ca_subscribers c) plugin_id tgt,
      c\<lparr>ca_entries := AList.delete (cache_key_of h cfg i plugin_id tgt) (ca_entries c)\<rparr>)"

definition key_plugin :: "cache_key \<Rightarrow> string" where
  "key_plugin k = fst (snd k)"

definition key_target :: "cache_key \<Rightarrow> string" where
  "key_target k = snd (snd k)"

definition invalidate_plugin ::
  "string \<Rightarrow> credential_cache \<Rightarrow> issued_credential list \<times> revocation list \<times> credential_cache" where
  "invalidate_plugin plugin_id c =
     (let hit = filter (\<lambda>(k, e). key_plugin k = plugin_id) (ca_entries c)
      in (map (\<lambda>(k, e). ce_credential e) hit,
          concat (map (\<lambda>(k, e). notify_revoked (ca_subscribers c) plugin_id (key_target k)) hit),
          c\<lparr>ca_entries := filter (\<lambda>(k, e). key_plugin k \<noteq> plugin_id) (ca_entries c)\<rparr>))"

definition cache_len :: "credential_cache \<Rightarrow> nat" where
  "cache_len c = length (ca_entries c)"

text \<open>The instant is read once, before the issuer runs; a failed issuance inserts nothing.\<close>

definition get_or_issue ::
  "id_hash \<Rightarrow> cache_config \<Rightarrow> string \<Rightarrow> (identity \<Rightarrow> string \<Rightarrow> json \<Rightarrow> ('w, 'e + issued_credential) fut)
    \<Rightarrow> identity \<Rightarrow> string \<Rightarrow> json \<Rightarrow> nat \<Rightarrow> credential_cache \<Rightarrow> 'w
    \<Rightarrow> ('e + issued_credential) \<times> credential_cache \<times> 'w" where
  "get_or_issue h cfg plugin_id issue i tgt plugin_cfg now c w =
     (let k = cache_key_of h cfg i plugin_id tgt
      in case cache_lookup k now c of
           (Some cred, c1) \<Rightarrow> (Inr cred, c1, w)
         | (None, c1) \<Rightarrow>
             (case await (issue i tgt plugin_cfg) w of
                (Inl e, w1) \<Rightarrow> (Inl e, c1, w1)
              | (Inr cred, w1) \<Rightarrow> (Inr cred, cache_insert cfg k cred now c1, w1)))"

declare split_paired_All [simp del] split_paired_Ex [simp del]

section \<open>Sorted maps\<close>

definition map_ok :: "('k::linorder, 'v) bmap \<Rightarrow> bool" where
  "map_ok m = (sorted (map fst m) \<and> distinct (map fst m))"

lemma map_ok_insert: "map_ok m \<Longrightarrow> map_ok (bt_insert k v m)"
  unfolding map_ok_def by (rule bt_insert_sorted) simp_all

lemma map_ok_filter: "map_ok m \<Longrightarrow> map_ok (filter P m)"
  by (simp add: map_ok_def sorted_filter distinct_map_filter)

lemma map_ok_delete: "map_ok m \<Longrightarrow> map_ok (AList.delete k m)"
  unfolding AList.delete_eq by (rule map_ok_filter)

lemma length_bt_insert: "length (bt_insert k v m) = (if map_of m k = None then Suc (length m) else length m)"
  if "map_ok m"
  using that
proof (induction m)
  case (Cons p m)
  obtain k' v' where p: "p = (k', v')" by (cases p)
  from Cons.prems have "map_ok m" by (simp add: map_ok_def)
  moreover have "map_of m k = None" if "k < k'"
    using Cons.prems that p by (auto simp: map_ok_def map_of_eq_None_iff)
  ultimately show ?case using Cons.IH p by auto
qed simp

lemma length_delete_present:
  "distinct (map fst m) \<Longrightarrow> k \<in> fst ` set m \<Longrightarrow> Suc (length (AList.delete k m)) = length m"
  by (induction m) auto

section \<open>Eviction\<close>

lemma lru_key_None [simp]: "lru_key m = None \<longleftrightarrow> m = []"
  by (cases m rule: lru_key.cases) (auto split: option.splits)

lemma lru_key_least:
  "distinct (map fst m) \<Longrightarrow> lru_key m = Some k \<Longrightarrow>
    \<exists>e. map_of m k = Some e \<and> (\<forall>e' \<in> snd ` set m. ce_last_access e \<le> ce_last_access e')"
proof (induction m arbitrary: k rule: lru_key.induct)
  case (2 k0 e0 m)
  show ?case
  proof (cases "lru_key m")
    case None
    with "2.prems" show ?thesis by auto
  next
    case (Some k')
    with "2.IH" "2.prems" obtain e' where e': "map_of m k' = Some e'" "\<forall>x \<in> snd ` set m. ce_last_access e' \<le> ce_last_access x"
      by auto
    from e'(1) have "k' \<noteq> k0" using "2.prems"(1) by (force dest: map_of_SomeD)
    with Some e' "2.prems"(2) show ?thesis by (auto split: if_splits)
  qed
qed simp


lemma evict_small: "length m < n \<Longrightarrow> evict n m = m"
  by (subst evict.simps) simp

lemma evict_submap: "map_of (evict n m) k = Some e \<Longrightarrow> map_of m k = Some e"
proof (induction n m rule: evict.induct)
  case (1 n m)
  show ?case
  proof (cases "n \<le> length m \<and> m \<noteq> []")
    case True
    then obtain k' where k': "lru_key m = Some k'" by (cases "lru_key m") auto
    with "1.IH" "1.prems" True have "map_of (AList.delete k' m) k = Some e" by (simp add: evict.simps [of n m])
    then show ?thesis by (simp add: delete_conv' split: if_splits)
  next
    case False
    with "1.prems" show ?thesis by (auto simp: evict.simps [of n m] split: option.splits if_splits)
  qed
qed

lemma evict_ok: "map_ok m \<Longrightarrow> map_ok (evict n m)"
proof (induction n m rule: evict.induct)
  case (1 n m)
  then show ?case by (subst evict.simps) (auto simp: map_ok_delete split: option.splits)
qed

lemma evict_length: "length (evict n m) < max 1 n"
proof (induction n m rule: evict.induct)
  case (1 n m)
  then show ?case by (subst evict.simps) (auto split: option.splits)
qed

text \<open>A full cache gives up exactly one entry, the one accessed longest ago.\<close>

lemma evict_full:
  assumes "distinct (map fst m)" and "length m = n" and "0 < n" and "lru_key m = Some k"
  shows "evict n m = AList.delete k m"
proof -
  have "Suc (length (AList.delete k m)) = n"
    using assms(1,2) lru_key_mem [OF assms(4)] by (simp add: length_delete_present)
  then have "evict n (AList.delete k m) = AList.delete k m" by (intro evict_small) simp
  with assms show ?thesis by (simp add: evict.simps [of n m])
qed

section \<open>Runs\<close>

text \<open>
  The grants are the credentials inserted and not invalidated since, each with its key and the instant of
  its insertion. Steps happen in any order, on behalf of any number of concurrent callers.
\<close>

type_synonym grant = "cache_key \<times> issued_credential \<times> nat"

inductive cache_run :: "cache_config \<Rightarrow> grant list \<Rightarrow> credential_cache \<Rightarrow> bool" for cfg where
  run_new: "cache_run cfg [] cache_new"
| run_lookup: "cache_run cfg gs c \<Longrightarrow> cache_run cfg gs (snd (cache_lookup k now c))"
| run_insert: "cache_run cfg gs c \<Longrightarrow> cache_run cfg (gs @ [(k, cred, now)]) (cache_insert cfg k cred now c)"
| run_invalidate: "cache_run cfg gs c \<Longrightarrow>
    cache_run cfg (filter (\<lambda>g. fst g \<noteq> (hash, p, tgt)) gs) (snd (invalidate_by_hash hash p tgt c))"
| run_invalidate_plugin: "cache_run cfg gs c \<Longrightarrow>
    cache_run cfg (filter (\<lambda>g. key_plugin (fst g) \<noteq> p) gs) (snd (snd (invalidate_plugin p c)))"
| run_subscribe: "cache_run cfg gs c \<Longrightarrow> cache_run cfg gs (snd (on_revoked c))"
| run_unsubscribe: "cache_run cfg gs c \<Longrightarrow> cache_run cfg gs (unsubscribe i c)"

definition entry_of :: "cache_config \<Rightarrow> issued_credential \<Rightarrow> nat \<Rightarrow> nat \<Rightarrow> cached_entry" where
  "entry_of cfg cred t0 access = \<lparr>ce_credential = cred,
     ce_expires_at = t0 + min (1000 * cd_ttl_seconds cred) (cc_max_cache_ttl cfg), ce_last_access = access\<rparr>"

definition granted :: "cache_config \<Rightarrow> grant list \<Rightarrow> cache_key \<Rightarrow> cached_entry \<Rightarrow> bool" where
  "granted cfg gs k e = (\<exists>cred t0 access. (k, cred, t0) \<in> set gs \<and> e = entry_of cfg cred t0 access)"

definition cache_ok :: "cache_config \<Rightarrow> grant list \<Rightarrow> credential_cache \<Rightarrow> bool" where
  "cache_ok cfg gs c =
     (map_ok (ca_entries c) \<and> length (ca_entries c) \<le> max 1 (cc_max_entries cfg)
      \<and> (\<forall>k e. map_of (ca_entries c) k = Some e \<longrightarrow> granted cfg gs k e))"

lemma granted_access: "granted cfg gs k e \<Longrightarrow> granted cfg gs k (e\<lparr>ce_last_access := n\<rparr>)"
  by (auto simp: granted_def entry_of_def)

lemma granted_mono: "granted cfg gs k e \<Longrightarrow> set gs \<subseteq> set gs' \<Longrightarrow> granted cfg gs' k e"
  by (auto simp: granted_def)

lemma granted_filter: "granted cfg gs k e \<Longrightarrow> P k \<Longrightarrow> granted cfg (filter (\<lambda>g. P (fst g)) gs) k e"
  by (force simp: granted_def)

lemma cache_ok_lookup: "cache_ok cfg gs c \<Longrightarrow> cache_ok cfg gs (snd (cache_lookup k now c))"
  using length_delete_le [of k "ca_entries c"]
  by (auto simp: cache_ok_def cache_lookup_def map_ok_insert map_ok_delete length_bt_insert granted_access
      delete_conv' split: option.splits)

lemma cache_ok_insert: "cache_ok cfg gs c \<Longrightarrow> cache_ok cfg (gs @ [(k, cred, now)]) (cache_insert cfg k cred now c)"
  using evict_length [of "cc_max_entries cfg" "ca_entries c"]
  by (auto simp: cache_ok_def cache_insert_def Let_def map_ok_insert evict_ok length_bt_insert less_max_iff_disj
      granted_def entry_of_def split: if_splits dest!: evict_submap)

lemma map_of_filter_key: "map_of (filter (\<lambda>(k, e). P k) m) k = (if P k then map_of m k else None)"
  by (induction m) auto

lemma cache_run_ok: "cache_run cfg gs c \<Longrightarrow> cache_ok cfg gs c"
proof (induction rule: cache_run.induct)
  case run_new
  then show ?case by (simp add: cache_ok_def cache_new_def map_ok_def)
next
  case (run_invalidate gs c hash p tgt)
  then show ?case
    using length_delete_le [of "(hash, p, tgt)" "ca_entries c"]
    by (auto simp: cache_ok_def invalidate_by_hash_def map_ok_delete delete_conv' intro: granted_filter split: if_splits)
next
  case (run_invalidate_plugin gs c p)
  then show ?case
    by (auto simp: cache_ok_def invalidate_plugin_def Let_def map_ok_filter map_of_filter_key
        intro: granted_filter order_trans [OF length_filter_le] split: if_splits)
next
  case (run_lookup gs c k now)
  from run_lookup.IH show ?case by (rule cache_ok_lookup)
next
  case (run_insert gs c k cred now)
  from run_insert.IH show ?case by (rule cache_ok_insert)
qed (simp_all add: cache_ok_def on_revoked_def unsubscribe_def Let_def)


lemma get_or_issue_origin:
  assumes "cache_run cfg gs c" and "get_or_issue h cfg p issue i tgt plugin_cfg now c w = (res, c', w')"
  shows "(\<exists>cred t0. res = Inr cred \<and> w' = w \<and> ((h i (cc_key_attributes cfg), p, tgt), cred, t0) \<in> set gs
      \<and> now < t0 + min (1000 * cd_ttl_seconds cred) (cc_max_cache_ttl cfg))
    \<or> await (issue i tgt plugin_cfg) w = (res, w')"
proof -
  let ?k = "cache_key_of h cfg i p tgt"
  have "granted cfg gs ?k e" if "map_of (ca_entries c) ?k = Some e" for e
    using cache_run_ok [OF assms(1)] that by (simp add: cache_ok_def)
  then show ?thesis
    using assms(2)
    by (force simp: get_or_issue_def cache_lookup_def Let_def granted_def entry_of_def cache_key_of_def
        split: option.splits if_splits prod.splits sum.splits)
qed

text \<open>The cache after a call: at most one grant more, for the same caller and as issued.\<close>

lemma get_or_issue_run:
  assumes "cache_run cfg gs c" and "get_or_issue h cfg p issue i tgt plugin_cfg now c w = (res, c', w')"
  shows "cache_run cfg gs c'
    \<or> (\<exists>cred. await (issue i tgt plugin_cfg) w = (Inr cred, w') \<and> cache_run cfg (gs @ [((h i (cc_key_attributes cfg), p, tgt), cred, now)]) c')"
proof -
  let ?k = "cache_key_of h cfg i p tgt"
  obtain found c1 where l: "cache_lookup ?k now c = (found, c1)" by force
  then have c1: "cache_run cfg gs c1" using run_lookup [OF assms(1), of ?k now] by simp
  show ?thesis
    using assms(2) l c1 run_insert [OF c1, of ?k _ now]
    by (auto simp: get_or_issue_def Let_def cache_key_of_def split: option.splits prod.splits sum.splits)
qed

section \<open>Properties\<close>

text \<open>
  C31. The cache stays bounded and ordered, whatever callers and peers do concurrently: it never holds
  more than \<open>max_entries\<close> entries (one entry when \<open>max_entries\<close> is 0), its keys stay sorted and distinct, and
  each entry expires no later than its insertion plus the operator's cap, whatever lifetime the plugin
  claimed.
\<close>

theorem cache_stays_bounded:
  assumes "cache_run cfg gs c"
  shows "cache_len c \<le> max 1 (cc_max_entries cfg) \<and> map_ok (ca_entries c)
    \<and> (\<forall>k e. map_of (ca_entries c) k = Some e \<longrightarrow>
        (\<exists>t0. (k, ce_credential e, t0) \<in> set gs \<and> ce_expires_at e \<le> t0 + cc_max_cache_ttl cfg
          \<and> ce_expires_at e \<le> t0 + 1000 * cd_ttl_seconds (ce_credential e)))"
  using cache_run_ok [OF assms] by (fastforce simp: cache_ok_def cache_len_def granted_def entry_of_def)

text \<open>
  C19. A caller only ever receives its own current credential from the cache. In every run,
  \<open>get_or_issue\<close> either returns, without calling the issuer, a credential that was inserted for the same
  identity hash, plugin and target, has not been invalidated since and has not outlived its lifetime or
  the operator's cap; or it calls the issuer for this caller and target and returns exactly its answer.
\<close>

theorem cached_credential_is_current_grant:
  assumes "cache_run cfg gs c" and "get_or_issue h cfg p issue i tgt plugin_cfg now c w = (res, c', w')"
  shows "(\<exists>cred t0. res = Inr cred \<and> w' = w \<and> ((h i (cc_key_attributes cfg), p, tgt), cred, t0) \<in> set gs
      \<and> now < t0 + min (1000 * cd_ttl_seconds cred) (cc_max_cache_ttl cfg))
    \<or> await (issue i tgt plugin_cfg) w = (res, w')"
  using assms by (rule get_or_issue_origin)

text \<open>
  An insertion is exact: with room for the entry nothing else changes; a full cache gives up exactly
  one entry, one that was accessed longest ago (even when the key itself was already present); afterwards
  the key holds the new credential, which a lookup returns until its capped lifetime is over and not from
  then on.
\<close>

theorem cache_insert_exact:
  fixes k :: cache_key and cred :: issued_credential and now :: nat
  assumes "map_ok (ca_entries c)" and "cache_len c \<le> cc_max_entries cfg" and "0 < cc_max_entries cfg"
  defines "c' \<equiv> cache_insert cfg k cred now c"
    and "ttl \<equiv> min (1000 * cd_ttl_seconds cred) (cc_max_cache_ttl cfg)"
  shows "(\<exists>dropped. map_of (ca_entries c') =
        ((map_of (ca_entries c)) |` (- dropped))
          (k \<mapsto> \<lparr>ce_credential = cred, ce_expires_at = now + ttl, ce_last_access = now\<rparr>)
      \<and> (if cache_len c < cc_max_entries cfg then dropped = {}
         else \<exists>j e. dropped = {j} \<and> map_of (ca_entries c) j = Some e
           \<and> (\<forall>e' \<in> ran (map_of (ca_entries c)). ce_last_access e \<le> ce_last_access e')))
    \<and> fst (cache_lookup k later c') = (if later < now + ttl then Some cred else None)"
proof -
  let ?m = "ca_entries c"
  have d: "distinct (map fst ?m)" using assms(1) by (simp add: map_ok_def)
  have c': "map_of (ca_entries c') = (map_of (evict (cc_max_entries cfg) ?m))
      (k \<mapsto> \<lparr>ce_credential = cred, ce_expires_at = now + ttl, ce_last_access = now\<rparr>)"
    by (simp add: c'_def cache_insert_def ttl_def Let_def)
  then have look: "fst (cache_lookup k later c') = (if later < now + ttl then Some cred else None)"
    by (simp add: cache_lookup_def)
  show ?thesis
  proof (cases "cache_len c < cc_max_entries cfg")
    case True
    moreover have "map_of ?m |` (- {}) = map_of ?m" by (rule ext) simp
    ultimately have "map_of (ca_entries c') = ((map_of ?m) |` (- {}))
        (k \<mapsto> \<lparr>ce_credential = cred, ce_expires_at = now + ttl, ce_last_access = now\<rparr>)"
      using c' by (simp only: evict_small cache_len_def)
    with True look show ?thesis by (simp only: if_True) blast
  next
    case False
    with assms(2) have n: "length ?m = cc_max_entries cfg" by (simp add: cache_len_def)
    with assms(3) obtain j where j: "lru_key ?m = Some j" by (cases "lru_key ?m") auto
    from lru_key_least [OF d j] obtain e where e: "map_of ?m j = Some e"
      "\<forall>e' \<in> snd ` set ?m. ce_last_access e \<le> ce_last_access e'" by blast
    have "map_of (ca_entries c') = ((map_of ?m) |` (- {j}))
        (k \<mapsto> \<lparr>ce_credential = cred, ce_expires_at = now + ttl, ce_last_access = now\<rparr>)"
      unfolding c' evict_full [OF d n assms(3) j] delete_conv' by (simp add: restrict_complement_singleton_eq)
    with False look e d show ?thesis by (auto simp: ran_distinct)
  qed
qed

section \<open>Witnesses\<close>

definition sample_cred :: "string \<Rightarrow> nat \<Rightarrow> issued_credential" where
  "sample_cred v ttl = \<lparr>cd_value = Some v, cd_parts = [], cd_ttl_seconds = ttl, cd_lease_id = None\<rparr>"

definition sample_cache_config :: cache_config where
  "sample_cache_config = \<lparr>cc_max_entries = 1, cc_max_cache_ttl = 5000, cc_key_attributes = []\<rparr>"

definition sample_cache :: credential_cache where
  "sample_cache = cache_insert sample_cache_config (''user'', ''pg'', ''db'') (sample_cred ''s1'' 60) 100 cache_new"

lemma sample_cache_run:
  "cache_run sample_cache_config [((''user'', ''pg'', ''db''), sample_cred ''s1'' 60, 100)] sample_cache"
  using run_insert [OF run_new, of sample_cache_config "(''user'', ''pg'', ''db'')" "sample_cred ''s1'' 60" 100]
  by (simp add: sample_cache_def)

lemma sample_cache_entries:
  "ca_entries sample_cache = [((''user'', ''pg'', ''db''), entry_of sample_cache_config (sample_cred ''s1'' 60) 100 100)]"
  by (simp add: sample_cache_def cache_insert_def cache_new_def evict.simps sample_cache_config_def entry_of_def Let_def)

theorem cache_stays_bounded_witness: "cache_len sample_cache \<le> 1"
  using cache_stays_bounded [OF sample_cache_run] by (simp add: sample_cache_config_def)

theorem cached_credential_is_current_grant_witness:
  "fst (get_or_issue (\<lambda>i attrs. ''user'') sample_cache_config ''pg'' (\<lambda>i tgt cfg. traced_fut ''issuer'' (Inl ''down''))
      sample_identity ''db'' JNull 400 sample_cache []) = Inr (sample_cred ''s1'' 60)"
  (is "fst ?r = _")
proof -
  obtain res c' w' where r: "?r = (res, c', w')" by (cases "?r")
  have "res = Inr (sample_cred ''s1'' 60)"
    using cached_credential_is_current_grant [OF sample_cache_run r] r
    by (auto simp: get_or_issue_def cache_lookup_def cache_key_of_def sample_cache_entries entry_of_def
        sample_cache_config_def sample_cred_def)
  with r show ?thesis by simp
qed

theorem cache_insert_exact_witness:
  "fst (cache_lookup (''user'', ''pg'', ''db2'') 4000
      (cache_insert sample_cache_config (''user'', ''pg'', ''db2'') (sample_cred ''s2'' 60) 300 sample_cache))
    = Some (sample_cred ''s2'' 60)"
proof -
  have ok: "map_ok (ca_entries sample_cache)" "cache_len sample_cache \<le> cc_max_entries sample_cache_config"
    "0 < cc_max_entries sample_cache_config"
    by (simp_all add: sample_cache_entries map_ok_def cache_len_def sample_cache_config_def)
  show ?thesis
    using cache_insert_exact [OF ok, of "(''user'', ''pg'', ''db2'')" "sample_cred ''s2'' 60" 300 4000]
    by (simp add: sample_cache_config_def sample_cred_def)
qed

end
