(* ===== verification/Event_Cipher.thy ===== *)
theory Event_Cipher
  imports Credential_Cache Bytes
begin

text \<open>
  The authenticated envelope of cluster messages (\<open>credential_cache_cipher.rs\<close>): building a cipher from an
  operator's key, \<open>seal\<close> and \<open>open\<close> with associated data, and the two forms for cache events. The AEAD, base64,
  the JSON form of the envelope and of the events, and the operating system's randomness are other code
  and the fields of \<open>event_crypto\<close>; \<open>crypto_ok\<close> and \<open>crypto_binds\<close> say what is relied on.
\<close>

section \<open>Data\<close>

datatype cache_event =
    CeIssued (ce_hash: string) (ce_plugin: string) (ce_target: string) issued_credential
      (ce_published_by: string) (ce_published_at: nat) (ce_event_id: string)
  | CeRevoked (ce_hash: string) (ce_plugin: string) (ce_target: string)
      (ce_published_by: string) (ce_published_at: nat) (ce_event_id: string)

record envelope =
  ev_v :: "8 word"
  ev_kid :: string
  ev_n :: string
  ev_c :: string

datatype event_cipher_error =
    InvalidKeyLength nat
  | InvalidKeyBase64 string
  | EmptyKid
  | SerialiseEvent string
  | EncryptFailed

datatype decrypt_error =
    NotEnvelope
  | UnsupportedVersion "8 word" "8 word"
  | KidMismatch string string
  | InvalidBase64 string
  | InvalidNonceLength nat
  | AuthFailed
  | InvalidPlaintext string

definition ENVELOPE_VERSION :: "8 word" where
  "ENVELOPE_VERSION = 1"

definition KEY_BYTES :: nat where
  "KEY_BYTES = 32"

definition NONCE_BYTES :: nat where
  "NONCE_BYTES = 24"

record ('w, 'k) event_crypto =
  ec_b64_encode :: "string \<Rightarrow> string"
  ec_b64_decode :: "string \<Rightarrow> (string, string) rresult"
  ec_new_from_slice :: "string \<Rightarrow> 'k option"
  ec_encrypt :: "'k \<Rightarrow> string \<Rightarrow> string \<Rightarrow> string \<Rightarrow> string option"
  ec_decrypt :: "'k \<Rightarrow> string \<Rightarrow> string \<Rightarrow> string \<Rightarrow> string option"
  ec_random :: "'w \<Rightarrow> string \<times> 'w"
  ec_envelope_to_vec :: "envelope \<Rightarrow> (string, string) rresult"
  ec_envelope_from_slice :: "string \<Rightarrow> envelope option"
  ec_event_to_vec :: "cache_event \<Rightarrow> (string, string) rresult"
  ec_event_from_slice :: "string \<Rightarrow> (string, cache_event) rresult"
  ec_json_from_slice :: "string \<Rightarrow> json option"

record 'k event_cipher =
  ci_cipher :: 'k
  ci_kid :: string

section \<open>Messages of the errors\<close>

fun decimal :: "nat \<Rightarrow> string" where
  "decimal n = (if n < 10 then [char_of (48 + n)] else decimal (n div 10) @ [char_of (48 + n mod 10)])"

declare decimal.simps [simp del]

fun event_cipher_message :: "event_cipher_error \<Rightarrow> string" where
  "event_cipher_message (InvalidKeyLength got) =
     ''event cipher: key must decode to '' @ decimal KEY_BYTES @ '' bytes (got '' @ decimal got @ '')''"
| "event_cipher_message (InvalidKeyBase64 e) = ''event cipher: key base64 decode failed: '' @ e"
| "event_cipher_message EmptyKid =
     ''event cipher: kid is empty (operators must label keys for rotation safety)''"
| "event_cipher_message (SerialiseEvent e) = ''event cipher: serialise event before encryption: '' @ e"
| "event_cipher_message EncryptFailed = ''event cipher: encrypt failed (cipher returned error)''"

text \<open>The dash in the key identifier message is the three bytes of U+2014.\<close>

fun decrypt_message :: "decrypt_error \<Rightarrow> string" where
  "decrypt_message NotEnvelope =
     ''event cipher: payload is not an encrypted envelope (likely unencrypted publisher)''"
| "decrypt_message (UnsupportedVersion got supported) =
     ''event cipher: unsupported envelope version '' @ decimal (unat got)
       @ '' (this build supports '' @ decimal (unat supported) @ '')''"
| "decrypt_message (KidMismatch published configured) =
     ''event cipher: kid mismatch '' @ [CHR 0xE2, CHR 0x80, CHR 0x94] @ '' peer published with `'' @ published
       @ ''`, this instance configured for `'' @ configured @ ''`''"
| "decrypt_message (InvalidBase64 e) = ''event cipher: envelope nonce/ciphertext base64 decode failed: '' @ e"
| "decrypt_message (InvalidNonceLength got) =
     ''event cipher: nonce must decode to '' @ decimal NONCE_BYTES @ '' bytes (got '' @ decimal got @ '')''"
| "decrypt_message AuthFailed = ''event cipher: decrypt+authenticate failed (wrong key or tampered ciphertext)''"
| "decrypt_message (InvalidPlaintext e) = ''event cipher: inner event JSON decode failed after decrypt: '' @ e"

section \<open>Operations\<close>

definition from_raw_key ::
  "('w, 'k) event_crypto \<Rightarrow> string \<Rightarrow> string \<Rightarrow> (event_cipher_error, 'k event_cipher) rresult" where
  "from_raw_key ec key_bytes kid =
     (let kid_trimmed = trim_str kid in
      if kid_trimmed = [] then Inl EmptyKid
      else (case ec_new_from_slice ec key_bytes of
              None \<Rightarrow> Inl (InvalidKeyLength (length key_bytes))
            | Some k \<Rightarrow> Inr \<lparr>ci_cipher = k, ci_kid = kid_trimmed\<rparr>))"

definition from_base64_key ::
  "('w, 'k) event_crypto \<Rightarrow> string \<Rightarrow> string \<Rightarrow> (event_cipher_error, 'k event_cipher) rresult" where
  "from_base64_key ec key_b64 kid =
     (let kid_trimmed = trim_str kid in
      if kid_trimmed = [] then Inl EmptyKid
      else (case ec_b64_decode ec (trim_end_matches (CHR ''='') (trim_str key_b64)) of
              Inl e \<Rightarrow> Inl (InvalidKeyBase64 e)
            | Inr raw \<Rightarrow>
                if length raw \<noteq> KEY_BYTES then Inl (InvalidKeyLength (length raw))
                else (case ec_new_from_slice ec raw of
                        None \<Rightarrow> Inl (InvalidKeyLength (length raw))
                      | Some k \<Rightarrow> Inr \<lparr>ci_cipher = k, ci_kid = kid_trimmed\<rparr>)))"

definition seal ::
  "('w, 'k) event_crypto \<Rightarrow> 'k event_cipher \<Rightarrow> string \<Rightarrow> string \<Rightarrow> 'w
    \<Rightarrow> (event_cipher_error, string) rresult \<times> 'w" where
  "seal ec c plaintext aad w =
     (let (nonce, w1) = ec_random ec w
      in (case ec_encrypt ec (ci_cipher c) nonce plaintext aad of
            None \<Rightarrow> Inl EncryptFailed
          | Some ciphertext \<Rightarrow>
              (case ec_envelope_to_vec ec \<lparr>ev_v = ENVELOPE_VERSION, ev_kid = ci_kid c,
                  ev_n = ec_b64_encode ec nonce, ev_c = ec_b64_encode ec ciphertext\<rparr> of
                 Inl e \<Rightarrow> Inl (SerialiseEvent e)
               | Inr bytes \<Rightarrow> Inr bytes), w1))"

definition open_envelope ::
  "('w, 'k) event_crypto \<Rightarrow> 'k event_cipher \<Rightarrow> string \<Rightarrow> string \<Rightarrow> (decrypt_error, string) rresult" where
  "open_envelope ec c raw aad =
     (case ec_envelope_from_slice ec raw of
        None \<Rightarrow> Inl NotEnvelope
      | Some env \<Rightarrow>
         if ev_v env \<noteq> ENVELOPE_VERSION then Inl (UnsupportedVersion (ev_v env) ENVELOPE_VERSION)
         else if ev_kid env \<noteq> ci_kid c then Inl (KidMismatch (ev_kid env) (ci_kid c))
         else (case ec_b64_decode ec (ev_n env) of
                 Inl e \<Rightarrow> Inl (InvalidBase64 e)
               | Inr nonce \<Rightarrow>
                   if length nonce \<noteq> NONCE_BYTES then Inl (InvalidNonceLength (length nonce))
                   else (case ec_b64_decode ec (ev_c env) of
                           Inl e \<Rightarrow> Inl (InvalidBase64 e)
                         | Inr ciphertext \<Rightarrow>
                             (case ec_decrypt ec (ci_cipher c) nonce ciphertext aad of
                                None \<Rightarrow> Inl AuthFailed
                              | Some plaintext \<Rightarrow> Inr plaintext))))"

definition encrypt_event ::
  "('w, 'k) event_crypto \<Rightarrow> 'k event_cipher \<Rightarrow> cache_event \<Rightarrow> 'w \<Rightarrow> (event_cipher_error, string) rresult \<times> 'w" where
  "encrypt_event ec c event w =
     (case ec_event_to_vec ec event of
        Inl e \<Rightarrow> (Inl (SerialiseEvent e), w)
      | Inr plaintext \<Rightarrow> seal ec c plaintext [] w)"

definition decrypt_envelope ::
  "('w, 'k) event_crypto \<Rightarrow> 'k event_cipher \<Rightarrow> string \<Rightarrow> (decrypt_error, cache_event) rresult" where
  "decrypt_envelope ec c raw =
     (case open_envelope ec c raw [] of
        Inl e \<Rightarrow> Inl e
      | Inr plaintext \<Rightarrow> (case ec_event_from_slice ec plaintext of
            Inl e \<Rightarrow> Inl (InvalidPlaintext e)
          | Inr event \<Rightarrow> Inr event))"

definition looks_like_envelope :: "('w, 'k) event_crypto \<Rightarrow> string \<Rightarrow> bool" where
  "looks_like_envelope ec raw =
     (case ec_json_from_slice ec raw of
        Some (JObject obj) \<Rightarrow> list_all (\<lambda>k. map_of obj k \<noteq> None) [''v'', ''kid'', ''n'', ''c'']
      | _ \<Rightarrow> False)"

section \<open>What the other code promises\<close>

text \<open>
  Decoding undoes encoding, and decryption undoes encryption: XChaCha20-Poly1305 is deterministic in key,
  nonce, associated data and message, and decryption recomputes the tag, so it accepts exactly what
  encryption produces. The random buffer has the size of a nonce.
\<close>

definition crypto_ok :: "('w, 'k) event_crypto \<Rightarrow> bool" where
  "crypto_ok ec \<longleftrightarrow>
     (\<forall>x. ec_b64_decode ec (ec_b64_encode ec x) = Inr x)
   \<and> (\<forall>e b. ec_envelope_to_vec ec e = Inr b \<longrightarrow> ec_envelope_from_slice ec b = Some e)
   \<and> (\<forall>e b. ec_event_to_vec ec e = Inr b \<longrightarrow> ec_event_from_slice ec b = Inr e)
   \<and> (\<forall>k n m a x. ec_encrypt ec k n m a = Some x \<longleftrightarrow> ec_decrypt ec k n x a = Some m)
   \<and> (\<forall>w. length (fst (ec_random ec w)) = NONCE_BYTES)"

text \<open>The tag does not collide: one ciphertext is not valid for two pieces of associated data.\<close>

definition crypto_binds :: "('w, 'k) event_crypto \<Rightarrow> bool" where
  "crypto_binds ec \<longleftrightarrow>
     (\<forall>k n m m' a a' x. ec_encrypt ec k n m a = Some x \<longrightarrow> ec_encrypt ec k n m' a' = Some x \<longrightarrow> a = a')"

text \<open>The bytes are an envelope of this cipher that encrypts the plaintext for the associated data.\<close>

definition sealed_for :: "('w, 'k) event_crypto \<Rightarrow> 'k event_cipher \<Rightarrow> string \<Rightarrow> string \<Rightarrow> string \<Rightarrow> bool" where
  "sealed_for ec c aad plaintext raw \<longleftrightarrow>
     (\<exists>nonce x n64 c64. ec_encrypt ec (ci_cipher c) nonce plaintext aad = Some x \<and> length nonce = NONCE_BYTES
        \<and> ec_b64_decode ec n64 = Inr nonce \<and> ec_b64_decode ec c64 = Inr x
        \<and> ec_envelope_from_slice ec raw
          = Some \<lparr>ev_v = ENVELOPE_VERSION, ev_kid = ci_kid c, ev_n = n64, ev_c = c64\<rparr>)"

section \<open>Facts\<close>

lemma seal_sealed: "crypto_ok ec \<Longrightarrow> seal ec c m a w = (Inr raw, w') \<Longrightarrow> sealed_for ec c a m raw"
  unfolding crypto_ok_def sealed_for_def seal_def
  by (auto split: prod.splits option.splits sum.splits) (metis fst_conv)

text \<open>Opening accepts exactly the envelopes of this cipher for this associated data.\<close>

lemma open_exact:
  assumes "crypto_ok ec"
  shows "open_envelope ec c raw a = Inr m \<longleftrightarrow> sealed_for ec c a m raw"
proof
  assume "open_envelope ec c raw a = Inr m"
  then obtain e nonce x where "ec_envelope_from_slice ec raw = Some e" "ev_v e = ENVELOPE_VERSION" "ev_kid e = ci_kid c"
    "ec_b64_decode ec (ev_n e) = Inr nonce" "length nonce = NONCE_BYTES" "ec_b64_decode ec (ev_c e) = Inr x"
    "ec_decrypt ec (ci_cipher c) nonce x a = Some m"
    by (auto simp: open_envelope_def split: option.splits if_splits sum.splits)
  with assms show "sealed_for ec c a m raw"
    unfolding crypto_ok_def sealed_for_def by (cases e) auto
qed (use assms in \<open>auto simp: sealed_for_def open_envelope_def crypto_ok_def\<close>)

lemma seal_open: "crypto_ok ec \<Longrightarrow> seal ec c m a w = (Inr raw, w') \<Longrightarrow> open_envelope ec c raw a = Inr m"
  using seal_sealed open_exact by metis

lemma sealed_binds:
  "crypto_ok ec \<Longrightarrow> crypto_binds ec \<Longrightarrow> sealed_for ec c a m raw \<Longrightarrow> sealed_for ec c a' m' raw \<Longrightarrow> a = a' \<and> m = m'"
  unfolding crypto_ok_def crypto_binds_def sealed_for_def
  by (metis Inr_inject envelope.ext_inject option.inject)

text \<open>Another associated data: the envelope does not authenticate.\<close>

lemma open_elsewhere:
  assumes ok: "crypto_ok ec" "crypto_binds ec" and s: "sealed_for ec c a m raw" and "a' \<noteq> a"
  shows "open_envelope ec c raw a' = Inl AuthFailed"
proof -
  have "open_envelope ec c raw a' \<noteq> Inr m'" for m'
    using sealed_binds [OF ok s] open_exact [OF ok(1)] assms(4) by metis
  moreover from s have "open_envelope ec c raw a' = Inl AuthFailed \<or> (\<exists>m'. open_envelope ec c raw a' = Inr m')"
    by (auto simp: sealed_for_def open_envelope_def split: option.splits)
  ultimately show ?thesis by blast
qed

lemma event_roundtrip:
  "crypto_ok ec \<Longrightarrow> encrypt_event ec c event w = (Inr raw, w') \<Longrightarrow> decrypt_envelope ec c raw = Inr event"
  using seal_open [of ec c _ "[]" w raw w']
  by (auto simp: encrypt_event_def decrypt_envelope_def crypto_ok_def split: sum.splits)

section \<open>A concrete instance\<close>

text \<open>
  Length-prefixed fields instead of JSON, the inputs themselves as the ciphertext, and two events with a
  serialised form.
\<close>

definition field :: "string \<Rightarrow> string" where
  "field s = replicate (length s) (CHR ''1'') @ ''0'' @ s"

definition unfield :: "string \<Rightarrow> string \<times> string" where
  "unfield s = (let n = length (takeWhile (\<lambda>c. c = CHR ''1'') s); r = drop (Suc n) s in (take n r, drop n r))"

lemma unfield_field [simp]: "unfield (field s @ t) = (s, t)"
proof -
  have "takeWhile (\<lambda>c. c = CHR ''1'') (replicate n (CHR ''1'') @ CHR ''0'' # x) = replicate n (CHR ''1'')" for n x
    by (induction n) simp_all
  then show ?thesis by (simp add: unfield_def field_def)
qed

lemma unfield_field_end [simp]: "unfield (field s) = (s, [])"
  using unfield_field [of s "[]"] by simp

lemma field_inject: "field s @ t = field s' @ t' \<longleftrightarrow> s = s' \<and> t = t'"
  by (metis prod.inject unfield_field)

definition sample_crypto :: "cache_event \<Rightarrow> cache_event \<Rightarrow> ('w, string) event_crypto" where
  "sample_crypto e0 e1 =
     (let parse = (\<lambda>raw. case raw of
            b # v # r \<Rightarrow> (let (kid, r1) = unfield r; (n, r2) = unfield r1; (c, r3) = unfield r2
              in if b = CHR ''{'' \<and> r3 = [] then Some \<lparr>ev_v = word_of_nat (of_char v), ev_kid = kid, ev_n = n, ev_c = c\<rparr> else None)
          | _ \<Rightarrow> None)
      in \<lparr>ec_b64_encode = (\<lambda>s. s), ec_b64_decode = Inr,
        ec_new_from_slice = (\<lambda>k. if length k = KEY_BYTES then Some k else None),
        ec_encrypt = (\<lambda>k n m a. Some (field k @ field n @ field a @ m)),
        ec_decrypt = (\<lambda>k n x a. strip_prefix_str x (field k @ field n @ field a)),
        ec_random = (\<lambda>w. (replicate 24 (CHR ''n''), w)),
        ec_envelope_to_vec = (\<lambda>e. Inr (CHR ''{'' # char_of (unat (ev_v e)) # field (ev_kid e) @ field (ev_n e) @ field (ev_c e))),
        ec_envelope_from_slice = parse,
        ec_event_to_vec = (\<lambda>e. if e = e0 then Inr ''0'' else if e = e1 then Inr ''1'' else Inl ''unsupported''),
        ec_event_from_slice = (\<lambda>s. if s = ''0'' then Inr e0 else if s = ''1'' then Inr e1 else Inl ''syntax''),
        ec_json_from_slice = (\<lambda>raw. map_option (\<lambda>e. JObject [(''c'', JString (ev_c e)), (''kid'', JString (ev_kid e)),
          (''n'', JString (ev_n e)), (''v'', JNull)]) (parse raw))\<rparr>)"

lemma sample_crypto_ok: "crypto_ok (sample_crypto e0 e1)"
proof -
  have "unat (v :: 8 word) mod 256 = unat v" for v
  proof -
    have "unat v < 2 ^ LENGTH(8)" by (rule unsigned_less)
    then show ?thesis by simp
  qed
  then show ?thesis
    by (auto simp: crypto_ok_def sample_crypto_def Let_def NONCE_BYTES_def strip_prefix_str_Some split: if_splits)
qed

lemma sample_crypto_binds: "crypto_binds (sample_crypto e0 e1)"
  by (auto simp: crypto_binds_def sample_crypto_def Let_def field_inject)

end
