(* ===== verification/Native_Ffi.thy ===== *)
theory Native_Ffi
  imports Samples Event_Cipher
begin

text \<open>
  Calls into a native plugin (\<open>native_loader.rs\<close>): the budgets of a plugin, the ways a slot of its
  vtable is called (inline, caught, or ferried to a blocking thread under a timeout), the construction of
  an instance, and the lifetime of an instance against the calls that still run in it.

  A slot is plugin code. What calling it does is a record of functions of the world: \<open>fs_inline\<close> is the
  bare call, \<open>fs_caught\<close> the call under \<open>catch_unwind\<close>, and \<open>fs_ferried\<close> the call on a blocking thread under a
  timeout of some milliseconds. A slot is \<open>extern "C"\<close>, so the bare call does not unwind. A handle is an
  address; 0 is the null pointer. The conversions between the types of the binary interface and those of
  the protocol belong to the protocol crate: a slot here takes and returns the converted values. An
  \<open>anyhow::Error\<close> is the list of its messages, the outermost first.
\<close>

type_synonym anyhow = "string list"

definition with_context :: "string \<Rightarrow> (anyhow, 'a) rresult \<Rightarrow> (anyhow, 'a) rresult" where
  "with_context c r = (case r of Inl e \<Rightarrow> Inl (c # e) | Inr a \<Rightarrow> Inr a)"

lemma with_context_simps [simp]:
  "with_context c (Inl e) = Inl (c # e)" "with_context c (Inr a) = Inr a"
  "with_context c r = Inr a \<longleftrightarrow> r = Inr a"
  by (simp_all add: with_context_def split: sum.splits)

definition quoted :: "string \<Rightarrow> string" where
  "quoted s = [CHR 0x27] @ s @ [CHR 0x27]"

section \<open>Budgets\<close>

datatype ffi_slot_class = LifecycleSlot | ControlSlot | DataSlot

record ffi_limits =
  fl_lifecycle_timeout :: nat
  fl_control_timeout :: nat
  fl_data_timeout :: nat
  fl_max_payload_bytes :: nat

fun timeout_for :: "ffi_limits \<Rightarrow> ffi_slot_class \<Rightarrow> nat" where
  "timeout_for l LifecycleSlot = fl_lifecycle_timeout l"
| "timeout_for l ControlSlot = fl_control_timeout l"
| "timeout_for l DataSlot = fl_data_timeout l"

text \<open>A string that crossed the boundary is refused with its length when it is over the cap.\<close>

definition enforce_ffi_payload_cap :: "string \<Rightarrow> nat \<Rightarrow> (nat, unit) rresult" where
  "enforce_ffi_payload_cap rs cap = (if cap < length rs then Inl (length rs) else Inr ())"

section \<open>Slots\<close>

datatype 'a ferried = Joined 'a | JoinError string | Elapsed

record ('w, 'a) ffi_slot =
  fs_inline :: "'w \<Rightarrow> 'a \<times> 'w"
  fs_caught :: "'w \<Rightarrow> 'a option \<times> 'w"
  fs_ferried :: "nat \<Rightarrow> 'w \<Rightarrow> 'a ferried \<times> 'w"

text \<open>A computation that is over at its first poll, under whatever timeout.\<close>

definition ready_fut :: "('w \<Rightarrow> 'a \<times> 'w) \<Rightarrow> ('w, 'a) fut" where
  "ready_fut f = \<lparr>await = f, await_within = (\<lambda>n w. map_prod Some id (f w))\<rparr>"

text \<open>
  \<open>timeout(t, spawn_blocking(slot)).await\<close> with a continuation. Under a shorter timeout of the caller it is
  the caller's that elapses.
\<close>

definition ferry :: "nat \<Rightarrow> ('w, 'a) ffi_slot \<Rightarrow> ('a ferried \<Rightarrow> 'b) \<Rightarrow> ('w, 'b) fut" where
  "ferry t s k =
     \<lparr>await = (\<lambda>w. map_prod k id (fs_ferried s t w)),
      await_within = (\<lambda>n w.
        if t \<le> n then map_prod (\<lambda>r. Some (k r)) id (fs_ferried s t w)
        else (case fs_ferried s n w of
                (Elapsed, w1) \<Rightarrow> (None, w1)
              | (r, w1) \<Rightarrow> (Some (k r), w1)))\<rparr>"

datatype dispatch_fail = Panicked | TimedOut

definition dispatch_tier1 ::
  "bool \<Rightarrow> nat \<Rightarrow> ('w, 'a) ffi_slot \<Rightarrow> (dispatch_fail \<Rightarrow> 'a) \<Rightarrow> ('w, 'a) fut" where
  "dispatch_tier1 inline_fast timeout call_vtable fail =
     (if inline_fast then ready_fut (fs_inline call_vtable)
      else ferry timeout call_vtable
        (\<lambda>r. case r of Joined a \<Rightarrow> a | JoinError e \<Rightarrow> fail Panicked | Elapsed \<Rightarrow> fail TimedOut))"

text \<open>
  A synchronous slot, off the asynchronous worker where the runtime has several: then it is caught and
  ferried, otherwise only caught.
\<close>

definition call_sync_vtable_bounded ::
  "bool \<Rightarrow> nat \<Rightarrow> ('w, 'a) ffi_slot \<Rightarrow> 'a \<Rightarrow> 'w \<Rightarrow> 'a \<times> 'w" where
  "call_sync_vtable_bounded multi_thread data_timeout f on_fail w =
     (if multi_thread then
        (case fs_ferried f data_timeout w of
           (Joined v, w1) \<Rightarrow> (v, w1)
         | (_, w1) \<Rightarrow> (on_fail, w1))
      else (case fs_caught f w of
              (Some v, w1) \<Rightarrow> (v, w1)
            | (None, w1) \<Rightarrow> (on_fail, w1)))"

definition guard_ffi_make :: "('w \<Rightarrow> nat option \<times> 'w) \<Rightarrow> 'w \<Rightarrow> nat \<times> 'w" where
  "guard_ffi_make f w = (case f w of (Some h, w1) \<Rightarrow> (h, w1) | (None, w1) \<Rightarrow> (0, w1))"

definition guard_ffi_rstring :: "('w \<Rightarrow> string option \<times> 'w) \<Rightarrow> 'w \<Rightarrow> string \<times> 'w" where
  "guard_ffi_rstring f w = (case f w of (Some s, w1) \<Rightarrow> (s, w1) | (None, w1) \<Rightarrow> ([], w1))"

definition guard_ffi_drop :: "('w \<Rightarrow> unit option \<times> 'w) \<Rightarrow> 'w \<Rightarrow> 'w" where
  "guard_ffi_drop f w = snd (f w)"

text \<open>The asynchronous \<open>shutdown\<close> of an adapter: a guarded call without a suspension point.\<close>

definition native_shutdown :: "('w \<Rightarrow> unit option \<times> 'w) \<Rightarrow> ('w, unit) fut" where
  "native_shutdown f = ready_fut (\<lambda>w. ((), guard_ffi_drop f w))"

text \<open>A slot that never comes back with an answer: it hangs, or its thread dies.\<close>

definition stuck :: "('w, 'a) ffi_slot \<Rightarrow> bool" where
  "stuck s \<longleftrightarrow> (\<forall>t w a. fst (fs_ferried s t w) \<noteq> Joined a)"

text \<open>Such a slot, and what it would have said inline.\<close>

definition hung_slot :: "'a \<Rightarrow> ('w, 'a) ffi_slot" where
  "hung_slot a = \<lparr>fs_inline = (\<lambda>w. (a, w)), fs_caught = (\<lambda>w. (None, w)), fs_ferried = (\<lambda>t w. (Elapsed, w))\<rparr>"

lemma stuck_hung_slot [simp]: "stuck (hung_slot a)"
  by (simp add: stuck_def hung_slot_def)

lemma ferry_await [simp]: "await (ferry t s k) w = (k (fst (fs_ferried s t w)), snd (fs_ferried s t w))"
  by (simp add: ferry_def map_prod_def split: prod.splits)

lemma stuck_ferry: "stuck s \<Longrightarrow> (\<exists>e. fst (await (ferry t s k) w) = k (JoinError e)) \<or> fst (await (ferry t s k) w) = k Elapsed"
  by (cases "fst (fs_ferried s t w)") (auto simp: stuck_def)

lemma stuck_dispatch: "stuck s \<Longrightarrow> \<exists>f. fst (await (dispatch_tier1 False t s fail) w) = fail f"
  by (cases "fst (fs_ferried s t w)") (auto simp: stuck_def dispatch_tier1_def)

section \<open>Instances\<close>

text \<open>
  The parsers and the serialiser the loader calls: \<open>serde_json::to_string\<close> (\<open>None\<close> when it fails), and the
  decoding of a manifest.
\<close>

record ffi_env =
  fe_to_string :: "json \<Rightarrow> string option"
  fe_manifest :: "string \<Rightarrow> (string, manifest) rresult"

definition to_string_or :: "ffi_env \<Rightarrow> string \<Rightarrow> json \<Rightarrow> string" where
  "to_string_or fe d j = unwrap_or d (fe_to_string fe j)"

record host_ref =
  hr_cluster :: "nat option"
  hr_alias :: string

definition stub_ref :: host_ref where
  "stub_ref = \<lparr>hr_cluster = None, hr_alias = []\<rparr>"

text \<open>The slots that the vtables of all classes have.\<close>

record 'w base_vtable =
  bv_make :: "host_ref \<Rightarrow> string \<Rightarrow> string \<Rightarrow> 'w \<Rightarrow> nat option \<times> 'w"
  bv_manifest_json :: "nat \<Rightarrow> 'w \<Rightarrow> string option \<times> 'w"
  bv_shutdown :: "nat \<Rightarrow> 'w \<Rightarrow> unit option \<times> 'w"
  bv_drop_instance :: "nat \<Rightarrow> 'w \<Rightarrow> unit option \<times> 'w"

definition make_refused :: "string \<Rightarrow> string \<Rightarrow> anyhow" where
  "make_refused kind alias =
     [''native '' @ kind @ '' plugin '' @ quoted alias
      @ '' refused to start: it rejected its `config:` or failed to initialise. The reason is the plugin''
      @ [CHR 0x27] @ ''s '' @ [CHR 0x22] @ ''panicked at'' @ [CHR 0x22]
      @ '' line just above this error in the log. Check that its config is under the `plugins[]` ''
      @ ''entry (or the sink entry that names it) and has every required key.'']"

definition drop_native :: "('w, 'm) base_vtable_scheme \<Rightarrow> nat \<Rightarrow> 'w \<Rightarrow> 'w" where
  "drop_native vt h w = guard_ffi_drop (bv_drop_instance vt h) w"

definition refuse_instance ::
  "('w, 'm) base_vtable_scheme \<Rightarrow> nat \<Rightarrow> anyhow \<Rightarrow> 'w \<Rightarrow> (anyhow, 'a) rresult \<times> 'w" where
  "refuse_instance vt h e w = (Inl e, drop_native vt h w)"

text \<open>
  The part all \<open>from_vtable\<close> constructors share: \<open>make\<close>, \<open>manifest_json\<close> and its decoding; \<open>no_manifest\<close> and
  \<open>bad_manifest\<close> are the messages of the class.
\<close>

definition make_instance ::
  "ffi_env \<Rightarrow> string \<Rightarrow> string \<Rightarrow> string \<Rightarrow> ('w, 'm) base_vtable_scheme \<Rightarrow> nat option \<Rightarrow> json \<Rightarrow> string
    \<Rightarrow> 'w \<Rightarrow> (anyhow, nat \<times> string \<times> manifest) rresult \<times> 'w" where
  "make_instance fe kind no_manifest bad_manifest vt cluster config alias w =
     (let (h, w1) = guard_ffi_make (bv_make vt \<lparr>hr_cluster = cluster, hr_alias = alias\<rparr> (to_string_or fe ''{}'' config) []) w
      in if h = 0 then (Inl (make_refused kind alias), w1)
         else (let (raw, w2) = guard_ffi_rstring (bv_manifest_json vt h) w1
               in if raw = [] then refuse_instance vt h [no_manifest] w2
                  else (case fe_manifest fe raw of
                          Inl e \<Rightarrow> refuse_instance vt h [bad_manifest, e] w2
                        | Inr m \<Rightarrow> (Inr (h, raw, m), w2))))"

text \<open>A further slot of a class that is read at construction; a value that does not decode refuses the instance.\<close>

definition read_slot ::
  "('w, 'm) base_vtable_scheme \<Rightarrow> nat \<Rightarrow> ('w \<Rightarrow> string \<times> 'w) \<Rightarrow> (string \<Rightarrow> (anyhow, 'a) rresult) \<Rightarrow> 'w
    \<Rightarrow> (anyhow, 'a) rresult \<times> 'w" where
  "read_slot vt h f decode w =
     (let (raw, w1) = f w in case decode raw of Inl e \<Rightarrow> refuse_instance vt h e w1 | Inr a \<Rightarrow> (Inr a, w1))"

definition bind_made ::
  "(anyhow, 'a) rresult \<times> 'w \<Rightarrow> ('a \<Rightarrow> 'w \<Rightarrow> (anyhow, 'b) rresult \<times> 'w) \<Rightarrow> (anyhow, 'b) rresult \<times> 'w" where
  "bind_made r k = (case r of (Inl e, w1) \<Rightarrow> (Inl e, w1) | (Inr a, w1) \<Rightarrow> k a w1)"

definition non_empty :: "string \<Rightarrow> string \<Rightarrow> (anyhow, string) rresult" where
  "non_empty msg s = (if s = [] then Inl [msg] else Inr s)"

definition parsed :: "string \<Rightarrow> (string \<Rightarrow> (string, 'a) rresult) \<Rightarrow> string \<Rightarrow> (anyhow, 'a) rresult" where
  "parsed ctx p s = (case p s of Inl e \<Rightarrow> Inl [ctx, e] | Inr a \<Rightarrow> Inr a)"

text \<open>An adapter: the vtable and the handle of its instance, and what its constructor read (\<open>na_extra\<close>).\<close>

record ('vt, 'x) native_adapter =
  na_limits :: ffi_limits
  na_vtable :: 'vt
  na_handle :: nat
  na_manifest :: manifest
  na_alias :: string
  na_inline_fast :: bool
  na_extra :: 'x

definition new_adapter :: "ffi_limits \<Rightarrow> 'vt \<Rightarrow> nat \<Rightarrow> manifest \<Rightarrow> string \<Rightarrow> 'x \<Rightarrow> ('vt, 'x) native_adapter" where
  "new_adapter limits vt h m alias x =
     \<lparr>na_limits = limits, na_vtable = vt, na_handle = h, na_manifest = m, na_alias = alias,
      na_inline_fast = False, na_extra = x\<rparr>"

definition set_inline_fast :: "bool \<Rightarrow> ('vt, 'x) native_adapter \<Rightarrow> ('vt, 'x) native_adapter" where
  "set_inline_fast enabled a = a\<lparr>na_inline_fast := enabled\<rparr>"

definition adapter_drop :: "(('w, 'm) base_vtable_scheme, 'x) native_adapter \<Rightarrow> 'w \<Rightarrow> 'w" where
  "adapter_drop a w = drop_native (na_vtable a) (na_handle a) w"

definition adapter_shutdown :: "(('w, 'm) base_vtable_scheme, 'x) native_adapter \<Rightarrow> ('w, unit) fut" where
  "adapter_shutdown a = native_shutdown (bv_shutdown (na_vtable a) (na_handle a))"

text \<open>A class whose constructor reads nothing but the manifest.\<close>

definition plain_from_vtable ::
  "ffi_env \<Rightarrow> ffi_limits \<Rightarrow> string \<Rightarrow> string \<Rightarrow> string \<Rightarrow> ('w, 'm) base_vtable_scheme \<Rightarrow> nat option \<Rightarrow> json \<Rightarrow> string
    \<Rightarrow> 'w \<Rightarrow> (anyhow, (('w, 'm) base_vtable_scheme, unit) native_adapter) rresult \<times> 'w" where
  "plain_from_vtable fe limits kind no_manifest bad_manifest vt cluster config alias w =
     bind_made (make_instance fe kind no_manifest bad_manifest vt cluster config alias w)
       (\<lambda>(h, raw, m) w1. (Inr (new_adapter limits vt h m alias ()), w1))"

section \<open>No instance is left behind\<close>

text \<open>
  \<open>live w\<close> are the instances that were made and not dropped. The plugin keeps the books: \<open>make\<close> returns a
  new instance or none, \<open>drop_instance\<close> ends one, the other slots leave them alone.
\<close>

definition undisturbed :: "('w \<Rightarrow> nat set) \<Rightarrow> ('w \<Rightarrow> 'a \<times> 'w) \<Rightarrow> bool" where
  "undisturbed live f \<longleftrightarrow> (\<forall>w. live (snd (f w)) = live w)"

definition ledger_ok :: "('w \<Rightarrow> nat set) \<Rightarrow> ('w, 'm) base_vtable_scheme \<Rightarrow> bool" where
  "ledger_ok live vt \<longleftrightarrow>
     (\<forall>r c n w. let (h, w1) = guard_ffi_make (bv_make vt r c n) w
        in if h = 0 then live w1 = live w else h \<notin> live w \<and> live w1 = insert h (live w))
   \<and> (\<forall>h. undisturbed live (bv_manifest_json vt h))
   \<and> (\<forall>h w. live (snd (bv_drop_instance vt h w)) = live w - {h})"

text \<open>What a constructor owes: an instance exactly when it succeeds.\<close>

definition accounted :: "('w \<Rightarrow> nat set) \<Rightarrow> 'w \<Rightarrow> ('a \<Rightarrow> nat) \<Rightarrow> (anyhow, 'a) rresult \<times> 'w \<Rightarrow> bool" where
  "accounted live w handle_of r \<longleftrightarrow>
     (case fst r of Inl e \<Rightarrow> live (snd r) = live w
      | Inr a \<Rightarrow> handle_of a \<noteq> 0 \<and> handle_of a \<notin> live w \<and> live (snd r) = insert (handle_of a) (live w))"

lemma undisturbed_rstring: "undisturbed live f \<Longrightarrow> undisturbed live (guard_ffi_rstring f)"
  by (auto simp: undisturbed_def guard_ffi_rstring_def split: prod.splits option.splits) (metis snd_conv)+

lemma undisturbedD: "undisturbed live f \<Longrightarrow> f w = (a, w1) \<Longrightarrow> live w1 = live w"
  unfolding undisturbed_def by (metis snd_conv)

lemma ledger_drop: "ledger_ok live vt \<Longrightarrow> live (drop_native vt h w) = live w - {h}"
  by (simp add: ledger_ok_def drop_native_def guard_ffi_drop_def)

lemma ledger_manifest: "ledger_ok live vt \<Longrightarrow> guard_ffi_rstring (bv_manifest_json vt h) w = (a, w1) \<Longrightarrow> live w1 = live w"
  by (rule undisturbedD [OF undisturbed_rstring]) (simp_all add: ledger_ok_def)

lemma ledger_make:
  assumes "ledger_ok live vt" and "guard_ffi_make (bv_make vt r c n) w = (h, w1)"
  shows "if h = 0 then live w1 = live w else h \<notin> live w \<and> live w1 = insert h (live w)"
proof -
  from assms(1) have "let (h, w1) = guard_ffi_make (bv_make vt r c n) w
      in if h = 0 then live w1 = live w else h \<notin> live w \<and> live w1 = insert h (live w)"
    unfolding ledger_ok_def by blast
  with assms(2) show ?thesis by (simp only: Let_def prod.case)
qed

lemma make_instance_accounted:
  assumes ok: "ledger_ok live vt"
  shows "accounted live w fst (make_instance fe kind no_manifest bad_manifest vt cluster config alias w)"
proof -
  obtain h w1 where m: "guard_ffi_make (bv_make vt \<lparr>hr_cluster = cluster, hr_alias = alias\<rparr> (to_string_or fe ''{}'' config) []) w = (h, w1)"
    by fastforce
  obtain raw w2 where r: "guard_ffi_rstring (bv_manifest_json vt h) w1 = (raw, w2)" by fastforce
  note made = ledger_make [OF ok m] and read = ledger_manifest [OF ok r]
  have dropped: "live (drop_native vt h w2) = live w" if "h \<noteq> 0"
    using made read that by (simp add: ledger_drop [OF ok])
  consider "h = 0" | "h \<noteq> 0" "raw = []" | e where "h \<noteq> 0" "raw \<noteq> []" "fe_manifest fe raw = Inl e"
    | x where "h \<noteq> 0" "raw \<noteq> []" "fe_manifest fe raw = Inr x" by (cases "fe_manifest fe raw") blast+
  then show ?thesis
  proof cases
    case 1 with m made show ?thesis by (simp add: make_instance_def accounted_def)
  next
    case 2 with m r dropped show ?thesis by (simp add: make_instance_def accounted_def refuse_instance_def)
  next
    case 3 with m r dropped show ?thesis by (simp add: make_instance_def accounted_def refuse_instance_def)
  next
    case 4 with m r made read show ?thesis by (simp add: make_instance_def accounted_def)
  qed
qed

text \<open>A constructor that goes on after \<open>make_instance\<close> with one more guarded reading.\<close>

lemma read_slot_accounted:
  assumes ok: "ledger_ok live vt" and q: "undisturbed live f"
    and h: "h \<noteq> 0" "h \<notin> live w" "live w1 = insert h (live w)"
  shows "accounted live w (\<lambda>_. h) (read_slot vt h f decode w1)"
proof -
  obtain raw w2 where f: "f w1 = (raw, w2)" by fastforce
  note read = undisturbedD [OF q f]
  show ?thesis
  proof (cases "decode raw")
    case (Inl e)
    with f h read show ?thesis by (simp add: read_slot_def accounted_def refuse_instance_def ledger_drop [OF ok])
  next
    case (Inr a)
    with f h read show ?thesis by (simp add: read_slot_def accounted_def)
  qed
qed

lemma accounted_bind:
  assumes "accounted live w f r"
    and "\<And>a w1. f a \<noteq> 0 \<Longrightarrow> f a \<notin> live w \<Longrightarrow> live w1 = insert (f a) (live w) \<Longrightarrow> accounted live w g (k a w1)"
  shows "accounted live w g (bind_made r k)"
proof -
  obtain x w1 where r: "r = (x, w1)" by fastforce
  show ?thesis
  proof (cases x)
    case (Inl e) with assms(1) r show ?thesis by (simp add: accounted_def bind_made_def)
  next
    case (Inr a)
    with assms(1) r have "f a \<noteq> 0" "f a \<notin> live w" "live w1 = insert (f a) (live w)" by (simp_all add: accounted_def)
    then have "accounted live w g (k a w1)" by (rule assms(2))
    with r Inr show ?thesis by (simp add: bind_made_def)
  qed
qed

lemma accounted_Inr: "g a \<noteq> 0 \<Longrightarrow> g a \<notin> live w \<Longrightarrow> live w1 = insert (g a) (live w) \<Longrightarrow> accounted live w g (Inr a, w1)"
  by (simp add: accounted_def)

lemma na_new_adapter [simp]:
  "na_handle (new_adapter limits vt h m alias x) = h" "na_manifest (new_adapter limits vt h m alias x) = m"
  "na_limits (new_adapter limits vt h m alias x) = limits" "na_vtable (new_adapter limits vt h m alias x) = vt"
  "na_inline_fast (new_adapter limits vt h m alias x) = False" "na_extra (new_adapter limits vt h m alias x) = x"
  by (simp_all add: new_adapter_def)

lemma plain_accounted:
  assumes "ledger_ok live vt"
  shows "accounted live w na_handle (plain_from_vtable fe limits kind no_manifest bad_manifest vt cluster config alias w)"
  unfolding plain_from_vtable_def
  by (rule accounted_bind [OF make_instance_accounted [OF assms]]) (auto intro: accounted_Inr)

lemma accounted_read:
  assumes "ledger_ok live vt" and "undisturbed live f" and "h \<noteq> 0" "h \<notin> live w" "live w1 = insert h (live w)"
    and "\<And>a. g (mk a) = h"
  shows "accounted live w g (bind_made (read_slot vt h f decode w1) (\<lambda>a w2. (Inr (mk a), w2)))"
  by (rule accounted_bind [OF read_slot_accounted [OF assms(1-5)]]) (simp add: accounted_def assms(6))

lemma accounted_made:
  assumes "ledger_ok live vt" and "\<And>h. undisturbed live (f h)"
  shows "accounted live w na_handle (bind_made (make_instance fe kind no_manifest bad_manifest vt cluster config alias w)
    (\<lambda>(h, raw, m) w1. bind_made (read_slot vt h (f h) decode w1)
      (\<lambda>x w2. (Inr (new_adapter limits vt h m alias x), w2))))"
proof (rule accounted_bind [OF make_instance_accounted [OF assms(1)]])
  fix a :: "nat \<times> string \<times> manifest" and w1
  assume "fst a \<noteq> 0" "fst a \<notin> live w" "live w1 = insert (fst a) (live w)"
  then show "accounted live w na_handle ((\<lambda>(h, raw, m) w1. bind_made (read_slot vt h (f h) decode w1)
      (\<lambda>x w2. (Inr (new_adapter limits vt h m alias x), w2))) a w1)"
    unfolding case_prod_beta by (intro accounted_read [OF assms]) simp_all
qed

section \<open>Instances and the calls that run in them\<close>

text \<open>
  A call borrows the adapter until its future is over; the closure on the blocking thread only has the raw
  handle (\<open>SendHandle\<close>). When the timeout elapses, or the caller drops the future, the closure goes on
  without a borrow. Dropping the adapter, possible when nothing borrows it, frees the instance.
\<close>

record instance_sys =
  in_alive :: bool
  in_inline :: nat
  in_ferried :: nat
  in_orphans :: nat

datatype instance_event = CallInline | EndInline | CallFerried | EndFerried | Abandon | EndOrphan | DropAdapter

inductive instance_step :: "instance_sys \<Rightarrow> instance_event \<Rightarrow> instance_sys \<Rightarrow> bool" where
  call_inline: "in_alive s \<Longrightarrow> instance_step s CallInline (s\<lparr>in_inline := in_inline s + 1\<rparr>)"
| end_inline: "0 < in_inline s \<Longrightarrow> instance_step s EndInline (s\<lparr>in_inline := in_inline s - 1\<rparr>)"
| call_ferried: "in_alive s \<Longrightarrow> instance_step s CallFerried (s\<lparr>in_ferried := in_ferried s + 1\<rparr>)"
| end_ferried: "0 < in_ferried s \<Longrightarrow> instance_step s EndFerried (s\<lparr>in_ferried := in_ferried s - 1\<rparr>)"
| abandon: "0 < in_ferried s \<Longrightarrow>
    instance_step s Abandon (s\<lparr>in_ferried := in_ferried s - 1, in_orphans := in_orphans s + 1\<rparr>)"
| end_orphan: "0 < in_orphans s \<Longrightarrow> instance_step s EndOrphan (s\<lparr>in_orphans := in_orphans s - 1\<rparr>)"
| drop_adapter: "in_alive s \<Longrightarrow> in_inline s = 0 \<Longrightarrow> in_ferried s = 0 \<Longrightarrow>
    instance_step s DropAdapter (s\<lparr>in_alive := False\<rparr>)"

inductive instance_run :: "instance_event list \<Rightarrow> instance_sys \<Rightarrow> bool" where
  run_start: "instance_run [] \<lparr>in_alive = True, in_inline = 0, in_ferried = 0, in_orphans = 0\<rparr>"
| run_step: "instance_run es s \<Longrightarrow> instance_step s e t \<Longrightarrow> instance_run (es @ [e]) t"

inductive_cases instance_stepE [elim!]: "instance_step s e t"

definition uses_freed :: "instance_sys \<Rightarrow> bool" where
  "uses_freed s \<longleftrightarrow> \<not> in_alive s \<and> 0 < in_inline s + in_ferried s + in_orphans s"

lemma run_borrows: "instance_run es s \<Longrightarrow> in_alive s \<or> in_inline s = 0 \<and> in_ferried s = 0"
  by (induction rule: instance_run.induct) auto

lemma run_orphans: "instance_run es s \<Longrightarrow> Abandon \<notin> set es \<Longrightarrow> in_orphans s = 0"
  by (induction rule: instance_run.induct) auto

lemma run_orphan_count: "instance_run es s \<Longrightarrow> in_orphans s + count_list es EndOrphan = count_list es Abandon"
  by (induction rule: instance_run.induct) auto

lemma run_alive: "instance_run es s \<Longrightarrow> in_alive s \<longleftrightarrow> DropAdapter \<notin> set es"
  by (induction rule: instance_run.induct) auto

section \<open>Properties\<close>

text \<open>
  The contract of \<open>SendHandle\<close>, that the closures which hold a raw handle run to completion before the
  adapter can be dropped, holds of the calls that are awaited and of no other. Code of an instance that has
  been freed is running exactly when the adapter has been dropped while more calls were abandoned (their
  timeout elapsed, or their future was dropped) than have come back since. So it never happens in a run
  without an abandoned call, and one abandoned call that is still running is enough.
\<close>

theorem instance_freed_under_abandoned_call:
  assumes "instance_run es s"
  shows "uses_freed s \<longleftrightarrow> DropAdapter \<in> set es \<and> count_list es EndOrphan < count_list es Abandon"
  using run_borrows [OF assms] run_alive [OF assms] run_orphan_count [OF assms] unfolding uses_freed_def by auto

theorem instance_freed_under_abandoned_call_witness:
  "uses_freed \<lparr>in_alive = False, in_inline = 0, in_ferried = 0, in_orphans = 1\<rparr>"
proof -
  have 1: "instance_run ([] @ [CallFerried]) \<lparr>in_alive = True, in_inline = 0, in_ferried = 1, in_orphans = 0\<rparr>"
    using instance_run.run_step [OF run_start call_ferried] by simp
  have 2: "instance_run (([] @ [CallFerried]) @ [Abandon]) \<lparr>in_alive = True, in_inline = 0, in_ferried = 0, in_orphans = 1\<rparr>"
    using instance_run.run_step [OF 1 abandon] by simp
  have "instance_run ((([] @ [CallFerried]) @ [Abandon]) @ [DropAdapter]) \<lparr>in_alive = False, in_inline = 0, in_ferried = 0, in_orphans = 1\<rparr>"
    using instance_run.run_step [OF 2 drop_adapter] by simp
  from instance_freed_under_abandoned_call [OF this] show ?thesis by simp
qed

end
