(* ===== verification/Native_Streams.thy ===== *)
theory Native_Streams
  imports Native_Ffi "HOL-Library.Sublist"
begin

text \<open>
  Events a native plugin pushes to the host (\<open>native_loader.rs\<close>): the bridge between a callback on a
  plugin thread and a stream on the host side, for strings and for bytes; the bridge of a resource watch,
  which decodes; the installation of a watch, and its end. A channel of \<open>tokio::sync::mpsc\<close> is the list of
  its waiting items with the flag that its receiver is gone. Of a decoder that belongs to the protocol only
  the result is used.
\<close>

section \<open>Bridges\<close>

definition STREAM_BRIDGE_CAPACITY :: nat where
  "STREAM_BRIDGE_CAPACITY = 1024"

definition WATCH_SINK_QUEUE :: nat where
  "WATCH_SINK_QUEUE = 1024"

definition WATCH_EVENT_MAX_BYTES :: nat where
  "WATCH_EVENT_MAX_BYTES = 262144"

text \<open>\<open>try_send\<close> on a bounded channel.\<close>

datatype send_error = ChannelFull | ChannelClosed

record 'a channel =
  ch_items :: "'a list"
  ch_capacity :: nat
  ch_closed :: bool

definition channel_new :: "nat \<Rightarrow> 'a channel" where
  "channel_new n = \<lparr>ch_items = [], ch_capacity = n, ch_closed = False\<rparr>"

definition try_send :: "'a \<Rightarrow> 'a channel \<Rightarrow> (send_error, unit) rresult \<times> 'a channel" where
  "try_send a c =
     (if ch_closed c then (Inl ChannelClosed, c)
      else if length (ch_items c) < ch_capacity c then (Inr (), c\<lparr>ch_items := ch_items c @ [a]\<rparr>)
      else (Inl ChannelFull, c))"

text \<open>\<open>StreamBridge\<close> for strings, \<open>BytesBridge\<close> for chunks of bytes.\<close>

record 'a stream_bridge =
  sb_channel :: "'a channel"
  sb_cancelled :: bool

definition make_stream_bridge :: "'a stream_bridge" where
  "make_stream_bridge = \<lparr>sb_channel = channel_new STREAM_BRIDGE_CAPACITY, sb_cancelled = False\<rparr>"

definition stream_bridge_callback :: "'a \<Rightarrow> 'a stream_bridge \<Rightarrow> 'a stream_bridge" where
  "stream_bridge_callback event b =
     (if sb_cancelled b then b else b\<lparr>sb_channel := snd (try_send event (sb_channel b))\<rparr>)"

text \<open>
  \<open>poll_next\<close> of the streams on the receiving end: items that do not decode are skipped. \<open>Pending\<close> leaves
  an empty channel.
\<close>

datatype 'i poll = Pending | Ready 'i

fun take_decoded :: "('a \<Rightarrow> 'i option) \<Rightarrow> 'a list \<Rightarrow> 'i poll \<times> 'a list" where
  "take_decoded decode [] = (Pending, [])"
| "take_decoded decode (x # xs) = (case decode x of Some i \<Rightarrow> (Ready i, xs) | None \<Rightarrow> take_decoded decode xs)"

definition poll_next :: "('a \<Rightarrow> 'i option) \<Rightarrow> 'a stream_bridge \<Rightarrow> 'i poll \<times> 'a stream_bridge" where
  "poll_next decode b =
     (let (p, rest) = take_decoded decode (ch_items (sb_channel b))
      in (p, b\<lparr>sb_channel := (sb_channel b)\<lparr>ch_items := rest\<rparr>\<rparr>))"

section \<open>The watch bridge\<close>

record 'e sink_bridge =
  kb_queue :: "'e channel"
  kb_cancelled :: bool
  kb_strict :: bool

definition sink_bridge_new :: "bool \<Rightarrow> 'e sink_bridge" where
  "sink_bridge_new strict = \<lparr>kb_queue = channel_new WATCH_SINK_QUEUE, kb_cancelled = False, kb_strict = strict\<rparr>"

text \<open>
  What becomes of one item: oversized ones are not decoded, and a strict bridge drops what it cannot read
  where another one takes the empty event.
\<close>

definition watch_event :: "(string \<Rightarrow> 'e option) \<Rightarrow> 'e \<Rightarrow> bool \<Rightarrow> string \<Rightarrow> 'e option" where
  "watch_event decode empty_event strict event_json =
     (if WATCH_EVENT_MAX_BYTES < length event_json then (if strict then None else Some empty_event)
      else (case decode event_json of
              Some e \<Rightarrow> Some e
            | None \<Rightarrow> if strict then None else Some empty_event))"

definition sink_bridge_callback :: "(string \<Rightarrow> 'e option) \<Rightarrow> 'e \<Rightarrow> string \<Rightarrow> 'e sink_bridge \<Rightarrow> 'e sink_bridge" where
  "sink_bridge_callback decode empty_event event_json b =
     (if kb_cancelled b then b
      else (case watch_event decode empty_event (kb_strict b) event_json of
              None \<Rightarrow> b
            | Some e \<Rightarrow> b\<lparr>kb_queue := snd (try_send e (kb_queue b))\<rparr>))"

text \<open>One round of the task that feeds the sink.\<close>

definition sink_task :: "('e \<Rightarrow> ('w, unit) fut) \<Rightarrow> 'e sink_bridge \<Rightarrow> 'w \<Rightarrow> 'e sink_bridge \<times> 'w" where
  "sink_task emit b w =
     (case ch_items (kb_queue b) of
        [] \<Rightarrow> (b, w)
      | e # es \<Rightarrow> (b\<lparr>kb_queue := (kb_queue b)\<lparr>ch_items := es\<rparr>\<rparr>, snd (await (emit e) w)))"

section \<open>Installation and end of a watch\<close>

record stream_handle =
  sh_handle :: nat
  sh_error_json :: string

text \<open>
  The \<open>watch\<close> methods of stores, secret and config providers: the slot runs on a blocking thread without a
  timeout (\<open>fs_caught\<close>: the join fails when it panicked). The bridge is freed when there is no watch, and
  otherwise belongs to the guard of the stream.
\<close>

record 'a watch_stream =
  wt_handle :: nat
  wt_bridge :: "'a stream_bridge"

definition install_watch ::
  "(string \<Rightarrow> 'e option) \<Rightarrow> 'e \<Rightarrow> 'e \<Rightarrow> ('w, stream_handle) ffi_slot \<Rightarrow> 'w \<Rightarrow> (('e, 'a watch_stream) rresult) \<times> 'w" where
  "install_watch error_of undecodable panicked slot w =
     (case fs_caught slot w of
        (None, w1) \<Rightarrow> (Inl panicked, w1)
      | (Some r, w1) \<Rightarrow>
          (if sh_handle r = 0 then Inl (unwrap_or undecodable (error_of (sh_error_json r)))
           else Inr \<lparr>wt_handle = sh_handle r, wt_bridge = make_stream_bridge\<rparr>, w1))"

text \<open>
  \<open>StreamCancelGuard::drop\<close>: the flag is set before the plugin's cancel slot runs, which may still emit.
\<close>

definition cancel_stream :: "'a list \<Rightarrow> 'a stream_bridge \<Rightarrow> 'a stream_bridge" where
  "cancel_stream emitted_while_cancelling b = fold stream_bridge_callback emitted_while_cancelling (b\<lparr>sb_cancelled := True\<rparr>)"

record 'w watch_vtable = "'w base_vtable" +
  wv_kind :: "nat \<Rightarrow> 'w \<Rightarrow> string option \<times> 'w"
  wv_watch :: "nat \<Rightarrow> string \<Rightarrow> string \<Rightarrow> ('w, stream_handle) ffi_slot"
  wv_acknowledge :: "nat \<Rightarrow> nat \<Rightarrow> string \<Rightarrow> 'w \<Rightarrow> 'w"
  wv_cancel :: "nat \<Rightarrow> nat \<Rightarrow> 'w \<Rightarrow> 'w"

datatype watch_error = WatchSubscribe string | OtherWatchError string

record watch_strategy_descriptor =
  wd_kind :: string
  wd_event_types :: "string list"

text \<open>
  What the watch adapter uses of the protocol: the parser of the compiled-in descriptor, its
  \<open>validate_watch_strategies\<close> and \<open>watch_strategy\<close>, \<open>is_event_source\<close> and the decoder of \<open>WatchError\<close>.
\<close>

record 'd watch_env = ffi_env +
  we_descriptor :: "string \<Rightarrow> (string, 'd) rresult"
  we_validate :: "'d \<Rightarrow> (string, unit) rresult"
  we_watch_strategy :: "'d \<Rightarrow> string \<Rightarrow> watch_strategy_descriptor option"
  we_is_event_source :: "string \<Rightarrow> bool"
  we_error :: "string \<Rightarrow> watch_error option"
  we_multi_thread :: bool

definition watch_strategy_entry ::
  "'d watch_env \<Rightarrow> string \<Rightarrow> string \<Rightarrow> (anyhow, watch_strategy_descriptor option) rresult" where
  "watch_strategy_entry we descriptor_yaml kind =
     (if descriptor_yaml = [] then Inr None
      else (case we_descriptor we descriptor_yaml of
              Inl e \<Rightarrow> Inl [''the plugin'' @ [CHR 0x27] @ ''s compiled-in descriptor does not parse: '' @ e]
            | Inr d \<Rightarrow>
                (case we_validate we d of
                   Inl e \<Rightarrow> Inl [''the plugin'' @ [CHR 0x27] @ ''s compiled-in descriptor: '' @ e]
                 | Inr _ \<Rightarrow> Inr (we_watch_strategy we d kind))))"

definition watch_from_vtable ::
  "'d watch_env \<Rightarrow> ffi_limits \<Rightarrow> string \<Rightarrow> 'w watch_vtable \<Rightarrow> json \<Rightarrow> string
    \<Rightarrow> 'w \<Rightarrow> (anyhow, ('w watch_vtable, string \<times> watch_strategy_descriptor option) native_adapter) rresult \<times> 'w" where
  "watch_from_vtable we limits descriptor_yaml vt config alias w =
     bind_made (make_instance (ffi_env.truncate we) ''watch'' ''native watch plugin returned empty manifest JSON''
         ''invalid manifest from native watch plugin'' vt None config alias w)
       (\<lambda>(h, raw, m) w1.
          bind_made (read_slot vt h (guard_ffi_rstring (wv_kind vt h))
              (\<lambda>kind. try_then (non_empty ''native watch plugin returned empty kind()'' kind)
                 (\<lambda>kind. try_then (watch_strategy_entry we descriptor_yaml kind) (\<lambda>entry. Inr (kind, entry)))) w1)
            (\<lambda>x w2. (Inr (new_adapter limits vt h m alias x), w2)))"

record 'e watch_handle =
  wh_handle :: nat
  wh_bridge :: "'e sink_bridge"

definition native_watch ::
  "'d watch_env \<Rightarrow> ('w watch_vtable, string \<times> watch_strategy_descriptor option) native_adapter \<Rightarrow> string \<Rightarrow> json \<Rightarrow> 'w
    \<Rightarrow> (watch_error, 'e watch_handle) rresult \<times> 'w" where
  "native_watch we a resource_uri spec w =
     (let strict = ((case snd (na_extra a) of Some source \<Rightarrow> wd_event_types source \<noteq> [] | None \<Rightarrow> False)
            \<and> we_is_event_source we resource_uri);
          (r, w1) = call_sync_vtable_bounded (we_multi_thread we) (fl_data_timeout (na_limits a))
            (wv_watch (na_vtable a) (na_handle a) resource_uri (unwrap_or ''{}'' (fe_to_string we spec)))
            \<lparr>sh_handle = 0, sh_error_json = ''native watch plugin panicked or exceeded the host data timeout''\<rparr> w
      in (if sh_handle r = 0 then
            Inl (unwrap_or
              (WatchSubscribe (if sh_error_json r = [] then ''native watch plugin returned null handle'' else sh_error_json r))
              (we_error we (sh_error_json r)))
          else Inr \<lparr>wh_handle = sh_handle r, wh_bridge = sink_bridge_new strict\<rparr>, w1))"

definition watch_cancel :: "('w watch_vtable, 'x) native_adapter \<Rightarrow> 'e watch_handle \<Rightarrow> 'w \<Rightarrow> 'e watch_handle \<times> 'w" where
  "watch_cancel a h w =
     (h\<lparr>wh_bridge := (wh_bridge h)\<lparr>kb_cancelled := True\<rparr>\<rparr>, wv_cancel (na_vtable a) (na_handle a) (wh_handle h) w)"

definition watch_acknowledge ::
  "'d watch_env \<Rightarrow> ('w watch_vtable, 'x) native_adapter \<Rightarrow> json \<Rightarrow> 'e watch_handle \<Rightarrow> 'w \<Rightarrow> 'w" where
  "watch_acknowledge we a position h w =
     (if kb_cancelled (wh_bridge h) then w
      else (case fe_to_string we position of
              None \<Rightarrow> w
            | Some j \<Rightarrow> wv_acknowledge (na_vtable a) (na_handle a) (wh_handle h) j w))"

lemma watch_accounted:
  assumes "ledger_ok live vt" and "\<And>h. undisturbed live (wv_kind vt h)"
  shows "accounted live w na_handle (watch_from_vtable we limits yaml vt config alias w)"
  unfolding watch_from_vtable_def by (rule accounted_made [OF assms(1) undisturbed_rstring [OF assms(2)]])

section \<open>Runs of a stream\<close>

text \<open>
  Everything that can happen to a stream, in the order in which it happens: emissions of the plugin, polls
  of the consumer, and the cancellation. \<open>sr_taken\<close> is what left the channel, \<open>sr_out\<close> what the consumer got.
\<close>

datatype 'a stream_op = Emit 'a | Poll | Cancel

record ('a, 'i) stream_run =
  sr_bridge :: "'a stream_bridge"
  sr_taken :: "'a list"
  sr_out :: "'i list"

definition stream_start :: "('a, 'i) stream_run" where
  "stream_start = \<lparr>sr_bridge = make_stream_bridge, sr_taken = [], sr_out = []\<rparr>"

fun stream_step :: "('a \<Rightarrow> 'i option) \<Rightarrow> 'a stream_op \<Rightarrow> ('a, 'i) stream_run \<Rightarrow> ('a, 'i) stream_run" where
  "stream_step decode (Emit a) s = s\<lparr>sr_bridge := stream_bridge_callback a (sr_bridge s)\<rparr>"
| "stream_step decode Poll s =
     (let (p, b) = poll_next decode (sr_bridge s);
          n = length (ch_items (sb_channel (sr_bridge s))) - length (ch_items (sb_channel b))
      in s\<lparr>sr_bridge := b, sr_taken := sr_taken s @ take n (ch_items (sb_channel (sr_bridge s))),
           sr_out := sr_out s @ (case p of Ready i \<Rightarrow> [i] | Pending \<Rightarrow> [])\<rparr>)"
| "stream_step decode Cancel s = s\<lparr>sr_bridge := cancel_stream [] (sr_bridge s)\<rparr>"

definition run_stream :: "('a \<Rightarrow> 'i option) \<Rightarrow> 'a stream_op list \<Rightarrow> ('a, 'i) stream_run" where
  "run_stream decode ops = fold (stream_step decode) ops stream_start"

text \<open>What the plugin emitted before the first cancellation.\<close>

fun emitted :: "'a stream_op list \<Rightarrow> 'a list" where
  "emitted [] = []"
| "emitted (Emit a # ops) = a # emitted ops"
| "emitted (Poll # ops) = emitted ops"
| "emitted (Cancel # ops) = []"

definition waiting :: "('a, 'i) stream_run \<Rightarrow> 'a list" where
  "waiting s = ch_items (sb_channel (sr_bridge s))"

lemma run_stream_snoc: "run_stream decode (ops @ [p]) = stream_step decode p (run_stream decode ops)"
  by (simp add: run_stream_def)

lemma take_decoded_split:
  "take_decoded decode xs = (p, rest) \<Longrightarrow>
    \<exists>us. xs = us @ rest \<and> List.map_filter decode us = (case p of Ready i \<Rightarrow> [i] | Pending \<Rightarrow> [])"
proof (induction xs)
  case (Cons x xs)
  show ?case
  proof (cases "decode x")
    case None
    with Cons.prems obtain us where "xs = us @ rest" "List.map_filter decode us = (case p of Ready i \<Rightarrow> [i] | Pending \<Rightarrow> [])"
      using Cons.IH by auto
    with None show ?thesis by (intro exI [of _ "x # us"]) (simp add: List.map_filter_simps)
  next
    case (Some i)
    with Cons.prems show ?thesis by (intro exI [of _ "[x]"]) (auto simp: List.map_filter_simps)
  qed
qed (simp add: List.map_filter_simps)

definition stream_ok :: "('a \<Rightarrow> 'i option) \<Rightarrow> 'a stream_op list \<Rightarrow> ('a, 'i) stream_run \<Rightarrow> bool" where
  "stream_ok decode ops s \<longleftrightarrow>
     ch_capacity (sb_channel (sr_bridge s)) = STREAM_BRIDGE_CAPACITY \<and> \<not> ch_closed (sb_channel (sr_bridge s))
   \<and> length (waiting s) \<le> STREAM_BRIDGE_CAPACITY
   \<and> (sb_cancelled (sr_bridge s) \<longleftrightarrow> Cancel \<in> set ops)
   \<and> sr_out s = List.map_filter decode (sr_taken s)
   \<and> subseq (sr_taken s @ waiting s) (emitted ops)"

lemma emitted_snoc [simp]:
  "emitted (ops @ [Emit a]) = (if Cancel \<in> set ops then emitted ops else emitted ops @ [a])"
  "emitted (ops @ [Poll]) = emitted ops" "emitted (ops @ [Cancel]) = emitted ops"
  by (induction ops rule: emitted.induct) auto

lemma map_filter_append: "List.map_filter f (xs @ ys) = List.map_filter f xs @ List.map_filter f ys"
  by (simp add: List.map_filter_def)

lemma stream_step_Poll:
  "\<exists>us rest. waiting s = us @ rest \<and> stream_step decode Poll s =
     \<lparr>sr_bridge = (sr_bridge s)\<lparr>sb_channel := (sb_channel (sr_bridge s))\<lparr>ch_items := rest\<rparr>\<rparr>,
      sr_taken = sr_taken s @ us, sr_out = sr_out s @ List.map_filter decode us\<rparr>"
proof -
  obtain p rest where t: "take_decoded decode (waiting s) = (p, rest)" by fastforce
  from take_decoded_split [OF this] obtain us where us: "waiting s = us @ rest"
    "List.map_filter decode us = (case p of Ready i \<Rightarrow> [i] | Pending \<Rightarrow> [])" by blast
  with t show ?thesis
    by (intro exI [of _ us] exI [of _ rest]) (simp add: poll_next_def waiting_def)
qed

lemma emit_appends:
  "\<not> sb_cancelled (sr_bridge s) \<Longrightarrow> \<not> ch_closed (sb_channel (sr_bridge s)) \<Longrightarrow>
    waiting (stream_step decode (Emit a) s) =
      (if length (waiting s) < ch_capacity (sb_channel (sr_bridge s)) then waiting s @ [a] else waiting s)"
  by (simp add: stream_bridge_callback_def try_send_def waiting_def)

lemma stream_step_ok:
  assumes ok: "stream_ok decode ops s"
  shows "stream_ok decode (ops @ [p]) (stream_step decode p s)"
proof (cases p)
  case (Emit a)
  let ?t = "stream_step decode (Emit a) s"
  have same: "sr_taken ?t = sr_taken s" "sr_out ?t = sr_out s" "ch_capacity (sb_channel (sr_bridge ?t)) = ch_capacity (sb_channel (sr_bridge s))"
    "ch_closed (sb_channel (sr_bridge ?t)) = ch_closed (sb_channel (sr_bridge s))" "sb_cancelled (sr_bridge ?t) = sb_cancelled (sr_bridge s)"
    by (simp_all add: stream_bridge_callback_def try_send_def)
  show ?thesis
  proof (cases "Cancel \<in> set ops")
    case True
    with ok have "waiting ?t = waiting s" by (simp add: stream_ok_def stream_bridge_callback_def waiting_def)
    with ok True same Emit show ?thesis by (simp add: stream_ok_def)
  next
    case False
    with ok emit_appends [of s decode a] have w: "waiting ?t =
        (if length (waiting s) < STREAM_BRIDGE_CAPACITY then waiting s @ [a] else waiting s)" by (simp add: stream_ok_def)
    have "subseq (sr_taken s @ waiting s @ [a]) (emitted ops @ [a])"
      using ok list_emb_append_mono [of "(=)" "sr_taken s @ waiting s" "emitted ops" "[a]" "[a]"] by (simp add: stream_ok_def)
    moreover have "subseq (sr_taken s @ waiting s) (emitted ops @ [a])"
      using ok by (auto simp: stream_ok_def)
    ultimately show ?thesis using ok False same w Emit unfolding stream_ok_def by (auto simp del: stream_step.simps)
  qed
next
  case Poll
  from stream_step_Poll [of s decode] obtain us rest where us: "waiting s = us @ rest" and st: "stream_step decode Poll s =
     \<lparr>sr_bridge = (sr_bridge s)\<lparr>sb_channel := (sb_channel (sr_bridge s))\<lparr>ch_items := rest\<rparr>\<rparr>,
      sr_taken = sr_taken s @ us, sr_out = sr_out s @ List.map_filter decode us\<rparr>"
    by (elim exE conjE) (rule that)
  have w: "waiting (stream_step decode Poll s) = rest" unfolding st by (simp add: waiting_def)
  from ok have out: "sr_out s = List.map_filter decode (sr_taken s)" and sub: "subseq ((sr_taken s @ us) @ rest) (emitted ops)"
    and len: "length rest \<le> STREAM_BRIDGE_CAPACITY" by (simp_all add: stream_ok_def us)
  show ?thesis
    using ok out sub len unfolding Poll stream_ok_def w unfolding st by (simp add: map_filter_append)
next
  case Cancel
  with ok show ?thesis by (simp add: stream_ok_def cancel_stream_def waiting_def)
qed

lemma run_stream_ok: "stream_ok decode ops (run_stream decode ops)"
proof (induction ops rule: rev_induct)
  case Nil
  show ?case by (simp add: stream_ok_def run_stream_def stream_start_def make_stream_bridge_def channel_new_def waiting_def
        List.map_filter_simps)
next
  case (snoc p ops)
  from stream_step_ok [OF this] show ?case by (simp add: run_stream_snoc)
qed

text \<open>An emission that finds room is not lost.\<close>

definition room :: "('a \<Rightarrow> 'i option) \<Rightarrow> 'a stream_op list \<Rightarrow> bool" where
  "room decode ops \<longleftrightarrow> (\<forall>us a vs. ops = us @ Emit a # vs \<longrightarrow> length (waiting (run_stream decode us)) < STREAM_BRIDGE_CAPACITY)"

lemma room_snoc: "room decode (ops @ [p]) \<Longrightarrow> room decode ops"
  by (auto simp: room_def)

lemma nothing_lost: "room decode ops \<Longrightarrow> sr_taken (run_stream decode ops) @ waiting (run_stream decode ops) = emitted ops"
proof (induction ops rule: rev_induct)
  case Nil
  show ?case by (simp add: run_stream_def stream_start_def make_stream_bridge_def channel_new_def waiting_def)
next
  case (snoc p ops)
  let ?s = "run_stream decode ops"
  note ok = run_stream_ok [of decode ops]
  from snoc have IH: "sr_taken ?s @ waiting ?s = emitted ops" using room_snoc by blast
  show ?case
  proof (cases p)
    case (Emit a)
    with snoc.prems have "length (waiting ?s) < STREAM_BRIDGE_CAPACITY" by (auto simp: room_def)
    with IH ok Emit emit_appends [of ?s decode a] show ?thesis
      by (cases "Cancel \<in> set ops")
        (simp_all add: run_stream_snoc stream_ok_def stream_bridge_callback_def waiting_def)
  next
    case Poll
    with IH stream_step_Poll [of ?s decode] show ?thesis by (auto simp: run_stream_snoc) (auto simp: waiting_def)
  next
    case Cancel
    with IH show ?thesis by (simp add: run_stream_snoc cancel_stream_def waiting_def)
  qed
qed

text \<open>The next step after any history: what an emission and a poll do to the events that wait.\<close>

lemma next_emission:
  fixes ops :: "'a stream_op list" and decode :: "'a \<Rightarrow> 'i option"
  shows "waiting (run_stream decode (ops @ [Emit a])) =
    (if Cancel \<notin> set ops \<and> length (waiting (run_stream decode ops)) < STREAM_BRIDGE_CAPACITY
     then waiting (run_stream decode ops) @ [a] else waiting (run_stream decode ops))"
proof (cases "Cancel \<in> set ops")
  case True
  with run_stream_ok [of decode ops] show ?thesis
    by (simp add: run_stream_snoc stream_ok_def stream_bridge_callback_def waiting_def)
next
  case False
  with run_stream_ok [of decode ops] emit_appends [of "run_stream decode ops" decode a] show ?thesis
    by (simp add: run_stream_snoc stream_ok_def del: stream_step.simps)
qed

lemma take_decoded_next:
  "take_decoded decode xs =
    (case dropWhile (\<lambda>x. decode x = None) xs of [] \<Rightarrow> (Pending, []) | x # rest \<Rightarrow> (Ready (the (decode x)), rest))"
  by (induction xs) (auto split: option.splits)

lemma next_poll:
  "waiting (run_stream decode (ops @ [Poll])) = tl (dropWhile (\<lambda>x. decode x = None) (waiting (run_stream decode ops)))"
  "sr_out (run_stream decode (ops @ [Poll])) = sr_out (run_stream decode ops)
    @ take 1 (List.map_filter decode (waiting (run_stream decode ops)))"
proof -
  let ?xs = "waiting (run_stream decode ops)"
  have "take 1 (List.map_filter decode xs) = (case fst (take_decoded decode xs) of Ready i \<Rightarrow> [i] | Pending \<Rightarrow> [])" for xs
    by (induction xs) (auto simp: List.map_filter_simps split: option.splits)
  moreover have "snd (take_decoded decode ?xs) = tl (dropWhile (\<lambda>x. decode x = None) ?xs)"
    by (cases "dropWhile (\<lambda>x. decode x = None) ?xs") (simp_all only: take_decoded_next list.case snd_conv list.sel)
  ultimately show "waiting (run_stream decode (ops @ [Poll])) = tl (dropWhile (\<lambda>x. decode x = None) ?xs)"
    "sr_out (run_stream decode (ops @ [Poll])) = sr_out (run_stream decode ops) @ take 1 (List.map_filter decode ?xs)"
    by (simp_all add: run_stream_snoc poll_next_def waiting_def case_prod_beta)
qed

lemma subseq_map_filter: "subseq xs ys \<Longrightarrow> subseq (List.map_filter f xs) (List.map_filter f ys)"
  unfolding List.map_filter_def by (intro subseq_map subseq_filter)

lemma oversized_event_not_decoded:
  "WATCH_EVENT_MAX_BYTES < length j \<Longrightarrow> watch_event decode empty_event strict j = watch_event decode' empty_event strict j"
  by (simp add: watch_event_def)

section \<open>Properties\<close>

text \<open>
  C32. A stream of a native plugin never blocks the plugin and never reorders: under every interleaving of
  emissions, polls and the cancellation, at most \<open>STREAM_BRIDGE_CAPACITY\<close> events wait, and what the consumer
  got followed by what still waits is, after decoding, a subsequence of what the plugin emitted before the
  cancellation. It is all of it when every emission found room. After any history, overflows included, the
  next emission before a cancellation is appended if fewer than the capacity wait and dropped only if not,
  and the next poll hands out the first waiting event that decodes. Nothing emitted after the cancellation
  is delivered.
\<close>

theorem stream_in_order_bounded:
  fixes ops :: "'a stream_op list" and decode :: "'a \<Rightarrow> 'i option"
  defines "s \<equiv> run_stream decode ops"
  shows "length (waiting s) \<le> STREAM_BRIDGE_CAPACITY
    \<and> subseq (sr_out s @ List.map_filter decode (waiting s)) (List.map_filter decode (emitted ops))
    \<and> (room decode ops \<longrightarrow> sr_out s @ List.map_filter decode (waiting s) = List.map_filter decode (emitted ops))
    \<and> waiting (run_stream decode (ops @ [Emit a])) =
        (if Cancel \<notin> set ops \<and> length (waiting s) < STREAM_BRIDGE_CAPACITY then waiting s @ [a] else waiting s)
    \<and> waiting (run_stream decode (ops @ [Poll])) = tl (dropWhile (\<lambda>x. decode x = None) (waiting s))
    \<and> sr_out (run_stream decode (ops @ [Poll])) = sr_out s @ take 1 (List.map_filter decode (waiting s))"
proof -
  from run_stream_ok [of decode ops] have len: "length (waiting s) \<le> STREAM_BRIDGE_CAPACITY"
    and out: "sr_out s @ List.map_filter decode (waiting s) = List.map_filter decode (sr_taken s @ waiting s)"
    and sub: "subseq (sr_taken s @ waiting s) (emitted ops)"
    by (simp_all add: stream_ok_def s_def map_filter_append)
  have "subseq (sr_out s @ List.map_filter decode (waiting s)) (List.map_filter decode (emitted ops))"
    unfolding out by (rule subseq_map_filter [OF sub])
  moreover have "room decode ops \<longrightarrow> sr_out s @ List.map_filter decode (waiting s) = List.map_filter decode (emitted ops)"
    unfolding out using nothing_lost [of decode ops] by (simp add: s_def)
  ultimately show ?thesis using len unfolding s_def by (intro conjI next_emission next_poll)
qed

theorem stream_in_order_bounded_witness:
  "sr_out (run_stream (\<lambda>x. if x = ''bad'' then None else Some (length x)) [Emit ''a'', Emit ''bad'', Poll, Emit ''ccc'', Poll, Cancel, Emit ''dd''])
    = [1, 3]"
proof -
  let ?d = "\<lambda>x. if x = ''bad'' then None else Some (length x)"
  let ?ops = "[Emit ''a'', Emit ''bad'', Poll, Emit ''ccc'', Poll, Cancel, Emit ''dd'']"
  have "length (waiting (run_stream ?d us)) < STREAM_BRIDGE_CAPACITY" if "?ops = us @ Emit a # vs" for us a vs
    using that
    by (auto simp: Cons_eq_append_conv run_stream_def stream_start_def make_stream_bridge_def channel_new_def
        stream_bridge_callback_def try_send_def waiting_def poll_next_def STREAM_BRIDGE_CAPACITY_def cancel_stream_def)
  then have "room ?d ?ops" by (simp add: room_def)
  moreover have "waiting (run_stream ?d ?ops) = []"
    by (simp add: run_stream_def stream_start_def make_stream_bridge_def channel_new_def
        stream_bridge_callback_def try_send_def waiting_def poll_next_def STREAM_BRIDGE_CAPACITY_def cancel_stream_def)
  moreover have "List.map_filter ?d (emitted ?ops) = [1, 3]" by (simp add: List.map_filter_simps)
  ultimately show ?thesis using stream_in_order_bounded [of ?d ?ops, THEN conjunct2, THEN conjunct2, THEN conjunct1] by (simp add: List.map_filter_simps)
qed

end
