(* ===== verification/Native_Stores.thy ===== *)
theory Native_Stores
  imports Native_Streams
begin

text \<open>
  The adapters of \<open>native_loader.rs\<close> for stores, caches, secret providers and config providers: arguments
  as one JSON object, answers as an envelope with \<open>ok\<close> or \<open>err\<close>.

  The envelope of most answers is the enumeration \<open>Wire\<close> of the source, with the derived untagged
  decoding: the variants are tried in order, a variant from an object ignores the other fields, and a
  field that is absent is what its type makes of an absent field: an error, but \<open>None\<close> for an \<open>Option\<close>.
  The decoders of the payloads belong to the protocol and are parameters: \<open>wd_value\<close> decodes a present
  field and \<open>wd_absent\<close> is the value of an absent one.
\<close>

section \<open>Envelopes\<close>

record 'a wire_decoder =
  wd_value :: "json \<Rightarrow> 'a option"
  wd_absent :: "'a option"

text \<open>A type that is not an \<open>Option\<close>, and \<open>Option<T>\<close>.\<close>

definition required :: "(json \<Rightarrow> 'a option) \<Rightarrow> 'a wire_decoder" where
  "required d = \<lparr>wd_value = d, wd_absent = None\<rparr>"

definition optional :: "(json \<Rightarrow> 'a option) \<Rightarrow> 'a option wire_decoder" where
  "optional d = \<lparr>wd_value = (\<lambda>j. case j of JNull \<Rightarrow> Some None | _ \<Rightarrow> map_option Some (d j)), wd_absent = Some None\<rparr>"

definition decode_field :: "'a wire_decoder \<Rightarrow> string \<Rightarrow> (string \<times> json) list \<Rightarrow> 'a option" where
  "decode_field d f m = (case map_of m f of Some j \<Rightarrow> wd_value d j | None \<Rightarrow> wd_absent d)"

fun untagged :: "'a wire_decoder \<Rightarrow> (json \<Rightarrow> 'e option) \<Rightarrow> json \<Rightarrow> ('e + 'a) option" where
  "untagged ok err (JObject m) =
     or_else (map_option Inr (decode_field ok ''ok'' m)) (map_option Inl (decode_field (required err) ''err'' m))"
| "untagged ok err (JArray [j]) = or_else (map_option Inr (wd_value ok j)) (map_option Inl (err j))"
| "untagged ok err j = None"

text \<open>The parser of \<open>serde_json\<close> with the text of its error, and the error when no variant matches.\<close>

record wire_env = ffi_env +
  wi_parse :: "string \<Rightarrow> (string, json) rresult"
  wi_no_variant :: string

definition native_said :: "string \<Rightarrow> string \<Rightarrow> string" where
  "native_said plugin_id what = ''native plugin '' @ quoted plugin_id @ what"

text \<open>\<open>serde_json::from_str::<Wire<T>>\<close>, with the text of its error.\<close>

definition from_str_wire ::
  "('x) wire_env_scheme \<Rightarrow> 'a wire_decoder \<Rightarrow> (json \<Rightarrow> 'e option) \<Rightarrow> string \<Rightarrow> (string, 'e + 'a) rresult" where
  "from_str_wire we ok err raw =
     (case wi_parse we raw of
        Inl e \<Rightarrow> Inl e
      | Inr j \<Rightarrow> (case untagged ok err j of Some answer \<Rightarrow> Inr answer | None \<Rightarrow> Inl (wi_no_variant we)))"

definition decode_wire ::
  "('x) wire_env_scheme \<Rightarrow> string \<Rightarrow> (string \<Rightarrow> 'e) \<Rightarrow> (json \<Rightarrow> 'e option) \<Rightarrow> 'a wire_decoder \<Rightarrow> string \<Rightarrow> string \<Rightarrow> 'e + 'a" where
  "decode_wire we malformed backend err ok raw plugin_id =
     (if raw = [] then Inl (backend (native_said plugin_id '' panicked''))
      else (case from_str_wire we ok err raw of
              Inl e \<Rightarrow> Inl (backend (native_said plugin_id (malformed @ e)))
            | Inr answer \<Rightarrow> answer))"

text \<open>
  \<open>decode_result_envelope\<close> of the protocol is a parameter; \<open>decode_store_unit\<close> and \<open>decode_cache_unit\<close> wrap it.
\<close>

definition decode_unit ::
  "(string \<Rightarrow> (string, 'e + unit) rresult) \<Rightarrow> (string \<Rightarrow> 'e) \<Rightarrow> string \<Rightarrow> string \<Rightarrow> 'e + unit" where
  "decode_unit envelope backend raw plugin_id =
     (case envelope raw of
        Inr answer \<Rightarrow> answer
      | Inl e \<Rightarrow> Inl (backend (native_said plugin_id ('' returned undecodable envelope: '' @ e))))"

text \<open>\<open>None\<close> when the call timed out or its thread died.\<close>

definition call_json_vtable ::
  "('x) ffi_env_scheme \<Rightarrow> (string \<Rightarrow> ('w, string) ffi_slot) \<Rightarrow> json \<Rightarrow> nat \<Rightarrow> (string option \<Rightarrow> 'a) \<Rightarrow> ('w, 'a) fut" where
  "call_json_vtable fe vtable_fn args data_timeout k =
     ferry data_timeout (vtable_fn (unwrap_or ''{}'' (fe_to_string fe args)))
       (\<lambda>r. k (case r of Joined out \<Rightarrow> Some out | _ \<Rightarrow> None))"

definition answered ::
  "(string \<Rightarrow> 'e) \<Rightarrow> string \<Rightarrow> (string \<Rightarrow> 'e + 'a) \<Rightarrow> string option \<Rightarrow> 'e + 'a" where
  "answered backend plugin_id decode out =
     (case out of None \<Rightarrow> Inl (backend (native_said plugin_id '' timed out'')) | Some raw \<Rightarrow> decode raw)"

section \<open>Stores\<close>

datatype store_error = StoreBackend string | OtherStoreError json

record 'w store_vtable = "'w base_vtable" +
  stv_supported_roles_json :: "nat \<Rightarrow> 'w \<Rightarrow> string \<times> 'w"
  stv_get :: "nat \<Rightarrow> string \<Rightarrow> ('w, string) ffi_slot"
  stv_put :: "nat \<Rightarrow> string \<Rightarrow> ('w, string) ffi_slot"
  stv_delete :: "nat \<Rightarrow> string \<Rightarrow> ('w, string) ffi_slot"
  stv_list :: "nat \<Rightarrow> string \<Rightarrow> ('w, string) ffi_slot"
  stv_compare_and_swap :: "nat \<Rightarrow> string \<Rightarrow> ('w, string) ffi_slot"
  stv_append :: "nat \<Rightarrow> string \<Rightarrow> ('w, string) ffi_slot"
  stv_watch :: "nat \<Rightarrow> string \<Rightarrow> ('w, stream_handle) ffi_slot"

text \<open>Values (\<open>'v\<close>), pages (\<open>'p\<close>), results of \<open>append\<close> (\<open>'r\<close>) and events (\<open>'t\<close>) with their wire forms.\<close>

record ('v, 'p, 'r, 't) store_env = wire_env +
  sc_roles :: "string \<Rightarrow> (string, string list) rresult"
  sc_error :: "json \<Rightarrow> store_error option"
  sc_error_str :: "string \<Rightarrow> store_error option"
  sc_unit :: "string \<Rightarrow> (string, store_error + unit) rresult"
  sc_value_json :: "'v \<Rightarrow> json"
  sc_value :: "json \<Rightarrow> 'v option"
  sc_page :: "json \<Rightarrow> 'p option"
  sc_append :: "json \<Rightarrow> 'r option"
  sc_event :: "string \<Rightarrow> 't option"

definition store_from_vtable ::
  "('v, 'p, 'r, 't) store_env \<Rightarrow> ffi_limits \<Rightarrow> 'w store_vtable \<Rightarrow> json \<Rightarrow> string
    \<Rightarrow> 'w \<Rightarrow> (anyhow, ('w store_vtable, string list) native_adapter) rresult \<times> 'w" where
  "store_from_vtable se limits vt config alias w =
     bind_made (make_instance (ffi_env.truncate se) ''store'' ''native store plugin returned empty manifest JSON''
         ''invalid manifest from native store plugin'' vt None config alias w)
       (\<lambda>(h, raw, m) w1.
          bind_made (read_slot vt h (stv_supported_roles_json vt h) (parsed ''invalid supported_roles JSON'' (sc_roles se)) w1)
            (\<lambda>x w2. (Inr (new_adapter limits vt h m alias x), w2)))"

fun json_bool :: "json \<Rightarrow> bool option" where
  "json_bool (JBool b) = Some b"
| "json_bool _ = None"

definition store_call ::
  "('v, 'p, 'r, 't) store_env \<Rightarrow> ('w store_vtable, string list) native_adapter
    \<Rightarrow> ('w store_vtable \<Rightarrow> nat \<Rightarrow> string \<Rightarrow> ('w, string) ffi_slot) \<Rightarrow> (string \<times> json) list
    \<Rightarrow> (string \<Rightarrow> store_error + 'a) \<Rightarrow> ('w, store_error + 'a) fut" where
  "store_call se a slot args decode =
     call_json_vtable se (slot (na_vtable a) (na_handle a)) (json_obj args) (fl_data_timeout (na_limits a))
       (answered StoreBackend (m_id (na_manifest a)) decode)"

definition decode_store_wire ::
  "('v, 'p, 'r, 't) store_env \<Rightarrow> 'a wire_decoder \<Rightarrow> string \<Rightarrow> string \<Rightarrow> store_error + 'a" where
  "decode_store_wire se = decode_wire se '' returned malformed response: '' StoreBackend (sc_error se)"

definition decode_store_unit :: "('v, 'p, 'r, 't) store_env \<Rightarrow> string \<Rightarrow> string \<Rightarrow> store_error + unit" where
  "decode_store_unit se = decode_unit (sc_unit se) StoreBackend"

definition store_get where
  "store_get se a role key = store_call se a stv_get [(''role'', JString role), (''key'', JString key)]
     (\<lambda>raw. decode_store_wire se (optional (sc_value se)) raw (m_id (na_manifest a)))"

definition store_put where
  "store_put se a role key value =
     store_call se a stv_put [(''role'', JString role), (''key'', JString key), (''value'', sc_value_json se value)]
       (\<lambda>raw. decode_store_unit se raw (m_id (na_manifest a)))"

definition store_delete where
  "store_delete se a role key = store_call se a stv_delete [(''role'', JString role), (''key'', JString key)]
     (\<lambda>raw. decode_store_unit se raw (m_id (na_manifest a)))"

definition store_list where
  "store_list se a role key_prefix cursor =
     store_call se a stv_list [(''role'', JString role), (''prefix'', JString key_prefix), (''cursor'', json_opt_str cursor)]
       (\<lambda>raw. decode_store_wire se (required (sc_page se)) raw (m_id (na_manifest a)))"

definition store_compare_and_swap where
  "store_compare_and_swap se a role key expected new =
     store_call se a stv_compare_and_swap [(''role'', JString role), (''key'', JString key),
         (''expected'', json_opt (map_option (sc_value_json se) expected)), (''new'', sc_value_json se new)]
       (\<lambda>raw. decode_store_wire se (required json_bool) raw (m_id (na_manifest a)))"

definition store_append where
  "store_append se a role key value =
     store_call se a stv_append [(''role'', JString role), (''key'', JString key), (''value'', sc_value_json se value)]
       (\<lambda>raw. decode_store_wire se (required (sc_append se)) raw (m_id (na_manifest a)))"

definition store_watch ::
  "('v, 'p, 'r, 't) store_env \<Rightarrow> ('w store_vtable, string list) native_adapter \<Rightarrow> string \<Rightarrow> string \<Rightarrow> 'w
    \<Rightarrow> (store_error, string watch_stream) rresult \<times> 'w" where
  "store_watch se a role key w =
     (let plugin_id = m_id (na_manifest a);
          args = json_obj [(''role'', JString role), (''key'', JString key)]
      in install_watch (sc_error_str se) (StoreBackend (native_said plugin_id '' returned undecodable watch error''))
           (StoreBackend (native_said plugin_id '' panicked during watch''))
           (stv_watch (na_vtable a) (na_handle a) (unwrap_or ''{}'' (fe_to_string se args))) w)"

text \<open>The stream of a watch: \<open>poll_next\<close> with the decoder of events.\<close>

definition store_poll :: "('v, 'p, 'r, 't) store_env \<Rightarrow> string stream_bridge \<Rightarrow> 't poll \<times> string stream_bridge" where
  "store_poll se b = poll_next (sc_event se) b"

section \<open>Caches\<close>

datatype cache_error = CacheBackend string | OtherCacheError json

record 'w cache_vtable = "'w base_vtable" +
  cav_supported_namespaces_json :: "nat \<Rightarrow> 'w \<Rightarrow> string \<times> 'w"
  cav_serves_any_namespace :: "nat \<Rightarrow> 'w \<Rightarrow> nat \<times> 'w"
  cav_get :: "nat \<Rightarrow> string \<Rightarrow> ('w, string) ffi_slot"
  cav_put :: "nat \<Rightarrow> string \<Rightarrow> ('w, string) ffi_slot"
  cav_delete :: "nat \<Rightarrow> string \<Rightarrow> ('w, unit) ffi_slot"
  cav_clear :: "nat \<Rightarrow> string \<Rightarrow> ('w, string) ffi_slot"
  cav_incr :: "nat \<Rightarrow> string \<Rightarrow> ('w, string) ffi_slot"

record cache_env = wire_env +
  kc_namespaces :: "string \<Rightarrow> (string, string list) rresult"
  kc_error :: "json \<Rightarrow> cache_error option"
  kc_unit :: "string \<Rightarrow> (string, cache_error + unit) rresult"
  kc_bytes :: "string \<Rightarrow> (nat list option) option"
  kc_i64 :: "json \<Rightarrow> int option"

definition cache_from_vtable ::
  "cache_env \<Rightarrow> ffi_limits \<Rightarrow> 'w cache_vtable \<Rightarrow> json \<Rightarrow> string
    \<Rightarrow> 'w \<Rightarrow> (anyhow, ('w cache_vtable, string list \<times> bool) native_adapter) rresult \<times> 'w" where
  "cache_from_vtable ce limits vt config alias w =
     bind_made (make_instance (ffi_env.truncate ce) ''cache'' ''native cache plugin returned empty manifest JSON''
         ''invalid manifest from native cache plugin'' vt None config alias w)
       (\<lambda>(h, raw, m) w1.
          bind_made (read_slot vt h (cav_supported_namespaces_json vt h) (parsed ''invalid supported_namespaces JSON'' (kc_namespaces ce)) w1)
            (\<lambda>x w2. let (any, w3) = cav_serves_any_namespace vt h w2
                    in (Inr (new_adapter limits vt h m alias (x, any \<noteq> 0)), w3)))"

text \<open>\<open>ttl.as_millis().min(u64::MAX)\<close>; durations are in milliseconds.\<close>

definition ttl_ms :: "nat \<Rightarrow> json" where
  "ttl_ms ttl = JNumber (int (min ttl (2 ^ 64 - 1)))"

definition cache_call where
  "cache_call ce a slot args k =
     call_json_vtable (ce :: cache_env) (slot (na_vtable a) (na_handle a)) (json_obj args) (fl_data_timeout (na_limits a)) k"

definition cache_get ::
  "cache_env \<Rightarrow> ('w cache_vtable, string list \<times> bool) native_adapter \<Rightarrow> string \<Rightarrow> string \<Rightarrow> ('w, nat list option) fut" where
  "cache_get ce a ns key = cache_call ce a cav_get [(''ns'', JString ns), (''key'', JString key)]
     (\<lambda>out. case out of None \<Rightarrow> None | Some raw \<Rightarrow> (case kc_bytes ce raw of Some opt \<Rightarrow> opt | None \<Rightarrow> None))"

definition cache_put ::
  "cache_env \<Rightarrow> ('w cache_vtable, string list \<times> bool) native_adapter \<Rightarrow> string \<Rightarrow> string \<Rightarrow> nat list \<Rightarrow> nat
    \<Rightarrow> ('w, cache_error + unit) fut" where
  "cache_put ce a ns key value ttl =
     cache_call ce a cav_put [(''ns'', JString ns), (''key'', JString key),
         (''value'', JArray (map (\<lambda>b. JNumber (int b)) value)), (''ttl_ms'', ttl_ms ttl)]
       (answered CacheBackend (m_id (na_manifest a)) (\<lambda>raw. decode_unit (kc_unit ce) CacheBackend raw (m_id (na_manifest a))))"

definition cache_delete ::
  "cache_env \<Rightarrow> ('w cache_vtable, string list \<times> bool) native_adapter \<Rightarrow> string \<Rightarrow> string \<Rightarrow> ('w, unit) fut" where
  "cache_delete ce a ns key =
     ferry (fl_data_timeout (na_limits a))
       (cav_delete (na_vtable a) (na_handle a)
         (unwrap_or ''{}'' (fe_to_string ce (json_obj [(''ns'', JString ns), (''key'', JString key)])))) (\<lambda>_. ())"

definition cache_clear ::
  "cache_env \<Rightarrow> ('w cache_vtable, string list \<times> bool) native_adapter \<Rightarrow> string \<Rightarrow> ('w, cache_error + unit) fut" where
  "cache_clear ce a ns = cache_call ce a cav_clear [(''ns'', JString ns)]
     (answered CacheBackend (m_id (na_manifest a)) (\<lambda>raw. decode_unit (kc_unit ce) CacheBackend raw (m_id (na_manifest a))))"

definition cache_incr ::
  "cache_env \<Rightarrow> ('w cache_vtable, string list \<times> bool) native_adapter \<Rightarrow> string \<Rightarrow> string \<Rightarrow> int \<Rightarrow> nat
    \<Rightarrow> ('w, cache_error + int) fut" where
  "cache_incr ce a ns key delta ttl =
     cache_call ce a cav_incr [(''ns'', JString ns), (''key'', JString key), (''by'', JNumber delta), (''ttl_ms'', ttl_ms ttl)]
       (answered CacheBackend (m_id (na_manifest a))
         (\<lambda>raw. decode_wire ce '' returned malformed response: '' CacheBackend (kc_error ce) (required (kc_i64 ce)) raw (m_id (na_manifest a))))"


section \<open>Secret and config providers\<close>

record 'w scheme_vtable = "'w base_vtable" +
  scv_supported_schemes_json :: "nat \<Rightarrow> 'w \<Rightarrow> string \<times> 'w"
  scv_fetch :: "nat \<Rightarrow> string \<Rightarrow> ('w, string) ffi_slot"
  scv_watch :: "nat \<Rightarrow> string \<Rightarrow> ('w, stream_handle) ffi_slot"

text \<open>Values (\<open>'v\<close>: bytes or a snapshot) and events (\<open>'t\<close>: a rotation or a delta).\<close>

record ('v, 't) scheme_env = wire_env +
  pc_schemes :: "string \<Rightarrow> (string, string list) rresult"
  pc_value :: "json \<Rightarrow> 'v option"
  pc_error :: "json \<Rightarrow> fetch_error option"
  pc_error_str :: "string \<Rightarrow> fetch_error option"
  pc_event :: "string \<Rightarrow> 't option"

definition scheme_from_vtable ::
  "string \<Rightarrow> ('v, 't) scheme_env \<Rightarrow> ffi_limits \<Rightarrow> 'w scheme_vtable \<Rightarrow> json \<Rightarrow> string
    \<Rightarrow> 'w \<Rightarrow> (anyhow, ('w scheme_vtable, string list) native_adapter) rresult \<times> 'w" where
  "scheme_from_vtable kind pe limits vt config alias w =
     bind_made (make_instance (ffi_env.truncate pe) kind (''native '' @ kind @ '' plugin returned empty manifest'')
         (''invalid manifest from '' @ kind) vt None config alias w)
       (\<lambda>(h, raw, m) w1.
          bind_made (read_slot vt h (scv_supported_schemes_json vt h) (parsed ''invalid supported_schemes'' (pc_schemes pe)) w1)
            (\<lambda>x w2. (Inr (new_adapter limits vt h m alias x), w2)))"

definition secret_from_vtable where
  "secret_from_vtable pe = scheme_from_vtable ''secret_provider'' pe"

definition config_from_vtable where
  "config_from_vtable pe = scheme_from_vtable ''config_provider'' pe"

text \<open>\<open>get\<close> of a secret provider within the data timeout, \<open>snapshot\<close> of a config provider within the control timeout.\<close>

definition scheme_fetch ::
  "nat \<Rightarrow> ('v, 't) scheme_env \<Rightarrow> ('w scheme_vtable, string list) native_adapter \<Rightarrow> string \<Rightarrow> ('w, fetch_error + 'v) fut" where
  "scheme_fetch timeout pe a reference =
     (let plugin_id = m_id (na_manifest a)
      in ferry timeout (scv_fetch (na_vtable a) (na_handle a) reference)
           (\<lambda>r. case r of
                  Joined raw \<Rightarrow> decode_wire pe '' malformed: '' FetchBackend (pc_error pe) (required (pc_value pe)) raw plugin_id
                | _ \<Rightarrow> Inl (FetchBackend (native_said plugin_id '' timed out or panicked''))))"

definition secret_get where
  "secret_get pe a secret_ref = scheme_fetch (fl_data_timeout (na_limits a)) pe a secret_ref"

definition config_snapshot where
  "config_snapshot pe a reference = scheme_fetch (fl_control_timeout (na_limits a)) pe a reference"

definition scheme_watch ::
  "('v, 't) scheme_env \<Rightarrow> ('w scheme_vtable, string list) native_adapter \<Rightarrow> string \<Rightarrow> 'w
    \<Rightarrow> (fetch_error, string watch_stream) rresult \<times> 'w" where
  "scheme_watch pe a reference w =
     install_watch (pc_error_str pe) (UnsupportedScheme ''watch'')
       (FetchBackend (native_said (m_id (na_manifest a)) '' panicked during watch''))
       (scv_watch (na_vtable a) (na_handle a) reference) w"

definition scheme_poll :: "('v, 't) scheme_env \<Rightarrow> string stream_bridge \<Rightarrow> 't poll \<times> string stream_bridge" where
  "scheme_poll pe b = poll_next (pc_event pe) b"

definition native_secret_provider ::
  "('v, 't) scheme_env \<Rightarrow> ('w scheme_vtable, string list) native_adapter \<Rightarrow> ('w, 'v) scheme_provider" where
  "native_secret_provider pe a =
     \<lparr>sp_manifest = na_manifest a, sp_supported_schemes = na_extra a, sp_fetch = secret_get pe a, sp_shutdown = adapter_shutdown a\<rparr>"

definition native_config_provider ::
  "('v, 't) scheme_env \<Rightarrow> ('w scheme_vtable, string list) native_adapter \<Rightarrow> ('w, 'v) scheme_provider" where
  "native_config_provider pe a =
     \<lparr>sp_manifest = na_manifest a, sp_supported_schemes = na_extra a, sp_fetch = config_snapshot pe a, sp_shutdown = adapter_shutdown a\<rparr>"

section \<open>Construction\<close>

lemma store_accounted:
  assumes "ledger_ok live vt" and "\<And>h. undisturbed live (stv_supported_roles_json vt h)"
  shows "accounted live w na_handle (store_from_vtable se limits vt config alias w)"
  unfolding store_from_vtable_def by (rule accounted_made [OF assms])

lemma scheme_accounted:
  assumes "ledger_ok live vt" and "\<And>h. undisturbed live (scv_supported_schemes_json vt h)"
  shows "accounted live w na_handle (scheme_from_vtable kind pe limits vt config alias w)"
  unfolding scheme_from_vtable_def by (rule accounted_made [OF assms])

section \<open>Envelopes of the source and what they decode to\<close>

text \<open>A field that must be present is never taken from an error answer.\<close>

lemma required_error: "map_of m ''ok'' = None \<Longrightarrow> map_of m ''err'' = Some j \<Longrightarrow> err j = Some e \<Longrightarrow>
    untagged (required d) err (JObject m) = Some (Inl e)"
  by (simp add: decode_field_def required_def)

lemma optional_error: "map_of m ''ok'' = None \<Longrightarrow> untagged (optional d) err (JObject m) = Some (Inr None)"
  by (simp add: decode_field_def optional_def)

lemma decode_wire_object:
  "raw \<noteq> [] \<Longrightarrow> wi_parse we raw = Inr j \<Longrightarrow> untagged ok err j = Some x \<Longrightarrow> decode_wire we malformed backend err ok raw i = x"
  by (simp add: decode_wire_def from_str_wire_def)

lemma store_call_joined:
  "fst (fs_ferried (slot (na_vtable a) (na_handle a) (unwrap_or ''{}'' (fe_to_string se (json_obj args)))) (fl_data_timeout (na_limits a)) w)
     = Joined raw \<Longrightarrow> fst (await (store_call se a slot args decode) w) = decode raw"
  by (simp add: store_call_def call_json_vtable_def answered_def)

lemma store_call_failed:
  assumes "\<And>raw. fst (fs_ferried (slot (na_vtable a) (na_handle a) (unwrap_or ''{}'' (fe_to_string se (json_obj args))))
      (fl_data_timeout (na_limits a)) w) \<noteq> Joined raw"
  shows "fst (await (store_call se a slot args decode) w) = Inl (StoreBackend (native_said (m_id (na_manifest a)) '' timed out''))"
  using assms
  by (cases "fst (fs_ferried (slot (na_vtable a) (na_handle a) (unwrap_or ''{}'' (fe_to_string se (json_obj args))))
      (fl_data_timeout (na_limits a)) w)") (auto simp: store_call_def call_json_vtable_def answered_def)

section \<open>Properties\<close>

text \<open>
  How a native store reports errors. When the plugin answers an operation with a well-formed error
  envelope, \<open>append\<close>, \<open>list\<close> and \<open>compare_and_swap\<close> return that error. \<open>get\<close> does not: its payload is an \<open>Option\<close>, so
  the untagged decoding takes the absent \<open>ok\<close> for an absent value and every error of the plugin is
  returned as "there is no such key". Timeouts and empty answers are errors for \<open>get\<close> too.
\<close>

theorem native_store_get_hides_errors:
  fixes a :: "('w store_vtable, string list) native_adapter"
  assumes env: "map_of m ''ok'' = None" "map_of m ''err'' = Some j" "sc_error se j = Some e"
    and raw: "raw \<noteq> []" "wi_parse se raw = Inr (JObject m)"
    and answer: "\<And>x t v. fst (fs_ferried (stv_get (na_vtable a) (na_handle a) x) t v) = Joined raw"
      "\<And>x t v. fst (fs_ferried (stv_append (na_vtable a) (na_handle a) x) t v) = Joined raw"
      "\<And>x t v. fst (fs_ferried (stv_list (na_vtable a) (na_handle a) x) t v) = Joined raw"
      "\<And>x t v. fst (fs_ferried (stv_compare_and_swap (na_vtable a) (na_handle a) x) t v) = Joined raw"
  shows "fst (await (store_append se a role key value) w) = Inl e
    \<and> fst (await (store_list se a role p c) w) = Inl e
    \<and> fst (await (store_compare_and_swap se a role key expected new) w) = Inl e
    \<and> fst (await (store_get se a role key) w) = Inr None"
  unfolding store_append_def store_list_def store_compare_and_swap_def store_get_def
    store_call_joined [where slot = stv_append, OF answer(2)] store_call_joined [where slot = stv_list, OF answer(3)]
    store_call_joined [where slot = stv_compare_and_swap, OF answer(4)] store_call_joined [where slot = stv_get, OF answer(1)]
    decode_store_wire_def decode_wire_object [OF raw required_error [where err = "sc_error se", OF env]]
    decode_wire_object [OF raw optional_error [OF env(1)]]
  by simp

text \<open>A store whose backend is down and says so.\<close>

definition down_slot :: "('w, string) ffi_slot" where
  "down_slot = \<lparr>fs_inline = (\<lambda>w. (''e'', w)), fs_caught = (\<lambda>w. (Some ''e'', w)), fs_ferried = (\<lambda>t w. (Joined ''e'', w))\<rparr>"

definition down_store :: "(trace store_vtable, string list) native_adapter" where
  "down_store = new_adapter \<lparr>fl_lifecycle_timeout = 1, fl_control_timeout = 1, fl_data_timeout = 1, fl_max_payload_bytes = 1\<rparr>
     \<lparr>bv_make = (\<lambda>r c n w. (Some 1, w)), bv_manifest_json = (\<lambda>h w. (Some ''{}'', w)),
      bv_shutdown = (\<lambda>h w. (Some (), w)), bv_drop_instance = (\<lambda>h w. (Some (), w)),
      stv_supported_roles_json = (\<lambda>h w. ([], w)), stv_get = (\<lambda>h x. down_slot), stv_put = (\<lambda>h x. down_slot),
      stv_delete = (\<lambda>h x. down_slot), stv_list = (\<lambda>h x. down_slot), stv_compare_and_swap = (\<lambda>h x. down_slot),
      stv_append = (\<lambda>h x. down_slot),
      stv_watch = (\<lambda>h x. \<lparr>fs_inline = (\<lambda>w. (\<lparr>sh_handle = 0, sh_error_json = []\<rparr>, w)), fs_caught = (\<lambda>w. (None, w)), fs_ferried = (\<lambda>t w. (Elapsed, w))\<rparr>)\<rparr>
     1 (sample_manifest ''s'') ''s'' []"

definition sample_store_env :: "(json, json, json, json) store_env" where
  "sample_store_env = \<lparr>fe_to_string = (\<lambda>j. Some ''x''), fe_manifest = (\<lambda>s. Inr (sample_manifest s)),
     wi_parse = (\<lambda>s. Inr (json_obj [(''err'', JString ''down'')])), wi_no_variant = [], sc_roles = (\<lambda>s. Inr []),
     sc_error = (\<lambda>j. Some (OtherStoreError j)), sc_error_str = (\<lambda>s. None), sc_unit = (\<lambda>s. Inr (Inr ())),
     sc_value_json = (\<lambda>v. v), sc_value = (\<lambda>j. Some j), sc_page = (\<lambda>j. Some j), sc_append = (\<lambda>j. Some j), sc_event = (\<lambda>s. None)\<rparr>"

theorem native_store_get_hides_errors_witness:
  "fst (await (store_append sample_store_env down_store ''session'' ''k'' JNull) []) = Inl (OtherStoreError (JString ''down''))
   \<and> fst (await (store_get sample_store_env down_store ''session'' ''k'') []) = Inr None"
proof -
  have m: "map_of [(''err'', JString ''down'')] ''ok'' = None" "map_of [(''err'', JString ''down'')] ''err'' = Some (JString ''down'')"
    "sc_error sample_store_env (JString ''down'') = Some (OtherStoreError (JString ''down''))" "''e'' \<noteq> []"
    "wi_parse sample_store_env ''e'' = Inr (JObject [(''err'', JString ''down'')])"
    by (simp_all add: sample_store_env_def json_obj_def)
  note law = native_store_get_hides_errors [where a = down_store, OF m]
  show ?thesis using law by (simp add: down_store_def down_slot_def)
qed

end
