(* ===== verification/Native_Backend.thy ===== *)
theory Native_Backend
  imports Native_Stores Identity_Relay Per_Profile
begin

text \<open>
  The adapters of \<open>native_loader.rs\<close> for backends and content stores: the slots of a backend, with the tag
  on the caller's identity that lives as long as the call, and the content store with its profiles.

  The host bridge and the values kept per profile are shared state of the process, reached through a
  \<open>lens\<close>. The decoders of the protocol are parameters.
\<close>

section \<open>Backends\<close>

datatype backend_error = BackendTransport string | BackendTimeout nat | OtherBackendError json

record backend_request =
  rq_identity :: "identity option"
  rq_rest :: json

record 'w backend_vtable = "'w base_vtable" +
  bkv_kind :: "nat \<Rightarrow> 'w \<Rightarrow> string option \<times> 'w"
  bkv_register_profile :: "nat \<Rightarrow> string \<Rightarrow> string \<Rightarrow> ('w, string) ffi_slot"
  bkv_execute :: "nat \<Rightarrow> string \<Rightarrow> string \<Rightarrow> ('w, string) ffi_slot"
  bkv_execute_streaming :: "nat \<Rightarrow> string \<Rightarrow> string \<Rightarrow> ('w, stream_handle) ffi_slot"
  bkv_execute_transaction :: "nat \<Rightarrow> string \<Rightarrow> string \<Rightarrow> ('w, string) ffi_slot"
  bkv_input_schema_json :: "nat \<Rightarrow> string \<Rightarrow> ('w, string option) ffi_slot"
  bkv_output_schema_json :: "nat \<Rightarrow> string \<Rightarrow> ('w, string option) ffi_slot"
  bkv_list_resources :: "nat \<Rightarrow> string \<Rightarrow> string option \<Rightarrow> ('w, string) ffi_slot"
  bkv_audit_metadata :: "nat \<Rightarrow> string \<Rightarrow> ('w, string) ffi_slot"
  bkv_expand_capabilities :: "nat \<Rightarrow> ('w, string) ffi_slot"
  bkv_complete_template_variable :: "nat \<Rightarrow> string \<Rightarrow> ('w, string) ffi_slot"

text \<open>
  Responses (\<open>'r\<close>), chunks (\<open>'c\<close>), pages (\<open>'p\<close>) and capability sets (\<open>'k\<close>) with their decoders;
  \<open>be_ffi_max\<close> is \<open>FFI_MAX_PAYLOAD_BYTES\<close>.
\<close>

record ('r, 'c, 'p, 'k) backend_env = wire_env +
  be_request :: "backend_request \<Rightarrow> string option"
  be_response :: "json \<Rightarrow> 'r option"
  be_error :: "json \<Rightarrow> backend_error option"
  be_error_str :: "string \<Rightarrow> backend_error option"
  be_unit :: "string \<Rightarrow> (string, backend_error + unit) rresult"
  be_value :: "string \<Rightarrow> (string, backend_error + json) rresult"
  be_chunk :: "string \<Rightarrow> (backend_error + 'c) option"
  be_page :: "json \<Rightarrow> 'p option"
  be_empty_page :: 'p
  be_caps :: "json \<Rightarrow> 'k option"
  be_default_caps :: 'k
  be_strings :: "json \<Rightarrow> string list option"
  be_multi_thread :: bool
  be_ffi_max :: nat

type_synonym 'w backend_adapter = "('w backend_vtable, string) native_adapter"

definition backend_from_vtable ::
  "('r, 'c, 'p, 'k) backend_env \<Rightarrow> ffi_limits \<Rightarrow> json option \<Rightarrow> 'w backend_vtable \<Rightarrow> json \<Rightarrow> string
    \<Rightarrow> 'w \<Rightarrow> (anyhow, 'w backend_adapter) rresult \<times> 'w" where
  "backend_from_vtable be limits library_profile vt config alias w =
     bind_made (make_instance (ffi_env.truncate be) ''backend'' ''native backend plugin returned empty manifest JSON''
         ''invalid manifest from native backend plugin'' vt None config alias w)
       (\<lambda>(h, raw, m) w1.
          let m1 = (if m_backend_profile m = None then m\<lparr>m_backend_profile := library_profile\<rparr> else m)
          in bind_made (read_slot vt h (guard_ffi_rstring (bkv_kind vt h)) (non_empty ''native backend plugin returned empty kind()'') w1)
               (\<lambda>kind w2. (Inr (new_adapter limits vt h m1 alias kind), w2)))"

definition undecodable :: "string \<Rightarrow> string \<Rightarrow> backend_error" where
  "undecodable what e = BackendTransport (''binding plugin returned undecodable '' @ what @ e)"

definition over_cap :: "('r, 'c, 'p, 'k) backend_env \<Rightarrow> string \<Rightarrow> nat \<Rightarrow> backend_error" where
  "over_cap be what actual =
     BackendTransport (''backend plugin returned '' @ what @ '' of '' @ decimal actual
       @ '' bytes exceeding the host cap of '' @ decimal (be_ffi_max be) @ '' bytes'')"

definition sync_call ::
  "('r, 'c, 'p, 'k) backend_env \<Rightarrow> 'w backend_adapter \<Rightarrow> ('w, 'a) ffi_slot \<Rightarrow> 'a \<Rightarrow> 'w \<Rightarrow> 'a \<times> 'w" where
  "sync_call be a slot on_fail w =
     call_sync_vtable_bounded (be_multi_thread be) (fl_data_timeout (na_limits a)) slot on_fail w"

definition register_profile ::
  "('r, 'c, 'p, 'k) backend_env \<Rightarrow> ('w, json_map per_profile) lens \<Rightarrow> 'w backend_adapter \<Rightarrow> string \<Rightarrow> json \<Rightarrow> 'w
    \<Rightarrow> (backend_error + unit) \<times> 'w" where
  "register_profile be l a backend_name spec w =
     (let (out, w1) = sync_call be a (bkv_register_profile (na_vtable a) (na_handle a) backend_name (unwrap_or [] (fe_to_string be spec))) [] w;
          w2 = ln_modify l registered w1
      in (case be_unit be out of
            Inr answer \<Rightarrow> answer
          | Inl e \<Rightarrow> Inl (undecodable ''register_profile envelope: '' e), w2))"

text \<open>The call of an operation that is inline or ferried; \<open>None\<close> with an error when it failed.\<close>

definition tiered_call ::
  "'w backend_adapter \<Rightarrow> string \<Rightarrow> ('w, string) ffi_slot \<Rightarrow> 'w \<Rightarrow> (backend_error, string) rresult \<times> 'w" where
  "tiered_call a what slot w =
     (if na_inline_fast a then map_prod Inr id (fs_inline slot w)
      else (case fs_ferried slot (fl_data_timeout (na_limits a)) w of
              (Joined out, w1) \<Rightarrow> (Inr out, w1)
            | (JoinError e, w1) \<Rightarrow> (Inl (BackendTransport (native_said (m_id (na_manifest a)) ('' panicked during '' @ what))), w1)
            | (Elapsed, w1) \<Rightarrow> (Inl (BackendTimeout (min (fl_data_timeout (na_limits a)) (2 ^ 64 - 1))), w1)))"

definition capped ::
  "('r, 'c, 'p, 'k) backend_env \<Rightarrow> 'w backend_adapter \<Rightarrow> string \<Rightarrow> (string \<Rightarrow> backend_error + 'a) \<Rightarrow> string \<Rightarrow> backend_error + 'a" where
  "capped be a what decode out =
     (case enforce_ffi_payload_cap out (fl_max_payload_bytes (na_limits a)) of
        Inl actual \<Rightarrow> Inl (over_cap be what actual)
      | Inr _ \<Rightarrow> decode out)"

text \<open>
  The tag is put on the identity before the request is serialised, and retired when the call is over,
  whatever its outcome.
\<close>

definition open_dispatch ::
  "tagger \<Rightarrow> ('w, host_bridge) lens \<Rightarrow> backend_request \<Rightarrow> 'w \<Rightarrow> backend_request \<times> 64 word option \<times> 'w" where
  "open_dispatch t l request w =
     (case rq_identity request of
        None \<Rightarrow> (request, None, w)
      | Some i \<Rightarrow> (let (j, d, b) = begin_dispatch t i (ln_get l w)
                   in (request\<lparr>rq_identity := Some j\<rparr>, Some d, ln_put l b w)))"

definition close_dispatch :: "('w, host_bridge) lens \<Rightarrow> 64 word option \<Rightarrow> 'w \<Rightarrow> 'w" where
  "close_dispatch l d w = (case d of None \<Rightarrow> w | Some n \<Rightarrow> ln_modify l (drop_dispatch n) w)"

definition execute ::
  "('r, 'c, 'p, 'k) backend_env \<Rightarrow> tagger \<Rightarrow> ('w, host_bridge) lens \<Rightarrow> 'w backend_adapter \<Rightarrow> string \<Rightarrow> backend_request \<Rightarrow> 'w
    \<Rightarrow> (backend_error + 'r) \<times> 'w" where
  "execute be t l a backend_name request w =
     (let (request1, d, w1) = open_dispatch t l request w;
          (out, w2) = tiered_call a ''execute''
            (bkv_execute (na_vtable a) (na_handle a) backend_name (unwrap_or [] (be_request be request1))) w1
      in (try_then out (capped be a ''an FFI payload''
            (\<lambda>raw. case from_str_wire be (required (be_response be)) (be_error be) raw of
                     Inr answer \<Rightarrow> answer
                   | Inl e \<Rightarrow> Inl (undecodable ''response: '' e))), close_dispatch l d w2))"

definition execute_transaction ::
  "('r, 'c, 'p, 'k) backend_env \<Rightarrow> 'w backend_adapter \<Rightarrow> string \<Rightarrow> json \<Rightarrow> 'w \<Rightarrow> (backend_error + json) \<times> 'w" where
  "execute_transaction be a backend_name tx_group w =
     (let (out, w1) = tiered_call a ''execute_transaction''
            (bkv_execute_transaction (na_vtable a) (na_handle a) backend_name (unwrap_or [] (fe_to_string be tx_group))) w
      in (try_then out (capped be a ''an FFI payload''
            (\<lambda>raw. case be_value be raw of
                     Inr answer \<Rightarrow> answer
                   | Inl e \<Rightarrow> Inl (undecodable ''execute_transaction envelope: '' e))), w1))"

text \<open>The stream keeps the tag: the guard moves into it and is dropped with it (\<open>stream_drop\<close>).\<close>

definition execute_streaming ::
  "('r, 'c, 'p, 'k) backend_env \<Rightarrow> tagger \<Rightarrow> ('w, host_bridge) lens \<Rightarrow> 'w backend_adapter \<Rightarrow> string \<Rightarrow> backend_request \<Rightarrow> 'w
    \<Rightarrow> (backend_error, string watch_stream \<times> 64 word option) rresult \<times> 'w" where
  "execute_streaming be t l a backend_name request w =
     (let (request1, d, w1) = open_dispatch t l request w;
          said = (\<lambda>what. BackendTransport (native_said (m_id (na_manifest a)) what))
      in case install_watch (be_error_str be) (said '' returned undecodable execute_streaming error'')
             (said '' panicked during execute_streaming'')
             (bkv_execute_streaming (na_vtable a) (na_handle a) backend_name (unwrap_or [] (be_request be request1))) w1 of
           (Inl e, w2) \<Rightarrow> (Inl e, close_dispatch l d w2)
         | (Inr s, w2) \<Rightarrow> (Inr (s, d), w2))"

definition stream_drop :: "('w, host_bridge) lens \<Rightarrow> string watch_stream \<times> 64 word option \<Rightarrow> 'w \<Rightarrow> 'w" where
  "stream_drop l s w = close_dispatch l (snd s) w"

definition chunk_poll ::
  "('r, 'c, 'p, 'k) backend_env \<Rightarrow> string stream_bridge \<Rightarrow> (backend_error + 'c) poll \<times> string stream_bridge" where
  "chunk_poll be b = poll_next (be_chunk be) b"

definition read_schema ::
  "('r, 'c, 'p, 'k) backend_env \<Rightarrow> 'w backend_adapter \<Rightarrow> ('w, string option) ffi_slot \<Rightarrow> 'w \<Rightarrow> json option \<times> 'w" where
  "read_schema be a slot w =
     (let (out, w1) = sync_call be a slot None w
      in (case out of
            None \<Rightarrow> None
          | Some s \<Rightarrow>
              if is_err (enforce_ffi_payload_cap s (fl_max_payload_bytes (na_limits a))) then None
              else (case wi_parse be s of Inr j \<Rightarrow> Some j | Inl _ \<Rightarrow> None), w1))"

definition input_schema where
  "input_schema be a backend_name w = read_schema be a (bkv_input_schema_json (na_vtable a) (na_handle a) backend_name) w"

definition output_schema where
  "output_schema be a backend_name w = read_schema be a (bkv_output_schema_json (na_vtable a) (na_handle a) backend_name) w"

text \<open>An answer that does not decode is an empty page, or the default set.\<close>

definition list_resources ::
  "('r, 'c, 'p, 'k) backend_env \<Rightarrow> 'w backend_adapter \<Rightarrow> string \<Rightarrow> string option \<Rightarrow> 'w \<Rightarrow> (backend_error + 'p) \<times> 'w" where
  "list_resources be a backend_name cursor w =
     (let (out, w1) = sync_call be a (bkv_list_resources (na_vtable a) (na_handle a) backend_name cursor) [] w
      in (capped be a ''a list_resources page''
            (\<lambda>raw. case from_str_wire be (required (be_page be)) (be_error be) raw of
                     Inr answer \<Rightarrow> answer
                   | Inl e \<Rightarrow> Inr (be_empty_page be)) out, w1))"

definition expand_capabilities ::
  "('r, 'c, 'p, 'k) backend_env \<Rightarrow> 'w backend_adapter \<Rightarrow> 'w \<Rightarrow> (backend_error + 'k) \<times> 'w" where
  "expand_capabilities be a w =
     (let (out, w1) = sync_call be a (bkv_expand_capabilities (na_vtable a) (na_handle a)) [] w
      in (capped be a ''an expand_capabilities set''
            (\<lambda>raw. case from_str_wire be (required (be_caps be)) (be_error be) raw of
                     Inr answer \<Rightarrow> answer
                   | Inl e \<Rightarrow> Inr (be_default_caps be)) out, w1))"

definition audit_metadata ::
  "('r, 'c, 'p, 'k) backend_env \<Rightarrow> ('w, json_map per_profile) lens \<Rightarrow> 'w backend_adapter \<Rightarrow> string \<Rightarrow> 'w \<Rightarrow> json_map \<times> 'w" where
  "audit_metadata be l a backend_name w =
     (let (m, w1) = get_or_read l backend_name
            (\<lambda>w. let (out, w1) = sync_call be a (bkv_audit_metadata (na_vtable a) (na_handle a) backend_name) [] w
                 in (case wi_parse be out of Inr (JObject m) \<Rightarrow> Some m | _ \<Rightarrow> None, w1)) w
      in (unwrap_or [] m, w1))"

text \<open>Completions are advisory: only a decoded error is one.\<close>

definition complete_template_variable ::
  "('r, 'c, 'p, 'k) backend_env \<Rightarrow> 'w backend_adapter \<Rightarrow> string \<Rightarrow> string \<Rightarrow> string \<Rightarrow> json \<Rightarrow> json_map \<Rightarrow> 'w
    \<Rightarrow> (backend_error + string list) \<times> 'w" where
  "complete_template_variable be a profile_name variable_name given config context w =
     (let args = json_obj [(''profile_name'', JString profile_name), (''variable_name'', JString variable_name),
            (''prefix'', JString given), (''config'', config), (''context'', JObject context)];
          (out, w1) = tiered_call a ''complete_template_variable''
            (bkv_complete_template_variable (na_vtable a) (na_handle a) (unwrap_or ''{}'' (fe_to_string be args))) w
      in (case out of
            Inl _ \<Rightarrow> Inr []
          | Inr raw \<Rightarrow>
              if raw = [] \<or> is_err (enforce_ffi_payload_cap raw (fl_max_payload_bytes (na_limits a))) then Inr []
              else (case from_str_wire be (required (be_strings be)) (be_error be) raw of
                      Inr answer \<Rightarrow> answer
                    | Inl _ \<Rightarrow> Inr []), w1))"


section \<open>Content stores\<close>

datatype content_store_error = ContentStorage string | OtherContentError json

record 'w content_vtable = "'w base_vtable" +
  cov_kind :: "nat \<Rightarrow> 'w \<Rightarrow> string option \<times> 'w"
  cov_register_profile :: "nat \<Rightarrow> string \<Rightarrow> ('w, string) ffi_slot"
  cov_put :: "nat \<Rightarrow> string \<Rightarrow> ('w, string) ffi_slot"
  cov_get :: "nat \<Rightarrow> string \<Rightarrow> ('w, string) ffi_slot"
  cov_delete :: "nat \<Rightarrow> string \<Rightarrow> ('w, string) ffi_slot"
  cov_signed_url :: "nat \<Rightarrow> string \<Rightarrow> ('w, string) ffi_slot"
  cov_stats :: "nat \<Rightarrow> string \<Rightarrow> ('w, string) ffi_slot"
  cov_sweep_expired :: "nat \<Rightarrow> string \<Rightarrow> ('w, string) ffi_slot"

text \<open>Contents (\<open>'c\<close>), handles (\<open>'h\<close>) and statistics (\<open>'s\<close>), with \<open>decode_result_envelope\<close> at each type.\<close>

record ('c, 'h, 's) content_env = ffi_env +
  cn_content_json :: "'c \<Rightarrow> json"
  cn_unit :: "string \<Rightarrow> (string, content_store_error + unit) rresult"
  cn_handle :: "string \<Rightarrow> (string, content_store_error + 'h) rresult"
  cn_content :: "string \<Rightarrow> (string, content_store_error + 'c option) rresult"
  cn_url :: "string \<Rightarrow> (string, content_store_error + string option) rresult"
  cn_stats :: "string \<Rightarrow> 's option"
  cn_default_stats :: 's
  cn_usize :: "string \<Rightarrow> nat option"
  cn_multi_thread :: bool

type_synonym 'w content_adapter = "('w content_vtable, string) native_adapter"

definition parse_manifest :: "('x) ffi_env_scheme \<Rightarrow> string \<Rightarrow> string \<Rightarrow> (anyhow, manifest) rresult" where
  "parse_manifest fe j kind =
     (if j = [] then Inl [''plugin '' @ kind @ ''::manifest_json() returned empty '' @ [CHR 0xE2, CHR 0x80, CHR 0x94]
          @ '' likely panicked during manifest()'']
      else (case fe_manifest fe j of
              Inl e \<Rightarrow> Inl [''plugin '' @ kind @ ''::manifest_json() did not return a valid PluginManifest'', e]
            | Inr m \<Rightarrow> Inr m))"

definition content_from_vtable ::
  "('c, 'h, 's) content_env \<Rightarrow> ffi_limits \<Rightarrow> 'w content_vtable \<Rightarrow> json \<Rightarrow> string
    \<Rightarrow> 'w \<Rightarrow> (anyhow, 'w content_adapter) rresult \<times> 'w" where
  "content_from_vtable ce limits vt config alias w =
     (let (h, w1) = guard_ffi_make (bv_make vt \<lparr>hr_cluster = None, hr_alias = alias\<rparr> (unwrap_or ''{}'' (fe_to_string ce config)) []) w
      in if h = 0 then (Inl (make_refused ''content_store'' alias), w1)
         else bind_made (read_slot vt h (guard_ffi_rstring (bv_manifest_json vt h)) (\<lambda>j. parse_manifest ce j ''content_store'') w1)
           (\<lambda>m w2. bind_made (read_slot vt h (guard_ffi_rstring (cov_kind vt h)) (non_empty ''native content_store plugin returned empty kind()'') w2)
             (\<lambda>kind w3. (Inr (new_adapter limits vt h m alias kind), w3))))"

definition call_enveloped ::
  "('c, 'h, 's) content_env \<Rightarrow> 'w content_adapter \<Rightarrow> string \<Rightarrow> ('w content_vtable \<Rightarrow> nat \<Rightarrow> string \<Rightarrow> ('w, string) ffi_slot)
    \<Rightarrow> (string \<times> json) list \<Rightarrow> (string \<Rightarrow> (string, content_store_error + 'a) rresult) \<Rightarrow> 'w \<Rightarrow> (content_store_error + 'a) \<times> 'w" where
  "call_enveloped ce a slot vtable_fn args envelope w =
     (let (out, w1) = call_sync_vtable_bounded (cn_multi_thread ce) (fl_data_timeout (na_limits a))
            (vtable_fn (na_vtable a) (na_handle a) (unwrap_or [] (fe_to_string ce (json_obj args)))) [] w
      in (if out = [] then Inl (ContentStorage (''content_store plugin returned no '' @ slot
            @ '' response (panicked, or exceeded the host data timeout)''))
          else (case enforce_ffi_payload_cap out (fl_max_payload_bytes (na_limits a)) of
                  Inl actual \<Rightarrow> Inl (ContentStorage (''content_store plugin returned an FFI payload of '' @ decimal actual
                    @ '' bytes exceeding the host cap''))
                | Inr _ \<Rightarrow>
                    (case envelope out of
                       Inr answer \<Rightarrow> answer
                     | Inl e \<Rightarrow> Inl (ContentStorage (''content_store plugin returned undecodable '' @ slot @ '' envelope: '' @ e)))), w1))"

definition call_bare ::
  "('c, 'h, 's) content_env \<Rightarrow> 'w content_adapter \<Rightarrow> ('w content_vtable \<Rightarrow> nat \<Rightarrow> string \<Rightarrow> ('w, string) ffi_slot)
    \<Rightarrow> (string \<times> json) list \<Rightarrow> (string \<Rightarrow> 'a option) \<Rightarrow> 'a \<Rightarrow> 'w \<Rightarrow> 'a \<times> 'w" where
  "call_bare ce a vtable_fn args decode dflt w =
     (let (out, w1) = call_sync_vtable_bounded (cn_multi_thread ce) (fl_data_timeout (na_limits a))
            (vtable_fn (na_vtable a) (na_handle a) (unwrap_or [] (fe_to_string ce (json_obj args)))) [] w
      in (unwrap_or dflt (decode out), w1))"

text \<open>A profile is the adapter with the name that every call carries.\<close>

type_synonym 'w content_profile = "'w content_adapter \<times> string"

definition build_profile ::
  "('c, 'h, 's) content_env \<Rightarrow> 'w content_adapter \<Rightarrow> string \<Rightarrow> json \<Rightarrow> 'w \<Rightarrow> (content_store_error + 'w content_profile) \<times> 'w" where
  "build_profile ce a profile_name spec w =
     (let (r, w1) = call_enveloped ce a ''register_profile'' cov_register_profile
            [(''profile_name'', JString profile_name), (''spec'', spec)] (cn_unit ce) w
      in (try_then r (\<lambda>_. Inr (a, profile_name)), w1))"

definition content_put where
  "content_put ce p content w = call_enveloped ce (fst p) ''put'' cov_put
     [(''profile_name'', JString (snd p)), (''content'', cn_content_json ce content)] (cn_handle ce) w"

definition content_get where
  "content_get ce p i w = call_enveloped ce (fst p) ''get'' cov_get
     [(''profile_name'', JString (snd p)), (''id'', JString i)] (cn_content ce) w"

definition content_delete where
  "content_delete ce p i w = call_enveloped ce (fst p) ''delete'' cov_delete
     [(''profile_name'', JString (snd p)), (''id'', JString i)] (cn_unit ce) w"

text \<open>\<open>as_secs\<close> of a duration in milliseconds.\<close>

definition content_signed_url where
  "content_signed_url ce p i ttl w = call_enveloped ce (fst p) ''signed_url'' cov_signed_url
     [(''profile_name'', JString (snd p)), (''id'', JString i), (''ttl_seconds'', JNumber (int (ttl div 1000)))] (cn_url ce) w"

definition content_stats where
  "content_stats ce p w = call_bare ce (fst p) cov_stats [(''profile_name'', JString (snd p))] (cn_stats ce) (cn_default_stats ce) w"

definition content_sweep_expired where
  "content_sweep_expired ce p w = call_bare ce (fst p) cov_sweep_expired [(''profile_name'', JString (snd p))] (cn_usize ce) 0 w"

text \<open>The shared instance goes when the factory and all its profiles are gone: \<open>shutdown\<close>, then \<open>drop_instance\<close>.\<close>

definition content_drop :: "'w content_adapter \<Rightarrow> 'w \<Rightarrow> 'w" where
  "content_drop a w = adapter_drop a (guard_ffi_drop (bv_shutdown (na_vtable a) (na_handle a)) w)"

section \<open>Construction\<close>

lemma backend_accounted:
  assumes "ledger_ok live vt" and "\<And>h. undisturbed live (bkv_kind vt h)"
  shows "accounted live w na_handle (backend_from_vtable be limits prof vt config alias w)"
  unfolding backend_from_vtable_def
proof (rule accounted_bind [OF make_instance_accounted [OF assms(1)]])
  fix a :: "nat \<times> string \<times> manifest" and w1
  assume "fst a \<noteq> 0" "fst a \<notin> live w" "live w1 = insert (fst a) (live w)"
  then show "accounted live w na_handle ((\<lambda>(h, raw, m) w1.
      let m1 = (if m_backend_profile m = None then m\<lparr>m_backend_profile := prof\<rparr> else m)
      in bind_made (read_slot vt h (guard_ffi_rstring (bkv_kind vt h)) (non_empty ''native backend plugin returned empty kind()'') w1)
           (\<lambda>kind w2. (Inr (new_adapter limits vt h m1 alias kind), w2))) a w1)"
    unfolding case_prod_beta Let_def by (intro accounted_read [OF assms(1) undisturbed_rstring [OF assms(2)]]) simp_all
qed

lemma content_accounted:
  assumes ok: "ledger_ok live vt" and kind: "\<And>h. undisturbed live (cov_kind vt h)"
  shows "accounted live w na_handle (content_from_vtable ce limits vt config alias w)"
proof -
  obtain h w1 where m: "guard_ffi_make (bv_make vt \<lparr>hr_cluster = None, hr_alias = alias\<rparr> (unwrap_or ''{}'' (fe_to_string ce config)) []) w = (h, w1)"
    by fastforce
  note made = ledger_make [OF ok m]
  have manifest: "undisturbed live (guard_ffi_rstring (bv_manifest_json vt h))"
    using ok by (intro undisturbed_rstring) (simp add: ledger_ok_def)
  show ?thesis
  proof (cases "h = 0")
    case True with m made show ?thesis by (simp add: content_from_vtable_def accounted_def)
  next
    case False
    with made have h: "h \<noteq> 0" "h \<notin> live w" "live w1 = insert h (live w)" by simp_all
    have "accounted live w na_handle (bind_made (read_slot vt h (guard_ffi_rstring (bv_manifest_json vt h)) (\<lambda>j. parse_manifest ce j ''content_store'') w1)
           (\<lambda>m w2. bind_made (read_slot vt h (guard_ffi_rstring (cov_kind vt h)) (non_empty ''native content_store plugin returned empty kind()'') w2)
             (\<lambda>kind w3. (Inr (new_adapter limits vt h m alias kind), w3))))"
      by (rule accounted_bind [OF read_slot_accounted [OF ok manifest h]])
        (intro accounted_read [OF ok undisturbed_rstring [OF kind]], simp_all)
    with m False show ?thesis by (simp add: content_from_vtable_def)
  qed
qed

section \<open>The tag of a call\<close>

lemma open_dispatch_Some:
  "rq_identity request = Some i \<Longrightarrow> open_dispatch t l request w =
    (request\<lparr>rq_identity := Some (sign t i (hb_alias (ln_get l w)) (hb_next (ln_get l w)))\<rparr>, Some (hb_next (ln_get l w)),
     ln_put l ((ln_get l w)\<lparr>hb_next := hb_next (ln_get l w) + 1, hb_live := insert (hb_next (ln_get l w)) (hb_live (ln_get l w))\<rparr>) w)"
  by (simp add: open_dispatch_def begin_dispatch_def Let_def)

lemma close_dispatch_live:
  "lens_ok l \<Longrightarrow> is_dispatch_live (ln_get l (close_dispatch l (Some d) w)) e \<longleftrightarrow> e \<noteq> d \<and> is_dispatch_live (ln_get l w) e"
  by (auto simp: close_dispatch_def ln_modify_def lens_ok_def drop_dispatch_def is_dispatch_live_def)

section \<open>Properties\<close>

text \<open>The request a plugin is handed for a caller, and the world in which its slot starts.\<close>

lemma execute_streaming_out:
  fixes a :: "'w backend_adapter" and w w2 :: 'w and l :: "('w, host_bridge) lens"
    and be :: "('r, 'c, 'p, 'k) backend_env" and t :: tagger and i :: identity and name :: string
    and request :: backend_request
  assumes "rq_identity request = Some i"
  defines "b \<equiv> ln_get l w" and "d \<equiv> hb_next (ln_get l w)"
  defines "slot \<equiv> bkv_execute_streaming (na_vtable a) (na_handle a) name
      (unwrap_or [] (be_request be (request\<lparr>rq_identity := Some (sign t i (hb_alias b) d)\<rparr>)))"
    and "w1 \<equiv> ln_put l (b\<lparr>hb_next := d + 1, hb_live := insert d (hb_live b)\<rparr>) w"
  shows "execute_streaming be t l a name request w = (Inr s, w2) \<Longrightarrow> snd s = Some d \<and> w2 = snd (fs_caught slot w1)"
    and "execute_streaming be t l a name request w = (Inl e, w2) \<Longrightarrow> w2 = close_dispatch l (Some d) (snd (fs_caught slot w1))"
  by (auto simp: execute_streaming_def open_dispatch_Some [OF assms(1)] install_watch_def slot_def w1_def b_def d_def Let_def
      split: prod.splits sum.splits option.splits if_splits)

text \<open>
  C12. The identity a backend is handed is good for exactly the call. The request the plugin receives carries
  the caller's identity under a tag that verifies while the slot runs. When \<open>execute\<close> has returned, with a
  response, an error, after a timeout or a panic, the tag no longer verifies, although the slot may still
  be running; the dispatches of other calls are as the slot left them. A stream keeps its dispatch: when
  \<open>execute_streaming\<close> returns a stream, the host has not touched the dispatches since the slot returned, so the
  tag still verifies, as the caller, unless the plugin's own calls ended it; when the stream is dropped that
  dispatch ends, and only that one. When no stream is installed the dispatch has ended with the call.
\<close>

theorem execute_identity_expires:
  fixes a :: "'w backend_adapter" and w w2 :: 'w and l :: "('w, host_bridge) lens"
    and be :: "('r, 'c, 'p, 'k) backend_env" and t :: tagger and i :: identity and name :: string
    and request :: backend_request
  assumes ok: "lens_ok l" and some: "rq_identity request = Some i"
  defines "b \<equiv> ln_get l w" and "d \<equiv> hb_next (ln_get l w)"
  defines "j \<equiv> sign t i (hb_alias b) d"
    and "w1 \<equiv> ln_put l (b\<lparr>hb_next := d + 1, hb_live := insert d (hb_live b)\<rparr>) w"
    and "w' \<equiv> snd (execute be t l a name request w)"
  defines "left \<equiv> snd (fs_caught (bkv_execute_streaming (na_vtable a) (na_handle a) name
        (unwrap_or [] (be_request be (request\<lparr>rq_identity := Some j\<rparr>)))) w1)"
  shows "verify_strip t j (hb_alias b) (is_dispatch_live (ln_get l w1)) = Some (bare i)
    \<and> w' = ln_modify l (drop_dispatch d) (snd (tiered_call a ''execute''
        (bkv_execute (na_vtable a) (na_handle a) name (unwrap_or [] (be_request be (request\<lparr>rq_identity := Some j\<rparr>)))) w1))
    \<and> verify_strip t j (hb_alias b) (is_dispatch_live (ln_get l w')) = None
    \<and> (execute_streaming be t l a name request w = (Inr s, w2) \<longrightarrow>
        w2 = left
        \<and> (is_dispatch_live (ln_get l left) d \<longrightarrow>
            verify_strip t j (hb_alias b) (is_dispatch_live (ln_get l w2)) = Some (bare i))
        \<and> is_dispatch_live (ln_get l (stream_drop l s w2)) = (\<lambda>e. e \<noteq> d \<and> is_dispatch_live (ln_get l w2) e)
        \<and> verify_strip t j (hb_alias b) (is_dispatch_live (ln_get l (stream_drop l s w2))) = None)
    \<and> (execute_streaming be t l a name request w = (Inl e, w2) \<longrightarrow>
        w2 = ln_modify l (drop_dispatch d) left
        \<and> verify_strip t j (hb_alias b) (is_dispatch_live (ln_get l w2)) = None)"
proof -
  note trip = signed_identity_roundtrip [of t i "hb_alias b" d, THEN conjunct1, folded j_def]
  have live1: "is_dispatch_live (ln_get l w1) d" using ok by (simp add: w1_def lens_ok_def is_dispatch_live_def)
  have w': "w' = close_dispatch l (Some d) (snd (tiered_call a ''execute''
        (bkv_execute (na_vtable a) (na_handle a) name (unwrap_or [] (be_request be (request\<lparr>rq_identity := Some j\<rparr>)))) w1))"
    unfolding w'_def execute_def
    by (simp add: open_dispatch_Some [OF some] case_prod_beta j_def b_def d_def w1_def)
  note out = execute_streaming_out [OF some, of be t l a name w, folded b_def d_def, folded j_def w1_def, folded left_def]
  have "w2 = left \<and> is_dispatch_live (ln_get l (stream_drop l s w2)) = (\<lambda>e. e \<noteq> d \<and> is_dispatch_live (ln_get l w2) e)"
    if "execute_streaming be t l a name request w = (Inr s, w2)"
    using out(1) [OF that] close_dispatch_live [OF ok] by (auto simp: stream_drop_def)
  then show ?thesis
    using live1 w' out(2) [of e w2] close_dispatch_live [OF ok, of d _ d] by (auto simp: trip close_dispatch_def)
qed

text \<open>A backend whose \<open>execute\<close> outlives the timeout of the host.\<close>

definition sample_backend_env :: "(json, json, json, json) backend_env" where
  "sample_backend_env = \<lparr>fe_to_string = (\<lambda>j. Some ''x''), fe_manifest = (\<lambda>s. Inr (sample_manifest s)),
     wi_parse = (\<lambda>s. Inr JNull), wi_no_variant = ''no variant'', be_request = (\<lambda>r. Some ''r''), be_response = Some,
     be_error = (\<lambda>j. None), be_error_str = (\<lambda>s. None), be_unit = (\<lambda>s. Inr (Inr ())), be_value = (\<lambda>s. Inr (Inr JNull)),
     be_chunk = (\<lambda>s. None), be_page = Some, be_empty_page = JNull, be_caps = Some, be_default_caps = JNull,
     be_strings = (\<lambda>j. None), be_multi_thread = True, be_ffi_max = 1000\<rparr>"

definition hung_backend :: "host_bridge backend_adapter" where
  "hung_backend = new_adapter \<lparr>fl_lifecycle_timeout = 30000, fl_control_timeout = 30000, fl_data_timeout = 5000, fl_max_payload_bytes = 1000\<rparr>
     \<lparr>bv_make = (\<lambda>r c n w. (Some 1, w)), bv_manifest_json = (\<lambda>h w. (Some ''{}'', w)),
      bv_shutdown = (\<lambda>h w. (Some (), w)), bv_drop_instance = (\<lambda>h w. (Some (), w)),
      bkv_kind = (\<lambda>h w. (Some ''sql'', w)), bkv_register_profile = (\<lambda>h n s. hung_slot []), bkv_execute = (\<lambda>h n r. hung_slot []),
      bkv_execute_streaming = (\<lambda>h n r. hung_slot \<lparr>sh_handle = 0, sh_error_json = []\<rparr>), bkv_execute_transaction = (\<lambda>h n r. hung_slot []), bkv_input_schema_json = (\<lambda>h n. hung_slot None),
      bkv_output_schema_json = (\<lambda>h n. hung_slot None), bkv_list_resources = (\<lambda>h n c. hung_slot []), bkv_audit_metadata = (\<lambda>h n. hung_slot []),
      bkv_expand_capabilities = (\<lambda>h. hung_slot []), bkv_complete_template_variable = (\<lambda>h a. hung_slot [])\<rparr>
     1 (sample_manifest ''b'') ''b'' ''sql''"

definition whole :: "('w, 'w) lens" where
  "whole = \<lparr>ln_get = id, ln_put = (\<lambda>s w. s)\<rparr>"

theorem execute_identity_expires_witness:
  "verify_strip sample_tagger (sign sample_tagger sample_identity ''p'' 1) ''p''
     (is_dispatch_live (snd (execute sample_backend_env sample_tagger whole hung_backend ''orders''
       \<lparr>rq_identity = Some sample_identity, rq_rest = JNull\<rparr> (bridge_new ''p'' True)))) = None"
proof -
  have "lens_ok whole" by (simp add: whole_def lens_ok_def)
  from execute_identity_expires [OF this, of "\<lparr>rq_identity = Some sample_identity, rq_rest = JNull\<rparr>" sample_identity sample_tagger
      "bridge_new ''p'' True" sample_backend_env hung_backend "''orders''", THEN conjunct2, THEN conjunct2, THEN conjunct1]
  show ?thesis by (simp only: whole_def bridge_new_def) simp
qed

end
