(* ===== verification/Native_Load.thy ===== *)
theory Native_Load
  imports Native_Backend Artifact_Trust Descriptor
begin

text \<open>
  Loading a native plugin (\<open>native_loader.rs\<close>): the check of the artifact, the second hash before \<open>dlopen\<close>,
  the check of the layout, the registration and what is derived from it.

  The artifact is reached by its path three times, and the file may change in between: \<open>fs1\<close> is the file system
  of the verification, \<open>fs2\<close> that of the second hash, \<open>fs3\<close> that of \<open>dlopen\<close>. Opening a library and calling into
  it runs code of the plugin, on the world \<open>'w\<close>; only the call of its layout function, which returns a static
  description, is taken not to touch the world.
\<close>

section \<open>Registrations\<close>

datatype entity_class =
    ToolGateEntity | TransformEntity | IdentityProviderEntity | BackendEntity | WatchStrategyEntity | HttpRouteEntity
  | AuditSinkEntity | LogSinkEntity | TelemetrySinkEntity | MetricsSinkEntity | StoreEntity | CacheEntity
  | SecretProviderEntity | ConfigProviderEntity | PolicyEngineEntity | ClusterEntity | TransportEntity
  | CatalogProviderEntity | CredentialIssuerEntity | ApprovalNotifierEntity | ContentStoreEntity

fun entity_kind :: "entity_class \<Rightarrow> string" where
  "entity_kind ToolGateEntity = ''tool_gate''"
| "entity_kind TransformEntity = ''transform''"
| "entity_kind IdentityProviderEntity = ''identity_provider''"
| "entity_kind BackendEntity = ''backend''"
| "entity_kind WatchStrategyEntity = ''watch_strategy''"
| "entity_kind HttpRouteEntity = ''http_route''"
| "entity_kind AuditSinkEntity = ''audit_sink''"
| "entity_kind LogSinkEntity = ''log_sink''"
| "entity_kind TelemetrySinkEntity = ''telemetry_sink''"
| "entity_kind MetricsSinkEntity = ''metrics_sink''"
| "entity_kind StoreEntity = ''store''"
| "entity_kind CacheEntity = ''cache''"
| "entity_kind SecretProviderEntity = ''secret_provider''"
| "entity_kind ConfigProviderEntity = ''config_provider''"
| "entity_kind PolicyEngineEntity = ''policy_engine''"
| "entity_kind ClusterEntity = ''cluster''"
| "entity_kind TransportEntity = ''transport''"
| "entity_kind CatalogProviderEntity = ''catalog_provider''"
| "entity_kind CredentialIssuerEntity = ''credential_issuer''"
| "entity_kind ApprovalNotifierEntity = ''approval_notifier''"
| "entity_kind ContentStoreEntity = ''content_store''"

text \<open>Of the vtable of an entity, the slots that every class has. \<open>'d\<close> is \<open>TypedCapabilityDecl\<close>.\<close>

record ('w, 'd) plugin_registration =
  pr_abi_version :: nat
  pr_plugin_id :: string
  pr_plugin_version :: string
  pr_module_path_prefix :: string
  pr_entities :: "(entity_class \<times> 'w base_vtable) list"
  pr_capabilities :: "'d list"
  pr_backend_profile_json :: "string option"
  pr_descriptor_yaml :: string

text \<open>
  An opened library: the layout it exports (no symbol, or a pointer that may be null) and its entry point (no
  symbol; a call that panics gives \<open>None\<close>).
\<close>

record ('w, 'd, 'y) native_library =
  nl_abi_layout :: "'y option option"
  nl_register :: "('w \<Rightarrow> ('w, 'd) plugin_registration option \<times> 'w) option"

text \<open>The dynamic linker, the layout checker, the parsers, and the constants of the protocol crate.\<close>

record ('w, 'd, 'y) load_env = ffi_env +
  le_dlopen :: "string \<Rightarrow> 'w \<Rightarrow> (string, ('w, 'd, 'y) native_library) rresult \<times> 'w"
  le_check_layout :: "'y \<Rightarrow> string option"
  le_descriptor :: "string \<Rightarrow> (string, plugin_descriptor) rresult"
  le_backend_profile :: "string \<Rightarrow> (string, json) rresult"
  le_to_capability :: "'d \<Rightarrow> (string, capability) rresult"
  le_decl_kind :: "'d \<Rightarrow> string"
  le_abi_version :: nat
  le_panic_sentinel :: nat

datatype layout_error = NoLayoutSymbol | NullLayout | LayoutIncompatible string

definition verify_abi_layout :: "('w, 'd, 'y) load_env \<Rightarrow> ('w, 'd, 'y) native_library \<Rightarrow> (layout_error, unit) rresult" where
  "verify_abi_layout le lib =
     (case nl_abi_layout lib of
        None \<Rightarrow> Inl NoLayoutSymbol
      | Some None \<Rightarrow> Inl NullLayout
      | Some (Some y) \<Rightarrow> (case le_check_layout le y of Some errs \<Rightarrow> Inl (LayoutIncompatible errs) | None \<Rightarrow> Inr ()))"

datatype registration_error = RegistrationPanicked | AbiVersionMismatch nat nat | NoEntities

definition validate_registration ::
  "('w, 'd, 'y) load_env \<Rightarrow> ('w, 'd) plugin_registration \<Rightarrow> (registration_error, unit) rresult" where
  "validate_registration le reg =
     (if pr_abi_version reg = le_panic_sentinel le then Inl RegistrationPanicked
      else if pr_abi_version reg \<noteq> le_abi_version le then Inl (AbiVersionMismatch (pr_abi_version reg) (le_abi_version le))
      else if pr_entities reg = [] then Inl NoEntities
      else Inr ())"

section \<open>The manifest\<close>

text \<open>The licence and the tags of a descriptor are not in the model of a manifest.\<close>

definition manifest_from_descriptor ::
  "('w, 'd, 'y) load_env \<Rightarrow> ('w, 'd) plugin_registration \<Rightarrow> (anyhow, manifest) rresult" where
  "manifest_from_descriptor le reg =
     (case le_descriptor le (pr_descriptor_yaml reg) of
        Inl e \<Rightarrow> Inl [''parsing the plugin'' @ [CHR 0x27] @ ''s embedded descriptor_yaml'', e]
      | Inr d \<Rightarrow> Inr \<lparr>m_id = ds_id d, m_version = pr_plugin_version reg, m_name = ds_name d, m_plugin_class = ds_class d,
          m_protocol_version = ds_protocol_version d, m_required_capabilities = [], m_provides = ds_provides d,
          m_provides_schemes = ds_provides_schemes d, m_module_path_prefix = pr_module_path_prefix reg,
          m_backend_profile = None\<rparr>)"

text \<open>An instance that is made only to ask for its manifest; \<open>read\<close> decodes it once the instance is gone.\<close>

definition probe_instance ::
  "'w base_vtable \<Rightarrow> string \<Rightarrow> anyhow \<Rightarrow> (string \<Rightarrow> (anyhow, manifest) rresult) \<Rightarrow> 'w \<Rightarrow> (anyhow, manifest) rresult \<times> 'w" where
  "probe_instance vt config no_handle read w =
     (let (h, w1) = guard_ffi_make (bv_make vt stub_ref config []) w
      in if h = 0 then (Inl no_handle, w1)
         else (let (raw, w2) = guard_ffi_rstring (bv_manifest_json vt h) w1
               in (read raw, drop_native vt h w2)))"

definition derive_manifest ::
  "('w, 'd, 'y) load_env \<Rightarrow> ('w, 'd) plugin_registration \<Rightarrow> 'w \<Rightarrow> (anyhow, manifest) rresult \<times> 'w" where
  "derive_manifest le reg w =
     (if pr_descriptor_yaml reg \<noteq> [] then (manifest_from_descriptor le reg, w)
      else (case pr_entities reg of
              [] \<Rightarrow> (Inl [''plugin registration exports no entities''], w)
            | (c, vt) # _ \<Rightarrow>
                probe_instance vt ''{}''
                  [''plugin panicked during '' @ entity_kind c @ ''::make '' @ [CHR 0xE2, CHR 0x80, CHR 0x94] @ '' construction returned null handle'']
                  (\<lambda>raw. parse_manifest le raw (entity_kind c)) w))"

definition peek_manifest_from_loaded ::
  "('w, 'd, 'y) load_env \<Rightarrow> ('w, 'd) plugin_registration \<Rightarrow> json \<Rightarrow> 'w \<Rightarrow> (anyhow, manifest) rresult \<times> 'w" where
  "peek_manifest_from_loaded le reg config w =
     (if pr_descriptor_yaml reg \<noteq> [] then (manifest_from_descriptor le reg, w)
      else (case pr_entities reg of
              [] \<Rightarrow> (Inl [''peek_manifest: native plugin `'' @ pr_plugin_id reg @ ''` registers no entities''], w)
            | (c, vt) # _ \<Rightarrow>
                probe_instance vt (unwrap_or ''{}'' (fe_to_string le config))
                  [''peek_manifest: native '' @ entity_kind c @ '' `make` returned null'']
                  (\<lambda>raw. if raw = [] then Inl [''peek_manifest: native '' @ entity_kind c @ '' returned empty manifest'']
                         else (case fe_manifest le raw of
                                 Inl e \<Rightarrow> Inl [''peek_manifest: invalid manifest from native '' @ entity_kind c, e]
                               | Inr m \<Rightarrow> Inr m)) w))"

definition decode_backend_profile ::
  "('w, 'd, 'y) load_env \<Rightarrow> ('w, 'd) plugin_registration \<Rightarrow> (anyhow, json option) rresult" where
  "decode_backend_profile le reg =
     (case pr_backend_profile_json reg of
        None \<Rightarrow> Inr None
      | Some j \<Rightarrow>
          (case le_backend_profile le j of
             Inl e \<Rightarrow> Inl [''plugin '' @ quoted (pr_plugin_id reg) @ '' declares an invalid backend_profile: '' @ e]
           | Inr p \<Rightarrow> Inr (Some p)))"

text \<open>The declarations in order; the first that does not decode refuses the load.\<close>

fun decode_capability_list ::
  "('w, 'd, 'y) load_env \<Rightarrow> string \<Rightarrow> 'd list \<Rightarrow> capability list \<Rightarrow> (anyhow, capability list) rresult" where
  "decode_capability_list le i [] out = Inr out"
| "decode_capability_list le i (d # ds) out =
     (case le_to_capability le d of
        Inl e \<Rightarrow> Inl [''plugin '' @ quoted i @ '' declares invalid capability '' @ [CHR 0x22] @ le_decl_kind le d @ [CHR 0x22] @ '': '' @ e]
      | Inr c \<Rightarrow> decode_capability_list le i ds (out @ [c]))"

definition decode_capabilities ::
  "('w, 'd, 'y) load_env \<Rightarrow> ('w, 'd) plugin_registration \<Rightarrow> (anyhow, capability list) rresult" where
  "decode_capabilities le reg = decode_capability_list le (pr_plugin_id reg) (pr_capabilities reg) []"

section \<open>Loading\<close>

datatype load_error =
    VerifyFailed path verify_error
  | RehashFailed path
  | ChangedOnDisk path string string
  | DlopenFailed path string
  | LayoutRefused path layout_error
  | NoRegisterSymbol
  | RegisterPanicked path
  | RegistrationRefused path registration_error
  | ManifestRefused anyhow
  | ProfileRefused path anyhow
  | CapabilitiesRefused path anyhow

record ('w, 'd, 'y) loaded_native_plugin =
  ln_registration :: "('w, 'd) plugin_registration"
  ln_meta :: native_plugin_meta
  ln_ffi_limits :: ffi_limits
  ln_required_capabilities :: "capability list"
  ln_library :: "('w, 'd, 'y) native_library"

text \<open>From the opened library on.\<close>

definition register_library ::
  "('w, 'd, 'y) load_env \<Rightarrow> path \<Rightarrow> ffi_limits \<Rightarrow> native_verify_result \<Rightarrow> ('w, 'd, 'y) native_library \<Rightarrow> 'w
    \<Rightarrow> (load_error, ('w, 'd, 'y) loaded_native_plugin) rresult \<times> 'w" where
  "register_library le p limits verified lib w =
     (case verify_abi_layout le lib of
        Inl e \<Rightarrow> (Inl (LayoutRefused p e), w)
      | Inr _ \<Rightarrow>
          (case nl_register lib of
             None \<Rightarrow> (Inl NoRegisterSymbol, w)
           | Some register \<Rightarrow>
               (case register w of
                  (None, w1) \<Rightarrow> (Inl (RegisterPanicked p), w1)
                | (Some reg, w1) \<Rightarrow>
                    (case validate_registration le reg of
                       Inl e \<Rightarrow> (Inl (RegistrationRefused p e), w1)
                     | Inr _ \<Rightarrow>
                         (case derive_manifest le reg w1 of
                            (Inl e, w2) \<Rightarrow> (Inl (ManifestRefused e), w2)
                          | (Inr m, w2) \<Rightarrow>
                              (try_then (map_sum (ProfileRefused p) id (decode_backend_profile le reg)) (\<lambda>profile.
                                 try_then (map_sum (CapabilitiesRefused p) id (decode_capabilities le reg)) (\<lambda>caps.
                                   Inr \<lparr>ln_registration = reg, ln_meta = into_meta verified (m\<lparr>m_backend_profile := profile\<rparr>),
                                        ln_ffi_limits = limits, ln_required_capabilities = caps, ln_library = lib\<rparr>)), w2))))))"

definition load_native_plugin ::
  "('w, 'd, 'y) load_env \<Rightarrow> 'h hasher \<Rightarrow> ed25519 \<Rightarrow> file_system \<Rightarrow> file_system \<Rightarrow> file_system \<Rightarrow> path \<Rightarrow> native_verify_options
    \<Rightarrow> ffi_limits \<Rightarrow> 'w \<Rightarrow> (load_error, ('w, 'd, 'y) loaded_native_plugin) rresult \<times> 'w" where
  "load_native_plugin le hs ed fs1 fs2 fs3 p opts limits w =
     (case verify_native_artifact hs ed fs1 p opts of
        Inl e \<Rightarrow> (Inl (VerifyFailed p e), w)
      | Inr verified \<Rightarrow>
          (case sha256_file hs fs2 p of
             None \<Rightarrow> (Inl (RehashFailed p), w)
           | Some reload_hash \<Rightarrow>
               if reload_hash \<noteq> vr_artifact_hash verified
               then (Inl (ChangedOnDisk p (vr_artifact_hash verified) reload_hash), w)
               else (case fs_read fs3 p of
                       None \<Rightarrow> (Inl (DlopenFailed p []), w)
                     | Some bytes \<Rightarrow>
                         (case le_dlopen le bytes w of
                            (Inl e, w1) \<Rightarrow> (Inl (DlopenFailed p e), w1)
                          | (Inr lib, w1) \<Rightarrow> register_library le p limits verified lib w1))))"

section \<open>What a load establishes\<close>

lemma verified_bytes:
  assumes "verify_native_artifact hs ed fs p opts = Inr v"
  shows "\<exists>b. fs_read fs p = Some b \<and> vr_artifact_hash v = sha256_hex hs b \<and> vr_source_path v = p
    \<and> (vr_signature_verified v \<longrightarrow> vouched ed fs p b (vo_trusted_public_keys opts))"
proof (cases "fs_read fs p")
  case None
  with assms show ?thesis by (simp add: verify_native_artifact_def)
next
  case (Some b)
  from assms show ?thesis
    unfolding verify_native_artifact_def Some option.case Let_def try_then_eq_Inr signature_stage
    by (auto split: option.splits)
qed

lemma sha256_file_read: "streaming hs \<Longrightarrow> sha256_file hs fs p = Some h \<longleftrightarrow> (\<exists>b. fs_read fs p = Some b \<and> h = sha256_hex hs b)"
  by (auto simp: sha256_file_def sha256_hex_def hash_buffers_stream split: option.splits)

text \<open>The three readings of the path, up to the call of the dynamic linker.\<close>

lemma load_stages:
  assumes "load_native_plugin le hs ed fs1 fs2 fs3 p opts limits w = (r, w')"
  obtains (refused) e where "r = Inl e" "w' = w"
    | (opened) v b where "verify_native_artifact hs ed fs1 p opts = Inr v" "sha256_file hs fs2 p = Some (vr_artifact_hash v)"
        "fs_read fs3 p = Some b"
        "(r, w') = (case le_dlopen le b w of (Inl e, w1) \<Rightarrow> (Inl (DlopenFailed p e), w1)
           | (Inr lib, w1) \<Rightarrow> register_library le p limits v lib w1)"
  using assms by (auto simp: load_native_plugin_def split: sum.splits option.splits if_splits)

lemma register_library_ok:
  assumes "register_library le p limits v lib w = (Inr lp, w')"
  shows "ln_library lp = lib \<and> ln_ffi_limits lp = limits \<and> nm_artifact_hash (ln_meta lp) = Some (vr_artifact_hash v)
    \<and> nm_signature_verified (ln_meta lp) = vr_signature_verified v \<and> verify_abi_layout le lib = Inr ()
    \<and> validate_registration le (ln_registration lp) = Inr ()"
  using assms
  by (auto simp: register_library_def into_meta_def old.unit.exhaust split: sum.splits option.splits prod.splits)

lemma probe_live:
  assumes ok: "ledger_ok live vt"
  shows "live (snd (probe_instance vt config no_handle read w)) = live w"
proof -
  obtain h w1 where m: "guard_ffi_make (bv_make vt stub_ref config []) w = (h, w1)" by fastforce
  obtain raw w2 where r: "guard_ffi_rstring (bv_manifest_json vt h) w1 = (raw, w2)" by fastforce
  from ledger_make [OF ok m] ledger_manifest [OF ok r] show ?thesis
    by (auto simp: probe_instance_def m r ledger_drop [OF ok] split: if_splits)
qed

lemma derive_live:
  assumes ok: "\<And>c vt. (c, vt) \<in> set (pr_entities reg) \<Longrightarrow> ledger_ok live vt"
  shows "live (snd (derive_manifest le reg w)) = live w" and "live (snd (peek_manifest_from_loaded le reg config w)) = live w"
proof -
  have "live (snd (derive_manifest le reg w)) = live w \<and> live (snd (peek_manifest_from_loaded le reg config w)) = live w"
  proof (cases "pr_entities reg")
    case (Cons e es)
    then have "ledger_ok live (snd e)" by (intro ok [of "fst e"]) simp
    with Cons show ?thesis by (simp add: derive_manifest_def peek_manifest_from_loaded_def case_prod_beta probe_live)
  qed (simp add: derive_manifest_def peek_manifest_from_loaded_def)
  then show "live (snd (derive_manifest le reg w)) = live w" "live (snd (peek_manifest_from_loaded le reg config w)) = live w"
    by blast+
qed

section \<open>Properties\<close>

text \<open>
  C7. Code of a native plugin runs only after its bytes were verified twice. If the bytes at the path fail the
  check, or the bytes of the second hash are not the ones that passed it, the load fails and nothing of the
  plugin has run. A plugin that is loaded carries the digest of the verified bytes, and is marked as signed only
  if a trusted key vouched for them; its layout and its registration have passed their checks; and, unless the
  file is replaced between the second hash and \<open>dlopen\<close>, its library is the one of the verified bytes. SHA-256 is
  assumed to consume its input as a stream and to have no collision between the two contents of the file.
\<close>

theorem loaded_code_was_verified:
  assumes "streaming hs"
    and "\<And>b1 b2. fs_read fs1 p = Some b1 \<Longrightarrow> fs_read fs2 p = Some b2 \<Longrightarrow> sha256_hex hs b1 = sha256_hex hs b2 \<Longrightarrow> b1 = b2"
    and load: "load_native_plugin le hs ed fs1 fs2 fs3 p opts limits w = (r, w')"
  shows "(w' = w \<and> (\<exists>e. r = Inl e))
    \<or> (\<exists>v b. verify_native_artifact hs ed fs1 p opts = Inr v \<and> fs_read fs1 p = Some b \<and> fs_read fs2 p = Some b
        \<and> (case r of Inl e \<Rightarrow> True
           | Inr lp \<Rightarrow> nm_artifact_hash (ln_meta lp) = Some (sha256_hex hs b)
               \<and> (nm_signature_verified (ln_meta lp) \<longrightarrow> vouched ed fs1 p b (vo_trusted_public_keys opts))
               \<and> verify_abi_layout le (ln_library lp) = Inr () \<and> validate_registration le (ln_registration lp) = Inr ()
               \<and> (fs_read fs3 p = fs_read fs2 p \<longrightarrow> fst (le_dlopen le b w) = Inr (ln_library lp))))"
  using load
proof (cases rule: load_stages)
  case refused then show ?thesis by blast
next
  case (opened v b3)
  obtain b where b: "fs_read fs1 p = Some b" "vr_artifact_hash v = sha256_hex hs b"
    "vr_signature_verified v \<longrightarrow> vouched ed fs1 p b (vo_trusted_public_keys opts)"
    using verified_bytes [OF opened(1)] by blast
  have b2: "fs_read fs2 p = Some b" using opened(2) assms(2) b by (auto simp: sha256_file_read [OF assms(1)])
  have "case r of Inl e \<Rightarrow> True
     | Inr lp \<Rightarrow> nm_artifact_hash (ln_meta lp) = Some (sha256_hex hs b)
         \<and> (nm_signature_verified (ln_meta lp) \<longrightarrow> vouched ed fs1 p b (vo_trusted_public_keys opts))
         \<and> verify_abi_layout le (ln_library lp) = Inr () \<and> validate_registration le (ln_registration lp) = Inr ()
         \<and> (fs_read fs3 p = fs_read fs2 p \<longrightarrow> fst (le_dlopen le b w) = Inr (ln_library lp))"
  proof (cases r)
    case (Inr lp)
    with opened(4) obtain lib w1 where l: "le_dlopen le b3 w = (Inr lib, w1)" "register_library le p limits v lib w1 = (Inr lp, w')"
      by (auto split: prod.splits sum.splits)
    from register_library_ok [OF l(2)] l(1) b b2 opened(3) Inr show ?thesis by auto
  qed simp
  with opened(1) b(1) b2 show ?thesis by blast
qed

text \<open>A library that registers one tool gate, and a hash without collisions.\<close>

definition plain_hasher :: "string hasher" where
  "plain_hasher = \<lparr>hs_new = [], hs_update = (\<lambda>h b. h @ b), hs_hex = id\<rparr>"

definition sample_library :: "(nat, unit, unit) native_library" where
  "sample_library = \<lparr>nl_abi_layout = Some (Some ()),
     nl_register = Some (\<lambda>w. (Some \<lparr>pr_abi_version = 1, pr_plugin_id = ''p'', pr_plugin_version = ''1'', pr_module_path_prefix = [],
       pr_entities = [(ToolGateEntity, \<lparr>bv_make = (\<lambda>r c n w. (Some 1, w)), bv_manifest_json = (\<lambda>h w. (Some ''p'', w)),
         bv_shutdown = (\<lambda>h w. (Some (), w)), bv_drop_instance = (\<lambda>h w. (Some (), w))\<rparr>)],
       pr_capabilities = [], pr_backend_profile_json = None, pr_descriptor_yaml = []\<rparr>, w + 1))\<rparr>"

definition sample_load_env :: "(nat, unit, unit) load_env" where
  "sample_load_env = \<lparr>fe_to_string = (\<lambda>j. Some ''x''), fe_manifest = (\<lambda>s. Inr (sample_manifest s)),
     le_dlopen = (\<lambda>b w. (Inr sample_library, w + 1)), le_check_layout = (\<lambda>y. None), le_descriptor = (\<lambda>s. Inl s),
     le_backend_profile = (\<lambda>s. Inl s), le_to_capability = (\<lambda>d. Inl []), le_decl_kind = (\<lambda>d. []), le_abi_version = 1, le_panic_sentinel = 0\<rparr>"

definition file_with :: "string \<Rightarrow> file_system" where
  "file_with b = \<lparr>fs_nodes = (\<lambda>p. Some (File b)), fs_readable = (\<lambda>p. True), fs_writable = (\<lambda>p. True)\<rparr>"

definition open_options :: native_verify_options where
  "open_options = \<lparr>vo_expected_sha256 = Some ''elf'', vo_trusted_public_keys = [], vo_policy = Disabled, vo_revocation_list = None\<rparr>"

definition sample_load :: "string \<Rightarrow> (load_error, (nat, unit, unit) loaded_native_plugin) rresult \<times> nat" where
  "sample_load b2 = load_native_plugin sample_load_env plain_hasher (\<lambda>k d s. None) (file_with ''elf'') (file_with b2) (file_with b2)
     [''p.so''] open_options \<lparr>fl_lifecycle_timeout = 1, fl_control_timeout = 1, fl_data_timeout = 1, fl_max_payload_bytes = 1\<rparr> 0"

theorem loaded_code_was_verified_witness:
  "is_ok (fst (sample_load ''elf'')) \<and> snd (sample_load ''elf'') = 2 \<and> sample_load ''evil'' = (fst (sample_load ''evil''), 0)"
proof -
  have st: "streaming plain_hasher" by (simp add: streaming_def plain_hasher_def)
  have evil: "load_native_plugin sample_load_env plain_hasher (\<lambda>k d s. None) (file_with ''elf'') (file_with ''evil'') (file_with ''evil'')
     [''p.so''] open_options \<lparr>fl_lifecycle_timeout = 1, fl_control_timeout = 1, fl_data_timeout = 1, fl_max_payload_bytes = 1\<rparr> 0
     = (fst (sample_load ''evil''), snd (sample_load ''evil''))" by (simp add: sample_load_def)
  have "snd (sample_load ''evil'') = 0"
    using loaded_code_was_verified [OF st _ evil]
    by (auto simp: sha256_hex_def plain_hasher_def file_with_def fs_read_def)
  moreover have "sample_load ''elf'' = (fst (sample_load ''elf''), 2) \<and> is_ok (fst (sample_load ''elf''))"
    by (simp add: sample_load_def load_native_plugin_def verify_native_artifact_def file_with_def fs_read_def sha256_hex_def
        plain_hasher_def open_options_def skips_verification_def sha256_file_def hash_buffers.simps sample_load_env_def
        sample_library_def register_library_def verify_abi_layout_def validate_registration_def derive_manifest_def
        probe_instance_def guard_ffi_make_def guard_ffi_rstring_def drop_native_def guard_ffi_drop_def parse_manifest_def
        decode_backend_profile_def decode_capabilities_def is_ok_def)
  ultimately show ?thesis by (metis prod.collapse snd_conv)
qed

end
