(* ===== verification/Native_Chains.thy ===== *)
theory Native_Chains
  imports Native_Ffi Request_Chains
begin

text \<open>
  The adapters of \<open>native_loader.rs\<close> that put a native plugin into the request chains: tool gates,
  transforms, identity providers and policy engines. Each serialises its arguments, calls its slot and
  maps a call that timed out or died to the answer of its class. An adapter becomes a plugin object of
  the protocol, so that the theorems about the chains apply to it.
\<close>

section \<open>Vtables and codecs\<close>

record 'w tool_gate_vtable = "'w base_vtable" +
  tgv_evaluate_pre_dispatch ::
    "nat \<Rightarrow> plugin_context \<Rightarrow> string \<Rightarrow> string option \<Rightarrow> string \<Rightarrow> ('w, gate_decision) ffi_slot"
  tgv_evaluate_post_dispatch ::
    "nat \<Rightarrow> plugin_context \<Rightarrow> string \<Rightarrow> string \<Rightarrow> nat \<Rightarrow> string \<Rightarrow> ('w, gate_decision) ffi_slot"

record 'w transform_vtable = "'w base_vtable" +
  tfv_transform_arguments :: "nat \<Rightarrow> plugin_context \<Rightarrow> string \<Rightarrow> string \<Rightarrow> ('w, transform_result) ffi_slot"
  tfv_transform_result :: "nat \<Rightarrow> plugin_context \<Rightarrow> string \<Rightarrow> string \<Rightarrow> ('w, transform_result) ffi_slot"

record 'w identity_vtable = "'w base_vtable" +
  idv_resolve_identity :: "nat \<Rightarrow> string \<Rightarrow> string \<Rightarrow> string \<Rightarrow> ('w, identity_resolution) ffi_slot"

record 'w policy_vtable = "'w base_vtable" +
  pev_name :: "nat \<Rightarrow> 'w \<Rightarrow> string \<times> 'w"
  pev_evaluate :: "nat \<Rightarrow> string \<Rightarrow> ('w, string) ffi_slot"
  pev_policy_version :: "nat \<Rightarrow> ('w, string) ffi_slot"

record policy_version =
  pv_hash :: string
  pv_loaded_at :: string
  pv_source :: string

text \<open>
  What the policy adapter uses of the protocol: the JSON form of a context, the decoding of a decision
  and of a version, and \<open>PolicyDecision::deny\<close>.
\<close>

record policy_env = ffi_env +
  pc_context :: "plugin_context \<Rightarrow> json"
  pc_decision :: "string \<Rightarrow> policy_decision option"
  pc_version :: "string \<Rightarrow> policy_version option"
  pc_deny :: "string \<Rightarrow> string \<Rightarrow> policy_decision"

section \<open>Tool gates\<close>

definition tool_gate_from_vtable ::
  "ffi_env \<Rightarrow> ffi_limits \<Rightarrow> 'w tool_gate_vtable \<Rightarrow> json \<Rightarrow> string
    \<Rightarrow> 'w \<Rightarrow> (anyhow, ('w tool_gate_vtable, unit) native_adapter) rresult \<times> 'w" where
  "tool_gate_from_vtable fe limits vt config alias w =
     plain_from_vtable fe limits ''tool-gate''
       ''native tool-gate plugin panicked during manifest() (empty RString returned)''
       ''invalid manifest from native tool-gate plugin'' vt None config alias w"

fun gate_fail :: "string \<Rightarrow> dispatch_fail \<Rightarrow> gate_decision" where
  "gate_fail plugin_id TimedOut = Deny 504 (- 32603) (''native plugin '' @ quoted plugin_id @ '' timed out'') None"
| "gate_fail plugin_id Panicked = Deny 500 (- 32603) (''native plugin '' @ quoted plugin_id @ '' panicked'') None"

definition native_gate_pre ::
  "ffi_env \<Rightarrow> ('w tool_gate_vtable, unit) native_adapter \<Rightarrow> plugin_context \<Rightarrow> json \<Rightarrow> json option \<Rightarrow> json
    \<Rightarrow> ('w, gate_decision) fut" where
  "native_gate_pre fe a ctx arguments meta config =
     dispatch_tier1 (na_inline_fast a) (fl_data_timeout (na_limits a))
       (tgv_evaluate_pre_dispatch (na_vtable a) (na_handle a) ctx (to_string_or fe ''null'' arguments)
         (map_option (to_string_or fe ''null'') meta) (to_string_or fe ''{}'' config))
       (gate_fail (m_id (na_manifest a)))"

definition native_gate_post ::
  "ffi_env \<Rightarrow> ('w tool_gate_vtable, unit) native_adapter \<Rightarrow> plugin_context \<Rightarrow> json \<Rightarrow> json \<Rightarrow> nat \<Rightarrow> json
    \<Rightarrow> ('w, gate_decision) fut" where
  "native_gate_post fe a ctx arguments result execution_duration_ms config =
     dispatch_tier1 (na_inline_fast a) (fl_data_timeout (na_limits a))
       (tgv_evaluate_post_dispatch (na_vtable a) (na_handle a) ctx (to_string_or fe ''null'' arguments)
         (to_string_or fe ''null'' result) execution_duration_ms (to_string_or fe ''{}'' config))
       (gate_fail (m_id (na_manifest a)))"

definition native_tool_gate :: "ffi_env \<Rightarrow> ('w tool_gate_vtable, unit) native_adapter \<Rightarrow> 'w tool_gate_plugin" where
  "native_tool_gate fe a =
     \<lparr>tg_manifest = na_manifest a, tg_evaluate_pre_dispatch = native_gate_pre fe a,
      tg_evaluate_post_dispatch = native_gate_post fe a, tg_shutdown = adapter_shutdown a\<rparr>"

section \<open>Transforms\<close>

definition transform_from_vtable ::
  "ffi_env \<Rightarrow> ffi_limits \<Rightarrow> 'w transform_vtable \<Rightarrow> json \<Rightarrow> string
    \<Rightarrow> 'w \<Rightarrow> (anyhow, ('w transform_vtable, unit) native_adapter) rresult \<times> 'w" where
  "transform_from_vtable fe limits vt config alias w =
     plain_from_vtable fe limits ''transform''
       ''native transform plugin panicked during manifest() (empty RString returned)''
       ''invalid manifest from native transform plugin'' vt None config alias w"

fun transform_fail :: "string \<Rightarrow> dispatch_fail \<Rightarrow> transform_result" where
  "transform_fail plugin_id TimedOut = TransformError (''native transform '' @ quoted plugin_id @ '' timed out'')"
| "transform_fail plugin_id Panicked = TransformError (''native transform '' @ quoted plugin_id @ '' panicked'')"

definition native_transform_arguments ::
  "ffi_env \<Rightarrow> ('w transform_vtable, unit) native_adapter \<Rightarrow> plugin_context \<Rightarrow> json \<Rightarrow> json \<Rightarrow> ('w, transform_result) fut" where
  "native_transform_arguments fe a ctx arguments config =
     dispatch_tier1 (na_inline_fast a) (fl_data_timeout (na_limits a))
       (tfv_transform_arguments (na_vtable a) (na_handle a) ctx (to_string_or fe ''null'' arguments) (to_string_or fe ''{}'' config))
       (transform_fail (m_id (na_manifest a)))"

definition native_transform_result ::
  "ffi_env \<Rightarrow> ('w transform_vtable, unit) native_adapter \<Rightarrow> plugin_context \<Rightarrow> json \<Rightarrow> json \<Rightarrow> ('w, transform_result) fut" where
  "native_transform_result fe a ctx result config =
     dispatch_tier1 (na_inline_fast a) (fl_data_timeout (na_limits a))
       (tfv_transform_result (na_vtable a) (na_handle a) ctx (to_string_or fe ''null'' result) (to_string_or fe ''{}'' config))
       (transform_fail (m_id (na_manifest a)))"

definition native_transform :: "ffi_env \<Rightarrow> ('w transform_vtable, unit) native_adapter \<Rightarrow> 'w transform_plugin" where
  "native_transform fe a =
     \<lparr>tf_manifest = na_manifest a, tf_transform_arguments = native_transform_arguments fe a,
      tf_transform_result = native_transform_result fe a, tf_shutdown = adapter_shutdown a\<rparr>"

section \<open>Identity providers\<close>

definition identity_from_vtable ::
  "ffi_env \<Rightarrow> ffi_limits \<Rightarrow> 'w identity_vtable \<Rightarrow> nat option \<Rightarrow> json \<Rightarrow> string
    \<Rightarrow> 'w \<Rightarrow> (anyhow, ('w identity_vtable, unit) native_adapter) rresult \<times> 'w" where
  "identity_from_vtable fe limits vt cluster config alias w =
     plain_from_vtable fe limits ''identity''
       ''native identity plugin panicked during manifest() (empty RString returned)''
       ''invalid manifest from native identity plugin'' vt cluster config alias w"

fun identity_fail :: "string \<Rightarrow> dispatch_fail \<Rightarrow> identity_resolution" where
  "identity_fail plugin_id TimedOut = IdInvalid (''native identity '' @ quoted plugin_id @ '' timed out'') []"
| "identity_fail plugin_id Panicked = IdInvalid (''native identity '' @ quoted plugin_id @ '' panicked'') []"

definition headers_json :: "(string \<times> string) list \<Rightarrow> json" where
  "headers_json headers = JArray (map (\<lambda>(k, v). JArray [JString k, JString v]) headers)"

definition native_resolve_identity ::
  "ffi_env \<Rightarrow> ('w identity_vtable, unit) native_adapter \<Rightarrow> (string \<times> string) list \<Rightarrow> request_metadata \<Rightarrow> json
    \<Rightarrow> ('w, identity_resolution) fut" where
  "native_resolve_identity fe a headers metadata config =
     dispatch_tier1 (na_inline_fast a) (fl_data_timeout (na_limits a))
       (idv_resolve_identity (na_vtable a) (na_handle a) (to_string_or fe ''[]'' (headers_json headers))
         (to_string_or fe ''{}'' metadata) (to_string_or fe ''{}'' config))
       (identity_fail (m_id (na_manifest a)))"

text \<open>The adapter has no \<open>shutdown\<close> of its own: it inherits the empty one of the trait.\<close>

definition native_identity :: "ffi_env \<Rightarrow> ('w identity_vtable, unit) native_adapter \<Rightarrow> 'w identity_plugin" where
  "native_identity fe a =
     \<lparr>ip_manifest = na_manifest a, ip_resolve_identity = native_resolve_identity fe a, ip_shutdown = fut_unit\<rparr>"

section \<open>Policy engines\<close>

definition policy_from_vtable ::
  "('e) ffi_env_scheme \<Rightarrow> ffi_limits \<Rightarrow> 'w policy_vtable \<Rightarrow> nat option \<Rightarrow> json \<Rightarrow> string
    \<Rightarrow> 'w \<Rightarrow> (anyhow, ('w policy_vtable, string) native_adapter) rresult \<times> 'w" where
  "policy_from_vtable fe limits vt cluster config alias w =
     bind_made (make_instance (ffi_env.truncate fe) ''policy_engine'' ''native policy_engine plugin returned empty manifest''
         ''invalid manifest from policy_engine'' vt cluster config alias w)
       (\<lambda>(h, raw, m) w1.
          bind_made (read_slot vt h (pev_name vt h) (non_empty ''native policy_engine plugin returned empty name'') w1)
            (\<lambda>name w2. (Inr (new_adapter limits vt h m alias name), w2)))"

definition native_evaluate ::
  "policy_env \<Rightarrow> ('w policy_vtable, string) native_adapter \<Rightarrow> string \<Rightarrow> json \<Rightarrow> plugin_context \<Rightarrow> ('w, policy_decision) fut" where
  "native_evaluate fe a decision_point input context =
     (let plugin_id = m_id (na_manifest a);
          args = json_obj [(''decision_point'', JString decision_point), (''input'', input), (''context'', pc_context fe context)];
          args_str = unwrap_or ''{}'' (fe_to_string fe args);
          refuse = (\<lambda>what. pc_deny fe (''native plugin '' @ quoted plugin_id @ what) [])
      in ferry (fl_data_timeout (na_limits a)) (pev_evaluate (na_vtable a) (na_handle a) args_str)
           (\<lambda>r. case r of
                  Joined raw \<Rightarrow>
                    if raw = [] then refuse '' panicked''
                    else (case pc_decision fe raw of Some d \<Rightarrow> d | None \<Rightarrow> refuse '' returned malformed decision'')
                | JoinError e \<Rightarrow> refuse '' panicked''
                | Elapsed \<Rightarrow> refuse '' timed out''))"

definition native_policy_version ::
  "policy_env \<Rightarrow> ('w policy_vtable, string) native_adapter \<Rightarrow> ('w, policy_version) fut" where
  "native_policy_version fe a =
     (let unknown = (\<lambda>what. \<lparr>pv_hash = ''unknown'', pv_loaded_at = [],
            pv_source = ''native plugin '' @ quoted (m_id (na_manifest a)) @ what\<rparr>)
      in ferry (fl_control_timeout (na_limits a)) (pev_policy_version (na_vtable a) (na_handle a))
           (\<lambda>r. case r of
                  Joined raw \<Rightarrow> unwrap_or (unknown '' (malformed)'') (pc_version fe raw)
                | _ \<Rightarrow> unknown '' (error)''))"

definition native_policy_engine :: "policy_env \<Rightarrow> ('w policy_vtable, string) native_adapter \<Rightarrow> 'w policy_engine" where
  "native_policy_engine fe a =
     \<lparr>pe_manifest = na_manifest a, pe_name = na_extra a, pe_evaluate = native_evaluate fe a, pe_shutdown = adapter_shutdown a\<rparr>"

section \<open>Construction\<close>

lemma chain_constructors_accounted:
  "ledger_ok live (tgv :: 'w tool_gate_vtable) \<Longrightarrow> accounted live w na_handle (tool_gate_from_vtable fe limits tgv config alias w)"
  "ledger_ok live (tfv :: 'w transform_vtable) \<Longrightarrow> accounted live w na_handle (transform_from_vtable fe limits tfv config alias w)"
  "ledger_ok live (idv :: 'w identity_vtable) \<Longrightarrow> accounted live w na_handle (identity_from_vtable fe limits idv cluster config alias w)"
  by (simp_all add: tool_gate_from_vtable_def transform_from_vtable_def identity_from_vtable_def plain_accounted)

lemma policy_accounted:
  assumes "ledger_ok live vt" and "\<And>h. undisturbed live (pev_name vt h)"
  shows "accounted live w na_handle (policy_from_vtable fe limits vt cluster config alias w)"
  unfolding policy_from_vtable_def by (rule accounted_made [OF assms])

section \<open>Stuck plugins\<close>

lemma fail_answers:
  "\<exists>s c m. gate_fail i f = Deny s c m None" "\<exists>reason. identity_fail i f = IdInvalid reason []"
  "\<exists>m. transform_fail i f = TransformError m"
  by (cases f; simp)+

lemma stuck_gate_denies:
  assumes "\<not> na_inline_fast a"
  shows "(\<And>c x m y. stuck (tgv_evaluate_pre_dispatch (na_vtable a) (na_handle a) c x m y)) \<Longrightarrow>
      \<exists>s c m. fst (await (native_gate_pre fe a ctx arguments meta config) w) = Deny s c m None"
    and "(\<And>c x m n y. stuck (tgv_evaluate_post_dispatch (na_vtable a) (na_handle a) c x m n y)) \<Longrightarrow>
      \<exists>s c m. fst (await (native_gate_post fe a ctx arguments result ms config) w) = Deny s c m None"
  using assms unfolding native_gate_pre_def native_gate_post_def
  by (metis stuck_dispatch fail_answers(1))+

lemma stuck_identity_rejects:
  assumes "\<not> na_inline_fast a" and "\<And>x y z. stuck (idv_resolve_identity (na_vtable a) (na_handle a) x y z)"
  shows "\<exists>reason. fst (await (native_resolve_identity fe a headers metadata config) w) = IdInvalid reason []"
  using assms unfolding native_resolve_identity_def by (metis stuck_dispatch fail_answers(2))

lemma stuck_transform_fails:
  assumes "\<not> na_inline_fast a"
  shows "(\<And>c x y. stuck (tfv_transform_arguments (na_vtable a) (na_handle a) c x y)) \<Longrightarrow>
      \<exists>m. fst (await (native_transform_arguments fe a ctx arguments config) w) = TransformError m"
    and "(\<And>c x y. stuck (tfv_transform_result (na_vtable a) (na_handle a) c x y)) \<Longrightarrow>
      \<exists>m. fst (await (native_transform_result fe a ctx result config) w) = TransformError m"
  using assms unfolding native_transform_arguments_def native_transform_result_def
  by (metis stuck_dispatch fail_answers(3))+

lemma stuck_policy_denies:
  assumes "\<And>x. stuck (pev_evaluate (na_vtable a) (na_handle a) x)"
  shows "\<exists>reason. fst (await (native_evaluate fe a point input context) w) = pc_deny fe reason []"
proof -
  let ?args = "unwrap_or ''{}'' (fe_to_string fe (json_obj [(''decision_point'', JString point), (''input'', input),
      (''context'', pc_context fe context)]))"
  have "fst (fs_ferried (pev_evaluate (na_vtable a) (na_handle a) ?args) t w) \<noteq> Joined v" for t v
    using assms by (simp add: stuck_def)
  then show ?thesis
    by (cases "fst (fs_ferried (pev_evaluate (na_vtable a) (na_handle a) ?args) (fl_data_timeout (na_limits a)) w)")
      (auto simp: native_evaluate_def Let_def)
qed

text \<open>What a chain makes of a member whose answer is always the failure of its class.\<close>

lemma deny_blocks: "lp_enforce p \<Longrightarrow> \<exists>s c m. d = Deny s c m e \<Longrightarrow> gate_blocks p d"
  by auto

lemma always_denying_gate_pre:
  fixes r :: "'w registry"
  assumes p: "p \<in> set (tool_gate_chain r)" "serving p" "lp_enforce p"
    and deny: "\<And>c x m y v. \<exists>s k t. fst (await (tg_evaluate_pre_dispatch (lp_instance p) c x m y) v) = Deny s k t None"
  shows "fst (evaluate_tool_gates_pre_from env rt r ctx arguments meta upstream client_ip w) \<noteq> Allow md ma mr"
proof -
  have "gate_blocks p (pre_decide ctx meta client_ip p a v)" for a v
    unfolding pre_decide_def by (rule deny_blocks [OF p(3) deny])
  from pre_gates.always_blocked [OF p(1,2) this] obtain d w1 where
    run: "run_chain serving (gate_pre_step env rt r ctx meta upstream client_ip) (tool_gate_chain r) (gate_acc_init arguments) w = (Inl d, w1)"
    by blast
  from pre_gates.outcome_Inl [OF run] obtain q :: "'w tool_gate_plugin chain_entry" and e
    where "d = e" "gate_blocks q e" by blast
  moreover have "tool_gate_chain r \<noteq> []" using p(1) by auto
  ultimately show ?thesis using run by (auto simp: evaluate_tool_gates_pre_from_def)
qed

lemma always_denying_gate_post:
  fixes r :: "'w registry"
  assumes p: "p \<in> set (tool_gate_chain r)" "serving p" "lp_enforce p"
    and deny: "\<And>c x m n y v. \<exists>s k t. fst (await (tg_evaluate_post_dispatch (lp_instance p) c x m n y) v) = Deny s k t None"
  shows "fst (evaluate_tool_gates_post env rt r ctx arguments res ms upstream w) \<noteq> Allow md ma mr"
proof -
  have "gate_blocks p (post_decide ctx arguments ms p a v)" for a v
    unfolding post_decide_def by (rule deny_blocks [OF p(3) deny])
  from post_gates.always_blocked [OF p(1,2) this] obtain d w1 where
    run: "run_chain serving (gate_post_step env ctx arguments ms) (tool_gate_chain r) (post_acc_init res) w = (Inl d, w1)"
    by blast
  from post_gates.outcome_Inl [OF run] obtain q :: "'w tool_gate_plugin chain_entry" and e
    where "d = post_out q e" "gate_blocks q e" by blast
  moreover have "tool_gate_chain r \<noteq> []" using p(1) by auto
  ultimately show ?thesis using run by (auto simp: evaluate_tool_gates_post_def post_out_not_allow)
qed

lemma always_rejecting_identity:
  fixes r :: "'w registry"
  assumes p: "identity_chain r = us @ p # vs" "serving p"
    and reject: "\<And>h m c v. \<exists>reason. fst (await (ip_resolve_identity (lp_instance p) h m c) v) = IdInvalid reason []"
  shows "\<exists>reason. fst (resolve_identity r headers metadata w) =
    (case fst (resolve_identity (r\<lparr>identity_chain := us\<rparr>) headers metadata w) of
       NoCredential \<Rightarrow> RejectedCredential (m_id (lp_manifest p)) reason []
     | earlier \<Rightarrow> earlier)"
proof -
  obtain o1 w1 where run: "run_chain serving (identity_step headers metadata) us () w = (o1, w1)" by fastforce
  obtain reason where a: "fst (await (ip_resolve_identity (lp_instance p) headers metadata (lp_config p)) w1) = IdInvalid reason []"
    using reject by blast
  have "fst (identity_step headers metadata p () w1) = Inl (RejectedCredential (m_id (lp_manifest p)) reason [])"
    by (simp add: identity_step_def case_prod_beta a)
  then obtain w2 where step: "identity_step headers metadata p () w1 = (Inl (RejectedCredential (m_id (lp_manifest p)) reason []), w2)"
    by (metis prod.collapse)
  show ?thesis
  proof (cases o1)
    case (Inl d)
    from identities.outcome_Inl [OF run [unfolded Inl]] obtain q :: "'w identity_plugin chain_entry" and e
      where "d = identity_out q e" "e \<noteq> IdNone" by blast
    then have "d \<noteq> NoCredential" by (cases e) simp_all
    with run Inl p(1) show ?thesis by (simp add: resolve_identity_def run_chain_append split: chain_identity_outcome.split)
  next
    case (Inr u)
    with run step p show ?thesis by (auto simp: resolve_identity_def run_chain_append)
  qed
qed

lemma always_denying_policy:
  assumes n: "n \<in> set engines" "policy_engine_by_name r n = Some e"
    and deny: "\<And>p i c v. pd_effect (fst (await (pe_evaluate e p i c) v)) = EffDeny"
  shows "\<exists>m reason v. fst (evaluate_policy_chain r engines point input ctx w) = PolicyDeny m reason v"
proof -
  have known: "engine_known r n" using n(2) by (simp add: engine_known_def)
  have "policy_blocks n (policy_decide r point input ctx n a v)" for a v
    using deny by (simp add: policy_blocks_def policy_decide_def n(2))
  from policies.always_blocked [OF n(1) known this] obtain d w1 where
    run: "run_chain (engine_known r) (policy_step r point input ctx) engines None w = (Inl d, w1)" by blast
  from policies.outcome_Inl [OF run] obtain q f where "d = policy_out q f" "policy_blocks q f" by blast
  then have "\<exists>m reason v. d = PolicyDeny m reason v" by (cases f) (simp_all add: policy_blocks_def policy_out_def)
  moreover have "engines \<noteq> []" using n(1) by auto
  ultimately show ?thesis using run by (simp add: evaluate_policy_chain_def)
qed

section \<open>Properties\<close>

definition deny_denies :: "policy_env \<Rightarrow> bool" where
  "deny_denies fe \<longleftrightarrow> (\<forall>reason v. pd_effect (pc_deny fe reason v) = EffDeny)"

text \<open>
  C8. A native plugin that hangs or dies never opens the way. When an enforcing gate that serves traffic is a
  native one whose slots never answer, no call passes the chain, before or after the tool. A native
  identity provider that never answers authenticates nobody: a request that no provider before it recognises is
  refused, in its name, and so neither anonymous nor passed to the providers behind it (a request an earlier
  one accepts or refuses keeps that outcome). A native policy engine that never
  answers makes every chain it is part of deny. A native transform that never answers is different:
  its step leaves the value as it is and the chain goes on with it.
\<close>

theorem stuck_native_plugin_fails_closed:
  fixes g :: "('w tool_gate_vtable, unit) native_adapter" and i :: "('w identity_vtable, unit) native_adapter"
    and t :: "('w transform_vtable, unit) native_adapter" and q :: "('w policy_vtable, string) native_adapter"
  assumes inline: "\<not> na_inline_fast g" "\<not> na_inline_fast i" "\<not> na_inline_fast t"
    and hang: "\<And>c x m y. stuck (tgv_evaluate_pre_dispatch (na_vtable g) (na_handle g) c x m y)"
      "\<And>c x m n y. stuck (tgv_evaluate_post_dispatch (na_vtable g) (na_handle g) c x m n y)"
      "\<And>x y z. stuck (idv_resolve_identity (na_vtable i) (na_handle i) x y z)"
      "\<And>c x y. stuck (tfv_transform_arguments (na_vtable t) (na_handle t) c x y)"
      "\<And>x. stuck (pev_evaluate (na_vtable q) (na_handle q) x)"
    and ok: "deny_denies pe"
  shows "(p \<in> set (tool_gate_chain r) \<longrightarrow> serving p \<longrightarrow> lp_enforce p \<longrightarrow> lp_instance p = native_tool_gate fe g \<longrightarrow>
      (\<forall>md ma mr. fst (evaluate_tool_gates_pre_from env rt r ctx arguments meta upstream client_ip w) \<noteq> Allow md ma mr
         \<and> fst (evaluate_tool_gates_post env rt r ctx arguments res ms upstream w) \<noteq> Allow md ma mr))
    \<and> (identity_chain r = us @ pi # vs \<longrightarrow> serving pi \<longrightarrow> ip_resolve_identity (lp_instance pi) = native_resolve_identity fe i \<longrightarrow>
      (\<exists>reason. fst (resolve_identity r headers metadata w) =
        (case fst (resolve_identity (r\<lparr>identity_chain := us\<rparr>) headers metadata w) of
           NoCredential \<Rightarrow> RejectedCredential (m_id (lp_manifest pi)) reason []
         | earlier \<Rightarrow> earlier)))
    \<and> (n \<in> set engines \<longrightarrow> policy_engine_by_name r n = Some e \<longrightarrow> pe_evaluate e = native_evaluate pe q \<longrightarrow>
      (\<exists>m reason v. fst (evaluate_policy_chain r engines point input ctx w) = PolicyDeny m reason v))
    \<and> (lp_instance pt = native_transform fe t \<longrightarrow>
      fst (transform_step env rt r ctx phase tf_transform_arguments pt current w) = Inr current)"
proof (intro conjI impI allI)
  assume p: "p \<in> set (tool_gate_chain r)" "serving p" "lp_enforce p" and nat: "lp_instance p = native_tool_gate fe g"
  fix md ma mr
  show "fst (evaluate_tool_gates_pre_from env rt r ctx arguments meta upstream client_ip w) \<noteq> Allow md ma mr"
    by (rule always_denying_gate_pre [OF p]) (simp add: nat native_tool_gate_def stuck_gate_denies(1) [OF inline(1) hang(1)])
  show "fst (evaluate_tool_gates_post env rt r ctx arguments res ms upstream w) \<noteq> Allow md ma mr"
    by (rule always_denying_gate_post [OF p]) (simp add: nat native_tool_gate_def stuck_gate_denies(2) [OF inline(1) hang(2)])
next
  assume p: "identity_chain r = us @ pi # vs" "serving pi" and nat: "ip_resolve_identity (lp_instance pi) = native_resolve_identity fe i"
  show "\<exists>reason. fst (resolve_identity r headers metadata w) =
      (case fst (resolve_identity (r\<lparr>identity_chain := us\<rparr>) headers metadata w) of
         NoCredential \<Rightarrow> RejectedCredential (m_id (lp_manifest pi)) reason []
       | earlier \<Rightarrow> earlier)"
    by (rule always_rejecting_identity [OF p]) (simp add: nat stuck_identity_rejects [OF inline(2) hang(3)])
next
  assume n: "n \<in> set engines" "policy_engine_by_name r n = Some e" and nat: "pe_evaluate e = native_evaluate pe q"
  have "pd_effect (fst (await (native_evaluate pe q p i c) v)) = EffDeny" for p i c v
    using stuck_policy_denies [of q pe p i c v, OF hang(5)] ok by (auto simp: deny_denies_def)
  with nat show "\<exists>m reason v. fst (evaluate_policy_chain r engines point input ctx w) = PolicyDeny m reason v"
    by (intro always_denying_policy [OF n]) simp
next
  assume nat: "lp_instance pt = native_transform fe t"
  from stuck_transform_fails(1) [OF inline(3) hang(4), of fe ctx current "lp_config pt" w] obtain m where
    "fst (await (native_transform_arguments fe t ctx current (lp_config pt)) w) = TransformError m" by blast
  then show "fst (transform_step env rt r ctx phase tf_transform_arguments pt current w) = Inr current"
    by (simp add: transform_step_def nat native_transform_def case_prod_beta)
qed


text \<open>Plugins whose slots hang.\<close>

definition sample_base :: "trace base_vtable" where
  "sample_base = \<lparr>bv_make = (\<lambda>r c n w. (Some 1, w)), bv_manifest_json = (\<lambda>h w. (Some ''{}'', w)),
     bv_shutdown = (\<lambda>h w. (Some (), w)), bv_drop_instance = (\<lambda>h w. (Some (), w))\<rparr>"

definition sample_limits :: ffi_limits where
  "sample_limits = \<lparr>fl_lifecycle_timeout = 30000, fl_control_timeout = 30000, fl_data_timeout = 5000, fl_max_payload_bytes = 1000\<rparr>"

definition sample_policy_env :: policy_env where
  "sample_policy_env = \<lparr>fe_to_string = (\<lambda>j. Some ''x''), fe_manifest = (\<lambda>s. Inr (sample_manifest s)),
     pc_context = (\<lambda>c. JNull), pc_decision = (\<lambda>s. None), pc_version = (\<lambda>s. None),
     pc_deny = (\<lambda>reason v. \<lparr>pd_effect = EffDeny, pd_reason = Some reason, pd_policy_version = v\<rparr>)\<rparr>"

definition hung_gate :: "(trace tool_gate_vtable, unit) native_adapter" where
  "hung_gate = new_adapter sample_limits (base_vtable.extend sample_base
     (tool_gate_vtable.fields (\<lambda>h c x m y. hung_slot (Allow None None None)) (\<lambda>h c x m n y. hung_slot (Allow None None None))))
     1 (sample_manifest ''n1'') ''n1'' ()"

definition hung_transform :: "(trace transform_vtable, unit) native_adapter" where
  "hung_transform = new_adapter sample_limits (base_vtable.extend sample_base
     (transform_vtable.fields (\<lambda>h c x y. hung_slot Unchanged) (\<lambda>h c x y. hung_slot Unchanged))) 1 (sample_manifest ''n2'') ''n2'' ()"

definition hung_identity :: "(trace identity_vtable, unit) native_adapter" where
  "hung_identity = new_adapter sample_limits (base_vtable.extend sample_base
     (identity_vtable.fields (\<lambda>h x y z. hung_slot IdNone))) 1 (sample_manifest ''n3'') ''n3'' ()"

definition hung_policy :: "(trace policy_vtable, string) native_adapter" where
  "hung_policy = new_adapter sample_limits (base_vtable.extend sample_base
     (policy_vtable.fields (\<lambda>h w. (''p'', w)) (\<lambda>h x. hung_slot []) (\<lambda>h. hung_slot []))) 1 (sample_manifest ''n4'') ''n4'' ''p''"

lemma hung_samples:
  "stuck (tgv_evaluate_pre_dispatch (na_vtable hung_gate) h c x m y)"
  "stuck (tgv_evaluate_post_dispatch (na_vtable hung_gate) h c x z n y)"
  "stuck (idv_resolve_identity (na_vtable hung_identity) h x x' z)"
  "stuck (tfv_transform_arguments (na_vtable hung_transform) h c x y)"
  "stuck (pev_evaluate (na_vtable hung_policy) h x)"
  "\<not> na_inline_fast hung_gate" "\<not> na_inline_fast hung_identity" "\<not> na_inline_fast hung_transform"
  "deny_denies sample_policy_env"
  by (simp_all add: hung_gate_def hung_identity_def hung_transform_def hung_policy_def sample_base_def
      base_vtable.defs tool_gate_vtable.defs identity_vtable.defs transform_vtable.defs policy_vtable.defs
      deny_denies_def sample_policy_env_def)

definition hung_registry :: "trace registry" where
  "hung_registry = registry_new\<lparr>tool_gate_chain := [new_chain_entry ''n1'' (sample_manifest ''n1'') [] JNull True 0
     (native_tool_gate (ffi_env.truncate sample_policy_env) hung_gate)]\<rparr>"

theorem stuck_native_plugin_fails_closed_witness:
  "\<forall>md ma mr. fst (evaluate_tool_gates_pre_from sample_env sample_runtime hung_registry sample_context JNull None None None [])
     \<noteq> Allow md ma mr"
proof -
  note law = stuck_native_plugin_fails_closed [OF hung_samples(6-8) hung_samples(1-5) hung_samples(9), THEN conjunct1]
  show ?thesis
    using law [of "hd (tool_gate_chain hung_registry)" hung_registry "ffi_env.truncate sample_policy_env" sample_env sample_runtime
        sample_context JNull None None None "[]"]
    by (simp add: hung_registry_def new_chain_entry_def serving_def)
qed

end
