(* ===== verification/Wasm.thy ===== *)
theory Wasm
  imports Native_Load Native_Chains "HOL-Library.Word"
begin

text \<open>
  The loader of WASM plugins (\<open>wasm.rs\<close>): the types of the component interface and their conversions, the limits of a
  store, the epoch ticker, the load of a component, and the adapters of tool gates, transforms and identity
  providers, which are plugin objects of the protocol.

  The engine is a parameter (\<open>wasm_env\<close>), and so are the guests: instantiating a component and calling an export of an
  instance runs guest code on the world \<open>'w\<close>. A store is the record of what the host asked for when it made it.
  The blocking pool is the parameter \<open>blocking\<close>: \<open>b f t w\<close> is \<open>timeout(t, spawn_blocking(f)).await\<close>. Numbers that are
  \<open>u64\<close> in the source are 64-bit words here; their addition wraps, as in a release build.
\<close>

section \<open>Types of the interface\<close>

record wit_identity =
  wi_kind :: string
  wi_trust_level :: string
  wi_subject_id :: "string option"
  wi_auth_provider :: "string option"
  wi_issuer :: "string option"
  wi_roles :: "string list"
  wi_groups :: "string list"
  wi_scopes :: "string list"
  wi_attributes :: "(string \<times> string) list"

record wit_context =
  wc_request_id :: string
  wc_session_id :: "string option"
  wc_tool_name :: string
  wc_surface :: string
  wc_identity :: wit_identity
  wc_transport :: string

record wit_manifest =
  wm_id :: string
  wm_version :: string
  wm_name :: string
  wm_plugin_class :: string
  wm_protocol_version :: string

datatype wit_gate_decision =
    WitAllow "string option" "string option" "string option"
  | WitDeny int int string "string option"
  | WitChallenge int int string string

datatype wit_transform_result = WitUnchanged | WitModified string | WitError string

datatype wit_identity_resolution = WitResolved wit_identity | WitNone | WitInvalid string

text \<open>
  The engine, the WASI linker, \<open>serde_json\<close>, and the version of the protocol crate. \<open>we_fuel_enabled\<close> is whether
  \<open>set_fuel\<close> works on a store of this engine.
\<close>

record wasm_config =
  cf_consume_fuel :: bool
  cf_epoch_interruption :: bool
  cf_component_model :: bool

record ('e, 'c) wasm_env =
  we_engine_new :: "wasm_config \<Rightarrow> (string, 'e) rresult"
  we_fuel_enabled :: "'e \<Rightarrow> bool"
  we_add_wasi :: "string list \<Rightarrow> (string, string list) rresult"
  we_from_binary :: "'e \<Rightarrow> string \<Rightarrow> (string, 'c) rresult"
  we_from_str :: "string \<Rightarrow> (string, json) rresult"
  we_to_string :: "json \<Rightarrow> string"
  we_protocol_version :: string

definition ok_opt :: "('e, 'a) rresult \<Rightarrow> 'a option" where
  "ok_opt r = (case r of Inl _ \<Rightarrow> None | Inr a \<Rightarrow> Some a)"

definition wm_context :: "string \<Rightarrow> (string, 'a) rresult \<Rightarrow> (anyhow, 'a) rresult" where
  "wm_context msg r = (case r of Inl e \<Rightarrow> Inl [msg @ '': '' @ e] | Inr a \<Rightarrow> Inr a)"

section \<open>Conversions\<close>

definition to_wit_identity :: "identity \<Rightarrow> wit_identity" where
  "to_wit_identity i =
     \<lparr>wi_kind = id_kind i, wi_trust_level = id_trust_level i, wi_subject_id = id_subject_id i,
      wi_auth_provider = id_auth_provider i, wi_issuer = id_issuer i, wi_roles = id_roles i, wi_groups = id_groups i,
      wi_scopes = id_scopes i, wi_attributes = map (\<lambda>(k, v). (k, v)) (id_attributes i)\<rparr>"

definition to_wit_context :: "plugin_context \<Rightarrow> wit_context" where
  "to_wit_context ctx =
     \<lparr>wc_request_id = cx_request_id ctx, wc_session_id = cx_session_id ctx, wc_tool_name = cx_tool_name ctx,
      wc_surface = cx_surface ctx, wc_identity = to_wit_identity (cx_identity ctx), wc_transport = cx_transport ctx\<rparr>"

fun from_wit_transform_result :: "('e, 'c) wasm_env \<Rightarrow> wit_transform_result \<Rightarrow> transform_result" where
  "from_wit_transform_result we WitUnchanged = Unchanged"
| "from_wit_transform_result we (WitModified json_str) =
     (case we_from_str we json_str of
        Inr value \<Rightarrow> Modified value
      | Inl e \<Rightarrow> TransformError (''wasm transform returned invalid JSON: '' @ e))"
| "from_wit_transform_result we (WitError msg) = TransformError msg"

definition parse_optional_json :: "('e, 'c) wasm_env \<Rightarrow> string option \<Rightarrow> json option" where
  "parse_optional_json we value =
     (case value of
        None \<Rightarrow> None
      | Some s \<Rightarrow> if s = [] then None else ok_opt (we_from_str we s))"

fun from_wit_gate_decision :: "('e, 'c) wasm_env \<Rightarrow> wit_gate_decision \<Rightarrow> gate_decision" where
  "from_wit_gate_decision we (WitAllow metadata modified_arguments modified_result) =
     Allow (parse_optional_json we metadata) (parse_optional_json we modified_arguments) (parse_optional_json we modified_result)"
| "from_wit_gate_decision we (WitDeny http_status code message error_data) =
     Deny http_status code message (Option.bind error_data (\<lambda>s. ok_opt (we_from_str we s)))"
| "from_wit_gate_decision we (WitChallenge http_status code message challenge_data) =
     Challenge http_status code message (unwrap_or JNull (ok_opt (we_from_str we challenge_data)))"

definition from_wit_identity :: "wit_identity \<Rightarrow> identity" where
  "from_wit_identity pi =
     \<lparr>id_kind = wi_kind pi, id_trust_level = wi_trust_level pi, id_subject_id = wi_subject_id pi,
      id_auth_provider = wi_auth_provider pi, id_issuer = wi_issuer pi, id_roles = wi_roles pi, id_groups = wi_groups pi,
      id_scopes = wi_scopes pi, id_attributes = fold (\<lambda>(k, v) m. bt_insert k v m) (wi_attributes pi) []\<rparr>"

fun from_wit_identity_resolution :: "wit_identity_resolution \<Rightarrow> identity_resolution" where
  "from_wit_identity_resolution (WitResolved pi) = IdResolved (from_wit_identity pi)"
| "from_wit_identity_resolution WitNone = IdNone"
| "from_wit_identity_resolution (WitInvalid reason) = IdInvalid reason []"

section \<open>Limits and stores\<close>

record wasm_limits =
  wl_memory_limit_bytes :: nat
  wl_fuel_per_invocation :: "64 word"
  wl_timeout_ms :: "64 word"

definition default_wasm_limits :: wasm_limits where
  "default_wasm_limits = \<lparr>wl_memory_limit_bytes = 64 * 1024 * 1024, wl_fuel_per_invocation = 10000000, wl_timeout_ms = 100\<rparr>"

text \<open>The state behind a store: the limits, and what was added to the WASI context and to the resource table.\<close>

record plugin_host_state =
  ph_limits :: wasm_limits
  ph_wasi_grants :: "string list"
  ph_resource_table :: "string list"

definition memory_growing :: "plugin_host_state \<Rightarrow> nat \<Rightarrow> nat \<Rightarrow> nat option \<Rightarrow> bool" where
  "memory_growing st current desired maximum = (desired \<le> wl_memory_limit_bytes (ph_limits st))"

definition table_growing :: "plugin_host_state \<Rightarrow> nat \<Rightarrow> nat \<Rightarrow> nat option \<Rightarrow> bool" where
  "table_growing st current desired maximum = True"

definition new_wasi_ctx :: "string list" where
  "new_wasi_ctx = []"

definition new_host_state :: "wasm_limits \<Rightarrow> plugin_host_state" where
  "new_host_state limits = \<lparr>ph_limits = limits, ph_wasi_grants = new_wasi_ctx, ph_resource_table = []\<rparr>"

text \<open>
  What the host set on a store: the limiter (the one of which host state), the fuel, whether an epoch deadline traps,
  and the deadline, in ticks from now on.
\<close>

record 'e wasm_store =
  ws_engine :: 'e
  ws_state :: plugin_host_state
  ws_limiter :: "(nat \<Rightarrow> nat \<Rightarrow> nat option \<Rightarrow> bool) option"
  ws_fuel :: "64 word option"
  ws_deadline_traps :: bool
  ws_deadline :: "64 word option"

definition store_new :: "'e \<Rightarrow> plugin_host_state \<Rightarrow> 'e wasm_store" where
  "store_new engine st =
     \<lparr>ws_engine = engine, ws_state = st, ws_limiter = None, ws_fuel = None, ws_deadline_traps = False, ws_deadline = None\<rparr>"

definition new_limited_store :: "'e \<Rightarrow> wasm_limits \<Rightarrow> 'e wasm_store" where
  "new_limited_store engine limits =
     (let store = store_new engine (new_host_state limits)
      in store\<lparr>ws_limiter := Some (memory_growing (ws_state store))\<rparr>)"

text \<open>\<open>store.set_fuel(n).ok()\<close>: without fuel in the engine nothing is set, and nobody hears of it.\<close>

definition set_fuel_ok :: "('e, 'c) wasm_env \<Rightarrow> 64 word \<Rightarrow> 'e wasm_store \<Rightarrow> 'e wasm_store" where
  "set_fuel_ok we n store = (if we_fuel_enabled we (ws_engine store) then store\<lparr>ws_fuel := Some n\<rparr> else store)"

definition set_epoch_deadline :: "64 word \<Rightarrow> 'e wasm_store \<Rightarrow> 'e wasm_store" where
  "set_epoch_deadline ticks store = store\<lparr>ws_deadline_traps := True, ws_deadline := Some ticks\<rparr>"

definition TICK_MS :: "64 word" where
  "TICK_MS = 10"

definition deadline_ticks :: "64 word \<Rightarrow> 64 word" where
  "deadline_ticks timeout_ms = max (timeout_ms div TICK_MS) 1"

definition build_invocation_store ::
  "('e, 'c) wasm_env \<Rightarrow> 'e \<Rightarrow> wasm_limits \<Rightarrow> (anyhow, 'e wasm_store \<times> string list) rresult" where
  "build_invocation_store we engine limits =
     (let store = set_epoch_deadline (deadline_ticks (wl_timeout_ms limits))
                    (set_fuel_ok we (wl_fuel_per_invocation limits) (new_limited_store engine limits))
      in try_then (wm_context ''failed to link WASI'' (we_add_wasi we [])) (\<lambda>linker. Inr (store, linker)))"

definition create_wasm_engine :: "('e, 'c) wasm_env \<Rightarrow> (anyhow, 'e) rresult" where
  "create_wasm_engine we =
     wm_context ''failed to create wasmtime engine''
       (we_engine_new we \<lparr>cf_consume_fuel = True, cf_epoch_interruption = True, cf_component_model = True\<rparr>)"

section \<open>The epoch ticker\<close>

text \<open>
  A ticker is started at some millisecond and dropped at another one, if at all. Its thread looks at the stop flag,
  sleeps for \<open>TICK_MS\<close> and increments the epoch; a sleep takes as long as it was asked for. \<open>ticks_until\<close> counts the
  increments up to the time \<open>t\<close>.
\<close>

record epoch_ticker =
  et_started :: nat
  et_stop :: "nat option"

definition ticker_start :: "nat \<Rightarrow> epoch_ticker" where
  "ticker_start now = \<lparr>et_started = now, et_stop = None\<rparr>"

definition ticker_drop :: "nat \<Rightarrow> epoch_ticker \<Rightarrow> epoch_ticker" where
  "ticker_drop now tk = tk\<lparr>et_stop := Some now\<rparr>"

definition stopped_at :: "nat option \<Rightarrow> nat \<Rightarrow> bool" where
  "stopped_at stop now = (case stop of None \<Rightarrow> False | Some s \<Rightarrow> s \<le> now)"

function ticks_until :: "nat option \<Rightarrow> nat \<Rightarrow> nat \<Rightarrow> nat" where
  "ticks_until stop now t =
     (if stopped_at stop now then 0
      else if now + unat TICK_MS \<le> t then Suc (ticks_until stop (now + unat TICK_MS) t)
      else 0)"
  by pat_completeness auto
termination by (relation "measure (\<lambda>(stop, now, t). t - now)") (auto simp: TICK_MS_def)

declare ticks_until.simps [simp del]

text \<open>The epoch of an engine: every ticker that was started on it adds its increments.\<close>

definition epoch_at :: "epoch_ticker list \<Rightarrow> nat \<Rightarrow> nat" where
  "epoch_at tks t = (\<Sum>tk\<leftarrow>tks. ticks_until (et_stop tk) (et_started tk) t)"

text \<open>A guest that is entered at \<open>t0\<close> with a deadline of \<open>n\<close> ticks is interrupted once the epoch has moved by \<open>n\<close>.\<close>

definition interrupted :: "epoch_ticker list \<Rightarrow> 64 word \<Rightarrow> nat \<Rightarrow> nat \<Rightarrow> bool" where
  "interrupted tks n t0 t = (epoch_at tks t0 + unat n \<le> epoch_at tks t)"

section \<open>Failures of a call\<close>

datatype wasm_call_failure = WasmTimeout | WasmPanicked string | WasmError anyhow

fun describe :: "wasm_call_failure \<Rightarrow> string" where
  "describe WasmTimeout = ''timed out''"
| "describe (WasmPanicked m) = ''panicked: '' @ m"
| "describe (WasmError e) = ''error: '' @ concat (take 1 e)"

definition into_gate_deny :: "string \<Rightarrow> wasm_call_failure \<Rightarrow> gate_decision" where
  "into_gate_deny plugin_id f =
     Deny (if f = WasmTimeout then 504 else 500) (- 32603) (''gate plugin '' @ quoted plugin_id @ '' '' @ describe f) None"

definition into_transform_error :: "string \<Rightarrow> wasm_call_failure \<Rightarrow> transform_result" where
  "into_transform_error plugin_id f = TransformError (''wasm transform '' @ quoted plugin_id @ '' '' @ describe f)"

type_synonym ('w, 'a) blocking = "('w \<Rightarrow> 'a \<times> 'w) \<Rightarrow> nat \<Rightarrow> 'w \<Rightarrow> 'a ferried \<times> 'w"

text \<open>A closure on the blocking pool.\<close>

definition spawn_blocking :: "('w, 'a) blocking \<Rightarrow> ('w \<Rightarrow> 'a \<times> 'w) \<Rightarrow> ('w, 'a) ffi_slot" where
  "spawn_blocking b f = \<lparr>fs_inline = f, fs_caught = (\<lambda>w. map_prod Some id (f w)), fs_ferried = b f\<rparr>"

definition WASM_CALL_GRACE_MS :: "64 word" where
  "WASM_CALL_GRACE_MS = 100"

definition call_budget :: "64 word \<Rightarrow> nat" where
  "call_budget timeout_ms = unat (timeout_ms + WASM_CALL_GRACE_MS)"

fun call_outcome :: "(anyhow, 'a) rresult ferried \<Rightarrow> (wasm_call_failure, 'a) rresult" where
  "call_outcome (Joined (Inr value)) = Inr value"
| "call_outcome (Joined (Inl e)) = Inl (WasmError e)"
| "call_outcome (JoinError m) = Inl (WasmPanicked m)"
| "call_outcome Elapsed = Inl WasmTimeout"

definition wasm_call_timeout ::
  "64 word \<Rightarrow> ('w, (anyhow, 'a) rresult) ffi_slot \<Rightarrow> ((wasm_call_failure, 'a) rresult \<Rightarrow> 'b) \<Rightarrow> ('w, 'b) fut" where
  "wasm_call_timeout timeout_ms handle k = ferry (call_budget timeout_ms) handle (\<lambda>r. k (call_outcome r))"

section \<open>Loading\<close>

record wasm_load_options =
  wo_verify :: native_verify_options
  wo_limits :: wasm_limits

record 'c wasm_artifact =
  wa_component :: 'c
  wa_artifact_hash :: string
  wa_source_path :: path
  wa_limits :: wasm_limits

datatype wasm_load_error =
    WasmVerifyFailed path verify_error
  | WasmUnreadable path
  | WasmChanged path string string
  | WasmNotCompiled anyhow

text \<open>The file is read by the check and once more afterwards; it may change in between (\<open>fs1\<close>, \<open>fs2\<close>).\<close>

definition load_wasm_component ::
  "('e, 'c) wasm_env \<Rightarrow> 'h hasher \<Rightarrow> ed25519 \<Rightarrow> file_system \<Rightarrow> file_system \<Rightarrow> (path \<Rightarrow> string) \<Rightarrow> 'e \<Rightarrow> path \<Rightarrow> wasm_load_options
    \<Rightarrow> (wasm_load_error, 'c wasm_artifact) rresult" where
  "load_wasm_component we hs ed fs1 fs2 display engine p options =
     (case verify_native_artifact hs ed fs1 p (wo_verify options) of
        Inl e \<Rightarrow> Inl (WasmVerifyFailed p e)
      | Inr verified \<Rightarrow>
          (case fs_read fs2 p of
             None \<Rightarrow> Inl (WasmUnreadable p)
           | Some bytes \<Rightarrow>
               (let artifact_hash = vr_artifact_hash verified; reread_hash = sha256_hex hs bytes
                in if reread_hash \<noteq> artifact_hash then Inl (WasmChanged p artifact_hash reread_hash)
                   else (case wm_context (''failed to compile wasm component: '' @ display p) (we_from_binary we engine bytes) of
                           Inl e \<Rightarrow> Inl (WasmNotCompiled e)
                         | Inr component \<Rightarrow>
                             Inr \<lparr>wa_component = component, wa_artifact_hash = artifact_hash, wa_source_path = p,
                                  wa_limits = wo_limits options\<rparr>))))"

section \<open>Guests and adapters\<close>

text \<open>
  The worlds of the interface. An instance is a number; \<open>gw_instantiate\<close> takes the store, the linker and the
  component.
\<close>

record ('e, 'c, 'w) guest_world =
  gw_instantiate :: "'e wasm_store \<Rightarrow> string list \<Rightarrow> 'c \<Rightarrow> 'w \<Rightarrow> (string, nat) rresult \<times> 'w"
  gw_call_manifest :: "nat \<Rightarrow> 'w \<Rightarrow> (string, wit_manifest) rresult \<times> 'w"

record ('e, 'c, 'w) gate_world = "('e, 'c, 'w) guest_world" +
  gw_pre_dispatch :: "nat \<Rightarrow> wit_context \<Rightarrow> string \<Rightarrow> string option \<Rightarrow> string \<Rightarrow> 'w \<Rightarrow> (string, wit_gate_decision) rresult \<times> 'w"
  gw_post_dispatch :: "nat \<Rightarrow> wit_context \<Rightarrow> string \<Rightarrow> string \<Rightarrow> nat \<Rightarrow> string \<Rightarrow> 'w \<Rightarrow> (string, wit_gate_decision) rresult \<times> 'w"

record ('e, 'c, 'w) transform_world = "('e, 'c, 'w) guest_world" +
  gw_transform_arguments :: "nat \<Rightarrow> wit_context \<Rightarrow> string \<Rightarrow> string \<Rightarrow> 'w \<Rightarrow> (string, wit_transform_result) rresult \<times> 'w"
  gw_transform_output :: "nat \<Rightarrow> wit_context \<Rightarrow> string \<Rightarrow> string \<Rightarrow> 'w \<Rightarrow> (string, wit_transform_result) rresult \<times> 'w"

record ('e, 'c, 'w) identity_world = "('e, 'c, 'w) guest_world" +
  gw_resolve_identity :: "nat \<Rightarrow> (string \<times> string) list \<Rightarrow> string \<Rightarrow> 'w \<Rightarrow> (string, wit_identity_resolution) rresult \<times> 'w"

definition check_guest_protocol_version :: "('e, 'c) wasm_env \<Rightarrow> string \<Rightarrow> string \<Rightarrow> (anyhow, unit) rresult" where
  "check_guest_protocol_version we plugin_id got =
     ensure (got = we_protocol_version we)
       [''wasm plugin '' @ quoted plugin_id @ '' reports protocol_version '' @ quoted got @ '' but the host requires ''
        @ quoted (we_protocol_version we) @ ''; rebuild the guest against the current protocol'']"

text \<open>
  The three \<open>read_guest_manifest\<close> and the three \<open>new\<close> differ in the world, its name and the class.
\<close>

definition manifest_store :: "('e, 'c) wasm_env \<Rightarrow> 'e \<Rightarrow> wasm_limits \<Rightarrow> 'e wasm_store" where
  "manifest_store we engine limits =
     set_epoch_deadline (- 1) (set_fuel_ok we (wl_fuel_per_invocation limits) (new_limited_store engine limits))"

definition manifest_of_guest :: "string \<Rightarrow> wit_manifest \<Rightarrow> manifest" where
  "manifest_of_guest class wm =
     \<lparr>m_id = wm_id wm, m_version = wm_version wm, m_name = wm_name wm, m_plugin_class = class,
      m_protocol_version = wm_protocol_version wm, m_required_capabilities = [], m_provides = [], m_provides_schemes = [],
      m_module_path_prefix = ''mcpg_plugin_host'', m_backend_profile = None\<rparr>"

definition read_guest_manifest ::
  "('e, 'c) wasm_env \<Rightarrow> string \<Rightarrow> string \<Rightarrow> ('e, 'c, 'w, 'm) guest_world_scheme \<Rightarrow> 'e \<Rightarrow> 'c wasm_artifact \<Rightarrow> 'w
    \<Rightarrow> (anyhow, manifest) rresult \<times> 'w" where
  "read_guest_manifest we world class gw engine artifact w =
     (case wm_context ''failed to link WASI'' (we_add_wasi we []) of
        Inl e \<Rightarrow> (Inl e, w)
      | Inr linker \<Rightarrow>
          bind_made (map_prod (wm_context (''failed to instantiate '' @ world @ '' for manifest read'')) id
              (gw_instantiate gw (manifest_store we engine (wa_limits artifact)) linker (wa_component artifact) w))
            (\<lambda>i w1. bind_made (map_prod (wm_context ''failed to call manifest()'') id (gw_call_manifest gw i w1))
              (\<lambda>wm w2. (try_then (check_guest_protocol_version we (wm_id wm) (wm_protocol_version wm))
                 (\<lambda>_. Inr (manifest_of_guest class wm)), w2))))"

record ('e, 'c) wasm_plugin =
  wp_manifest :: manifest
  wp_engine :: 'e
  wp_component :: 'c
  wp_limits :: wasm_limits
  wp_source_path :: path
  wp_epoch_ticker :: epoch_ticker

definition wasm_plugin_new ::
  "('e, 'c) wasm_env \<Rightarrow> string \<Rightarrow> string \<Rightarrow> ('e, 'c, 'w, 'm) guest_world_scheme \<Rightarrow> 'e \<Rightarrow> 'c wasm_artifact \<Rightarrow> nat \<Rightarrow> 'w
    \<Rightarrow> (anyhow, ('e, 'c) wasm_plugin) rresult \<times> 'w" where
  "wasm_plugin_new we world class gw engine artifact now w =
     bind_made (read_guest_manifest we world class gw engine artifact w)
       (\<lambda>m w1. (Inr \<lparr>wp_manifest = m, wp_engine = engine, wp_component = wa_component artifact, wp_limits = wa_limits artifact,
                     wp_source_path = wa_source_path artifact, wp_epoch_ticker = ticker_start now\<rparr>, w1))"

definition wasm_tool_gate_new ::
  "('e, 'c) wasm_env \<Rightarrow> ('e, 'c, 'w) gate_world \<Rightarrow> 'e \<Rightarrow> 'c wasm_artifact \<Rightarrow> nat \<Rightarrow> 'w \<Rightarrow> (anyhow, ('e, 'c) wasm_plugin) rresult \<times> 'w" where
  "wasm_tool_gate_new we gw = wasm_plugin_new we ''tool-gate-plugin'' ''tool_gate'' gw"

definition wasm_transform_new ::
  "('e, 'c) wasm_env \<Rightarrow> ('e, 'c, 'w) transform_world \<Rightarrow> 'e \<Rightarrow> 'c wasm_artifact \<Rightarrow> nat \<Rightarrow> 'w \<Rightarrow> (anyhow, ('e, 'c) wasm_plugin) rresult \<times> 'w" where
  "wasm_transform_new we gw = wasm_plugin_new we ''transform-plugin'' ''transform'' gw"

definition wasm_identity_new ::
  "('e, 'c) wasm_env \<Rightarrow> ('e, 'c, 'w) identity_world \<Rightarrow> 'e \<Rightarrow> 'c wasm_artifact \<Rightarrow> nat \<Rightarrow> 'w \<Rightarrow> (anyhow, ('e, 'c) wasm_plugin) rresult \<times> 'w" where
  "wasm_identity_new we gw = wasm_plugin_new we ''identity-plugin'' ''identity_provider'' gw"

text \<open>The closure of a call: a fresh store, a fresh instance, the export, the conversion of its answer.\<close>

definition guest_call ::
  "('e, 'c) wasm_env \<Rightarrow> string \<Rightarrow> string \<Rightarrow> ('e, 'c, 'w, 'm) guest_world_scheme \<Rightarrow> ('e, 'c) wasm_plugin
    \<Rightarrow> (nat \<Rightarrow> 'w \<Rightarrow> (string, 'r) rresult \<times> 'w) \<Rightarrow> ('r \<Rightarrow> 'a) \<Rightarrow> 'w \<Rightarrow> (anyhow, 'a) rresult \<times> 'w" where
  "guest_call we world export gw p call from w =
     (case build_invocation_store we (wp_engine p) (wp_limits p) of
        Inl e \<Rightarrow> (Inl e, w)
      | Inr (store, linker) \<Rightarrow>
          bind_made (map_prod (wm_context (''failed to instantiate '' @ world)) id
              (gw_instantiate gw store linker (wp_component p) w))
            (\<lambda>i w1. bind_made (map_prod (wm_context (export @ '' call failed'')) id (call i w1))
              (\<lambda>r w2. (Inr (from r), w2))))"

fun or_gate_deny :: "string \<Rightarrow> (wasm_call_failure, gate_decision) rresult \<Rightarrow> gate_decision" where
  "or_gate_deny plugin_id (Inr decision) = decision"
| "or_gate_deny plugin_id (Inl failure) = into_gate_deny plugin_id failure"

fun or_transform_error :: "string \<Rightarrow> (wasm_call_failure, transform_result) rresult \<Rightarrow> transform_result" where
  "or_transform_error plugin_id (Inr result) = result"
| "or_transform_error plugin_id (Inl failure) = into_transform_error plugin_id failure"

fun or_no_identity :: "(wasm_call_failure, identity_resolution) rresult \<Rightarrow> identity_resolution" where
  "or_no_identity (Inr resolution) = resolution"
| "or_no_identity (Inl failure) = IdNone"

definition wasm_pre_task ::
  "('e, 'c) wasm_env \<Rightarrow> ('w, (anyhow, gate_decision) rresult) blocking \<Rightarrow> ('e, 'c, 'w) gate_world \<Rightarrow> ('e, 'c) wasm_plugin
    \<Rightarrow> plugin_context \<Rightarrow> json \<Rightarrow> json option \<Rightarrow> json \<Rightarrow> ('w, (anyhow, gate_decision) rresult) ffi_slot" where
  "wasm_pre_task we b gw p ctx arguments meta config =
     spawn_blocking b (guest_call we ''tool-gate-plugin'' ''evaluate_pre_dispatch'' gw p
       (\<lambda>i. gw_pre_dispatch gw i (to_wit_context ctx) (we_to_string we arguments) (map_option (we_to_string we) meta)
              (we_to_string we config))
       (from_wit_gate_decision we))"

definition wasm_evaluate_pre_dispatch ::
  "('e, 'c) wasm_env \<Rightarrow> ('w, (anyhow, gate_decision) rresult) blocking \<Rightarrow> ('e, 'c, 'w) gate_world \<Rightarrow> ('e, 'c) wasm_plugin
    \<Rightarrow> plugin_context \<Rightarrow> json \<Rightarrow> json option \<Rightarrow> json \<Rightarrow> ('w, gate_decision) fut" where
  "wasm_evaluate_pre_dispatch we b gw p ctx arguments meta config =
     wasm_call_timeout (wl_timeout_ms (wp_limits p)) (wasm_pre_task we b gw p ctx arguments meta config)
       (or_gate_deny (m_id (wp_manifest p)))"

definition wasm_post_task ::
  "('e, 'c) wasm_env \<Rightarrow> ('w, (anyhow, gate_decision) rresult) blocking \<Rightarrow> ('e, 'c, 'w) gate_world \<Rightarrow> ('e, 'c) wasm_plugin
    \<Rightarrow> plugin_context \<Rightarrow> json \<Rightarrow> json \<Rightarrow> nat \<Rightarrow> json \<Rightarrow> ('w, (anyhow, gate_decision) rresult) ffi_slot" where
  "wasm_post_task we b gw p ctx arguments result execution_duration_ms config =
     spawn_blocking b (guest_call we ''tool-gate-plugin'' ''evaluate_post_dispatch'' gw p
       (\<lambda>i. gw_post_dispatch gw i (to_wit_context ctx) (we_to_string we arguments) (we_to_string we result)
              execution_duration_ms (we_to_string we config))
       (from_wit_gate_decision we))"

definition wasm_evaluate_post_dispatch ::
  "('e, 'c) wasm_env \<Rightarrow> ('w, (anyhow, gate_decision) rresult) blocking \<Rightarrow> ('e, 'c, 'w) gate_world \<Rightarrow> ('e, 'c) wasm_plugin
    \<Rightarrow> plugin_context \<Rightarrow> json \<Rightarrow> json \<Rightarrow> nat \<Rightarrow> json \<Rightarrow> ('w, gate_decision) fut" where
  "wasm_evaluate_post_dispatch we b gw p ctx arguments result execution_duration_ms config =
     wasm_call_timeout (wl_timeout_ms (wp_limits p)) (wasm_post_task we b gw p ctx arguments result execution_duration_ms config)
       (or_gate_deny (m_id (wp_manifest p)))"

text \<open>The adapters inherit the empty \<open>shutdown\<close> of their traits.\<close>

definition wasm_tool_gate ::
  "('e, 'c) wasm_env \<Rightarrow> ('w, (anyhow, gate_decision) rresult) blocking \<Rightarrow> ('e, 'c, 'w) gate_world \<Rightarrow> ('e, 'c) wasm_plugin
    \<Rightarrow> 'w tool_gate_plugin" where
  "wasm_tool_gate we b gw p =
     \<lparr>tg_manifest = wp_manifest p, tg_evaluate_pre_dispatch = wasm_evaluate_pre_dispatch we b gw p,
      tg_evaluate_post_dispatch = wasm_evaluate_post_dispatch we b gw p, tg_shutdown = fut_unit\<rparr>"

definition wasm_transform_arguments ::
  "('e, 'c) wasm_env \<Rightarrow> ('w, (anyhow, transform_result) rresult) blocking \<Rightarrow> ('e, 'c, 'w) transform_world \<Rightarrow> ('e, 'c) wasm_plugin
    \<Rightarrow> plugin_context \<Rightarrow> json \<Rightarrow> json \<Rightarrow> ('w, transform_result) fut" where
  "wasm_transform_arguments we b gw p ctx arguments config =
     wasm_call_timeout (wl_timeout_ms (wp_limits p))
       (spawn_blocking b (guest_call we ''transform-plugin'' ''transform_arguments'' gw p
          (\<lambda>i. gw_transform_arguments gw i (to_wit_context ctx) (we_to_string we arguments) (we_to_string we config))
          (from_wit_transform_result we)))
       (or_transform_error (m_id (wp_manifest p)))"

definition wasm_transform_result ::
  "('e, 'c) wasm_env \<Rightarrow> ('w, (anyhow, transform_result) rresult) blocking \<Rightarrow> ('e, 'c, 'w) transform_world \<Rightarrow> ('e, 'c) wasm_plugin
    \<Rightarrow> plugin_context \<Rightarrow> json \<Rightarrow> json \<Rightarrow> ('w, transform_result) fut" where
  "wasm_transform_result we b gw p ctx result config =
     wasm_call_timeout (wl_timeout_ms (wp_limits p))
       (spawn_blocking b (guest_call we ''transform-plugin'' ''transform_output'' gw p
          (\<lambda>i. gw_transform_output gw i (to_wit_context ctx) (we_to_string we result) (we_to_string we config))
          (from_wit_transform_result we)))
       (or_transform_error (m_id (wp_manifest p)))"

definition wasm_transform ::
  "('e, 'c) wasm_env \<Rightarrow> ('w, (anyhow, transform_result) rresult) blocking \<Rightarrow> ('e, 'c, 'w) transform_world \<Rightarrow> ('e, 'c) wasm_plugin
    \<Rightarrow> 'w transform_plugin" where
  "wasm_transform we b gw p =
     \<lparr>tf_manifest = wp_manifest p, tf_transform_arguments = wasm_transform_arguments we b gw p,
      tf_transform_result = wasm_transform_result we b gw p, tf_shutdown = fut_unit\<rparr>"

definition wasm_identity_task ::
  "('e, 'c) wasm_env \<Rightarrow> ('w, (anyhow, identity_resolution) rresult) blocking \<Rightarrow> ('e, 'c, 'w) identity_world \<Rightarrow> ('e, 'c) wasm_plugin
    \<Rightarrow> (string \<times> string) list \<Rightarrow> json \<Rightarrow> ('w, (anyhow, identity_resolution) rresult) ffi_slot" where
  "wasm_identity_task we b gw p headers config =
     spawn_blocking b (guest_call we ''identity-plugin'' ''resolve_identity'' gw p
       (\<lambda>i. gw_resolve_identity gw i headers (we_to_string we config)) from_wit_identity_resolution)"

definition wasm_resolve_identity ::
  "('e, 'c) wasm_env \<Rightarrow> ('w, (anyhow, identity_resolution) rresult) blocking \<Rightarrow> ('e, 'c, 'w) identity_world \<Rightarrow> ('e, 'c) wasm_plugin
    \<Rightarrow> (string \<times> string) list \<Rightarrow> request_metadata \<Rightarrow> json \<Rightarrow> ('w, identity_resolution) fut" where
  "wasm_resolve_identity we b gw p headers metadata config =
     wasm_call_timeout (wl_timeout_ms (wp_limits p)) (wasm_identity_task we b gw p headers config) or_no_identity"

definition wasm_identity ::
  "('e, 'c) wasm_env \<Rightarrow> ('w, (anyhow, identity_resolution) rresult) blocking \<Rightarrow> ('e, 'c, 'w) identity_world \<Rightarrow> ('e, 'c) wasm_plugin
    \<Rightarrow> 'w identity_plugin" where
  "wasm_identity we b gw p =
     \<lparr>ip_manifest = wp_manifest p, ip_resolve_identity = wasm_resolve_identity we b gw p, ip_shutdown = fut_unit\<rparr>"

section \<open>Identities across the boundary\<close>

lemma bt_insert_last: "\<forall>x \<in> fst ` set m. x < k \<Longrightarrow> bt_insert k v m = m @ [(k, v)]"
  by (induction m) (auto dest: less_imp_not_less)

lemma fold_bt_insert_sorted:
  "sorted_wrt (<) (map fst (m @ xs)) \<Longrightarrow> fold (\<lambda>(k, v) m. bt_insert k v m) xs m = m @ xs"
proof (induction xs arbitrary: m)
  case (Cons x xs)
  obtain k v where x: "x = (k, v)" by (cases x)
  from Cons.prems have "bt_insert k v m = m @ [(k, v)]" by (intro bt_insert_last) (auto simp: x sorted_wrt_append)
  with Cons.prems Cons.IH [of "m @ [(k, v)]"] show ?case by (simp add: x)
qed simp

lemma wit_identity_round_trip:
  assumes "sorted_wrt (<) (map fst (id_attributes i))"
  shows "from_wit_identity (to_wit_identity i) = i"
  using fold_bt_insert_sorted [of "[]" "id_attributes i"] assms
  by (simp add: from_wit_identity_def to_wit_identity_def case_prod_unfold)

section \<open>Time\<close>

lemma ticks_running: "now \<le> t \<Longrightarrow> ticks_until None now t = (t - now) div 10"
proof (induction "t - now" arbitrary: now rule: less_induct)
  case less
  have step: "ticks_until None now t = (if now + 10 \<le> t then Suc (ticks_until None (now + 10) t) else 0)"
    by (subst ticks_until.simps) (simp add: stopped_at_def TICK_MS_def)
  show ?case
  proof (cases "now + 10 \<le> t")
    case True
    then have "(t - now) div 10 = Suc ((t - (now + 10)) div 10)" by (simp add: le_div_geq)
    with True less.hyps [of "now + 10"] step show ?thesis by simp
  qed (use less.prems step in simp)
qed

text \<open>A ticker that was dropped finishes the sleep it is in and ends.\<close>

lemma ticks_dropped: "now \<le> d \<Longrightarrow> ticks_until (Some d) now t \<le> Suc ((d - now) div 10)"
proof (induction "d - now" arbitrary: now rule: less_induct)
  case less
  have step: "ticks_until (Some d) now t = (if d \<le> now \<or> t < now + 10 then 0 else Suc (ticks_until (Some d) (now + 10) t))"
    by (subst ticks_until.simps) (simp add: stopped_at_def TICK_MS_def)
  show ?case
  proof (cases "now + 10 \<le> d")
    case True
    then have "(d - now) div 10 = Suc ((d - (now + 10)) div 10)" by (simp add: le_div_geq)
    with True less.hyps [of "now + 10"] step show ?thesis by auto
  next
    case False
    then have "ticks_until (Some d) (now + 10) t = 0" by (subst ticks_until.simps) (simp add: stopped_at_def)
    with step show ?thesis by simp
  qed
qed

lemma div_diff_bounds:
  assumes "s \<le> t0" and "t0 \<le> (t :: nat)"
  shows "(t0 - s) div 10 + (t - t0) div 10 \<le> (t - s) div 10" and "(t - s) div 10 \<le> (t0 - s) div 10 + (t - t0 + 9) div 10"
proof -
  have split: "a div 10 + b div 10 \<le> (a + b) div 10" "(a + b) div 10 \<le> a div 10 + (b + 9) div 10" for a b :: nat
    by linarith+
  have "t - s = (t0 - s) + (t - t0)" using assms by simp
  with split [of "t0 - s" "t - t0"] show "(t0 - s) div 10 + (t - t0) div 10 \<le> (t - s) div 10"
    "(t - s) div 10 \<le> (t0 - s) div 10 + (t - t0 + 9) div 10" by simp_all
qed

lemma epoch_running:
  assumes "t0 \<le> t" and "\<forall>tk \<in> set tks. et_stop tk = None \<and> et_started tk \<le> t0"
  shows "epoch_at tks t0 + length tks * ((t - t0) div 10) \<le> epoch_at tks t"
    and "epoch_at tks t \<le> epoch_at tks t0 + length tks * ((t - t0 + 9) div 10)"
proof -
  have "epoch_at tks t0 + length tks * ((t - t0) div 10) \<le> epoch_at tks t
      \<and> epoch_at tks t \<le> epoch_at tks t0 + length tks * ((t - t0 + 9) div 10)"
    using assms(2)
  proof (induction tks)
    case (Cons tk tks)
    then have "et_started tk \<le> t0" "et_stop tk = None" by simp_all
    with Cons div_diff_bounds [OF _ assms(1), of "et_started tk"] assms(1) show ?case
      by (simp add: epoch_at_def ticks_running)
  qed (simp add: epoch_at_def)
  then show "epoch_at tks t0 + length tks * ((t - t0) div 10) \<le> epoch_at tks t"
    "epoch_at tks t \<le> epoch_at tks t0 + length tks * ((t - t0 + 9) div 10)" by blast+
qed

lemma deadline_ticks_unat: "unat (deadline_ticks m) = max (unat m div 10) 1"
proof -
  have "unat (m div TICK_MS) = unat m div 10" by (simp add: unat_div TICK_MS_def)
  then show ?thesis by (auto simp: deadline_ticks_def max_def word_le_nat_alt)
qed

text \<open>
  C33. How long a guest may run. \<open>k\<close> tickers run on the engine when a guest is entered at \<open>t0\<close> with the deadline of its
  timeout. The guest is interrupted at the latest when \<open>k\<close> tickers have made up for the ticks of the deadline, and not
  before that but for the phases of the tickers. So with one ticker the guest has its timeout, in whole ticks, up to
  one tick; with at least as many tickers on the engine as the deadline has ticks it is gone after a single tick. Every
  plugin starts a ticker of its own on the engine it is given, and the engine is meant to be shared.
\<close>

theorem tickers_share_the_epoch:
  assumes "t0 \<le> t" and "\<forall>tk \<in> set tks. et_stop tk = None \<and> et_started tk \<le> t0"
    and n: "n = max (unat timeout_ms div 10) 1"
  shows "(n \<le> length tks * ((t - t0) div 10) \<longrightarrow> interrupted tks (deadline_ticks timeout_ms) t0 t)
    \<and> (length tks * ((t - t0 + 9) div 10) < n \<longrightarrow> \<not> interrupted tks (deadline_ticks timeout_ms) t0 t)
    \<and> (length tks = 1 \<longrightarrow> 10 * n \<le> t - t0 \<longrightarrow> interrupted tks (deadline_ticks timeout_ms) t0 t)
    \<and> (length tks = 1 \<longrightarrow> t - t0 \<le> 10 * (n - 1) \<longrightarrow> \<not> interrupted tks (deadline_ticks timeout_ms) t0 t)
    \<and> (n \<le> length tks \<longrightarrow> 10 \<le> t - t0 \<longrightarrow> interrupted tks (deadline_ticks timeout_ms) t0 t)"
proof -
  let ?int = "interrupted tks (deadline_ticks timeout_ms) t0 t" and ?k = "length tks"
  have int: "?int \<longleftrightarrow> epoch_at tks t0 + n \<le> epoch_at tks t" by (simp only: interrupted_def deadline_ticks_unat n)
  have late: "?int" if "n \<le> ?k * ((t - t0) div 10)"
    using that epoch_running(1) [OF assms(1,2)] unfolding int by linarith
  have early: "\<not> ?int" if "?k * ((t - t0 + 9) div 10) < n"
    using that epoch_running(2) [OF assms(1,2)] unfolding int by linarith
  have "1 \<le> n" using n by simp
  have "?int" if "?k = 1" "10 * n \<le> t - t0" using that by (intro late) simp
  moreover have "\<not> ?int" if "?k = 1" "t - t0 \<le> 10 * (n - 1)" using that \<open>1 \<le> n\<close> by (intro early) simp
  moreover have "?int" if "n \<le> ?k" "10 \<le> t - t0"
  proof (rule late)
    have "1 \<le> (t - t0) div 10" using that(2) by simp
    then have "?k * 1 \<le> ?k * ((t - t0) div 10)" by (rule mult_le_mono2)
    with that(1) show "n \<le> ?k * ((t - t0) div 10)" by linarith
  qed
  ultimately show ?thesis using late early by blast
qed

text \<open>Ten plugins on one engine, with the default timeout of 100 ms: a guest is cut off after 10 ms.\<close>

theorem tickers_share_the_epoch_witness:
  "interrupted (replicate 10 (ticker_start 0)) (deadline_ticks 100) 5 15 \<and> \<not> interrupted [ticker_start 0] (deadline_ticks 100) 5 95"
proof -
  have n: "(10 :: nat) = max (unat (100 :: 64 word) div 10) 1" by simp
  have "\<forall>tk \<in> set (replicate 10 (ticker_start 0)). et_stop tk = None \<and> et_started tk \<le> 5"
    "\<forall>tk \<in> set [ticker_start 0]. et_stop tk = None \<and> et_started tk \<le> 5" by (simp_all add: ticker_start_def)
  from tickers_share_the_epoch [OF _ this(1) n, of 15] tickers_share_the_epoch [OF _ this(2) n, of 95]
  show ?thesis by simp
qed

section \<open>Confinement\<close>

text \<open>
  A store that holds its guest: memory grows up to the limit and no further, nothing is granted through WASI, fuel is
  set wherever the engine knows fuel, and a deadline traps.
\<close>

definition confined :: "('e, 'c) wasm_env \<Rightarrow> wasm_limits \<Rightarrow> 'e wasm_store \<Rightarrow> bool" where
  "confined we l s \<longleftrightarrow>
     (\<exists>g. ws_limiter s = Some g \<and> (\<forall>c d m. g c d m \<longleftrightarrow> d \<le> wl_memory_limit_bytes l)) \<and> ph_wasi_grants (ws_state s) = []
     \<and> (we_fuel_enabled we (ws_engine s) \<longrightarrow> ws_fuel s = Some (wl_fuel_per_invocation l))
     \<and> ws_deadline_traps s \<and> ws_deadline s \<noteq> None"

lemma limited_store_confined:
  "confined we l (set_epoch_deadline n (set_fuel_ok we (wl_fuel_per_invocation l) (new_limited_store engine l)))"
  by (simp add: confined_def set_epoch_deadline_def set_fuel_ok_def new_limited_store_def store_new_def Let_def
      new_host_state_def new_wasi_ctx_def memory_growing_def)

lemma invocation_store_confined: "build_invocation_store we engine l = Inr (s, linker) \<Longrightarrow> confined we l s"
  by (auto simp: build_invocation_store_def Let_def limited_store_confined)

lemma manifest_store_confined: "confined we l (manifest_store we engine l)"
  by (simp add: manifest_store_def limited_store_confined)

text \<open>The size of a memory after a sequence of requests to grow it, of which the limiter admits some.\<close>

definition grown :: "(nat \<Rightarrow> nat \<Rightarrow> nat option \<Rightarrow> bool) \<Rightarrow> nat \<Rightarrow> (nat \<times> nat option) list \<Rightarrow> nat" where
  "grown g = foldl (\<lambda>cur (desired, maximum). if g cur desired maximum then desired else cur)"

lemma grown_bounded:
  assumes "\<And>c d m. g c d m \<Longrightarrow> d \<le> b" and "cur \<le> b"
  shows "grown g cur rs \<le> b"
  using assms(2)
proof (induction rs arbitrary: cur)
  case (Cons r rs)
  obtain d m where r: "r = (d, m)" by (cases r)
  from Cons.IH Cons.prems assms(1) [of cur d m] show ?case by (cases "g cur d m") (simp_all add: grown_def r)
qed (simp add: grown_def)

definition same_when_confined ::
  "('e, 'c) wasm_env \<Rightarrow> wasm_limits \<Rightarrow> ('e, 'c, 'w, 'm) guest_world_scheme \<Rightarrow> ('e, 'c, 'w, 'm) guest_world_scheme \<Rightarrow> bool" where
  "same_when_confined we l gw gw' \<longleftrightarrow>
     (\<forall>s linker c w. confined we l s \<longrightarrow> gw_instantiate gw s linker c w = gw_instantiate gw' s linker c w)
     \<and> gw_call_manifest gw = gw_call_manifest gw'"

lemma guest_call_cong:
  assumes "same_when_confined we (wp_limits p) gw gw'"
  shows "guest_call we world export gw p call from w = guest_call we world export gw' p call from w"
proof (cases "build_invocation_store we (wp_engine p) (wp_limits p)")
  case (Inr sl)
  obtain s linker where sl: "sl = (s, linker)" by (cases sl)
  with Inr assms invocation_store_confined [of we "wp_engine p" "wp_limits p" s linker]
  show ?thesis by (simp add: guest_call_def same_when_confined_def)
qed (simp add: guest_call_def)

lemma read_guest_manifest_cong:
  assumes "same_when_confined we (wa_limits a) gw gw'"
  shows "read_guest_manifest we world class gw engine a w = read_guest_manifest we world class gw' engine a w"
  using assms manifest_store_confined [of we "wa_limits a" engine]
  by (cases "wm_context ''failed to link WASI'' (we_add_wasi we [])") (simp_all add: read_guest_manifest_def same_when_confined_def)

text \<open>
  A guest only runs in a store that holds it. For the manifest and for every call of an adapter a component is
  instantiated only in stores with the memory limiter, no WASI grant, fuel wherever the engine meters it and a
  deadline that traps: what a guest would do in any other store has no influence. In such a store no sequence of requests takes the memory of
  the guest over its limit.
\<close>

theorem guests_are_confined:
  fixes gw gw' :: "('e, 'c, 'w) gate_world" and tw tw' :: "('e, 'c, 'w) transform_world" and iw iw' :: "('e, 'c, 'w) identity_world"
  assumes "same_when_confined we (wp_limits p) gw gw'" "gw_pre_dispatch gw = gw_pre_dispatch gw'" "gw_post_dispatch gw = gw_post_dispatch gw'"
    and "same_when_confined we (wp_limits p) tw tw'" "gw_transform_arguments tw = gw_transform_arguments tw'"
      "gw_transform_output tw = gw_transform_output tw'"
    and "same_when_confined we (wp_limits p) iw iw'" "gw_resolve_identity iw = gw_resolve_identity iw'"
    and "wa_limits a = wp_limits p"
  shows "wasm_tool_gate we b gw p = wasm_tool_gate we b gw' p \<and> wasm_transform we bt tw p = wasm_transform we bt tw' p
    \<and> wasm_identity we bi iw p = wasm_identity we bi iw' p
    \<and> wasm_tool_gate_new we gw engine a now w = wasm_tool_gate_new we gw' engine a now w
    \<and> wasm_transform_new we tw engine a now w = wasm_transform_new we tw' engine a now w
    \<and> wasm_identity_new we iw engine a now w = wasm_identity_new we iw' engine a now w
    \<and> (\<forall>l s g cur rs. confined we l s \<longrightarrow> ws_limiter s = Some g \<longrightarrow> cur \<le> wl_memory_limit_bytes l
         \<longrightarrow> grown g cur rs \<le> wl_memory_limit_bytes l)"
proof (intro conjI allI impI)
  show "wasm_tool_gate we b gw p = wasm_tool_gate we b gw' p" "wasm_transform we bt tw p = wasm_transform we bt tw' p"
    "wasm_identity we bi iw p = wasm_identity we bi iw' p"
    unfolding wasm_tool_gate_def wasm_transform_def wasm_identity_def wasm_evaluate_pre_dispatch_def wasm_evaluate_post_dispatch_def
      wasm_pre_task_def wasm_post_task_def wasm_transform_arguments_def wasm_transform_result_def wasm_resolve_identity_def
      wasm_identity_task_def fun_eq_iff
    by (simp_all add: assms(2,3,5,6,8) guest_call_cong [OF assms(1), abs_def] guest_call_cong [OF assms(4), abs_def]
        guest_call_cong [OF assms(7), abs_def])
  show "wasm_tool_gate_new we gw engine a now w = wasm_tool_gate_new we gw' engine a now w"
    "wasm_transform_new we tw engine a now w = wasm_transform_new we tw' engine a now w"
    "wasm_identity_new we iw engine a now w = wasm_identity_new we iw' engine a now w"
    unfolding wasm_tool_gate_new_def wasm_transform_new_def wasm_identity_new_def wasm_plugin_new_def
    by (simp_all only: read_guest_manifest_cong [OF assms(1) [folded assms(9)]] read_guest_manifest_cong [OF assms(4) [folded assms(9)]]
        read_guest_manifest_cong [OF assms(7) [folded assms(9)]])
next
  fix l :: wasm_limits and s :: "'e wasm_store" and g cur rs
  assume "confined we l s" "ws_limiter s = Some g" "cur \<le> wl_memory_limit_bytes l"
  then show "grown g cur rs \<le> wl_memory_limit_bytes l" by (intro grown_bounded) (auto simp: confined_def)
qed

section \<open>What is loaded\<close>

lemma wm_context_Inr [simp]: "wm_context msg r = Inr a \<longleftrightarrow> r = Inr a"
  by (simp add: wm_context_def split: sum.splits)

text \<open>
  C10. A component is compiled from verified bytes. A load succeeds exactly when the file passes the artifact check,
  its second reading gives the same bytes, and these compile; the artifact is then the component of these bytes, with
  their digest and the limits of the options. There is no third reading. SHA-256 is assumed to have no collision
  between the two contents of the file.
\<close>

theorem wasm_component_was_verified:
  assumes apart: "\<And>x y. fs_read fs1 p = Some x \<Longrightarrow> fs_read fs2 p = Some y \<Longrightarrow> sha256_hex hs x = sha256_hex hs y \<Longrightarrow> x = y"
  shows "load_wasm_component we hs ed fs1 fs2 display engine p options = Inr a \<longleftrightarrow>
    (\<exists>v bytes c. verify_native_artifact hs ed fs1 p (wo_verify options) = Inr v
       \<and> fs_read fs1 p = Some bytes \<and> fs_read fs2 p = Some bytes \<and> we_from_binary we engine bytes = Inr c
       \<and> a = \<lparr>wa_component = c, wa_artifact_hash = sha256_hex hs bytes, wa_source_path = p, wa_limits = wo_limits options\<rparr>)"
proof (cases "verify_native_artifact hs ed fs1 p (wo_verify options)")
  case (Inr v)
  from verified_bytes [OF Inr] obtain x where x: "fs_read fs1 p = Some x" "vr_artifact_hash v = sha256_hex hs x" by blast
  show ?thesis
  proof (cases "fs_read fs2 p")
    case (Some y)
    show ?thesis
    proof (cases "sha256_hex hs y = sha256_hex hs x")
      case True
      then have "y = x" using apart [OF x(1) Some] by simp
      then show ?thesis
        by (cases "we_from_binary we engine x") (auto simp: load_wasm_component_def Inr Some x Let_def wm_context_def)
    next
      case False
      then show ?thesis by (auto simp: load_wasm_component_def Inr Some x Let_def)
    qed
  qed (simp add: load_wasm_component_def Inr)
qed (simp add: load_wasm_component_def)

text \<open>A guest that is taken speaks the protocol of the host, and claims no capability, role or scheme.\<close>

lemma wasm_plugin_new_ok:
  assumes "wasm_plugin_new we world class gw engine a now w = (Inr p, w')"
  shows "m_protocol_version (wp_manifest p) = we_protocol_version we \<and> m_plugin_class (wp_manifest p) = class
    \<and> m_required_capabilities (wp_manifest p) = [] \<and> m_provides (wp_manifest p) = [] \<and> m_provides_schemes (wp_manifest p) = []
    \<and> wp_component p = wa_component a \<and> wp_limits p = wa_limits a"
  using assms
  by (auto simp: wasm_plugin_new_def read_guest_manifest_def bind_made_def check_guest_protocol_version_def manifest_of_guest_def
      split: sum.splits prod.splits)

section \<open>Guests that fail\<close>

text \<open>
  The pool delivers what the closure computed, if anything. A task is unanswered if the timeout elapses, the closure
  panics, or it ends with an error.
\<close>

definition honest :: "('w, 'a) blocking \<Rightarrow> bool" where
  "honest b \<longleftrightarrow> (\<forall>f t w a w1. b f t w = (Joined a, w1) \<longrightarrow> f w = (a, w1))"

definition unanswered :: "('w, (anyhow, 'a) rresult) ffi_slot \<Rightarrow> bool" where
  "unanswered s \<longleftrightarrow> (\<forall>t w v. fst (fs_ferried s t w) \<noteq> Joined (Inr v))"

lemma guest_call_error:
  assumes "\<And>i v. \<exists>e. fst (call i v) = Inl e"
  shows "\<exists>e. fst (guest_call we world export gw p call conv w) = Inl e"
proof (cases "build_invocation_store we (wp_engine p) (wp_limits p)")
  case (Inr sl)
  obtain store linker where sl: "sl = (store, linker)" by (cases sl)
  obtain q w1 where q: "gw_instantiate gw store linker (wp_component p) w = (q, w1)" by fastforce
  show ?thesis
  proof (cases q)
    case (Inr i)
    obtain e w2 where "call i w1 = (Inl e, w2)" using assms [of i w1] by (metis prod.collapse)
    then show ?thesis by (simp add: guest_call_def \<open>build_invocation_store _ _ _ = _\<close> sl q Inr bind_made_def wm_context_def)
  qed (simp add: guest_call_def Inr sl q bind_made_def wm_context_def)
qed (simp add: guest_call_def)

lemma trapping_guest_unanswered:
  assumes "honest b" and "\<And>i v. \<exists>e. fst (call i v) = Inl e"
  shows "unanswered (spawn_blocking b (guest_call we world export gw p call conv))"
proof -
  have err: "\<exists>e. fst (guest_call we world export gw p call conv w) = Inl e" for w by (rule guest_call_error [OF assms(2)])
  have "fst (b (guest_call we world export gw p call conv) t w) \<noteq> Joined (Inr v)" for t w v
    using assms(1) err [of w] unfolding honest_def
    by (metis fst_conv prod.collapse Inl_Inr_False)
  then show ?thesis by (simp add: unanswered_def spawn_blocking_def)
qed

lemma unanswered_outcome: "unanswered s \<Longrightarrow> \<exists>f. call_outcome (fst (fs_ferried s t w)) = Inl f"
proof (cases "fst (fs_ferried s t w)")
  case (Joined r)
  assume "unanswered s"
  with Joined show ?thesis unfolding unanswered_def by (cases r) fastforce+
qed simp_all

lemma unanswered_await: "unanswered s \<Longrightarrow> \<exists>f. fst (await (wasm_call_timeout t s k) w) = k (Inl f)"
  using unanswered_outcome [of s "call_budget t" w] by (auto simp: wasm_call_timeout_def)

lemma unanswered_gate_denies:
  "unanswered (wasm_pre_task we b gw g ctx arguments meta config) \<Longrightarrow>
    \<exists>s c m. fst (await (wasm_evaluate_pre_dispatch we b gw g ctx arguments meta config) w) = Deny s c m None"
  "unanswered (wasm_post_task we b gw g ctx arguments result ms config) \<Longrightarrow>
    \<exists>s c m. fst (await (wasm_evaluate_post_dispatch we b gw g ctx arguments result ms config) w) = Deny s c m None"
  unfolding wasm_evaluate_pre_dispatch_def wasm_evaluate_post_dispatch_def
  by (metis unanswered_await or_gate_deny.simps(2) into_gate_deny_def)+

lemma unanswered_identity_is_none:
  "unanswered (wasm_identity_task we b gw g headers config) \<Longrightarrow>
    fst (await (wasm_resolve_identity we b gw g headers metadata config) w) = IdNone"
  unfolding wasm_resolve_identity_def by (metis unanswered_await or_no_identity.simps(2))

text \<open>
  C9. What a WASM guest that fails does to its chain. If the guest of an enforcing tool gate that serves traffic never
  answers (it traps, runs out of fuel or time, panics, or cannot be instantiated), no call passes the gates, before or after
  the tool. For an identity provider it is the other way round: the chain goes on as if the request carried no
  credential, and if there is no other provider the request is anonymous. A native identity provider that does not answer rejects the
  request.
\<close>

theorem failed_wasm_guest:
  fixes gw :: "('e, 'c, 'w) gate_world" and iw :: "('e, 'c, 'w) identity_world"
  assumes pre: "\<And>c x m y. unanswered (wasm_pre_task we b gw g c x m y)"
    and post: "\<And>c x m n y. unanswered (wasm_post_task we b gw g c x m n y)"
    and ident: "\<And>h c. unanswered (wasm_identity_task we bi iw i h c)"
  shows "(p \<in> set (tool_gate_chain r) \<longrightarrow> serving p \<longrightarrow> lp_enforce p \<longrightarrow> lp_instance p = wasm_tool_gate we b gw g \<longrightarrow>
      (\<forall>md ma mr. fst (evaluate_tool_gates_pre_from env rt r ctx arguments meta upstream client_ip w) \<noteq> Allow md ma mr
        \<and> fst (evaluate_tool_gates_post env rt r ctx arguments res ms upstream w) \<noteq> Allow md ma mr))
    \<and> (ip_resolve_identity (lp_instance pi) = wasm_resolve_identity we bi iw i \<longrightarrow>
      fst (identity_step headers metadata pi () w) = Inr ()
      \<and> (identity_chain r = [pi] \<longrightarrow> fst (resolve_identity r headers metadata w) = NoCredential))"
proof (intro conjI impI allI)
  assume p: "p \<in> set (tool_gate_chain r)" "serving p" "lp_enforce p" and wasm: "lp_instance p = wasm_tool_gate we b gw g"
  fix md ma mr
  show "fst (evaluate_tool_gates_pre_from env rt r ctx arguments meta upstream client_ip w) \<noteq> Allow md ma mr"
    by (rule always_denying_gate_pre [OF p]) (simp add: wasm wasm_tool_gate_def unanswered_gate_denies(1) [OF pre])
  show "fst (evaluate_tool_gates_post env rt r ctx arguments res ms upstream w) \<noteq> Allow md ma mr"
    by (rule always_denying_gate_post [OF p]) (simp add: wasm wasm_tool_gate_def unanswered_gate_denies(2) [OF post])
next
  assume wasm: "ip_resolve_identity (lp_instance pi) = wasm_resolve_identity we bi iw i"
  show step: "fst (identity_step headers metadata pi () w) = Inr ()"
    by (simp add: identity_step_def wasm case_prod_beta unanswered_identity_is_none [OF ident])
  show "fst (resolve_identity r headers metadata w) = NoCredential" if "identity_chain r = [pi]"
    using step that by (cases "identity_step headers metadata pi () w") (simp add: resolve_identity_def)
qed

text \<open>
  An allow whose rewritten arguments do not parse is an allow without a rewrite: the call goes on with the arguments the gate
  meant to replace. The same mistake of a transform is an error.
\<close>

lemma malformed_rewrite_is_dropped:
  assumes "we_from_str we s = Inl e"
  shows "from_wit_gate_decision we (WitAllow md (Some s) mr) = from_wit_gate_decision we (WitAllow md None mr)"
    and "from_wit_gate_decision we (WitAllow md ma (Some s)) = from_wit_gate_decision we (WitAllow md ma None)"
    and "\<exists>m. from_wit_transform_result we (WitModified s) = TransformError m"
  using assms by (simp_all add: parse_optional_json_def ok_opt_def)

text \<open>The outer budget is the timeout and the grace, unless the sum wraps: the largest timeout leaves 99 milliseconds.\<close>

lemma call_budget_cases:
  "unat m + 100 < 2 ^ 64 \<Longrightarrow> call_budget m = unat m + 100" "call_budget (- 1) = 99"
  by (simp_all add: call_budget_def WASM_CALL_GRACE_MS_def unat_word_ariths)

section \<open>Samples\<close>

definition sample_wasm_env :: "(unit, string) wasm_env" where
  "sample_wasm_env = \<lparr>we_engine_new = (\<lambda>c. Inr ()), we_fuel_enabled = (\<lambda>e. True), we_add_wasi = (\<lambda>l. Inr (''wasi'' # l)),
     we_from_binary = (\<lambda>e b. if b = [] then Inl ''empty'' else Inr b), we_from_str = (\<lambda>s. Inl ''syntax''),
     we_to_string = (\<lambda>j. ''x''), we_protocol_version = ''1.0''\<rparr>"

definition prompt_pool :: "('w, 'a) blocking" where
  "prompt_pool f t w = (Joined (fst (f w)), snd (f w))"

lemma honest_prompt: "honest prompt_pool"
  by (auto simp: honest_def prompt_pool_def prod_eq_iff)

definition sample_wasm_plugin :: "string \<Rightarrow> (unit, string) wasm_plugin" where
  "sample_wasm_plugin i = \<lparr>wp_manifest = sample_manifest i, wp_engine = (), wp_component = ''asm'', wp_limits = default_wasm_limits,
     wp_source_path = [''g.wasm''], wp_epoch_ticker = ticker_start 0\<rparr>"

definition sample_wit_manifest :: wit_manifest where
  "sample_wit_manifest = \<lparr>wm_id = ''w1'', wm_version = ''1'', wm_name = ''w'', wm_plugin_class = ''tool_gate'', wm_protocol_version = ''1.0''\<rparr>"

text \<open>Guests whose exports trap.\<close>

definition trapping_gate :: "(unit, string, trace) gate_world" where
  "trapping_gate = \<lparr>gw_instantiate = (\<lambda>s l c w. (Inr 1, w)), gw_call_manifest = (\<lambda>i w. (Inr sample_wit_manifest, w)),
     gw_pre_dispatch = (\<lambda>i c x m y w. (Inl ''trap'', w)), gw_post_dispatch = (\<lambda>i c x m n y w. (Inl ''trap'', w))\<rparr>"

definition trapping_identity :: "(unit, string, trace) identity_world" where
  "trapping_identity = \<lparr>gw_instantiate = (\<lambda>s l c w. (Inr 1, w)), gw_call_manifest = (\<lambda>i w. (Inr sample_wit_manifest, w)),
     gw_resolve_identity = (\<lambda>i h c w. (Inl ''trap'', w))\<rparr>"

definition plain_transform :: "(unit, string, trace) transform_world" where
  "plain_transform = \<lparr>gw_instantiate = (\<lambda>s l c w. (Inr 1, w)), gw_call_manifest = (\<lambda>i w. (Inr sample_wit_manifest, w)),
     gw_transform_arguments = (\<lambda>i c x y w. (Inr WitUnchanged, w)), gw_transform_output = (\<lambda>i c x y w. (Inr WitUnchanged, w))\<rparr>"

definition wasm_registry :: "trace registry" where
  "wasm_registry = registry_new\<lparr>
     tool_gate_chain := [new_chain_entry ''w1'' (sample_manifest ''w1'') [] JNull True 0
       (wasm_tool_gate sample_wasm_env prompt_pool trapping_gate (sample_wasm_plugin ''w1''))],
     identity_chain := [new_chain_entry ''w2'' (sample_manifest ''w2'') [] JNull True 0
       (wasm_identity sample_wasm_env prompt_pool trapping_identity (sample_wasm_plugin ''w2''))]\<rparr>"

lemma trapping_samples:
  "unanswered (wasm_pre_task sample_wasm_env prompt_pool trapping_gate p c x m y)"
  "unanswered (wasm_post_task sample_wasm_env prompt_pool trapping_gate p c x z n y)"
  "unanswered (wasm_identity_task sample_wasm_env prompt_pool trapping_identity p h y)"
  unfolding wasm_pre_task_def wasm_post_task_def wasm_identity_task_def
  by (rule trapping_guest_unanswered [OF honest_prompt]; simp add: trapping_gate_def trapping_identity_def)+

theorem failed_wasm_guest_witness:
  "(\<forall>md ma mr. fst (evaluate_tool_gates_pre_from sample_env sample_runtime wasm_registry sample_context JNull None None None [])
      \<noteq> Allow md ma mr)
   \<and> fst (resolve_identity wasm_registry [(''authorization'', ''Bearer x'')] JNull []) = NoCredential"
proof -
  note law = failed_wasm_guest [OF trapping_samples, of "hd (tool_gate_chain wasm_registry)" wasm_registry "sample_wasm_plugin ''w1''"
      sample_env sample_runtime sample_context JNull None None None "[]" _ _ "hd (identity_chain wasm_registry)" "sample_wasm_plugin ''w2''"
      "[(''authorization'', ''Bearer x'')]" JNull]
  from law show ?thesis
    by (simp add: wasm_registry_def new_chain_entry_def serving_def wasm_identity_def)
qed

text \<open>A guest that would break out of a store without a limiter.\<close>

definition escaping_gate :: "(unit, string, trace) gate_world" where
  "escaping_gate = trapping_gate\<lparr>gw_instantiate := (\<lambda>s l c w. if ws_limiter s = None then (Inr 666, w) else (Inr 1, w))\<rparr>"

theorem guests_are_confined_witness:
  "wasm_tool_gate sample_wasm_env prompt_pool escaping_gate (sample_wasm_plugin ''w1'')
     = wasm_tool_gate sample_wasm_env prompt_pool trapping_gate (sample_wasm_plugin ''w1'')
   \<and> escaping_gate \<noteq> trapping_gate"
proof -
  have same: "same_when_confined sample_wasm_env (wp_limits (sample_wasm_plugin ''w1'')) escaping_gate trapping_gate"
    by (auto simp: same_when_confined_def confined_def escaping_gate_def trapping_gate_def)
  have refl: "same_when_confined sample_wasm_env (wp_limits (sample_wasm_plugin ''w1'')) gw gw"
    for gw :: "(unit, string, trace, 'm) guest_world_scheme" by (simp add: same_when_confined_def)
  have "gw_instantiate escaping_gate (store_new () (new_host_state default_wasm_limits)) [] ''asm'' []
      \<noteq> gw_instantiate trapping_gate (store_new () (new_host_state default_wasm_limits)) [] ''asm'' []"
    by (simp add: escaping_gate_def trapping_gate_def store_new_def)
  then have "escaping_gate \<noteq> trapping_gate" by metis
  with guests_are_confined [OF same _ _ refl [of plain_transform] HOL.refl HOL.refl refl [of trapping_identity] HOL.refl,
      of "\<lparr>wa_component = ''asm'', wa_artifact_hash = [], wa_source_path = [], wa_limits = default_wasm_limits\<rparr>" prompt_pool prompt_pool prompt_pool]
  show ?thesis by (simp add: escaping_gate_def sample_wasm_plugin_def)
qed

definition sample_wasm_load :: "string \<Rightarrow> (wasm_load_error, string wasm_artifact) rresult" where
  "sample_wasm_load b2 = load_wasm_component sample_wasm_env plain_hasher (\<lambda>k d s. None) (file_with ''elf'') (file_with b2) concat ()
     [''g.wasm''] \<lparr>wo_verify = open_options, wo_limits = default_wasm_limits\<rparr>"

theorem wasm_component_was_verified_witness:
  "sample_wasm_load ''elf'' = Inr \<lparr>wa_component = ''elf'', wa_artifact_hash = ''elf'', wa_source_path = [''g.wasm''], wa_limits = default_wasm_limits\<rparr>
   \<and> (\<forall>a. sample_wasm_load ''evil'' \<noteq> Inr a)"
proof -
  let ?load = "\<lambda>b. load_wasm_component sample_wasm_env plain_hasher (\<lambda>k d s. None) (file_with ''elf'') (file_with b) concat ()
     [''g.wasm''] \<lparr>wo_verify = open_options, wo_limits = default_wasm_limits\<rparr>"
  have law: "?load b = Inr a \<longleftrightarrow>
      (\<exists>v bytes c. verify_native_artifact plain_hasher (\<lambda>k d s. None) (file_with ''elf'') [''g.wasm''] open_options = Inr v
       \<and> Some ''elf'' = Some bytes \<and> Some b = Some bytes \<and> we_from_binary sample_wasm_env () bytes = Inr c
       \<and> a = \<lparr>wa_component = c, wa_artifact_hash = bytes, wa_source_path = [''g.wasm''], wa_limits = default_wasm_limits\<rparr>)" for a b
    using wasm_component_was_verified [of "file_with ''elf''" "[''g.wasm'']" "file_with b" plain_hasher sample_wasm_env "\<lambda>k d s. None"
        concat "()" "\<lparr>wo_verify = open_options, wo_limits = default_wasm_limits\<rparr>" a]
    by (simp add: file_with_def fs_read_def sha256_hex_def plain_hasher_def)
  have "\<exists>v. verify_native_artifact plain_hasher (\<lambda>k d s. None) (file_with ''elf'') [''g.wasm''] open_options = Inr v"
    by (simp add: verify_native_artifact_def file_with_def fs_read_def sha256_hex_def plain_hasher_def open_options_def
        skips_verification_def)
  with law show ?thesis by (simp add: sample_wasm_load_def sample_wasm_env_def)
qed

end
