(* ===== verification/Native_Services.thy ===== *)
theory Native_Services
  imports Native_Stores
begin

text \<open>
  The adapters of \<open>native_loader.rs\<close> for HTTP routes, credential issuers, approval notifiers and catalog
  providers. The types of the protocol that only pass through are type variables with their decoders as
  parameters.
\<close>

section \<open>HTTP routes\<close>

text \<open>
  A body is the bytes of the answer, or a stream fed by the two bridges: text items (\<open>HttpChunkWire\<close> as JSON)
  and chunks of bytes, the empty chunk being the end.
\<close>

datatype http_chunk = ChunkData string | ChunkEnd | OtherChunk json

record http_stream =
  hs_handle :: nat
  hs_text :: "string stream_bridge"
  hs_bytes :: "string stream_bridge"

datatype http_body = BodyFull json | BodyStream http_stream

record http_response =
  rs_status :: nat
  rs_headers :: "(string \<times> string) list"
  rs_body :: http_body

record http_handle_result =
  hh_handle :: nat
  hh_head_json :: string

record 'w http_route_vtable = "'w base_vtable" +
  hrv_routes_json :: "nat \<Rightarrow> 'w \<Rightarrow> string option \<times> 'w"
  hrv_handle_streaming :: "nat \<Rightarrow> string \<Rightarrow> ('w, http_handle_result) ffi_slot"
  hrv_cancel_stream :: "nat \<Rightarrow> nat \<Rightarrow> 'w \<Rightarrow> 'w"

text \<open>\<open>'q\<close> is the request, \<open>'s\<close> a route specification; \<open>he_error_json\<close> is \<open>HttpRouteResponse::error_json\<close>.\<close>

record ('q, 's) http_env = ffi_env +
  he_request :: "'q \<Rightarrow> string option"
  he_response :: "string \<Rightarrow> http_response option"
  he_head :: "string \<Rightarrow> (nat \<times> (string \<times> string) list) option"
  he_chunk :: "string \<Rightarrow> http_chunk option"
  he_routes :: "string \<Rightarrow> (string, 's list) rresult"
  he_error_json :: "nat \<Rightarrow> string \<Rightarrow> http_response"

type_synonym ('w, 's) http_adapter = "('w http_route_vtable, 's list) native_adapter"

definition http_route_from_vtable ::
  "('q, 's) http_env \<Rightarrow> ffi_limits \<Rightarrow> 'w http_route_vtable \<Rightarrow> json \<Rightarrow> string \<Rightarrow> 'w \<Rightarrow> (anyhow, ('w, 's) http_adapter) rresult \<times> 'w" where
  "http_route_from_vtable he limits vt config alias w =
     bind_made (make_instance (ffi_env.truncate he) ''http_route'' ''native http_route plugin returned empty manifest JSON''
         ''invalid manifest from native http_route plugin'' vt None config alias w)
       (\<lambda>(h, raw, m) w1.
          bind_made (read_slot vt h (guard_ffi_rstring (hrv_routes_json vt h)) (parsed ''invalid routes JSON from native http_route plugin'' (he_routes he)) w1)
            (\<lambda>routes w2. (Inr (new_adapter limits vt h m alias routes), w2)))"

text \<open>The buffered dispatch with its own budget and cap.\<close>

definition dispatch_http_route_via_vtable ::
  "('q, 's) http_env \<Rightarrow> (string \<Rightarrow> ('w, string) ffi_slot) \<Rightarrow> string \<Rightarrow> 'q \<Rightarrow> ffi_limits \<Rightarrow> ('w, http_response) fut" where
  "dispatch_http_route_via_vtable he vtable_fn plugin_id req limits =
     ferry (fl_data_timeout limits) (vtable_fn (unwrap_or ''{}'' (he_request he req)))
       (\<lambda>r. case r of
          Joined out \<Rightarrow>
            if is_err (enforce_ffi_payload_cap out (fl_max_payload_bytes limits))
            then he_error_json he 500 ''native http_route plugin payload exceeded the host FFI cap''
            else if out = [] then he_error_json he 500 (native_said plugin_id '' panicked'')
            else (case he_response he out of
                    Some wire \<Rightarrow> wire
                  | None \<Rightarrow> he_error_json he 500 (native_said plugin_id '' returned malformed response''))
        | JoinError e \<Rightarrow> he_error_json he 500 (native_said plugin_id '' panicked'')
        | Elapsed \<Rightarrow> he_error_json he 504 (native_said plugin_id '' timed out''))"

text \<open>
  \<open>handle\<close> awaits the slot without a timeout. Handle 0 means that \<open>head_json\<close> is the whole response; otherwise
  it is the head of a stream, which is cancelled when the head does not decode.
\<close>

definition http_route_handle ::
  "('q, 's) http_env \<Rightarrow> ('w, 's) http_adapter \<Rightarrow> 'q \<Rightarrow> 'w \<Rightarrow> http_response \<times> 'w" where
  "http_route_handle he a req w =
     (let i = m_id (na_manifest a)
      in case fs_caught (hrv_handle_streaming (na_vtable a) (na_handle a) (unwrap_or ''{}'' (he_request he req))) w of
           (None, w1) \<Rightarrow> (he_error_json he 500 (native_said i '' panicked''), w1)
         | (Some r, w1) \<Rightarrow>
             if hh_handle r = 0 then
               (if hh_head_json r = [] then he_error_json he 500 (native_said i '' returned empty response'')
                else (case he_response he (hh_head_json r) of
                        Some wire \<Rightarrow> wire
                      | None \<Rightarrow> he_error_json he 500 (native_said i '' returned malformed response'')), w1)
             else (case he_head he (hh_head_json r) of
                     None \<Rightarrow> (he_error_json he 500 (native_said i '' returned malformed stream head''),
                              hrv_cancel_stream (na_vtable a) (na_handle a) (hh_handle r) w1)
                   | Some (status, headers) \<Rightarrow>
                       (\<lparr>rs_status = status, rs_headers = headers,
                         rs_body = BodyStream \<lparr>hs_handle = hh_handle r, hs_text = make_stream_bridge, hs_bytes = make_stream_bridge\<rparr>\<rparr>, w1)))"

text \<open>
  \<open>HttpChunkStream::poll_next\<close>: bytes before text. The senders of both channels live in the bridges, which the
  guard of the stream owns, so a channel is not closed while the stream is there, and a poll does not end it.
\<close>

definition http_poll :: "('q, 's) http_env \<Rightarrow> http_stream \<Rightarrow> http_chunk poll \<times> http_stream" where
  "http_poll he s =
     (case ch_items (sb_channel (hs_bytes s)) of
        chunk # rest \<Rightarrow>
          (Ready (if chunk = [] then ChunkEnd else ChunkData chunk),
           s\<lparr>hs_bytes := (hs_bytes s)\<lparr>sb_channel := (sb_channel (hs_bytes s))\<lparr>ch_items := rest\<rparr>\<rparr>\<rparr>)
      | [] \<Rightarrow> (let (p, b) = poll_next (he_chunk he) (hs_text s) in (p, s\<lparr>hs_text := b\<rparr>)))"

text \<open>The guard: both flags before the cancel slot, which may still emit on either side.\<close>

definition http_stream_drop :: "string list \<Rightarrow> string list \<Rightarrow> http_stream \<Rightarrow> http_stream" where
  "http_stream_drop texts chunks s =
     s\<lparr>hs_text := cancel_stream texts (hs_text s), hs_bytes := cancel_stream chunks (hs_bytes s)\<rparr>"

section \<open>Credential issuers\<close>

datatype cred_error = CredentialBackend string | OtherCredentialError json

record 'w issuer_vtable = "'w base_vtable" +
  civ_issue :: "nat \<Rightarrow> string \<Rightarrow> ('w, string) ffi_slot"
  civ_revoke :: "nat \<Rightarrow> string \<Rightarrow> ('w, string) ffi_slot"

record 'c issuer_env = ffi_env +
  ci_identity_json :: "identity \<Rightarrow> json"
  ci_result :: "string \<Rightarrow> (string, cred_error + 'c) rresult"
  ci_unit :: "string \<Rightarrow> (string, cred_error + unit) rresult"

definition issuer_from_vtable where
  "issuer_from_vtable fe limits vt config alias w =
     plain_from_vtable fe limits ''credential_issuer'' ''native credential_issuer plugin returned empty manifest''
       ''invalid manifest from credential_issuer'' (vt :: 'w issuer_vtable) None config alias w"

text \<open>A slot that answers with a serialised \<open>Result\<close>, awaited under the data timeout.\<close>

definition call_result ::
  "(string \<Rightarrow> 'e) \<Rightarrow> (string \<Rightarrow> 'e) \<Rightarrow> string \<Rightarrow> string \<Rightarrow> (string \<Rightarrow> (string, 'e + 'a) rresult) \<Rightarrow> nat \<Rightarrow> ('w, string) ffi_slot
    \<Rightarrow> ('w, 'e + 'a) fut" where
  "call_result broken late plugin_id malformed decode timeout slot =
     ferry timeout slot
       (\<lambda>r. case r of
          Joined raw \<Rightarrow>
            if raw = [] then Inl (broken (native_said plugin_id '' panicked''))
            else (case decode raw of
                    Inr answer \<Rightarrow> answer
                  | Inl e \<Rightarrow> Inl (broken (native_said plugin_id (malformed @ e))))
        | JoinError e \<Rightarrow> Inl (broken (native_said plugin_id '' blocking task panicked''))
        | Elapsed \<Rightarrow> Inl (late (native_said plugin_id '' timed out'')))"

definition issuer_issue ::
  "'c issuer_env \<Rightarrow> ('w issuer_vtable, unit) native_adapter \<Rightarrow> identity \<Rightarrow> string \<Rightarrow> json \<Rightarrow> ('w, cred_error + 'c) fut" where
  "issuer_issue ci a i target config =
     call_result CredentialBackend CredentialBackend (m_id (na_manifest a)) '' returned malformed credential JSON: '' (ci_result ci)
       (fl_data_timeout (na_limits a))
       (civ_issue (na_vtable a) (na_handle a) (unwrap_or ''{}'' (fe_to_string ci
          (json_obj [(''identity'', ci_identity_json ci i), (''target'', JString target), (''config'', config)]))))"

definition issuer_revoke ::
  "'c issuer_env \<Rightarrow> ('w issuer_vtable, unit) native_adapter \<Rightarrow> string \<Rightarrow> ('w, cred_error + unit) fut" where
  "issuer_revoke ci a lease_id =
     ferry (fl_control_timeout (na_limits a)) (civ_revoke (na_vtable a) (na_handle a) lease_id)
       (\<lambda>r. case r of
          Joined out \<Rightarrow>
            (case ci_unit ci out of
               Inr answer \<Rightarrow> answer
             | Inl e \<Rightarrow> Inl (CredentialBackend (native_said (m_id (na_manifest a)) ('' returned undecodable revoke envelope: '' @ e))))
        | _ \<Rightarrow> Inl (CredentialBackend (native_said (m_id (na_manifest a)) '' revoke timed out'')))"

section \<open>Approval notifiers\<close>

datatype notification_error = NotificationInternal string | NotificationBackend string | OtherNotificationError json

record 'w notifier_vtable = "'w base_vtable" +
  anv_notify :: "nat \<Rightarrow> string \<Rightarrow> ('w, string) ffi_slot"

record ('q, 'n) notifier_env = ffi_env +
  an_request :: "'q \<Rightarrow> string option"
  an_result :: "string \<Rightarrow> (string, notification_error + 'n) rresult"

definition notifier_from_vtable where
  "notifier_from_vtable fe limits vt config alias w =
     plain_from_vtable fe limits ''approval_notifier'' ''native approval_notifier plugin returned empty manifest''
       ''invalid manifest from approval_notifier'' (vt :: 'w notifier_vtable) None config alias w"

definition notifier_notify ::
  "('q, 'n) notifier_env \<Rightarrow> ('w notifier_vtable, unit) native_adapter \<Rightarrow> 'q \<Rightarrow> ('w, notification_error + 'n) fut" where
  "notifier_notify an a request =
     call_result NotificationInternal NotificationBackend (m_id (na_manifest a)) '' returned malformed notify JSON: '' (an_result an)
       (fl_data_timeout (na_limits a)) (anv_notify (na_vtable a) (na_handle a) (unwrap_or ''{}'' (an_request an request)))"

section \<open>Catalog providers\<close>

record 'w catalog_vtable = "'w base_vtable" +
  ctv_filter_and_enrich :: "nat \<Rightarrow> string \<Rightarrow> ('w, string) ffi_slot"
  ctv_describe :: "nat \<Rightarrow> string \<Rightarrow> ('w, string) ffi_slot"
  ctv_list_catalog :: "nat \<Rightarrow> ('w, string) ffi_slot"

record ('t, 'k) catalog_env = ffi_env +
  ct_context_json :: "plugin_context \<Rightarrow> json"
  ct_tool_json :: "'t \<Rightarrow> json"
  ct_tools :: "string \<Rightarrow> 't list option"
  ct_entry :: "string \<Rightarrow> 'k option"
  ct_entries :: "string \<Rightarrow> 'k list option"

definition catalog_from_vtable where
  "catalog_from_vtable fe limits vt config alias w =
     plain_from_vtable fe limits ''catalog_provider'' ''native catalog_provider plugin returned empty manifest''
       ''invalid manifest from catalog_provider'' (vt :: 'w catalog_vtable) None config alias w"

text \<open>Whatever goes wrong, the list is empty: the tools are hidden, not passed on unfiltered.\<close>

definition catalog_filter_and_enrich ::
  "('t, 'k) catalog_env \<Rightarrow> ('w catalog_vtable, unit) native_adapter \<Rightarrow> plugin_context \<Rightarrow> 't list \<Rightarrow> ('w, 't list) fut" where
  "catalog_filter_and_enrich ct a ctx in_progress =
     ferry (fl_data_timeout (na_limits a))
       (ctv_filter_and_enrich (na_vtable a) (na_handle a) (unwrap_or ''{}'' (fe_to_string ct
          (json_obj [(''ctx'', ct_context_json ct ctx), (''in_progress'', JArray (map (ct_tool_json ct) in_progress))]))))
       (\<lambda>r. case r of
          Joined raw \<Rightarrow> if raw = [] then [] else unwrap_or [] (ct_tools ct raw)
        | _ \<Rightarrow> [])"

definition catalog_describe ::
  "('t, 'k) catalog_env \<Rightarrow> ('w catalog_vtable, unit) native_adapter \<Rightarrow> string \<Rightarrow> ('w, 'k option) fut" where
  "catalog_describe ct a tool_id =
     ferry (fl_control_timeout (na_limits a)) (ctv_describe (na_vtable a) (na_handle a) tool_id)
       (\<lambda>r. case r of
          Joined raw \<Rightarrow> if raw = [] \<or> raw = ''null'' then None else ct_entry ct raw
        | _ \<Rightarrow> None)"

definition catalog_list ::
  "('t, 'k) catalog_env \<Rightarrow> ('w catalog_vtable, unit) native_adapter \<Rightarrow> ('w, 'k list) fut" where
  "catalog_list ct a =
     ferry (fl_data_timeout (na_limits a)) (ctv_list_catalog (na_vtable a) (na_handle a))
       (\<lambda>r. case r of Joined raw \<Rightarrow> unwrap_or [] (ct_entries ct raw) | _ \<Rightarrow> [])"

section \<open>Construction\<close>

lemma service_constructors_accounted:
  "ledger_ok live vt1 \<Longrightarrow> (\<And>h. undisturbed live (hrv_routes_json vt1 h)) \<Longrightarrow>
    accounted live w na_handle (http_route_from_vtable he limits vt1 config alias w)"
  "ledger_ok live vt2 \<Longrightarrow> accounted live w na_handle (issuer_from_vtable fe limits vt2 config alias w)"
  "ledger_ok live vt3 \<Longrightarrow> accounted live w na_handle (notifier_from_vtable fe limits vt3 config alias w)"
  "ledger_ok live vt4 \<Longrightarrow> accounted live w na_handle (catalog_from_vtable fe limits vt4 config alias w)"
  unfolding http_route_from_vtable_def issuer_from_vtable_def notifier_from_vtable_def catalog_from_vtable_def
  by (rule accounted_made [OF _ undisturbed_rstring], assumption, assumption) (rule plain_accounted, assumption)+

lemma call_result_ok:
  "fst (await (call_result broken late i malformed decode t slot) w) = Inr a \<longleftrightarrow>
    (\<exists>raw. fst (fs_ferried slot t w) = Joined raw \<and> raw \<noteq> [] \<and> decode raw = Inr (Inr a))"
  by (cases "fst (fs_ferried slot t w)") (auto simp: call_result_def split: sum.splits)

lemma ferried_unit_ok:
  "fst (await (ferry t slot (\<lambda>r. case r of
       Joined out \<Rightarrow> (case envelope out of Inr answer \<Rightarrow> answer | Inl e \<Rightarrow> Inl (bad e))
     | JoinError e \<Rightarrow> Inl late | Elapsed \<Rightarrow> Inl late)) w) = Inr a \<longleftrightarrow>
    (\<exists>raw. fst (fs_ferried slot t w) = Joined raw \<and> envelope raw = Inr (Inr a))"
  by (cases "fst (fs_ferried slot t w)") (auto split: sum.splits)

lemma ferried_list:
  "x \<in> set (fst (await (ferry t slot (\<lambda>r. case r of
       Joined raw \<Rightarrow> if raw = [] then [] else unwrap_or [] (decode raw) | JoinError e \<Rightarrow> [] | Elapsed \<Rightarrow> [])) w)) \<longleftrightarrow>
    (\<exists>raw ts. fst (fs_ferried slot t w) = Joined raw \<and> raw \<noteq> [] \<and> decode raw = Some ts \<and> x \<in> set ts)"
proof (cases "fst (fs_ferried slot t w)")
  case (Joined raw)
  then show ?thesis by (cases "decode raw") auto
qed simp_all

section \<open>Response streams\<close>

text \<open>The plugin emits on either side while the consumer polls.\<close>

datatype http_op = EmitText string | EmitBytes string | PollBody

fun http_step :: "('q, 's) http_env \<Rightarrow> http_op \<Rightarrow> http_stream \<times> http_chunk poll list \<Rightarrow> http_stream \<times> http_chunk poll list" where
  "http_step he (EmitText x) (s, ps) = (s\<lparr>hs_text := stream_bridge_callback x (hs_text s)\<rparr>, ps)"
| "http_step he (EmitBytes x) (s, ps) = (s\<lparr>hs_bytes := stream_bridge_callback x (hs_bytes s)\<rparr>, ps)"
| "http_step he PollBody (s, ps) = (let (p, s') = http_poll he s in (s', ps @ [p]))"

definition http_run :: "('q, 's) http_env \<Rightarrow> http_op list \<Rightarrow> http_stream \<Rightarrow> http_stream \<times> http_chunk poll list" where
  "http_run he ops s = fold (http_step he) ops (s, [])"

text \<open>An operation that does not announce the end of the body.\<close>

fun no_end :: "('q, 's) http_env \<Rightarrow> http_op \<Rightarrow> bool" where
  "no_end he (EmitText x) = (he_chunk he x \<noteq> Some ChunkEnd)"
| "no_end he (EmitBytes x) = (x \<noteq> [])"
| "no_end he PollBody = True"

definition emits :: "http_op list \<Rightarrow> nat" where
  "emits ops = length (filter (\<lambda>op. op \<noteq> PollBody) ops)"

definition ready_count :: "http_chunk poll list \<Rightarrow> nat" where
  "ready_count ps = length (filter (\<lambda>p. p \<noteq> Pending) ps)"

text \<open>Nothing that waits, and nothing that was delivered, is an end; what waits and was delivered was emitted.\<close>

definition endless :: "('q, 's) http_env \<Rightarrow> nat \<Rightarrow> http_stream \<times> http_chunk poll list \<Rightarrow> bool" where
  "endless he n x \<longleftrightarrow>
     (let texts = ch_items (sb_channel (hs_text (fst x))); chunks = ch_items (sb_channel (hs_bytes (fst x)))
      in (\<forall>t \<in> set texts. he_chunk he t \<noteq> Some ChunkEnd) \<and> [] \<notin> set chunks \<and> Ready ChunkEnd \<notin> set (snd x)
       \<and> ready_count (snd x) + length texts + length chunks \<le> n)"

lemma callback_items:
  "ch_items (sb_channel (stream_bridge_callback x b)) \<in> {ch_items (sb_channel b), ch_items (sb_channel b) @ [x]}"
  by (simp add: stream_bridge_callback_def try_send_def)

lemma take_decoded_cases:
  "take_decoded d xs = (p, rest) \<Longrightarrow> set rest \<subseteq> set xs \<and> length rest \<le> length xs
    \<and> (p = Pending \<or> (\<exists>x \<in> set xs. \<exists>i. d x = Some i \<and> p = Ready i \<and> length rest < length xs))"
  by (induction d xs rule: take_decoded.induct) (auto split: option.splits)

lemma endless_poll: "endless he n (s, ps) \<Longrightarrow> endless he n (http_step he PollBody (s, ps))"
proof (cases "ch_items (sb_channel (hs_bytes s))")
  case (Cons c cs)
  assume "endless he n (s, ps)"
  with Cons show ?thesis by (auto simp: endless_def http_poll_def ready_count_def Let_def)
next
  case Nil
  assume e: "endless he n (s, ps)"
  obtain p rest where t: "take_decoded (he_chunk he) (ch_items (sb_channel (hs_text s))) = (p, rest)" by fastforce
  from Nil have step: "http_step he PollBody (s, ps) =
      (s\<lparr>hs_text := (hs_text s)\<lparr>sb_channel := (sb_channel (hs_text s))\<lparr>ch_items := rest\<rparr>\<rparr>\<rparr>, ps @ [p])"
    by (simp add: http_poll_def poll_next_def t)
  from take_decoded_cases [OF t] e Nil show ?thesis
    unfolding step by (auto simp: endless_def ready_count_def Let_def)
qed

lemma endless_step:
  assumes "no_end he op" and e: "endless he n x"
  shows "endless he (if op = PollBody then n else Suc n) (http_step he op x)"
proof (cases op)
  case (EmitText y)
  with assms callback_items [of y "hs_text (fst x)"] show ?thesis by (cases x) (auto simp: endless_def Let_def)
next
  case (EmitBytes y)
  with assms callback_items [of y "hs_bytes (fst x)"] show ?thesis by (cases x) (auto simp: endless_def Let_def)
next
  case PollBody
  with e endless_poll show ?thesis by (cases x) simp
qed

lemma endless_run:
  "list_all (no_end he) ops \<Longrightarrow> endless he n x \<Longrightarrow> endless he (n + emits ops) (fold (http_step he) ops x)"
proof (induction ops arbitrary: n x)
  case (Cons op ops)
  then have "endless he ((if op = PollBody then n else Suc n) + emits ops) (fold (http_step he) ops (http_step he op x))"
    by (intro Cons.IH endless_step) simp_all
  then show ?case by (auto simp: emits_def split: if_splits)
qed (simp add: emits_def)

section \<open>Properties\<close>

text \<open>
  The response stream of a native route has no end of its own. Whatever the plugin emits short of an end
  marker (the end chunk as text, or the empty chunk of bytes), and however long the consumer polls, no poll
  reports the end of the body, and all but as many polls as there were items are pending: a plugin that stops
  without the marker leaves the response open. (The channels cannot close, since the stream keeps the senders
  alive; the comment says the stream ends when both senders close.)
\<close>

theorem route_stream_ends_by_marker_only:
  assumes "list_all (no_end he) ops" and "http_route_handle he a req w = (r, w')" and "rs_body r = BodyStream s"
    and "\<And>n msg s. rs_body (he_error_json he n msg) \<noteq> BodyStream s" and "\<And>raw r s. he_response he raw = Some r \<Longrightarrow> rs_body r \<noteq> BodyStream s"
  shows "Ready ChunkEnd \<notin> set (snd (http_run he ops s))
    \<and> length (filter (\<lambda>p. p \<noteq> Pending) (snd (http_run he ops s))) \<le> emits ops"
proof -
  have "hs_text s = make_stream_bridge" "hs_bytes s = make_stream_bridge"
    using assms(2-5) by (auto simp: http_route_handle_def Let_def split: option.splits prod.splits if_splits)
  then have "endless he 0 (s, [])"
    by (simp add: endless_def make_stream_bridge_def channel_new_def ready_count_def)
  from endless_run [OF assms(1) this] show ?thesis by (simp add: http_run_def endless_def ready_count_def Let_def)
qed

text \<open>A route that streams two chunks and stops.\<close>

definition sample_http_env :: "(unit, unit) http_env" where
  "sample_http_env = \<lparr>fe_to_string = (\<lambda>j. Some ''x''), fe_manifest = (\<lambda>s. Inr (sample_manifest s)), he_request = (\<lambda>q. Some ''q''),
     he_response = (\<lambda>s. None), he_head = (\<lambda>s. Some (200, [])), he_chunk = (\<lambda>s. Some (if s = ''end'' then ChunkEnd else OtherChunk (JString s))),
     he_routes = (\<lambda>s. Inr []), he_error_json = (\<lambda>n s. \<lparr>rs_status = n, rs_headers = [], rs_body = BodyFull (JString s)\<rparr>)\<rparr>"

definition sample_http_route :: "(unit, unit) http_adapter" where
  "sample_http_route = new_adapter \<lparr>fl_lifecycle_timeout = 1, fl_control_timeout = 1, fl_data_timeout = 1, fl_max_payload_bytes = 1\<rparr>
     \<lparr>bv_make = (\<lambda>r c n w. (Some 1, w)), bv_manifest_json = (\<lambda>h w. (Some ''p'', w)), bv_shutdown = (\<lambda>h w. (Some (), w)),
      bv_drop_instance = (\<lambda>h w. (Some (), w)), hrv_routes_json = (\<lambda>h w. (Some ''r'', w)),
      hrv_handle_streaming = (\<lambda>h q. \<lparr>fs_inline = (\<lambda>w. (\<lparr>hh_handle = 7, hh_head_json = ''h''\<rparr>, w)),
        fs_caught = (\<lambda>w. (Some \<lparr>hh_handle = 7, hh_head_json = ''h''\<rparr>, w)),
        fs_ferried = (\<lambda>t w. (Joined \<lparr>hh_handle = 7, hh_head_json = ''h''\<rparr>, w))\<rparr>),
      hrv_cancel_stream = (\<lambda>h k w. w)\<rparr>
     1 (sample_manifest ''r'') ''r'' []"

theorem route_stream_ends_by_marker_only_witness:
  "Ready ChunkEnd \<notin> set (snd (http_run sample_http_env [EmitText ''a'', EmitBytes ''b'', PollBody, PollBody, PollBody, PollBody]
     \<lparr>hs_handle = 7, hs_text = make_stream_bridge, hs_bytes = make_stream_bridge\<rparr>))"
proof -
  have "http_route_handle sample_http_env sample_http_route () () = (\<lparr>rs_status = 200, rs_headers = [],
      rs_body = BodyStream \<lparr>hs_handle = 7, hs_text = make_stream_bridge, hs_bytes = make_stream_bridge\<rparr>\<rparr>, ())"
    by (simp add: http_route_handle_def sample_http_env_def sample_http_route_def)
  from route_stream_ends_by_marker_only [OF _ this, THEN conjunct1] show ?thesis
    by (simp add: sample_http_env_def)
qed

text \<open>
  An issuer, a notifier or a catalog provider that is loaded natively never speaks for itself: a
  credential, an accepted notification and every listed tool is in an answer the plugin gave within its data
  timeout and that decodes to it; a slot that hangs, dies or answers with something else gives an error, and
  hides every tool.
\<close>

theorem native_services_relay_plugin_answers:
  "(fst (await (issuer_issue ci a1 i target config) w) = Inr c \<longleftrightarrow>
      (\<exists>raw. fst (fs_ferried (civ_issue (na_vtable a1) (na_handle a1) (unwrap_or ''{}'' (fe_to_string ci
          (json_obj [(''identity'', ci_identity_json ci i), (''target'', JString target), (''config'', config)]))))
          (fl_data_timeout (na_limits a1)) w) = Joined raw \<and> raw \<noteq> [] \<and> ci_result ci raw = Inr (Inr c)))
   \<and> (fst (await (issuer_revoke ci a1 lease) w) = Inr () \<longleftrightarrow>
      (\<exists>raw. fst (fs_ferried (civ_revoke (na_vtable a1) (na_handle a1) lease) (fl_control_timeout (na_limits a1)) w) = Joined raw
        \<and> ci_unit ci raw = Inr (Inr ())))
   \<and> (fst (await (notifier_notify an a2 req) w) = Inr n \<longleftrightarrow>
      (\<exists>raw. fst (fs_ferried (anv_notify (na_vtable a2) (na_handle a2) (unwrap_or ''{}'' (an_request an req)))
          (fl_data_timeout (na_limits a2)) w) = Joined raw \<and> raw \<noteq> [] \<and> an_result an raw = Inr (Inr n)))
   \<and> (t \<in> set (fst (await (catalog_filter_and_enrich ct a3 ctx tools) w)) \<longleftrightarrow>
      (\<exists>raw ts. fst (fs_ferried (ctv_filter_and_enrich (na_vtable a3) (na_handle a3) (unwrap_or ''{}'' (fe_to_string ct
          (json_obj [(''ctx'', ct_context_json ct ctx), (''in_progress'', JArray (map (ct_tool_json ct) tools))]))))
          (fl_data_timeout (na_limits a3)) w) = Joined raw \<and> raw \<noteq> [] \<and> ct_tools ct raw = Some ts \<and> t \<in> set ts))"
  unfolding issuer_issue_def issuer_revoke_def notifier_notify_def catalog_filter_and_enrich_def call_result_ok ferried_unit_ok ferried_list
  by (rule conjI [OF refl conjI [OF refl conjI [OF refl refl]]])

end
