(* ===== verification/Metered_Calls.thy ===== *)
theory Metered_Calls
  imports Native_Services Audit_Builders
begin

text \<open>
  The data methods of the metering decorators (\<open>*_metering.rs\<close>) and the records of the calls into native plugins
  (\<open>ffi_metering.rs\<close>): what each call adds to the metrics, and what it does beside. \<open>Metering\<close> has the part of the
  decorators the registry relies on.

  A method takes the state of the world; behind a decorator it also takes the list of what was recorded so far. The
  clock is a parameter, and so are the labels of errors (\<open>kind_label\<close> of the protocol crate). Spans are left out.
\<close>

section \<open>Metrics\<close>

datatype metric =
    Counter string "(string \<times> string) list" nat
  | Histogram string "(string \<times> string) list" nat

text \<open>The sum of a counter over all labels, and the number of samples of a histogram.\<close>

fun counted :: "string \<Rightarrow> metric \<Rightarrow> nat" where
  "counted n (Counter m labels k) = (if m = n then k else 0)"
| "counted n (Histogram m labels v) = 0"

fun sampled :: "string \<Rightarrow> metric \<Rightarrow> nat" where
  "sampled n (Counter m labels k) = 0"
| "sampled n (Histogram m labels v) = (if m = n then 1 else 0)"

definition counter_total :: "string \<Rightarrow> metric list \<Rightarrow> nat" where
  "counter_total n ms = sum_list (map (counted n) ms)"

definition samples :: "string \<Rightarrow> metric list \<Rightarrow> nat" where
  "samples n ms = sum_list (map (sampled n) ms)"

lemma counter_total_simps [simp]:
  "counter_total n [] = 0" "counter_total n (m # ms) = counted n m + counter_total n ms" "counter_total n (ms @ ms') = counter_total n ms + counter_total n ms'"
  by (simp_all add: counter_total_def)

lemma samples_simps [simp]:
  "samples n [] = 0" "samples n (m # ms) = sampled n m + samples n ms" "samples n (ms @ ms') = samples n ms + samples n ms'"
  by (simp_all add: samples_def)

type_synonym ('w, 'a) call = "'w \<Rightarrow> 'a \<times> 'w"
type_synonym 'w metered_world = "'w \<times> metric list"

text \<open>A call between two readings of the clock, and what is recorded of its answer and its duration.\<close>

definition metered :: "('w \<Rightarrow> nat) \<Rightarrow> ('a \<Rightarrow> nat \<Rightarrow> metric list) \<Rightarrow> ('w, 'a) call \<Rightarrow> ('w metered_world, 'a) call" where
  "metered clock record call = (\<lambda>(w, ms). let (a, w1) = call w in (a, (w1, ms @ record a (clock w1 - clock w))))"

definition forward :: "('w, 'a) call \<Rightarrow> ('w metered_world, 'a) call" where
  "forward call = (\<lambda>(w, ms). let (a, w1) = call w in (a, (w1, ms)))"

definition is_hit :: "'a option \<Rightarrow> string" where
  "is_hit r = (if r \<noteq> None then ''hit'' else ''miss'')"

definition err_kind :: "('e \<Rightarrow> string) \<Rightarrow> ('e, 'a) rresult \<Rightarrow> string option" where
  "err_kind kind r = (case r of Inl e \<Rightarrow> Some (kind e) | Inr _ \<Rightarrow> None)"

section \<open>Stores\<close>

definition record_store :: "string \<Rightarrow> string \<Rightarrow> string \<Rightarrow> nat \<Rightarrow> string option \<Rightarrow> metric list" where
  "record_store plugin_id role op elapsed kind =
     [Histogram ''mcpg_store_op_latency_seconds'' [(''plugin_id'', plugin_id), (''role'', role), (''op'', op)] elapsed,
      (case kind of
         None \<Rightarrow> Counter ''mcpg_store_ops_total'' [(''plugin_id'', plugin_id), (''role'', role), (''op'', op)] 1
       | Some k \<Rightarrow> Counter ''mcpg_store_errors_total'' [(''plugin_id'', plugin_id), (''role'', role), (''kind'', k)] 1)]"

text \<open>Values, pages, results of \<open>append\<close>, streams. A role is its label.\<close>

record ('w, 'v, 'p, 'r, 's) store_object =
  so_manifest :: manifest
  so_supported_roles :: "string list"
  so_get :: "string \<Rightarrow> string \<Rightarrow> ('w, (store_error, 'v option) rresult) call"
  so_put :: "string \<Rightarrow> string \<Rightarrow> 'v \<Rightarrow> ('w, (store_error, unit) rresult) call"
  so_delete :: "string \<Rightarrow> string \<Rightarrow> ('w, (store_error, unit) rresult) call"
  so_list :: "string \<Rightarrow> string \<Rightarrow> string option \<Rightarrow> ('w, (store_error, 'p) rresult) call"
  so_compare_and_swap :: "string \<Rightarrow> string \<Rightarrow> 'v option \<Rightarrow> 'v \<Rightarrow> ('w, (store_error, bool) rresult) call"
  so_append :: "string \<Rightarrow> string \<Rightarrow> 'v \<Rightarrow> ('w, (store_error, 'r) rresult) call"
  so_watch :: "string \<Rightarrow> string \<Rightarrow> ('w, (store_error, 's) rresult) call"
  so_shutdown :: "('w, unit) call"

definition store_op ::
  "('w \<Rightarrow> nat) \<Rightarrow> (store_error \<Rightarrow> string) \<Rightarrow> string \<Rightarrow> string \<Rightarrow> string \<Rightarrow> ('w, (store_error, 'a) rresult) call
    \<Rightarrow> ('w metered_world, (store_error, 'a) rresult) call" where
  "store_op clock kind plugin_id role op = metered clock (\<lambda>r elapsed. record_store plugin_id role op elapsed (err_kind kind r))"

definition metered_store_object ::
  "('w \<Rightarrow> nat) \<Rightarrow> (store_error \<Rightarrow> string) \<Rightarrow> ('w, 'v, 'p, 'r, 's) store_object
    \<Rightarrow> ('w metered_world, 'v, 'p, 'r, 's) store_object" where
  "metered_store_object clock kind inner =
     (let plugin_id = m_id (so_manifest inner)
      in \<lparr>so_manifest = so_manifest inner, so_supported_roles = so_supported_roles inner,
          so_get = (\<lambda>role key. store_op clock kind plugin_id role ''get'' (so_get inner role key)),
          so_put = (\<lambda>role key v. store_op clock kind plugin_id role ''put'' (so_put inner role key v)),
          so_delete = (\<lambda>role key. store_op clock kind plugin_id role ''delete'' (so_delete inner role key)),
          so_list = (\<lambda>role p cursor. store_op clock kind plugin_id role ''list'' (so_list inner role p cursor)),
          so_compare_and_swap = (\<lambda>role key expected new.
            store_op clock kind plugin_id role ''compare_and_swap'' (so_compare_and_swap inner role key expected new)),
          so_append = (\<lambda>role key v. store_op clock kind plugin_id role ''append'' (so_append inner role key v)),
          so_watch = (\<lambda>role key. store_op clock kind plugin_id role ''watch'' (so_watch inner role key)),
          so_shutdown = forward (so_shutdown inner)\<rparr>)"

section \<open>Caches\<close>

definition cache_success :: "string \<Rightarrow> string \<Rightarrow> string \<Rightarrow> string \<Rightarrow> nat \<Rightarrow> metric list" where
  "cache_success plugin_id namespace op outcome elapsed =
     [Histogram ''mcpg_cache_op_latency_seconds'' [(''plugin_id'', plugin_id), (''namespace'', namespace), (''op'', op)] elapsed,
      Counter ''mcpg_cache_ops_total''
        [(''plugin_id'', plugin_id), (''namespace'', namespace), (''op'', op), (''outcome'', outcome)] 1]"

definition cache_failure :: "string \<Rightarrow> string \<Rightarrow> string \<Rightarrow> string \<Rightarrow> nat \<Rightarrow> metric list" where
  "cache_failure plugin_id namespace op kind elapsed =
     [Histogram ''mcpg_cache_op_latency_seconds'' [(''plugin_id'', plugin_id), (''namespace'', namespace), (''op'', op)] elapsed,
      Counter ''mcpg_cache_errors_total'' [(''plugin_id'', plugin_id), (''namespace'', namespace), (''kind'', kind)] 1]"

record 'w cache_object =
  co_manifest :: manifest
  co_supported_namespaces :: "string list"
  co_serves_any_namespace :: bool
  co_get :: "string \<Rightarrow> string \<Rightarrow> ('w, string option) call"
  co_put :: "string \<Rightarrow> string \<Rightarrow> string \<Rightarrow> nat \<Rightarrow> ('w, (cache_error, unit) rresult) call"
  co_delete :: "string \<Rightarrow> string \<Rightarrow> ('w, unit) call"
  co_clear :: "string \<Rightarrow> ('w, (cache_error, unit) rresult) call"
  co_incr :: "string \<Rightarrow> string \<Rightarrow> int \<Rightarrow> nat \<Rightarrow> ('w, (cache_error, int) rresult) call"
  co_shutdown :: "('w, unit) call"

definition cache_op ::
  "('w \<Rightarrow> nat) \<Rightarrow> (cache_error \<Rightarrow> string) \<Rightarrow> string \<Rightarrow> string \<Rightarrow> string \<Rightarrow> ('w, (cache_error, 'a) rresult) call
    \<Rightarrow> ('w metered_world, (cache_error, 'a) rresult) call" where
  "cache_op clock kind plugin_id namespace op =
     metered clock (\<lambda>r elapsed. case r of
         Inr _ \<Rightarrow> cache_success plugin_id namespace op ''ok'' elapsed
       | Inl e \<Rightarrow> cache_failure plugin_id namespace op (kind e) elapsed)"

text \<open>The label is the namespace of the binding, whatever namespace a call names.\<close>

definition metered_cache_object ::
  "('w \<Rightarrow> nat) \<Rightarrow> (cache_error \<Rightarrow> string) \<Rightarrow> string \<Rightarrow> 'w cache_object \<Rightarrow> 'w metered_world cache_object" where
  "metered_cache_object clock kind namespace inner =
     (let plugin_id = m_id (co_manifest inner)
      in \<lparr>co_manifest = co_manifest inner, co_supported_namespaces = co_supported_namespaces inner,
          co_serves_any_namespace = co_serves_any_namespace inner,
          co_get = (\<lambda>ns key. metered clock (\<lambda>r. cache_success plugin_id namespace ''get'' (is_hit r)) (co_get inner ns key)),
          co_put = (\<lambda>ns key v ttl. cache_op clock kind plugin_id namespace ''put'' (co_put inner ns key v ttl)),
          co_delete = (\<lambda>ns key. metered clock (\<lambda>r. cache_success plugin_id namespace ''delete'' ''ok'') (co_delete inner ns key)),
          co_clear = (\<lambda>ns. cache_op clock kind plugin_id namespace ''clear'' (co_clear inner ns)),
          co_incr = (\<lambda>ns key by ttl. cache_op clock kind plugin_id namespace ''incr'' (co_incr inner ns key by ttl)),
          co_shutdown = forward (co_shutdown inner)\<rparr>)"

section \<open>Secrets and configuration\<close>

text \<open>\<open>what\<close> is \<open>secret\<close> or \<open>config\<close>; the two files are the same but for it.\<close>

definition scheme_success :: "string \<Rightarrow> string \<Rightarrow> string \<Rightarrow> string \<Rightarrow> nat \<Rightarrow> metric list" where
  "scheme_success what plugin_id scheme op elapsed =
     [Histogram (''mcpg_'' @ what @ ''_op_latency_seconds'') [(''plugin_id'', plugin_id), (''scheme'', scheme), (''op'', op)] elapsed,
      Counter (''mcpg_'' @ what @ ''_ops_total'') [(''plugin_id'', plugin_id), (''scheme'', scheme), (''op'', op)] 1]"

definition scheme_failure :: "string \<Rightarrow> string \<Rightarrow> string \<Rightarrow> string \<Rightarrow> string \<Rightarrow> nat \<Rightarrow> metric list" where
  "scheme_failure what plugin_id scheme op kind elapsed =
     [Histogram (''mcpg_'' @ what @ ''_op_latency_seconds'') [(''plugin_id'', plugin_id), (''scheme'', scheme), (''op'', op)] elapsed,
      Counter (''mcpg_'' @ what @ ''_errors_total'') [(''plugin_id'', plugin_id), (''scheme'', scheme), (''kind'', kind)] 1]"

definition scheme_op ::
  "string \<Rightarrow> ('w \<Rightarrow> nat) \<Rightarrow> (fetch_error \<Rightarrow> string) \<Rightarrow> string \<Rightarrow> string \<Rightarrow> string \<Rightarrow> ('w, (fetch_error, 'a) rresult) call
    \<Rightarrow> ('w metered_world, (fetch_error, 'a) rresult) call" where
  "scheme_op what clock kind plugin_id scheme op =
     metered clock (\<lambda>r elapsed. case r of
         Inr _ \<Rightarrow> scheme_success what plugin_id scheme op elapsed
       | Inl e \<Rightarrow> scheme_failure what plugin_id scheme op (kind e) elapsed)"

record ('w, 's) secret_object =
  se_manifest :: manifest
  se_supported_schemes :: "string list"
  se_get :: "string \<Rightarrow> ('w, (fetch_error, string) rresult) call"
  se_has :: "string \<Rightarrow> ('w, bool) call"
  se_watch :: "string \<Rightarrow> ('w, (fetch_error, 's) rresult) call"
  se_shutdown :: "('w, unit) call"

definition metered_secret_object ::
  "('w \<Rightarrow> nat) \<Rightarrow> (fetch_error \<Rightarrow> string) \<Rightarrow> string \<Rightarrow> ('w, 's) secret_object \<Rightarrow> ('w metered_world, 's) secret_object" where
  "metered_secret_object clock kind scheme inner =
     (let plugin_id = m_id (se_manifest inner)
      in \<lparr>se_manifest = se_manifest inner, se_supported_schemes = se_supported_schemes inner,
          se_get = (\<lambda>secret_ref. scheme_op ''secret'' clock kind plugin_id scheme ''get'' (se_get inner secret_ref)),
          se_has = (\<lambda>secret_ref. metered clock (\<lambda>r. scheme_success ''secret'' plugin_id scheme ''has'') (se_has inner secret_ref)),
          se_watch = (\<lambda>secret_ref. scheme_op ''secret'' clock kind plugin_id scheme ''watch'' (se_watch inner secret_ref)),
          se_shutdown = forward (se_shutdown inner)\<rparr>)"

record ('w, 's) config_object =
  cg_manifest :: manifest
  cg_supported_schemes :: "string list"
  cg_snapshot :: "string \<Rightarrow> ('w, (fetch_error, json) rresult) call"
  cg_watch :: "string \<Rightarrow> ('w, (fetch_error, 's) rresult) call"
  cg_shutdown :: "('w, unit) call"

definition metered_config_object ::
  "('w \<Rightarrow> nat) \<Rightarrow> (fetch_error \<Rightarrow> string) \<Rightarrow> string \<Rightarrow> ('w, 's) config_object \<Rightarrow> ('w metered_world, 's) config_object" where
  "metered_config_object clock kind scheme inner =
     (let plugin_id = m_id (cg_manifest inner)
      in \<lparr>cg_manifest = cg_manifest inner, cg_supported_schemes = cg_supported_schemes inner,
          cg_snapshot = (\<lambda>reference. scheme_op ''config'' clock kind plugin_id scheme ''snapshot'' (cg_snapshot inner reference)),
          cg_watch = (\<lambda>reference. scheme_op ''config'' clock kind plugin_id scheme ''watch'' (cg_watch inner reference)),
          cg_shutdown = forward (cg_shutdown inner)\<rparr>)"

section \<open>Transports, issuers, notifiers, engines and identity providers\<close>

definition record_start_success :: "string \<Rightarrow> string \<Rightarrow> nat \<Rightarrow> metric list" where
  "record_start_success plugin_id name elapsed =
     [Histogram ''mcpg_transport_start_latency_seconds'' [(''plugin_id'', plugin_id), (''transport_name'', name)] elapsed,
      Counter ''mcpg_transport_starts_total'' [(''plugin_id'', plugin_id), (''transport_name'', name)] 1]"

definition record_start_error :: "string \<Rightarrow> string \<Rightarrow> string \<Rightarrow> nat \<Rightarrow> metric list" where
  "record_start_error plugin_id name kind elapsed =
     [Histogram ''mcpg_transport_start_latency_seconds'' [(''plugin_id'', plugin_id), (''transport_name'', name)] elapsed,
      Counter ''mcpg_transport_errors_total'' [(''plugin_id'', plugin_id), (''transport_name'', name), (''kind'', kind)] 1]"

record ('w, 'd, 'e, 'h) transport_object =
  tr_manifest :: manifest
  tr_name :: string
  tr_start :: "json \<Rightarrow> 'd \<Rightarrow> ('w, ('e, 'h) rresult) call"
  tr_shutdown :: "('w, unit) call"

definition metered_transport_object ::
  "('w \<Rightarrow> nat) \<Rightarrow> ('e \<Rightarrow> string) \<Rightarrow> ('w, 'd, 'e, 'h) transport_object \<Rightarrow> ('w metered_world, 'd, 'e, 'h) transport_object" where
  "metered_transport_object clock kind inner =
     \<lparr>tr_manifest = tr_manifest inner, tr_name = tr_name inner,
      tr_start = (\<lambda>listener_config dispatcher. metered clock
        (\<lambda>r elapsed. case r of
             Inr _ \<Rightarrow> record_start_success (m_id (tr_manifest inner)) (tr_name inner) elapsed
           | Inl e \<Rightarrow> record_start_error (m_id (tr_manifest inner)) (tr_name inner) (kind e) elapsed)
        (tr_start inner listener_config dispatcher)),
      tr_shutdown = forward (tr_shutdown inner)\<rparr>"

definition result_label :: "('e \<Rightarrow> string) \<Rightarrow> ('e, 'a) rresult \<Rightarrow> string" where
  "result_label kind r = (case r of Inr _ \<Rightarrow> ''ok'' | Inl e \<Rightarrow> kind e)"

record ('w, 'c) issuer_object =
  io_manifest :: manifest
  io_credential_kind :: string
  io_issue :: "identity \<Rightarrow> string \<Rightarrow> json \<Rightarrow> ('w, (cred_error, 'c) rresult) call"
  io_revoke :: "string \<Rightarrow> ('w, (cred_error, unit) rresult) call"
  io_shutdown :: "('w, unit) call"

definition metered_issuer_object ::
  "('w \<Rightarrow> nat) \<Rightarrow> (cred_error \<Rightarrow> string) \<Rightarrow> ('w, 'c) issuer_object \<Rightarrow> ('w metered_world, 'c) issuer_object" where
  "metered_issuer_object clock kind inner =
     (let plugin_id = m_id (io_manifest inner)
      in \<lparr>io_manifest = io_manifest inner, io_credential_kind = io_credential_kind inner,
          io_issue = (\<lambda>identity target config. metered clock
            (\<lambda>r elapsed.
               [Histogram ''mcpg_credential_issue_latency_seconds'' [(''plugin_id'', plugin_id), (''target'', target)] elapsed,
                Counter ''mcpg_credential_issue_total''
                  [(''plugin_id'', plugin_id), (''target'', target), (''result'', result_label kind r)] 1])
            (io_issue inner identity target config)),
          io_revoke = (\<lambda>lease_id. metered clock
            (\<lambda>r elapsed. [Counter ''mcpg_credential_revoke_total'' [(''plugin_id'', plugin_id), (''result'', result_label kind r)] 1])
            (io_revoke inner lease_id)),
          io_shutdown = forward (io_shutdown inner)\<rparr>)"

text \<open>\<open>channel\<close> is the field of a \<open>NotificationResult\<close>.\<close>

record ('w, 'q, 'n) notifier_object =
  no_manifest :: manifest
  no_notify :: "'q \<Rightarrow> ('w, (notification_error, 'n) rresult) call"
  no_shutdown :: "('w, unit) call"

definition metered_notifier_object ::
  "('w \<Rightarrow> nat) \<Rightarrow> (notification_error \<Rightarrow> string) \<Rightarrow> ('n \<Rightarrow> string) \<Rightarrow> ('w, 'q, 'n) notifier_object
    \<Rightarrow> ('w metered_world, 'q, 'n) notifier_object" where
  "metered_notifier_object clock kind channel inner =
     (let plugin_id = m_id (no_manifest inner)
      in \<lparr>no_manifest = no_manifest inner,
          no_notify = (\<lambda>request. metered clock
            (\<lambda>r elapsed.
               [Histogram ''mcpg_approval_notify_latency_seconds'' [(''plugin_id'', plugin_id)] elapsed,
                Counter ''mcpg_approval_notify_total''
                  [(''plugin_id'', plugin_id), (''channel'', case r of Inr ok \<Rightarrow> channel ok | Inl e \<Rightarrow> ''unknown''),
                   (''result'', result_label kind r)] 1])
            (no_notify inner request)),
          no_shutdown = forward (no_shutdown inner)\<rparr>)"

definition metered_policy_evaluate ::
  "('w \<Rightarrow> nat) \<Rightarrow> (policy_effect \<Rightarrow> string) \<Rightarrow> string \<Rightarrow> string
    \<Rightarrow> (string \<Rightarrow> json \<Rightarrow> plugin_context \<Rightarrow> ('w, policy_decision) call)
    \<Rightarrow> string \<Rightarrow> json \<Rightarrow> plugin_context \<Rightarrow> ('w metered_world, policy_decision) call" where
  "metered_policy_evaluate clock effect_label plugin_id engine_name inner decision_point input context =
     metered clock
       (\<lambda>d elapsed.
          [Histogram ''mcpg_policy_evaluation_latency_seconds''
             [(''plugin_id'', plugin_id), (''engine_name'', engine_name), (''decision_point'', decision_point)] elapsed,
           Counter ''mcpg_policy_evaluations_total''
             [(''plugin_id'', plugin_id), (''engine_name'', engine_name), (''decision_point'', decision_point),
              (''effect'', effect_label (pd_effect d))] 1])
       (inner decision_point input context)"

fun resolution_label :: "identity_resolution \<Rightarrow> string" where
  "resolution_label (IdResolved i) = ''resolved''"
| "resolution_label IdNone = ''none''"
| "resolution_label (IdInvalid reason headers) = ''invalid''"

definition metered_resolve_identity ::
  "('w \<Rightarrow> nat) \<Rightarrow> string \<Rightarrow> ((string \<times> string) list \<Rightarrow> request_metadata \<Rightarrow> json \<Rightarrow> ('w, identity_resolution) call)
    \<Rightarrow> (string \<times> string) list \<Rightarrow> request_metadata \<Rightarrow> json \<Rightarrow> ('w metered_world, identity_resolution) call" where
  "metered_resolve_identity clock plugin_id inner headers metadata config =
     metered clock
       (\<lambda>r elapsed. [Histogram ''mcpg_identity_resolution_latency_seconds'' [(''plugin_id'', plugin_id)] elapsed,
          Counter ''mcpg_identity_resolutions_total'' [(''plugin_id'', plugin_id), (''outcome'', resolution_label r)] 1])
       (inner headers metadata config)"

section \<open>Catalogs\<close>

text \<open>Of a tool, its name and its catalog metadata, which may be empty.\<close>

record enriched_tool =
  tl_name :: string
  tl_catalog :: "json list option"

definition record_op :: "string \<Rightarrow> string \<Rightarrow> nat \<Rightarrow> metric list" where
  "record_op plugin_id op elapsed =
     [Histogram ''mcpg_catalog_op_latency_seconds'' [(''plugin_id'', plugin_id), (''op'', op)] elapsed,
      Counter ''mcpg_catalog_op_total'' [(''plugin_id'', plugin_id), (''op'', op), (''result'', ''ok'')] 1]"

definition newly_enriched :: "enriched_tool list \<Rightarrow> enriched_tool \<Rightarrow> bool" where
  "newly_enriched input tool =
     (let was_enriched_before = (Option.bind (find (\<lambda>t. tl_name t = tl_name tool) input) tl_catalog \<noteq> None);
          is_enriched_now = (case tl_catalog tool of None \<Rightarrow> False | Some c \<Rightarrow> c \<noteq> [])
      in \<not> was_enriched_before \<and> is_enriched_now)"

definition record_filter_delta :: "string \<Rightarrow> enriched_tool list \<Rightarrow> enriched_tool list \<Rightarrow> metric list" where
  "record_filter_delta plugin_id input output =
     (let dropped = length input - length output; enriched = length (filter (newly_enriched input) output)
      in (if 0 < dropped then [Counter ''mcpg_catalog_tools_filtered_total'' [(''plugin_id'', plugin_id), (''direction'', ''dropped'')] dropped] else [])
         @ (if 0 < enriched then [Counter ''mcpg_catalog_tools_filtered_total'' [(''plugin_id'', plugin_id), (''direction'', ''enriched'')] enriched] else []))"

record ('w, 'e) catalog_object =
  cl_manifest :: manifest
  cl_filter_and_enrich :: "plugin_context \<Rightarrow> enriched_tool list \<Rightarrow> ('w, enriched_tool list) call"
  cl_describe :: "string \<Rightarrow> ('w, 'e option) call"
  cl_list_catalog :: "('w, 'e list) call"
  cl_shutdown :: "('w, unit) call"

definition metered_catalog_object ::
  "('w \<Rightarrow> nat) \<Rightarrow> ('w, 'e) catalog_object \<Rightarrow> ('w metered_world, 'e) catalog_object" where
  "metered_catalog_object clock inner =
     (let plugin_id = m_id (cl_manifest inner)
      in \<lparr>cl_manifest = cl_manifest inner,
          cl_filter_and_enrich = (\<lambda>ctx in_progress. metered clock
            (\<lambda>refined elapsed. record_op plugin_id ''filter_and_enrich'' elapsed @ record_filter_delta plugin_id in_progress refined)
            (cl_filter_and_enrich inner ctx in_progress)),
          cl_describe = (\<lambda>tool_id. metered clock (\<lambda>r. record_op plugin_id ''describe'') (cl_describe inner tool_id)),
          cl_list_catalog = metered clock (\<lambda>r. record_op plugin_id ''list_catalog'') (cl_list_catalog inner),
          cl_shutdown = forward (cl_shutdown inner)\<rparr>)"

section \<open>Calls into native plugins\<close>

record ffi_call =
  fc_plugin_id :: string
  fc_kind :: string
  fc_slot :: string
  fc_start :: nat

definition record_payload_bytes :: "string \<Rightarrow> string \<Rightarrow> string \<Rightarrow> string \<Rightarrow> nat \<Rightarrow> metric" where
  "record_payload_bytes plugin_id kind slot direction bytes =
     Histogram ''mcpg_plugin_payload_bytes''
       [(''plugin_id'', plugin_id), (''kind'', kind), (''slot'', slot), (''direction'', direction)] bytes"

definition record_duration :: "string \<Rightarrow> string \<Rightarrow> string \<Rightarrow> string \<Rightarrow> nat \<Rightarrow> metric" where
  "record_duration plugin_id kind slot outcome elapsed =
     Histogram ''mcpg_plugin_ffi_call_duration_seconds''
       [(''plugin_id'', plugin_id), (''kind'', kind), (''slot'', slot), (''outcome'', outcome)] elapsed"

definition ffi_begin_no_request :: "string \<Rightarrow> string \<Rightarrow> string \<Rightarrow> nat \<Rightarrow> ffi_call" where
  "ffi_begin_no_request plugin_id kind slot now = \<lparr>fc_plugin_id = plugin_id, fc_kind = kind, fc_slot = slot, fc_start = now\<rparr>"

definition ffi_record_request :: "ffi_call \<Rightarrow> nat \<Rightarrow> metric list" where
  "ffi_record_request c request_bytes = [record_payload_bytes (fc_plugin_id c) (fc_kind c) (fc_slot c) ''request'' request_bytes]"

definition ffi_begin :: "string \<Rightarrow> string \<Rightarrow> string \<Rightarrow> nat \<Rightarrow> nat \<Rightarrow> ffi_call \<times> metric list" where
  "ffi_begin plugin_id kind slot request_bytes now =
     (\<lparr>fc_plugin_id = plugin_id, fc_kind = kind, fc_slot = slot, fc_start = now\<rparr>,
      [record_payload_bytes plugin_id kind slot ''request'' request_bytes])"

definition ffi_end_ok :: "ffi_call \<Rightarrow> nat \<Rightarrow> nat \<Rightarrow> metric list" where
  "ffi_end_ok c response_bytes now =
     [record_payload_bytes (fc_plugin_id c) (fc_kind c) (fc_slot c) ''response'' response_bytes,
      record_duration (fc_plugin_id c) (fc_kind c) (fc_slot c) ''ok'' (now - fc_start c)]"

definition ffi_end_err :: "ffi_call \<Rightarrow> nat \<Rightarrow> nat \<Rightarrow> metric list" where
  "ffi_end_err c response_bytes now =
     [record_payload_bytes (fc_plugin_id c) (fc_kind c) (fc_slot c) ''response'' response_bytes,
      record_duration (fc_plugin_id c) (fc_kind c) (fc_slot c) ''err'' (now - fc_start c)]"

text \<open>Both ways of starting a call record the same; they differ in when the clock starts.\<close>

lemma ffi_begin_split:
  "ffi_begin p k s n now = (ffi_begin_no_request p k s now, ffi_record_request (ffi_begin_no_request p k s now) n)"
  by (simp add: ffi_begin_def ffi_begin_no_request_def ffi_record_request_def)

section \<open>Decorators are transparent and keep the books\<close>

lemma metered_apply [simp]:
  "metered clock rec call (w, ms) = (fst (call w), (snd (call w), ms @ rec (fst (call w)) (clock (snd (call w)) - clock w)))"
  "forward call (w, ms) = (fst (call w), (snd (call w), ms))"
  by (simp_all add: metered_def forward_def case_prod_beta)

text \<open>A sequence of requests to an object, with its answers.\<close>

fun run_requests :: "('q \<Rightarrow> 'w \<Rightarrow> 'a \<times> 'w) \<Rightarrow> 'q list \<Rightarrow> 'w \<Rightarrow> 'a list \<times> 'w" where
  "run_requests obj [] w = ([], w)"
| "run_requests obj (q # qs) w = (let (a, w1) = obj q w; (as, w2) = run_requests obj qs w1 in (a # as, w2))"

lemma run_requests_length [simp]: "length (fst (run_requests obj qs w)) = length qs"
  by (induction qs arbitrary: w) (simp_all add: case_prod_beta)

text \<open>
  The contract of a metered object: it gives the answer of the object it wraps and leaves the world as that did; of every
  call it records one duration, and counts it once, as a success or as an error (\<open>good\<close>).
\<close>

locale metered_object =
  fixes inner :: "'q \<Rightarrow> 'w \<Rightarrow> 'a \<times> 'w"
    and outer :: "'q \<Rightarrow> 'w metered_world \<Rightarrow> 'a \<times> 'w metered_world"
    and good :: "'a \<Rightarrow> bool"
    and latency ops errs :: string
  assumes one_call: "\<exists>new. outer q (w, ms) = (fst (inner q w), (snd (inner q w), ms @ new)) \<and> samples latency new = 1
    \<and> counter_total ops new = (if good (fst (inner q w)) then 1 else 0) \<and> counter_total errs new = (if good (fst (inner q w)) then 0 else 1)"
begin

lemma books:
  "\<exists>new. run_requests outer qs (w, ms) = (fst (run_requests inner qs w), (snd (run_requests inner qs w), ms @ new))
    \<and> samples latency new = length qs
    \<and> counter_total ops new = length (filter good (fst (run_requests inner qs w)))
    \<and> counter_total errs new = length (filter (\<lambda>a. \<not> good a) (fst (run_requests inner qs w)))"
proof (induction qs arbitrary: w ms)
  case (Cons q qs)
  obtain a w1 where i: "inner q w = (a, w1)" by fastforce
  from one_call [of q w ms] obtain n1 where n1: "outer q (w, ms) = (a, (w1, ms @ n1))" "samples latency n1 = 1"
    "counter_total ops n1 = (if good a then 1 else 0)" "counter_total errs n1 = (if good a then 0 else 1)" by (auto simp: i)
  from Cons.IH [of w1 "ms @ n1"] obtain n2 where n2:
    "run_requests outer qs (w1, ms @ n1) = (fst (run_requests inner qs w1), (snd (run_requests inner qs w1), (ms @ n1) @ n2))"
    "samples latency n2 = length qs" "counter_total ops n2 = length (filter good (fst (run_requests inner qs w1)))"
    "counter_total errs n2 = length (filter (\<lambda>a. \<not> good a) (fst (run_requests inner qs w1)))" by blast
  show ?case by (intro exI [of _ "n1 @ n2"]) (simp add: i n1 n2 case_prod_beta)
qed simp

lemma every_call_is_counted:
  "counter_total ops (snd (snd (run_requests outer qs (w, [])))) + counter_total errs (snd (snd (run_requests outer qs (w, [])))) = length qs"
  using books [of qs w "[]"] sum_length_filter_compl [of good "fst (run_requests inner qs w)"] by auto

end

text \<open>The requests and the answers of the objects.\<close>

datatype 'v store_request =
    StoreGet string string | StorePut string string 'v | StoreDelete string string | StoreList string string "string option"
  | StoreCas string string "'v option" 'v | StoreAppend string string 'v | StoreWatch string string

datatype ('v, 'p, 'r, 's) store_answer =
    GotValue "(store_error, 'v option) rresult" | DidWrite "(store_error, unit) rresult" | GotPage "(store_error, 'p) rresult"
  | DidSwap "(store_error, bool) rresult" | DidAppend "(store_error, 'r) rresult" | GotStream "(store_error, 's) rresult"

fun store_serve ::
  "('w, 'v, 'p, 'r, 's) store_object \<Rightarrow> 'v store_request \<Rightarrow> 'w \<Rightarrow> ('v, 'p, 'r, 's) store_answer \<times> 'w" where
  "store_serve s (StoreGet role key) w = apfst GotValue (so_get s role key w)"
| "store_serve s (StorePut role key v) w = apfst DidWrite (so_put s role key v w)"
| "store_serve s (StoreDelete role key) w = apfst DidWrite (so_delete s role key w)"
| "store_serve s (StoreList role p cursor) w = apfst GotPage (so_list s role p cursor w)"
| "store_serve s (StoreCas role key expected new) w = apfst DidSwap (so_compare_and_swap s role key expected new w)"
| "store_serve s (StoreAppend role key v) w = apfst DidAppend (so_append s role key v w)"
| "store_serve s (StoreWatch role key) w = apfst GotStream (so_watch s role key w)"

fun store_good :: "('v, 'p, 'r, 's) store_answer \<Rightarrow> bool" where
  "store_good (GotValue r) = is_ok r" | "store_good (DidWrite r) = is_ok r" | "store_good (GotPage r) = is_ok r"
| "store_good (DidSwap r) = is_ok r" | "store_good (DidAppend r) = is_ok r" | "store_good (GotStream r) = is_ok r"

lemma store_books:
  "samples ''mcpg_store_op_latency_seconds'' (record_store p r o' n (err_kind kind x)) = 1"
  "counter_total ''mcpg_store_ops_total'' (record_store p r o' n (err_kind kind x)) = (if is_ok x then 1 else 0)"
  "counter_total ''mcpg_store_errors_total'' (record_store p r o' n (err_kind kind x)) = (if is_ok x then 0 else 1)"
  by (cases x; simp add: record_store_def err_kind_def)+

interpretation mstores: metered_object "store_serve s" "store_serve (metered_store_object clock kind s)" store_good
    "''mcpg_store_op_latency_seconds''" "''mcpg_store_ops_total''" "''mcpg_store_errors_total''"
  for clock :: "'w \<Rightarrow> nat" and kind and s :: "('w, 'v, 'p, 'r, 's) store_object"
proof
  fix q :: "'v store_request" and w :: 'w and ms
  show "\<exists>new. store_serve (metered_store_object clock kind s) q (w, ms)
      = (fst (store_serve s q w), (snd (store_serve s q w), ms @ new)) \<and> samples ''mcpg_store_op_latency_seconds'' new = 1
    \<and> counter_total ''mcpg_store_ops_total'' new = (if store_good (fst (store_serve s q w)) then 1 else 0)
    \<and> counter_total ''mcpg_store_errors_total'' new = (if store_good (fst (store_serve s q w)) then 0 else 1)"
    by (cases q) (simp_all add: metered_store_object_def Let_def store_op_def store_books apfst_def map_prod_def case_prod_beta)
qed

datatype cache_request =
    CacheGet string string | CachePut string string string nat | CacheDelete string string | CacheClear string
  | CacheIncr string string int nat

datatype cache_answer = GotBytes "string option" | DidPut "(cache_error, unit) rresult" | DidDelete | DidIncr "(cache_error, int) rresult"

fun cache_serve :: "'w cache_object \<Rightarrow> cache_request \<Rightarrow> 'w \<Rightarrow> cache_answer \<times> 'w" where
  "cache_serve c (CacheGet ns key) w = apfst GotBytes (co_get c ns key w)"
| "cache_serve c (CachePut ns key v ttl) w = apfst DidPut (co_put c ns key v ttl w)"
| "cache_serve c (CacheDelete ns key) w = apfst (\<lambda>_. DidDelete) (co_delete c ns key w)"
| "cache_serve c (CacheClear ns) w = apfst DidPut (co_clear c ns w)"
| "cache_serve c (CacheIncr ns key by ttl) w = apfst DidIncr (co_incr c ns key by ttl w)"

fun cache_good :: "cache_answer \<Rightarrow> bool" where
  "cache_good (GotBytes r) = True" | "cache_good (DidPut r) = is_ok r" | "cache_good DidDelete = True" | "cache_good (DidIncr r) = is_ok r"

lemma cache_books:
  "samples ''mcpg_cache_op_latency_seconds'' (cache_success p ns op' out n) = 1"
  "counter_total ''mcpg_cache_ops_total'' (cache_success p ns op' out n) = 1"
  "counter_total ''mcpg_cache_errors_total'' (cache_success p ns op' out n) = 0"
  "samples ''mcpg_cache_op_latency_seconds'' (cache_failure p ns op' k n) = 1"
  "counter_total ''mcpg_cache_ops_total'' (cache_failure p ns op' k n) = 0"
  "counter_total ''mcpg_cache_errors_total'' (cache_failure p ns op' k n) = 1"
  by (simp_all add: cache_success_def cache_failure_def)

lemma cache_case_books:
  "samples ''mcpg_cache_op_latency_seconds'' (case r of Inr x \<Rightarrow> cache_success p ns op' out n | Inl e \<Rightarrow> cache_failure p ns op' (kind e) n) = 1"
  "counter_total ''mcpg_cache_ops_total'' (case r of Inr x \<Rightarrow> cache_success p ns op' out n | Inl e \<Rightarrow> cache_failure p ns op' (kind e) n)
    = (if is_ok r then 1 else 0)"
  "counter_total ''mcpg_cache_errors_total'' (case r of Inr x \<Rightarrow> cache_success p ns op' out n | Inl e \<Rightarrow> cache_failure p ns op' (kind e) n)
    = (if is_ok r then 0 else 1)"
  by (cases r; simp add: cache_books)+

interpretation mcaches: metered_object "cache_serve c" "cache_serve (metered_cache_object clock kind namespace c)" cache_good
    "''mcpg_cache_op_latency_seconds''" "''mcpg_cache_ops_total''" "''mcpg_cache_errors_total''"
  for clock :: "'w \<Rightarrow> nat" and kind namespace and c :: "'w cache_object"
proof
  fix q and w :: 'w and ms
  show "\<exists>new. cache_serve (metered_cache_object clock kind namespace c) q (w, ms)
      = (fst (cache_serve c q w), (snd (cache_serve c q w), ms @ new)) \<and> samples ''mcpg_cache_op_latency_seconds'' new = 1
    \<and> counter_total ''mcpg_cache_ops_total'' new = (if cache_good (fst (cache_serve c q w)) then 1 else 0)
    \<and> counter_total ''mcpg_cache_errors_total'' new = (if cache_good (fst (cache_serve c q w)) then 0 else 1)"
    by (cases q)
      (simp_all add: metered_cache_object_def Let_def cache_op_def cache_books cache_case_books apfst_def map_prod_def case_prod_beta)
qed

datatype scheme_request = SchemeGet string | SchemeHas string | SchemeWatch string

datatype ('v, 's) scheme_answer = GotSecret "(fetch_error, 'v) rresult" | Has bool | GotEvents "(fetch_error, 's) rresult"

fun scheme_good :: "('v, 's) scheme_answer \<Rightarrow> bool" where
  "scheme_good (GotSecret r) = is_ok r" | "scheme_good (Has b) = True" | "scheme_good (GotEvents r) = is_ok r"

fun secret_serve :: "('w, 's) secret_object \<Rightarrow> scheme_request \<Rightarrow> 'w \<Rightarrow> (string, 's) scheme_answer \<times> 'w" where
  "secret_serve p (SchemeGet ref) w = apfst GotSecret (se_get p ref w)"
| "secret_serve p (SchemeHas ref) w = apfst Has (se_has p ref w)"
| "secret_serve p (SchemeWatch ref) w = apfst GotEvents (se_watch p ref w)"

text \<open>A configuration provider has no \<open>has\<close>: its requests are snapshots (\<open>Inl\<close>) and watches (\<open>Inr\<close>).\<close>

fun config_serve :: "('w, 's) config_object \<Rightarrow> string + string \<Rightarrow> 'w \<Rightarrow> (json, 's) scheme_answer \<times> 'w" where
  "config_serve p (Inl ref) w = apfst GotSecret (cg_snapshot p ref w)"
| "config_serve p (Inr ref) w = apfst GotEvents (cg_watch p ref w)"

lemma scheme_books:
  "samples (''mcpg_'' @ what @ ''_op_latency_seconds'') (scheme_success what p sc op' n) = 1"
  "counter_total (''mcpg_'' @ what @ ''_ops_total'') (scheme_success what p sc op' n) = 1"
  "counter_total (''mcpg_'' @ what @ ''_errors_total'') (scheme_success what p sc op' n) = 0"
  "samples (''mcpg_'' @ what @ ''_op_latency_seconds'') (scheme_failure what p sc op' k n) = 1"
  "counter_total (''mcpg_'' @ what @ ''_ops_total'') (scheme_failure what p sc op' k n) = 0"
  "counter_total (''mcpg_'' @ what @ ''_errors_total'') (scheme_failure what p sc op' k n) = 1"
  by (simp_all add: scheme_success_def scheme_failure_def)

lemma scheme_case_books:
  "samples (''mcpg_'' @ what @ ''_op_latency_seconds'')
    (case r of Inr x \<Rightarrow> scheme_success what p sc op' n | Inl e \<Rightarrow> scheme_failure what p sc op' (kind e) n) = 1"
  "counter_total (''mcpg_'' @ what @ ''_ops_total'')
    (case r of Inr x \<Rightarrow> scheme_success what p sc op' n | Inl e \<Rightarrow> scheme_failure what p sc op' (kind e) n) = (if is_ok r then 1 else 0)"
  "counter_total (''mcpg_'' @ what @ ''_errors_total'')
    (case r of Inr x \<Rightarrow> scheme_success what p sc op' n | Inl e \<Rightarrow> scheme_failure what p sc op' (kind e) n) = (if is_ok r then 0 else 1)"
  by (cases r; simp add: scheme_books [simplified])+

lemmas secret_books = scheme_books [of "''secret''", simplified] scheme_case_books [of "''secret''", simplified]
lemmas config_books = scheme_books [of "''config''", simplified] scheme_case_books [of "''config''", simplified]

interpretation msecrets: metered_object "secret_serve p" "secret_serve (metered_secret_object clock kind scheme p)" scheme_good
    "''mcpg_secret_op_latency_seconds''" "''mcpg_secret_ops_total''" "''mcpg_secret_errors_total''"
  for clock :: "'w \<Rightarrow> nat" and kind scheme and p :: "('w, 's) secret_object"
proof
  fix q and w :: 'w and ms
  show "\<exists>new. secret_serve (metered_secret_object clock kind scheme p) q (w, ms)
      = (fst (secret_serve p q w), (snd (secret_serve p q w), ms @ new)) \<and> samples ''mcpg_secret_op_latency_seconds'' new = 1
    \<and> counter_total ''mcpg_secret_ops_total'' new = (if scheme_good (fst (secret_serve p q w)) then 1 else 0)
    \<and> counter_total ''mcpg_secret_errors_total'' new = (if scheme_good (fst (secret_serve p q w)) then 0 else 1)"
    by (cases q)
      (simp_all add: metered_secret_object_def Let_def scheme_op_def secret_books apfst_def map_prod_def case_prod_beta)
qed

interpretation mconfigs: metered_object "config_serve p" "config_serve (metered_config_object clock kind scheme p)" scheme_good
    "''mcpg_config_op_latency_seconds''" "''mcpg_config_ops_total''" "''mcpg_config_errors_total''"
  for clock :: "'w \<Rightarrow> nat" and kind scheme and p :: "('w, 's) config_object"
proof
  fix q and w :: 'w and ms
  show "\<exists>new. config_serve (metered_config_object clock kind scheme p) q (w, ms)
      = (fst (config_serve p q w), (snd (config_serve p q w), ms @ new)) \<and> samples ''mcpg_config_op_latency_seconds'' new = 1
    \<and> counter_total ''mcpg_config_ops_total'' new = (if scheme_good (fst (config_serve p q w)) then 1 else 0)
    \<and> counter_total ''mcpg_config_errors_total'' new = (if scheme_good (fst (config_serve p q w)) then 0 else 1)"
    by (cases q)
      (simp_all add: metered_config_object_def Let_def scheme_op_def config_books apfst_def map_prod_def case_prod_beta)
qed

interpretation mtransports: metered_object "\<lambda>(c, d). tr_start t c d" "\<lambda>(c, d). tr_start (metered_transport_object clock kind t) c d" is_ok
    "''mcpg_transport_start_latency_seconds''" "''mcpg_transport_starts_total''" "''mcpg_transport_errors_total''"
  for clock :: "'w \<Rightarrow> nat" and kind and t :: "('w, 'd, 'e, 'h) transport_object"
proof
  fix q :: "json \<times> 'd" and w :: 'w and ms
  obtain c d where q: "q = (c, d)" by (cases q)
  show "\<exists>new. (case q of (c, d) \<Rightarrow> tr_start (metered_transport_object clock kind t) c d) (w, ms)
      = (fst ((case q of (c, d) \<Rightarrow> tr_start t c d) w), (snd ((case q of (c, d) \<Rightarrow> tr_start t c d) w), ms @ new))
    \<and> samples ''mcpg_transport_start_latency_seconds'' new = 1
    \<and> counter_total ''mcpg_transport_starts_total'' new = (if is_ok (fst ((case q of (c, d) \<Rightarrow> tr_start t c d) w)) then 1 else 0)
    \<and> counter_total ''mcpg_transport_errors_total'' new = (if is_ok (fst ((case q of (c, d) \<Rightarrow> tr_start t c d) w)) then 0 else 1)"
    by (cases "fst (tr_start t c d w)")
      (simp_all add: q metered_transport_object_def record_start_success_def record_start_error_def)
qed

text \<open>
  Whatever is asked of a metered store or cache, the answers and the world are those of the object behind it, and the
  counters of successes and of errors are the numbers of answers of either kind.
\<close>

theorem decorators_keep_the_books:
  fixes s :: "('w, 'v, 'p, 'r, 's) store_object" and c :: "'w cache_object"
  shows "(\<exists>new. run_requests (store_serve (metered_store_object clock kind s)) qs (w, ms)
        = (fst (run_requests (store_serve s) qs w), (snd (run_requests (store_serve s) qs w), ms @ new))
      \<and> samples ''mcpg_store_op_latency_seconds'' new = length qs
      \<and> counter_total ''mcpg_store_ops_total'' new = length (filter store_good (fst (run_requests (store_serve s) qs w)))
      \<and> counter_total ''mcpg_store_errors_total'' new = length (filter (\<lambda>a. \<not> store_good a) (fst (run_requests (store_serve s) qs w))))
    \<and> (\<exists>new. run_requests (cache_serve (metered_cache_object clock kind' ns c)) rs (w, ms)
        = (fst (run_requests (cache_serve c) rs w), (snd (run_requests (cache_serve c) rs w), ms @ new))
      \<and> samples ''mcpg_cache_op_latency_seconds'' new = length rs
      \<and> counter_total ''mcpg_cache_ops_total'' new = length (filter cache_good (fst (run_requests (cache_serve c) rs w)))
      \<and> counter_total ''mcpg_cache_errors_total'' new = length (filter (\<lambda>a. \<not> cache_good a) (fst (run_requests (cache_serve c) rs w))))"
  by (rule conjI [OF mstores.books mcaches.books])

section \<open>What a catalog provider took away\<close>

text \<open>
  The number of dropped tools is right if the provider adds nothing: then it is the number of tools of the input whose
  name is not in the output. A provider that replaces a tool by another is not seen to drop one.
\<close>

lemma dropped_exact:
  assumes "distinct (map tl_name input)" and "distinct (map tl_name output)" and "tl_name ` set output \<subseteq> tl_name ` set input"
  shows "length input - length output = length (filter (\<lambda>t. tl_name t \<notin> tl_name ` set output) input)"
proof -
  have inj: "inj_on tl_name (set input)" and di: "distinct input" using assms(1) by (simp_all add: distinct_map)
  have "card (tl_name ` set output) = length output" using assms(2) distinct_card by fastforce
  moreover have "card (tl_name ` set input) = length input" using assms(1) distinct_card by fastforce
  moreover have "card (tl_name ` set input - tl_name ` set output) = card (tl_name ` set input) - card (tl_name ` set output)"
    using assms(3) by (intro card_Diff_subset) simp_all
  moreover have "tl_name ` set input - tl_name ` set output = tl_name ` set (filter (\<lambda>t. tl_name t \<notin> tl_name ` set output) input)"
    by auto
  moreover have "card (tl_name ` set (filter (\<lambda>t. tl_name t \<notin> tl_name ` set output) input))
      = length (filter (\<lambda>t. tl_name t \<notin> tl_name ` set output) input)"
    using inj di by (metis card_image distinct_card distinct_filter filter_is_subset inj_on_subset)
  ultimately show ?thesis by simp
qed

lemma replaced_tool_is_not_counted:
  "record_filter_delta p [\<lparr>tl_name = ''a'', tl_catalog = None\<rparr>] [\<lparr>tl_name = ''b'', tl_catalog = None\<rparr>] = []"
  "record_filter_delta p [\<lparr>tl_name = ''a'', tl_catalog = Some []\<rparr>] [\<lparr>tl_name = ''a'', tl_catalog = Some [JNull]\<rparr>] = []"
  by code_simp+

end
