(* ===== verification/Cluster_Api.thy ===== *)
theory Cluster_Api
  imports Host_Prelude
begin

text \<open>
  The cluster interface as the host uses it: a key-value store and a bus that belong to a coordinator
  plugin, entered through \<open>Arc\<close>s and decorated by \<open>cluster_tenant.rs\<close> and \<open>cluster_encryption.rs\<close>. A call
  takes the state of the world and returns it. The locale \<open>kv_contract\<close> says what a store promises in
  terms of the entries one can see in it: an operation reports what is there and touches its own key only. It
  is the contract of a store at rest: no entry expires between two requests, and of \<open>kv_expire\<close> and the counters it
  says only that they leave other keys alone.
\<close>

section \<open>Stores\<close>

record kv_entry =
  en_bytes :: string
  en_expires_at :: "nat option"

record kv_page =
  kp_entries :: "(string \<times> kv_entry) list"
  kp_next :: "string option"

text \<open>
  The errors of the cluster interface: \<open>Internal\<close>, \<open>BackendUnavailable\<close> and \<open>Unsupported\<close>, which the host makes
  itself, and the others, which only a backend makes.
\<close>

datatype cluster_error =
    ClusterInternal string
  | ClusterUnavailable string
  | ClusterUnsupported string
  | ClusterBackendError string

type_synonym ('w, 'a) kv_call = "'w \<Rightarrow> (cluster_error, 'a) rresult \<times> 'w"

record 'w kv_store =
  kv_get :: "string \<Rightarrow> ('w, kv_entry option) kv_call"
  kv_put :: "string \<Rightarrow> string \<Rightarrow> nat option \<Rightarrow> ('w, unit) kv_call"
  kv_put_if_absent :: "string \<Rightarrow> string \<Rightarrow> nat option \<Rightarrow> ('w, bool) kv_call"
  kv_delete :: "string \<Rightarrow> ('w, bool) kv_call"
  kv_list_page :: "string \<Rightarrow> string option \<Rightarrow> nat \<Rightarrow> ('w, kv_page) kv_call"
  kv_list_prefix :: "string \<Rightarrow> nat \<Rightarrow> ('w, (string \<times> kv_entry) list) kv_call"
  kv_expire :: "string \<Rightarrow> nat option \<Rightarrow> ('w, bool) kv_call"
  kv_incr :: "string \<Rightarrow> int \<Rightarrow> nat option \<Rightarrow> ('w, int) kv_call"
  kv_incr_floor :: "string \<Rightarrow> int \<Rightarrow> int \<Rightarrow> nat option \<Rightarrow> ('w, int) kv_call"

definition map_ok_result :: "('a \<Rightarrow> 'b) \<Rightarrow> ('e, 'a) rresult \<times> 'w \<Rightarrow> ('e, 'b) rresult \<times> 'w" where
  "map_ok_result f rw = (case rw of (Inl e, w) \<Rightarrow> (Inl e, w) | (Inr a, w) \<Rightarrow> (Inr (f a), w))"

lemma map_ok_result_simps [simp]:
  "snd (map_ok_result f rw) = snd rw"
  "fst (map_ok_result f rw) = Inr b \<longleftrightarrow> (\<exists>a. fst rw = Inr a \<and> b = f a)"
  by (auto simp: map_ok_result_def split: prod.splits sum.splits)

section \<open>Bus\<close>

record message =
  msg_topic :: string
  msg_payload :: string

text \<open>A subscription is the sequence of items it delivers.\<close>

record 'w pub_sub =
  ps_publish :: "string \<Rightarrow> string \<Rightarrow> ('w, unit) kv_call"
  ps_subscribe :: "string \<Rightarrow> string option \<Rightarrow> ('w, (cluster_error, message) rresult list) kv_call"

section \<open>The contract of a store\<close>

text \<open>One request; its answer does not matter here, only what it does to the store.\<close>

datatype kv_request =
    ReqGet string
  | ReqPut string string "nat option"
  | ReqPutIfAbsent string string "nat option"
  | ReqDelete string
  | ReqListPage string "string option" nat
  | ReqListPrefix string nat
  | ReqExpire string "nat option"
  | ReqIncr string int "nat option"
  | ReqIncrFloor string int int "nat option"

fun perform :: "'w kv_store \<Rightarrow> kv_request \<Rightarrow> 'w \<Rightarrow> 'w" where
  "perform kv (ReqGet k) w = snd (kv_get kv k w)"
| "perform kv (ReqPut k v ttl) w = snd (kv_put kv k v ttl w)"
| "perform kv (ReqPutIfAbsent k v ttl) w = snd (kv_put_if_absent kv k v ttl w)"
| "perform kv (ReqDelete k) w = snd (kv_delete kv k w)"
| "perform kv (ReqListPage p c n) w = snd (kv_list_page kv p c n w)"
| "perform kv (ReqListPrefix p n) w = snd (kv_list_prefix kv p n w)"
| "perform kv (ReqExpire k ttl) w = snd (kv_expire kv k ttl w)"
| "perform kv (ReqIncr k d ttl) w = snd (kv_incr kv k d ttl w)"
| "perform kv (ReqIncrFloor k d f ttl) w = snd (kv_incr_floor kv k d f ttl w)"

text \<open>The key a request may write, if any.\<close>

fun written :: "kv_request \<Rightarrow> string option" where
  "written (ReqGet k) = None"
| "written (ReqPut k v ttl) = Some k"
| "written (ReqPutIfAbsent k v ttl) = Some k"
| "written (ReqDelete k) = Some k"
| "written (ReqListPage p c n) = None"
| "written (ReqListPrefix p n) = None"
| "written (ReqExpire k ttl) = Some k"
| "written (ReqIncr k d ttl) = Some k"
| "written (ReqIncrFloor k d f ttl) = Some k"

locale kv_contract =
  fixes view :: "'w \<Rightarrow> string \<Rightarrow> kv_entry option" and kv :: "'w kv_store"
  assumes frame: "written q \<noteq> Some k \<Longrightarrow> view (perform kv q w) k = view w k"
    and get_reads: "fst (kv_get kv k w) = Inr found \<Longrightarrow> found = view w k"
    and put_writes: "kv_put kv k v ttl w = (Inr u, w') \<Longrightarrow> map_option en_bytes (view w' k) = Some v"
    and put_if_absent: "kv_put_if_absent kv k v ttl w = (Inr b, w') \<Longrightarrow>
      b = (view w k = None) \<and> (if b then map_option en_bytes (view w' k) = Some v else view w' k = view w k)"
    and delete_removes: "kv_delete kv k w = (Inr b, w') \<Longrightarrow> b = (view w k \<noteq> None) \<and> view w' k = None"
    and list_reads: "fst (kv_list_prefix kv p n w) = Inr es \<Longrightarrow> (k, e) \<in> set es \<Longrightarrow> starts_with k p \<and> view w k = Some e"
    and page_reads: "fst (kv_list_page kv p c n w) = Inr page \<Longrightarrow> (k, e) \<in> set (kp_entries page) \<Longrightarrow> starts_with k p \<and> view w k = Some e"
begin

text \<open>What a store keeps over any sequence of requests that do not write the key.\<close>

lemma run_frame:
  "(\<And>q. q \<in> set qs \<Longrightarrow> written q \<noteq> Some k) \<Longrightarrow> view (fold (perform kv) qs w) k = view w k"
  by (induction qs arbitrary: w) (auto simp: frame)

lemma put_get:
  "kv_put kv k v ttl w = (Inr u, w') \<Longrightarrow> fst (kv_get kv k w') = Inr e \<Longrightarrow> map_option en_bytes e = Some v"
  using put_writes get_reads by metis

end

section \<open>A store that keeps the contract\<close>

text \<open>An association list as a store, without counters: they answer with an error.\<close>

type_synonym kv_table = "(string \<times> kv_entry) list"

definition table_view :: "kv_table \<Rightarrow> string \<Rightarrow> kv_entry option" where
  "table_view w k = map_of w k"

definition table_entries :: "string \<Rightarrow> nat \<Rightarrow> kv_table \<Rightarrow> (string \<times> kv_entry) list" where
  "table_entries p n w = take n (filter (\<lambda>(k, e). starts_with k p \<and> map_of w k = Some e) w)"

lemma table_entries_mem: "(k, e) \<in> set (table_entries p n w) \<Longrightarrow> starts_with k p \<and> map_of w k = Some e"
  unfolding table_entries_def by (drule in_set_takeD) simp

definition table_kv :: "kv_table kv_store" where
  "table_kv =
     \<lparr>kv_get = (\<lambda>k w. (Inr (map_of w k), w)),
      kv_put = (\<lambda>k v ttl w. (Inr (), (k, \<lparr>en_bytes = v, en_expires_at = ttl\<rparr>) # w)),
      kv_put_if_absent = (\<lambda>k v ttl w. if map_of w k = None
        then (Inr True, (k, \<lparr>en_bytes = v, en_expires_at = ttl\<rparr>) # w) else (Inr False, w)),
      kv_delete = (\<lambda>k w. (Inr (map_of w k \<noteq> None), AList.delete k w)),
      kv_list_page = (\<lambda>p c n w. (Inr \<lparr>kp_entries = table_entries p n w, kp_next = None\<rparr>, w)),
      kv_list_prefix = (\<lambda>p n w. (Inr (table_entries p n w), w)),
      kv_expire = (\<lambda>k ttl w. (Inr (map_of w k \<noteq> None), case map_of w k of None \<Rightarrow> w | Some e \<Rightarrow> (k, e\<lparr>en_expires_at := ttl\<rparr>) # w)),
      kv_incr = (\<lambda>k d ttl w. (Inl (ClusterBackendError ''unsupported''), w)),
      kv_incr_floor = (\<lambda>k d f ttl w. (Inl (ClusterBackendError ''unsupported''), w))\<rparr>"

interpretation table: kv_contract table_view table_kv
proof (unfold_locales, goal_cases)
  case (1 q k w)
  then show ?case
    by (cases q) (auto simp: table_kv_def table_view_def delete_conv' split: option.splits)
next
  case (6 p n w es k e)
  then show ?case by (auto simp: table_kv_def table_view_def dest: table_entries_mem)
next
  case (7 p c n w page k e)
  then show ?case by (auto simp: table_kv_def table_view_def dest: table_entries_mem)
qed (auto simp: table_kv_def table_view_def delete_conv' split: if_splits)

end
