(* ===== verification/Native_Cluster.thy ===== *)
theory Native_Cluster
  imports Native_Stores Cluster_Api
begin

text \<open>
  The adapter of \<open>native_loader.rs\<close> for a cluster coordinator: the key-value store over the slots of the
  plugin, the bus, the leases, the listings of nodes, and who owns the instance.

  The wire forms of the cluster interface are parameters. A subscription and a watch of the peers are streams
  over a bridge, as in \<open>Native_Streams\<close>.
\<close>

section \<open>The adapter\<close>

record lease_answer =
  la_handle :: nat
  la_fencing_token :: "64 word"
  la_expires_at :: string
  la_error_json :: string

record 'w cluster_vtable = "'w base_vtable" +
  clv_node_info :: "nat \<Rightarrow> ('w, string) ffi_slot"
  clv_list_peers :: "nat \<Rightarrow> ('w, string) ffi_slot"
  clv_publish :: "nat \<Rightarrow> string \<Rightarrow> ('w, string) ffi_slot"
  clv_subscribe :: "nat \<Rightarrow> string \<Rightarrow> ('w, stream_handle) ffi_slot"
  clv_watch_peers :: "nat \<Rightarrow> ('w, stream_handle) ffi_slot"
  clv_acquire_leadership :: "nat \<Rightarrow> string \<Rightarrow> ('w, lease_answer) ffi_slot"
  clv_acquire_lock :: "nat \<Rightarrow> string \<Rightarrow> ('w, lease_answer) ffi_slot"
  clv_try_acquire_leadership :: "nat \<Rightarrow> string \<Rightarrow> ('w, lease_answer) ffi_slot"
  clv_try_acquire_lock :: "nat \<Rightarrow> string \<Rightarrow> ('w, lease_answer) ffi_slot"
  clv_lease_renew :: "nat \<Rightarrow> nat \<Rightarrow> ('w, string) ffi_slot"
  clv_lease_release :: "nat \<Rightarrow> nat \<Rightarrow> ('w, string) ffi_slot"
  clv_lease_drop :: "nat \<Rightarrow> nat \<Rightarrow> 'w \<Rightarrow> 'w"
  clv_kv_get :: "nat \<Rightarrow> string \<Rightarrow> ('w, string) ffi_slot"
  clv_kv_put :: "nat \<Rightarrow> string \<Rightarrow> ('w, string) ffi_slot"
  clv_kv_put_if_absent :: "nat \<Rightarrow> string \<Rightarrow> ('w, string) ffi_slot"
  clv_kv_delete :: "nat \<Rightarrow> string \<Rightarrow> ('w, string) ffi_slot"
  clv_kv_list_prefix :: "nat \<Rightarrow> string \<Rightarrow> ('w, string) ffi_slot"
  clv_kv_expire :: "nat \<Rightarrow> string \<Rightarrow> ('w, string) ffi_slot"
  clv_kv_incr :: "nat \<Rightarrow> string \<Rightarrow> ('w, string) ffi_slot"

text \<open>
  The decoders of the envelopes (\<open>decode_result_envelope\<close> with the conversion of the wire form), of the parsed
  \<open>wire_features\<close>, of node infos (\<open>'n\<close>), peers (\<open>'p\<close>) and events; \<open>ne_wire_bytes\<close> is \<open>WireBytes::new\<close>, and the last
  two fields are the names of the wire features.
\<close>

record ('n, 'p, 't) native_cluster_env = wire_env +
  ne_wire_features :: "string \<Rightarrow> string list option"
  ne_entry :: "string \<Rightarrow> (string, cluster_error + kv_entry option) rresult"
  ne_unit :: "string \<Rightarrow> (string, cluster_error + unit) rresult"
  ne_bool :: "string \<Rightarrow> (string, cluster_error + bool) rresult"
  ne_int :: "string \<Rightarrow> (string, cluster_error + int) rresult"
  ne_page :: "string \<Rightarrow> (string, cluster_error + kv_page) rresult"
  ne_entries :: "string \<Rightarrow> (string, cluster_error + (string \<times> kv_entry) list) rresult"
  ne_error :: "json \<Rightarrow> cluster_error option"
  ne_error_str :: "string \<Rightarrow> cluster_error option"
  ne_message :: "string \<Rightarrow> message option"
  ne_peer_event :: "string \<Rightarrow> 't option"
  ne_node_info :: "string \<Rightarrow> 'n option"
  ne_node_named :: "string \<Rightarrow> 'n"
  ne_peers :: "string \<Rightarrow> 'p list option"
  ne_wire_bytes :: "bool \<Rightarrow> string \<Rightarrow> json"
  ne_multi_thread :: bool
  ne_KV_VALUE_BASE64 :: string
  ne_KV_INCR_FLOOR :: string

definition declares_wire_feature :: "('n, 'p, 't) native_cluster_env \<Rightarrow> string \<Rightarrow> string \<Rightarrow> bool" where
  "declares_wire_feature ne manifest_json feature =
     (case ne_wire_features ne manifest_json of None \<Rightarrow> False | Some fs \<Rightarrow> feature \<in> set fs)"

text \<open>\<open>na_extra\<close>: whether values cross as base64, and whether \<open>kv_incr\<close> honours a floor.\<close>

type_synonym 'w cluster_adapter = "('w cluster_vtable, bool \<times> bool) native_adapter"

definition cluster_from_vtable ::
  "('n, 'p, 't) native_cluster_env \<Rightarrow> ffi_limits \<Rightarrow> 'w cluster_vtable \<Rightarrow> json \<Rightarrow> string
    \<Rightarrow> 'w \<Rightarrow> (anyhow, 'w cluster_adapter) rresult \<times> 'w" where
  "cluster_from_vtable ne limits vt config alias w =
     bind_made (make_instance (ffi_env.truncate ne) ''cluster'' ''native cluster plugin returned empty manifest''
         ''invalid manifest from cluster plugin'' vt None config alias w)
       (\<lambda>(h, raw, m) w1.
          (Inr (new_adapter limits vt h m alias
             (declares_wire_feature ne raw (ne_KV_VALUE_BASE64 ne), declares_wire_feature ne raw (ne_KV_INCR_FLOOR ne))), w1))"

section \<open>The key-value store\<close>

record 'w native_kv =
  nk_adapter :: "'w cluster_adapter"
  nk_store :: "string option"

fun json_insert :: "string \<Rightarrow> json \<Rightarrow> json \<Rightarrow> json" where
  "json_insert k v (JObject m) = JObject (bt_insert k v m)"
| "json_insert k v j = j"

definition slot_args :: "('n, 'p, 't) native_cluster_env \<Rightarrow> 'w native_kv \<Rightarrow> json \<Rightarrow> string" where
  "slot_args ne nk args =
     unwrap_or ''{}'' (fe_to_string ne (case nk_store nk of None \<Rightarrow> args | Some s \<Rightarrow> json_insert ''store'' (JString s) args))"

type_synonym 'w kv_slot = "'w cluster_vtable \<Rightarrow> nat \<Rightarrow> string \<Rightarrow> ('w, string) ffi_slot"

definition call_slot ::
  "('n, 'p, 't) native_cluster_env \<Rightarrow> 'w native_kv \<Rightarrow> 'w kv_slot \<Rightarrow> string \<Rightarrow> json \<Rightarrow> ('w, string) kv_call" where
  "call_slot ne nk vt_fn slot args w =
     (let a = nk_adapter nk
      in case fs_ferried (vt_fn (na_vtable a) (na_handle a) (slot_args ne nk args)) (fl_data_timeout (na_limits a)) w of
           (Joined raw, w1) \<Rightarrow> (Inr raw, w1)
         | (_, w1) \<Rightarrow> (Inl (ClusterUnavailable (native_said (m_id (na_manifest a)) ('' timed out or panicked during '' @ slot))), w1))"

definition ask_base64 :: "'w native_kv \<Rightarrow> json \<Rightarrow> json" where
  "ask_base64 nk args = (if fst (na_extra (nk_adapter nk)) then json_insert ''base64'' (JBool True) args else args)"

definition key_args :: "'w native_kv \<Rightarrow> string \<Rightarrow> json" where
  "key_args nk key = ask_base64 nk (json_obj [(''key'', JString key)])"

definition decode_slot ::
  "'w native_kv \<Rightarrow> (string \<Rightarrow> (string, cluster_error + 'a) rresult) \<Rightarrow> string \<Rightarrow> string \<Rightarrow> (cluster_error, 'a) rresult" where
  "decode_slot nk envelope slot raw =
     (case envelope raw of
        Inr answer \<Rightarrow> answer
      | Inl e \<Rightarrow> Inl (ClusterInternal (native_said (m_id (na_manifest (nk_adapter nk)))
          ('' returned undecodable '' @ slot @ '' envelope: '' @ e))))"

definition ask_slot ::
  "('n, 'p, 't) native_cluster_env \<Rightarrow> 'w native_kv \<Rightarrow> 'w kv_slot \<Rightarrow> string \<Rightarrow> json
    \<Rightarrow> (string \<Rightarrow> (string, cluster_error + 'a) rresult) \<Rightarrow> ('w, 'a) kv_call" where
  "ask_slot ne nk vt_fn slot args envelope w =
     (let (raw, w1) = call_slot ne nk vt_fn slot args w in (try_then raw (decode_slot nk envelope slot), w1))"

definition opt_ttl_ms :: "nat option \<Rightarrow> json" where
  "opt_ttl_ms ttl = json_opt (map_option ttl_ms ttl)"

definition put_args :: "('n, 'p, 't) native_cluster_env \<Rightarrow> 'w native_kv \<Rightarrow> string \<Rightarrow> string \<Rightarrow> nat option \<Rightarrow> json" where
  "put_args ne nk key value ttl = json_obj [(''key'', JString key),
     (''value'', ne_wire_bytes ne (fst (na_extra (nk_adapter nk))) value), (''ttl_ms'', opt_ttl_ms ttl)]"

definition page_args :: "'w native_kv \<Rightarrow> string \<Rightarrow> string option \<Rightarrow> nat \<Rightarrow> json" where
  "page_args nk p cursor limit = ask_base64 nk (json_obj [(''prefix'', JString p), (''limit'', JNumber (int (max limit 1))),
     (''page'', JBool True), (''cursor'', json_opt_str cursor)])"

definition list_args :: "'w native_kv \<Rightarrow> string \<Rightarrow> nat \<Rightarrow> json" where
  "list_args nk p limit = ask_base64 nk (json_obj [(''prefix'', JString p), (''limit'', JNumber (int limit))])"

definition expire_args :: "string \<Rightarrow> nat option \<Rightarrow> json" where
  "expire_args key ttl = json_obj [(''key'', JString key), (''ttl_ms'', opt_ttl_ms ttl)]"

definition incr_args :: "string \<Rightarrow> int \<Rightarrow> nat option \<Rightarrow> json" where
  "incr_args key delta ttl = json_obj [(''key'', JString key), (''delta'', JNumber delta), (''ttl_ms'', opt_ttl_ms ttl)]"

definition incr_floor_args :: "string \<Rightarrow> int \<Rightarrow> int \<Rightarrow> nat option \<Rightarrow> json" where
  "incr_floor_args key delta floor ttl = json_obj [(''key'', JString key), (''delta'', JNumber delta), (''floor'', JNumber floor),
     (''ttl_ms'', opt_ttl_ms ttl)]"

definition native_incr_floor ::
  "('n, 'p, 't) native_cluster_env \<Rightarrow> 'w native_kv \<Rightarrow> string \<Rightarrow> int \<Rightarrow> int \<Rightarrow> nat option \<Rightarrow> ('w, int) kv_call" where
  "native_incr_floor ne nk key delta floor ttl w =
     (if \<not> snd (na_extra (nk_adapter nk))
      then (Inl (ClusterUnsupported (''cluster plugin `'' @ m_id (na_manifest (nk_adapter nk)) @ ''` does not declare '' @ ne_KV_INCR_FLOOR ne)), w)
      else ask_slot ne nk clv_kv_incr ''kv_incr'' (incr_floor_args key delta floor ttl) (ne_int ne) w)"

definition native_kv_store :: "('n, 'p, 't) native_cluster_env \<Rightarrow> 'w native_kv \<Rightarrow> 'w kv_store" where
  "native_kv_store ne nk =
     \<lparr>kv_get = (\<lambda>key. ask_slot ne nk clv_kv_get ''kv_get'' (key_args nk key) (ne_entry ne)),
      kv_put = (\<lambda>key value ttl. ask_slot ne nk clv_kv_put ''kv_put'' (put_args ne nk key value ttl) (ne_unit ne)),
      kv_put_if_absent = (\<lambda>key value ttl. ask_slot ne nk clv_kv_put_if_absent ''kv_put_if_absent'' (put_args ne nk key value ttl) (ne_bool ne)),
      kv_delete = (\<lambda>key. ask_slot ne nk clv_kv_delete ''kv_delete'' (json_obj [(''key'', JString key)]) (ne_bool ne)),
      kv_list_page = (\<lambda>p cursor limit. ask_slot ne nk clv_kv_list_prefix ''kv_list_prefix'' (page_args nk p cursor limit) (ne_page ne)),
      kv_list_prefix = (\<lambda>p limit. ask_slot ne nk clv_kv_list_prefix ''kv_list_prefix'' (list_args nk p limit) (ne_entries ne)),
      kv_expire = (\<lambda>key ttl. ask_slot ne nk clv_kv_expire ''kv_expire'' (expire_args key ttl) (ne_bool ne)),
      kv_incr = (\<lambda>key delta ttl. ask_slot ne nk clv_kv_incr ''kv_incr'' (incr_args key delta ttl) (ne_int ne)),
      kv_incr_floor = native_incr_floor ne nk\<rparr>"

text \<open>Whether the coordinator backs the store at all: only a decoded \<open>Unsupported\<close> says no.\<close>

definition probe_kv_supported :: "('n, 'p, 't) native_cluster_env \<Rightarrow> 'w cluster_adapter \<Rightarrow> 'w \<Rightarrow> bool \<times> 'w" where
  "probe_kv_supported ne a w =
     (let (raw, w1) = call_sync_vtable_bounded (ne_multi_thread ne) (fl_data_timeout (na_limits a))
            (clv_kv_get (na_vtable a) (na_handle a) (unwrap_or [] (fe_to_string ne (json_obj [(''key'', JString ''__mcpg_kv_probe__'')])))) [] w
      in (case ne_entry ne raw of Inr (Inl (ClusterUnsupported _)) \<Rightarrow> False | _ \<Rightarrow> True, w1))"

definition ffi_kv :: "('n, 'p, 't) native_cluster_env \<Rightarrow> 'w cluster_adapter \<Rightarrow> string option \<Rightarrow> 'w \<Rightarrow> 'w kv_store option \<times> 'w" where
  "ffi_kv ne a store w =
     (if ''kv'' \<notin> set (m_provides (na_manifest a)) then (None, w)
      else (let (ok, w1) = probe_kv_supported ne a w
            in (if ok then Some (native_kv_store ne \<lparr>nk_adapter = a, nk_store = store\<rparr>) else None, w1)))"

section \<open>The bus\<close>

definition cluster_publish ::
  "('n, 'p, 't) native_cluster_env \<Rightarrow> 'w cluster_adapter \<Rightarrow> string \<Rightarrow> string option \<Rightarrow> string \<Rightarrow> ('w, unit) kv_call" where
  "cluster_publish ne a topic routing_key payload w =
     (let said = native_said (m_id (na_manifest a));
          args = json_obj [(''topic'', JString topic), (''routing_key'', json_opt_str routing_key),
            (''payload'', JArray (map (\<lambda>c. JNumber (int (of_char c))) payload))]
      in case fs_ferried (clv_publish (na_vtable a) (na_handle a) (unwrap_or ''{}'' (fe_to_string ne args))) (fl_data_timeout (na_limits a)) w of
           (Joined raw, w1) \<Rightarrow>
             (case ne_unit ne raw of
                Inr answer \<Rightarrow> answer
              | Inl e \<Rightarrow> Inl (ClusterInternal (said ('' returned undecodable publish envelope: '' @ e))), w1)
         | (_, w1) \<Rightarrow> (Inl (ClusterUnavailable (said '' timed out or panicked'')), w1))"

definition cluster_subscribe ::
  "('n, 'p, 't) native_cluster_env \<Rightarrow> 'w cluster_adapter \<Rightarrow> string \<Rightarrow> string option \<Rightarrow> string option \<Rightarrow> 'w
    \<Rightarrow> (cluster_error, string watch_stream) rresult \<times> 'w" where
  "cluster_subscribe ne a topic queue_group routing_key w =
     (let said = native_said (m_id (na_manifest a));
          args = json_obj [(''topic'', JString topic), (''group'', json_opt_str queue_group), (''routing_key'', json_opt_str routing_key)]
      in install_watch (ne_error_str ne) (ClusterInternal (said '' returned undecodable subscribe error''))
           (ClusterUnavailable (said '' panicked during subscribe''))
           (clv_subscribe (na_vtable a) (na_handle a) (unwrap_or ''{}'' (fe_to_string ne args))) w)"

definition message_poll :: "('n, 'p, 't) native_cluster_env \<Rightarrow> string stream_bridge \<Rightarrow> message poll \<times> string stream_bridge" where
  "message_poll ne b = poll_next (ne_message ne) b"

text \<open>The primitive bus, for coordinators with the \<open>bus\<close> role, sends without a routing key.\<close>

definition pub_sub_publish where
  "pub_sub_publish ne a topic payload w = cluster_publish ne a topic None payload w"

definition pub_sub_subscribe where
  "pub_sub_subscribe ne a topic queue_group w = cluster_subscribe ne a topic queue_group None w"

definition has_pub_sub :: "'w cluster_adapter \<Rightarrow> bool" where
  "has_pub_sub a = (''bus'' \<in> set (m_provides (na_manifest a)))"

section \<open>Nodes\<close>

definition cluster_node_info :: "('n, 'p, 't) native_cluster_env \<Rightarrow> 'w cluster_adapter \<Rightarrow> 'w \<Rightarrow> 'n \<times> 'w" where
  "cluster_node_info ne a w =
     (case fs_ferried (clv_node_info (na_vtable a) (na_handle a)) (fl_control_timeout (na_limits a)) w of
        (Joined raw, w1) \<Rightarrow> (unwrap_or (ne_node_named ne (''malformed:'' @ m_id (na_manifest a))) (ne_node_info ne raw), w1)
      | (_, w1) \<Rightarrow> (ne_node_named ne (''error:'' @ m_id (na_manifest a)), w1))"

definition cluster_list_peers :: "('n, 'p, 't) native_cluster_env \<Rightarrow> 'w cluster_adapter \<Rightarrow> 'w \<Rightarrow> 'p list \<times> 'w" where
  "cluster_list_peers ne a w =
     (case fs_ferried (clv_list_peers (na_vtable a) (na_handle a)) (fl_control_timeout (na_limits a)) w of
        (Joined raw, w1) \<Rightarrow> (unwrap_or [] (ne_peers ne raw), w1)
      | (_, w1) \<Rightarrow> ([], w1))"

text \<open>\<open>None\<close> is the stream that ends at once.\<close>

definition cluster_watch_peers ::
  "('n, 'p, 't) native_cluster_env \<Rightarrow> 'w cluster_adapter \<Rightarrow> 'w \<Rightarrow> string watch_stream option \<times> 'w" where
  "cluster_watch_peers ne a w =
     (case fs_caught (clv_watch_peers (na_vtable a) (na_handle a)) w of
        (None, w1) \<Rightarrow> (None, w1)
      | (Some r, w1) \<Rightarrow>
          (if sh_handle r = 0 then None else Some \<lparr>wt_handle = sh_handle r, wt_bridge = make_stream_bridge\<rparr>, w1))"

definition peer_poll :: "('n, 'p, 't) native_cluster_env \<Rightarrow> string stream_bridge \<Rightarrow> 't poll \<times> string stream_bridge" where
  "peer_poll ne b = poll_next (ne_peer_event ne) b"

section \<open>Leases\<close>

record native_lease =
  ls_handle :: nat
  ls_fencing_token :: "64 word"
  ls_expires_at :: string

definition lease_of :: "lease_answer \<Rightarrow> native_lease" where
  "lease_of r = \<lparr>ls_handle = la_handle r, ls_fencing_token = la_fencing_token r, ls_expires_at = la_expires_at r\<rparr>"

text \<open>Acquiring waits as long as the plugin takes.\<close>

definition acquire_lease_common ::
  "('n, 'p, 't) native_cluster_env \<Rightarrow> 'w cluster_adapter \<Rightarrow> (nat \<Rightarrow> string \<Rightarrow> ('w, lease_answer) ffi_slot) \<Rightarrow> json \<Rightarrow> ('w, native_lease) kv_call" where
  "acquire_lease_common ne a vtable_fn args w =
     (let said = native_said (m_id (na_manifest a))
      in case fs_caught (vtable_fn (na_handle a) (unwrap_or ''{}'' (fe_to_string ne args))) w of
           (None, w1) \<Rightarrow> (Inl (ClusterUnavailable (said '' panicked during acquire'')), w1)
         | (Some r, w1) \<Rightarrow>
             (if la_handle r = 0
              then Inl (unwrap_or (ClusterInternal (said '' returned undecodable acquire error'')) (ne_error_str ne (la_error_json r)))
              else Inr (lease_of r), w1))"

text \<open>\<open>Inr None\<close>: declined, a peer has the lease.\<close>

definition try_acquire_lease_common ::
  "('n, 'p, 't) native_cluster_env \<Rightarrow> 'w cluster_adapter \<Rightarrow> (nat \<Rightarrow> string \<Rightarrow> ('w, lease_answer) ffi_slot) \<Rightarrow> json \<Rightarrow> ('w, native_lease option) kv_call" where
  "try_acquire_lease_common ne a vtable_fn args w =
     (let said = native_said (m_id (na_manifest a))
      in case fs_caught (vtable_fn (na_handle a) (unwrap_or ''{}'' (fe_to_string ne args))) w of
           (None, w1) \<Rightarrow> (Inl (ClusterUnavailable (said '' panicked during try_acquire'')), w1)
         | (Some r, w1) \<Rightarrow>
             (if la_handle r \<noteq> 0 then Inr (Some (lease_of r))
              else if la_error_json r = [] then Inr None
              else Inl (unwrap_or (ClusterInternal (said '' returned undecodable try_acquire error'')) (ne_error_str ne (la_error_json r))), w1))"

definition lease_args :: "string \<Rightarrow> string \<Rightarrow> nat \<Rightarrow> json" where
  "lease_args what name lease_ttl = json_obj [(what, JString name), (''ttl_ms'', ttl_ms lease_ttl)]"

definition acquire_leadership where
  "acquire_leadership ne a role lease_ttl w =
     acquire_lease_common ne a (clv_acquire_leadership (na_vtable a)) (lease_args ''role'' role lease_ttl) w"

definition acquire_lock where
  "acquire_lock ne a key lease_ttl w =
     acquire_lease_common ne a (clv_acquire_lock (na_vtable a)) (lease_args ''key'' key lease_ttl) w"

definition try_acquire_leadership where
  "try_acquire_leadership ne a role lease_ttl w =
     try_acquire_lease_common ne a (clv_try_acquire_leadership (na_vtable a)) (lease_args ''role'' role lease_ttl) w"

definition try_acquire_lock where
  "try_acquire_lock ne a key lease_ttl w =
     try_acquire_lease_common ne a (clv_try_acquire_lock (na_vtable a)) (lease_args ''key'' key lease_ttl) w"

text \<open>A renewal replaces the cached expiry with the one in the answer.\<close>

definition lease_renew ::
  "('n, 'p, 't) native_cluster_env \<Rightarrow> 'w cluster_adapter \<Rightarrow> native_lease \<Rightarrow> 'w \<Rightarrow> (cluster_error, unit) rresult \<times> native_lease \<times> 'w" where
  "lease_renew ne a l w =
     (case fs_caught (clv_lease_renew (na_vtable a) (na_handle a) (ls_handle l)) w of
        (None, w1) \<Rightarrow> (Inl (ClusterUnavailable ''native plugin panicked during lease_renew''), l, w1)
      | (Some raw, w1) \<Rightarrow>
          (case from_str_wire ne (required json_as_str) (ne_error ne) raw of
             Inr (Inr ok) \<Rightarrow> (Inr (), l\<lparr>ls_expires_at := ok\<rparr>, w1)
           | Inr (Inl err) \<Rightarrow> (Inl err, l, w1)
           | Inl e \<Rightarrow> (Inl (ClusterInternal (''native plugin returned malformed renew: '' @ raw)), l, w1)))"

definition lease_release ::
  "('n, 'p, 't) native_cluster_env \<Rightarrow> 'w cluster_adapter \<Rightarrow> native_lease \<Rightarrow> ('w, unit) kv_call" where
  "lease_release ne a l w =
     (case fs_caught (clv_lease_release (na_vtable a) (na_handle a) (ls_handle l)) w of
        (None, w1) \<Rightarrow> (Inl (ClusterUnavailable ''native plugin panicked during lease_release''), w1)
      | (Some raw, w1) \<Rightarrow>
          (case ne_unit ne raw of
             Inr answer \<Rightarrow> answer
           | Inl e \<Rightarrow> Inl (ClusterInternal (''native plugin returned undecodable lease_release envelope: '' @ e)), w1))"

definition lease_drop :: "'w cluster_adapter \<Rightarrow> native_lease \<Rightarrow> 'w \<Rightarrow> 'w" where
  "lease_drop a l w = clv_lease_drop (na_vtable a) (na_handle a) (ls_handle l) w"

lemma cluster_accounted:
  assumes "ledger_ok live vt"
  shows "accounted live w na_handle (cluster_from_vtable ne limits vt config alias w)"
  unfolding cluster_from_vtable_def
  by (rule accounted_bind [OF make_instance_accounted [OF assms]]) (auto intro: accounted_Inr)

section \<open>The store across the boundary\<close>

text \<open>
  A store that does what another one does, but may lose answers: a call that fails has either not happened
  or happened unnoticed.
\<close>

definition lossy :: "('w, 'a) kv_call \<Rightarrow> ('w, 'a) kv_call \<Rightarrow> bool" where
  "lossy op' op \<longleftrightarrow> (\<forall>w. op' w = op w \<or> (\<exists>e w1. op' w = (Inl e, w1) \<and> (w1 = w \<or> w1 = snd (op w))))"

definition lossy_store :: "'w kv_store \<Rightarrow> 'w kv_store \<Rightarrow> bool" where
  "lossy_store kv' kv \<longleftrightarrow>
     (\<forall>k. lossy (kv_get kv' k) (kv_get kv k)) \<and> (\<forall>k v ttl. lossy (kv_put kv' k v ttl) (kv_put kv k v ttl))
   \<and> (\<forall>k v ttl. lossy (kv_put_if_absent kv' k v ttl) (kv_put_if_absent kv k v ttl)) \<and> (\<forall>k. lossy (kv_delete kv' k) (kv_delete kv k))
   \<and> (\<forall>p c n. lossy (kv_list_page kv' p c n) (kv_list_page kv p c n)) \<and> (\<forall>p n. lossy (kv_list_prefix kv' p n) (kv_list_prefix kv p n))
   \<and> (\<forall>k ttl. lossy (kv_expire kv' k ttl) (kv_expire kv k ttl)) \<and> (\<forall>k d ttl. lossy (kv_incr kv' k d ttl) (kv_incr kv k d ttl))
   \<and> (\<forall>k d f ttl. lossy (kv_incr_floor kv' k d f ttl) (kv_incr_floor kv k d f ttl))"

lemma lossy_snd: "lossy op' op \<Longrightarrow> snd (op' w) \<in> {w, snd (op w)}"
  unfolding lossy_def by (erule allE [where x = w]) auto

lemma lossy_ok: "lossy op' op \<Longrightarrow> fst (op' w) = Inr a \<Longrightarrow> op' w = op w"
  unfolding lossy_def by (erule allE [where x = w]) auto

lemma lossy_eq: "lossy op' op \<Longrightarrow> op' w = (Inr a, w') \<Longrightarrow> op w = (Inr a, w')"
  using lossy_ok [of op' op w a] by simp

lemma lossy_storeD:
  assumes "lossy_store kv' kv"
  shows "lossy (kv_get kv' k) (kv_get kv k)" "lossy (kv_put kv' k v ttl) (kv_put kv k v ttl)"
    "lossy (kv_put_if_absent kv' k v ttl) (kv_put_if_absent kv k v ttl)" "lossy (kv_delete kv' k) (kv_delete kv k)"
    "lossy (kv_list_page kv' p c n) (kv_list_page kv p c n)" "lossy (kv_list_prefix kv' p n) (kv_list_prefix kv p n)"
    "lossy (kv_expire kv' k ttl) (kv_expire kv k ttl)" "lossy (kv_incr kv' k d ttl) (kv_incr kv k d ttl)"
    "lossy (kv_incr_floor kv' k d f ttl) (kv_incr_floor kv k d f ttl)"
  using assms by (simp_all add: lossy_store_def)

lemma lossy_perform: "lossy_store kv' kv \<Longrightarrow> perform kv' q w \<in> {w, perform kv q w}"
  by (cases q) (simp_all add: lossy_storeD [THEN lossy_snd, simplified])

lemma lossy_contract:
  assumes lossy: "lossy_store kv' kv" and "kv_contract view kv"
  shows "kv_contract view kv'"
proof -
  note law = kv_contract.frame [OF assms(2)] kv_contract.get_reads [OF assms(2)] kv_contract.put_writes [OF assms(2)]
    kv_contract.put_if_absent [OF assms(2)] kv_contract.delete_removes [OF assms(2)] kv_contract.list_reads [OF assms(2)]
    kv_contract.page_reads [OF assms(2)]
  show ?thesis
  proof
    show "view (perform kv' q w) k = view w k" if "written q \<noteq> Some k" for q k w
      using lossy_perform [OF lossy, of q w] law(1) [OF that] by auto
    show "found = view w k" if "fst (kv_get kv' k w) = Inr found" for k w found
      using that law(2) lossy_ok [OF lossy_storeD(1) [OF lossy] that] by simp
    show "map_option en_bytes (view w' k) = Some v" if "kv_put kv' k v ttl w = (Inr u, w')" for k v ttl w u w'
      using law(3) [OF lossy_eq [OF lossy_storeD(2) [OF lossy] that]] .
    show "b = (view w k = None) \<and> (if b then map_option en_bytes (view w' k) = Some v else view w' k = view w k)"
      if "kv_put_if_absent kv' k v ttl w = (Inr b, w')" for k v ttl w b w'
      using law(4) [OF lossy_eq [OF lossy_storeD(3) [OF lossy] that]] .
    show "b = (view w k \<noteq> None) \<and> view w' k = None" if "kv_delete kv' k w = (Inr b, w')" for k w b w'
      using law(5) [OF lossy_eq [OF lossy_storeD(4) [OF lossy] that]] .
    show "starts_with k p \<and> view w k = Some e" if "fst (kv_list_prefix kv' p n w) = Inr es" "(k, e) \<in> set es" for p n w es k e
      using that law(6) [of p n w es k e] lossy_ok [OF lossy_storeD(6) [OF lossy] that(1)] by simp
    show "starts_with k p \<and> view w k = Some e" if "fst (kv_list_page kv' p c n w) = Inr page" "(k, e) \<in> set (kp_entries page)" for p c n w page k e
      using that law(7) [of p c n w page k e] lossy_ok [OF lossy_storeD(5) [OF lossy] that(1)] by simp
  qed
qed

text \<open>
  What a plugin reads off the JSON text of a request: fields by their names. None of this mentions how the
  adapter builds a request.
\<close>

definition text_arg :: "json \<Rightarrow> string \<Rightarrow> string option" where
  "text_arg j f = (case json_get j f of Some (JString s) \<Rightarrow> Some s | _ \<Rightarrow> None)"

definition int_arg :: "json \<Rightarrow> string \<Rightarrow> int option" where
  "int_arg j f = (case json_get j f of Some (JNumber n) \<Rightarrow> Some n | _ \<Rightarrow> None)"

text \<open>A field that has to be there and may be null: the time to live, the cursor.\<close>

definition ttl_arg :: "json \<Rightarrow> nat option option" where
  "ttl_arg j = (case json_get j ''ttl_ms'' of Some (JNumber n) \<Rightarrow> Some (Some (nat n)) | Some JNull \<Rightarrow> Some None | _ \<Rightarrow> None)"

definition cursor_arg :: "json \<Rightarrow> string option option" where
  "cursor_arg j = (case json_get j ''cursor'' of Some (JString s) \<Rightarrow> Some (Some s) | Some JNull \<Rightarrow> Some None | _ \<Rightarrow> None)"

definition asks_base64 :: "'w cluster_adapter \<Rightarrow> json \<Rightarrow> bool" where
  "asks_base64 a j \<longleftrightarrow> json_get j ''base64'' = (if fst (na_extra a) then Some (JBool True) else None)"

text \<open>
  What the plugin owes for one request to one slot: an answer that decodes to what its store did, or none,
  with the operation done or not.
\<close>

definition slot_answers ::
  "('n, 'p, 't) native_cluster_env \<Rightarrow> 'w cluster_adapter \<Rightarrow> 'w kv_slot \<Rightarrow> json \<Rightarrow> (string \<Rightarrow> (string, cluster_error + 'a) rresult)
    \<Rightarrow> ('w, 'a) kv_call \<Rightarrow> bool" where
  "slot_answers ne a vt_fn j envelope op \<longleftrightarrow>
     (\<forall>s w. fe_to_string ne j = Some s \<longrightarrow>
       (case fs_ferried (vt_fn (na_vtable a) (na_handle a) s) (fl_data_timeout (na_limits a)) w of
          (Joined raw, w1) \<Rightarrow> envelope raw = Inr (fst (op w)) \<and> w1 = snd (op w)
        | (_, w1) \<Rightarrow> w1 = w \<or> w1 = snd (op w)))"

text \<open>
  The plugin serves its stores, selected by the \<open>store\<close> field: each slot does the operation that the fields of a
  request name. A value may come as base64, and a reply be asked for in it, only of a plugin that declared it; a
  \<open>kv_incr\<close> with a floor is understood only by a plugin that declared that; a listing is paged when asked for
  pages, and a page holds at least one entry.
\<close>

definition serves ::
  "('n, 'p, 't) native_cluster_env \<Rightarrow> 'w cluster_adapter \<Rightarrow> (string option \<Rightarrow> 'w kv_store) \<Rightarrow> bool" where
  "serves ne a stores \<longleftrightarrow>
     (\<forall>j k. text_arg j ''key'' = Some k \<longrightarrow>
       (asks_base64 a j \<longrightarrow> slot_answers ne a clv_kv_get j (ne_entry ne) (kv_get (stores (text_arg j ''store'')) k))
     \<and> (\<forall>v ttl. json_get j ''value'' = Some (ne_wire_bytes ne (fst (na_extra a)) v) \<longrightarrow> ttl_arg j = Some ttl \<longrightarrow>
          slot_answers ne a clv_kv_put j (ne_unit ne) (kv_put (stores (text_arg j ''store'')) k v ttl)
          \<and> slot_answers ne a clv_kv_put_if_absent j (ne_bool ne) (kv_put_if_absent (stores (text_arg j ''store'')) k v ttl))
     \<and> slot_answers ne a clv_kv_delete j (ne_bool ne) (kv_delete (stores (text_arg j ''store'')) k)
     \<and> (\<forall>ttl. ttl_arg j = Some ttl \<longrightarrow>
          slot_answers ne a clv_kv_expire j (ne_bool ne) (kv_expire (stores (text_arg j ''store'')) k ttl))
     \<and> (\<forall>d ttl. int_arg j ''delta'' = Some d \<longrightarrow> ttl_arg j = Some ttl \<longrightarrow>
          (json_get j ''floor'' = None \<longrightarrow>
            slot_answers ne a clv_kv_incr j (ne_int ne) (kv_incr (stores (text_arg j ''store'')) k d ttl))
          \<and> (\<forall>f. int_arg j ''floor'' = Some f \<longrightarrow> snd (na_extra a) \<longrightarrow>
            slot_answers ne a clv_kv_incr j (ne_int ne) (kv_incr_floor (stores (text_arg j ''store'')) k d f ttl))))
   \<and> (\<forall>j p n. text_arg j ''prefix'' = Some p \<longrightarrow> int_arg j ''limit'' = Some n \<longrightarrow> asks_base64 a j \<longrightarrow>
       (json_get j ''page'' = None \<longrightarrow> 0 \<le> n \<longrightarrow>
          slot_answers ne a clv_kv_list_prefix j (ne_entries ne) (kv_list_prefix (stores (text_arg j ''store'')) p (nat n)))
     \<and> (\<forall>c. json_get j ''page'' = Some (JBool True) \<longrightarrow> 0 < n \<longrightarrow> cursor_arg j = Some c \<longrightarrow>
          slot_answers ne a clv_kv_list_prefix j (ne_page ne) (kv_list_page (stores (text_arg j ''store'')) p c (nat n))))"

text \<open>Every request gets an answer in time.\<close>

definition prompt :: "'w cluster_adapter \<Rightarrow> bool" where
  "prompt a \<longleftrightarrow> (\<forall>vt_fn \<in> {clv_kv_get, clv_kv_put, clv_kv_put_if_absent, clv_kv_delete, clv_kv_list_prefix, clv_kv_expire, clv_kv_incr}.
     \<forall>s w. \<exists>raw. fst (fs_ferried (vt_fn (na_vtable a) (na_handle a) s) (fl_data_timeout (na_limits a)) w) = Joined raw)"

text \<open>
  The store as it can be reached through the slots: times to live in milliseconds of 64 bits, pages of at
  least one entry, and a floor only where the plugin declared it.
\<close>

definition clamp_ttl :: "nat option \<Rightarrow> nat option" where
  "clamp_ttl ttl = map_option (\<lambda>t. min t (2 ^ 64 - 1)) ttl"

definition floor_unsupported :: "('n, 'p, 't) native_cluster_env \<Rightarrow> 'w cluster_adapter \<Rightarrow> cluster_error" where
  "floor_unsupported ne a = ClusterUnsupported (''cluster plugin `'' @ m_id (na_manifest a) @ ''` does not declare '' @ ne_KV_INCR_FLOOR ne)"

definition reached :: "('n, 'p, 't) native_cluster_env \<Rightarrow> 'w cluster_adapter \<Rightarrow> 'w kv_store \<Rightarrow> 'w kv_store" where
  "reached ne a kv =
     \<lparr>kv_get = kv_get kv,
      kv_put = (\<lambda>k v ttl. kv_put kv k v (clamp_ttl ttl)),
      kv_put_if_absent = (\<lambda>k v ttl. kv_put_if_absent kv k v (clamp_ttl ttl)),
      kv_delete = kv_delete kv,
      kv_list_page = (\<lambda>p c n. kv_list_page kv p c (max n 1)),
      kv_list_prefix = kv_list_prefix kv,
      kv_expire = (\<lambda>k ttl. kv_expire kv k (clamp_ttl ttl)),
      kv_incr = (\<lambda>k d ttl. kv_incr kv k d (clamp_ttl ttl)),
      kv_incr_floor = (\<lambda>k d f ttl w. if snd (na_extra a) then kv_incr_floor kv k d f (clamp_ttl ttl) w
         else (Inl (floor_unsupported ne a), w))\<rparr>"

lemma reached_contract:
  assumes "kv_contract view kv"
  shows "kv_contract view (reached ne a kv)"
proof -
  note law = kv_contract.frame [OF assms] kv_contract.get_reads [OF assms] kv_contract.put_writes [OF assms]
    kv_contract.put_if_absent [OF assms] kv_contract.delete_removes [OF assms] kv_contract.list_reads [OF assms]
    kv_contract.page_reads [OF assms]
  show ?thesis
  proof
    fix q k w assume q: "written q \<noteq> Some k"
    show "view (perform (reached ne a kv) q w) k = view w k"
    proof (cases q)
      case (ReqPut k' v ttl)
      with q law(1) [of "ReqPut k' v (clamp_ttl ttl)" k w] show ?thesis by (simp add: reached_def)
    next
      case (ReqPutIfAbsent k' v ttl)
      with q law(1) [of "ReqPutIfAbsent k' v (clamp_ttl ttl)" k w] show ?thesis by (simp add: reached_def)
    next
      case (ReqListPage p c n)
      with q law(1) [of "ReqListPage p c (max n 1)" k w] show ?thesis by (simp add: reached_def)
    next
      case (ReqExpire k' ttl)
      with q law(1) [of "ReqExpire k' (clamp_ttl ttl)" k w] show ?thesis by (simp add: reached_def)
    next
      case (ReqIncr k' d ttl)
      with q law(1) [of "ReqIncr k' d (clamp_ttl ttl)" k w] show ?thesis by (simp add: reached_def)
    next
      case (ReqIncrFloor k' d f ttl)
      with q law(1) [of "ReqIncrFloor k' d f (clamp_ttl ttl)" k w] show ?thesis by (simp add: reached_def)
    qed (use q law(1) [of q k w] in \<open>simp_all add: reached_def\<close>)
  qed (use law in \<open>simp_all add: reached_def\<close>)
qed

lemma ask_slot_lossy:
  assumes "slot_answers ne (nk_adapter nk) vt_fn (case nk_store nk of None \<Rightarrow> args | Some s \<Rightarrow> json_insert ''store'' (JString s) args) envelope op"
    and json: "\<And>j. fe_to_string ne j \<noteq> None"
  shows "lossy (ask_slot ne nk vt_fn slot args envelope) op"
    and "(\<And>s w. \<exists>raw. fst (fs_ferried (vt_fn (na_vtable (nk_adapter nk)) (na_handle (nk_adapter nk)) s)
        (fl_data_timeout (na_limits (nk_adapter nk))) w) = Joined raw) \<Longrightarrow> ask_slot ne nk vt_fn slot args envelope = op"
proof -
  let ?j = "case nk_store nk of None \<Rightarrow> args | Some s \<Rightarrow> json_insert ''store'' (JString s) args"
  let ?call = "fs_ferried (vt_fn (na_vtable (nk_adapter nk)) (na_handle (nk_adapter nk)) (slot_args ne nk args)) (fl_data_timeout (na_limits (nk_adapter nk)))"
  obtain str where "fe_to_string ne ?j = Some str" using json [of ?j] by blast
  with assms(1) have a: "case ?call w of (Joined raw, w1) \<Rightarrow> envelope raw = Inr (fst (op w)) \<and> w1 = snd (op w)
      | (_, w1) \<Rightarrow> w1 = w \<or> w1 = snd (op w)" for w
    by (simp add: slot_answers_def slot_args_def)
  have exact: "ask_slot ne nk vt_fn slot args envelope w = op w" if "fst (?call w) = Joined raw" for w raw
    using a [of w] that by (cases "?call w") (auto simp: ask_slot_def call_slot_def Let_def decode_slot_def)
  have lost: "\<exists>e w1. ask_slot ne nk vt_fn slot args envelope w = (Inl e, w1) \<and> (w1 = w \<or> w1 = snd (op w))"
    if "\<nexists>raw. fst (?call w) = Joined raw" for w
  proof -
    obtain r w1 where r: "?call w = (r, w1)" by fastforce
    with that a [of w] show ?thesis by (cases r) (auto simp: ask_slot_def call_slot_def Let_def)
  qed
  show "lossy (ask_slot ne nk vt_fn slot args envelope) op"
    unfolding lossy_def using exact lost by metis
  show "ask_slot ne nk vt_fn slot args envelope = op"
    if "\<And>s w. \<exists>raw. fst (fs_ferried (vt_fn (na_vtable (nk_adapter nk)) (na_handle (nk_adapter nk)) s)
        (fl_data_timeout (na_limits (nk_adapter nk))) w) = Joined raw"
    using exact that by (intro ext) metis
qed

text \<open>The requests of the adapter, as a plugin reads them.\<close>

lemma json_get_insert: "json_get (json_insert k v (json_obj kvs)) f = (if f = k then Some v else json_get (json_obj kvs) f)"
  by (simp add: json_obj_def)

definition sent :: "'w native_kv \<Rightarrow> json \<Rightarrow> json" where
  "sent nk args = (case nk_store nk of None \<Rightarrow> args | Some s \<Rightarrow> json_insert ''store'' (JString s) args)"

lemma json_insert_obj: "json_insert k v (json_obj kvs) = json_obj (kvs @ [(k, v)])"
  by (simp add: json_obj_def)

lemma json_get_sent:
  "json_get (sent nk (json_obj kvs)) f = (if f = ''store'' then or_else (map_option JString (nk_store nk)) (json_get (json_obj kvs) f)
     else json_get (json_obj kvs) f)"
  by (cases "nk_store nk") (simp_all add: sent_def json_get_insert)

lemmas request_defs = key_args_def ask_base64_def put_args_def page_args_def list_args_def expire_args_def incr_args_def
  incr_floor_args_def opt_ttl_ms_def ttl_ms_def json_opt_def json_opt_str_def text_arg_def int_arg_def ttl_arg_def
  cursor_arg_def asks_base64_def clamp_ttl_def json_insert_obj json_get_sent json_get_obj

lemma servesD:
  assumes "serves ne a stores" and "text_arg j ''store'' = st"
  shows "text_arg j ''key'' = Some k \<Longrightarrow> asks_base64 a j \<Longrightarrow> slot_answers ne a clv_kv_get j (ne_entry ne) (kv_get (stores st) k)"
    and "text_arg j ''key'' = Some k \<Longrightarrow> json_get j ''value'' = Some (ne_wire_bytes ne (fst (na_extra a)) v) \<Longrightarrow> ttl_arg j = Some ttl \<Longrightarrow>
      slot_answers ne a clv_kv_put j (ne_unit ne) (kv_put (stores st) k v ttl)"
    and "text_arg j ''key'' = Some k \<Longrightarrow> json_get j ''value'' = Some (ne_wire_bytes ne (fst (na_extra a)) v) \<Longrightarrow> ttl_arg j = Some ttl \<Longrightarrow>
      slot_answers ne a clv_kv_put_if_absent j (ne_bool ne) (kv_put_if_absent (stores st) k v ttl)"
    and "text_arg j ''key'' = Some k \<Longrightarrow> slot_answers ne a clv_kv_delete j (ne_bool ne) (kv_delete (stores st) k)"
    and "text_arg j ''key'' = Some k \<Longrightarrow> ttl_arg j = Some ttl \<Longrightarrow>
      slot_answers ne a clv_kv_expire j (ne_bool ne) (kv_expire (stores st) k ttl)"
    and "text_arg j ''key'' = Some k \<Longrightarrow> int_arg j ''delta'' = Some d \<Longrightarrow> ttl_arg j = Some ttl \<Longrightarrow> json_get j ''floor'' = None \<Longrightarrow>
      slot_answers ne a clv_kv_incr j (ne_int ne) (kv_incr (stores st) k d ttl)"
    and "text_arg j ''key'' = Some k \<Longrightarrow> int_arg j ''delta'' = Some d \<Longrightarrow> ttl_arg j = Some ttl \<Longrightarrow> int_arg j ''floor'' = Some f \<Longrightarrow>
      snd (na_extra a) \<Longrightarrow> slot_answers ne a clv_kv_incr j (ne_int ne) (kv_incr_floor (stores st) k d f ttl)"
    and "text_arg j ''prefix'' = Some p \<Longrightarrow> int_arg j ''limit'' = Some (int n) \<Longrightarrow> asks_base64 a j \<Longrightarrow> json_get j ''page'' = None \<Longrightarrow>
      slot_answers ne a clv_kv_list_prefix j (ne_entries ne) (kv_list_prefix (stores st) p n)"
    and "text_arg j ''prefix'' = Some p \<Longrightarrow> int_arg j ''limit'' = Some (int n) \<Longrightarrow> asks_base64 a j \<Longrightarrow>
      json_get j ''page'' = Some (JBool True) \<Longrightarrow> 0 < n \<Longrightarrow> cursor_arg j = Some c \<Longrightarrow>
      slot_answers ne a clv_kv_list_prefix j (ne_page ne) (kv_list_page (stores st) p c n)"
  using assms(1) unfolding serves_def assms(2) [symmetric]
  by (metis, metis, metis, metis, metis, metis, metis, metis nat_int of_nat_0_le_iff, metis nat_int of_nat_0_less_iff)

lemma sent_store: "map_of (rev kvs) ''store'' = None \<Longrightarrow> text_arg (sent nk (json_obj kvs)) ''store'' = nk_store nk"
  by (cases "nk_store nk") (simp_all add: text_arg_def json_get_sent json_get_obj)

lemma slots_answer:
  assumes ok: "serves ne (nk_adapter nk) stores"
  defines "kv \<equiv> stores (nk_store nk)"
  shows "slot_answers ne (nk_adapter nk) clv_kv_get (sent nk (key_args nk k)) (ne_entry ne) (kv_get kv k)"
    and "slot_answers ne (nk_adapter nk) clv_kv_put (sent nk (put_args ne nk k v ttl)) (ne_unit ne) (kv_put kv k v (clamp_ttl ttl))"
    and "slot_answers ne (nk_adapter nk) clv_kv_put_if_absent (sent nk (put_args ne nk k v ttl)) (ne_bool ne) (kv_put_if_absent kv k v (clamp_ttl ttl))"
    and "slot_answers ne (nk_adapter nk) clv_kv_delete (sent nk (json_obj [(''key'', JString k)])) (ne_bool ne) (kv_delete kv k)"
    and "slot_answers ne (nk_adapter nk) clv_kv_expire (sent nk (expire_args k ttl)) (ne_bool ne) (kv_expire kv k (clamp_ttl ttl))"
    and "slot_answers ne (nk_adapter nk) clv_kv_incr (sent nk (incr_args k d ttl)) (ne_int ne) (kv_incr kv k d (clamp_ttl ttl))"
    and "snd (na_extra (nk_adapter nk)) \<Longrightarrow>
      slot_answers ne (nk_adapter nk) clv_kv_incr (sent nk (incr_floor_args k d f ttl)) (ne_int ne) (kv_incr_floor kv k d f (clamp_ttl ttl))"
    and "slot_answers ne (nk_adapter nk) clv_kv_list_prefix (sent nk (list_args nk p n)) (ne_entries ne) (kv_list_prefix kv p n)"
    and "slot_answers ne (nk_adapter nk) clv_kv_list_prefix (sent nk (page_args nk p c n)) (ne_page ne) (kv_list_page kv p c (max n 1))"
  unfolding kv_def
  by (rule servesD [OF ok]; (simp add: key_args_def ask_base64_def put_args_def page_args_def list_args_def expire_args_def
      incr_args_def incr_floor_args_def json_insert_obj sent_store; fail)?; simp add: request_defs split: option.split)+

lemma native_kv_slots:
  assumes "serves ne (nk_adapter nk) stores" and json: "\<And>j. fe_to_string ne j \<noteq> None"
  defines "kv \<equiv> reached ne (nk_adapter nk) (stores (nk_store nk))"
  shows "lossy_store (native_kv_store ne nk) kv" and "prompt (nk_adapter nk) \<Longrightarrow> native_kv_store ne nk = kv"
proof -
  note slots = slots_answer [OF assms(1), unfolded sent_def]
  note lost = ask_slot_lossy(1) [OF _ json] and exact = ask_slot_lossy(2) [OF _ json]
  have floor: "native_incr_floor ne nk k d f ttl = (if snd (na_extra (nk_adapter nk))
      then ask_slot ne nk clv_kv_incr ''kv_incr'' (incr_floor_args k d f ttl) (ne_int ne)
      else (\<lambda>w. (Inl (floor_unsupported ne (nk_adapter nk)), w)))" for k d f ttl
    by (simp add: native_incr_floor_def floor_unsupported_def fun_eq_iff)
  have floored: "lossy (native_incr_floor ne nk k d f ttl) (kv_incr_floor kv k d f ttl)" for k d f ttl
  proof (cases "snd (na_extra (nk_adapter nk))")
    case True
    then show ?thesis by (simp add: floor kv_def reached_def lost [OF slots(7)])
  next
    case False
    then show ?thesis by (simp add: floor kv_def reached_def lossy_def)
  qed
  then show "lossy_store (native_kv_store ne nk) kv"
    unfolding lossy_store_def native_kv_store_def kv_def reached_def
    by (simp add: lost [OF slots(1)] lost [OF slots(2)] lost [OF slots(3)] lost [OF slots(4)] lost [OF slots(5)]
        lost [OF slots(6)] lost [OF slots(8)] lost [OF slots(9)] del: One_nat_def)
  show "native_kv_store ne nk = kv" if "prompt (nk_adapter nk)"
  proof -
    have quick: "\<And>s w. \<exists>raw. fst (fs_ferried (clv_kv_get (na_vtable (nk_adapter nk)) (na_handle (nk_adapter nk)) s) (fl_data_timeout (na_limits (nk_adapter nk))) w) = Joined raw"
      "\<And>s w. \<exists>raw. fst (fs_ferried (clv_kv_put (na_vtable (nk_adapter nk)) (na_handle (nk_adapter nk)) s) (fl_data_timeout (na_limits (nk_adapter nk))) w) = Joined raw"
      "\<And>s w. \<exists>raw. fst (fs_ferried (clv_kv_put_if_absent (na_vtable (nk_adapter nk)) (na_handle (nk_adapter nk)) s) (fl_data_timeout (na_limits (nk_adapter nk))) w) = Joined raw"
      "\<And>s w. \<exists>raw. fst (fs_ferried (clv_kv_delete (na_vtable (nk_adapter nk)) (na_handle (nk_adapter nk)) s) (fl_data_timeout (na_limits (nk_adapter nk))) w) = Joined raw"
      "\<And>s w. \<exists>raw. fst (fs_ferried (clv_kv_expire (na_vtable (nk_adapter nk)) (na_handle (nk_adapter nk)) s) (fl_data_timeout (na_limits (nk_adapter nk))) w) = Joined raw"
      "\<And>s w. \<exists>raw. fst (fs_ferried (clv_kv_incr (na_vtable (nk_adapter nk)) (na_handle (nk_adapter nk)) s) (fl_data_timeout (na_limits (nk_adapter nk))) w) = Joined raw"
      "\<And>s w. \<exists>raw. fst (fs_ferried (clv_kv_list_prefix (na_vtable (nk_adapter nk)) (na_handle (nk_adapter nk)) s) (fl_data_timeout (na_limits (nk_adapter nk))) w) = Joined raw"
      using \<open>prompt (nk_adapter nk)\<close> unfolding prompt_def by simp_all
    have "native_incr_floor ne nk = kv_incr_floor kv"
    proof (intro ext)
      fix k d f ttl w
      show "native_incr_floor ne nk k d f ttl w = kv_incr_floor kv k d f ttl w"
        by (cases "snd (na_extra (nk_adapter nk))") (simp_all add: floor kv_def reached_def exact [OF slots(7), OF _ quick(6)])
    qed
    then show ?thesis
      unfolding native_kv_store_def kv_def reached_def
      by (simp add: exact [OF slots(1), OF quick(1)] exact [OF slots(2), OF quick(2)] exact [OF slots(3), OF quick(3)] exact [OF slots(4), OF quick(4)]
          exact [OF slots(5), OF quick(5)] exact [OF slots(6), OF quick(6)] exact [OF slots(8), OF quick(7)] exact [OF slots(9), OF quick(7)] fun_eq_iff del: One_nat_def)
  qed
qed

section \<open>Who owns the instance\<close>

text \<open>
  The instance of a coordinator is reference counted: the adapter, every key-value store, every bus and every
  lease hold it; a stream (a subscription, or a watch of the peers) only holds the library, and dropping it
  calls \<open>cancel_stream\<close> on the handle.
\<close>

record owners =
  ow_adapter :: bool
  ow_stores :: nat
  ow_buses :: nat
  ow_leases :: nat
  ow_streams :: nat

datatype owner_event = TakeStore | DropStore | TakeBus | DropBus | TakeLease | DropLease | OpenStream | DropStream | DropCoordinator

definition owned :: "owners \<Rightarrow> bool" where
  "owned s \<longleftrightarrow> ow_adapter s \<or> 0 < ow_stores s + ow_buses s + ow_leases s"

inductive owner_step :: "owners \<Rightarrow> owner_event \<Rightarrow> owners \<Rightarrow> bool" where
  take_store: "ow_adapter s \<Longrightarrow> owner_step s TakeStore (s\<lparr>ow_stores := ow_stores s + 1\<rparr>)"
| drop_store: "0 < ow_stores s \<Longrightarrow> owner_step s DropStore (s\<lparr>ow_stores := ow_stores s - 1\<rparr>)"
| take_bus: "ow_adapter s \<Longrightarrow> owner_step s TakeBus (s\<lparr>ow_buses := ow_buses s + 1\<rparr>)"
| drop_bus: "0 < ow_buses s \<Longrightarrow> owner_step s DropBus (s\<lparr>ow_buses := ow_buses s - 1\<rparr>)"
| take_lease: "ow_adapter s \<Longrightarrow> owner_step s TakeLease (s\<lparr>ow_leases := ow_leases s + 1\<rparr>)"
| drop_lease: "0 < ow_leases s \<Longrightarrow> owner_step s DropLease (s\<lparr>ow_leases := ow_leases s - 1\<rparr>)"
| open_stream: "ow_adapter s \<or> 0 < ow_buses s \<Longrightarrow> owner_step s OpenStream (s\<lparr>ow_streams := ow_streams s + 1\<rparr>)"
| drop_stream: "0 < ow_streams s \<Longrightarrow> owner_step s DropStream (s\<lparr>ow_streams := ow_streams s - 1\<rparr>)"
| drop_coordinator: "ow_adapter s \<Longrightarrow> owner_step s DropCoordinator (s\<lparr>ow_adapter := False\<rparr>)"

inductive_cases owner_stepE: "owner_step s e t"

inductive owner_run :: "owners \<Rightarrow> bool" where
  owner_start: "owner_run \<lparr>ow_adapter = True, ow_stores = 0, ow_buses = 0, ow_leases = 0, ow_streams = 0\<rparr>"
| owner_next: "owner_run s \<Longrightarrow> owner_step s e t \<Longrightarrow> owner_run t"

text \<open>The events that call into the instance, when it is gone.\<close>

definition calls_freed :: "owners \<Rightarrow> owner_event \<Rightarrow> bool" where
  "calls_freed s e \<longleftrightarrow> \<not> owned s \<and> e \<in> {TakeStore, TakeLease, DropLease, OpenStream, DropStream}"

lemma only_streams_outlive_the_instance:
  assumes "owner_step s e t"
  shows "calls_freed s e \<longleftrightarrow> e = DropStream \<and> \<not> owned s"
  using assms by (auto simp: calls_freed_def owned_def elim: owner_stepE)

lemma stream_outlives_the_instance: "\<exists>s t. owner_run s \<and> owner_step s DropStream t \<and> calls_freed s DropStream"
proof -
  have 1: "owner_run \<lparr>ow_adapter = True, ow_stores = 0, ow_buses = 0, ow_leases = 0, ow_streams = 1\<rparr>"
    using owner_next [OF owner_start open_stream] by simp
  have 2: "owner_run \<lparr>ow_adapter = False, ow_stores = 0, ow_buses = 0, ow_leases = 0, ow_streams = 1\<rparr>" (is "owner_run ?s")
    using owner_next [OF 1 drop_coordinator] by simp
  have "owner_step ?s DropStream (?s\<lparr>ow_streams := ow_streams ?s - 1\<rparr>)" by (rule drop_stream) simp
  moreover have "calls_freed ?s DropStream" by (simp add: calls_freed_def owned_def)
  ultimately show ?thesis using 2 by blast
qed

section \<open>Properties\<close>

text \<open>
  C23. The key-value store of a native coordinator keeps the contract of a store, and reaches the store it is for. Let
  the plugin read its requests by the names of their fields and serve its stores, as \<open>serves\<close> says, answering
  within the data timeout or not at all, and let the selected store keep the contract. Then so does the adapter,
  over the same entries: every call asks for exactly the operation it is named for, with its key, value, time to live
  (at most \<open>2^64 - 1\<close> milliseconds), prefix, cursor, limit (at least 1 for a page), delta and floor, on the
  selected store; what a call reports is what the store did, a call touches its own key only, and a call that was
  lost and fails has done what it should or nothing. If the plugin always answers, the adapter is that store. A floor
  is refused without a call when the plugin did not declare it. The decorators for tenants and for encryption
  rest on this contract.
\<close>

theorem native_kv_keeps_contract:
  assumes "serves ne (nk_adapter nk) stores" and "kv_contract view (stores (nk_store nk))" and "\<And>j. fe_to_string ne j \<noteq> None"
  shows "kv_contract view (native_kv_store ne nk)
    \<and> lossy_store (native_kv_store ne nk) (reached ne (nk_adapter nk) (stores (nk_store nk)))
    \<and> (prompt (nk_adapter nk) \<longrightarrow> native_kv_store ne nk = reached ne (nk_adapter nk) (stores (nk_store nk)))
    \<and> (\<not> snd (na_extra (nk_adapter nk)) \<longrightarrow>
        kv_incr_floor (native_kv_store ne nk) key delta floor ttl w = (Inl (floor_unsupported ne (nk_adapter nk)), w))"
proof -
  note slots = native_kv_slots [OF assms(1,3)]
  have "kv_contract view (native_kv_store ne nk)" using lossy_contract [OF slots(1) reached_contract [OF assms(2)]] .
  moreover have "kv_incr_floor (native_kv_store ne nk) key delta floor ttl w = (Inl (floor_unsupported ne (nk_adapter nk)), w)"
    if "\<not> snd (na_extra (nk_adapter nk))"
    using that by (simp add: native_kv_store_def native_incr_floor_def floor_unsupported_def)
  ultimately show ?thesis using slots by blast
qed

text \<open>
  A coordinator that keeps its entries in a list and reads its arguments from a string: the length of the key
  in unary, the key, the value.
\<close>

definition pack_args :: "string \<Rightarrow> string \<Rightarrow> string" where
  "pack_args k v = replicate (length k) (CHR ''a'') @ CHR ''b'' # k @ v"

definition unpack_args :: "string \<Rightarrow> string \<times> string" where
  "unpack_args s = (let n = length (takeWhile (\<lambda>c. c = CHR ''a'') s); r = drop (n + 1) s in (take n r, drop n r))"

lemma takeWhile_unary: "takeWhile (\<lambda>c. c = x) (replicate n x @ y # ys) = replicate n x" if "x \<noteq> y"
  using that by (induction n) auto

lemma unpack_pack_args [simp]: "unpack_args (pack_args k v) = (k, v)"
  by (simp add: unpack_args_def pack_args_def takeWhile_unary Let_def)

definition text_field :: "json \<Rightarrow> string \<Rightarrow> string" where
  "text_field j f = (case json_get j f of Some (JString s) \<Rightarrow> s | _ \<Rightarrow> [])"

definition prompt_slot :: "('w \<Rightarrow> 'a \<times> 'w) \<Rightarrow> ('w, 'a) ffi_slot" where
  "prompt_slot f = \<lparr>fs_inline = f, fs_caught = (\<lambda>w. map_prod Some id (f w)), fs_ferried = (\<lambda>t w. map_prod Joined id (f w))\<rparr>"

type_synonym plain_table = "(string \<times> string) list"

definition plain_view :: "plain_table \<Rightarrow> string \<Rightarrow> kv_entry option" where
  "plain_view w k = map_option (\<lambda>v. \<lparr>en_bytes = v, en_expires_at = None\<rparr>) (map_of w k)"

definition plain_kv :: "plain_table kv_store" where
  "plain_kv =
     \<lparr>kv_get = (\<lambda>k w. (Inr (plain_view w k), w)), kv_put = (\<lambda>k v ttl w. (Inr (), (k, v) # w)),
      kv_put_if_absent = (\<lambda>k v ttl w. if map_of w k = None then (Inr True, (k, v) # w) else (Inr False, w)),
      kv_delete = (\<lambda>k w. (Inr (map_of w k \<noteq> None), AList.delete k w)),
      kv_list_page = (\<lambda>p c n w. (Inr \<lparr>kp_entries = [], kp_next = None\<rparr>, w)), kv_list_prefix = (\<lambda>p n w. (Inr [], w)),
      kv_expire = (\<lambda>k ttl w. (Inr False, w)), kv_incr = (\<lambda>k d ttl w. (Inl (ClusterBackendError ''no''), w)),
      kv_incr_floor = (\<lambda>k d f ttl w. (Inl (ClusterBackendError ''no''), w))\<rparr>"

definition plain_vtable :: "plain_table cluster_vtable" where
  "plain_vtable =
     \<lparr>bv_make = (\<lambda>r c n w. (Some 1, w)), bv_manifest_json = (\<lambda>h w. (Some ''{}'', w)), bv_shutdown = (\<lambda>h w. (Some (), w)),
      bv_drop_instance = (\<lambda>h w. (Some (), w)), clv_node_info = (\<lambda>h. hung_slot []), clv_list_peers = (\<lambda>h. hung_slot []),
      clv_publish = (\<lambda>h s. hung_slot []), clv_subscribe = (\<lambda>h s. hung_slot \<lparr>sh_handle = 0, sh_error_json = []\<rparr>),
      clv_watch_peers = (\<lambda>h. hung_slot \<lparr>sh_handle = 0, sh_error_json = []\<rparr>),
      clv_acquire_leadership = (\<lambda>h s. hung_slot \<lparr>la_handle = 0, la_fencing_token = 0, la_expires_at = [], la_error_json = []\<rparr>),
      clv_acquire_lock = (\<lambda>h s. hung_slot \<lparr>la_handle = 0, la_fencing_token = 0, la_expires_at = [], la_error_json = []\<rparr>),
      clv_try_acquire_leadership = (\<lambda>h s. hung_slot \<lparr>la_handle = 0, la_fencing_token = 0, la_expires_at = [], la_error_json = []\<rparr>),
      clv_try_acquire_lock = (\<lambda>h s. hung_slot \<lparr>la_handle = 0, la_fencing_token = 0, la_expires_at = [], la_error_json = []\<rparr>),
      clv_lease_renew = (\<lambda>h l. hung_slot []), clv_lease_release = (\<lambda>h l. hung_slot []), clv_lease_drop = (\<lambda>h l w. w),
      clv_kv_get = (\<lambda>h s. prompt_slot (\<lambda>w. (case map_of w (fst (unpack_args s)) of None \<Rightarrow> ''n'' | Some v \<Rightarrow> CHR ''s'' # v, w))),
      clv_kv_put = (\<lambda>h s. prompt_slot (\<lambda>w. (''t'', unpack_args s # w))),
      clv_kv_put_if_absent = (\<lambda>h s. prompt_slot (\<lambda>w. if map_of w (fst (unpack_args s)) = None then (''t'', unpack_args s # w) else (''f'', w))),
      clv_kv_delete = (\<lambda>h s. prompt_slot (\<lambda>w. (if map_of w (fst (unpack_args s)) = None then ''f'' else ''t'', AList.delete (fst (unpack_args s)) w))),
      clv_kv_list_prefix = (\<lambda>h s. prompt_slot (\<lambda>w. ([], w))), clv_kv_expire = (\<lambda>h s. prompt_slot (\<lambda>w. ([], w))),
      clv_kv_incr = (\<lambda>h s. prompt_slot (\<lambda>w. ([], w)))\<rparr>"

definition plain_env :: "(unit, unit, unit) native_cluster_env" where
  "plain_env = \<lparr>fe_to_string = (\<lambda>j. Some (pack_args (text_field j ''key'') (text_field j ''value''))), fe_manifest = (\<lambda>s. Inr (sample_manifest s)),
     wi_parse = (\<lambda>s. Inr JNull), wi_no_variant = [], ne_wire_features = (\<lambda>s. None),
     ne_entry = (\<lambda>s. Inr (Inr (if hd s = CHR ''s'' then Some \<lparr>en_bytes = tl s, en_expires_at = None\<rparr> else None))),
     ne_unit = (\<lambda>s. Inr (Inr ())), ne_bool = (\<lambda>s. Inr (Inr (s = ''t''))), ne_int = (\<lambda>s. Inr (Inl (ClusterBackendError ''no''))),
     ne_page = (\<lambda>s. Inr (Inr \<lparr>kp_entries = [], kp_next = None\<rparr>)), ne_entries = (\<lambda>s. Inr (Inr [])), ne_error = (\<lambda>j. None),
     ne_error_str = (\<lambda>s. None), ne_message = (\<lambda>s. None), ne_peer_event = (\<lambda>s. None), ne_node_info = (\<lambda>s. None),
     ne_node_named = (\<lambda>s. ()), ne_peers = (\<lambda>s. None), ne_wire_bytes = (\<lambda>b v. JString v), ne_multi_thread = True,
     ne_KV_VALUE_BASE64 = ''b64'', ne_KV_INCR_FLOOR = ''floor''\<rparr>"

definition plain_nk :: "plain_table native_kv" where
  "plain_nk = \<lparr>nk_adapter = new_adapter \<lparr>fl_lifecycle_timeout = 1, fl_control_timeout = 1, fl_data_timeout = 1, fl_max_payload_bytes = 1\<rparr>
     plain_vtable 1 (sample_manifest ''c'') ''c'' (False, False), nk_store = None\<rparr>"

lemma plain_fields:
  "text_arg j f = Some s \<Longrightarrow> text_field j f = s" "json_get j f = Some (JString s) \<Longrightarrow> text_field j f = s"
  by (auto simp: text_field_def text_arg_def split: option.splits json.splits)

lemma plain_served: "serves plain_env (nk_adapter plain_nk) (\<lambda>store. plain_kv)"
  unfolding serves_def slot_answers_def
  by (auto simp: plain_nk_def plain_env_def plain_kv_def plain_vtable_def prompt_slot_def plain_fields plain_view_def
      split: option.split)

lemma plain_contract: "kv_contract plain_view plain_kv"
proof (unfold_locales, goal_cases)
  case (1 q k w)
  then show ?case by (cases q) (auto simp: plain_kv_def plain_view_def delete_conv')
qed (auto simp: plain_kv_def plain_view_def delete_conv' split: if_splits)

theorem native_kv_keeps_contract_witness:
  "kv_contract plain_view (native_kv_store plain_env plain_nk)
   \<and> kv_put (native_kv_store plain_env plain_nk) ''k'' ''v'' None [] = (Inr (), [(''k'', ''v'')])
   \<and> is_err (fst (kv_incr_floor (native_kv_store plain_env plain_nk) ''k'' 1 0 None []))"
proof -
  have json: "\<And>j. fe_to_string plain_env j \<noteq> None" by (simp add: plain_env_def)
  have prompt: "prompt (nk_adapter plain_nk)" by (simp add: prompt_def plain_nk_def plain_vtable_def prompt_slot_def)
  have "\<not> snd (na_extra (nk_adapter plain_nk))" by (simp add: plain_nk_def)
  note law = native_kv_keeps_contract [OF plain_served, where view = plain_view, OF plain_contract json]
  from law prompt have eq: "native_kv_store plain_env plain_nk = reached plain_env (nk_adapter plain_nk) plain_kv" by blast
  have "kv_put (native_kv_store plain_env plain_nk) ''k'' ''v'' None [] = (Inr (), [(''k'', ''v'')])"
    unfolding eq by (simp add: reached_def plain_kv_def)
  moreover have "is_err (fst (kv_incr_floor (native_kv_store plain_env plain_nk) ''k'' 1 0 None []))"
    using law \<open>\<not> snd (na_extra (nk_adapter plain_nk))\<close> by simp
  ultimately show ?thesis using law by blast
qed

end
