(* ===== verification/Cluster_Metering.thy ===== *)
theory Cluster_Metering
  imports Metered_Calls Native_Cluster Audit_Fanout
begin

text \<open>
  The decorator of the cluster backend (\<open>cluster_metering.rs\<close>): the accessors it passes on, the metrics of its operations,
  and the audit events of a leadership, which go to the registry that is wired to it.
\<close>

section \<open>The audit emitter\<close>

text \<open>
  The global handle: never set, or a weak reference, here the address of a registry. \<open>alive\<close> are the registries that
  still exist.
\<close>

type_synonym audit_emitter = "nat option"

definition set_audit_emitter :: "nat \<Rightarrow> audit_emitter \<Rightarrow> audit_emitter" where
  "set_audit_emitter weak cell = Some weak"

definition current_audit_registry :: "(nat \<Rightarrow> 'w registry option) \<Rightarrow> audit_emitter \<Rightarrow> 'w registry option" where
  "current_audit_registry alive cell = (case cell of None \<Rightarrow> None | Some weak \<Rightarrow> alive weak)"

text \<open>What the decorator needs beside the backend: the clock, the texts of errors, the environment of the audit events.\<close>

record 'w cluster_metering_env =
  cm_clock :: "'w \<Rightarrow> nat"
  cm_kind_label :: "cluster_error \<Rightarrow> string"
  cm_error_text :: "cluster_error \<Rightarrow> string"
  cm_host_env :: "'w host_env"
  cm_runtime :: "'w runtime"
  cm_registry :: "'w registry option"

section \<open>The decorator\<close>

text \<open>Leases, nodes, peers, streams of peer events and of messages, stores, and the bus.\<close>

record ('w, 'l, 'n, 'p, 't, 'm, 'k, 'b) cluster_object =
  cb_manifest :: manifest
  cb_key_value_store :: "'k option"
  cb_key_value_store_named :: "string \<Rightarrow> 'k option"
  cb_pub_sub :: "'b option"
  cb_node_info :: "('w, 'n) call"
  cb_list_peers :: "('w, 'p list) call"
  cb_watch_peers :: "('w, 't) call"
  cb_acquire_leadership :: "string \<Rightarrow> nat \<Rightarrow> ('w, (cluster_error, 'l) rresult) call"
  cb_acquire_lock :: "string \<Rightarrow> nat \<Rightarrow> ('w, (cluster_error, 'l) rresult) call"
  cb_try_acquire_leadership :: "string \<Rightarrow> nat \<Rightarrow> ('w, (cluster_error, 'l option) rresult) call"
  cb_try_acquire_lock :: "string \<Rightarrow> nat \<Rightarrow> ('w, (cluster_error, 'l option) rresult) call"
  cb_publish :: "string \<Rightarrow> string option \<Rightarrow> string \<Rightarrow> ('w, (cluster_error, unit) rresult) call"
  cb_subscribe :: "string \<Rightarrow> string option \<Rightarrow> string option \<Rightarrow> ('w, (cluster_error, 'm) rresult) call"
  cb_shutdown :: "('w, unit) call"

definition record_latency :: "string \<Rightarrow> string \<Rightarrow> nat \<Rightarrow> metric" where
  "record_latency plugin_id op elapsed =
     Histogram ''mcpg_cluster_op_latency_seconds'' [(''plugin_id'', plugin_id), (''op'', op)] elapsed"

definition lease_error :: "string \<Rightarrow> string \<Rightarrow> string \<Rightarrow> metric" where
  "lease_error plugin_id op kind =
     Counter ''mcpg_cluster_lease_errors_total'' [(''plugin_id'', plugin_id), (''op'', op), (''kind'', kind)] 1"

definition record_acquire ::
  "'w cluster_metering_env \<Rightarrow> string \<Rightarrow> string \<Rightarrow> string \<Rightarrow> string \<Rightarrow> (cluster_error, 'l) rresult \<Rightarrow> nat \<Rightarrow> metric list" where
  "record_acquire ce plugin_id op kind target r elapsed =
     [record_latency plugin_id op elapsed,
      (case r of
         Inr _ \<Rightarrow> Counter ''mcpg_cluster_lease_acquires_total'' [(''plugin_id'', plugin_id), (''kind'', kind), (''target'', target)] 1
       | Inl e \<Rightarrow> lease_error plugin_id kind (cm_kind_label ce e))]"

fun try_outcome :: "(cluster_error, 'l option) rresult \<Rightarrow> string" where
  "try_outcome (Inr (Some l)) = ''acquired''"
| "try_outcome (Inr None) = ''declined''"
| "try_outcome (Inl e) = ''error''"

definition record_try_acquire ::
  "'w cluster_metering_env \<Rightarrow> string \<Rightarrow> string \<Rightarrow> string \<Rightarrow> string \<Rightarrow> (cluster_error, 'l option) rresult \<Rightarrow> nat \<Rightarrow> metric list" where
  "record_try_acquire ce plugin_id op kind target r elapsed =
     [record_latency plugin_id op elapsed,
      Counter ''mcpg_cluster_try_acquires_total''
        [(''plugin_id'', plugin_id), (''kind'', kind), (''target'', target), (''outcome'', try_outcome r)] 1]
     @ (case r of Inl e \<Rightarrow> [lease_error plugin_id (''try_'' @ kind) (cm_kind_label ce e)] | Inr _ \<Rightarrow> [])"

text \<open>The audit of a leadership, on the registry that is alive, if any.\<close>

definition audit_leadership :: "'w cluster_metering_env \<Rightarrow> string \<Rightarrow> string \<Rightarrow> (cluster_error, 'l) rresult \<Rightarrow> 'w \<Rightarrow> 'w" where
  "audit_leadership ce plugin_id role r w =
     (case cm_registry ce of
        None \<Rightarrow> w
      | Some registry \<Rightarrow>
          (let (st, w1) = mint_event (cm_host_env ce) w;
               event = (case r of
                   Inr _ \<Rightarrow> cluster_leader_event st plugin_id role True None
                 | Inl e \<Rightarrow> cluster_leader_event st plugin_id role False (Some (cm_error_text ce e)))
           in snd (emit_audit_event (cm_host_env ce) (cm_runtime ce) registry event w1)))"

definition metered_acquire_leadership ::
  "'w cluster_metering_env \<Rightarrow> string \<Rightarrow> (string \<Rightarrow> nat \<Rightarrow> ('w, (cluster_error, 'l) rresult) call) \<Rightarrow> string \<Rightarrow> nat
    \<Rightarrow> ('w metered_world, (cluster_error, 'l) rresult) call" where
  "metered_acquire_leadership ce plugin_id inner role lease_ttl s =
     (let (r, w1, ms) = metered (cm_clock ce) (record_acquire ce plugin_id ''acquire_leadership'' ''leadership'' role)
            (inner role lease_ttl) s
      in (r, audit_leadership ce plugin_id role r w1, ms))"

text \<open>The other operations, each with the wrapped method as an argument.\<close>

definition metered_acquire_lock where
  "metered_acquire_lock ce plugin_id inner key ttl =
     metered (cm_clock ce) (record_acquire ce plugin_id ''acquire_lock'' ''lock'' key) (inner key ttl)"

definition metered_try_acquire_leadership where
  "metered_try_acquire_leadership ce plugin_id inner role ttl =
     metered (cm_clock ce) (record_try_acquire ce plugin_id ''try_acquire_leadership'' ''leadership'' role) (inner role ttl)"

definition metered_try_acquire_lock where
  "metered_try_acquire_lock ce plugin_id inner key ttl =
     metered (cm_clock ce) (record_try_acquire ce plugin_id ''try_acquire_lock'' ''lock'' key) (inner key ttl)"

definition metered_publish where
  "metered_publish ce plugin_id inner topic routing_key payload =
     metered (cm_clock ce)
       (\<lambda>r elapsed. record_latency plugin_id ''publish'' elapsed
          # (if is_ok r then [Counter ''mcpg_cluster_publish_total'' [(''plugin_id'', plugin_id), (''topic'', topic)] 1] else []))
       (inner topic routing_key payload)"

definition metered_subscribe where
  "metered_subscribe ce plugin_id inner topic queue routing_key =
     metered (cm_clock ce)
       (\<lambda>r elapsed. record_latency plugin_id ''subscribe'' elapsed
          # (if is_ok r then [Counter ''mcpg_cluster_subscribe_total'' [(''plugin_id'', plugin_id), (''topic'', topic)] 1] else []))
       (inner topic queue routing_key)"

definition metered_cluster_object ::
  "'w cluster_metering_env \<Rightarrow> ('w, 'l, 'n, 'p, 't, 'm, 'k, 'b) cluster_object
    \<Rightarrow> ('w metered_world, 'l, 'n, 'p, 't, 'm, 'k, 'b) cluster_object" where
  "metered_cluster_object ce inner =
     (let plugin_id = m_id (cb_manifest inner); clock = cm_clock ce
      in \<lparr>cb_manifest = cb_manifest inner, cb_key_value_store = cb_key_value_store inner,
          cb_key_value_store_named = cb_key_value_store_named inner, cb_pub_sub = cb_pub_sub inner,
          cb_node_info = metered clock (\<lambda>r elapsed. [record_latency plugin_id ''node_info'' elapsed]) (cb_node_info inner),
          cb_list_peers = metered clock (\<lambda>r elapsed. [record_latency plugin_id ''list_peers'' elapsed]) (cb_list_peers inner),
          cb_watch_peers = forward (cb_watch_peers inner),
          cb_acquire_leadership = metered_acquire_leadership ce plugin_id (cb_acquire_leadership inner),
          cb_acquire_lock = metered_acquire_lock ce plugin_id (cb_acquire_lock inner),
          cb_try_acquire_leadership = metered_try_acquire_leadership ce plugin_id (cb_try_acquire_leadership inner),
          cb_try_acquire_lock = metered_try_acquire_lock ce plugin_id (cb_try_acquire_lock inner),
          cb_publish = metered_publish ce plugin_id (cb_publish inner),
          cb_subscribe = metered_subscribe ce plugin_id (cb_subscribe inner),
          cb_shutdown = forward (cb_shutdown inner)\<rparr>)"

section \<open>Leadership and its record\<close>

lemma audit_leadership_unwired: "cm_registry ce = None \<Longrightarrow> audit_leadership ce plugin_id role r w = w"
  by (simp add: audit_leadership_def)

lemma audit_leadership_wired:
  assumes "cm_registry ce = Some reg" and "mint_event (cm_host_env ce) w = (st, w1)"
  shows "audit_leadership ce plugin_id role r w
    = snd (emit_audit_event (cm_host_env ce) (cm_runtime ce) reg
        (cluster_leader_event st plugin_id role (is_ok r) (case r of Inr _ \<Rightarrow> None | Inl e \<Rightarrow> Some (cm_error_text ce e))) w1)"
  by (cases r) (simp_all add: audit_leadership_def assms)

text \<open>
  What the decorator of the coordinator does about leases. The lease and its errors are those of the coordinator. A leadership that was waited for
  is followed by one audit event, on the registry that is alive, which says whether it was won; without a registry the world is as the
  coordinator left it. Every attempt is timed and counted once, as acquired or as an error. A leadership that was only tried
  for is counted, and never audited: a gateway that becomes the leader that way leaves no record.
\<close>

theorem leadership_records:
  fixes inner :: "('w, 'l, 'n, 'p, 't, 'm, 'k, 'b) cluster_object"
  assumes call: "cb_acquire_leadership inner role ttl w = (r, w1)"
    and mint: "mint_event (cm_host_env ce) w1 = (st, w2)"
    and tried: "cb_try_acquire_leadership inner role ttl w = (q, v1)"
  shows "(\<exists>new. cb_acquire_leadership (metered_cluster_object ce inner) role ttl (w, ms)
        = (r, (case cm_registry ce of None \<Rightarrow> w1
             | Some reg \<Rightarrow> snd (emit_audit_event (cm_host_env ce) (cm_runtime ce) reg
                 (cluster_leader_event st (m_id (cb_manifest inner)) role (is_ok r)
                   (case r of Inr _ \<Rightarrow> None | Inl e \<Rightarrow> Some (cm_error_text ce e))) w2)), ms @ new)
      \<and> samples ''mcpg_cluster_op_latency_seconds'' new = 1
      \<and> counter_total ''mcpg_cluster_lease_acquires_total'' new = (if is_ok r then 1 else 0)
      \<and> counter_total ''mcpg_cluster_lease_errors_total'' new = (if is_ok r then 0 else 1))
    \<and> (\<exists>new. cb_try_acquire_leadership (metered_cluster_object ce inner) role ttl (w, ms) = (q, v1, ms @ new)
      \<and> samples ''mcpg_cluster_op_latency_seconds'' new = 1
      \<and> counter_total ''mcpg_cluster_try_acquires_total'' new = 1
      \<and> counter_total ''mcpg_cluster_lease_acquires_total'' new = 0)"
proof (intro conjI)
  let ?pid = "m_id (cb_manifest inner)"
  let ?new = "record_acquire ce ?pid ''acquire_leadership'' ''leadership'' role r (cm_clock ce w1 - cm_clock ce w)"
  have run: "cb_acquire_leadership (metered_cluster_object ce inner) role ttl (w, ms) = (r, audit_leadership ce ?pid role r w1, ms @ ?new)"
    by (simp add: metered_cluster_object_def Let_def metered_acquire_leadership_def call)
  have "samples ''mcpg_cluster_op_latency_seconds'' ?new = 1"
    "counter_total ''mcpg_cluster_lease_acquires_total'' ?new = (if is_ok r then 1 else 0)"
    "counter_total ''mcpg_cluster_lease_errors_total'' ?new = (if is_ok r then 0 else 1)"
    by (cases r; simp add: record_acquire_def record_latency_def lease_error_def)+
  then show "\<exists>new. cb_acquire_leadership (metered_cluster_object ce inner) role ttl (w, ms)
        = (r, (case cm_registry ce of None \<Rightarrow> w1
             | Some reg \<Rightarrow> snd (emit_audit_event (cm_host_env ce) (cm_runtime ce) reg
                 (cluster_leader_event st ?pid role (is_ok r) (case r of Inr _ \<Rightarrow> None | Inl e \<Rightarrow> Some (cm_error_text ce e))) w2)), ms @ new)
      \<and> samples ''mcpg_cluster_op_latency_seconds'' new = 1
      \<and> counter_total ''mcpg_cluster_lease_acquires_total'' new = (if is_ok r then 1 else 0)
      \<and> counter_total ''mcpg_cluster_lease_errors_total'' new = (if is_ok r then 0 else 1)"
    by (intro exI [of _ ?new])
      (cases "cm_registry ce"; simp add: run audit_leadership_unwired audit_leadership_wired [OF _ mint])
  let ?tried = "record_try_acquire ce ?pid ''try_acquire_leadership'' ''leadership'' role q (cm_clock ce v1 - cm_clock ce w)"
  have "samples ''mcpg_cluster_op_latency_seconds'' ?tried = 1 \<and> counter_total ''mcpg_cluster_try_acquires_total'' ?tried = 1
      \<and> counter_total ''mcpg_cluster_lease_acquires_total'' ?tried = 0"
    by (cases q) (simp_all add: record_try_acquire_def record_latency_def lease_error_def)
  then show "\<exists>new. cb_try_acquire_leadership (metered_cluster_object ce inner) role ttl (w, ms) = (q, v1, ms @ new)
      \<and> samples ''mcpg_cluster_op_latency_seconds'' new = 1 \<and> counter_total ''mcpg_cluster_try_acquires_total'' new = 1
      \<and> counter_total ''mcpg_cluster_lease_acquires_total'' new = 0"
    by (intro exI [of _ ?tried]) (simp add: metered_cluster_object_def Let_def metered_try_acquire_leadership_def tried)
qed

text \<open>The store and the bus of a coordinator stay reachable behind the decorator.\<close>

lemma primitives_pass_through:
  "cb_key_value_store (metered_cluster_object ce inner) = cb_key_value_store inner"
  "cb_key_value_store_named (metered_cluster_object ce inner) = cb_key_value_store_named inner"
  "cb_pub_sub (metered_cluster_object ce inner) = cb_pub_sub inner"
  by (simp_all add: metered_cluster_object_def Let_def)

end
