(* ===== verification/Resolver_Events.thy ===== *)
theory Resolver_Events
  imports Audit_Events Audit_Fanout
begin

text \<open>
  The audit events of the secret and credential resolvers (\<open>src/src/audit_events.rs\<close>), and how the
  resolvers emit them: an event is minted, handed to the sinks under \<open>emit_audit_event\<close>, and the sinks'
  answers are dropped.
\<close>

definition secret_resolved_event :: "stamp \<Rightarrow> identity \<Rightarrow> string \<Rightarrow> string \<Rightarrow> bool \<Rightarrow> string option \<Rightarrow> audit_event" where
  "secret_resolved_event st actor scheme secret_ref success error =
     \<lparr>ev_event_id = fst st, ev_occurred_at = snd st, ev_actor = actor,
      ev_action = (if success then ''mcpg.secret.resolved'' else ''mcpg.secret.failed''),
      ev_resource = Some secret_ref, ev_outcome = (if success then Success else Failure),
      ev_request_id = None, ev_upstream_request_id = None, ev_node_id = None,
      ev_details = json_obj [(''scheme'', JString scheme), (''secret_ref'', JString secret_ref),
        (''error'', json_opt_str error)],
      ev_prev_event_hash = None\<rparr>"

definition credential_issued_event :: "stamp \<Rightarrow> identity \<Rightarrow> string \<Rightarrow> string \<Rightarrow> bool \<Rightarrow> string option \<Rightarrow> audit_event" where
  "credential_issued_event st actor plugin_id tgt success error =
     \<lparr>ev_event_id = fst st, ev_occurred_at = snd st, ev_actor = actor,
      ev_action = (if success then ''mcpg.credential.issued'' else ''mcpg.credential.failed''),
      ev_resource = Some (''plugin://'' @ plugin_id), ev_outcome = (if success then Success else Failure),
      ev_request_id = None, ev_upstream_request_id = None, ev_node_id = None,
      ev_details = json_obj [(''plugin_id'', JString plugin_id), (''target'', JString tgt),
        (''error'', json_opt_str error)],
      ev_prev_event_hash = None\<rparr>"

definition credential_resolution_failed_event ::
  "stamp \<Rightarrow> identity \<Rightarrow> string option \<Rightarrow> string \<Rightarrow> string \<Rightarrow> string option \<Rightarrow> string \<Rightarrow> string \<Rightarrow> audit_event" where
  "credential_resolution_failed_event st actor request_id plugin_id tgt part error_kind error_detail =
     \<lparr>ev_event_id = fst st, ev_occurred_at = snd st, ev_actor = actor,
      ev_action = ''mcpg.credential.resolution_failed'',
      ev_resource = Some (''plugin://'' @ plugin_id), ev_outcome = Failure,
      ev_request_id = request_id, ev_upstream_request_id = None, ev_node_id = None,
      ev_details = json_obj [(''plugin_id'', JString plugin_id), (''target'', JString tgt),
        (''part'', json_opt_str part), (''error_kind'', JString error_kind), (''error_detail'', JString error_detail)],
      ev_prev_event_hash = None\<rparr>"

definition emit_resolver_event ::
  "'w host_env \<Rightarrow> 'w runtime \<Rightarrow> 'w registry \<Rightarrow> (stamp \<Rightarrow> audit_event) \<Rightarrow> 'w \<Rightarrow> 'w" where
  "emit_resolver_event env rt r mk w = (let (st, w1) = mint_event env w in snd (emit_audit_event env rt r (mk st) w1))"

end
