(* ===== verification/Json_Walk.thy ===== *)
theory Json_Walk
  imports Json
begin

text \<open>
  Walking a JSON value in place: the position of a node is the list of child numbers from the root, what
  stands at a position and what putting another value there changes, and the shape of a value with its
  strings erased. The resolvers replace strings by strings, which keeps the shape.
\<close>

section \<open>Positions\<close>

fun kids :: "json \<Rightarrow> json list" where
  "kids (JArray xs) = xs"
| "kids (JObject m) = map snd m"
| "kids _ = []"

fun with_kid :: "json \<Rightarrow> nat \<Rightarrow> json \<Rightarrow> json" where
  "with_kid (JArray xs) i v = JArray (xs[i := v])"
| "with_kid (JObject m) i v = JObject (if i < length m then m[i := (fst (m ! i), v)] else m)"
| "with_kid u i v = u"

fun json_at :: "json \<Rightarrow> nat list \<Rightarrow> json option" where
  "json_at v [] = Some v"
| "json_at v (i # p) = (if i < length (kids v) then json_at (kids v ! i) p else None)"

fun json_put :: "json \<Rightarrow> nat list \<Rightarrow> json \<Rightarrow> json" where
  "json_put v [] u = u"
| "json_put v (i # p) u = (if i < length (kids v) then with_kid v i (json_put (kids v ! i) p u) else v)"

fun node_count :: "json \<Rightarrow> nat" where
  "node_count (JArray xs) = Suc (sum_list (map node_count xs))"
| "node_count (JObject m) = Suc (sum_list (map (\<lambda>e. node_count (snd e)) m))"
| "node_count _ = 1"

definition count_at :: "json \<Rightarrow> nat list \<Rightarrow> nat" where
  "count_at v p = (case json_at v p of None \<Rightarrow> 1 | Some u \<Rightarrow> node_count u)"

lemma node_count_kids: "node_count v = Suc (sum_list (map node_count (kids v)))"
  by (cases v) (simp_all add: comp_def)

lemma kids_with_kid: "i < length (kids v) \<Longrightarrow> kids (with_kid v i u) = (kids v)[i := u]"
  by (cases v) (simp_all add: map_update)

lemma json_at_append: "json_at v (p @ q) = Option.bind (json_at v p) (\<lambda>u. json_at u q)"
  by (induction p arbitrary: v) simp_all

text \<open>Putting a string where a string stands leaves the tree as it is around it.\<close>

lemma put_string_at:
  "json_at v p = Some (JString s) \<Longrightarrow>
    json_at (json_put v p (JString t)) q = (if q = p then Some (JString t) else
      map_option (\<lambda>u. if prefix q p then json_put u (drop (length q) p) (JString t) else u) (json_at v q))"
proof (induction p arbitrary: v q)
  case Nil
  then show ?case by (cases q) auto
next
  case (Cons i p)
  then have i: "i < length (kids v)" "json_at (kids v ! i) p = Some (JString s)" by (auto split: if_splits)
  show ?case
  proof (cases q)
    case Nil
    with i show ?thesis by simp
  next
    case q: (Cons j q')
    show ?thesis
    proof (cases "j = i")
      case True
      from i Cons.IH [OF i(2), of q'] show ?thesis unfolding q True by (simp add: kids_with_kid cong: if_cong)
    next
      case False
      with i show ?thesis unfolding q by (simp add: kids_with_kid option.map_ident)
    qed
  qed
qed

text \<open>The shape of a value: its strings erased.\<close>

fun erase :: "json \<Rightarrow> json" where
  "erase (JString s) = JString []"
| "erase (JArray xs) = JArray (map erase xs)"
| "erase (JObject m) = JObject (map (\<lambda>e. (fst e, erase (snd e))) m)"
| "erase v = v"

lemma kids_erase: "kids (erase v) = map erase (kids v)"
  by (cases v) simp_all

lemma erase_with_kid: "i < length (kids v) \<Longrightarrow> erase (with_kid v i u) = with_kid (erase v) i (erase u)"
  by (cases v) (simp_all add: map_update)

lemma with_kid_same: "i < length (kids v) \<Longrightarrow> with_kid v i (kids v ! i) = v"
  by (cases v) simp_all

lemma erase_put: "json_at v p = Some (JString s) \<Longrightarrow> erase (json_put v p (JString t)) = erase v"
proof (induction p arbitrary: v)
  case (Cons i p)
  then have i: "i < length (kids v)" "json_at (kids v ! i) p = Some (JString s)" by (auto split: if_splits)
  then have "erase (json_put v (i # p) (JString t)) = with_kid (erase v) i (kids (erase v) ! i)"
    using Cons.IH [OF i(2)] by (simp add: erase_with_kid kids_erase)
  also have "\<dots> = erase v" using i by (intro with_kid_same) (simp add: kids_erase)
  finally show ?case .
qed simp

lemma json_at_erase: "json_at (erase v) q = map_option erase (json_at v q)"
  by (induction q arbitrary: v) (simp_all add: kids_erase)

lemma erase_at_put:
  "json_at v p = Some (JString s) \<Longrightarrow> map_option erase (json_at (json_put v p (JString t)) q) = map_option erase (json_at v q)"
  using erase_put [of v p s t] by (simp flip: json_at_erase)

lemma node_count_erase: "node_count (erase v) = node_count v"
  by (induction v rule: erase.induct) (simp_all add: comp_def cong: map_cong)

lemma count_at_erase: "count_at v q = (case map_option erase (json_at v q) of None \<Rightarrow> 1 | Some u \<Rightarrow> node_count u)"
  by (simp add: count_at_def node_count_erase split: option.splits)

lemma count_at_put: "json_at v p = Some (JString s) \<Longrightarrow> count_at (json_put v p (JString t)) q = count_at v q"
  by (simp add: count_at_erase erase_at_put)

end
