(* ===== verification/Secret_Resolver.thy ===== *)
theory Secret_Resolver
  imports Resolver_Events Resolve_Access Json_Walk Bytes Samples
begin

text \<open>
  Secret references in configuration values (\<open>secret_resolver.rs\<close>): \<open>resolve_secret_refs\<close> walks a JSON value
  with an explicit stack of pointers and replaces bound \<open>scheme://\<close> strings in place,
  \<open>resolve_single_secret_ref\<close> does so for one string. A pointer into the value is the position of a node,
  the list of child numbers from the root. The last child pushed is the first one popped, so the strings
  are visited from the last to the first.
\<close>

section \<open>Resolution\<close>

record resolve_report =
  rr_expanded :: nat
  rr_failures :: "(string \<times> fetch_error) list"
  rr_skipped_schemes :: "string set"
  rr_resolved_refs :: "string set"

definition default_report :: resolve_report where
  "default_report = \<lparr>rr_expanded = 0, rr_failures = [], rr_skipped_schemes = {}, rr_resolved_refs = {}\<rparr>"

definition report_is_ok :: "resolve_report \<Rightarrow> bool" where
  "report_is_ok rep = (rr_failures rep = [])"

text \<open>What the protocol crate provides: splitting a reference and printing an error.\<close>

record secret_grammar =
  sg_parse :: "string \<Rightarrow> (string \<times> string) option"
  sg_display :: "fetch_error \<Rightarrow> string"

record 'w secret_walk =
  sw_value :: json
  sw_report :: resolve_report
  sw_world :: 'w

definition record_failure :: "string \<Rightarrow> fetch_error \<Rightarrow> resolve_report \<Rightarrow> resolve_report" where
  "record_failure s e rep = rep\<lparr>rr_failures := rr_failures rep @ [(s, e)]\<rparr>"

definition record_expansion :: "string \<Rightarrow> resolve_report \<Rightarrow> resolve_report" where
  "record_expansion s rep = rep\<lparr>rr_expanded := rr_expanded rep + 1, rr_resolved_refs := insert s (rr_resolved_refs rep)\<rparr>"

definition resolve_leaf ::
  "secret_grammar \<Rightarrow> 'w host_env \<Rightarrow> 'w runtime \<Rightarrow> 'w registry \<Rightarrow> nat list \<Rightarrow> string \<Rightarrow> 'w secret_walk \<Rightarrow> 'w secret_walk" where
  "resolve_leaf g env rt r p s st =
     (case sg_parse g s of
        None \<Rightarrow> st
      | Some (scheme, _) \<Rightarrow>
         (case secret_provider_for_scheme r scheme of
            None \<Rightarrow> st\<lparr>sw_report := (sw_report st)\<lparr>rr_skipped_schemes := insert scheme (rr_skipped_schemes (sw_report st))\<rparr>\<rparr>
          | Some provider \<Rightarrow>
             (let (res, w1) = await (sp_fetch provider s) (sw_world st);
                  emit = (\<lambda>ok err. emit_resolver_event env rt r
                    (\<lambda>stm. secret_resolved_event stm system_identity scheme s ok err) w1)
              in case res of
                   Inr bytes \<Rightarrow>
                     if valid_utf8 bytes
                     then \<lparr>sw_value = json_put (sw_value st) p (JString bytes),
                           sw_report = record_expansion s (sw_report st), sw_world = emit True None\<rparr>
                     else st\<lparr>sw_world := emit False (Some ''secret value is not valid UTF-8''),
                            sw_report := record_failure s
                              (FetchBackend ''secret value is not valid UTF-8; cannot replace JSON string'') (sw_report st)\<rparr>
                 | Inl e \<Rightarrow> st\<lparr>sw_world := emit False (Some (sg_display g e)),
                             sw_report := record_failure s e (sw_report st)\<rparr>)))"

lemma resolve_leaf_value:
  "sw_value (resolve_leaf g env rt r p s st) = sw_value st
    \<or> (\<exists>t. sw_value (resolve_leaf g env rt r p s st) = json_put (sw_value st) p (JString t))"
  by (auto simp: resolve_leaf_def Let_def case_prod_beta split: option.splits sum.splits)

lemma resolve_leaf_count:
  "json_at (sw_value st) p = Some (JString s) \<Longrightarrow>
    count_at (sw_value (resolve_leaf g env rt r p s st)) = count_at (sw_value st)"
  using resolve_leaf_value [of g env rt r p s st] by (auto simp: count_at_put fun_eq_iff)

text \<open>A position that is not in the value does not occur: the walk only pushes children it has seen.\<close>

function resolve_walk ::
  "secret_grammar \<Rightarrow> 'w host_env \<Rightarrow> 'w runtime \<Rightarrow> 'w registry \<Rightarrow> nat list list \<Rightarrow> 'w secret_walk \<Rightarrow> 'w secret_walk" where
  "resolve_walk g env rt r [] st = st"
| "resolve_walk g env rt r (p # stack) st =
     (case json_at (sw_value st) p of
        None \<Rightarrow> resolve_walk g env rt r stack st
      | Some (JString s) \<Rightarrow> resolve_walk g env rt r stack (resolve_leaf g env rt r p s st)
      | Some v \<Rightarrow> resolve_walk g env rt r (rev (map (\<lambda>i. p @ [i]) [0..<length (kids v)]) @ stack) st)"
  by pat_completeness auto

lemma children_count:
  "json_at v p = Some u \<Longrightarrow> sum_list (map (count_at v) (rev (map (\<lambda>i. p @ [i]) [0..<length (kids u)]))) < node_count u"
proof -
  assume u: "json_at v p = Some u"
  have "map (count_at v) (map (\<lambda>i. p @ [i]) [0..<length (kids u)]) = map node_count (kids u)"
    by (rule nth_equalityI) (simp_all add: count_at_def json_at_append u)
  then have "sum_list (map (count_at v) (rev (map (\<lambda>i. p @ [i]) [0..<length (kids u)]))) = sum_list (map node_count (kids u))"
    by (metis rev_map sum_list_rev)
  then show ?thesis by (simp add: node_count_kids [of u])
qed

lemma count_at_simps:
  "json_at v p = Some u \<Longrightarrow> count_at v p = node_count u" "json_at v p = None \<Longrightarrow> count_at v p = 1"
  by (simp_all add: count_at_def)

termination resolve_walk
  by (relation "measure (\<lambda>(g, env, rt, r, stack, st). sum_list (map (count_at (sw_value st)) stack))")
     (simp_all add: resolve_leaf_count count_at_simps
       children_count [where u = "JArray xs" for xs, simplified] children_count [where u = "JObject m" for m, simplified])

definition resolve_secret_refs ::
  "secret_grammar \<Rightarrow> 'w host_env \<Rightarrow> 'w runtime \<Rightarrow> 'w registry \<Rightarrow> json \<Rightarrow> 'w \<Rightarrow> resolve_report \<times> json \<times> 'w" where
  "resolve_secret_refs g env rt r v w =
     (let st = resolve_walk g env rt r [[]] \<lparr>sw_value = v, sw_report = default_report, sw_world = w\<rparr>
      in (sw_report st, sw_value st, sw_world st))"

definition resolve_single_secret_ref ::
  "secret_grammar \<Rightarrow> 'w registry \<Rightarrow> string \<Rightarrow> 'w \<Rightarrow> (fetch_error, string option) rresult \<times> 'w" where
  "resolve_single_secret_ref g r input w =
     (case sg_parse g input of
        None \<Rightarrow> (Inr None, w)
      | Some (scheme, _) \<Rightarrow>
         (case secret_provider_for_scheme r scheme of
            None \<Rightarrow> (Inr None, w)
          | Some provider \<Rightarrow>
             (case await (sp_fetch provider input) w of
                (Inl e, w1) \<Rightarrow> (Inl e, w1)
              | (Inr bytes, w1) \<Rightarrow>
                  if valid_utf8 bytes then (Inr (Some bytes), w1)
                  else (Inl (FetchBackend ''secret value is not valid UTF-8; cannot use as a string field''), w1))))"

section \<open>The walk as a recursion\<close>

text \<open>The positions of the strings of a value, last first.\<close>

fun string_positions :: "json \<Rightarrow> nat list list" and positions_list :: "nat \<Rightarrow> json list \<Rightarrow> nat list list"
  and positions_fields :: "nat \<Rightarrow> (string \<times> json) list \<Rightarrow> nat list list" where
  "string_positions (JString s) = [[]]"
| "string_positions (JArray xs) = positions_list 0 xs"
| "string_positions (JObject m) = positions_fields 0 m"
| "string_positions _ = []"
| "positions_list i [] = []"
| "positions_list i (x # xs) = positions_list (Suc i) xs @ map ((#) i) (string_positions x)"
| "positions_fields i [] = []"
| "positions_fields i ((k, x) # m) = positions_fields (Suc i) m @ map ((#) i) (string_positions x)"

lemma positions_fields_list: "positions_fields i m = positions_list i (map snd m)"
  by (induction m arbitrary: i) auto

lemma positions_list_concat:
  "positions_list i xs = concat (rev (map (\<lambda>j. map ((#) (i + j)) (string_positions (xs ! j))) [0..<length xs]))"
proof (induction xs arbitrary: i)
  case (Cons x xs)
  have "rev (map (\<lambda>j. map ((#) (i + j)) (string_positions ((x # xs) ! j))) [0..<length (x # xs)])
      = rev (map (\<lambda>j. map ((#) (Suc i + j)) (string_positions (xs ! j))) [0..<length xs]) @ [map ((#) i) (string_positions x)]"
    by (simp add: upt_conv_Cons map_Suc_upt [symmetric] comp_def del: upt_Suc map_Suc_upt)
  with Cons show ?case by simp
qed simp

lemma string_positions_kids:
  "\<forall>s. v \<noteq> JString s \<Longrightarrow>
    string_positions v = concat (rev (map (\<lambda>j. map ((#) j) (string_positions (kids v ! j))) [0..<length (kids v)]))"
  by (cases v) (simp_all add: positions_fields_list positions_list_concat)

lemma positions_list_map:
  "(\<And>x. x \<in> set xs \<Longrightarrow> string_positions (f x) = string_positions x) \<Longrightarrow> positions_list i (map f xs) = positions_list i xs"
  by (induction xs arbitrary: i) simp_all

lemma string_positions_erase: "string_positions (erase v) = string_positions v"
proof (induction v)
  case (JArray xs)
  then show ?case by (simp add: positions_list_map)
next
  case (JObject m)
  then have "positions_list 0 (map erase (map snd m)) = positions_list 0 (map snd m)"
    by (intro positions_list_map) auto
  then show ?case by (simp add: positions_fields_list comp_def)
qed simp_all

definition visit ::
  "secret_grammar \<Rightarrow> 'w host_env \<Rightarrow> 'w runtime \<Rightarrow> 'w registry \<Rightarrow> nat list \<Rightarrow> 'w secret_walk \<Rightarrow> 'w secret_walk" where
  "visit g env rt r p st = (case json_at (sw_value st) p of Some (JString s) \<Rightarrow> resolve_leaf g env rt r p s st | _ \<Rightarrow> st)"

definition positions_below :: "json \<Rightarrow> nat list \<Rightarrow> nat list list" where
  "positions_below v p = (case map_option erase (json_at v p) of None \<Rightarrow> [] | Some u \<Rightarrow> map ((@) p) (string_positions u))"

lemma positions_below_leaf:
  "json_at (sw_value st) p = Some (JString s) \<Longrightarrow>
    positions_below (sw_value (resolve_leaf g env rt r p s st)) = positions_below (sw_value st)"
  using resolve_leaf_value [of g env rt r p s st] by (auto simp only: positions_below_def fun_eq_iff erase_at_put)

lemma positions_below_kids:
  assumes "json_at v p = Some u" and "\<forall>s. u \<noteq> JString s"
  shows "concat (map (positions_below v) (rev (map (\<lambda>i. p @ [i]) [0..<length (kids u)]))) = positions_below v p"
proof -
  have "map (positions_below v) (rev (map (\<lambda>i. p @ [i]) [0..<length (kids u)]))
      = map (map ((@) p)) (rev (map (\<lambda>j. map ((#) j) (string_positions (kids u ! j))) [0..<length (kids u)]))"
    by (simp add: rev_map positions_below_def json_at_append assms(1) string_positions_erase comp_def)
  then show ?thesis
    using assms(1) string_positions_kids [OF assms(2)]
    by (simp add: positions_below_def string_positions_erase map_concat)
qed

lemma resolve_walk_visits:
  "resolve_walk g env rt r stack st = fold (visit g env rt r) (concat (map (positions_below (sw_value st)) stack)) st"
proof (induction g env rt r stack st rule: resolve_walk.induct)
  case (2 g env rt r p stack st)
  show ?case
  proof (cases "json_at (sw_value st) p")
    case None
    with "2.IH"(1) show ?thesis by (simp add: positions_below_def)
  next
    case (Some u)
    show ?thesis
    proof (cases "\<exists>s. u = JString s")
      case True
      then obtain s where u: "u = JString s" ..
      with Some have "positions_below (sw_value st) p = [p]" by (simp add: positions_below_def)
      with "2.IH" Some u positions_below_leaf [of st p s g env rt r] show ?thesis by (simp add: visit_def)
    next
      case False
      then have ns: "\<forall>s. u \<noteq> JString s" by blast
      have "resolve_walk g env rt r (p # stack) st =
          resolve_walk g env rt r (rev (map (\<lambda>i. p @ [i]) [0..<length (kids u)]) @ stack) st"
        using Some ns by (cases u) simp_all
      also have "\<dots> = fold (visit g env rt r)
          (concat (map (positions_below (sw_value st)) (rev (map (\<lambda>i. p @ [i]) [0..<length (kids u)]) @ stack))) st"
        using "2.IH" Some ns by (cases u) simp_all
      finally show ?thesis using positions_below_kids [OF Some ns] by (simp del: upt_Suc)
    qed
  qed
qed simp

section \<open>The strings at the positions\<close>

definition text_at :: "json \<Rightarrow> nat list \<Rightarrow> string" where
  "text_at v p = (case json_at v p of Some (JString s) \<Rightarrow> s | _ \<Rightarrow> [])"

definition is_text :: "json \<Rightarrow> nat list \<Rightarrow> bool" where
  "is_text v p = (\<exists>s. json_at v p = Some (JString s))"

lemma is_textD: "is_text v p \<Longrightarrow> json_at v p = Some (JString (text_at v p))"
  by (auto simp: is_text_def text_at_def)

lemma positions_list_hd: "p \<in> set (positions_list i xs) \<Longrightarrow> \<exists>j q. p = j # q \<and> i \<le> j \<and> j < i + length xs"
  by (auto simp: positions_list_concat)

lemma positions_list_texts:
  "(\<And>x. x \<in> set xs \<Longrightarrow> distinct (string_positions x) \<and> list_all (is_text x) (string_positions x)
      \<and> map (text_at x) (string_positions x) = rev (json_strings x)) \<Longrightarrow>
    distinct (positions_list i xs)
    \<and> list_all (\<lambda>p. \<exists>j q. p = (i + j) # q \<and> j < length xs \<and> is_text (xs ! j) q) (positions_list i xs)
    \<and> map (\<lambda>p. text_at (xs ! (hd p - i)) (tl p)) (positions_list i xs) = rev (concat (map json_strings xs))"
proof (induction xs arbitrary: i)
  case (Cons x xs)
  from Cons.IH [of "Suc i"] Cons.prems have
    d: "distinct (positions_list (Suc i) xs)" and
    t: "list_all (\<lambda>p. \<exists>j q. p = (Suc i + j) # q \<and> j < length xs \<and> is_text (xs ! j) q) (positions_list (Suc i) xs)" and
    m: "map (\<lambda>p. text_at (xs ! (hd p - Suc i)) (tl p)) (positions_list (Suc i) xs) = rev (concat (map json_strings xs))"
    by auto
  from Cons.prems [of x] have x: "distinct (string_positions x)" "list_all (is_text x) (string_positions x)"
    "map (text_at x) (string_positions x) = rev (json_strings x)" by auto
  have "distinct (positions_list i (x # xs))"
    using d x by (auto simp: distinct_map dest!: positions_list_hd)
  moreover have "list_all (\<lambda>p. \<exists>j q. p = (i + j) # q \<and> j < length (x # xs) \<and> is_text ((x # xs) ! j) q) (positions_list i (x # xs))"
    using t x by (force simp: list_all_iff)
  moreover have "map (\<lambda>p. text_at ((x # xs) ! (hd p - i)) (tl p)) (positions_list (Suc i) xs)
      = map (\<lambda>p. text_at (xs ! (hd p - Suc i)) (tl p)) (positions_list (Suc i) xs)"
    by (intro map_cong refl) (auto simp: nth_Cons' dest!: positions_list_hd)
  with m x have "map (\<lambda>p. text_at ((x # xs) ! (hd p - i)) (tl p)) (positions_list i (x # xs)) = rev (concat (map json_strings (x # xs)))"
    by (simp add: comp_def)
  ultimately show ?case by blast
qed simp

lemma positions_texts:
  "distinct (string_positions v) \<and> list_all (is_text v) (string_positions v)
    \<and> map (text_at v) (string_positions v) = rev (json_strings v)"
proof -
  have step: "distinct (string_positions v) \<and> list_all (is_text v) (string_positions v)
      \<and> map (text_at v) (string_positions v) = rev (json_strings v)"
    if v: "string_positions v = positions_list 0 (kids v)" "json_strings v = concat (map json_strings (kids v))"
      and IH: "\<And>x. x \<in> set (kids v) \<Longrightarrow> distinct (string_positions x) \<and> list_all (is_text x) (string_positions x)
        \<and> map (text_at x) (string_positions x) = rev (json_strings x)" for v
  proof -
    note l = positions_list_texts [of "kids v" 0, OF IH]
    then have "list_all (is_text v) (positions_list 0 (kids v))" by (auto simp: list_all_iff is_text_def)
    moreover have "map (text_at v) (positions_list 0 (kids v)) = rev (concat (map json_strings (kids v)))"
    proof (rule trans)
      show "map (text_at v) (positions_list 0 (kids v))
          = map (\<lambda>p. text_at (kids v ! (hd p - 0)) (tl p)) (positions_list 0 (kids v))"
        by (intro map_cong refl) (auto simp: text_at_def dest!: positions_list_hd)
    qed (use l in blast)
    moreover have "distinct (positions_list 0 (kids v))" using l by blast
    ultimately show ?thesis using v by simp
  qed
  show ?thesis
  proof (induction v)
    case (JString s)
    then show ?case by (simp add: is_text_def text_at_def)
  next
    case (JArray xs)
    show ?case by (rule step) (use JArray in \<open>simp_all\<close>)
  next
    case (JObject m)
    show ?case
    proof (rule step)
      fix x assume "x \<in> set (kids (JObject m))"
      then obtain e where "e \<in> set m" "x = snd e" by auto
      with JObject [of e x] show "distinct (string_positions x) \<and> list_all (is_text x) (string_positions x)
          \<and> map (text_at x) (string_positions x) = rev (json_strings x)" by (cases e) (simp)
    qed (simp_all add: positions_fields_list comp_def)
  qed simp_all
qed

section \<open>What resolution does to each string\<close>

definition bound_provider :: "secret_grammar \<Rightarrow> 'w registry \<Rightarrow> string \<Rightarrow> ('w, string) scheme_provider option" where
  "bound_provider g r s = (case sg_parse g s of None \<Rightarrow> None | Some (scheme, _) \<Rightarrow> secret_provider_for_scheme r scheme)"

definition unbound_schemes :: "secret_grammar \<Rightarrow> 'w registry \<Rightarrow> string \<Rightarrow> string set" where
  "unbound_schemes g r s = (case sg_parse g s of None \<Rightarrow> {} | Some (scheme, _) \<Rightarrow>
     if secret_provider_for_scheme r scheme = None then {scheme} else {})"

text \<open>
  What a bound provider is asked and answers for one string, with the audit event on it: no verdict without a
  bound scheme, else the secret, or the error (bytes that are no UTF-8 are one). \<open>ask_all\<close> asks for the strings
  of a list in turn, each in the world the one before left.
\<close>

definition ask_provider ::
  "secret_grammar \<Rightarrow> 'w host_env \<Rightarrow> 'w runtime \<Rightarrow> 'w registry \<Rightarrow> string \<Rightarrow> 'w \<Rightarrow> (fetch_error + string) option \<times> 'w" where
  "ask_provider g env rt r s w =
     (case bound_provider g r s of
        None \<Rightarrow> (None, w)
      | Some provider \<Rightarrow>
          (let (res, w1) = await (sp_fetch provider s) w;
               told = (\<lambda>ok err. emit_resolver_event env rt r
                 (\<lambda>stm. secret_resolved_event stm system_identity (fst (the (sg_parse g s))) s ok err) w1)
           in case res of
                Inl e \<Rightarrow> (Some (Inl e), told False (Some (sg_display g e)))
              | Inr bytes \<Rightarrow>
                  if valid_utf8 bytes then (Some (Inr bytes), told True None)
                  else (Some (Inl (FetchBackend ''secret value is not valid UTF-8; cannot replace JSON string'')),
                        told False (Some ''secret value is not valid UTF-8''))))"

fun ask_all ::
  "secret_grammar \<Rightarrow> 'w host_env \<Rightarrow> 'w runtime \<Rightarrow> 'w registry \<Rightarrow> string list \<Rightarrow> 'w
    \<Rightarrow> (string \<times> (fetch_error + string) option) list \<times> 'w" where
  "ask_all g env rt r [] w = ([], w)"
| "ask_all g env rt r (s # ss) w =
     (let (x, w1) = ask_provider g env rt r s w; (log, w2) = ask_all g env rt r ss w1 in ((s, x) # log, w2))"

text \<open>What a verdict puts in place of the string, and the parts of the report it makes.\<close>

fun new_text :: "string \<times> (fetch_error + string) option \<Rightarrow> string" where
  "new_text (s, Some (Inr secret)) = secret"
| "new_text (s, _) = s"

fun failed_ref :: "string \<times> (fetch_error + string) option \<Rightarrow> (string \<times> fetch_error) option" where
  "failed_ref (s, Some (Inl e)) = Some (s, e)"
| "failed_ref _ = None"

fun expanded_ref :: "string \<times> (fetch_error + string) option \<Rightarrow> bool" where
  "expanded_ref (s, Some (Inr secret)) = True"
| "expanded_ref _ = False"

definition enter_verdict ::
  "secret_grammar \<Rightarrow> 'w registry \<Rightarrow> string \<times> (fetch_error + string) option \<Rightarrow> resolve_report \<Rightarrow> resolve_report" where
  "enter_verdict g r a rep =
     \<lparr>rr_expanded = rr_expanded rep + (if expanded_ref a then 1 else 0),
      rr_failures = rr_failures rep @ (case failed_ref a of None \<Rightarrow> [] | Some f \<Rightarrow> [f]),
      rr_skipped_schemes = rr_skipped_schemes rep \<union> unbound_schemes g r (fst a),
      rr_resolved_refs = rr_resolved_refs rep \<union> (if expanded_ref a then {fst a} else {})\<rparr>"

lemma entered_verdicts:
  "fold (enter_verdict g r) log rep =
     \<lparr>rr_expanded = rr_expanded rep + length (filter expanded_ref log),
      rr_failures = rr_failures rep @ List.map_filter failed_ref log,
      rr_skipped_schemes = rr_skipped_schemes rep \<union> (\<Union>s \<in> fst ` set log. unbound_schemes g r s),
      rr_resolved_refs = rr_resolved_refs rep \<union> fst ` {a \<in> set log. expanded_ref a}\<rparr>"
proof (induction log arbitrary: rep)
  case (Cons a log)
  show ?case unfolding fold.simps comp_def Cons
    by (auto simp: enter_verdict_def List.map_filter_simps split: option.splits)
qed (simp add: List.map_filter_simps)

lemma ask_all_strings: "map fst (fst (ask_all g env rt r ss w)) = ss"
  by (induction ss arbitrary: w) (simp_all add: case_prod_beta)

text \<open>Every verdict is an answer of the bound provider to exactly this reference.\<close>

lemma ask_all_verdict:
  "(s, x) \<in> set (fst (ask_all g env rt r ss w)) \<Longrightarrow>
    (case bound_provider g r s of
       None \<Rightarrow> x = None
     | Some provider \<Rightarrow> \<exists>w.
         x = Some (case fst (await (sp_fetch provider s) w) of Inl e \<Rightarrow> Inl e | Inr bytes \<Rightarrow> if valid_utf8 bytes then Inr bytes
            else Inl (FetchBackend ''secret value is not valid UTF-8; cannot replace JSON string'')))"
proof (induction ss arbitrary: w)
  case (Cons s' ss)
  have "case bound_provider g r s' of
       None \<Rightarrow> fst (ask_provider g env rt r s' w) = None
     | Some provider \<Rightarrow> \<exists>v.
         fst (ask_provider g env rt r s' w) = Some (case fst (await (sp_fetch provider s') v) of Inl e \<Rightarrow> Inl e | Inr bytes \<Rightarrow> if valid_utf8 bytes then Inr bytes
            else Inl (FetchBackend ''secret value is not valid UTF-8; cannot replace JSON string''))"
  proof (cases "bound_provider g r s'")
    case (Some provider)
    then show ?thesis
      by (cases "fst (await (sp_fetch provider s') w)")
        (auto simp: ask_provider_def Let_def case_prod_beta intro!: exI [of _ w])
  qed (simp add: ask_provider_def)
  with Cons show ?case by (auto simp: case_prod_beta)
qed simp

lemma put_keeps_other_text:
  assumes "is_text v p" and "is_text v q" and "q \<noteq> p"
  shows "json_at (json_put v p (JString t)) q = json_at v q"
proof -
  have "\<not> prefix q p"
  proof
    assume "prefix q p"
    then obtain i z where "p = q @ i # z" using assms(3) by (metis append_Nil2 list.exhaust prefix_def)
    with assms(1,2) show False by (auto simp: is_text_def json_at_append)
  qed
  with put_string_at [OF is_textD [OF assms(1)], of t q] assms(3) is_textD [OF assms(2)] show ?thesis by simp
qed

text \<open>The effect of visiting some of the strings of a value.\<close>

definition walk_effect ::
  "secret_grammar \<Rightarrow> 'w host_env \<Rightarrow> 'w runtime \<Rightarrow> 'w registry \<Rightarrow> nat list list \<Rightarrow> 'w secret_walk \<Rightarrow> 'w secret_walk \<Rightarrow> bool" where
  "walk_effect g env rt r ps st st' =
     (case ask_all g env rt r (map (text_at (sw_value st)) ps) (sw_world st) of (log, w') \<Rightarrow>
      erase (sw_value st') = erase (sw_value st)
      \<and> (\<forall>q. is_text (sw_value st) q \<longrightarrow> q \<notin> set ps \<longrightarrow> json_at (sw_value st') q = json_at (sw_value st) q)
      \<and> map (text_at (sw_value st')) ps = map new_text log
      \<and> sw_report st' = fold (enter_verdict g r) log (sw_report st)
      \<and> sw_world st' = w')"

lemma walk_effect_texts: "walk_effect g env rt r ps st st' \<Longrightarrow> is_text (sw_value st) q \<Longrightarrow> is_text (sw_value st') q"
proof -
  assume "walk_effect g env rt r ps st st'" and q: "is_text (sw_value st) q"
  then have "map_option erase (json_at (sw_value st') q) = map_option erase (json_at (sw_value st) q)"
    by (simp add: walk_effect_def case_prod_beta flip: json_at_erase)
  with q show ?thesis unfolding is_text_def by (auto elim!: erase.elims)
qed

lemma walk_effect_step:
  assumes one: "walk_effect g env rt r [p] st st1" and rest: "walk_effect g env rt r ps st1 st2"
    and p: "p \<notin> set ps" "is_text (sw_value st) p" "\<forall>q \<in> set ps. is_text (sw_value st) q"
  shows "walk_effect g env rt r (p # ps) st st2"
proof -
  have "text_at (sw_value st1) q = text_at (sw_value st) q" if "q \<in> set ps" for q
  proof -
    from that p have "q \<noteq> p" "is_text (sw_value st) q" by auto
    with one show ?thesis by (simp add: walk_effect_def text_at_def case_prod_beta)
  qed
  then have same: "map (text_at (sw_value st1)) ps = map (text_at (sw_value st)) ps" by simp
  have here: "text_at (sw_value st2) p = text_at (sw_value st1) p"
    using rest p(1) walk_effect_texts [OF one p(2)] by (simp add: walk_effect_def text_at_def case_prod_beta)
  have "json_at (sw_value st2) q = json_at (sw_value st) q" if "is_text (sw_value st) q" "q \<notin> set (p # ps)" for q
    using one rest walk_effect_texts [OF one that(1)] that by (simp add: walk_effect_def case_prod_beta)
  then show ?thesis using one rest unfolding walk_effect_def by (simp add: same here case_prod_beta)
qed

lemma leaf_outcome:
  assumes p: "is_text (sw_value st) p"
  shows "walk_effect g env rt r [p] st (visit g env rt r p st)"
proof -
  define s where "s = text_at (sw_value st) p"
  have at: "json_at (sw_value st) p = Some (JString s)" using is_textD [OF p] by (simp add: s_def)
  have put: "text_at (json_put (sw_value st) p (JString t)) p = t" for t
    using put_string_at [OF at, of t p] by (simp add: text_at_def)
  note facts = erase_put [OF at] put_keeps_other_text [OF p] put
  note defs = visit_def at resolve_leaf_def ask_provider_def enter_verdict_def walk_effect_def s_def [symmetric]
  show ?thesis
  proof (cases "bound_provider g r s")
    case None
    then show ?thesis
      by (auto simp: defs bound_provider_def unbound_schemes_def split: option.splits)
  next
    case (Some provider)
    then obtain scheme rest where parse: "sg_parse g s = Some (scheme, rest)" "secret_provider_for_scheme r scheme = Some provider"
      by (auto simp: bound_provider_def split: option.splits)
    then have none: "unbound_schemes g r s = {}" by (simp add: unbound_schemes_def)
    obtain res w1 where get: "await (sp_fetch provider s) (sw_world st) = (res, w1)" by force
    show ?thesis
    proof (cases res)
      case (Inl e)
      with parse get Some none show ?thesis by (simp add: defs record_failure_def)
    next
      case (Inr bytes)
      with parse get Some none facts show ?thesis
        by (cases "valid_utf8 bytes") (simp_all add: defs record_failure_def record_expansion_def)
    qed
  qed
qed

lemma visit_all:
  "distinct ps \<Longrightarrow> list_all (is_text (sw_value st)) ps \<Longrightarrow> walk_effect g env rt r ps st (fold (visit g env rt r) ps st)"
proof (induction ps arbitrary: st)
  case Nil
  then show ?case by (simp add: walk_effect_def)
next
  case (Cons p ps)
  then have p: "is_text (sw_value st) p" "p \<notin> set ps" "\<forall>q \<in> set ps. is_text (sw_value st) q" by (auto simp: list_all_iff)
  note one = leaf_outcome [OF p(1), of g env rt r]
  have "walk_effect g env rt r ps (visit g env rt r p st) (fold (visit g env rt r) ps (visit g env rt r p st))"
    using Cons.prems p(3) walk_effect_texts [OF one] by (intro Cons.IH) (auto simp: list_all_iff)
  with walk_effect_step [OF one _ p(2) p(1) p(3)] show ?case by simp
qed

lemma walk_from_root:
  "resolve_walk g env rt r [[]] st = fold (visit g env rt r) (string_positions (sw_value st)) st"
proof -
  have "map ((@) []) ps = ps" for ps :: "nat list list" by (rule map_idI) simp
  then show ?thesis by (simp add: resolve_walk_visits positions_below_def string_positions_erase del: resolve_walk.simps)
qed

lemma walked_strings:
  assumes "walk_effect g env rt r (string_positions (sw_value st)) st st'"
  shows "rev (json_strings (sw_value st'))
    = map new_text (fst (ask_all g env rt r (rev (json_strings (sw_value st))) (sw_world st)))"
proof -
  let ?ps = "string_positions (sw_value st)"
  from assms have "string_positions (sw_value st') = ?ps"
    unfolding walk_effect_def case_prod_beta by (metis string_positions_erase)
  then have "rev (json_strings (sw_value st')) = map (text_at (sw_value st')) ?ps"
    using positions_texts [of "sw_value st'"] by simp
  then show ?thesis using assms positions_texts [of "sw_value st"] by (simp add: walk_effect_def case_prod_beta)
qed

section \<open>Properties\<close>

text \<open>
  C35. The walk with the explicit stack ends on every value, however deeply nested, and visits every string
  of it exactly once, from the last to the first; what a visit puts in place of a string is not visited
  again.
\<close>

theorem secret_walk_visits_each_string_once:
  "\<exists>ps. resolve_walk g env rt r [[]] st = fold (visit g env rt r) ps st \<and> distinct ps
    \<and> list_all (is_text (sw_value st)) ps \<and> map (text_at (sw_value st)) ps = rev (json_strings (sw_value st))"
  using walk_from_root positions_texts [of "sw_value st"] by blast

text \<open>
  C18. Resolving the references of a configuration value does exactly this, and nothing else: the strings are
  gone through once, from the last to the first; for each one with a bound scheme the bound provider is asked for
  exactly this reference, and the outcome is put on record in the audit. The value keeps everything but its strings;
  a string becomes the secret that the provider returned for it when that is UTF-8 and stays otherwise. The report counts
  exactly the replaced references and names them, lists exactly the failed ones with their errors in the
  order in which they were asked, and the skipped schemes are the unbound ones that occur. So a report without
  failures means that every bound reference was replaced by an answer of its provider.
\<close>

theorem secret_refs_resolved_exactly:
  "case (resolve_secret_refs g env rt r v w, ask_all g env rt r (rev (json_strings v)) w) of ((rep, v', w'), (log, asked)) \<Rightarrow>
    erase v' = erase v \<and> w' = asked
    \<and> map fst log = rev (json_strings v)
    \<and> rev (json_strings v') = map (\<lambda>(s, x). case x of Some (Inr secret) \<Rightarrow> secret | _ \<Rightarrow> s) log
    \<and> rr_expanded rep = length (filter (\<lambda>(s, x). \<exists>secret. x = Some (Inr secret)) log)
    \<and> rr_resolved_refs rep = {s. \<exists>secret. (s, Some (Inr secret)) \<in> set log}
    \<and> rr_failures rep = concat (map (\<lambda>(s, x). case x of Some (Inl e) \<Rightarrow> [(s, e)] | _ \<Rightarrow> []) log)
    \<and> rr_skipped_schemes rep = (\<Union>s \<in> set (json_strings v). unbound_schemes g r s)
    \<and> (\<forall>(s, x) \<in> set log. case bound_provider g r s of
          None \<Rightarrow> x = None
        | Some provider \<Rightarrow> \<exists>w.
            x = Some (case fst (await (sp_fetch provider s) w) of Inl e \<Rightarrow> Inl e | Inr bytes \<Rightarrow> if valid_utf8 bytes then Inr bytes
              else Inl (FetchBackend ''secret value is not valid UTF-8; cannot replace JSON string'')))
    \<and> (report_is_ok rep \<longrightarrow> list_all2 (\<lambda>s s'. case bound_provider g r s of
          None \<Rightarrow> s' = s
        | Some provider \<Rightarrow> \<exists>w. fst (await (sp_fetch provider s) w) = Inr s') (json_strings v) (json_strings v'))"
proof -
  define st where "st = \<lparr>sw_value = v, sw_report = default_report, sw_world = w\<rparr>"
  define st' where "st' = resolve_walk g env rt r [[]] st"
  obtain log asked where log: "ask_all g env rt r (rev (json_strings v)) w = (log, asked)" by fastforce
  have v: "sw_value st = v" "sw_report st = default_report" "sw_world st = w" by (simp_all add: st_def)
  note texts = positions_texts [of v]
  have eff: "walk_effect g env rt r (string_positions v) st st'"
    using visit_all [of "string_positions v" st g env rt r] texts unfolding st'_def walk_from_root v by simp
  have strings: "map fst log = rev (json_strings v)" using ask_all_strings [of g env rt r "rev (json_strings v)" w] log by simp
  have new: "rev (json_strings (sw_value st')) = map new_text log"
    using walked_strings [of g env rt r st st'] eff by (simp add: v log)
  have rep: "sw_report st' = fold (enter_verdict g r) log default_report" and rest: "erase (sw_value st') = erase v" "sw_world st' = asked"
    using eff texts log by (simp_all add: walk_effect_def v case_prod_beta)
  have verdicts: "\<forall>(s, x) \<in> set log. case bound_provider g r s of
          None \<Rightarrow> x = None
        | Some provider \<Rightarrow> \<exists>w.
            x = Some (case fst (await (sp_fetch provider s) w) of Inl e \<Rightarrow> Inl e | Inr bytes \<Rightarrow> if valid_utf8 bytes then Inr bytes
              else Inl (FetchBackend ''secret value is not valid UTF-8; cannot replace JSON string''))"
    using ask_all_verdict [where ss = "rev (json_strings v)" and w = w and env = env and rt = rt and g = g and r = r] log by auto
  have cases: "new_text = (\<lambda>(s, x). case x of Some (Inr secret) \<Rightarrow> secret | _ \<Rightarrow> s)"
    "expanded_ref = (\<lambda>(s, x). \<exists>secret. x = Some (Inr secret))"
    by (auto simp: fun_eq_iff split: option.splits sum.splits elim: expanded_ref.elims)
  have fails: "List.map_filter failed_ref l = concat (map (\<lambda>(s, x). case x of Some (Inl e) \<Rightarrow> [(s, e)] | _ \<Rightarrow> []) l)" for l
    by (induction l) (auto simp: List.map_filter_simps split: option.splits sum.splits elim: failed_ref.elims)
  have "list_all2 (\<lambda>s s'. case bound_provider g r s of None \<Rightarrow> s' = s
        | Some provider \<Rightarrow> \<exists>w. fst (await (sp_fetch provider s) w) = Inr s') (json_strings v) (json_strings (sw_value st'))"
    if ok: "report_is_ok (sw_report st')"
  proof -
    from ok have "List.map_filter failed_ref log = []" by (simp add: report_is_ok_def rep entered_verdicts default_report_def)
    then have none: "\<forall>a \<in> set log. failed_ref a = None"
      by (simp add: List.map_filter_def filter_empty_conv del: not_None_eq split_paired_All)
    have "list_all2 (\<lambda>s s'. case bound_provider g r s of None \<Rightarrow> s' = s
        | Some provider \<Rightarrow> \<exists>w. fst (await (sp_fetch provider s) w) = Inr s') (map fst log) (map new_text log)"
      unfolding list_all2_map1 list_all2_map2 list_all2_same
    proof
      fix a assume a: "a \<in> set log"
      obtain s x where sx: "a = (s, x)" by (cases a)
      show "case bound_provider g r (fst a) of None \<Rightarrow> new_text a = fst a
          | Some provider \<Rightarrow> \<exists>w. fst (await (sp_fetch provider (fst a)) w) = Inr (new_text a)"
      proof (cases "bound_provider g r s")
        case None
        with bspec [OF verdicts a] show ?thesis by (simp add: sx)
      next
        case (Some provider)
        with bspec [OF verdicts a] obtain u where u: "x = Some (case fst (await (sp_fetch provider s) u) of Inl e \<Rightarrow> Inl e
            | Inr bytes \<Rightarrow> if valid_utf8 bytes then Inr bytes
              else Inl (FetchBackend ''secret value is not valid UTF-8; cannot replace JSON string''))"
          by (auto simp: sx)
        with bspec [OF none a] have "fst (await (sp_fetch provider s) u) = Inr (new_text (s, x))"
          by (cases "fst (await (sp_fetch provider s) u)") (auto simp: sx split: if_splits)
        with Some show ?thesis by (auto simp: sx)
      qed
    qed
    then show ?thesis unfolding strings new [symmetric] by simp
  qed
  moreover have "resolve_secret_refs g env rt r v w = (sw_report st', sw_value st', sw_world st')"
    by (simp only: resolve_secret_refs_def Let_def st'_def st_def)
  moreover have "fst ` set log = set (json_strings v)" using strings by (metis set_map set_rev)
  moreover have "fst ` {a \<in> set log. case a of (s, x) \<Rightarrow> \<exists>secret. x = Some (Inr secret)} = {s. \<exists>secret. (s, Some (Inr secret)) \<in> set log}"
    by force
  ultimately show ?thesis
    using strings new rest verdicts unfolding log by (simp add: rep entered_verdicts default_report_def cases fails)
qed

section \<open>Witnesses\<close>

definition sample_grammar :: secret_grammar where
  "sample_grammar = \<lparr>sg_parse = (\<lambda>s. if s = ''env://A'' then Some (''env'', ''A'') else None), sg_display = (\<lambda>e. [])\<rparr>"

definition sample_secret_provider :: "(trace, string) scheme_provider" where
  "sample_secret_provider = \<lparr>sp_manifest = sample_manifest ''env'', sp_supported_schemes = [''env''],
     sp_fetch = (\<lambda>s. traced_fut s (Inr ''hunter2'')), sp_shutdown = traced_fut ''env'' ()\<rparr>"

definition sample_bound :: "trace registry" where
  "sample_bound = registry_new\<lparr>secret_scheme_bindings := [(''env'', sample_secret_provider)]\<rparr>"

theorem secret_refs_resolved_exactly_witness:
  "let (rep, v', w') = resolve_secret_refs sample_grammar sample_env sample_runtime sample_bound
        (JArray [JString ''env://A'', JString ''plain'']) []
   in rr_expanded rep = 1 \<and> rr_failures rep = [] \<and> rr_resolved_refs rep = {''env://A''} \<and> rr_skipped_schemes rep = {}
     \<and> json_strings v' = [''hunter2'', ''plain'']"
proof -
  have "valid_utf8 ''hunter2''" by code_simp
  then have bound: "fst (ask_provider sample_grammar sample_env sample_runtime sample_bound ''env://A'' w) = Some (Inr ''hunter2'')" for w
    by (simp add: ask_provider_def bound_provider_def sample_grammar_def sample_bound_def secret_provider_for_scheme_def
        sample_secret_provider_def traced_fut_def Let_def case_prod_beta)
  have plain: "ask_provider sample_grammar sample_env sample_runtime sample_bound ''plain'' w = (None, w)" for w
    by (simp add: ask_provider_def bound_provider_def sample_grammar_def)
  have none: "unbound_schemes sample_grammar sample_bound ''env://A'' = {}" "unbound_schemes sample_grammar sample_bound ''plain'' = {}"
    by (simp_all add: unbound_schemes_def sample_grammar_def sample_bound_def secret_provider_for_scheme_def)
  note law = secret_refs_resolved_exactly [where g = sample_grammar and env = sample_env and rt = sample_runtime
      and r = sample_bound and v = "JArray [JString ''env://A'', JString ''plain'']" and w = "[]"]
  obtain log asked where log: "ask_all sample_grammar sample_env sample_runtime sample_bound [''plain'', ''env://A''] [] = (log, asked)"
    by fastforce
  then have "log = [(''plain'', None), (''env://A'', Some (Inr ''hunter2''))]" by (auto simp: bound plain case_prod_beta)
  with law log show ?thesis
    by (cases "resolve_secret_refs sample_grammar sample_env sample_runtime sample_bound (JArray [JString ''env://A'', JString ''plain'']) []")
      (auto simp: none rev_swap simp del: ask_all.simps)
qed

end
