(* ===== verification/Credential_Resolver.thy ===== *)
theory Credential_Resolver
  imports Resolver_Events Resolve_Access Json_Walk Credential_Cache
begin

text \<open>
  Credential references in a value (\<open>credential_resolver.rs\<close>, with \<open>PluginRegistry::credential_issuer\<close>):
  the recursive walk that asks the issuer of each \<open>cred://\<close> string, through the credential cache and on
  behalf of the caller, stops at the first error and leaves the value partly replaced then. The grammar of
  references, the parts of a credential and the issuers themselves belong to other crates.
\<close>

section \<open>Errors\<close>

datatype 'e credential_resolver_error =
    UnknownPlugin string string
  | Issuance string 'e
  | UnknownPart string string "string list"
  | PartRequired string

record ('w, 'e) credential_env =
  cv_parse :: "string \<Rightarrow> cred_ref option"
  cv_part :: "issued_credential \<Rightarrow> string \<Rightarrow> string option"
  cv_issue :: "'w plugin_object \<Rightarrow> identity \<Rightarrow> string \<Rightarrow> json \<Rightarrow> ('w, 'e + issued_credential) fut"
  cv_display :: "'e \<Rightarrow> string"
  cv_status :: "'e \<Rightarrow> nat"
  cv_debug :: "string list \<Rightarrow> string"
  cv_hash :: id_hash

definition http_status :: "('w, 'e) credential_env \<Rightarrow> 'e credential_resolver_error \<Rightarrow> nat" where
  "http_status cv err = (case err of
     UnknownPlugin _ _ \<Rightarrow> 500 | UnknownPart _ _ _ \<Rightarrow> 500 | PartRequired _ \<Rightarrow> 500
   | Issuance _ e \<Rightarrow> cv_status cv e)"

definition caller_message :: "string \<Rightarrow> 'e credential_resolver_error \<Rightarrow> string" where
  "caller_message correlation_id err = (case err of
     UnknownPlugin _ _ \<Rightarrow> ''backend credential is not configured (id: '' @ correlation_id @ '')''
   | Issuance _ _ \<Rightarrow> ''backend credential issuance failed (id: '' @ correlation_id @ '')''
   | UnknownPart _ _ _ \<Rightarrow> ''backend credential is missing a required field (id: '' @ correlation_id @ '')''
   | PartRequired _ \<Rightarrow> ''backend credential is missing a required field (id: '' @ correlation_id @ '')'')"

definition parse_plugin_id_from_uri :: "string \<Rightarrow> string option" where
  "parse_plugin_id_from_uri uri =
     (case strip_prefix_str uri ''cred://'' of
        None \<Rightarrow> None
      | Some rest \<Rightarrow> map_option fst (split_once_char (CHR ''/'') rest))"

definition parse_target_from_uri :: "string \<Rightarrow> string option" where
  "parse_target_from_uri uri =
     (case strip_prefix_str uri ''cred://'' of
        None \<Rightarrow> None
      | Some rest \<Rightarrow>
          map_option (\<lambda>(_, after_plugin).
              case split_once_char (CHR ''#'') after_plugin of Some (t, _) \<Rightarrow> t | None \<Rightarrow> after_plugin)
            (split_once_char (CHR ''/'') rest))"

definition parse_part_from_uri :: "string \<Rightarrow> string option" where
  "parse_part_from_uri uri =
     (case strip_prefix_str uri ''cred://'' of
        None \<Rightarrow> None
      | Some rest \<Rightarrow> map_option snd (split_once_char (CHR ''#'') rest))"

record failure_fields =
  ff_kind :: string
  ff_plugin_id :: string
  ff_target :: string
  ff_part :: "string option"
  ff_detail :: string

definition audit_fields :: "('w, 'e) credential_env \<Rightarrow> 'e credential_resolver_error \<Rightarrow> failure_fields" where
  "audit_fields cv err = (case err of
     UnknownPlugin plugin_id uri \<Rightarrow>
       \<lparr>ff_kind = ''unknown_plugin'', ff_plugin_id = plugin_id, ff_target = unwrap_or [] (parse_target_from_uri uri),
        ff_part = None, ff_detail = ''credential issuer plugin not registered''\<rparr>
   | Issuance uri e \<Rightarrow>
       \<lparr>ff_kind = ''issuance'', ff_plugin_id = unwrap_or [] (parse_plugin_id_from_uri uri),
        ff_target = unwrap_or [] (parse_target_from_uri uri), ff_part = parse_part_from_uri uri, ff_detail = cv_display cv e\<rparr>
   | UnknownPart uri part available \<Rightarrow>
       \<lparr>ff_kind = ''unknown_part'', ff_plugin_id = unwrap_or [] (parse_plugin_id_from_uri uri),
        ff_target = unwrap_or [] (parse_target_from_uri uri), ff_part = Some part,
        ff_detail = ''available parts: '' @ cv_debug cv available\<rparr>
   | PartRequired uri \<Rightarrow>
       \<lparr>ff_kind = ''part_required'', ff_plugin_id = unwrap_or [] (parse_plugin_id_from_uri uri),
        ff_target = unwrap_or [] (parse_target_from_uri uri), ff_part = None,
        ff_detail = ''issued credential is multi-part but URI selects no `#part`''\<rparr>)"

section \<open>Resolution\<close>

definition credential_issuer :: "'w registry \<Rightarrow> string \<Rightarrow> 'w plugin_object option" where
  "credential_issuer r plugin_id =
     (case map_of (credential_issuers r) plugin_id of
        None \<Rightarrow> None
      | Some p \<Rightarrow> if lp_state p = Active then Some (lp_instance p) else None)"

datatype part_error = PartUnknown string "string list" | PartMissing

fun with_uri :: "string \<Rightarrow> part_error \<Rightarrow> 'e credential_resolver_error" where
  "with_uri uri (PartUnknown part available) = UnknownPart uri part available"
| "with_uri uri PartMissing = PartRequired uri"

definition pick_part :: "('w, 'e) credential_env \<Rightarrow> issued_credential \<Rightarrow> cred_ref \<Rightarrow> (part_error, string) rresult" where
  "pick_part cv cred cref =
     (case cr_part cref of
        Some part \<Rightarrow> (case cv_part cv cred part of
            Some v \<Rightarrow> Inr v
          | None \<Rightarrow> Inl (PartUnknown part (map fst (cd_parts cred))))
      | None \<Rightarrow> (case cd_value cred of Some v \<Rightarrow> Inr v | None \<Rightarrow> Inl PartMissing))"

record 'w cred_walk =
  cw_cache :: credential_cache
  cw_count :: nat
  cw_world :: 'w

definition emit_issued ::
  "'w host_env \<Rightarrow> 'w runtime \<Rightarrow> 'w registry \<Rightarrow> identity \<Rightarrow> cred_ref \<Rightarrow> bool \<Rightarrow> string option \<Rightarrow> 'w \<Rightarrow> 'w" where
  "emit_issued env rt r i cref ok err w =
     emit_resolver_event env rt r (\<lambda>stm. credential_issued_event stm i (cr_plugin_id cref) (cr_target cref) ok err) w"

definition resolve_string ::
  "('w, 'e) credential_env \<Rightarrow> 'w host_env \<Rightarrow> 'w runtime \<Rightarrow> 'w registry \<Rightarrow> cache_config \<Rightarrow> identity \<Rightarrow> string
    \<Rightarrow> 'w cred_walk \<Rightarrow> ('e credential_resolver_error, string) rresult \<times> 'w cred_walk" where
  "resolve_string cv env rt r cfg i s st =
     (case cv_parse cv s of
        None \<Rightarrow> (Inr s, st)
      | Some cref \<Rightarrow>
         (case credential_issuer r (cr_plugin_id cref) of
            None \<Rightarrow> (Inl (UnknownPlugin (cr_plugin_id cref) s),
                     st\<lparr>cw_world := emit_issued env rt r i cref False (Some ''issuer plugin not registered'') (cw_world st)\<rparr>)
          | Some issuer \<Rightarrow>
             (let (res, c1, w1) = get_or_issue (cv_hash cv) cfg (m_id (po_manifest issuer)) (cv_issue cv issuer) i
                    (cr_target cref) (JObject []) (clock_ms env (cw_world st)) (cw_cache st) (cw_world st)
              in case res of
                   Inl e \<Rightarrow> (Inl (Issuance s e),
                     st\<lparr>cw_cache := c1, cw_world := emit_issued env rt r i cref False (Some (cv_display cv e)) w1\<rparr>)
                 | Inr cred \<Rightarrow>
                     (let st1 = st\<lparr>cw_cache := c1, cw_world := emit_issued env rt r i cref True None w1\<rparr>
                      in case pick_part cv cred cref of
                           Inl e \<Rightarrow> (Inl (with_uri s e), st1)
                         | Inr v \<Rightarrow> (Inr v, st1\<lparr>cw_count := cw_count st1 + 1\<rparr>)))))"

text \<open>The walk returns the value as it has been replaced so far, also with an error.\<close>

fun cred_walk_value ::
  "(string \<Rightarrow> 's \<Rightarrow> ('x, string) rresult \<times> 's) \<Rightarrow> json \<Rightarrow> 's \<Rightarrow> 'x option \<times> json \<times> 's"
and cred_walk_items ::
  "(string \<Rightarrow> 's \<Rightarrow> ('x, string) rresult \<times> 's) \<Rightarrow> json list \<Rightarrow> 's \<Rightarrow> 'x option \<times> json list \<times> 's"
and cred_walk_fields ::
  "(string \<Rightarrow> 's \<Rightarrow> ('x, string) rresult \<times> 's) \<Rightarrow> (string \<times> json) list \<Rightarrow> 's \<Rightarrow> 'x option \<times> (string \<times> json) list \<times> 's" where
  "cred_walk_value f (JString s) st =
     (case f s st of (Inl e, st1) \<Rightarrow> (Some e, JString s, st1) | (Inr t, st1) \<Rightarrow> (None, JString t, st1))"
| "cred_walk_value f (JArray xs) st = (case cred_walk_items f xs st of (e, ys, st1) \<Rightarrow> (e, JArray ys, st1))"
| "cred_walk_value f (JObject m) st = (case cred_walk_fields f m st of (e, m', st1) \<Rightarrow> (e, JObject m', st1))"
| "cred_walk_value f v st = (None, v, st)"
| "cred_walk_items f [] st = (None, [], st)"
| "cred_walk_items f (x # xs) st =
     (case cred_walk_value f x st of
        (Some e, y, st1) \<Rightarrow> (Some e, y # xs, st1)
      | (None, y, st1) \<Rightarrow> (case cred_walk_items f xs st1 of (e, ys, st2) \<Rightarrow> (e, y # ys, st2)))"
| "cred_walk_fields f [] st = (None, [], st)"
| "cred_walk_fields f ((k, x) # m) st =
     (case cred_walk_value f x st of
        (Some e, y, st1) \<Rightarrow> (Some e, (k, y) # m, st1)
      | (None, y, st1) \<Rightarrow> (case cred_walk_fields f m st1 of (e, m', st2) \<Rightarrow> (e, (k, y) # m', st2)))"

definition resolve_credential_refs ::
  "('w, 'e) credential_env \<Rightarrow> 'w host_env \<Rightarrow> 'w runtime \<Rightarrow> 'w registry \<Rightarrow> cache_config \<Rightarrow> identity \<Rightarrow> json
    \<Rightarrow> credential_cache \<Rightarrow> 'w \<Rightarrow> ('e credential_resolver_error, nat) rresult \<times> json \<times> credential_cache \<times> 'w" where
  "resolve_credential_refs cv env rt r cfg i v c w =
     (case cred_walk_value (resolve_string cv env rt r cfg i) v \<lparr>cw_cache = c, cw_count = 0, cw_world = w\<rparr> of
        (Some e, v', st) \<Rightarrow> (Inl e, v', cw_cache st, cw_world st)
      | (None, v', st) \<Rightarrow> (Inr (cw_count st), v', cw_cache st, cw_world st))"

section \<open>The walk and its strings\<close>

text \<open>The reference: one string after the other, up to the first error.\<close>

fun run_strings :: "(string \<Rightarrow> 's \<Rightarrow> ('x, string) rresult \<times> 's) \<Rightarrow> string list \<Rightarrow> 's \<Rightarrow> 'x option \<times> string list \<times> 's" where
  "run_strings f [] st = (None, [], st)"
| "run_strings f (s # ss) st =
     (case f s st of
        (Inl e, st1) \<Rightarrow> (Some e, s # ss, st1)
      | (Inr t, st1) \<Rightarrow> (case run_strings f ss st1 of (e, ts, st2) \<Rightarrow> (e, t # ts, st2)))"

lemma run_strings_append:
  "run_strings f (ss @ ss') st =
     (case run_strings f ss st of
        (Some e, ts, st1) \<Rightarrow> (Some e, ts @ ss', st1)
      | (None, ts, st1) \<Rightarrow> (case run_strings f ss' st1 of (e, ts', st2) \<Rightarrow> (e, ts @ ts', st2)))"
  by (induction f ss st rule: run_strings.induct) (auto split: prod.splits sum.splits option.splits)

definition fields_strings :: "(string \<times> json) list \<Rightarrow> string list" where
  "fields_strings m = concat (map (\<lambda>e. json_strings (snd e)) m)"

definition erase_fields :: "(string \<times> json) list \<Rightarrow> (string \<times> json) list" where
  "erase_fields m = map (\<lambda>e. (fst e, erase (snd e))) m"

lemma cred_walk_runs:
  "cred_walk_value f v st = (res, v', st') \<Longrightarrow>
     erase v' = erase v \<and> run_strings f (json_strings v) st = (res, json_strings v', st')"
  "cred_walk_items f xs st = (res, ys, st') \<Longrightarrow>
     map erase ys = map erase xs \<and> run_strings f (concat (map json_strings xs)) st = (res, concat (map json_strings ys), st')"
  "cred_walk_fields f m st = (res, m', st') \<Longrightarrow>
     erase_fields m' = erase_fields m \<and> run_strings f (fields_strings m) st = (res, fields_strings m', st')"
proof (induction f v st and f xs st and f m st arbitrary: res v' st' and res ys st' and res m' st'
    rule: cred_walk_value_cred_walk_items_cred_walk_fields.induct)
  case (1 f s st)
  then show ?case by (auto split: prod.splits sum.splits)
next
  case (2 f xs st)
  obtain r ys st1 where w: "cred_walk_items f xs st = (r, ys, st1)" by (metis prod_cases3)
  from "2.IH" [OF w] w "2.prems" show ?case by auto
next
  case (3 f m st)
  obtain r m1 st1 where w: "cred_walk_fields f m st = (r, m1, st1)" by (metis prod_cases3)
  from "3.IH" [OF w] w "3.prems" show ?case by (auto simp: erase_fields_def fields_strings_def)
next
  case (6 f x xs st)
  obtain r y st1 where w: "cred_walk_value f x st = (r, y, st1)" by (metis prod_cases3)
  obtain r2 ys2 st2 where w2: "cred_walk_items f xs st1 = (r2, ys2, st2)" by (metis prod_cases3)
  note one = "6.IH"(1) [OF w] and two = "6.IH"(2) [OF w [symmetric] _ refl w2]
  from one two w w2 "6.prems" show ?case by (cases r) (auto simp: run_strings_append)
next
  case (8 f k x m st)
  obtain r y st1 where w: "cred_walk_value f x st = (r, y, st1)" by (metis prod_cases3)
  obtain r2 m2 st2 where w2: "cred_walk_fields f m st1 = (r2, m2, st2)" by (metis prod_cases3)
  note one = "8.IH"(1) [OF w] and two = "8.IH"(2) [OF w [symmetric] _ refl w2]
  from one two w w2 "8.prems" show ?case
    by (cases r) (auto simp: erase_fields_def fields_strings_def run_strings_append)
qed (auto simp: erase_fields_def fields_strings_def)

text \<open>Reasoning about the sequence of strings by an invariant of the state.\<close>

lemma run_strings_invariant:
  assumes step: "\<And>s st. I st \<Longrightarrow> I (snd (f s st)) \<and>
      (case fst (f s st) of Inl e \<Rightarrow> E e s | Inr t \<Rightarrow> R s t \<and> n (snd (f s st)) = n st + (if P s then 1 else 0 :: nat))"
  shows "I st \<Longrightarrow> run_strings f ss st = (res, ts, st') \<Longrightarrow> I st' \<and>
    (case res of
       None \<Rightarrow> list_all2 R ss ts \<and> n st' = n st + length (filter P ss)
     | Some e \<Rightarrow> \<exists>s \<in> set ss. E e s)"
proof (induction ss arbitrary: st ts res st')
  case (Cons s ss)
  obtain r st1 where f: "f s st = (r, st1)" by force
  note one = step [OF Cons.prems(1), of s, unfolded f]
  show ?case
  proof (cases r)
    case (Inl e)
    with one f Cons.prems show ?thesis by auto
  next
    case (Inr t)
    obtain r2 ts2 st2 where w2: "run_strings f ss st1 = (r2, ts2, st2)" by (metis prod_cases3)
    with one f Inr Cons.prems Cons.IH [OF _ w2] show ?thesis by (auto split: option.splits)
  qed
qed simp

section \<open>Whose credential is used\<close>

definition issued_by :: "('w, 'e) credential_env \<Rightarrow> 'w registry \<Rightarrow> identity \<Rightarrow> string \<Rightarrow> string \<Rightarrow> issued_credential \<Rightarrow> bool" where
  "issued_by cv r i plugin_id tgt cred =
     (\<exists>name issuer w. credential_issuer r name = Some issuer \<and> m_id (po_manifest issuer) = plugin_id
        \<and> fst (await (cv_issue cv issuer i tgt (JObject [])) w) = Inr cred)"

text \<open>A credential the caller may use: cached for the caller before the walk, or issued for the caller by an active issuer.\<close>

definition for_caller ::
  "('w, 'e) credential_env \<Rightarrow> 'w registry \<Rightarrow> cache_config \<Rightarrow> grant list \<Rightarrow> identity \<Rightarrow> string \<Rightarrow> string \<Rightarrow> issued_credential \<Rightarrow> bool" where
  "for_caller cv r cfg gs i plugin_id tgt cred =
     ((\<exists>t0. ((cv_hash cv i (cc_key_attributes cfg), plugin_id, tgt), cred, t0) \<in> set gs) \<or> issued_by cv r i plugin_id tgt cred)"

definition substituted ::
  "('w, 'e) credential_env \<Rightarrow> 'w registry \<Rightarrow> cache_config \<Rightarrow> grant list \<Rightarrow> identity \<Rightarrow> string \<Rightarrow> string \<Rightarrow> bool" where
  "substituted cv r cfg gs i s t =
     (case cv_parse cv s of
        None \<Rightarrow> t = s
      | Some cref \<Rightarrow> \<exists>issuer cred. credential_issuer r (cr_plugin_id cref) = Some issuer
          \<and> for_caller cv r cfg gs i (m_id (po_manifest issuer)) (cr_target cref) cred \<and> pick_part cv cred cref = Inr t)"

fun error_uri :: "'e credential_resolver_error \<Rightarrow> string" where
  "error_uri (UnknownPlugin p uri) = uri"
| "error_uri (Issuance uri e) = uri"
| "error_uri (UnknownPart uri part available) = uri"
| "error_uri (PartRequired uri) = uri"

definition walk_inv ::
  "('w, 'e) credential_env \<Rightarrow> 'w registry \<Rightarrow> cache_config \<Rightarrow> grant list \<Rightarrow> identity \<Rightarrow> 'w cred_walk \<Rightarrow> bool" where
  "walk_inv cv r cfg gs i st =
     (\<exists>gs'. cache_run cfg gs' (cw_cache st)
        \<and> (\<forall>p tgt cred t. ((cv_hash cv i (cc_key_attributes cfg), p, tgt), cred, t) \<in> set gs' \<longrightarrow> for_caller cv r cfg gs i p tgt cred))"

lemma resolve_string_step:
  assumes inv: "walk_inv cv r cfg gs i st"
  shows "walk_inv cv r cfg gs i (snd (resolve_string cv env rt r cfg i s st))
    \<and> (case fst (resolve_string cv env rt r cfg i s st) of
         Inl e \<Rightarrow> cv_parse cv s \<noteq> None \<and> error_uri e = s
       | Inr t \<Rightarrow> substituted cv r cfg gs i s t
           \<and> cw_count (snd (resolve_string cv env rt r cfg i s st)) = cw_count st + (if cv_parse cv s \<noteq> None then 1 else 0))"
proof (cases "cv_parse cv s")
  case None
  with inv show ?thesis by (simp add: resolve_string_def substituted_def)
next
  case (Some cref)
  show ?thesis
  proof (cases "credential_issuer r (cr_plugin_id cref)")
    case None
    with inv Some show ?thesis by (simp add: resolve_string_def walk_inv_def)
  next
    case issuer: (Some issuer)
    let ?p = "m_id (po_manifest issuer)" and ?tgt = "cr_target cref"
    obtain res c1 w1 where g: "get_or_issue (cv_hash cv) cfg ?p (cv_issue cv issuer) i ?tgt (JObject [])
        (clock_ms env (cw_world st)) (cw_cache st) (cw_world st) = (res, c1, w1)" by (metis prod_cases3)
    from inv obtain gs' where run: "cache_run cfg gs' (cw_cache st)"
      and old: "\<And>p tgt cred t. ((cv_hash cv i (cc_key_attributes cfg), p, tgt), cred, t) \<in> set gs' \<Longrightarrow> for_caller cv r cfg gs i p tgt cred"
      unfolding walk_inv_def by blast
    have mine: "for_caller cv r cfg gs i ?p ?tgt cred"
      if "await (cv_issue cv issuer i ?tgt (JObject [])) w = (Inr cred, w')" for w cred w'
      using that issuer unfolding for_caller_def issued_by_def by (metis fst_conv)
    have inv1: "walk_inv cv r cfg gs i (st\<lparr>cw_cache := c1, cw_world := w'\<rparr>)" for w'
    proof -
      from get_or_issue_run [OF run g] show ?thesis
        unfolding walk_inv_def using old mine by (elim disjE exE conjE) (auto intro!: exI)
    qed
    have cred: "for_caller cv r cfg gs i ?p ?tgt cred" if "res = Inr cred" for cred
      using get_or_issue_origin [OF run g] that old mine by auto
    show ?thesis
    proof (cases res)
      case (Inl e)
      with Some issuer g inv1 show ?thesis by (simp add: resolve_string_def)
    next
      case (Inr c)
      show ?thesis
      proof (cases "pick_part cv c cref")
        case (Inl e)
        with Some issuer g inv1 Inr show ?thesis by (cases e) (simp_all add: resolve_string_def Let_def)
      next
        case (Inr t)
        with \<open>res = Inr c\<close> Some issuer g inv1 cred show ?thesis
          by (auto simp: resolve_string_def Let_def substituted_def walk_inv_def)
      qed
    qed
  qed
qed

section \<open>Properties\<close>

text \<open>
  C15. Resolving the credential references of a value for a caller never mixes callers and is all or
  nothing. The shape of the value is kept; on success every \<open>cred://\<close> string has been replaced, each
  counted once, by the selected part of a credential that an active issuer issued for this caller and
  target or that was cached for this caller's identity hash, issuer and target, and every other string is
  as before; on an error the error names a reference that occurs in the value.
\<close>

theorem credentials_resolved_for_caller:
  assumes "cache_run cfg gs c"
  shows "case resolve_credential_refs cv env rt r cfg i v c w of (res, v', c', w') \<Rightarrow>
    erase v' = erase v
    \<and> (case res of
         Inr n \<Rightarrow> list_all2 (substituted cv r cfg gs i) (json_strings v) (json_strings v')
           \<and> n = length (filter (\<lambda>s. cv_parse cv s \<noteq> None) (json_strings v))
       | Inl e \<Rightarrow> error_uri e \<in> set (json_strings v) \<and> cv_parse cv (error_uri e) \<noteq> None)"
proof -
  let ?st = "\<lparr>cw_cache = c, cw_count = 0, cw_world = w\<rparr>" and ?f = "resolve_string cv env rt r cfg i"
  obtain res v' st' where walk: "cred_walk_value ?f v ?st = (res, v', st')" by (metis prod_cases3)
  note runs = cred_walk_runs(1) [OF walk]
  have "walk_inv cv r cfg gs i ?st" using assms by (auto simp: walk_inv_def for_caller_def)
  moreover have "run_strings ?f (json_strings v) ?st = (res, json_strings v', st')" using runs by simp
  ultimately have "walk_inv cv r cfg gs i st' \<and>
      (case res of
         None \<Rightarrow> list_all2 (substituted cv r cfg gs i) (json_strings v) (json_strings v')
           \<and> cw_count st' = cw_count ?st + length (filter (\<lambda>s. cv_parse cv s \<noteq> None) (json_strings v))
       | Some e \<Rightarrow> \<exists>s \<in> set (json_strings v). cv_parse cv s \<noteq> None \<and> error_uri e = s)"
    by (rule run_strings_invariant [rotated]) (rule resolve_string_step)
  then show ?thesis
    using walk runs by (auto simp: resolve_credential_refs_def split: option.splits)
qed

section \<open>Witnesses\<close>

definition sample_cred_env :: "(trace, string) credential_env" where
  "sample_cred_env = \<lparr>cv_parse = (\<lambda>s. if s = ''cred://pg/db'' then Some \<lparr>cr_plugin_id = ''pg'', cr_target = ''db'', cr_part = None\<rparr> else None),
     cv_part = (\<lambda>c p. map_of (cd_parts c) p), cv_issue = (\<lambda>plugin i t c. traced_fut t (Inr (sample_cred ''fresh'' 60))),
     cv_display = (\<lambda>e. e), cv_status = (\<lambda>e. 502), cv_debug = concat, cv_hash = (\<lambda>i attrs. ''user'')\<rparr>"

definition issuer_registry :: "trace registry" where
  "issuer_registry = registry_new\<lparr>credential_issuers := [(''pg'',
     base_entry ''pg'' (sample_manifest ''pg'') ''native'' (sample_object ''pg'' ''pg'' []))]\<rparr>"

definition sample_binding :: json where
  "sample_binding = JArray [JString ''cred://pg/db'', JString ''x'']"

theorem credentials_resolved_for_caller_witness:
  "case resolve_credential_refs sample_cred_env sample_env sample_runtime issuer_registry sample_cache_config
      sample_identity sample_binding sample_cache [] of (res, v', c', w') \<Rightarrow> res = Inr 1 \<and> json_strings v' = [''s1'', ''x'']"
proof -
  obtain res v' c' w' where x: "resolve_credential_refs sample_cred_env sample_env sample_runtime issuer_registry
      sample_cache_config sample_identity sample_binding sample_cache [] = (res, v', c', w')"
    by (metis prod_cases4)
  have hit: "fst (get_or_issue (\<lambda>i attrs. ''user'') sample_cache_config ''pg'' iss sample_identity ''db'' cfg 0 sample_cache w)
      = Inr (sample_cred ''s1'' 60)" for iss :: "identity \<Rightarrow> string \<Rightarrow> json \<Rightarrow> (trace, string + issued_credential) fut" and cfg w
    by (simp add: get_or_issue_def cache_lookup_def cache_key_of_def sample_cache_entries entry_of_def sample_cache_config_def Let_def)
  have "res = Inr 1 \<and> json_strings v' = [''s1'', ''x'']"
    using x hit
    by (auto simp: resolve_credential_refs_def resolve_string_def sample_cred_env_def credential_issuer_def issuer_registry_def
        base_entry_def sample_object_def sample_manifest_def sample_binding_def pick_part_def sample_cred_def sample_env_def
        Let_def case_prod_beta split: sum.splits)
  with x show ?thesis
    using credentials_resolved_for_caller [OF sample_cache_run, where cv = sample_cred_env and env = sample_env
      and rt = sample_runtime and r = issuer_registry and i = sample_identity and v = sample_binding and w = "[]"]
    by simp
qed

end
