(* ===== verification/Cluster_Tenant.thy ===== *)
theory Cluster_Tenant
  imports Cluster_Api
begin

text \<open>
  Tenant segments on the cluster's key-value store and bus (\<open>cluster_tenant.rs\<close>): decorators that put
  \<open>t.<segment>/\<close> in front of every key and \<open>t.<segment>.\<close> in front of every topic, and take it off again
  from what they return. The decorator turns a store that keeps the contract of \<open>Cluster_Api\<close> into one
  that keeps it for the tenant's keys.
\<close>

section \<open>Keys\<close>

definition kv_head :: "string \<Rightarrow> string" where
  "kv_head segment = ''t.'' @ segment @ ''/''"

definition kv_full :: "string \<Rightarrow> string \<Rightarrow> string" where
  "kv_full segment key = kv_head segment @ key"

definition kv_strip :: "string \<Rightarrow> string \<Rightarrow> string" where
  "kv_strip segment key = unwrap_or key (strip_prefix_str key (kv_head segment))"

definition tenant_kv :: "string \<Rightarrow> 'w kv_store \<Rightarrow> 'w kv_store" where
  "tenant_kv segment inner =
     \<lparr>kv_get = (\<lambda>key. kv_get inner (kv_full segment key)),
      kv_put = (\<lambda>key v ttl. kv_put inner (kv_full segment key) v ttl),
      kv_put_if_absent = (\<lambda>key v ttl. kv_put_if_absent inner (kv_full segment key) v ttl),
      kv_delete = (\<lambda>key. kv_delete inner (kv_full segment key)),
      kv_list_page = (\<lambda>prefix cursor limit w. map_ok_result
        (\<lambda>page. page\<lparr>kp_entries := map (\<lambda>(k, e). (kv_strip segment k, e)) (kp_entries page)\<rparr>)
        (kv_list_page inner (kv_full segment prefix) cursor limit w)),
      kv_list_prefix = (\<lambda>prefix limit w. map_ok_result (map (\<lambda>(k, e). (kv_strip segment k, e)))
        (kv_list_prefix inner (kv_full segment prefix) limit w)),
      kv_expire = (\<lambda>key ttl. kv_expire inner (kv_full segment key) ttl),
      kv_incr = (\<lambda>key delta ttl. kv_incr inner (kv_full segment key) delta ttl),
      kv_incr_floor = (\<lambda>key delta floor ttl. kv_incr_floor inner (kv_full segment key) delta floor ttl)\<rparr>"

section \<open>Bus\<close>

definition topic_head :: "string \<Rightarrow> string" where
  "topic_head segment = ''t.'' @ segment @ ''.''"

definition strip_topic :: "string \<Rightarrow> message \<Rightarrow> message" where
  "strip_topic segment m =
     (case strip_prefix_str (msg_topic m) (topic_head segment) of Some t \<Rightarrow> m\<lparr>msg_topic := t\<rparr> | None \<Rightarrow> m)"

definition tenant_pub_sub :: "string \<Rightarrow> 'w pub_sub \<Rightarrow> 'w pub_sub" where
  "tenant_pub_sub segment inner =
     \<lparr>ps_publish = (\<lambda>topic payload. ps_publish inner (topic_head segment @ topic) payload),
      ps_subscribe = (\<lambda>pattern group w. map_ok_result (map (map_sum id (strip_topic segment)))
        (ps_subscribe inner (topic_head segment @ pattern) group w))\<rparr>"

section \<open>The tenant's view\<close>

definition tenant_view :: "string \<Rightarrow> ('w \<Rightarrow> string \<Rightarrow> kv_entry option) \<Rightarrow> 'w \<Rightarrow> string \<Rightarrow> kv_entry option" where
  "tenant_view segment view w k = view w (kv_full segment k)"

fun prefixed :: "string \<Rightarrow> kv_request \<Rightarrow> kv_request" where
  "prefixed seg (ReqGet k) = ReqGet (kv_full seg k)"
| "prefixed seg (ReqPut k v ttl) = ReqPut (kv_full seg k) v ttl"
| "prefixed seg (ReqPutIfAbsent k v ttl) = ReqPutIfAbsent (kv_full seg k) v ttl"
| "prefixed seg (ReqDelete k) = ReqDelete (kv_full seg k)"
| "prefixed seg (ReqListPage p c n) = ReqListPage (kv_full seg p) c n"
| "prefixed seg (ReqListPrefix p n) = ReqListPrefix (kv_full seg p) n"
| "prefixed seg (ReqExpire k ttl) = ReqExpire (kv_full seg k) ttl"
| "prefixed seg (ReqIncr k d ttl) = ReqIncr (kv_full seg k) d ttl"
| "prefixed seg (ReqIncrFloor k d f ttl) = ReqIncrFloor (kv_full seg k) d f ttl"

lemma perform_tenant: "perform (tenant_kv seg kv) q w = perform kv (prefixed seg q) w"
  by (cases q) (simp_all add: tenant_kv_def)

lemma kv_full_inject [simp]: "kv_full seg a = kv_full seg b \<longleftrightarrow> a = b"
  by (simp add: kv_full_def)

lemma written_prefixed: "written (prefixed seg q) = map_option (kv_full seg) (written q)"
  by (cases q) simp_all

lemma kv_strip_full [simp]: "kv_strip seg (kv_full seg k) = k"
  using strip_prefix_str_Some [of "kv_full seg k" "kv_head seg" k] by (simp add: kv_strip_def kv_full_def)

lemma starts_with_full: "starts_with k (kv_full seg p) \<Longrightarrow> \<exists>k'. k = kv_full seg k' \<and> starts_with k' p"
  by (auto simp: starts_with_def kv_full_def prefix_def)

text \<open>
  Segments without a slash give disjoint key spaces.
\<close>

lemma kv_full_disjoint:
  assumes "CHR ''/'' \<notin> set a" and "CHR ''/'' \<notin> set b" and "a \<noteq> b"
  shows "kv_full a x \<noteq> kv_full b y"
proof
  assume "kv_full a x = kv_full b y"
  then have "a @ CHR ''/'' # x = b @ CHR ''/'' # y" by (simp add: kv_full_def kv_head_def)
  then have "takeWhile (\<lambda>c. c \<noteq> CHR ''/'') (a @ CHR ''/'' # x) = takeWhile (\<lambda>c. c \<noteq> CHR ''/'') (b @ CHR ''/'' # y)" by simp
  moreover have "takeWhile (\<lambda>c. c \<noteq> CHR ''/'') (s @ CHR ''/'' # z) = s" if "CHR ''/'' \<notin> set s" for s z
    using that by (induction s) auto
  ultimately show False using assms by simp
qed

context kv_contract
begin

lemma tenant_contract: "kv_contract (tenant_view seg view) (tenant_kv seg kv)"
proof (unfold_locales, goal_cases)
  case (1 q k w)
  then show ?case by (simp add: tenant_view_def perform_tenant frame written_prefixed)
next
  case (2 k w e)
  then show ?case by (simp add: tenant_view_def tenant_kv_def get_reads)
next
  case (3 k v ttl w u w')
  then show ?case by (simp add: tenant_view_def tenant_kv_def put_writes)
next
  case (4 k v ttl w b w')
  then show ?case using put_if_absent by (simp add: tenant_view_def tenant_kv_def)
next
  case (5 k w b w')
  then show ?case using delete_removes by (simp add: tenant_view_def tenant_kv_def)
next
  case (6 p n w es k e)
  then obtain raw k0 where "fst (kv_list_prefix kv (kv_full seg p) n w) = Inr raw" "(k0, e) \<in> set raw" "k = kv_strip seg k0"
    by (auto simp: tenant_kv_def)
  with list_reads starts_with_full show ?case by (force simp: tenant_view_def)
next
  case (7 p c n w page k e)
  then obtain raw k0 where "fst (kv_list_page kv (kv_full seg p) c n w) = Inr raw" "(k0, e) \<in> set (kp_entries raw)" "k = kv_strip seg k0"
    by (auto simp: tenant_kv_def)
  with page_reads starts_with_full show ?case by (force simp: tenant_view_def)
qed

lemma tenants_apart:
  assumes "CHR ''/'' \<notin> set a" and "CHR ''/'' \<notin> set b" and "a \<noteq> b"
  shows "tenant_view b view (fold (perform (tenant_kv a kv)) qs w) = tenant_view b view w"
proof
  fix k
  have "fold (perform (tenant_kv a kv)) qs w = fold (perform kv) (map (prefixed a) qs) w"
  proof -
    have "perform (tenant_kv a kv) = (\<lambda>q. perform kv (prefixed a q))" by (intro ext) (rule perform_tenant)
    then show ?thesis by (simp add: fold_map comp_def)
  qed
  moreover have "written (prefixed a q) \<noteq> Some (kv_full b k)" for q
    using kv_full_disjoint [OF assms] by (cases "written q") (auto simp: written_prefixed)
  ultimately show "tenant_view b view (fold (perform (tenant_kv a kv)) qs w) k = tenant_view b view w k"
    unfolding tenant_view_def by (simp only:) (rule run_frame, auto)
qed

end

interpretation tenant: kv_contract "tenant_view segment table_view" "tenant_kv segment table_kv" for segment
  by (rule table.tenant_contract)

section \<open>Properties\<close>

text \<open>
  C21. Tenants of one coordinator are apart: over any store that keeps its contract, the decorator keeps the
  contract for the tenant's own keys (what it reads, lists and writes are exactly its entries, under the
  keys the tenant uses), and no sequence of requests of one tenant changes anything another tenant can
  see, provided the two segments have no slash in them.
\<close>

theorem tenants_are_isolated:
  assumes "kv_contract view kv" and "CHR ''/'' \<notin> set a" and "CHR ''/'' \<notin> set b" and "a \<noteq> b"
  shows "kv_contract (tenant_view a view) (tenant_kv a kv)
    \<and> tenant_view b view (fold (perform (tenant_kv a kv)) qs w) = tenant_view b view w"
  using kv_contract.tenant_contract [OF assms(1)] kv_contract.tenants_apart [OF assms] by blast

theorem tenants_are_isolated_witness:
  "tenant_view ''bob'' table_view
     (fold (perform (tenant_kv ''acme'' table_kv)) [ReqPut ''session:s1'' ''x'' None, ReqDelete ''session:s2''] []) ''session:s1'' = None"
  using tenants_are_isolated [OF table.kv_contract_axioms, of "''acme''" "''bob''"
      "[ReqPut ''session:s1'' ''x'' None, ReqDelete ''session:s2'']" "[]"]
  by (simp add: tenant_view_def table_view_def)

text \<open>A segment with a slash breaks this: tenant \<open>a\<close> can write the keys of tenant \<open>a/b\<close>.\<close>

lemma slash_segments_overlap: "kv_full ''a'' (''b/'' @ k) = kv_full ''a/b'' k"
  by (simp add: kv_full_def kv_head_def)

end
