(* ===== verification/Cluster_Encryption.thy ===== *)
theory Cluster_Encryption
  imports Cluster_Api Event_Cipher
begin

text \<open>
  Encryption of cluster state (\<open>cluster_encryption.rs\<close>): decorators that seal every value for its key and
  every payload for its topic, and open what they read. What does not open is refused, unless it is no
  envelope at all and the operator tolerates plaintext for a migration. The decorator over a store that
  keeps the contract of \<open>Cluster_Api\<close> keeps it for the opened values.
\<close>

section \<open>Values\<close>

definition seal_or_err ::
  "('w, 'k) event_crypto \<Rightarrow> 'k event_cipher \<Rightarrow> string \<Rightarrow> string \<Rightarrow> 'w \<Rightarrow> (cluster_error, string) rresult \<times> 'w" where
  "seal_or_err ec c plaintext aad w =
     (case seal ec c plaintext aad w of
        (Inl e, w1) \<Rightarrow>
          (Inl (ClusterInternal (''cluster state-encryption: seal failed: '' @ event_cipher_message e)), w1)
      | (Inr raw, w1) \<Rightarrow> (Inr raw, w1))"

text \<open>The dash in the refusal is the three bytes of U+2014.\<close>

definition plaintext_refused :: string where
  "plaintext_refused =
     ''cluster state-encryption: refusing a plaintext (non-envelope) value under a configured key ''
     @ [CHR 0xE2, CHR 0x80, CHR 0x94] @ '' fail closed (set state_encryption_allow_plaintext_reads only for a bounded migration window)''"

definition open_value ::
  "('w, 'k) event_crypto \<Rightarrow> 'k event_cipher \<Rightarrow> bool \<Rightarrow> string \<Rightarrow> string \<Rightarrow> (cluster_error, string option) rresult" where
  "open_value ec c allow_plaintext key raw =
     (case open_envelope ec c raw key of
        Inr pt \<Rightarrow> Inr (Some pt)
      | Inl NotEnvelope \<Rightarrow> if allow_plaintext then Inr None else Inl (ClusterInternal plaintext_refused)
      | Inl e \<Rightarrow> Inl (ClusterInternal (''cluster state-encryption: failed to open value for a key ''
          @ ''(corruption, wrong key, or AAD mismatch): '' @ decrypt_message e)))"

fun open_entries ::
  "('w, 'k) event_crypto \<Rightarrow> 'k event_cipher \<Rightarrow> bool \<Rightarrow> (string \<times> kv_entry) list \<Rightarrow> (string \<times> kv_entry) list" where
  "open_entries ec c allow_plaintext [] = []"
| "open_entries ec c allow_plaintext ((key, entry) # es) =
     (case open_value ec c allow_plaintext key (en_bytes entry) of
        Inr (Some pt) \<Rightarrow> (key, entry\<lparr>en_bytes := pt\<rparr>) # open_entries ec c allow_plaintext es
      | Inr None \<Rightarrow> (key, entry) # open_entries ec c allow_plaintext es
      | Inl _ \<Rightarrow> open_entries ec c allow_plaintext es)"

definition encrypting_kv ::
  "('w, 'k) event_crypto \<Rightarrow> 'k event_cipher \<Rightarrow> bool \<Rightarrow> 'w kv_store \<Rightarrow> 'w kv_store" where
  "encrypting_kv ec c allow_plaintext inner =
     \<lparr>kv_get = (\<lambda>key w.
        (case kv_get inner key w of
           (Inl e, w1) \<Rightarrow> (Inl e, w1)
         | (Inr None, w1) \<Rightarrow> (Inr None, w1)
         | (Inr (Some entry), w1) \<Rightarrow>
             (case open_value ec c allow_plaintext key (en_bytes entry) of
                Inl e \<Rightarrow> Inl e
              | Inr (Some pt) \<Rightarrow> Inr (Some (entry\<lparr>en_bytes := pt\<rparr>))
              | Inr None \<Rightarrow> Inr (Some entry), w1))),
      kv_put = (\<lambda>key value ttl w.
        (case seal_or_err ec c value key w of
           (Inl e, w1) \<Rightarrow> (Inl e, w1)
         | (Inr sealed, w1) \<Rightarrow> kv_put inner key sealed ttl w1)),
      kv_put_if_absent = (\<lambda>key value ttl w.
        (case seal_or_err ec c value key w of
           (Inl e, w1) \<Rightarrow> (Inl e, w1)
         | (Inr sealed, w1) \<Rightarrow> kv_put_if_absent inner key sealed ttl w1)),
      kv_delete = (\<lambda>key. kv_delete inner key),
      kv_list_page = (\<lambda>prefix cursor limit w. map_ok_result
        (\<lambda>page. page\<lparr>kp_entries := open_entries ec c allow_plaintext (kp_entries page)\<rparr>)
        (kv_list_page inner prefix cursor limit w)),
      kv_list_prefix = (\<lambda>prefix limit w. map_ok_result (open_entries ec c allow_plaintext)
        (kv_list_prefix inner prefix limit w)),
      kv_expire = (\<lambda>key ttl. kv_expire inner key ttl),
      kv_incr = (\<lambda>key delta ttl. kv_incr inner key delta ttl),
      kv_incr_floor = (\<lambda>key delta floor ttl. kv_incr_floor inner key delta floor ttl)\<rparr>"

section \<open>Bus\<close>

text \<open>What becomes of one delivered item; \<open>None\<close> drops it.\<close>

definition open_message ::
  "('w, 'k) event_crypto \<Rightarrow> 'k event_cipher \<Rightarrow> bool \<Rightarrow> (cluster_error, message) rresult
    \<Rightarrow> (cluster_error, message) rresult option" where
  "open_message ec c allow_plaintext item =
     (case item of
        Inl e \<Rightarrow> Some (Inl e)
      | Inr m \<Rightarrow>
          (case open_envelope ec c (msg_payload m) (msg_topic m) of
             Inr pt \<Rightarrow> Some (Inr (m\<lparr>msg_payload := pt\<rparr>))
           | Inl NotEnvelope \<Rightarrow> if allow_plaintext then Some (Inr m) else None
           | Inl _ \<Rightarrow> None))"

definition encrypting_pub_sub ::
  "('w, 'k) event_crypto \<Rightarrow> 'k event_cipher \<Rightarrow> bool \<Rightarrow> 'w pub_sub \<Rightarrow> 'w pub_sub" where
  "encrypting_pub_sub ec c allow_plaintext inner =
     \<lparr>ps_publish = (\<lambda>topic payload w.
        (case seal_or_err ec c payload topic w of
           (Inl e, w1) \<Rightarrow> (Inl e, w1)
         | (Inr sealed, w1) \<Rightarrow> ps_publish inner topic sealed w1)),
      ps_subscribe = (\<lambda>pattern group w. map_ok_result (List.map_filter (open_message ec c allow_plaintext))
        (ps_subscribe inner pattern group w))\<rparr>"

section \<open>The opened view\<close>

text \<open>
  What the entries of a store mean to the holder of the key: the plaintext where the value opens. A value
  that does not open still occupies its key.
\<close>

definition opened :: "('w, 'k) event_crypto \<Rightarrow> 'k event_cipher \<Rightarrow> string \<Rightarrow> kv_entry \<Rightarrow> kv_entry" where
  "opened ec c key e = (case open_envelope ec c (en_bytes e) key of Inr pt \<Rightarrow> e\<lparr>en_bytes := pt\<rparr> | Inl _ \<Rightarrow> e)"

definition opened_view ::
  "('w, 'k) event_crypto \<Rightarrow> 'k event_cipher \<Rightarrow> ('w \<Rightarrow> string \<Rightarrow> kv_entry option) \<Rightarrow> 'w \<Rightarrow> string \<Rightarrow> kv_entry option" where
  "opened_view ec c view w k = map_option (opened ec c k) (view w k)"

text \<open>Drawing a nonce leaves the store alone.\<close>

definition random_apart :: "('w, 'k) event_crypto \<Rightarrow> ('w \<Rightarrow> string \<Rightarrow> kv_entry option) \<Rightarrow> bool" where
  "random_apart ec view \<longleftrightarrow> (\<forall>w. view (snd (ec_random ec w)) = view w)"

lemma open_value_Some: "open_value ec c al k raw = Inr (Some pt) \<longleftrightarrow> open_envelope ec c raw k = Inr pt"
  by (auto simp: open_value_def split: sum.splits decrypt_error.splits)

lemma open_value_None: "open_value ec c al k raw = Inr None \<longleftrightarrow> al \<and> open_envelope ec c raw k = Inl NotEnvelope"
  by (auto simp: open_value_def split: sum.splits decrypt_error.splits)

lemma opened_of_value:
  "open_value ec c al k (en_bytes e) = Inr (Some pt) \<Longrightarrow> opened ec c k e = e\<lparr>en_bytes := pt\<rparr>"
  "open_value ec c al k (en_bytes e) = Inr None \<Longrightarrow> opened ec c k e = e"
  by (simp_all add: opened_def open_value_Some open_value_None)

lemma open_entries_mem:
  "(k, e) \<in> set (open_entries ec c al es) \<Longrightarrow> \<exists>e0. (k, e0) \<in> set es \<and> e = opened ec c k e0
     \<and> (al \<or> (\<exists>pt. open_envelope ec c (en_bytes e0) k = Inr pt))"
  by (induction ec c al es rule: open_entries.induct)
    (auto simp: opened_of_value open_value_None open_value_Some split: sum.splits option.splits)

lemma seal_or_err_world: "random_apart ec view \<Longrightarrow> seal_or_err ec c m a w = (res, w1) \<Longrightarrow> view w1 = view w"
  unfolding random_apart_def seal_or_err_def seal_def
  by (auto split: prod.splits sum.splits option.splits) (metis snd_conv)+

lemma seal_or_err_opens:
  "crypto_ok ec \<Longrightarrow> seal_or_err ec c m a w = (Inr raw, w1) \<Longrightarrow> open_envelope ec c raw a = Inr m"
  using seal_open [of ec c m a w raw w1] by (auto simp: seal_or_err_def split: prod.splits sum.splits)

text \<open>
  What the reader of a key may see of the entry it holds: the plaintext that was sealed with this very key for this
  very store key; or, while plaintext is tolerated, bytes that are no envelope as they are.
\<close>

definition readable ::
  "('w, 'k) event_crypto \<Rightarrow> 'k event_cipher \<Rightarrow> bool \<Rightarrow> string \<Rightarrow> kv_entry \<Rightarrow> kv_entry \<Rightarrow> bool" where
  "readable ec c allow_plaintext key raw e \<longleftrightarrow>
     (\<exists>plaintext. sealed_for ec c key plaintext (en_bytes raw) \<and> e = raw\<lparr>en_bytes := plaintext\<rparr>)
     \<or> (allow_plaintext \<and> ec_envelope_from_slice ec (en_bytes raw) = None \<and> e = raw)"

lemma not_envelope: "open_envelope ec c raw k = Inl NotEnvelope \<longleftrightarrow> ec_envelope_from_slice ec raw = None"
  by (auto simp: open_envelope_def split: option.splits sum.splits)

lemma open_value_readable:
  assumes "crypto_ok ec"
  shows "readable ec c al k raw e \<longleftrightarrow>
    (case open_value ec c al k (en_bytes raw) of
       Inr (Some pt) \<Rightarrow> e = raw\<lparr>en_bytes := pt\<rparr> | Inr None \<Rightarrow> e = raw | Inl _ \<Rightarrow> False)"
proof -
  have "readable ec c al k raw e \<longleftrightarrow>
      (\<exists>pt. open_value ec c al k (en_bytes raw) = Inr (Some pt) \<and> e = raw\<lparr>en_bytes := pt\<rparr>)
      \<or> open_value ec c al k (en_bytes raw) = Inr None \<and> e = raw"
    by (auto simp: readable_def open_value_Some open_value_None not_envelope open_exact [OF assms])
  then show ?thesis by (auto split: sum.splits option.splits)
qed

lemma open_entries_readable:
  assumes "crypto_ok ec"
  shows "(k, e) \<in> set (open_entries ec c al es) \<longleftrightarrow> (\<exists>raw. (k, raw) \<in> set es \<and> readable ec c al k raw e)"
proof (induction es)
  case (Cons x es)
  obtain key entry where x: "x = (key, entry)" by (cases x)
  have hd: "(k, e) \<in> set ((key, entry') # tl) \<longleftrightarrow> (k = key \<and> e = entry') \<or> (k, e) \<in> set tl" for entry' tl by simp
  have "(k, e) \<in> set (open_entries ec c al (x # es)) \<longleftrightarrow>
      (k = key \<and> readable ec c al key entry e) \<or> (k, e) \<in> set (open_entries ec c al es)"
  proof (cases "open_value ec c al key (en_bytes entry)")
    case (Inl err)
    with open_value_readable [OF assms, of c al key entry e] show ?thesis by (simp add: x)
  next
    case (Inr found)
    with open_value_readable [OF assms, of c al key entry e] show ?thesis
      by (cases found) (simp_all only: x open_entries.simps sum.case option.case hd)
  qed
  also have "\<dots> \<longleftrightarrow> (\<exists>raw. (k, raw) \<in> set (x # es) \<and> readable ec c al k raw e)"
    unfolding Cons x list.set insert_iff prod.inject by blast
  finally show ?case .
qed simp

text \<open>The order is kept.\<close>

lemma open_entries_order: "subseq (map fst (open_entries ec c al es)) (map fst es)"
  by (induction ec c al es rule: open_entries.induct) (auto split: sum.splits option.splits)

lemma readable_unsealed:
  assumes ok: "crypto_ok ec" "crypto_binds ec" and "sealed_for ec c a m (en_bytes raw)" and "a \<noteq> k"
  shows "\<not> readable ec c al k raw e"
proof -
  have "ec_envelope_from_slice ec (en_bytes raw) \<noteq> None" using assms(3) unfolding sealed_for_def by blast
  moreover have "\<not> sealed_for ec c k pt (en_bytes raw)" for pt using sealed_binds [OF ok assms(3)] assms(4) by blast
  ultimately show ?thesis by (simp add: readable_def)
qed

context kv_contract
begin

lemma encrypting_contract:
  assumes ok: "crypto_ok ec" and apart: "random_apart ec view"
  shows "kv_contract (opened_view ec c view) (encrypting_kv ec c al kv)"
proof (unfold_locales, goal_cases)
  case (1 q k w)
  have put: "view (snd (kv_put kv k' s ttl w1)) k = view w1 k" "view (snd (kv_put_if_absent kv k' s ttl w1)) k = view w1 k"
    if "k' \<noteq> k" for k' s ttl w1
    using frame [of "ReqPut k' s ttl" k w1] frame [of "ReqPutIfAbsent k' s ttl" k w1] that by simp_all
  from 1 frame [of q k w] show ?case
    by (cases q) (auto simp: opened_view_def encrypting_kv_def put seal_or_err_world [OF apart]
        split: prod.splits sum.splits option.splits)
next
  case (2 k w e)
  then show ?case using get_reads [of k w]
    by (auto simp: encrypting_kv_def opened_view_def opened_of_value split: prod.splits sum.splits option.splits)
next
  case (3 k v ttl w u w')
  then obtain raw w1 where s: "seal_or_err ec c v k w = (Inr raw, w1)" and "kv_put kv k raw ttl w1 = (Inr u, w')"
    by (auto simp: encrypting_kv_def split: prod.splits sum.splits)
  from put_writes [OF this(2)] seal_or_err_opens [OF ok s] show ?case
    by (auto simp: opened_view_def opened_def)
next
  case (4 k v ttl w b w')
  then obtain raw w1 where s: "seal_or_err ec c v k w = (Inr raw, w1)" and p: "kv_put_if_absent kv k raw ttl w1 = (Inr b, w')"
    by (auto simp: encrypting_kv_def split: prod.splits sum.splits)
  from put_if_absent [OF p] seal_or_err_opens [OF ok s] seal_or_err_world [OF apart s] show ?case
    by (auto simp: opened_view_def opened_def)
next
  case (5 k w b w')
  then show ?case using delete_removes [of k w b w'] by (simp add: opened_view_def encrypting_kv_def)
next
  case (6 p n w es k e)
  then obtain raw where "fst (kv_list_prefix kv p n w) = Inr raw" "es = open_entries ec c al raw"
    by (auto simp: encrypting_kv_def)
  with 6 show ?case using open_entries_mem list_reads by (fastforce simp: opened_view_def)
next
  case (7 p cur n w page k e)
  then obtain raw where "fst (kv_list_page kv p cur n w) = Inr raw" "kp_entries page = open_entries ec c al (kp_entries raw)"
    by (auto simp: encrypting_kv_def)
  with 7 show ?case using open_entries_mem page_reads by (fastforce simp: opened_view_def)
qed

text \<open>The decorated reads are the inner reads, each entry replaced by what its reader may see of it or left out.\<close>

lemma get_reader:
  assumes "crypto_ok ec" and "kv_get kv k w = (Inr (Some raw), w')"
  shows "(readable ec c al k raw e \<longleftrightarrow> kv_get (encrypting_kv ec c al kv) k w = (Inr (Some e), w'))
    \<and> ((\<exists>e. readable ec c al k raw e) \<or> is_err (fst (kv_get (encrypting_kv ec c al kv) k w)))"
  using assms(2) open_value_readable [OF assms(1), of c al k raw]
  by (cases "open_value ec c al k (en_bytes raw)") (auto simp: encrypting_kv_def split: option.splits)

lemma get_readable:
  assumes "crypto_ok ec" and "kv_get (encrypting_kv ec c al kv) k w = (Inr (Some e), w')"
  shows "\<exists>raw. view w k = Some raw \<and> kv_get kv k w = (Inr (Some raw), w') \<and> readable ec c al k raw e"
proof -
  from assms(2) obtain raw where raw: "kv_get kv k w = (Inr (Some raw), w')"
    by (auto simp: encrypting_kv_def split: prod.splits sum.splits option.splits)
  then have "view w k = Some raw" using get_reads [of k w] by simp
  with raw get_reader [OF assms(1) raw, of c al e] assms(2) show ?thesis by blast
qed

lemma list_reader:
  "fst (kv_list_prefix (encrypting_kv ec c al kv) p n w) = map_sum id (open_entries ec c al) (fst (kv_list_prefix kv p n w))"
  "fst (kv_list_page (encrypting_kv ec c al kv) p cur n w)
    = map_sum id (\<lambda>page. page\<lparr>kp_entries := open_entries ec c al (kp_entries page)\<rparr>) (fst (kv_list_page kv p cur n w))"
  by (auto simp: encrypting_kv_def map_ok_result_def split: prod.splits sum.splits)

lemma listed_readable:
  assumes "crypto_ok ec"
  shows "fst (kv_list_prefix (encrypting_kv ec c al kv) p n w) = Inr es \<Longrightarrow> (k, e) \<in> set es \<Longrightarrow>
      \<exists>raw. view w k = Some raw \<and> readable ec c al k raw e"
    and "fst (kv_list_page (encrypting_kv ec c al kv) p cur n w) = Inr page \<Longrightarrow> (k, e) \<in> set (kp_entries page) \<Longrightarrow>
      \<exists>raw. view w k = Some raw \<and> readable ec c al k raw e"
proof -
  assume "fst (kv_list_prefix (encrypting_kv ec c al kv) p n w) = Inr es" and e: "(k, e) \<in> set es"
  then obtain raws where "fst (kv_list_prefix kv p n w) = Inr raws" "es = open_entries ec c al raws"
    by (auto simp: list_reader map_sum_def split: sum.splits)
  with e list_reads show "\<exists>raw. view w k = Some raw \<and> readable ec c al k raw e"
    by (auto simp: open_entries_readable [OF assms])
next
  assume "fst (kv_list_page (encrypting_kv ec c al kv) p cur n w) = Inr page" and e: "(k, e) \<in> set (kp_entries page)"
  then obtain inner where "fst (kv_list_page kv p cur n w) = Inr inner" "kp_entries page = open_entries ec c al (kp_entries inner)"
    by (auto simp: list_reader map_sum_def split: sum.splits)
  with e page_reads show "\<exists>raw. view w k = Some raw \<and> readable ec c al k raw e"
    by (auto simp: open_entries_readable [OF assms])
qed

text \<open>A value moved to another key, or a forged plaintext, is refused.\<close>

lemma get_swapped:
  assumes ok: "crypto_ok ec" "crypto_binds ec" and "view w k = Some raw" and "sealed_for ec c a m (en_bytes raw)" and "a \<noteq> k"
  shows "fst (kv_get (encrypting_kv ec c al kv) k w) \<noteq> Inr found"
  using open_elsewhere [OF ok assms(4)] assms(3,5) get_reads [of k w]
  by (auto simp: encrypting_kv_def open_value_def split: prod.splits sum.splits option.splits)

end

interpretation encrypted_table:
  kv_contract "opened_view (sample_crypto e0 e1) c table_view" "encrypting_kv (sample_crypto e0 e1) c al table_kv" for e0 e1 c al
  by (rule table.encrypting_contract [OF sample_crypto_ok]) (simp add: random_apart_def sample_crypto_def Let_def)

section \<open>Properties\<close>

text \<open>
  C22. Encryption of the cluster state is transparent to the holder of the key and closed to everybody else.
  Over any store that keeps its contract, the decorated store keeps it for the opened values (a value that
  was put is read back, an entry that is present stays present for \<open>put_if_absent\<close> and \<open>delete\<close>). Every value
  that \<open>get\<close> or either listing returns was sealed with this very key for this very store key; with plaintext
  tolerated it may also be bytes that are no envelope, handed out as they are. A \<open>get\<close> of a readable entry returns it
  and of any other refuses; a listing returns exactly the readable entries of the inner listing, in its order, and keeps
  the cursor. A value that was sealed for another store key is never returned by any of the three, even
  when plaintext is tolerated.
\<close>

theorem encrypted_store_is_transparent_and_closed:
  assumes "kv_contract view kv" and "crypto_ok ec" and "crypto_binds ec" and "random_apart ec view"
  shows "kv_contract (opened_view ec c view) (encrypting_kv ec c al kv)
    \<and> (\<forall>k w e w'. kv_get (encrypting_kv ec c al kv) k w = (Inr (Some e), w') \<longrightarrow>
        (\<exists>raw. view w k = Some raw \<and> readable ec c al k raw e))
    \<and> (\<forall>k w raw w' e. kv_get kv k w = (Inr (Some raw), w') \<longrightarrow>
        (readable ec c al k raw e \<longleftrightarrow> kv_get (encrypting_kv ec c al kv) k w = (Inr (Some e), w'))
        \<and> ((\<exists>e. readable ec c al k raw e) \<or> is_err (fst (kv_get (encrypting_kv ec c al kv) k w))))
    \<and> (\<forall>p n w raws. fst (kv_list_prefix kv p n w) = Inr raws \<longrightarrow>
        (\<exists>es. fst (kv_list_prefix (encrypting_kv ec c al kv) p n w) = Inr es \<and> subseq (map fst es) (map fst raws)
           \<and> (\<forall>k e. (k, e) \<in> set es \<longleftrightarrow> (\<exists>raw. (k, raw) \<in> set raws \<and> readable ec c al k raw e))))
    \<and> (\<forall>p cur n w inner. fst (kv_list_page kv p cur n w) = Inr inner \<longrightarrow>
        (\<exists>page. fst (kv_list_page (encrypting_kv ec c al kv) p cur n w) = Inr page \<and> kp_next page = kp_next inner
           \<and> subseq (map fst (kp_entries page)) (map fst (kp_entries inner))
           \<and> (\<forall>k e. (k, e) \<in> set (kp_entries page) \<longleftrightarrow>
                (\<exists>raw. (k, raw) \<in> set (kp_entries inner) \<and> readable ec c al k raw e))))
    \<and> (\<forall>p n w es k e. fst (kv_list_prefix (encrypting_kv ec c al kv) p n w) = Inr es \<longrightarrow> (k, e) \<in> set es \<longrightarrow>
        (\<exists>raw. view w k = Some raw \<and> readable ec c al k raw e))
    \<and> (\<forall>p cur n w page k e. fst (kv_list_page (encrypting_kv ec c al kv) p cur n w) = Inr page \<longrightarrow>
        (k, e) \<in> set (kp_entries page) \<longrightarrow> (\<exists>raw. view w k = Some raw \<and> readable ec c al k raw e))
    \<and> (\<forall>k w raw a m. view w k = Some raw \<longrightarrow> sealed_for ec c a m (en_bytes raw) \<longrightarrow> a \<noteq> k \<longrightarrow>
        (\<forall>found. fst (kv_get (encrypting_kv ec c al kv) k w) \<noteq> Inr found)
        \<and> (\<forall>p n es e. fst (kv_list_prefix (encrypting_kv ec c al kv) p n w) = Inr es \<longrightarrow> (k, e) \<notin> set es)
        \<and> (\<forall>p cur n page e. fst (kv_list_page (encrypting_kv ec c al kv) p cur n w) = Inr page \<longrightarrow>
             (k, e) \<notin> set (kp_entries page)))"
proof -
  note contract = kv_contract.encrypting_contract [OF assms(1,2,4), of c al]
  note get = kv_contract.get_readable [OF assms(1,2)] and listed = kv_contract.listed_readable [OF assms(1,2)]
  have unsealed: "\<not> readable ec c al k raw e" if "view w k = Some raw" "sealed_for ec c a m (en_bytes raw)" "a \<noteq> k"
    for k w raw a m e using readable_unsealed [OF assms(2,3) that(2,3)] .
  have "\<exists>es. fst (kv_list_prefix (encrypting_kv ec c al kv) p n w) = Inr es \<and> subseq (map fst es) (map fst raws)
      \<and> (\<forall>k e. (k, e) \<in> set es \<longleftrightarrow> (\<exists>raw. (k, raw) \<in> set raws \<and> readable ec c al k raw e))"
    if "fst (kv_list_prefix kv p n w) = Inr raws" for p n w raws
    using that open_entries_readable [OF assms(2)] open_entries_order
    by (simp add: kv_contract.list_reader [OF assms(1)])
  moreover have "\<exists>page. fst (kv_list_page (encrypting_kv ec c al kv) p cur n w) = Inr page \<and> kp_next page = kp_next inner
      \<and> subseq (map fst (kp_entries page)) (map fst (kp_entries inner))
      \<and> (\<forall>k e. (k, e) \<in> set (kp_entries page) \<longleftrightarrow> (\<exists>raw. (k, raw) \<in> set (kp_entries inner) \<and> readable ec c al k raw e))"
    if "fst (kv_list_page kv p cur n w) = Inr inner" for p cur n w inner
    using that open_entries_readable [OF assms(2)] open_entries_order
    by (simp add: kv_contract.list_reader [OF assms(1)])
  moreover have "fst (kv_get (encrypting_kv ec c al kv) k w) \<noteq> Inr found"
    if "view w k = Some raw" "sealed_for ec c a m (en_bytes raw)" "a \<noteq> k" for k w raw a m found
    using kv_contract.get_swapped [OF assms(1-3) that] .
  ultimately show ?thesis
    using contract get listed unsealed kv_contract.get_reader [OF assms(1,2)]
    by (intro conjI allI impI) (blast | metis option.inject)+
qed


text \<open>An envelope that was sealed for \<open>s1\<close> and copied to \<open>s2\<close>, and one at its own key.\<close>

definition sample_cipher :: "string event_cipher" where
  "sample_cipher = \<lparr>ci_cipher = ''k'', ci_kid = ''a''\<rparr>"

definition sample_sealed :: "string \<Rightarrow> string \<Rightarrow> kv_entry" where
  "sample_sealed k m = \<lparr>en_bytes = CHR ''{'' # CHR 0x01 # field ''a'' @ field (replicate 24 (CHR ''n''))
     @ field (field ''k'' @ field (replicate 24 (CHR ''n'')) @ field k @ m), en_expires_at = None\<rparr>"

definition sample_revoked :: cache_event where
  "sample_revoked = CeRevoked ''h'' ''p'' ''t'' ''n1'' 0 []"

lemma sample_sealed_for:
  "sealed_for (sample_crypto sample_revoked sample_revoked) sample_cipher k m (en_bytes (sample_sealed k m))"
  by (auto simp: sealed_for_def sample_crypto_def sample_cipher_def sample_sealed_def Let_def NONCE_BYTES_def
      ENVELOPE_VERSION_def intro!: exI [of _ "replicate 24 (CHR ''n'')"]
      exI [of _ "field ''k'' @ field (replicate 24 (CHR ''n'')) @ field k @ m"])

theorem encrypted_store_is_transparent_and_closed_witness:
  "(let ec = sample_crypto sample_revoked sample_revoked;
        w = [(''s1'', sample_sealed ''s1'' ''x''), (''s2'', sample_sealed ''s1'' ''x'')]
    in (\<forall>found. fst (kv_get (encrypting_kv ec sample_cipher True table_kv) ''s2'' w) \<noteq> Inr found)
       \<and> fst (kv_get (encrypting_kv ec sample_cipher False table_kv) ''s1'' w)
         = Inr (Some \<lparr>en_bytes = ''x'', en_expires_at = None\<rparr>))"
proof -
  let ?ec = "sample_crypto sample_revoked sample_revoked :: (kv_table, string) event_crypto"
  let ?w = "[(''s1'', sample_sealed ''s1'' ''x''), (''s2'', sample_sealed ''s1'' ''x'')]"
  have "random_apart ?ec table_view" by (simp add: random_apart_def sample_crypto_def Let_def)
  note law = encrypted_store_is_transparent_and_closed [OF table.kv_contract_axioms sample_crypto_ok sample_crypto_binds this,
      of sample_cipher True, THEN conjunct2, THEN conjunct2, THEN conjunct2, THEN conjunct2, THEN conjunct2, THEN conjunct2,
      THEN conjunct2, rule_format, THEN conjunct1, rule_format]
  have "fst (kv_get (encrypting_kv ?ec sample_cipher True table_kv) ''s2'' ?w) \<noteq> Inr found" for found
    by (rule law [OF _ sample_sealed_for [of "''s1''" "''x''"]]) (simp_all add: table_view_def)
  moreover have "open_envelope ?ec sample_cipher (en_bytes (sample_sealed ''s1'' ''x'')) ''s1'' = Inr ''x''"
    using open_exact [OF sample_crypto_ok] sample_sealed_for by blast
  then have "open_value ?ec sample_cipher False ''s1'' (en_bytes (sample_sealed ''s1'' ''x'')) = Inr (Some ''x'')"
    by (simp only: open_value_Some)
  then have "fst (kv_get (encrypting_kv ?ec sample_cipher False table_kv) ''s1'' ?w)
      = Inr (Some ((sample_sealed ''s1'' ''x'')\<lparr>en_bytes := ''x''\<rparr>))"
    by (simp add: encrypting_kv_def table_kv_def)
  moreover have "(sample_sealed ''s1'' ''x'')\<lparr>en_bytes := ''x''\<rparr> = \<lparr>en_bytes = ''x'', en_expires_at = None\<rparr>"
    by (simp add: sample_sealed_def)
  ultimately show ?thesis by (simp add: Let_def)
qed

end
