(* ===== verification/Clustered_Cache.thy ===== *)
theory Clustered_Cache
  imports Event_Cipher Cluster_Api
begin

text \<open>
  The clustered credential cache (\<open>credential_cache_clustered.rs\<close>): a node wraps its local cache, publishes
  what it issues and invalidates, and applies what its peers publish, behind a freshness check, an
  allowlist of publishers and a replay guard. The coordinator, the clocks, the ids of events and the hash
  of identities are the fields of \<open>cluster_env\<close>. Wall-clock time is in milliseconds; \<open>saturating_sub\<close> is
  subtraction of natural numbers.
\<close>

section \<open>Replay guard\<close>

type_synonym event_key = "string \<times> string"

record seen_events =
  se_ttl_ms :: nat
  se_cap :: nat
  se_seen :: "(event_key, nat) hmap"
  se_order :: "event_key list"

definition seen_new :: "nat \<Rightarrow> nat \<Rightarrow> seen_events" where
  "seen_new ttl cap = \<lparr>se_ttl_ms = ttl, se_cap = cap, se_seen = [], se_order = []\<rparr>"

text \<open>The first loop: entries that have aged out of the window leave at the front.\<close>

fun drop_aged :: "nat \<Rightarrow> nat \<Rightarrow> event_key list \<Rightarrow> (event_key, nat) hmap \<Rightarrow> event_key list \<times> (event_key, nat) hmap" where
  "drop_aged now ttl [] seen = ([], seen)"
| "drop_aged now ttl (k # ks) seen =
     (case map_of seen k of
        Some ts \<Rightarrow> if ttl \<le> now - ts then drop_aged now ttl ks (AList.delete k seen) else (k # ks, seen)
      | None \<Rightarrow> (k # ks, seen))"

text \<open>The last loop: at most \<open>cap\<close> entries are kept.\<close>

fun drop_over :: "nat \<Rightarrow> event_key list \<Rightarrow> (event_key, nat) hmap \<Rightarrow> event_key list \<times> (event_key, nat) hmap" where
  "drop_over cap [] seen = ([], seen)"
| "drop_over cap (k # ks) seen =
     (if cap < length (k # ks) then drop_over cap ks (AList.delete k seen) else (k # ks, seen))"

definition check_and_record :: "string \<Rightarrow> string \<Rightarrow> nat \<Rightarrow> seen_events \<Rightarrow> bool \<times> seen_events" where
  "check_and_record published_by event_id now se =
     (let (order, seen) = drop_aged now (se_ttl_ms se) (se_order se) (se_seen se);
          key = (published_by, event_id);
          duplicate = (case map_of seen key of Some ts \<Rightarrow> now - ts < se_ttl_ms se | None \<Rightarrow> False)
      in if duplicate then (False, se\<lparr>se_seen := seen, se_order := order\<rparr>)
         else (let (order', seen') = drop_over (se_cap se) (order @ [key]) (hm_insert key now seen)
               in (True, se\<lparr>se_seen := seen', se_order := order'\<rparr>)))"

definition MAX_SEEN_EVENTS :: nat where
  "MAX_SEEN_EVENTS = 100000"

definition MAX_EVENT_AGE_MS :: nat where
  "MAX_EVENT_AGE_MS = 300000"

definition accept_once :: "string \<Rightarrow> string \<Rightarrow> nat \<Rightarrow> seen_events \<Rightarrow> bool \<times> seen_events" where
  "accept_once published_by event_id now se =
     (if event_id = [] then (True, se) else check_and_record published_by event_id now se)"

section \<open>Nodes\<close>

record ('w, 'k) cluster_env =
  cl_crypto :: "('w, 'k) event_crypto"
  cl_hash :: id_hash
  cl_unix_ms :: "'w \<Rightarrow> nat"
  cl_instant :: "'w \<Rightarrow> nat"
  cl_event_id :: "'w \<Rightarrow> string \<times> 'w"
  cl_publish :: "string \<Rightarrow> string \<Rightarrow> ('w, unit) kv_call"
  cl_subscribe :: "string \<Rightarrow> ('w, unit) kv_call"

record 'k cluster_node =
  cn_config :: cache_config
  cn_local :: credential_cache
  cn_node_id :: string
  cn_topic :: string
  cn_cipher :: "'k event_cipher option"
  cn_allowed_publishers :: "string list"
  cn_seen :: seen_events

definition DEFAULT_CACHE_EVENT_TOPIC :: string where
  "DEFAULT_CACHE_EVENT_TOPIC = ''mcpg.credentials.events''"

datatype cluster_start_error = SubscribeFailed string cluster_error

definition cluster_start ::
  "('w, 'k) cluster_env \<Rightarrow> cache_config \<Rightarrow> credential_cache \<Rightarrow> string \<Rightarrow> string option \<Rightarrow> 'k event_cipher option
    \<Rightarrow> string list \<Rightarrow> 'w \<Rightarrow> (cluster_start_error, 'k cluster_node) rresult \<times> 'w" where
  "cluster_start env cfg local node_id topic cipher allowed w =
     (let topic' = unwrap_or DEFAULT_CACHE_EVENT_TOPIC topic
      in case cl_subscribe env topic' w of
           (Inl e, w1) \<Rightarrow> (Inl (SubscribeFailed topic' e), w1)
         | (Inr _, w1) \<Rightarrow> (Inr \<lparr>cn_config = cfg, cn_local = local, cn_node_id = node_id, cn_topic = topic',
             cn_cipher = cipher, cn_allowed_publishers = allowed,
             cn_seen = seen_new (2 * MAX_EVENT_AGE_MS + 60000) MAX_SEEN_EVENTS\<rparr>, w1))"

section \<open>Publishing\<close>

definition encode_event ::
  "('w, 'k) cluster_env \<Rightarrow> 'k cluster_node \<Rightarrow> cache_event \<Rightarrow> 'w \<Rightarrow> (string, string) rresult \<times> 'w" where
  "encode_event env n event w =
     (case cn_cipher n of
        Some c \<Rightarrow>
          (case encrypt_event (cl_crypto env) c event w of
             (Inl e, w1) \<Rightarrow> (Inl (event_cipher_message e), w1)
           | (Inr raw, w1) \<Rightarrow> (Inr raw, w1))
      | None \<Rightarrow> (ec_event_to_vec (cl_crypto env) event, w))"

definition publish :: "('w, 'k) cluster_env \<Rightarrow> 'k cluster_node \<Rightarrow> cache_event \<Rightarrow> 'w \<Rightarrow> 'w" where
  "publish env n event w =
     (case encode_event env n event w of
        (Inl _, w1) \<Rightarrow> w1
      | (Inr payload, w1) \<Rightarrow> snd (cl_publish env (cn_topic n) payload w1))"

definition issued_event ::
  "('w, 'k) cluster_env \<Rightarrow> 'k cluster_node \<Rightarrow> identity \<Rightarrow> string \<Rightarrow> string \<Rightarrow> issued_credential \<Rightarrow> 'w \<Rightarrow> cache_event \<times> 'w" where
  "issued_event env n i plugin_id tgt cred w =
     (let (event_id, w1) = cl_event_id env w
      in (CeIssued (cl_hash env i (cc_key_attributes (cn_config n))) plugin_id tgt cred (cn_node_id n) (cl_unix_ms env w) event_id, w1))"

definition revoked_event ::
  "('w, 'k) cluster_env \<Rightarrow> 'k cluster_node \<Rightarrow> identity \<Rightarrow> string \<Rightarrow> string \<Rightarrow> 'w \<Rightarrow> cache_event \<times> 'w" where
  "revoked_event env n i plugin_id tgt w =
     (let (event_id, w1) = cl_event_id env w
      in (CeRevoked (cl_hash env i (cc_key_attributes (cn_config n))) plugin_id tgt (cn_node_id n) (cl_unix_ms env w) event_id, w1))"

definition publish_issued ::
  "('w, 'k) cluster_env \<Rightarrow> 'k cluster_node \<Rightarrow> identity \<Rightarrow> string \<Rightarrow> string \<Rightarrow> issued_credential \<Rightarrow> 'w \<Rightarrow> 'w" where
  "publish_issued env n i plugin_id tgt cred w =
     (let (event, w1) = issued_event env n i plugin_id tgt cred w in publish env n event w1)"

definition publish_revoked :: "('w, 'k) cluster_env \<Rightarrow> 'k cluster_node \<Rightarrow> identity \<Rightarrow> string \<Rightarrow> string \<Rightarrow> 'w \<Rightarrow> 'w" where
  "publish_revoked env n i plugin_id tgt w =
     (let (event, w1) = revoked_event env n i plugin_id tgt w in publish env n event w1)"

section \<open>Operations of a node\<close>

definition cluster_get_or_issue ::
  "('w, 'k) cluster_env \<Rightarrow> string \<Rightarrow> (identity \<Rightarrow> string \<Rightarrow> json \<Rightarrow> ('w, 'e + issued_credential) fut)
    \<Rightarrow> identity \<Rightarrow> string \<Rightarrow> json \<Rightarrow> 'k cluster_node \<Rightarrow> 'w \<Rightarrow> ('e + issued_credential) \<times> 'k cluster_node \<times> 'w" where
  "cluster_get_or_issue env plugin_id issue i tgt plugin_cfg n w =
     (case try_get (cl_hash env) (cn_config n) i plugin_id tgt (cl_instant env w) (cn_local n) of
        (Some cached, l1) \<Rightarrow> (Inr cached, n\<lparr>cn_local := l1\<rparr>, w)
      | (None, l1) \<Rightarrow>
          (case await (issue i tgt plugin_cfg) w of
             (Inl e, w1) \<Rightarrow> (Inl e, n\<lparr>cn_local := l1\<rparr>, w1)
           | (Inr cred, w1) \<Rightarrow>
               (let n1 = n\<lparr>cn_local := insert_external (cl_hash env) (cn_config n) i plugin_id tgt cred (cl_instant env w1) l1\<rparr>
                in (Inr cred, n1, publish_issued env n1 i plugin_id tgt cred w1))))"

definition cluster_invalidate ::
  "('w, 'k) cluster_env \<Rightarrow> identity \<Rightarrow> string \<Rightarrow> string \<Rightarrow> 'k cluster_node \<Rightarrow> 'w \<Rightarrow> revocation list \<times> 'k cluster_node \<times> 'w" where
  "cluster_invalidate env i plugin_id tgt n w =
     (let (ns, l1) = invalidate (cl_hash env) (cn_config n) i plugin_id tgt (cn_local n);
          n1 = n\<lparr>cn_local := l1\<rparr>
      in (ns, n1, publish_revoked env n1 i plugin_id tgt w))"

text \<open>Nothing is published here: the peers keep their entries until they expire.\<close>

definition cluster_invalidate_plugin ::
  "string \<Rightarrow> 'k cluster_node \<Rightarrow> issued_credential list \<times> revocation list \<times> 'k cluster_node" where
  "cluster_invalidate_plugin plugin_id n =
     (let (evicted, ns, l1) = invalidate_plugin plugin_id (cn_local n) in (evicted, ns, n\<lparr>cn_local := l1\<rparr>))"

section \<open>Receiving\<close>

definition decode_event :: "('w, 'k) event_crypto \<Rightarrow> 'k event_cipher option \<Rightarrow> string \<Rightarrow> cache_event option" where
  "decode_event ec cipher raw =
     (case cipher of
        Some c \<Rightarrow> (case decrypt_envelope ec c raw of Inr event \<Rightarrow> Some event | Inl _ \<Rightarrow> None)
      | None \<Rightarrow>
          if looks_like_envelope ec raw then None
          else (case ec_event_from_slice ec raw of Inr event \<Rightarrow> Some event | Inl _ \<Rightarrow> None))"

definition peer_event_accepted :: "string list \<Rightarrow> string \<Rightarrow> string \<Rightarrow> string \<Rightarrow> string \<Rightarrow> bool" where
  "peer_event_accepted allowed published_by id_hash plugin_id tgt =
     (if allowed \<noteq> [] \<and> published_by \<notin> set allowed then False
      else if id_hash = [] \<or> plugin_id = [] \<or> tgt = [] then False
      else True)"

text \<open>
  The clock is read for the freshness check (\<open>now\<close>), again by the replay guard (\<open>now'\<close>), and a third time
  by the local cache (\<open>inst\<close>).
\<close>

definition apply_event ::
  "nat \<Rightarrow> nat \<Rightarrow> nat \<Rightarrow> cache_event \<Rightarrow> 'k cluster_node \<Rightarrow> revocation list \<times> 'k cluster_node" where
  "apply_event now now' inst event n =
     (let stamped = ce_published_at event; skew = (if stamped \<le> now then now - stamped else stamped - now)
      in if stamped \<noteq> 0 \<and> MAX_EVENT_AGE_MS < skew then ([], n)
         else if ce_published_by event = cn_node_id n then ([], n)
         else if \<not> peer_event_accepted (cn_allowed_publishers n) (ce_published_by event) (ce_hash event) (ce_plugin event) (ce_target event)
         then ([], n)
         else (case accept_once (ce_published_by event) (ce_event_id event) now' (cn_seen n) of
                 (False, se) \<Rightarrow> ([], n\<lparr>cn_seen := se\<rparr>)
               | (True, se) \<Rightarrow>
                   (case event of
                      CeIssued h p t cred _ _ _ \<Rightarrow>
                        ([], n\<lparr>cn_seen := se, cn_local := insert_by_hash (cn_config n) h p t cred inst (cn_local n)\<rparr>)
                    | CeRevoked h p t _ _ _ \<Rightarrow>
                        (let (ns, l1) = invalidate_by_hash h p t (cn_local n)
                         in (ns, n\<lparr>cn_seen := se, cn_local := l1\<rparr>)))))"

text \<open>One round of \<open>subscriber_task\<close>: a payload with the three readings of the clocks.\<close>

type_synonym delivery = "string \<times> nat \<times> nat \<times> nat"

definition deliver :: "('w, 'k) event_crypto \<Rightarrow> delivery \<Rightarrow> 'k cluster_node \<Rightarrow> revocation list \<times> 'k cluster_node" where
  "deliver ec d n =
     (case d of (raw, now, now', inst) \<Rightarrow>
        (case decode_event ec (cn_cipher n) raw of
           None \<Rightarrow> ([], n)
         | Some event \<Rightarrow> apply_event now now' inst event n))"

definition deliver_all :: "('w, 'k) event_crypto \<Rightarrow> delivery list \<Rightarrow> 'k cluster_node \<Rightarrow> 'k cluster_node" where
  "deliver_all ec ds n = fold (\<lambda>d n. snd (deliver ec d n)) ds n"

section \<open>Either kind of cache\<close>

datatype 'k credential_cache_kind = LocalCache cache_config credential_cache | Clustered "'k cluster_node"

fun kind_local :: "'k credential_cache_kind \<Rightarrow> credential_cache" where
  "kind_local (LocalCache cfg c) = c"
| "kind_local (Clustered n) = cn_local n"

fun is_clustered :: "'k credential_cache_kind \<Rightarrow> bool" where
  "is_clustered (LocalCache cfg c) = False"
| "is_clustered (Clustered n) = True"

fun kind_get_or_issue ::
  "('w, 'k) cluster_env \<Rightarrow> string \<Rightarrow> (identity \<Rightarrow> string \<Rightarrow> json \<Rightarrow> ('w, 'e + issued_credential) fut)
    \<Rightarrow> identity \<Rightarrow> string \<Rightarrow> json \<Rightarrow> 'k credential_cache_kind \<Rightarrow> 'w \<Rightarrow> ('e + issued_credential) \<times> 'k credential_cache_kind \<times> 'w" where
  "kind_get_or_issue env plugin_id issue i tgt plugin_cfg (LocalCache cfg c) w =
     (case try_get (cl_hash env) cfg i plugin_id tgt (cl_instant env w) c of
        (Some cached, c1) \<Rightarrow> (Inr cached, LocalCache cfg c1, w)
      | (None, c1) \<Rightarrow>
          (case await (issue i tgt plugin_cfg) w of
             (Inl e, w1) \<Rightarrow> (Inl e, LocalCache cfg c1, w1)
           | (Inr cred, w1) \<Rightarrow>
               (Inr cred, LocalCache cfg (insert_external (cl_hash env) cfg i plugin_id tgt cred (cl_instant env w1) c1), w1)))"
| "kind_get_or_issue env plugin_id issue i tgt plugin_cfg (Clustered n) w =
     (case cluster_get_or_issue env plugin_id issue i tgt plugin_cfg n w of (res, n1, w1) \<Rightarrow> (res, Clustered n1, w1))"

fun kind_invalidate ::
  "('w, 'k) cluster_env \<Rightarrow> identity \<Rightarrow> string \<Rightarrow> string \<Rightarrow> 'k credential_cache_kind \<Rightarrow> 'w
    \<Rightarrow> revocation list \<times> 'k credential_cache_kind \<times> 'w" where
  "kind_invalidate env i plugin_id tgt (LocalCache cfg c) w =
     (case invalidate (cl_hash env) cfg i plugin_id tgt c of (ns, c1) \<Rightarrow> (ns, LocalCache cfg c1, w))"
| "kind_invalidate env i plugin_id tgt (Clustered n) w =
     (case cluster_invalidate env i plugin_id tgt n w of (ns, n1, w1) \<Rightarrow> (ns, Clustered n1, w1))"

section \<open>The replay guard keeps what it must\<close>

text \<open>
  With a clock that does not go back, the queue is sorted by the time of receipt, has no duplicates, and
  holds exactly the keys of the table.
\<close>

definition stamp_of :: "(event_key, nat) hmap \<Rightarrow> event_key \<Rightarrow> nat" where
  "stamp_of seen k = the (map_of seen k)"

definition queue_ok :: "nat \<Rightarrow> event_key list \<Rightarrow> (event_key, nat) hmap \<Rightarrow> bool" where
  "queue_ok now order seen \<longleftrightarrow> distinct order \<and> set order = dom (map_of seen)
     \<and> sorted (map (stamp_of seen) order) \<and> (\<forall>k \<in> set order. stamp_of seen k \<le> now)"

definition guard_ok :: "nat \<Rightarrow> seen_events \<Rightarrow> bool" where
  "guard_ok now se \<longleftrightarrow> queue_ok now (se_order se) (se_seen se)"

lemma queue_ok_tl:
  assumes "queue_ok now (k # ks) seen"
  shows "queue_ok now ks (AList.delete k seen)"
proof -
  have j: "stamp_of (AList.delete k seen) j = stamp_of seen j" if "j \<in> set ks" for j
    using assms that by (auto simp: queue_ok_def stamp_of_def delete_conv')
  then have m: "map (stamp_of (AList.delete k seen)) ks = map (stamp_of seen) ks" by simp
  have "sorted (map (stamp_of (AList.delete k seen)) ks)" unfolding m using assms by (simp add: queue_ok_def)
  moreover have "dom (map_of (AList.delete k seen)) = dom (map_of seen) - {k}" by (auto simp: delete_conv' split: if_splits)
  moreover have "stamp_of (AList.delete k seen) i \<le> now" if "i \<in> set ks" for i
    using j [OF that] assms that by (simp add: queue_ok_def)
  ultimately show ?thesis using assms by (auto simp: queue_ok_def)
qed

lemma queue_ok_mono: "queue_ok now order seen \<Longrightarrow> now \<le> now' \<Longrightarrow> queue_ok now' order seen"
  by (force simp: queue_ok_def)

lemma queue_ok_snoc:
  assumes "queue_ok now order seen" and "k \<notin> set order"
  shows "queue_ok now (order @ [k]) (hm_insert k now seen)"
proof -
  have j: "stamp_of (hm_insert k now seen) j = stamp_of seen j" if "j \<in> set order" for j
    using assms(2) that by (auto simp: stamp_of_def)
  then have m: "map (stamp_of (hm_insert k now seen)) order = map (stamp_of seen) order" by simp
  have "stamp_of (hm_insert k now seen) k = now" by (simp add: stamp_of_def)
  moreover have "sorted (map (stamp_of (hm_insert k now seen)) order)" unfolding m using assms by (simp add: queue_ok_def)
  moreover have "stamp_of (hm_insert k now seen) i \<le> now" if "i \<in> set order" for i
    using j [OF that] assms that by (simp add: queue_ok_def)
  ultimately have "sorted (map (stamp_of (hm_insert k now seen)) (order @ [k]))"
    "\<forall>i \<in> set (order @ [k]). stamp_of (hm_insert k now seen) i \<le> now" by (auto simp: sorted_append)
  then show ?thesis using assms by (simp add: queue_ok_def)
qed

text \<open>Dropping at the front keeps the queue, and leaves nothing that has aged.\<close>

lemma drop_aged_ok:
  assumes "queue_ok now order seen" and "drop_aged now ttl order seen = (order', seen')"
  shows "queue_ok now order' seen' \<and> (\<forall>k \<in> set order'. now - stamp_of seen' k < ttl)"
  using assms
proof (induction now ttl order seen rule: drop_aged.induct)
  case (2 now ttl k ks seen)
  from "2.prems"(1) obtain ts where ts: "map_of seen k = Some ts" by (force simp: queue_ok_def)
  show ?case
  proof (cases "ttl \<le> now - ts")
    case True
    with 2 ts show ?thesis by (simp add: queue_ok_tl)
  next
    case False
    have "ts \<le> stamp_of seen j" if "j \<in> set (k # ks)" for j
    proof -
      have "stamp_of seen k = ts" by (simp add: stamp_of_def ts)
      moreover have "\<forall>x \<in> set ks. stamp_of seen k \<le> stamp_of seen x" using "2.prems"(1) by (simp add: queue_ok_def)
      ultimately show ?thesis using that by auto
    qed
    with False have "now - stamp_of seen j < ttl" if "j \<in> set (k # ks)" for j
      using that by (meson diff_le_mono2 le_less_trans not_le)
    with False "2.prems" ts show ?thesis by simp
  qed
qed simp

lemma drop_over_ok:
  "queue_ok now order seen \<Longrightarrow> drop_over cap order seen = (order', seen') \<Longrightarrow> queue_ok now order' seen' \<and> length order' \<le> cap"
proof (induction cap order seen rule: drop_over.induct)
  case (2 cap k ks seen)
  then show ?case using queue_ok_tl [of now k ks seen] by (auto split: if_splits)
qed simp

lemma queue_ok_mem: "queue_ok now order seen \<Longrightarrow> map_of seen k = Some ts \<Longrightarrow> k \<in> set order"
  by (auto simp: queue_ok_def)

text \<open>A recorded key with few keys behind it stays, as long as it has not aged.\<close>

definition held :: "event_key \<Rightarrow> nat \<Rightarrow> nat \<Rightarrow> event_key list \<Rightarrow> (event_key, nat) hmap \<Rightarrow> bool" where
  "held k ts r order seen \<longleftrightarrow> map_of seen k = Some ts \<and> (\<exists>us vs. order = us @ k # vs \<and> length vs \<le> r)"

lemma held_tl: "held k ts r (j # ks) seen \<Longrightarrow> j \<noteq> k \<Longrightarrow> held k ts r ks (AList.delete j seen)"
  unfolding held_def by (auto simp: delete_conv' Cons_eq_append_conv)

lemma drop_aged_held:
  "held k ts r order seen \<Longrightarrow> now - ts < ttl \<Longrightarrow> drop_aged now ttl order seen = (order', seen') \<Longrightarrow> held k ts r order' seen'"
proof (induction now ttl order seen rule: drop_aged.induct)
  case (2 now ttl j ks seen)
  show ?case
  proof (cases "\<exists>t. map_of seen j = Some t \<and> ttl \<le> now - t")
    case True
    with "2.prems" have "j \<noteq> k" by (auto simp: held_def)
    with True 2 show ?thesis by (auto simp: held_tl)
  next
    case False
    with "2.prems" show ?thesis by (auto split: option.splits if_splits)
  qed
qed (simp add: held_def)

lemma drop_over_held:
  "held k ts r order seen \<Longrightarrow> distinct order \<Longrightarrow> Suc r \<le> cap \<Longrightarrow> drop_over cap order seen = (order', seen')
    \<Longrightarrow> held k ts r order' seen'"
proof (induction cap order seen rule: drop_over.induct)
  case (2 cap j ks seen)
  show ?case
  proof (cases "cap < length (j # ks)")
    case True
    with "2.prems" have "j \<noteq> k" by (auto simp: held_def Cons_eq_append_conv)
    with True 2 show ?thesis by (simp add: held_tl)
  next
    case False
    with "2.prems" show ?thesis by simp
  qed
qed (simp add: held_def)

lemma held_snoc: "held k ts r order seen \<Longrightarrow> j \<noteq> k \<Longrightarrow> held k ts (Suc r) (order @ [j]) (hm_insert j t seen)"
  unfolding held_def by auto (metis Suc_le_mono length_append_singleton)

lemma held_mono: "held k ts r order seen \<Longrightarrow> r \<le> r' \<Longrightarrow> held k ts r' order seen"
  unfolding held_def by force

text \<open>One call of the guard.\<close>

lemma not_duplicate:
  assumes "queue_ok now order seen \<and> (\<forall>k \<in> set order. now - stamp_of seen k < ttl)"
    and "\<not> (case map_of seen k of Some ts \<Rightarrow> now - ts < ttl | None \<Rightarrow> False)"
  shows "k \<notin> set order"
proof
  assume k: "k \<in> set order"
  with assms(1) obtain ts where ts: "map_of seen k = Some ts" by (auto simp: queue_ok_def)
  moreover from k assms(1) have "now - stamp_of seen k < ttl" by blast
  ultimately show False using assms(2) by (simp add: stamp_of_def)
qed

lemma check_and_record_effect:
  assumes ok: "guard_ok T se" and "T \<le> now" and r: "check_and_record pb eid now se = (fresh, se')"
  shows "guard_ok now se' \<and> se_ttl_ms se' = se_ttl_ms se \<and> se_cap se' = se_cap se
    \<and> (fresh \<longrightarrow> 0 < se_cap se \<longrightarrow> held (pb, eid) now 0 (se_order se') (se_seen se'))"
proof -
  obtain o1 s1 where d: "drop_aged now (se_ttl_ms se) (se_order se) (se_seen se) = (o1, s1)" by force
  from ok assms(2) have "queue_ok now (se_order se) (se_seen se)" by (simp add: guard_ok_def queue_ok_mono)
  note q = drop_aged_ok [OF this d]
  show ?thesis
  proof (cases fresh)
    case False
    with r d q show ?thesis by (auto simp: check_and_record_def guard_ok_def Let_def split: prod.splits if_splits)
  next
    case True
    obtain o2 s2 where e: "drop_over (se_cap se) (o1 @ [(pb, eid)]) (hm_insert (pb, eid) now s1) = (o2, s2)" by force
    from True r d e have se': "se' = se\<lparr>se_seen := s2, se_order := o2\<rparr>"
      and nd: "\<not> (case map_of s1 (pb, eid) of Some ts \<Rightarrow> now - ts < se_ttl_ms se | None \<Rightarrow> False)"
      by (auto simp: check_and_record_def Let_def split: prod.splits if_splits)
    from not_duplicate [OF q nd] have "(pb, eid) \<notin> set o1" .
    with q have ok2: "queue_ok now (o1 @ [(pb, eid)]) (hm_insert (pb, eid) now s1)" by (simp add: queue_ok_snoc)
    have "held (pb, eid) now 0 (o1 @ [(pb, eid)]) (hm_insert (pb, eid) now s1)" by (auto simp: held_def)
    with drop_over_ok [OF ok2 e] drop_over_held [OF _ _ _ e] ok2 se' show ?thesis
      by (simp add: guard_ok_def queue_ok_def)
  qed
qed

lemma check_and_record_held:
  assumes ok: "guard_ok T se" and "T \<le> now" and r: "check_and_record pb eid now se = (fresh, se')"
    and h: "held k ts n (se_order se) (se_seen se)" and "now - ts < se_ttl_ms se" and "Suc (Suc n) \<le> se_cap se"
  shows "held k ts (Suc n) (se_order se') (se_seen se')"
proof -
  obtain o1 s1 where d: "drop_aged now (se_ttl_ms se) (se_order se) (se_seen se) = (o1, s1)" by force
  from ok assms(2) have "queue_ok now (se_order se) (se_seen se)" by (simp add: guard_ok_def queue_ok_mono)
  note q = drop_aged_ok [OF this d]
  from drop_aged_held [OF h assms(5) d] have h1: "held k ts n o1 s1" .
  show ?thesis
  proof (cases fresh)
    case False
    with r d h1 show ?thesis by (auto simp: check_and_record_def Let_def held_mono split: prod.splits if_splits)
  next
    case True
    obtain o2 s2 where e: "drop_over (se_cap se) (o1 @ [(pb, eid)]) (hm_insert (pb, eid) now s1) = (o2, s2)" by force
    from True r d e have se': "se' = se\<lparr>se_seen := s2, se_order := o2\<rparr>"
      and nd: "\<not> (case map_of s1 (pb, eid) of Some ts \<Rightarrow> now - ts < se_ttl_ms se | None \<Rightarrow> False)"
      by (auto simp: check_and_record_def Let_def split: prod.splits if_splits)
    from nd h1 assms(5) have k: "k \<noteq> (pb, eid)" by (auto simp: held_def)
    from not_duplicate [OF q nd] have "(pb, eid) \<notin> set o1" .
    with q have "distinct (o1 @ [(pb, eid)])" by (simp add: queue_ok_def)
    with drop_over_held [OF held_snoc [OF h1] _ _ e] k assms(6) se' show ?thesis by simp
  qed
qed

lemma check_and_record_dup:
  assumes h: "held (pb, eid) ts n (se_order se) (se_seen se)" and "now - ts < se_ttl_ms se"
  shows "\<not> fst (check_and_record pb eid now se)"
proof -
  obtain o1 s1 where d: "drop_aged now (se_ttl_ms se) (se_order se) (se_seen se) = (o1, s1)" by force
  from drop_aged_held [OF h assms(2) d] d assms(2) show ?thesis by (simp add: check_and_record_def Let_def held_def)
qed

section \<open>Runs of the subscriber\<close>

definition readings :: "delivery \<Rightarrow> nat list" where
  "readings d = (case d of (raw, now, now', inst) \<Rightarrow> [now, now'])"

text \<open>The guards an event has to pass.\<close>

definition passes :: "nat \<Rightarrow> nat \<Rightarrow> cache_event \<Rightarrow> 'k cluster_node \<Rightarrow> bool" where
  "passes now now' event n \<longleftrightarrow>
     (ce_published_at event = 0 \<or>
      ce_published_at event \<le> now + MAX_EVENT_AGE_MS \<and> now \<le> ce_published_at event + MAX_EVENT_AGE_MS)
   \<and> ce_published_by event \<noteq> cn_node_id n
   \<and> peer_event_accepted (cn_allowed_publishers n) (ce_published_by event) (ce_hash event) (ce_plugin event) (ce_target event)
   \<and> fst (accept_once (ce_published_by event) (ce_event_id event) now' (cn_seen n))"

text \<open>An event that passes is one insertion or one invalidation; any other leaves the cache alone.\<close>

lemma apply_event_passes:
  assumes "passes now now' event n"
  shows "apply_event now now' inst event n =
    (let se = snd (accept_once (ce_published_by event) (ce_event_id event) now' (cn_seen n))
     in case event of
          CeIssued h p t cred _ _ _ \<Rightarrow>
            ([], n\<lparr>cn_seen := se, cn_local := insert_by_hash (cn_config n) h p t cred inst (cn_local n)\<rparr>)
        | CeRevoked h p t _ _ _ \<Rightarrow>
            (fst (invalidate_by_hash h p t (cn_local n)), n\<lparr>cn_seen := se, cn_local := snd (invalidate_by_hash h p t (cn_local n))\<rparr>))"
  using assms unfolding passes_def apply_event_def Let_def
  by (cases event) (auto split: prod.splits bool.splits)

lemma apply_event_refused:
  "\<not> passes now now' event n \<Longrightarrow>
    fst (apply_event now now' inst event n) = [] \<and> cn_local (snd (apply_event now now' inst event n)) = cn_local n"
  unfolding passes_def apply_event_def Let_def by (auto split: prod.splits bool.splits if_splits)

lemma apply_event_fields [simp]:
  "cn_node_id (snd (apply_event now now' inst event n)) = cn_node_id n"
  "cn_cipher (snd (apply_event now now' inst event n)) = cn_cipher n"
  "cn_config (snd (apply_event now now' inst event n)) = cn_config n"
  "cn_allowed_publishers (snd (apply_event now now' inst event n)) = cn_allowed_publishers n"
  by (auto simp: apply_event_def Let_def split: prod.splits bool.splits cache_event.splits)

lemma apply_event_seen:
  "cn_seen (snd (apply_event now now' inst event n)) = cn_seen n
   \<or> ce_event_id event \<noteq> [] \<and>
     cn_seen (snd (apply_event now now' inst event n))
       = snd (check_and_record (ce_published_by event) (ce_event_id event) now' (cn_seen n))"
  by (auto simp: apply_event_def accept_once_def Let_def split: prod.splits bool.splits cache_event.splits)

text \<open>The caches a node can have are those of the runs of a cache.\<close>

lemma apply_event_run:
  assumes "cache_run (cn_config n) gs (cn_local n)"
  shows "\<exists>gs'. cache_run (cn_config n) gs' (cn_local (snd (apply_event now now' inst event n)))"
proof (cases "passes now now' event n")
  case True
  then show ?thesis
    using run_insert [OF assms] run_invalidate [OF assms]
    by (cases event) (simp_all add: apply_event_passes Let_def insert_by_hash_def, blast+)
qed (use assms in \<open>auto simp: apply_event_refused\<close>)

definition node_ok :: "nat \<Rightarrow> 'k cluster_node \<Rightarrow> bool" where
  "node_ok now n \<longleftrightarrow> guard_ok now (cn_seen n) \<and> se_ttl_ms (cn_seen n) = 2 * MAX_EVENT_AGE_MS + 60000
     \<and> se_cap (cn_seen n) = MAX_SEEN_EVENTS"

definition node_holds :: "event_key \<Rightarrow> nat \<Rightarrow> nat \<Rightarrow> 'k cluster_node \<Rightarrow> bool" where
  "node_holds k ts r n = held k ts r (se_order (cn_seen n)) (se_seen (cn_seen n))"

lemma node_holds_Suc: "node_holds k ts r n \<Longrightarrow> node_holds k ts (Suc r) n"
  unfolding node_holds_def by (erule held_mono) simp

lemma guard_ok_mono: "guard_ok now se \<Longrightarrow> now \<le> now' \<Longrightarrow> guard_ok now' se"
  unfolding guard_ok_def by (rule queue_ok_mono)

lemma started_ok: "cluster_start env cfg l i topic cipher allowed w = (Inr n, w') \<Longrightarrow> node_ok 0 n \<and> cn_cipher n = cipher"
  by (auto simp: cluster_start_def Let_def node_ok_def guard_ok_def queue_ok_def seen_new_def split: prod.splits sum.splits)

lemma apply_event_ok:
  assumes "node_ok T n" and "T \<le> now'"
  shows "node_ok now' (snd (apply_event now now' inst event n))"
  using apply_event_seen [of now now' inst event n]
proof
  assume "cn_seen (snd (apply_event now now' inst event n)) = cn_seen n"
  then show ?thesis using assms by (auto simp: node_ok_def intro: guard_ok_mono)
next
  assume r: "ce_event_id event \<noteq> [] \<and> cn_seen (snd (apply_event now now' inst event n))
    = snd (check_and_record (ce_published_by event) (ce_event_id event) now' (cn_seen n))"
  obtain fresh se' where c: "check_and_record (ce_published_by event) (ce_event_id event) now' (cn_seen n) = (fresh, se')" by force
  from check_and_record_effect [OF _ assms(2) c] assms(1) r c show ?thesis by (simp add: node_ok_def)
qed

lemma apply_event_holds:
  assumes "node_ok T n" and "T \<le> now'" and "node_holds k ts r n"
    and "now' - ts < 2 * MAX_EVENT_AGE_MS + 60000" and "Suc (Suc r) \<le> MAX_SEEN_EVENTS"
  shows "node_holds k ts (Suc r) (snd (apply_event now now' inst event n))"
  using apply_event_seen [of now now' inst event n]
proof
  assume "cn_seen (snd (apply_event now now' inst event n)) = cn_seen n"
  then show ?thesis using assms(3) held_mono by (auto simp: node_holds_def)
next
  assume s: "ce_event_id event \<noteq> [] \<and> cn_seen (snd (apply_event now now' inst event n))
    = snd (check_and_record (ce_published_by event) (ce_event_id event) now' (cn_seen n))"
  obtain fresh se' where c: "check_and_record (ce_published_by event) (ce_event_id event) now' (cn_seen n) = (fresh, se')" by force
  from check_and_record_held [OF _ assms(2) c, of k ts r] assms s c show ?thesis by (simp add: node_ok_def node_holds_def)
qed

lemma deliver_cases:
  "deliver ec (raw, now, now', inst) n = ([], n) \<or>
   (\<exists>event. decode_event ec (cn_cipher n) raw = Some event \<and> deliver ec (raw, now, now', inst) n = apply_event now now' inst event n)"
  by (auto simp: deliver_def split: option.splits)

lemma deliver_cipher [simp]: "cn_cipher (snd (deliver ec d n)) = cn_cipher n"
  by (auto simp: deliver_def split: option.splits prod.splits)

lemma deliver_all_cipher [simp]: "cn_cipher (deliver_all ec ds n) = cn_cipher n"
  by (induction ds arbitrary: n) (simp_all add: deliver_all_def)

lemma deliver_all_ok:
  assumes "node_ok T n" and "sorted (T # concat (map readings ds))"
  shows "node_ok (last (T # concat (map readings ds))) (deliver_all ec ds n)"
  using assms
proof (induction ds arbitrary: T n)
  case (Cons d ds)
  obtain raw now now' inst where d: "d = (raw, now, now', inst)" by (cases d)
  from Cons.prems(2) d have t: "T \<le> now'" by (auto simp: readings_def)
  have "node_ok now' (snd (deliver ec d n))"
    using deliver_cases [of ec raw now now' inst n] apply_event_ok [OF Cons.prems(1) t] Cons.prems(1) t
    unfolding d by (auto simp: node_ok_def intro: guard_ok_mono)
  from Cons.IH [OF this] Cons.prems(2) d show ?case by (simp add: deliver_all_def readings_def)
qed (simp add: deliver_all_def)

lemma deliver_all_holds:
  assumes "node_ok T n" and "sorted (T # concat (map readings ds))" and "node_holds k ts r n"
    and "\<And>t. t \<in> set (concat (map readings ds)) \<Longrightarrow> t - ts < 2 * MAX_EVENT_AGE_MS + 60000"
    and "Suc (r + length ds) \<le> MAX_SEEN_EVENTS"
  shows "node_holds k ts (r + length ds) (deliver_all ec ds n)"
  using assms
proof (induction ds arbitrary: T n r)
  case (Cons d ds)
  obtain raw now now' inst where d: "d = (raw, now, now', inst)" by (cases d)
  from Cons.prems(2) d have t: "T \<le> now'" by (auto simp: readings_def)
  have "node_ok now' (snd (deliver ec d n)) \<and> node_holds k ts (Suc r) (snd (deliver ec d n))"
    using deliver_cases [of ec raw now now' inst n] apply_event_ok [OF Cons.prems(1) t]
      apply_event_holds [OF Cons.prems(1) t Cons.prems(3)] Cons.prems(1,3,5) Cons.prems(4) [of now'] t node_holds_Suc [of k ts r n]
    unfolding d by (auto simp: node_ok_def readings_def intro: guard_ok_mono)
  then have "node_holds k ts (Suc r + length ds) (deliver_all ec ds (snd (deliver ec d n)))"
    using Cons.prems(2,4,5) d by (intro Cons.IH) (auto simp: readings_def)
  then show ?case by (simp add: deliver_all_def)
qed (simp add: deliver_all_def)

lemma last_le_sorted: "sorted (x # xs @ y # ys) \<Longrightarrow> last (x # xs) \<le> (y :: nat)"
  by (cases xs rule: rev_cases) (auto simp: sorted_append)

lemma sorted_Cons_append_mono: "sorted (concat (map readings (before @ ds))) \<Longrightarrow> sorted (0 # concat (map readings before))"
  by (simp add: sorted_append)

text \<open>What travels from one node to another.\<close>

lemma encode_decode:
  assumes "crypto_ok (cl_crypto env)" and "encode_event env a event w = (Inr raw, w')" and "cn_cipher b = cn_cipher a"
    and "cn_cipher a = None \<Longrightarrow> \<not> looks_like_envelope (cl_crypto env) raw"
  shows "decode_event (cl_crypto env) (cn_cipher b) raw = Some event"
proof (cases "cn_cipher a")
  case None
  with assms(2) have "ec_event_to_vec (cl_crypto env) event = Inr raw" by (simp add: encode_event_def)
  with assms(1) have "ec_event_from_slice (cl_crypto env) raw = Inr event" unfolding crypto_ok_def by blast
  with None assms(3,4) show ?thesis by (simp add: decode_event_def)
next
  case (Some c)
  with assms(2) have "encrypt_event (cl_crypto env) c event w = (Inr raw, w')"
    by (auto simp: encode_event_def split: prod.splits sum.splits)
  from event_roundtrip [OF assms(1) this] Some assms(3) show ?thesis by (simp add: decode_event_def)
qed

section \<open>Properties\<close>

text \<open>
  C25. A peer's event takes effect at most once, whoever repeats it: once an event that carries a timestamp and
  an id has been applied, no later delivery of an event with that publisher, id and timestamp changes the
  cache or notifies a subscriber, as long as the wall clock does not go back, fewer than \<open>MAX_SEEN_EVENTS\<close>
  messages arrive in between, and less than a minute passes between the freshness check and the replay
  guard. The lifetime of a record in the guard outlasts the two-sided freshness window by exactly that
  minute.
\<close>

theorem peer_event_applied_once:
  assumes start: "cluster_start env cfg l i topic cipher allowed w = (Inr n0, w')"
    and clock: "sorted (concat (map readings (before @ (raw, t1, t1', i1) # mids @ [(raw', t2, t2', i2)])))"
    and few: "length mids < MAX_SEEN_EVENTS" and quick: "t2' < t2 + 60000"
    and dec: "decode_event ec cipher raw = Some e" "decode_event ec cipher raw' = Some e'"
    and same: "ce_published_by e' = ce_published_by e" "ce_event_id e' = ce_event_id e" "ce_published_at e' = ce_published_at e"
    and stamped: "ce_published_at e \<noteq> 0" "ce_event_id e \<noteq> []"
    and first: "passes t1 t1' e (deliver_all ec before n0)"
  defines "n2 \<equiv> deliver_all ec (before @ (raw, t1, t1', i1) # mids) n0"
  shows "fst (deliver ec (raw', t2, t2', i2) n2) = [] \<and> cn_local (snd (deliver ec (raw', t2, t2', i2) n2)) = cn_local n2"
proof -
  let ?k = "(ce_published_by e, ce_event_id e)"
  define n where "n = deliver_all ec before n0"
  define n1 where "n1 = snd (apply_event t1 t1' i1 e n)"
  from started_ok [OF start] have ok0: "node_ok 0 n0" and cip: "cn_cipher n0 = cipher" by simp_all
  have d1: "deliver ec (raw, t1, t1', i1) n = apply_event t1 t1' i1 e n"
    and d2: "deliver ec (raw', t2, t2', i2) n2 = apply_event t2 t2' i2 e' n2"
    using dec cip by (simp_all add: deliver_def n_def n2_def)
  have n2: "n2 = deliver_all ec mids n1" using d1 by (simp add: n2_def n1_def deliver_all_def n_def)
  let ?T = "last (0 # concat (map readings before))"
  have okn: "node_ok ?T n"
    unfolding n_def using deliver_all_ok [OF ok0] sorted_Cons_append_mono [OF clock] by blast
  have T: "?T \<le> t1'" and t1: "t1 \<le> t1'" and mid: "\<forall>t \<in> set (concat (map readings mids)). t1' \<le> t \<and> t \<le> t2'"
    and t2: "t1' \<le> t2'" and sb: "sorted (t1' # concat (map readings mids))"
    using clock last_le_sorted [of 0 "concat (map readings before)" t1 "t1' # concat (map readings mids)"]
    by (auto simp: readings_def sorted_append)
  from apply_event_ok [OF okn T] have ok1: "node_ok t1' n1" by (simp add: n1_def)
  have h1: "node_holds ?k t1' 0 n1"
  proof -
    obtain se' where c: "check_and_record (ce_published_by e) (ce_event_id e) t1' (cn_seen n) = (True, se')"
      using first stamped by (cases "check_and_record (ce_published_by e) (ce_event_id e) t1' (cn_seen n)")
        (auto simp: passes_def accept_once_def n_def)
    have "cn_seen n1 = se'"
      using first stamped c by (cases e) (auto simp: n1_def n_def apply_event_passes accept_once_def Let_def)
    with check_and_record_effect [OF _ T c] okn show ?thesis by (simp add: node_ok_def node_holds_def MAX_SEEN_EVENTS_def)
  qed
  have "\<not> passes t2 t2' e' n2"
  proof
    assume p: "passes t2 t2' e' n2"
    have age: "t2' - t1' < 2 * MAX_EVENT_AGE_MS + 60000"
      using p first same stamped quick t1 unfolding passes_def by linarith
    with mid have "t - t1' < 2 * MAX_EVENT_AGE_MS + 60000" if "t \<in> set (concat (map readings mids))" for t
      using that by (meson diff_le_mono le_less_trans)
    from deliver_all_holds [OF ok1 sb h1 this] few have "node_holds ?k t1' (length mids) n2" by (simp add: n2)
    moreover have "se_ttl_ms (cn_seen n2) = 2 * MAX_EVENT_AGE_MS + 60000"
      using deliver_all_ok [OF ok1 sb, of ec] unfolding n2 node_ok_def by blast
    ultimately have "\<not> fst (check_and_record (ce_published_by e) (ce_event_id e) t2' (cn_seen n2))"
      using check_and_record_dup age by (simp add: node_holds_def)
    with p same stamped show False by (simp add: passes_def accept_once_def)
  qed
  then show ?thesis unfolding d2 by (rule apply_event_refused)
qed

text \<open>
  Peers share credentials and revocations. When a node issues a credential and a peer with the same key
  (or both without one) and the same key attributes receives the message and its guards let it pass, then
  that peer serves every caller with the same identity hash with this credential, without calling the
  issuer, until the capped lifetime counted from the receipt is over. When a node invalidates a credential
  and the message passes at the peer, the peer has no such entry any more and has told each of its
  subscribers.
\<close>

theorem cluster_shares_credentials:
  fixes inst :: nat
  assumes ok: "crypto_ok (cl_crypto env)" and peer: "cn_cipher b = cn_cipher a"
    "cc_key_attributes (cn_config b) = cc_key_attributes (cn_config a)"
    and plain: "cn_cipher a = None \<Longrightarrow> \<not> looks_like_envelope (cl_crypto env) raw"
    and enc: "encode_event env a event w2 = (Inr raw, w3)" and pass: "passes now now' event b"
  defines "b' \<equiv> snd (deliver (cl_crypto env) (raw, now, now', inst) b)"
  shows "(issued_event env a i p t cred w1 = (event, w2) \<longrightarrow>
      cl_hash env j (cc_key_attributes (cn_config b)) = cl_hash env i (cc_key_attributes (cn_config b)) \<longrightarrow>
      cl_instant env w < inst + min (1000 * cd_ttl_seconds cred) (cc_max_cache_ttl (cn_config b)) \<longrightarrow>
      (\<exists>b''. cluster_get_or_issue env p issue j t plugin_cfg b' w = (Inr cred, b'', w)))
    \<and> (revoked_event env a i p t w1 = (event, w2) \<longrightarrow>
      fst (try_get (cl_hash env) (cn_config b) i p t later (cn_local b')) = None
      \<and> fst (deliver (cl_crypto env) (raw, now, now', inst) b) = map (\<lambda>s. (s, p, t)) (ca_subscribers (cn_local b)))"
proof -
  from encode_decode [OF ok enc peer(1) plain] have d: "deliver (cl_crypto env) (raw, now, now', inst) b = apply_event now now' inst event b"
    by (simp add: deliver_def)
  show ?thesis
  proof (intro conjI impI)
    assume ev: "issued_event env a i p t cred w1 = (event, w2)"
      and hash: "cl_hash env j (cc_key_attributes (cn_config b)) = cl_hash env i (cc_key_attributes (cn_config b))"
      and live: "cl_instant env w < inst + min (1000 * cd_ttl_seconds cred) (cc_max_cache_ttl (cn_config b))"
    from ev obtain at eid where "event = CeIssued (cl_hash env i (cc_key_attributes (cn_config a))) p t cred (cn_node_id a) at eid"
      by (auto simp: issued_event_def split: prod.splits)
    with apply_event_passes [OF pass] d peer(2)
    have "cn_config b' = cn_config b" and "cn_local b' = cache_insert (cn_config b) (cache_key_of (cl_hash env) (cn_config b) i p t) cred inst (cn_local b)"
      by (simp_all add: b'_def Let_def insert_by_hash_def cache_key_of_def)
    with hash live show "\<exists>b''. cluster_get_or_issue env p issue j t plugin_cfg b' w = (Inr cred, b'', w)"
      by (simp add: cluster_get_or_issue_def try_get_def cache_key_of_def cache_lookup_def cache_insert_def Let_def)
  next
    assume ev: "revoked_event env a i p t w1 = (event, w2)"
    then obtain at eid where "event = CeRevoked (cl_hash env i (cc_key_attributes (cn_config a))) p t (cn_node_id a) at eid"
      by (auto simp: revoked_event_def split: prod.splits)
    with apply_event_passes [OF pass] d peer(2)
    show "fst (try_get (cl_hash env) (cn_config b) i p t later (cn_local b')) = None"
      and "fst (deliver (cl_crypto env) (raw, now, now', inst) b) = map (\<lambda>s. (s, p, t)) (ca_subscribers (cn_local b))"
      by (simp_all add: b'_def Let_def try_get_def cache_key_of_def cache_lookup_def invalidate_by_hash_def notify_revoked_def delete_conv')
  qed
qed

section \<open>Witnesses\<close>

definition sample_secret :: issued_credential where
  "sample_secret = \<lparr>cd_value = Some ''s'', cd_parts = [], cd_ttl_seconds = 60, cd_lease_id = None\<rparr>"

definition sample_issued :: cache_event where
  "sample_issued = CeIssued ''h'' ''vault'' ''db'' sample_secret ''n1'' 1000000 ''e1''"

definition sample_withdrawn :: cache_event where
  "sample_withdrawn = CeRevoked ''h'' ''vault'' ''db'' ''n1'' 1000000 ''e1''"

text \<open>The world is the wall-clock time; every message is accepted.\<close>

definition sample_cluster :: "(nat, string) cluster_env" where
  "sample_cluster = \<lparr>cl_crypto = sample_crypto sample_issued sample_withdrawn, cl_hash = (\<lambda>i attrs. ''h''), cl_unix_ms = (\<lambda>w. w),
     cl_instant = (\<lambda>w. w), cl_event_id = (\<lambda>w. (''e1'', w)), cl_publish = (\<lambda>topic payload w. (Inr (), w)),
     cl_subscribe = (\<lambda>topic w. (Inr (), w))\<rparr>"

definition sample_node :: "string \<Rightarrow> string cluster_node" where
  "sample_node i = \<lparr>cn_config = default_cache_config, cn_local = cache_new, cn_node_id = i, cn_topic = DEFAULT_CACHE_EVENT_TOPIC,
     cn_cipher = None, cn_allowed_publishers = [], cn_seen = seen_new (2 * MAX_EVENT_AGE_MS + 60000) MAX_SEEN_EVENTS\<rparr>"

lemma sample_start:
  "cluster_start sample_cluster default_cache_config cache_new i None None [] 0 = (Inr (sample_node i), 0)"
  by (simp add: cluster_start_def sample_cluster_def sample_node_def unwrap_or_def)

lemma sample_passes: "passes 1000100 1000100 sample_issued (sample_node ''n2'')" "passes 1000100 1000100 sample_withdrawn (sample_node ''n2'')"
  by (simp_all add: passes_def sample_issued_def sample_withdrawn_def sample_node_def MAX_EVENT_AGE_MS_def
      peer_event_accepted_def accept_once_def check_and_record_def seen_new_def MAX_SEEN_EVENTS_def Let_def hm_insert_def)

lemma sample_decodes: "decode_event (sample_crypto sample_issued sample_withdrawn) None ''0'' = Some sample_issued"
  by (simp add: decode_event_def looks_like_envelope_def sample_crypto_def Let_def)

theorem peer_event_applied_once_witness:
  "fst (deliver (cl_crypto sample_cluster) (''0'', 1300000, 1300000, 5)
      (deliver_all (cl_crypto sample_cluster) [(''0'', 1000100, 1000100, 3)] (sample_node ''n2''))) = []"
proof -
  have "decode_event (cl_crypto sample_cluster) None ''0'' = Some sample_issued"
    using sample_decodes by (simp add: sample_cluster_def)
  note once = peer_event_applied_once [OF sample_start [of "''n2''"], of "[]" "''0''" 1000100 1000100 3 "[]" "''0''" 1300000 1300000 5,
      OF _ _ _ this this]
  show ?thesis
    using once sample_passes(1)
    by (simp add: readings_def MAX_SEEN_EVENTS_def sample_issued_def deliver_all_def)
qed

theorem cluster_shares_credentials_witness:
  "\<exists>n. cluster_get_or_issue sample_cluster ''vault'' (\<lambda>i t c. pure_fut (Inl ())) sample_identity ''db'' JNull
     (snd (deliver (cl_crypto sample_cluster) (''0'', 1000100, 1000100, 7) (sample_node ''n2''))) 8 = (Inr sample_secret, n, 8)"
proof -
  have e: "encode_event sample_cluster (sample_node ''n1'') sample_issued 1000000 = (Inr ''0'', 1000000)"
    by (simp add: encode_event_def sample_node_def sample_cluster_def sample_crypto_def Let_def)
  have i: "issued_event sample_cluster (sample_node ''n1'') sample_identity ''vault'' ''db'' sample_secret 1000000 = (sample_issued, 1000000)"
    by (simp add: issued_event_def sample_cluster_def sample_issued_def sample_node_def)
  have k: "crypto_ok (cl_crypto sample_cluster)" by (simp add: sample_cluster_def sample_crypto_ok)
  have p: "\<not> looks_like_envelope (cl_crypto sample_cluster) ''0''"
    by (simp add: looks_like_envelope_def sample_cluster_def sample_crypto_def Let_def)
  show ?thesis
    by (rule cluster_shares_credentials [OF k _ _ p e sample_passes(1), THEN conjunct1, rule_format, OF _ _ i])
      (simp_all add: sample_node_def sample_cluster_def sample_secret_def default_cache_config_def)
qed

end
