(* ===== verification/Span_Sampling.thy ===== *)
theory Span_Sampling
  imports "HOL-Library.Word"
begin

text \<open>
  The span sampler (\<open>span_sampling.rs\<close>): the process-wide threshold, the counter that seeds each thread and
  the thread's xorshift generator, on 32-bit words. Scaling the operator's rate to a threshold is
  floating-point arithmetic and is left out: a threshold is any word.
\<close>

unbundle bit_operations_syntax

record sampler =
  sm_threshold :: "32 word"
  sm_seed_counter :: "32 word"

definition sampler_init :: sampler where
  "sampler_init = \<lparr>sm_threshold = - 1, sm_seed_counter = 0x9E3779B9\<rparr>"

definition current_threshold :: "sampler \<Rightarrow> 32 word" where
  "current_threshold g = sm_threshold g"

text \<open>The thread's cell is initialised by its first use.\<close>

definition thread_seed :: "sampler \<Rightarrow> 32 word \<times> sampler" where
  "thread_seed g =
     (let raw = sm_seed_counter g
      in (if raw = 0 then 0xDEADBEEF else raw, g\<lparr>sm_seed_counter := raw + 0x9E3779B9\<rparr>))"

definition xorshift32 :: "32 word \<Rightarrow> 32 word" where
  "xorshift32 x0 =
     (let x1 = x0 XOR push_bit 13 x0;
          x2 = x1 XOR drop_bit 17 x1
      in x2 XOR push_bit 5 x2)"

definition should_sample_plugin_call :: "sampler \<Rightarrow> 32 word option \<Rightarrow> bool \<times> sampler \<times> 32 word option" where
  "should_sample_plugin_call g cell =
     (let threshold = sm_threshold g in
      if threshold = - 1 then (True, g, cell)
      else if threshold = 0 then (False, g, cell)
      else (let (state, g1) = (case cell of Some x \<Rightarrow> (x, g) | None \<Rightarrow> thread_seed g);
                r = xorshift32 state
            in (r < threshold, g1, Some r)))"

section \<open>The generator never gets stuck at zero\<close>

lemma xor_push_bit_zero:
  fixes x :: "'a::len word"
  assumes "0 < k" and "x XOR push_bit k x = 0"
  shows "x = 0"
proof -
  have eq: "bit x n = bit (push_bit k x) n" for n
    using assms(2) by (metis bit_xor_iff bit_0_eq bot_apply bot_bool_def)
  have "\<not> bit x n" for n
  proof (induction n rule: less_induct)
    case (less n)
    then show ?case using eq [of n] assms(1) by (auto simp: bit_push_bit_iff)
  qed
  then show ?thesis by (simp add: bit_eq_iff)
qed

lemma xor_drop_bit_zero:
  fixes x :: "'a::len word"
  assumes "0 < k" and "x XOR drop_bit k x = 0"
  shows "x = 0"
proof -
  have eq: "bit x n = bit x (n + k)" for n
    using assms(2) by (metis bit_xor_iff bit_0_eq bot_apply bot_bool_def bit_drop_bit_eq comp_apply add.commute)
  have "\<not> bit x n" for n
  proof (induction "LENGTH('a) - n" arbitrary: n rule: less_induct)
    case less
    show ?case
    proof (cases "n < LENGTH('a)")
      case True
      then have "\<not> bit x (n + k)" using assms(1) by (intro less) simp
      with eq [of n] show ?thesis by simp
    next
      case False
      then show ?thesis by (meson bit_imp_le_length)
    qed
  qed
  then show ?thesis by (simp add: bit_eq_iff)
qed

lemma xorshift32_nonzero: "x \<noteq> 0 \<Longrightarrow> xorshift32 x \<noteq> 0"
  unfolding xorshift32_def Let_def using xor_push_bit_zero xor_drop_bit_zero by (metis zero_less_numeral)

lemma xorshift32_xor: "xorshift32 (x XOR y) = xorshift32 x XOR xorshift32 y"
  unfolding xorshift32_def Let_def by (simp add: push_bit_xor drop_bit_xor xor.assoc xor.left_commute)

lemma xorshift32_inject: "xorshift32 x = xorshift32 y \<longleftrightarrow> x = y"
proof
  assume "xorshift32 x = xorshift32 y"
  then have "xorshift32 (x XOR y) = 0" by (simp add: xorshift32_xor)
  then have "x XOR y = 0" using xorshift32_nonzero by blast
  then show "x = y" by (simp add: bit_eq_iff bit_xor_iff)
qed simp

lemma bij_xorshift32: "bij xorshift32"
  by (simp add: bij_def finite_UNIV_inj_surj inj_on_def xorshift32_inject)

text \<open>
  The sampler keeps its generator alive: a thread's state is never zero, neither after seeding
  (whatever the shared counter has wrapped to) nor after any number of calls, and the step is a
  permutation of the 32-bit words, so no state is favoured by merging. The thresholds at both ends are
  exact: at the maximum every call is sampled, at zero none is, and neither touches the generator.
\<close>

theorem sampler_generator_stays_alive:
  "(cell \<noteq> Some 0 \<longrightarrow> snd (snd (should_sample_plugin_call g cell)) \<noteq> Some 0)
    \<and> fst (thread_seed g) \<noteq> 0 \<and> bij xorshift32
    \<and> (sm_threshold g = - 1 \<longrightarrow> should_sample_plugin_call g cell = (True, g, cell))
    \<and> (sm_threshold g = 0 \<longrightarrow> should_sample_plugin_call g cell = (False, g, cell))"
  by (auto simp: should_sample_plugin_call_def thread_seed_def Let_def bij_xorshift32 xorshift32_nonzero
      split: option.splits)

theorem sampler_generator_stays_alive_witness:
  "snd (snd (should_sample_plugin_call (sampler_init\<lparr>sm_threshold := 7\<rparr>) None)) \<noteq> Some 0"
  using sampler_generator_stays_alive [of None "sampler_init\<lparr>sm_threshold := 7\<rparr>"] by simp

end
