(* ===== verification/Native_Sinks.thy ===== *)
theory Native_Sinks
  imports Native_Ffi Gate_Chain
begin

text \<open>
  The adapters of \<open>native_loader.rs\<close> for audit, log, telemetry and metrics sinks. Audit records need an
  acknowledgement that decodes; the three others are best effort and drop what does not get through.
\<close>

section \<open>Vtables and codecs\<close>

record 'w audit_vtable = "'w base_vtable" +
  auv_emit :: "nat \<Rightarrow> string \<Rightarrow> ('w, string) ffi_slot"
  auv_flush :: "nat \<Rightarrow> nat \<Rightarrow> ('w, string) ffi_slot"

record 'w log_vtable = "'w base_vtable" +
  lov_emit :: "nat \<Rightarrow> string \<Rightarrow> ('w, unit) ffi_slot"
  lov_flush :: "nat \<Rightarrow> nat \<Rightarrow> ('w, string) ffi_slot"

record 'w telemetry_vtable = "'w base_vtable" +
  tev_span_started :: "nat \<Rightarrow> string \<Rightarrow> ('w, unit) ffi_slot"
  tev_span_ended :: "nat \<Rightarrow> string \<Rightarrow> ('w, unit) ffi_slot"
  tev_metric_recorded :: "nat \<Rightarrow> string \<Rightarrow> ('w, unit) ffi_slot"
  tev_log_recorded :: "nat \<Rightarrow> string \<Rightarrow> ('w, unit) ffi_slot"
  tev_flush :: "nat \<Rightarrow> nat \<Rightarrow> ('w, string) ffi_slot"

record 'w metrics_vtable = "'w base_vtable" +
  mev_emit :: "nat \<Rightarrow> string \<Rightarrow> ('w, unit) ffi_slot"
  mev_flush :: "nat \<Rightarrow> nat \<Rightarrow> ('w, string) ffi_slot"
  mev_render_text_exposition :: "nat \<Rightarrow> ('w, string) ffi_slot"

text \<open>
  The protocol's coding: an audit event, the answer to \<open>emit\<close> (\<open>None\<close> when it does not decode), and
  \<open>decode_result_envelope\<close> for the two kinds of errors.
\<close>

record sink_env = ffi_env +
  sk_event :: "audit_event \<Rightarrow> string option"
  sk_receipt :: "string \<Rightarrow> (audit_error + audit_receipt) option"
  sk_audit_envelope :: "string \<Rightarrow> (string, audit_error + unit) rresult"
  sk_envelope :: "string \<Rightarrow> (string, sink_error + unit) rresult"

section \<open>Dispatch\<close>

text \<open>What a value that does not serialise becomes.\<close>

definition encode_to_rstring_via_arena :: "('v \<Rightarrow> string option) \<Rightarrow> 'v \<Rightarrow> string" where
  "encode_to_rstring_via_arena to_writer v = unwrap_or ''{}'' (to_writer v)"

definition dispatch_audit_emit_via_vtable ::
  "sink_env \<Rightarrow> (string \<Rightarrow> ('w, string) ffi_slot) \<Rightarrow> string \<Rightarrow> audit_event \<Rightarrow> ffi_limits \<Rightarrow> ('w, audit_error + audit_receipt) fut" where
  "dispatch_audit_emit_via_vtable se vtable_fn plugin_id event limits =
     (let failed = (\<lambda>what. Inl (AuditWriteFailed (''native plugin '' @ quoted plugin_id @ what)))
      in ferry (fl_data_timeout limits) (vtable_fn (encode_to_rstring_via_arena (sk_event se) event))
           (\<lambda>r. case r of
                  Joined raw \<Rightarrow>
                    if raw = [] then failed '' panicked''
                    else (case sk_receipt se raw of Some answer \<Rightarrow> answer | None \<Rightarrow> failed '' returned malformed response'')
                | JoinError e \<Rightarrow> failed '' panicked''
                | Elapsed \<Rightarrow> Inl AuditTimeout))"

text \<open>\<open>flush\<close> of all four classes, with the variants of their error types.\<close>

definition dispatch_flush ::
  "(string \<Rightarrow> 'e) \<Rightarrow> 'e \<Rightarrow> (string \<Rightarrow> (string, 'e + unit) rresult) \<Rightarrow> (nat \<Rightarrow> ('w, string) ffi_slot) \<Rightarrow> string \<Rightarrow> nat
    \<Rightarrow> ffi_limits \<Rightarrow> ('w, 'e + unit) fut" where
  "dispatch_flush failed elapsed envelope vtable_fn plugin_id timeout_ms limits =
     ferry (fl_control_timeout limits) (vtable_fn timeout_ms)
       (\<lambda>r. case r of
              Joined raw \<Rightarrow>
                (case envelope raw of
                   Inr answer \<Rightarrow> answer
                 | Inl e \<Rightarrow> Inl (failed (''native plugin '' @ quoted plugin_id @ '' returned undecodable flush envelope: '' @ e)))
            | JoinError e \<Rightarrow> Inl (failed (''native plugin '' @ quoted plugin_id @ '' panicked during flush''))
            | Elapsed \<Rightarrow> Inl elapsed)"

definition dispatch_audit_flush_via_vtable ::
  "sink_env \<Rightarrow> (nat \<Rightarrow> ('w, string) ffi_slot) \<Rightarrow> string \<Rightarrow> nat \<Rightarrow> ffi_limits \<Rightarrow> ('w, audit_error + unit) fut" where
  "dispatch_audit_flush_via_vtable se = dispatch_flush AuditWriteFailed AuditTimeout (sk_audit_envelope se)"

definition dispatch_sink_flush_via_vtable ::
  "sink_env \<Rightarrow> (nat \<Rightarrow> ('w, string) ffi_slot) \<Rightarrow> string \<Rightarrow> nat \<Rightarrow> ffi_limits \<Rightarrow> ('w, sink_error + unit) fut" where
  "dispatch_sink_flush_via_vtable se = dispatch_flush SinkBackend SinkTimeout (sk_envelope se)"

definition dispatch_log_emit_via_vtable ::
  "sink_env \<Rightarrow> (string \<Rightarrow> ('w, unit) ffi_slot) \<Rightarrow> json \<Rightarrow> bool \<Rightarrow> ffi_limits \<Rightarrow> ('w, unit) fut" where
  "dispatch_log_emit_via_vtable se vtable_fn rec inline_fast limits =
     (let slot = vtable_fn (encode_to_rstring_via_arena (fe_to_string se) rec)
      in if inline_fast then ready_fut (fs_inline slot) else ferry (fl_data_timeout limits) slot (\<lambda>_. ()))"

definition dispatch_telemetry_emit_via_vtable ::
  "sink_env \<Rightarrow> (string \<Rightarrow> ('w, unit) ffi_slot) \<Rightarrow> json \<Rightarrow> ffi_limits \<Rightarrow> ('w, unit) fut" where
  "dispatch_telemetry_emit_via_vtable se vtable_fn payload limits =
     ferry (fl_data_timeout limits) (vtable_fn (encode_to_rstring_via_arena (fe_to_string se) payload)) (\<lambda>_. ())"

definition dispatch_metrics_emit_via_vtable ::
  "sink_env \<Rightarrow> (string \<Rightarrow> ('w, unit) ffi_slot) \<Rightarrow> json \<Rightarrow> ffi_limits \<Rightarrow> ('w, unit) fut" where
  "dispatch_metrics_emit_via_vtable se vtable_fn metric limits =
     ferry (fl_data_timeout limits) (vtable_fn (encode_to_rstring_via_arena (fe_to_string se) metric)) (\<lambda>_. ())"

definition render_text_exposition :: "('w metrics_vtable, unit) native_adapter \<Rightarrow> ('w, string option) fut" where
  "render_text_exposition a =
     ferry (fl_control_timeout (na_limits a)) (mev_render_text_exposition (na_vtable a) (na_handle a))
       (\<lambda>r. case r of Joined out \<Rightarrow> if out = [] then None else Some out | _ \<Rightarrow> None)"

section \<open>Adapters\<close>

text \<open>\<open>timeout.as_millis().min(u64::MAX)\<close>.\<close>

definition flush_millis :: "nat \<Rightarrow> nat" where
  "flush_millis timeout = min timeout (2 ^ 64 - 1)"

definition audit_from_vtable ::
  "ffi_env \<Rightarrow> ffi_limits \<Rightarrow> 'w audit_vtable \<Rightarrow> json \<Rightarrow> string
    \<Rightarrow> 'w \<Rightarrow> (anyhow, ('w audit_vtable, unit) native_adapter) rresult \<times> 'w" where
  "audit_from_vtable fe limits vt config alias w =
     plain_from_vtable fe limits ''audit_sink'' ''native audit_sink plugin returned empty manifest JSON''
       ''invalid manifest from native audit_sink plugin'' vt None config alias w"

definition native_audit_sink :: "sink_env \<Rightarrow> ('w audit_vtable, unit) native_adapter \<Rightarrow> 'w audit_sink" where
  "native_audit_sink se a =
     \<lparr>as_manifest = na_manifest a,
      as_emit = (\<lambda>event. dispatch_audit_emit_via_vtable se (auv_emit (na_vtable a) (na_handle a)) (m_id (na_manifest a)) event (na_limits a)),
      as_flush = (\<lambda>timeout_ms. dispatch_audit_flush_via_vtable se (auv_flush (na_vtable a) (na_handle a)) (m_id (na_manifest a))
        timeout_ms (na_limits a)),
      as_shutdown = adapter_shutdown a\<rparr>"

definition log_from_vtable ::
  "ffi_env \<Rightarrow> ffi_limits \<Rightarrow> 'w log_vtable \<Rightarrow> json \<Rightarrow> string
    \<Rightarrow> 'w \<Rightarrow> (anyhow, ('w log_vtable, unit) native_adapter) rresult \<times> 'w" where
  "log_from_vtable fe limits vt config alias w =
     plain_from_vtable fe limits ''log_sink'' ''native log_sink plugin returned empty manifest JSON''
       ''invalid manifest from native log_sink plugin'' vt None config alias w"

definition native_log_sink :: "sink_env \<Rightarrow> ('w log_vtable, unit) native_adapter \<Rightarrow> 'w event_sink" where
  "native_log_sink se a =
     \<lparr>es_manifest = na_manifest a,
      es_event = (\<lambda>kind rec. dispatch_log_emit_via_vtable se (lov_emit (na_vtable a) (na_handle a)) rec (na_inline_fast a) (na_limits a)),
      es_render = ready_fut (\<lambda>w. (None, w)),
      es_flush = (\<lambda>timeout. dispatch_sink_flush_via_vtable se (lov_flush (na_vtable a) (na_handle a)) (m_id (na_manifest a))
        (flush_millis timeout) (na_limits a)),
      es_shutdown = adapter_shutdown a\<rparr>"

definition telemetry_from_vtable ::
  "ffi_env \<Rightarrow> ffi_limits \<Rightarrow> 'w telemetry_vtable \<Rightarrow> json \<Rightarrow> string
    \<Rightarrow> 'w \<Rightarrow> (anyhow, ('w telemetry_vtable, unit) native_adapter) rresult \<times> 'w" where
  "telemetry_from_vtable fe limits vt config alias w =
     plain_from_vtable fe limits ''telemetry_sink'' ''native telemetry_sink plugin returned empty manifest JSON''
       ''invalid manifest from native telemetry_sink plugin'' vt None config alias w"

text \<open>The four methods of the trait, by name.\<close>

definition telemetry_slot :: "'w telemetry_vtable \<Rightarrow> string \<Rightarrow> nat \<Rightarrow> string \<Rightarrow> ('w, unit) ffi_slot" where
  "telemetry_slot vt method =
     (if method = ''span_started'' then tev_span_started vt
      else if method = ''span_ended'' then tev_span_ended vt
      else if method = ''metric_recorded'' then tev_metric_recorded vt
      else tev_log_recorded vt)"

definition native_telemetry_sink :: "sink_env \<Rightarrow> ('w telemetry_vtable, unit) native_adapter \<Rightarrow> 'w event_sink" where
  "native_telemetry_sink se a =
     \<lparr>es_manifest = na_manifest a,
      es_event = (\<lambda>method payload. dispatch_telemetry_emit_via_vtable se (telemetry_slot (na_vtable a) method (na_handle a)) payload (na_limits a)),
      es_render = ready_fut (\<lambda>w. (None, w)),
      es_flush = (\<lambda>timeout. dispatch_sink_flush_via_vtable se (tev_flush (na_vtable a) (na_handle a)) (m_id (na_manifest a))
        (flush_millis timeout) (na_limits a)),
      es_shutdown = adapter_shutdown a\<rparr>"

definition metrics_from_vtable ::
  "ffi_env \<Rightarrow> ffi_limits \<Rightarrow> 'w metrics_vtable \<Rightarrow> json \<Rightarrow> string
    \<Rightarrow> 'w \<Rightarrow> (anyhow, ('w metrics_vtable, unit) native_adapter) rresult \<times> 'w" where
  "metrics_from_vtable fe limits vt config alias w =
     plain_from_vtable fe limits ''metrics_sink'' ''native metrics_sink plugin returned empty manifest JSON''
       ''invalid manifest from native metrics_sink plugin'' vt None config alias w"

definition native_metrics_sink :: "sink_env \<Rightarrow> ('w metrics_vtable, unit) native_adapter \<Rightarrow> 'w event_sink" where
  "native_metrics_sink se a =
     \<lparr>es_manifest = na_manifest a,
      es_event = (\<lambda>kind metric. dispatch_metrics_emit_via_vtable se (mev_emit (na_vtable a) (na_handle a)) metric (na_limits a)),
      es_render = render_text_exposition a,
      es_flush = (\<lambda>timeout. dispatch_sink_flush_via_vtable se (mev_flush (na_vtable a) (na_handle a)) (m_id (na_manifest a))
        (flush_millis timeout) (na_limits a)),
      es_shutdown = adapter_shutdown a\<rparr>"

lemma sink_constructors_accounted:
  "ledger_ok live (auv :: 'w audit_vtable) \<Longrightarrow> accounted live w na_handle (audit_from_vtable fe limits auv config alias w)"
  "ledger_ok live (lov :: 'w log_vtable) \<Longrightarrow> accounted live w na_handle (log_from_vtable fe limits lov config alias w)"
  "ledger_ok live (tev :: 'w telemetry_vtable) \<Longrightarrow> accounted live w na_handle (telemetry_from_vtable fe limits tev config alias w)"
  "ledger_ok live (mev :: 'w metrics_vtable) \<Longrightarrow> accounted live w na_handle (metrics_from_vtable fe limits mev config alias w)"
  by (simp_all add: audit_from_vtable_def log_from_vtable_def telemetry_from_vtable_def metrics_from_vtable_def plain_accounted)

section \<open>Acknowledged records\<close>

lemma emit_to_sinks_acknowledged:
  assumes "s \<in> set sinks" and "serving s" and "accepts (lp_policy s) (ev_action event)" and "sk_gating (lp_policy s)"
    and "\<And>x. x \<in> set (fst (emit_to_sinks rt event sinks w)) \<Longrightarrow> is_ok (ar_result x)"
  shows "\<exists>v receipt. fst (await (as_emit (lp_instance s) event) v) = Inr receipt"
  using assms(1,5)
proof (induction sinks arbitrary: w)
  case (Cons q qs)
  show ?case
  proof (cases "q = s")
    case True
    obtain a w1 where a: "await (as_emit (lp_instance s) event) w = (a, w1)" by fastforce
    with True assms(2-4) have "\<lparr>ar_sink_id = m_id (lp_manifest s), ar_result = a\<rparr> \<in> set (fst (emit_to_sinks rt event (q # qs) w))"
      by (simp add: Let_def case_prod_beta)
    from Cons.prems(2) [OF this] a show ?thesis by (cases a) (auto intro!: exI [of _ w])
  next
    case False
    have "\<exists>w'. set (fst (emit_to_sinks rt event qs w')) \<subseteq> set (fst (emit_to_sinks rt event (q # qs) w))"
      by (cases "try_acquire rt (lp_alias q) w"; cases "fst (try_acquire rt (lp_alias q) w)") (auto simp: Let_def case_prod_beta)
    then obtain w' where "set (fst (emit_to_sinks rt event qs w')) \<subseteq> set (fst (emit_to_sinks rt event (q # qs) w))" by blast
    with Cons False show ?thesis by (metis set_ConsD subsetD)
  qed
qed simp

lemma enforced_acknowledged:
  assumes en: "emit_audit_event_enforced env rt r event FailClosed w = (Inr results, w')"
    and s: "s \<in> set (audit_sinks r)" "sk_gating (lp_policy s)" "accepts (lp_policy s) (ev_action event)"
  shows "\<exists>v receipt. fst (await (as_emit (lp_instance s) (prepare_event env r event)) v) = Inr receipt"
proof -
  have "\<not> list_ex (\<lambda>x. is_err (ar_result x)) (fst (emit_audit_event env rt r event w))"
    using en by (auto simp: emit_audit_event_enforced_def Let_def case_prod_beta split: if_splits)
  then have "is_ok (ar_result x)" if "x \<in> set (fst (emit_to_sinks rt (prepare_event env r event) (audit_sinks r) w))" for x
    using that by (cases "ar_result x") (force simp: list_ex_iff emit_audit_event_def)+
  moreover have "serving s" using enforced_ok_serving [OF en s] .
  ultimately show ?thesis using emit_to_sinks_acknowledged [OF s(1)] s by (metis prepare_event_action)
qed

text \<open>The answers that acknowledge a record, and an adapter that never gets one.\<close>

definition acknowledges :: "sink_env \<Rightarrow> string ferried \<Rightarrow> audit_receipt \<Rightarrow> bool" where
  "acknowledges se r receipt \<longleftrightarrow> (\<exists>raw. r = Joined raw \<and> raw \<noteq> [] \<and> sk_receipt se raw = Some (Inr receipt))"

definition silent :: "sink_env \<Rightarrow> ('w audit_vtable, unit) native_adapter \<Rightarrow> bool" where
  "silent se a \<longleftrightarrow> (\<forall>x t v rc. \<not> acknowledges se (fst (fs_ferried (auv_emit (na_vtable a) (na_handle a) x) t v)) rc)"

lemma native_emit_exact:
  "fst (await (as_emit (native_audit_sink se a) event) w) = Inr receipt \<longleftrightarrow>
    acknowledges se (fst (fs_ferried (auv_emit (na_vtable a) (na_handle a) (unwrap_or ''{}'' (sk_event se event)))
      (fl_data_timeout (na_limits a)) w)) receipt"
  by (auto simp: native_audit_sink_def dispatch_audit_emit_via_vtable_def Let_def acknowledges_def
      encode_to_rstring_via_arena_def split: ferried.splits option.splits)

lemma silent_sink_loses_record:
  assumes "upstream_keeps_action env" "audit_request_policy r = FailClosed"
    and s: "s \<in> set (audit_sinks r)" "sk_gating (lp_policy s)" "accepts (lp_policy s) act"
    and native: "lp_instance s = native_audit_sink se a" "silent se a" and mk: "\<And>st. ev_action (mk st) = act"
  shows "emit_record env rt r ctx upstream mk v \<noteq> (None, w')"
proof
  assume "emit_record env rt r ctx upstream mk v = (None, w')"
  with emit_record_kept [of env rt r ctx upstream mk v act] assms obtain e w0 results where
    "ev_action e = act" "emit_audit_event_enforced env rt r e FailClosed w0 = (Inr results, w')" by auto
  from enforced_acknowledged [OF this(2) s(1,2)] this(1) s(3) native show False
    using native_emit_exact unfolding silent_def by metis
qed

section \<open>Properties\<close>

text \<open>
  C11. A native audit sink acknowledges a record only by an answer that decodes to a receipt: a timeout, a
  dead thread, an empty string and anything that does not decode are errors. So when one gating sink that
  takes the action is native and its slot never gives such an answer, then under \<open>fail_closed\<close> with call
  auditing no call is allowed before the tool and no result released after it.
\<close>

theorem native_audit_needs_receipt:
  fixes a :: "('w audit_vtable, unit) native_adapter"
  shows "(fst (await (as_emit (native_audit_sink se a) event) w) = Inr receipt \<longleftrightarrow>
      acknowledges se (fst (fs_ferried (auv_emit (na_vtable a) (na_handle a) (unwrap_or ''{}'' (sk_event se event)))
        (fl_data_timeout (na_limits a)) w)) receipt)
    \<and> (upstream_keeps_action env \<longrightarrow> audit_request_policy r = FailClosed \<longrightarrow> s \<in> set (audit_sinks r) \<longrightarrow> sk_gating (lp_policy s) \<longrightarrow>
        lp_instance s = native_audit_sink se a \<longrightarrow> silent se a \<longrightarrow>
        (audit_emit_tool_call_allowed r \<longrightarrow> accepts (lp_policy s) ''mcpg.tool.call.allowed'' \<longrightarrow>
          evaluate_tool_gates_pre_from env rt r ctx arguments meta upstream client_ip w \<noteq> (Allow md ma mr, w'))
      \<and> (audit_emit_tool_call_completed r \<longrightarrow> accepts (lp_policy s) ''mcpg.tool.call.completed'' \<longrightarrow>
          evaluate_tool_gates_post env rt r ctx arguments res ms upstream w \<noteq> (Allow md ma mr, w')))"
proof (intro conjI impI native_emit_exact notI)
  assume h: "upstream_keeps_action env" "audit_request_policy r = FailClosed" "s \<in> set (audit_sinks r)" "sk_gating (lp_policy s)"
    "lp_instance s = native_audit_sink se a" "silent se a"
  note lost = silent_sink_loses_record [OF h(1-4) _ h(5,6)]
  {
    assume on: "audit_emit_tool_call_allowed r" "accepts (lp_policy s) ''mcpg.tool.call.allowed''"
      and ev: "evaluate_tool_gates_pre_from env rt r ctx arguments meta upstream client_ip w = (Allow md ma mr, w')"
    from pre_allow_emits [OF on(1) ev] obtain n chain v where
      "emit_record env rt r ctx upstream (\<lambda>st. tool_gate_allowed_event st ctx n chain) v = (None, w')" by blast
    with lost [OF on(2)] show False by simp
  }
  assume on: "audit_emit_tool_call_completed r" "accepts (lp_policy s) ''mcpg.tool.call.completed''"
    and ev: "evaluate_tool_gates_post env rt r ctx arguments res ms upstream w = (Allow md ma mr, w')"
  from post_allow_emits [OF on(1) ev] obtain n chain v where
    "emit_record env rt r ctx upstream (\<lambda>st. tool_gate_completed_event st ctx n ms chain) v = (None, w')" by blast
  with lost [OF on(2)] show False by simp
qed

text \<open>A sink that answers with an empty string, as one that panicked does.\<close>

definition mute_slot :: "('w, string) ffi_slot" where
  "mute_slot = \<lparr>fs_inline = (\<lambda>w. ([], w)), fs_caught = (\<lambda>w. (Some [], w)), fs_ferried = (\<lambda>t w. (Joined [], w))\<rparr>"

definition mute_sink :: "(trace audit_vtable, unit) native_adapter" where
  "mute_sink = new_adapter \<lparr>fl_lifecycle_timeout = 1, fl_control_timeout = 1, fl_data_timeout = 1, fl_max_payload_bytes = 1\<rparr>
     \<lparr>bv_make = (\<lambda>r c n w. (Some 1, w)), bv_manifest_json = (\<lambda>h w. (Some ''{}'', w)),
      bv_shutdown = (\<lambda>h w. (Some (), w)), bv_drop_instance = (\<lambda>h w. (Some (), w)),
      auv_emit = (\<lambda>h x. mute_slot), auv_flush = (\<lambda>h n. mute_slot)\<rparr> 1 (sample_manifest ''mute'') ''mute'' ()"

definition sample_sink_env :: sink_env where
  "sample_sink_env = \<lparr>fe_to_string = (\<lambda>j. Some ''x''), fe_manifest = (\<lambda>s. Inr (sample_manifest s)), sk_event = (\<lambda>e. Some ''e''),
     sk_receipt = (\<lambda>s. Some (Inr JNull)), sk_audit_envelope = (\<lambda>s. Inr (Inr ())), sk_envelope = (\<lambda>s. Inr (Inr ()))\<rparr>"

definition mute_registry :: "trace registry" where
  "mute_registry = registry_new\<lparr>audit_sinks := [\<lparr>lp_alias = ''mute'', lp_manifest = sample_manifest ''mute'', lp_tier = [],
     lp_state = Active, lp_instance = native_audit_sink sample_sink_env mute_sink, lp_policy = audit_sink_policy_default\<rparr>],
     audit_request_policy := FailClosed\<rparr>"

theorem native_audit_needs_receipt_witness:
  "evaluate_tool_gates_pre_from sample_env sample_runtime mute_registry sample_context JNull None None None [] \<noteq> (Allow None None None, [])"
proof -
  have "silent sample_sink_env mute_sink"
    by (simp add: silent_def acknowledges_def mute_sink_def mute_slot_def)
  with native_audit_needs_receipt [where se = sample_sink_env and a = mute_sink and r = mute_registry and env = sample_env
      and s = "hd (audit_sinks mute_registry)" and rt = sample_runtime and ctx = sample_context and arguments = JNull
      and meta = None and upstream = None and client_ip = None and w = "[]" and md = None and ma = None and mr = None
      and w' = "[]", THEN conjunct2, THEN mp, OF sample_env_keeps_action]
  show ?thesis
    by (simp add: mute_registry_def registry_new_def audit_sink_policy_default_def audit_sink_policy_new_def accepts_def)
qed

end
