(* ===== verification/Native_Transport.thy ===== *)
theory Native_Transport
  imports Native_Stores
begin

text \<open>
  The adapter of \<open>native_loader.rs\<close> for transports: the start of a listener with the callback through which
  the plugin dispatches its messages into the host, and the handle of the listener. The dispatcher is a
  parameter, as are the decoders of the protocol.
\<close>

section \<open>The dispatcher callback\<close>

datatype dispatcher_error = InvalidMessage string | DispatcherInternal string | OtherDispatcherError json

record dispatch_response =
  dr_reply :: "string option"
  dr_stream :: bool

record transport_env = ffi_env +
  te_message :: "string \<Rightarrow> (string, string) rresult"
  te_error_json :: "dispatcher_error \<Rightarrow> json"
  te_start_meta :: "string \<Rightarrow> (string option) option"

definition bytes_json :: "string \<Rightarrow> json" where
  "bytes_json b = JArray (map (\<lambda>c. JNumber (int (of_char c))) b)"

text \<open>The reply for what the dispatcher answered; a reply with a stream is refused, an absent one is empty.\<close>

fun reply_wire :: "transport_env \<Rightarrow> (dispatcher_error, dispatch_response) rresult \<Rightarrow> json" where
  "reply_wire te (Inl err) = json_obj [(''err'', te_error_json te err)]"
| "reply_wire te (Inr r) =
     (if dr_stream r then json_obj [(''err'', te_error_json te (DispatcherInternal ''streaming reply not supported across FFI''))]
      else json_obj [(''ok'', json_obj [(''bytes'', bytes_json (unwrap_or [] (dr_reply r)))])])"

definition dispatcher_bridge_callback ::
  "transport_env \<Rightarrow> (string \<Rightarrow> string \<Rightarrow> ('w, (dispatcher_error, dispatch_response) rresult) fut) \<Rightarrow> string \<Rightarrow> string \<Rightarrow> 'w \<Rightarrow> string \<times> 'w" where
  "dispatcher_bridge_callback te dispatch session_id message_json w =
     (case te_message te message_json of
        Inl e \<Rightarrow> (unwrap_or [] (fe_to_string te (json_obj [(''err'', te_error_json te (InvalidMessage (''malformed dispatch message_json: '' @ e)))])), w)
      | Inr bytes \<Rightarrow>
          (let (r, w1) = await (dispatch session_id bytes) w in (unwrap_or [] (fe_to_string te (reply_wire te r)), w1)))"

section \<open>Listeners\<close>

datatype transport_error = TransportIo string | OtherTransportError json

record start_answer =
  sa_handle :: nat
  sa_error_json :: string
  sa_metadata_json :: string

record 'w transport_vtable = "'w base_vtable" +
  trv_name :: "nat \<Rightarrow> 'w \<Rightarrow> string \<times> 'w"
  trv_start :: "nat \<Rightarrow> string \<Rightarrow> ('w, start_answer) ffi_slot"
  trv_close :: "nat \<Rightarrow> nat \<Rightarrow> ('w, unit) ffi_slot"
  trv_drop :: "nat \<Rightarrow> nat \<Rightarrow> 'w \<Rightarrow> 'w"
  trv_listen_address :: "nat \<Rightarrow> nat \<Rightarrow> ('w, string) ffi_slot"

definition transport_from_vtable ::
  "'x ffi_env_scheme \<Rightarrow> ffi_limits \<Rightarrow> 'w transport_vtable \<Rightarrow> json \<Rightarrow> string
    \<Rightarrow> 'w \<Rightarrow> (anyhow, ('w transport_vtable, string) native_adapter) rresult \<times> 'w" where
  "transport_from_vtable te limits vt config alias w =
     bind_made (make_instance (ffi_env.truncate te) ''transport'' ''native transport plugin returned empty manifest''
         ''invalid manifest from transport plugin'' vt None config alias w)
       (\<lambda>(h, raw, m) w1.
          bind_made (read_slot vt h (trv_name vt h) (non_empty ''native transport plugin returned empty name'') w1)
            (\<lambda>name w2. (Inr (new_adapter limits vt h m alias name), w2)))"

record transport_handle =
  th_handle :: nat
  th_listen_address :: "string option"

text \<open>The address in the metadata, when there is one and it is not empty.\<close>

definition listen_address_of :: "transport_env \<Rightarrow> string \<Rightarrow> string option" where
  "listen_address_of te metadata_json =
     (if metadata_json = [] then None
      else (case te_start_meta te metadata_json of
              Some (Some a) \<Rightarrow> if a = [] then None else Some a
            | _ \<Rightarrow> None))"

definition transport_start ::
  "transport_env \<Rightarrow> (string \<Rightarrow> transport_error option) \<Rightarrow> ('w transport_vtable, string) native_adapter \<Rightarrow> json \<Rightarrow> 'w
    \<Rightarrow> (transport_error, transport_handle) rresult \<times> 'w" where
  "transport_start te error_of a listener_config w =
     (let said = native_said (m_id (na_manifest a))
      in case fs_caught (trv_start (na_vtable a) (na_handle a) (unwrap_or ''{}'' (fe_to_string te listener_config))) w of
           (None, w1) \<Rightarrow> (Inl (TransportIo (said '' panicked during start'')), w1)
         | (Some r, w1) \<Rightarrow>
             (if sa_handle r = 0
              then Inl (unwrap_or (TransportIo (said '' returned undecodable error'')) (error_of (sa_error_json r)))
              else Inr \<lparr>th_handle = sa_handle r, th_listen_address = listen_address_of te (sa_metadata_json r)\<rparr>, w1))"

text \<open>The plugin is asked only when the address was not in the answer to \<open>start\<close>.\<close>

definition transport_listen_address ::
  "('w transport_vtable, string) native_adapter \<Rightarrow> transport_handle \<Rightarrow> 'w \<Rightarrow> string option \<times> 'w" where
  "transport_listen_address a th w =
     (case th_listen_address th of
        Some addr \<Rightarrow> (Some addr, w)
      | None \<Rightarrow>
          (case fs_caught (trv_listen_address (na_vtable a) (na_handle a) (th_handle th)) w of
             (None, w1) \<Rightarrow> (None, w1)
           | (Some raw, w1) \<Rightarrow> (if raw = [] then None else Some raw, w1)))"

definition transport_close :: "('w transport_vtable, string) native_adapter \<Rightarrow> transport_handle \<Rightarrow> 'w \<Rightarrow> 'w" where
  "transport_close a th w = snd (fs_caught (trv_close (na_vtable a) (na_handle a) (th_handle th)) w)"

definition transport_drop :: "('w transport_vtable, string) native_adapter \<Rightarrow> transport_handle \<Rightarrow> 'w \<Rightarrow> 'w" where
  "transport_drop a th w = trv_drop (na_vtable a) (na_handle a) (th_handle th) w"

lemma transport_accounted:
  assumes "ledger_ok live vt" and "\<And>h. undisturbed live (trv_name vt h)"
  shows "accounted live w na_handle (transport_from_vtable te limits vt config alias w)"
  unfolding transport_from_vtable_def by (rule accounted_made [OF assms])

end
