(* ===== verification/Native_Instances.thy ===== *)
theory Native_Instances
  imports Native_Chains Native_Sinks Native_Load Native_Services Native_Cluster Native_Transport
begin

text \<open>
  What the constructors of all native adapters and the two manifest probes have in common: an instance of the
  plugin exists afterwards exactly when somebody owns it.
\<close>

lemma cache_accounted:
  assumes ok: "ledger_ok live vt" and "\<And>h. undisturbed live (cav_supported_namespaces_json vt h)"
    and any: "\<And>h. undisturbed live (cav_serves_any_namespace vt h)"
  shows "accounted live w na_handle (cache_from_vtable ce limits vt config alias w)"
  unfolding cache_from_vtable_def
proof (rule accounted_bind [OF make_instance_accounted [OF ok]])
  fix a :: "nat \<times> string \<times> manifest" and w1
  assume h: "fst a \<noteq> 0" "fst a \<notin> live w" "live w1 = insert (fst a) (live w)"
  have "accounted live w na_handle (let (b, w3) = cav_serves_any_namespace vt (fst a) w2
      in (Inr (new_adapter limits vt (fst a) (snd (snd a)) alias (x, b \<noteq> 0)), w3))"
    if "live w2 = insert (fst a) (live w)" for x w2
    using h that undisturbedD [OF any [of "fst a"], of w2] by (auto simp: accounted_def split: prod.split)
  with h show "accounted live w na_handle ((\<lambda>(h, raw, m) w1.
      bind_made (read_slot vt h (cav_supported_namespaces_json vt h) (parsed ''invalid supported_namespaces JSON'' (kc_namespaces ce)) w1)
        (\<lambda>x w2. let (any, w3) = cav_serves_any_namespace vt h w2
                in (Inr (new_adapter limits vt h m alias (x, any \<noteq> 0)), w3))) a w1)"
    unfolding case_prod_beta by (intro accounted_bind [OF read_slot_accounted [OF ok assms(2)]]) auto
qed

section \<open>Properties\<close>

text \<open>
  C24. No constructor of a native adapter loses an instance. Whatever the plugin answers (no handle, no
  manifest, one that does not parse, an empty or malformed name, kind or list), a constructor of any of the
  twenty-one classes that fails leaves the set of live instances as it was, and one that succeeds adds exactly the
  instance of the handle it returns. The instances that are made only to read a manifest, before a load and
  for the registration policy, are gone in every case. The hypotheses say what \<open>make\<close>, the reading slots and
  \<open>drop_instance\<close> do to that set.
\<close>

theorem native_constructors_leave_no_instance:
  "(ledger_ok live tg \<longrightarrow> accounted live w na_handle (tool_gate_from_vtable fe limits tg config alias w))
    \<and> (ledger_ok live tf \<longrightarrow> accounted live w na_handle (transform_from_vtable fe limits tf config alias w))
    \<and> (ledger_ok live idp \<longrightarrow> accounted live w na_handle (identity_from_vtable fe limits idp cluster config alias w))
    \<and> (ledger_ok live pe \<and> (\<forall>h. undisturbed live (pev_name pe h)) \<longrightarrow> accounted live w na_handle (policy_from_vtable pe_env limits pe cluster config alias w))
    \<and> (ledger_ok live au \<longrightarrow> accounted live w na_handle (audit_from_vtable fe limits au config alias w))
    \<and> (ledger_ok live lo \<longrightarrow> accounted live w na_handle (log_from_vtable fe limits lo config alias w))
    \<and> (ledger_ok live te \<longrightarrow> accounted live w na_handle (telemetry_from_vtable fe limits te config alias w))
    \<and> (ledger_ok live me \<longrightarrow> accounted live w na_handle (metrics_from_vtable fe limits me config alias w))
    \<and> (ledger_ok live wa \<and> (\<forall>h. undisturbed live (wv_kind wa h)) \<longrightarrow> accounted live w na_handle (watch_from_vtable we limits yaml wa config alias w))
    \<and> (ledger_ok live st \<and> (\<forall>h. undisturbed live (stv_supported_roles_json st h)) \<longrightarrow> accounted live w na_handle (store_from_vtable se limits st config alias w))
    \<and> (ledger_ok live ca \<and> (\<forall>h. undisturbed live (cav_supported_namespaces_json ca h)) \<and> (\<forall>h. undisturbed live (cav_serves_any_namespace ca h)) \<longrightarrow>
        accounted live w na_handle (cache_from_vtable ke limits ca config alias w))
    \<and> (ledger_ok live sc \<and> (\<forall>h. undisturbed live (scv_supported_schemes_json sc h)) \<longrightarrow>
        accounted live w na_handle (secret_from_vtable pv limits sc config alias w) \<and> accounted live w na_handle (config_from_vtable pv limits sc config alias w))
    \<and> (ledger_ok live bk \<and> (\<forall>h. undisturbed live (bkv_kind bk h)) \<longrightarrow> accounted live w na_handle (backend_from_vtable be limits profile bk config alias w))
    \<and> (ledger_ok live co \<and> (\<forall>h. undisturbed live (cov_kind co h)) \<longrightarrow> accounted live w na_handle (content_from_vtable ce limits co config alias w))
    \<and> (ledger_ok live hr \<and> (\<forall>h. undisturbed live (hrv_routes_json hr h)) \<longrightarrow> accounted live w na_handle (http_route_from_vtable he limits hr config alias w))
    \<and> (ledger_ok live ci \<longrightarrow> accounted live w na_handle (issuer_from_vtable fe limits ci config alias w))
    \<and> (ledger_ok live an \<longrightarrow> accounted live w na_handle (notifier_from_vtable fe limits an config alias w))
    \<and> (ledger_ok live ct \<longrightarrow> accounted live w na_handle (catalog_from_vtable fe limits ct config alias w))
    \<and> (ledger_ok live cl \<longrightarrow> accounted live w na_handle (cluster_from_vtable ne limits cl config alias w))
    \<and> (ledger_ok live tr \<and> (\<forall>h. undisturbed live (trv_name tr h)) \<longrightarrow> accounted live w na_handle (transport_from_vtable tenv limits tr config alias w))
    \<and> (list_all (\<lambda>e. ledger_ok live (snd e)) (pr_entities reg) \<longrightarrow>
        live (snd (derive_manifest le reg w)) = live w \<and> live (snd (peek_manifest_from_loaded le reg config w)) = live w)"
  unfolding secret_from_vtable_def config_from_vtable_def
  by (intro conjI impI; (elim conjE)?; (rule chain_constructors_accounted policy_accounted sink_constructors_accounted watch_accounted
      store_accounted cache_accounted scheme_accounted backend_accounted content_accounted service_constructors_accounted
      cluster_accounted transport_accounted derive_live); force simp: list_all_iff)

text \<open>A plugin that counts its instances and has no name: it is refused as a policy engine and accepted as a gate.\<close>

definition counting_base :: "nat list base_vtable" where
  "counting_base = \<lparr>bv_make = (\<lambda>r c n w. (Some (Suc (sum_list w)), Suc (sum_list w) # w)), bv_manifest_json = (\<lambda>h w. (Some ''{}'', w)),
     bv_shutdown = (\<lambda>h w. (Some (), w)), bv_drop_instance = (\<lambda>h w. (Some (), removeAll h w))\<rparr>"

definition counting_gate :: "nat list tool_gate_vtable" where
  "counting_gate = base_vtable.extend counting_base
     (tool_gate_vtable.fields (\<lambda>h c x m y. hung_slot (Allow None None None)) (\<lambda>h c x m n y. hung_slot (Allow None None None)))"

definition nameless_policy :: "nat list policy_vtable" where
  "nameless_policy = base_vtable.extend counting_base (policy_vtable.fields (\<lambda>h w. ([], w)) (\<lambda>h x. hung_slot []) (\<lambda>h. hung_slot []))"

lemma counting_ok: "ledger_ok set counting_gate" "ledger_ok set nameless_policy" "undisturbed set (pev_name nameless_policy h)"
proof -
  have "Suc (sum_list w) \<notin> set w" for w :: "nat list" using member_le_sum_list [of "Suc (sum_list w)" w] by auto
  then show "ledger_ok set counting_gate" "ledger_ok set nameless_policy" "undisturbed set (pev_name nameless_policy h)"
    by (simp_all add: ledger_ok_def undisturbed_def counting_gate_def nameless_policy_def counting_base_def base_vtable.defs
        tool_gate_vtable.defs policy_vtable.defs guard_ffi_make_def)
qed

theorem native_constructors_leave_no_instance_witness:
  "accounted set [5] na_handle (tool_gate_from_vtable (ffi_env.truncate sample_policy_env) sample_limits counting_gate JNull ''g'' [5])
   \<and> set (snd (policy_from_vtable sample_policy_env sample_limits nameless_policy None JNull ''p'' [5])) = {5}"
proof -
  note law = native_constructors_leave_no_instance [where live = set and w = "[5]" and tg = counting_gate and pe = nameless_policy
      and fe = "ffi_env.truncate sample_policy_env" and pe_env = sample_policy_env and limits = sample_limits and config = JNull]
  have "accounted set [5] na_handle (tool_gate_from_vtable (ffi_env.truncate sample_policy_env) sample_limits counting_gate JNull ''g'' [5])"
    using law [THEN conjunct1] counting_ok(1) by (rule mp)
  moreover have "accounted set [5] na_handle (policy_from_vtable sample_policy_env sample_limits nameless_policy None JNull ''p'' [5])"
    using law [THEN conjunct2, THEN conjunct2, THEN conjunct2, THEN conjunct1] counting_ok(2,3) by blast
  moreover have "is_err (fst (policy_from_vtable sample_policy_env sample_limits nameless_policy None JNull ''p'' [5]))"
    by (simp add: policy_from_vtable_def make_instance_def nameless_policy_def counting_base_def base_vtable.defs policy_vtable.defs
        guard_ffi_make_def guard_ffi_rstring_def sample_policy_env_def ffi_env.defs bind_made_def read_slot_def non_empty_def
        refuse_instance_def to_string_or_def)
  ultimately show ?thesis by (auto simp: accounted_def split: sum.splits)
qed

end
