(* ===== verification/Spec2Isabelle.thy ===== *)
theory Spec2Isabelle
  imports Request_Chains Drain Health_Prober Shutdown Registry_Run Identity_Relay Package Firstparty Secret_Watcher Docker_Credentials Host_Callbacks Event_Fanout Audit_Builders Wasm Cluster_Metering
    Secret_Resolver Credential_Resolver Cluster_Tenant Cluster_Encryption Clustered_Cache Span_Sampling Native_Instances
begin

text \<open>
  \<^bold>\<open>mcpg-plugin-host: verification of the plugin host.\<close>

  The crate (all paths are under \<open>src/src\<close>) is the runtime that a gateway uses to load plugins and to route
  requests through them. A registry holds the registered plugins of twenty-one classes with their
  lifecycle states and bindings; a request passes an identity chain, transforms, tool gates before and after the
  tool, policy engines and an audit fan-out; around it are the check of artifacts before they are loaded,
  packages, descriptors, resolution of secret and credential references, a credential cache, the bridge
  through which a plugin calls back into the host, a health prober, draining and shutdown.

  \<^bold>\<open>Theories and what they model.\<close>
  \<^item> \<open>Host_Prelude\<close>: results (\<open>error + value\<close>), string functions of the standard library, ordered and hash
    maps as association lists, shared lemma collections. \<open>Json\<close>: JSON values and \<open>merge_json_objects\<close>.
    \<open>Json_Walk\<close>: positions in a JSON value. \<open>Bytes\<close>: \<open>str::trim\<close>, UTF-8 validity, hexadecimal digits, big-endian
    bytes. \<open>Files\<close>: paths and a file system. \<open>Protocol\<close>: the types of the plugin protocol crate that the host
    handles. \<open>Samples\<close>: concrete plugins for the witnesses.
  \<^item> \<open>Lifecycle\<close> (\<open>lifecycle.rs\<close>): states, their codes, the transition table, \<open>Lifecycle\<close> and
    \<open>AtomicPluginState\<close>.
  \<^item> \<open>Registry_State\<close>, \<open>Metering\<close>, \<open>Registration\<close>, \<open>Bindings\<close>, \<open>Registry_Admin\<close>, \<open>Manifest_Caps\<close>,
    \<open>Resolve_Access\<close> (\<open>registry.rs\<close>, \<open>*_metering.rs\<close>, \<open>uri_routing.rs\<close>): the record \<open>PluginRegistry\<close>, the
    decorators it wraps plugins in, all \<open>register_*\<close> operations, \<open>bind_*\<close> and the auto-bind sweeps, operator and
    prober actions, listings, manifest capabilities and the per-alias allowlists. \<open>Registry_Run\<close> is the step relation of
    all these operations and its invariants.
  \<^item> \<open>Audit_Fanout\<close>, \<open>Audit_Events\<close>, \<open>Audit_Builders\<close> (\<open>registry.rs\<close>, \<open>audit_events.rs\<close>): sink filters, attribute
    digests, emission under \<open>fail_open\<close> and \<open>fail_closed\<close>, the builders of the events and the cap on text a client
    chose. \<open>Event_Fanout\<close> (\<open>registry.rs\<close>): telemetry, log and metrics fan-out, the lookups of mounted and
    named plugins, approval notifiers.
  \<^item> \<open>Chain_Loop\<close>, \<open>Gate_Chain\<close>, \<open>Request_Chains\<close> (\<open>registry.rs\<close>): one generic loop over serving plugins with
    early exit, and its four uses: tool gates, transforms, identity, policy.
  \<^item> \<open>Drain\<close>, \<open>Health_Prober\<close>, \<open>Shutdown\<close> (\<open>registry.rs\<close>, \<open>health_prober.rs\<close>): in-flight guards and
    \<open>DrainToken::wait\<close> as an interleaving of atomic steps, the prober's cycle, \<open>shutdown_all\<close>.
  \<^item> \<open>Identity_Relay\<close> (\<open>identity_sig.rs\<close>, \<open>host_bridge.rs\<close>): tags on relayed identities, dispatch numbers, and the
    callbacks that act for a caller. \<open>Host_Callbacks\<close> (the rest of \<open>host_bridge.rs\<close>, \<open>host_services.rs\<close>, \<open>plugin_log.rs\<close>): the
    host services and their stubs, late binding, subscriptions, log records.
  \<^item> \<open>Credential_Cache\<close> (\<open>credential_cache.rs\<close>), \<open>Resolver_Events\<close>, \<open>Secret_Resolver\<close> (\<open>secret_resolver.rs\<close>),
    \<open>Credential_Resolver\<close> (\<open>credential_resolver.rs\<close>): the cache as a run of lookups, insertions and
    invalidations, and the two walks over configuration values. \<open>Secret_Watcher\<close> (\<open>secret_watcher.rs\<close>): the
    subscriptions to rotations and the debouncing of a burst.
  \<^item> \<open>Artifact_Trust\<close> (\<open>verify.rs\<close>, \<open>signature.rs\<close>, \<open>revocation.rs\<close>, \<open>native.rs\<close>), \<open>Descriptor\<close>
    (\<open>descriptor.rs\<close>), \<open>Package\<close> (\<open>package.rs\<close>), \<open>Firstparty\<close> (\<open>firstparty.rs\<close>): from an archive to a registered
    plugin. \<open>Oci\<close> (\<open>oci.rs\<close>) and \<open>Docker_Credentials\<close> (\<open>docker_credentials.rs\<close>): references, push and pull of a package
    against a registry, and the credentials a pull sends.
  \<^item> \<open>Cluster_Api\<close>: the key-value store and the bus of the cluster backend, whose contract is the locale
    \<open>kv_contract\<close>. \<open>Cluster_Tenant\<close> (\<open>cluster_tenant.rs\<close>) and \<open>Cluster_Encryption\<close> (\<open>cluster_encryption.rs\<close>) are decorators
    that keep it. \<open>Event_Cipher\<close> (\<open>credential_cache_cipher.rs\<close>) is the envelope, \<open>Clustered_Cache\<close>
    (\<open>credential_cache_clustered.rs\<close>) the cache shared by the nodes, with its replay guard.
  \<^item> \<open>Span_Sampling\<close> (\<open>span_sampling.rs\<close>): the sampler.
  \<^item> \<open>native_loader.rs\<close>: \<open>Native_Ffi\<close> has the budgets, the ways a slot of a vtable is called, the construction of an
    instance and its lifetime against abandoned calls; \<open>Native_Load\<close> the load of a library, from the artifact check over
    the second hash to the manifest; \<open>Native_Chains\<close>, \<open>Native_Sinks\<close>, \<open>Native_Stores\<close>, \<open>Native_Backend\<close> (with \<open>Per_Profile\<close>),
    \<open>Native_Services\<close>, \<open>Native_Cluster\<close> and \<open>Native_Transport\<close> the adapters of the twenty-one classes; \<open>Native_Streams\<close> the
    bridges over which a plugin emits, and watches; \<open>Native_Instances\<close> what all constructors have in common. The adapters
    of gates, transforms, identity providers, policy engines and audit sinks are values of the plugin records of
    \<open>Protocol\<close>, so the theorems on the chains apply to them, and the store of a coordinator is a \<open>kv_store\<close>.
  \<^item> \<open>Wasm\<close> (\<open>wasm.rs\<close>): the types of the component interface, limits and stores, the epoch ticker, loading, and the
    adapters of gates, transforms and identity providers, which are plugin records of \<open>Protocol\<close> too.
  \<^item> \<open>Metered_Calls\<close>, \<open>Cluster_Metering\<close> (\<open>*_metering.rs\<close>): what the methods of the decorators record and what a call
    into a native plugin records; the audit events of a leadership. The contract of a decorator is the locale
    \<open>metered_object\<close>.

  \<^bold>\<open>Conventions.\<close> Calls into plugins and other code outside the repository take the state of the world and return
  it with their answer, so that their order and effects are visible in every statement. Fallible operations
  return \<open>error + value\<close>. An \<open>Arc\<close> to a plugin is the plugin's record of functions. A state cell is stored
  decoded; its codes are in \<open>Lifecycle\<close>. Counters keep their width: the in-flight counter and the dispatch
  counter are 64-bit words, the prober's streak and the sampler's state 32-bit words. Durations are in
  milliseconds. Log lines are left out, and metrics everywhere but in \<open>Metered_Calls\<close> and \<open>Cluster_Metering\<close>.

  \<^bold>\<open>Parameters.\<close> Code that is not in the repository is an argument: the environment of a request (\<open>host_env\<close>), the
  audit runtime (\<open>runtime\<close>), keyed hash and serialisation (\<open>tagger\<close>), SHA-256 (\<open>hasher\<close>) and Ed25519, the zip format,
  the YAML parser (\<open>descriptor_env\<close>), the grammars of secret and credential references, the
  identity hash, host services, authenticated encryption and base64 (\<open>event_crypto\<close>), the clocks and the bus of a
  cluster (\<open>cluster_env\<close>), the slots of a native plugin (\<open>ffi_slot\<close>, the \<open>*_vtable\<close> records), the dynamic linker and the
  layout check (\<open>load_env\<close>), the wire formats that cross the boundary (\<open>ffi_env\<close> and its extensions), the client of an OCI registry
  (\<open>oci_env\<close>), the files and helper programs of a Docker configuration (\<open>docker_env\<close>) the sink of log records
  (\<open>log_env\<close>), the codec of cache values (\<open>base64_codec\<close>), the WASM engine (\<open>wasm_env\<close>), its guests (the \<open>*_world\<close> records)
  and the pool of blocking threads (\<open>blocking\<close>). What a theorem needs of them is a named hypothesis: \<open>unforged\<close> and \<open>ser_faithful\<close> (a presented
  tag does not carry the keyed hash of an input that was never hashed; serialised identities differ and hold no NUL byte), \<open>streaming\<close> and \<open>lower_digests\<close> (hashing in buffers, digests in lower case),
  \<open>zip_faithful\<close> (reading back what was written), \<open>ref_parser_ok\<close>, \<open>cred_parser_ok\<close>, \<open>timeout_bounded\<close>,
  \<open>upstream_keeps_action\<close>, \<open>crypto_ok\<close> and \<open>crypto_binds\<close> (the cipher is correct and binds its key and associated data),
  \<open>random_apart\<close> (drawing a nonce leaves the store alone), \<open>ledger_ok\<close> and \<open>undisturbed\<close> (what making, dropping and reading
  do to the set of instances), \<open>serves\<close> (the slots of a coordinator read a request by the names of its fields and act on its stores), \<open>deny_denies\<close>, \<open>lens_ok\<close>,
  \<open>registry_faithful\<close> and \<open>config_codec\<close> (a registry returns what was pushed), \<open>honest\<close> (the pool delivers what a closure computed), \<open>same_when_confined\<close> (two guests that differ only
  outside of a limited store). Each has a concrete instance in a witness.

  \<^bold>\<open>What is shown.\<close> The decision of every chain in terms of the answers of its serving plugins, also under audit
  failures; that no allowed call goes unrecorded under \<open>fail_closed\<close>; that every registry the operations can build is
  well formed, its bindings served and its routes off the reserved paths; that administration follows the lifecycle
  table; that relayed identities, credentials, secrets and cached credentials never cross callers, plugins or
  tenants; when exactly an artifact and a revocation list are accepted; that extraction stays in its
  directory and packing is inverse to unpacking; termination and exactness of the walks; bounds of the cache;
  exactness of the in-flight counter in every interleaving. A pull stores only the layer its digest pins, and what was
  pushed is what is pulled; a login goes only to the host it was stored for; a burst of rotations is reported once, with its
  latest state; callbacks act under the alias of the plugin whatever it sends; the fan-outs reach exactly the serving
  sinks; audit text a client chose is bounded, and cannot override the host's own fields. For native plugins: code runs only after its bytes were
  verified twice; a plugin that hangs makes its chain refuse, and a sink without a receipt blocks the call it cannot
  record; the identity a backend gets is good for the call only; no constructor loses an instance; streams are
  ordered and bounded, and drop only when full; the store of a coordinator does on the plugin's store what it is asked, although calls get lost. For WASM
  plugins: a component is compiled from verified bytes, its guest runs in limited stores only, a gate whose guest fails refuses. Decorators
  are transparent and count every call once. Some theorems show where the code falls short: a drain
  can miss its wake-up or finish before a late caller, a refused archive is accepted on the next
  boot, a packaged signature is never read, a native store that fails looks empty, an instance can be freed under a call
  that timed out, a bracketed host that only starts like a loopback address is pulled over plain HTTP, a response stream without an end marker never ends, tickers of several WASM plugins on one engine cut the timeouts of all, a
  WASM identity provider that fails leaves the request anonymous, a leadership that was tried for is not audited.

  \<^bold>\<open>Fuel and bounds.\<close> Only the prober loops for ever; \<open>prober_cycles n\<close> is its first \<open>n\<close> rounds and its
  theorems hold for every \<open>n\<close>. All other loops are total functions with a termination proof, or runs of a step
  relation.

  \<^bold>\<open>Not modelled.\<close> The WASM engine itself is a parameter;
  \<open>lib.rs\<close> re-exports. Of \<open>native_loader.rs\<close>, the constructors that only pick the vtable of an entity, and the copies of
  vtables; of the prober and of the watcher, the spawning and stopping of their tasks; of the span sampler, the conversion of
  its rate from a float. Wall-clock time appears only as arguments and as the outcome of a timeout.
\<close>

section \<open>Administration and the gate chain\<close>

lemma disable_gate:
  assumes "disable i r = Inr r'" and "find_id i (tool_gate_chain r) = Some g"
  shows "\<exists>us vs. tool_gate_chain r = us @ g # vs
    \<and> r' = r\<lparr>tool_gate_chain := us @ g\<lparr>lp_state := plugin_state.Disabled\<rparr> # vs\<rparr>"
proof -
  from update_first_split [OF assms(2) [unfolded find_id_def], of "lp_state_update (\<lambda>_. plugin_state.Disabled)"]
  obtain us vs where "tool_gate_chain r = us @ g # vs"
    "set_first_list i plugin_state.Disabled (tool_gate_chain r) = us @ g\<lparr>lp_state := plugin_state.Disabled\<rparr> # vs"
    by (auto simp: set_first_list_def)
  moreover have "r' = store_state_cell i plugin_state.Disabled r"
    using assms(1) by (auto simp: disable_def split: option.splits if_splits)
  moreover have "store_state_cell i plugin_state.Disabled r
      = r\<lparr>tool_gate_chain := set_first_list i plugin_state.Disabled (tool_gate_chain r)\<rparr>"
    unfolding store_state_cell_def assms(2) by (simp only: if_True option.simps not_False_eq_True)
  ultimately have "tool_gate_chain r = us @ g # vs
      \<and> r' = r\<lparr>tool_gate_chain := us @ g\<lparr>lp_state := plugin_state.Disabled\<rparr> # vs\<rparr>" by (simp only: simp_thms)
  then show ?thesis by blast
qed

text \<open>
  C26. Disabling a gate takes it out of the request path: after \<open>disable\<close> succeeded for the id of a tool
  gate, both chains decide every call, and act on the world, exactly as the registry would without that
  gate.
\<close>

theorem disabled_gate_is_skipped:
  assumes "gate_allow env = Allow None None None" and "disable i r = Inr r'"
    and "find_id i (tool_gate_chain r) = Some g"
  shows "\<exists>us vs. tool_gate_chain r = us @ g # vs
    \<and> evaluate_tool_gates_pre_from env rt r' ctx arguments meta upstream client_ip w
      = evaluate_tool_gates_pre_from env rt (r\<lparr>tool_gate_chain := us @ vs\<rparr>) ctx arguments meta upstream client_ip w
    \<and> evaluate_tool_gates_post env rt r' ctx arguments res ms upstream w
      = evaluate_tool_gates_post env rt (r\<lparr>tool_gate_chain := us @ vs\<rparr>) ctx arguments res ms upstream w"
proof -
  from disable_gate [OF assms(2,3)] obtain us vs where chain: "tool_gate_chain r = us @ g # vs"
    and r': "r' = r\<lparr>tool_gate_chain := us @ g\<lparr>lp_state := plugin_state.Disabled\<rparr> # vs\<rparr>" by blast
  let ?without = "r\<lparr>tool_gate_chain := us @ vs\<rparr>"
  have "filter serving (us @ g\<lparr>lp_state := plugin_state.Disabled\<rparr> # vs) = filter serving (us @ vs)"
    by (simp add: serving_def)
  then have "r'\<lparr>tool_gate_chain := filter serving (tool_gate_chain r')\<rparr>
      = ?without\<lparr>tool_gate_chain := filter serving (tool_gate_chain ?without)\<rparr>"
    by (simp add: r')
  with live_gates_only [OF assms(1), of rt r' ctx arguments meta upstream client_ip w res ms]
    live_gates_only [OF assms(1), of rt ?without ctx arguments meta upstream client_ip w res ms] chain
  show ?thesis by metis
qed

section \<open>Packages and the signature check\<close>

lemma package_sig_path:
  "sig_path_for (join t (archive_entry k)) = join t (archive_entry k @ ''.sig'')"
  "archive_entry k @ ''.sig'' \<notin> package_names"
proof -
  have "sig_path_for [''plugin.so''] = [''plugin.so.sig'']" "sig_path_for [''plugin.wasm''] = [''plugin.wasm.sig'']"
    by code_simp+
  moreover have "sig_path_for (t @ [n]) = t @ sig_path_for [n]" for n
    by (cases t) (simp_all add: sig_path_for_def with_extension_def Let_def)
  ultimately show "sig_path_for (join t (archive_entry k)) = join t (archive_entry k @ ''.sig'')"
    by (cases k) (simp_all add: join_def entry_names)
  show "archive_entry k @ ''.sig'' \<notin> package_names"
    by (cases k) (simp_all add: package_names_def entry_names)
qed

text \<open>
  C39. The signature inside a package is not the one the artifact check reads: a package that was extracted
  into a directory without stray signature files never passes the check under \<open>enforce\<close>, not even when it
  contains a \<open>plugin.sig\<close> made by a trusted key. The check looks for \<open>plugin.so.sig\<close> or
  \<open>plugin.wasm.sig\<close>, which extraction never writes.
\<close>

theorem packaged_signature_is_not_checked:
  assumes "unpack_to env z archive target fs = (Inr u, fs')"
    and "fs_nodes fs (join target ''plugin.so.sig'') = None" "fs_nodes fs (join target ''plugin.wasm.sig'') = None"
    and "vo_policy opts = Enforce"
  shows "\<not> is_ok (verify_native_artifact hs ed fs' (up_artifact_path u) opts)"
proof
  assume "is_ok (verify_native_artifact hs ed fs' (up_artifact_path u) opts)"
  then obtain r where ok: "verify_native_artifact hs ed fs' (up_artifact_path u) opts = Inr r"
    by (cases "verify_native_artifact hs ed fs' (up_artifact_path u) opts") auto
  from assms(1) obtain fs1 es seen d where c: "create_dir_all target fs = (True, fs1)"
    and e: "unpack_entries archive target es [] fs1 = (Inr seen, fs')" and u: "u = described env target seen d"
    by (auto simp: unpack_to_ok)
  obtain k where k: "up_artifact_path u = join target (archive_entry k)" by (simp add: u described_def Let_def)
  let ?sp = "join target (archive_entry k @ ''.sig'')"
  have "fs_nodes fs ?sp = None" using assms(2,3) by (cases k) (simp_all add: entry_names)
  then have "fs_nodes fs1 ?sp = None" using create_dir_all_frame(3) [OF c, of ?sp] by (auto simp: join_def)
  moreover have "?sp \<notin> join target ` package_names" using package_sig_path(2) [of k] by auto
  ultimately have "fs_nodes fs' ?sp = None" using unpack_entries_frame [OF e, of ?sp] by simp
  with accepted_is_vouched [OF ok assms(4)] show False unfolding k package_sig_path(1) by (simp add: fs_read_def)
qed

section \<open>Witnesses\<close>

theorem disabled_gate_is_skipped_witness:
  "\<exists>r'. disable ''g1'' sample_gates = Inr r'
    \<and> (\<exists>us vs. tool_gate_chain sample_gates = us @ tool_gate_chain sample_gates ! 1 # vs
      \<and> evaluate_tool_gates_pre_from sample_env sample_runtime r' sample_context JNull None None None []
        = evaluate_tool_gates_pre_from sample_env sample_runtime (sample_gates\<lparr>tool_gate_chain := us @ vs\<rparr>)
            sample_context JNull None None None [])"
proof -
  have g: "find_id ''g1'' (tool_gate_chain sample_gates) = Some (tool_gate_chain sample_gates ! 1)"
    by (simp add: sample_gates_def sample_gate_chain_def find_id_def has_id_def new_chain_entry_def sample_gate_def sample_manifest_def)
  moreover obtain r' where d: "disable ''g1'' sample_gates = Inr r'"
    using g by (simp add: disable_def find_state_cell_def sample_gates_def sample_gate_chain_def new_chain_entry_def)
  moreover have a: "gate_allow sample_env = Allow None None None" by (simp add: sample_env_def)
  moreover note disabled_gate_is_skipped [OF a d g, of sample_runtime sample_context JNull None None None "[]" JNull 0]
  ultimately show ?thesis by blast
qed

theorem packaged_signature_is_not_checked_witness:
  "\<not> is_ok (verify_native_artifact sample_hasher sample_ed25519 (unpacked_fs [''t'']) [''t'', ''plugin.so''] sample_options)"
proof -
  have "up_artifact_path (described sample_descriptor_env [''t''] [''plugin.yaml'', ''plugin.so''] sample_descriptor) = [''t'', ''plugin.so'']"
    by (simp add: described_def entry_names join_def Let_def)
  with packaged_signature_is_not_checked [OF sample_unpack, of sample_options sample_hasher sample_ed25519]
  show ?thesis by (simp add: sample_package_simps sample_options_def)
qed

end
